(* ===== verification/Go_Prelude.thy ===== *)
theory Go_Prelude
  imports Main "HOL-Library.AList" "HOL-Library.Char_ord" "HOL-Library.List_Lexorder"
    "HOL-Library.Product_Lexorder" "HOL-Library.Multiset"
begin

text \<open>
  What the components of the development use of Go and of its standard library.

  \<^item> A Go string is a byte sequence, here \<^typ>\<open>string\<close> (a \<^typ>\<open>char\<close> is a byte); the order on
    strings is the lexicographic byte order, as Go's \<open><\<close>.
  \<^item> \<open>time.Time\<close> is the number of nanoseconds since Go's zero time, so \<open>IsZero\<close> is \<open>t = 0\<close>;
    \<open>UTC()\<close> does not change the instant. \<open>time.Duration\<close> is a number of nanoseconds in the
    range of \<open>int64\<close>; arithmetic that can leave the range is wrapped by \<open>wrap64\<close>.
  \<^item> A Go map is an association list with distinct keys: the list order stands for the
    unspecified iteration order, and the lemmas on sorting show where it does not matter.
    A nil map and an empty map are both \<open>[]\<close>.
  \<^item> \<open>strings.TrimSpace\<close> is exact on bytes: it removes the UTF-8 encodings of the runes of
    \<open>unicode.IsSpace\<close> at both ends. \<open>strings.ToLower\<close> maps the ASCII letters and the two
    non-ASCII runes whose lower case is ASCII (U+0130, U+212A) and keeps every other byte, so
    that every comparison of its result with an ASCII constant is the comparison Go makes.
  \<^item> \<open>error\<close> values are one datatype: the sentinels of the packages, an error wrapped by
    \<open>fmt.Errorf\<close> with \<open>%w\<close>, and opaque errors of other code. \<open>errors.Is\<close> follows the wrapping.
\<close>

named_theorems go_simps \<open>rewriting rules of the Go library model\<close>
named_theorems clone_simps \<open>deep copies are identities on values\<close>

type_synonym gotime = int
type_synonym duration = int
type_synonym json = string
type_synonym ('k, 'v) gomap = "('k \<times> 'v) list"

section \<open>Machine integers, time and duration\<close>

definition wrap64 :: "int \<Rightarrow> int" where
  "wrap64 x = (x + 2 ^ 63) mod 2 ^ 64 - 2 ^ 63"

definition int64 :: "int \<Rightarrow> bool" where
  "int64 x \<longleftrightarrow> - (2 ^ 63) \<le> x \<and> x < 2 ^ 63"

definition tquot :: "int \<Rightarrow> int \<Rightarrow> int" where
  "tquot a b = sgn a * sgn b * (\<bar>a\<bar> div \<bar>b\<bar>)"

definition Second :: duration where "Second = 1000000000"
definition Millisecond :: duration where "Millisecond = 1000000"

definition IsZero :: "gotime \<Rightarrow> bool" where
  "IsZero t \<longleftrightarrow> t = 0"

definition After :: "gotime \<Rightarrow> gotime \<Rightarrow> bool" where
  "After t u \<longleftrightarrow> u < t"

text \<open>\<open>int(d.Seconds())\<close>: whole seconds, truncated towards zero.\<close>

definition secs :: "duration \<Rightarrow> int" where
  "secs d = tquot d Second"

lemma wrap64_range [simp]: "int64 (wrap64 x)"
proof -
  have "0 \<le> (x + 2 ^ 63) mod 2 ^ 64" "(x + 2 ^ 63) mod 2 ^ 64 < 2 ^ 64"
    by (rule pos_mod_sign, simp) (rule pos_mod_bound, simp)
  then show ?thesis by (simp add: int64_def wrap64_def)
qed

lemma wrap64_id [go_simps]: "int64 x \<Longrightarrow> wrap64 x = x"
  unfolding int64_def wrap64_def by (subst mod_pos_pos_trivial) auto

section \<open>Strings\<close>

text \<open>The UTF-8 encodings of the runes of \<open>unicode.IsSpace\<close>.\<close>

definition space_runes :: "string list" where
  "space_runes =
     [[CHR 0x09], [CHR 0x0A], [CHR 0x0B], [CHR 0x0C], [CHR 0x0D], [CHR 0x20],
      [CHR 0xC2, CHR 0x85], [CHR 0xC2, CHR 0xA0], [CHR 0xE1, CHR 0x9A, CHR 0x80],
      [CHR 0xE2, CHR 0x80, CHR 0x80], [CHR 0xE2, CHR 0x80, CHR 0x81],
      [CHR 0xE2, CHR 0x80, CHR 0x82], [CHR 0xE2, CHR 0x80, CHR 0x83],
      [CHR 0xE2, CHR 0x80, CHR 0x84], [CHR 0xE2, CHR 0x80, CHR 0x85],
      [CHR 0xE2, CHR 0x80, CHR 0x86], [CHR 0xE2, CHR 0x80, CHR 0x87],
      [CHR 0xE2, CHR 0x80, CHR 0x88], [CHR 0xE2, CHR 0x80, CHR 0x89],
      [CHR 0xE2, CHR 0x80, CHR 0x8A], [CHR 0xE2, CHR 0x80, CHR 0xA8],
      [CHR 0xE2, CHR 0x80, CHR 0xA9], [CHR 0xE2, CHR 0x80, CHR 0xAF],
      [CHR 0xE2, CHR 0x81, CHR 0x9F], [CHR 0xE3, CHR 0x80, CHR 0x80]]"

fun strip_one :: "string list \<Rightarrow> string \<Rightarrow> string option" where
  "strip_one [] s = None"
| "strip_one (e # es) s =
     (if e \<noteq> [] \<and> take (length e) s = e then Some (drop (length e) s) else strip_one es s)"

lemma strip_one_suffix: "strip_one es s = Some s' \<Longrightarrow> \<exists>e. e \<noteq> [] \<and> e \<in> set es \<and> s = e @ s'"
proof (induction es)
  case Nil
  then show ?case by simp
next
  case (Cons e es)
  show ?case
  proof (cases "e \<noteq> [] \<and> take (length e) s = e")
    case True
    then have "s = e @ s'" using Cons.prems by simp (metis append_take_drop_id)
    with True show ?thesis by auto
  next
    case False
    with Cons show ?thesis by auto
  qed
qed

lemma strip_one_None: "strip_one es s = None \<longleftrightarrow> (\<forall>e \<in> set es. e = [] \<or> take (length e) s \<noteq> e)"
  by (induction es) auto

lemma strip_one_shorter: "strip_one es s = Some s' \<Longrightarrow> length s' < length s"
  by (auto dest!: strip_one_suffix)

function strip_all :: "string list \<Rightarrow> string \<Rightarrow> string" where
  "strip_all es s = (case strip_one es s of None \<Rightarrow> s | Some s' \<Rightarrow> strip_all es s')"
  by pat_completeness auto
termination
  by (relation "measure (\<lambda>(es, s). length s)") (auto dest: strip_one_shorter)

declare strip_all.simps [simp del]

definition TrimSpace :: "string \<Rightarrow> string" where
  "TrimSpace s = rev (strip_all (map rev space_runes) (rev (strip_all space_runes s)))"

abbreviation blank :: "string \<Rightarrow> bool" where
  "blank s \<equiv> TrimSpace s = []"

definition lower_byte :: "char \<Rightarrow> char" where
  "lower_byte c =
     (if 65 \<le> (of_char c :: nat) \<and> (of_char c :: nat) \<le> 90 then char_of ((of_char c :: nat) + 32) else c)"

fun ToLower :: "string \<Rightarrow> string" where
  "ToLower [] = []"
| "ToLower (a # s) =
     (case s of
        b # s' \<Rightarrow>
          if a = CHR 0xC4 \<and> b = CHR 0xB0 then CHR ''i'' # ToLower s'
          else (case s' of
                  c # s'' \<Rightarrow>
                    if a = CHR 0xE2 \<and> b = CHR 0x84 \<and> c = CHR 0xAA then CHR ''k'' # ToLower s''
                    else lower_byte a # ToLower s
                | [] \<Rightarrow> lower_byte a # ToLower s)
      | [] \<Rightarrow> [lower_byte a])"

text \<open>\<open>normalizedStrings\<close> and \<open>firstNonEmpty\<close> occur in several packages with the same body.\<close>

fun normalizedStrings :: "string list \<Rightarrow> string list" where
  "normalizedStrings [] = []"
| "normalizedStrings (v # vs) =
     (if TrimSpace v \<noteq> [] then TrimSpace v # normalizedStrings vs else normalizedStrings vs)"

fun firstNonEmpty :: "string list \<Rightarrow> string" where
  "firstNonEmpty [] = []"
| "firstNonEmpty (v # vs) = (if TrimSpace v \<noteq> [] then TrimSpace v else firstNonEmpty vs)"

fun join :: "string \<Rightarrow> string list \<Rightarrow> string" where
  "join sep [] = []"
| "join sep [s] = s"
| "join sep (s # t # ss) = s @ sep @ join sep (t # ss)"

lemma strip_all_suffix: "\<exists>p. s = p @ strip_all es s"
proof (induction es s rule: strip_all.induct)
  case (1 es s)
  show ?case
  proof (cases "strip_one es s")
    case None
    then show ?thesis by (simp add: strip_all.simps [of es s])
  next
    case (Some s')
    then obtain p where "s' = p @ strip_all es s'" using 1 by blast
    moreover obtain e where "s = e @ s'" using strip_one_suffix [OF Some] by blast
    ultimately show ?thesis using Some
      by (metis (no_types, lifting) append.assoc option.simps(5) strip_all.simps)
  qed
qed

lemma strip_all_fixed [simp]: "strip_one es (strip_all es s) = None"
proof (induction es s rule: strip_all.induct)
  case (1 es s)
  then show ?case by (cases "strip_one es s") (auto simp: strip_all.simps [of es s])
qed

lemma strip_all_id: "strip_one es s = None \<Longrightarrow> strip_all es s = s"
  by (simp add: strip_all.simps)

lemma strip_all_prefix_fixed: "strip_one es (s @ t) = None \<Longrightarrow> strip_one es s = None"
  by (fastforce simp: strip_one_None min_def dest: arg_cong [of _ _ length] split: if_splits)

text \<open>Trimming twice is trimming once: what is left has no white space at either end.\<close>

lemma TrimSpace_idem [simp]: "TrimSpace (TrimSpace s) = TrimSpace s"
proof -
  define l where "l = strip_all space_runes s"
  define r where "r = strip_all (map rev space_runes) (rev l)"
  obtain p where "rev l = p @ r" unfolding r_def using strip_all_suffix by blast
  then have "l = rev r @ rev p" by (metis rev_append rev_rev_ident)
  moreover have "strip_one space_runes l = None" by (simp add: l_def)
  ultimately have "strip_one space_runes (rev r) = None"
    using strip_all_prefix_fixed by metis
  moreover have "strip_one (map rev space_runes) r = None" by (simp add: r_def)
  ultimately show ?thesis
    by (simp add: TrimSpace_def l_def [symmetric] r_def [symmetric] strip_all_id)
qed

lemma set_strip_all: "set (strip_all es s) \<subseteq> set s"
proof -
  obtain p where "s = p @ strip_all es s" using strip_all_suffix by blast
  then show ?thesis by (metis Un_upper2 set_append)
qed

lemma set_TrimSpace: "set (TrimSpace s) \<subseteq> set s"
  unfolding TrimSpace_def using set_strip_all set_rev by (metis subset_trans)

lemma TrimSpace_Nil [simp]: "TrimSpace [] = []"
  using set_TrimSpace [of "[]"] by simp

lemma blank_TrimSpace: "TrimSpace s \<noteq> [] \<Longrightarrow> s \<noteq> []"
  by auto

lemma normalizedStrings_idem [simp]: "normalizedStrings (normalizedStrings vs) = normalizedStrings vs"
  by (induction vs) auto

lemma normalizedStrings_eq: "normalizedStrings vs = filter (\<lambda>v. v \<noteq> []) (map TrimSpace vs)"
  by (induction vs) auto

lemma set_normalizedStrings: "set (normalizedStrings vs) = TrimSpace ` set vs - {[]}"
  by (auto simp: normalizedStrings_eq)

lemma firstNonEmpty_trimmed [simp]: "TrimSpace (firstNonEmpty vs) = firstNonEmpty vs"
  by (induction vs) auto

section \<open>Decimal numbers\<close>

text \<open>\<open>strconv.FormatUint\<close> in base 10.\<close>

fun FormatUint :: "nat \<Rightarrow> string" where
  "FormatUint n = (if n < 10 then [char_of (48 + n)] else FormatUint (n div 10) @ [char_of (48 + n mod 10)])"

declare FormatUint.simps [simp del]

lemma FormatUint_small: "n < 10 \<Longrightarrow> FormatUint n = [char_of (48 + n)]"
  by (subst FormatUint.simps) simp

lemma FormatUint_snoc: "\<not> n < 10 \<Longrightarrow> FormatUint n = FormatUint (n div 10) @ [char_of (48 + n mod 10)]"
  by (subst FormatUint.simps) simp

lemma FormatUint_not_Nil [simp]: "FormatUint n \<noteq> []"
  by (cases "n < 10") (simp_all add: FormatUint_small FormatUint_snoc)

lemma digit_inj: "a < 10 \<Longrightarrow> b < 10 \<Longrightarrow> char_of (48 + a) = (char_of (48 + b) :: char) \<longleftrightarrow> a = (b :: nat)"
  by (auto simp: char_of_eq_iff take_bit_eq_mod)

lemma FormatUint_inj: "FormatUint m = FormatUint n \<Longrightarrow> m = n"
proof (induction m arbitrary: n rule: less_induct)
  case (less m)
  consider "m < 10" "n < 10" | "m < 10" "\<not> n < 10" | "\<not> m < 10" "n < 10" | "\<not> m < 10" "\<not> n < 10" by blast
  then show ?case
  proof cases
    case 4
    then have "m div 10 = n div 10" "m mod 10 = n mod 10"
      using less.prems less.IH [of "m div 10" "n div 10"] by (simp_all add: FormatUint_snoc digit_inj)
    then show ?thesis by (metis div_mult_mod_eq)
  qed (use less.prems in \<open>simp_all add: FormatUint_small FormatUint_snoc digit_inj FormatUint_not_Nil [symmetric]\<close>)
qed

section \<open>Maps and sorting\<close>

definition mget :: "('k, 'v) gomap \<Rightarrow> 'k \<Rightarrow> 'v option" where
  "mget m k = map_of m k"

definition mput :: "('k, 'v) gomap \<Rightarrow> 'k \<Rightarrow> 'v \<Rightarrow> ('k, 'v) gomap" where
  "mput m k v = AList.update k v m"

definition mdel :: "('k, 'v) gomap \<Rightarrow> 'k \<Rightarrow> ('k, 'v) gomap" where
  "mdel m k = AList.delete k m"

definition wf_map :: "('k, 'v) gomap \<Rightarrow> bool" where
  "wf_map m \<longleftrightarrow> distinct (map fst m)"

lemma mget_Nil [simp]: "mget [] k = None"
  by (simp add: mget_def)

lemma mget_mput [simp]: "mget (mput m k v) k' = (if k' = k then Some v else mget m k')"
  by (auto simp: mget_def mput_def update_conv')

lemma mget_mdel [simp]: "mget (mdel m k) k' = (if k' = k then None else mget m k')"
  by (auto simp: mget_def mdel_def delete_conv')

lemma wf_map_Nil [simp]: "wf_map []"
  by (simp add: wf_map_def)

lemma wf_map_mput [simp]: "wf_map m \<Longrightarrow> wf_map (mput m k v)"
  by (simp add: wf_map_def mput_def distinct_update)

lemma wf_map_mdel [simp]: "wf_map m \<Longrightarrow> wf_map (mdel m k)"
  by (simp add: wf_map_def mdel_def distinct_delete)

lemma mget_in_set: "wf_map m \<Longrightarrow> (k, v) \<in> set m \<longleftrightarrow> mget m k = Some v"
  by (auto simp: wf_map_def mget_def)

lemma mget_SomeD: "mget m k = Some v \<Longrightarrow> (k, v) \<in> set m"
  by (auto simp: mget_def dest: map_of_SomeD)

lemma values_mget: "wf_map m \<Longrightarrow> set (map snd m) = {v. \<exists>k. mget m k = Some v}"
proof -
  assume "wf_map m"
  then have "v \<in> set (map snd m) \<longleftrightarrow> (\<exists>k. mget m k = Some v)" for v
    by (force simp: mget_in_set [symmetric])
  then show ?thesis by blast
qed

text \<open>
  Sorting the values of a map by a key that tells them apart gives one list, whatever the
  iteration order was: two maps with the same entries give the same sorted list.
\<close>

lemma sort_key_unique:
  fixes f :: "'a \<Rightarrow> 'b::linorder"
  assumes "mset xs = mset ys" and "inj_on f (set xs)"
  shows "sort_key f xs = sort_key f ys"
proof (rule properties_for_sort_key)
  show "mset (sort_key f ys) = mset xs" using assms(1) by simp
  show "sorted (map f (sort_key f ys))" by simp
  fix k assume "k \<in> set (sort_key f ys)"
  then have "k \<in> set xs" using assms(1) by (metis mset_eq_setD set_sort)
  have "filter (\<lambda>x. f k = f x) zs = filter (\<lambda>x. x = k) zs" if "set zs = set xs" for zs
    using that \<open>k \<in> set xs\<close> assms(2) by (intro filter_cong) (auto dest: inj_onD)
  moreover have "filter (\<lambda>x. x = k) zs = replicate (count (mset zs) k) k" for zs
    by (induction zs) auto
  ultimately show "filter (\<lambda>x. f k = f x) (sort_key f ys) = filter (\<lambda>x. f k = f x) xs"
    using assms(1) by (metis mset_eq_setD mset_sort)
qed

lemma mset_filter_values:
  assumes "wf_map m" "wf_map m'" "\<And>k. mget m k = mget m' k"
  shows "mset (filter P (map snd m)) = mset (filter P (map snd m'))"
proof -
  have "set m = set m'" using assms mget_in_set by (metis subrelI subset_antisym)
  moreover have "distinct m" "distinct m'"
    using assms(1,2) by (auto simp: wf_map_def distinct_map)
  ultimately have "mset m = mset m'" by (simp add: set_eq_iff_mset_eq_distinct)
  then show ?thesis by (metis mset_filter mset_map)
qed

section \<open>Channels\<close>

text \<open>
  A buffered channel: its queued values, its capacity and whether it is closed. \<open>trySend\<close> is the
  send of a \<open>select\<close> with a \<open>default\<close> branch on an open channel: a full buffer drops the value.
\<close>

record 'a chan =
  cbuf :: "'a list"
  ccap :: nat
  cclosed :: bool

definition trySend :: "'a \<Rightarrow> 'a chan \<Rightarrow> 'a chan" where
  "trySend v c = (if length (cbuf c) < ccap c then c\<lparr>cbuf := cbuf c @ [v]\<rparr> else c)"

lemma trySend_frame [simp]: "ccap (trySend v c) = ccap c" "cclosed (trySend v c) = cclosed c"
  by (simp_all add: trySend_def)

lemma trySend_bounded: "length (cbuf c) \<le> ccap c \<Longrightarrow> length (cbuf (trySend v c)) \<le> ccap c"
  by (simp add: trySend_def)

section \<open>Errors\<close>

text \<open>
  The sentinels of \<open>pkg/plugin/registry\<close>, \<open>pkg/plugin/router\<close>, \<open>pkg/plugin\<close>,
  \<open>pkg/plugin/security\<close>, \<open>io\<close> and \<open>pkg/plugin/transport/ws\<close>; \<open>Wrapped e m\<close> is \<open>fmt.Errorf("%w: ...", e)\<close> with the rest of the
  text \<open>m\<close>; \<open>ErrOther m\<close> is an error of code outside the model (a remote peer, a provider).
\<close>

datatype goerror =
    registry_ErrNotFound | registry_ErrInvalid
  | router_ErrNoRoute | router_ErrPluginOffline | router_ErrTransportUnavailable
  | router_ErrInvalidRequest
  | ErrDisabled | ErrPluginNotFound | ErrPluginOffline | ErrCapabilityNotFound
  | ErrProviderUnavailable | ErrTransportUnavailable | ErrInvalidPlugin | ErrInvalidCapability
  | ErrUnsupportedProtocol | ErrUnauthorized | ErrUnsupportedAuth
  | security_ErrUnauthorized | security_ErrUnsupportedAuth
  | io_EOF | io_ErrUnexpectedEOF | ErrInvalidWebSocketHandshake
  | Wrapped goerror string
  | ErrOther string

fun errors_Is :: "goerror \<Rightarrow> goerror \<Rightarrow> bool" where
  "errors_Is (Wrapped e m) t \<longleftrightarrow> Wrapped e m = t \<or> errors_Is e t"
| "errors_Is e t \<longleftrightarrow> e = t"

fun Error_text :: "goerror \<Rightarrow> string" where
  "Error_text registry_ErrNotFound = ''plugin registry instance not found''"
| "Error_text registry_ErrInvalid = ''invalid plugin registry record''"
| "Error_text router_ErrNoRoute = ''plugin route not found''"
| "Error_text router_ErrPluginOffline = ''plugin route offline''"
| "Error_text router_ErrTransportUnavailable = ''plugin route transport unavailable''"
| "Error_text router_ErrInvalidRequest = ''invalid plugin route request''"
| "Error_text ErrDisabled = ''plugin host disabled''"
| "Error_text ErrPluginNotFound = ''plugin not found''"
| "Error_text ErrPluginOffline = ''plugin offline''"
| "Error_text ErrCapabilityNotFound = ''plugin capability not found''"
| "Error_text ErrProviderUnavailable = ''plugin provider unavailable''"
| "Error_text ErrTransportUnavailable = ''plugin transport unavailable''"
| "Error_text ErrInvalidPlugin = ''invalid plugin metadata''"
| "Error_text ErrInvalidCapability = ''invalid plugin capability''"
| "Error_text ErrUnsupportedProtocol = ''unsupported plugin protocol''"
| "Error_text ErrUnauthorized = ''plugin request unauthorized''"
| "Error_text ErrUnsupportedAuth = ''unsupported plugin authentication''"
| "Error_text security_ErrUnauthorized = ''plugin request unauthorized''"
| "Error_text security_ErrUnsupportedAuth = ''unsupported plugin authentication''"
| "Error_text io_EOF = ''EOF''"
| "Error_text io_ErrUnexpectedEOF = ''unexpected EOF''"
| "Error_text ErrInvalidWebSocketHandshake = ''invalid websocket handshake''"
| "Error_text (Wrapped e m) = Error_text e @ '': '' @ m"
| "Error_text (ErrOther m) = m"

type_synonym 'a result = "goerror + 'a"

fun err_of :: "'a result \<Rightarrow> goerror option" where
  "err_of (Inl e) = Some e"
| "err_of (Inr v) = None"

lemma err_of_None [simp]: "err_of r = None \<longleftrightarrow> (\<exists>v. r = Inr v)"
  by (cases r) auto

lemma err_of_Some [simp]: "err_of r = Some e \<longleftrightarrow> r = Inl e"
  by (cases r) auto

end
