(* ===== verification/Plugin_Protocol.thy ===== *)
theory Plugin_Protocol
  imports Go_Prelude
begin

text \<open>
  The wire types of the plugin protocol, \<open>pkg/plugin/protocol/types.go\<close>: constants, requests,
  responses and the transport helpers. A Go struct that embeds another one is a record that
  extends it, so a promoted field is the inherited selector; a field name that several structs
  use carries a prefix. JSON values (\<open>json.RawMessage\<close>) are byte strings. The lemmas show that
  \<open>NormalizeTransport\<close> is a projection onto canonical names and that \<open>EffectiveTransport\<close> only
  ever names a built-in transport.
\<close>

section \<open>Constants\<close>

abbreviation OperationRegister :: string where "OperationRegister \<equiv> ''register''"
abbreviation OperationHeartbeat :: string where "OperationHeartbeat \<equiv> ''heartbeat''"
abbreviation OperationRenewLease :: string where "OperationRenewLease \<equiv> ''renew_lease''"
abbreviation OperationUnregister :: string where "OperationUnregister \<equiv> ''unregister''"
abbreviation OperationHealthCheck :: string where "OperationHealthCheck \<equiv> ''health_check''"
abbreviation OperationListCapabilities :: string where "OperationListCapabilities \<equiv> ''list_capabilities''"
abbreviation OperationInvoke :: string where "OperationInvoke \<equiv> ''invoke''"
abbreviation OperationPushEvent :: string where "OperationPushEvent \<equiv> ''push_event''"
abbreviation OperationSubscribeEvent :: string where "OperationSubscribeEvent \<equiv> ''subscribe_event''"
abbreviation OperationInjectContext :: string where "OperationInjectContext \<equiv> ''inject_context''"
abbreviation OperationGetInjectedSchema :: string where "OperationGetInjectedSchema \<equiv> ''get_injected_schema''"
abbreviation OperationNegotiateProtocol :: string where "OperationNegotiateProtocol \<equiv> ''negotiate_protocol''"
abbreviation OperationReportStatus :: string where "OperationReportStatus \<equiv> ''report_status''"
abbreviation OperationSyncMetadata :: string where "OperationSyncMetadata \<equiv> ''sync_metadata''"
abbreviation OperationDrain :: string where "OperationDrain \<equiv> ''drain''"

abbreviation TransportHTTP :: string where "TransportHTTP \<equiv> ''http''"
abbreviation TransportWebSocket :: string where "TransportWebSocket \<equiv> ''websocket''"
abbreviation TransportRPC :: string where "TransportRPC \<equiv> ''rpc''"

abbreviation PluginProtocolJSON :: string where "PluginProtocolJSON \<equiv> ''aoi-plugin-json''"
abbreviation ProtocolVersionV1 :: string where "ProtocolVersionV1 \<equiv> ''v1''"

abbreviation StatusOnline :: string where "StatusOnline \<equiv> ''online''"
abbreviation StatusOffline :: string where "StatusOffline \<equiv> ''offline''"
abbreviation StatusDraining :: string where "StatusDraining \<equiv> ''draining''"

abbreviation RuntimeStatusReady :: string where "RuntimeStatusReady \<equiv> ''ready''"
abbreviation RuntimeStatusBusy :: string where "RuntimeStatusBusy \<equiv> ''busy''"
abbreviation RuntimeStatusDegraded :: string where "RuntimeStatusDegraded \<equiv> ''degraded''"
abbreviation RuntimeStatusDraining :: string where "RuntimeStatusDraining \<equiv> ''draining''"

abbreviation HealthStatusOK :: string where "HealthStatusOK \<equiv> ''ok''"
abbreviation HealthStatusUnknown :: string where "HealthStatusUnknown \<equiv> ''unknown''"

abbreviation CapabilityScopePlugin :: string where "CapabilityScopePlugin \<equiv> ''plugin''"
abbreviation SecretPolicyNone :: string where "SecretPolicyNone \<equiv> ''none''"

abbreviation ErrorCodeDisabled :: string where "ErrorCodeDisabled \<equiv> ''plugin_host_disabled''"
abbreviation ErrorCodeInvalidPlugin :: string where "ErrorCodeInvalidPlugin \<equiv> ''invalid_plugin''"
abbreviation ErrorCodeInvalidCapability :: string where "ErrorCodeInvalidCapability \<equiv> ''invalid_capability''"
abbreviation ErrorCodePluginNotFound :: string where "ErrorCodePluginNotFound \<equiv> ''plugin_not_found''"
abbreviation ErrorCodePluginOffline :: string where "ErrorCodePluginOffline \<equiv> ''plugin_offline''"
abbreviation ErrorCodeCapabilityNotFound :: string where "ErrorCodeCapabilityNotFound \<equiv> ''capability_not_found''"
abbreviation ErrorCodeProviderUnavailable :: string where "ErrorCodeProviderUnavailable \<equiv> ''provider_unavailable''"
abbreviation ErrorCodeTransportUnavailable :: string where "ErrorCodeTransportUnavailable \<equiv> ''transport_unavailable''"
abbreviation ErrorCodeUnsupportedProtocol :: string where "ErrorCodeUnsupportedProtocol \<equiv> ''unsupported_protocol''"
abbreviation ErrorCodeUnauthorized :: string where "ErrorCodeUnauthorized \<equiv> ''unauthorized''"
abbreviation ErrorCodeUnsupportedAuth :: string where "ErrorCodeUnsupportedAuth \<equiv> ''unsupported_auth''"
abbreviation ErrorCodeInternal :: string where "ErrorCodeInternal \<equiv> ''internal_error''"

section \<open>Structs\<close>

record ProtoError =
  pe_Code :: string
  pe_Message :: string

record Envelope =
  env_ID :: string
  env_Type :: string
  env_Operation :: string
  env_Version :: string
  env_Payload :: json
  env_Error :: "ProtoError option"

record Auth =
  auth_Mode :: string
  auth_Token :: string
  auth_Signature :: string
  auth_KeyID :: string
  auth_Timestamp :: string
  auth_Nonce :: string

record RequestMeta =
  RequestID :: string
  TraceID :: string
  rm_Timestamp :: string
  IdempotencyKey :: string
  rm_Metadata :: "(string, string) gomap"
  rm_Auth :: "Auth option"

record Capability =
  cap_Name :: string
  cap_Version :: string
  cap_Scope :: string
  cap_Permissions :: "string list"
  cap_InputSchema :: json
  cap_OutputSchema :: json
  cap_SecretPolicy :: string
  cap_Description :: string

record PluginMetadata =
  PluginID :: string
  InstanceID :: string
  pm_Name :: string
  pm_Version :: string
  Protocol :: string
  Transport :: string
  Endpoint :: string
  Capabilities :: "Capability list"
  Permissions :: "string list"
  Hooks :: "string list"
  SchemaVersion :: string
  Metadata :: "(string, string) gomap"

record PluginSnapshot = PluginMetadata +
  Status :: string
  RuntimeStatus :: string
  OwnerHost :: string
  LeaseTTLSeconds :: int
  LeaseExpiresAt :: gotime
  RegisteredAt :: gotime
  LastHeartbeatAt :: gotime
  CreatedAt :: gotime
  UpdatedAt :: gotime

record RegisterRequest = RequestMeta +
  reg_Plugin :: PluginMetadata

record RegisterResponse =
  regr_Plugin :: PluginSnapshot

record HeartbeatRequest = RequestMeta +
  hb_PluginID :: string
  hb_InstanceID :: string

record HeartbeatResponse =
  hbr_Plugin :: PluginSnapshot

record RenewLeaseRequest = RequestMeta +
  rl_PluginID :: string
  rl_InstanceID :: string
  rl_LeaseTTLSeconds :: int

record RenewLeaseResponse =
  rlr_Plugin :: PluginSnapshot

record UnregisterRequest = RequestMeta +
  un_PluginID :: string
  un_InstanceID :: string

record UnregisterResponse =
  unr_PluginID :: string
  unr_InstanceID :: string
  unr_Status :: string

record HealthCheckRequest = RequestMeta +
  hc_PluginID :: string
  hc_InstanceID :: string

record HealthStatus =
  hs_PluginID :: string
  hs_InstanceID :: string
  hs_Status :: string
  hs_RuntimeStatus :: string
  hs_LastHeartbeatAt :: gotime
  hs_LeaseExpiresAt :: gotime
  hs_Error :: string

record ListCapabilitiesRequest = RequestMeta +
  lc_PluginID :: string
  lc_InstanceID :: string

record ListCapabilitiesResponse =
  lcr_Capabilities :: "Capability list"

record InvokeRequest = RequestMeta +
  inv_PluginID :: string
  inv_InstanceID :: string
  inv_Capability :: string
  inv_TimeoutMillis :: int
  inv_PermissionContext :: "(string, string) gomap"
  inv_Payload :: json

record InvokeResponse =
  invr_Capability :: string
  invr_Result :: json

record PushEventRequest = RequestMeta +
  pu_PluginID :: string
  pu_InstanceID :: string
  pu_Event :: string
  pu_PermissionContext :: "(string, string) gomap"
  pu_Payload :: json

record PushEventResponse =
  pur_Accepted :: bool
  pur_Event :: string
  pur_Delivered :: int

record SubscribeEventRequest = RequestMeta +
  se_PluginID :: string
  se_InstanceID :: string
  se_Events :: "string list"
  se_Filters :: "(string, string) gomap"

record SubscribeEventResponse =
  ser_PluginID :: string
  ser_InstanceID :: string
  ser_Events :: "string list"
  ser_Accepted :: bool

record AuditInfo =
  GeneratedAt :: gotime
  au_Source :: string

record InjectContextRequest = RequestMeta +
  ic_PluginID :: string
  ic_InstanceID :: string
  ic_Capabilities :: "string list"
  ic_SchemaVersion :: string

record InjectContextResponse =
  icr_SchemaVersion :: string
  icr_Context :: "(string, json) gomap"
  icr_Audit :: AuditInfo

record GetInjectedSchemaRequest = RequestMeta +
  gs_Capabilities :: "string list"

record InjectedCapability =
  ij_Name :: string
  ij_Version :: string
  ij_Kind :: string
  ij_Permissions :: "string list"
  ij_Schema :: json
  ij_Description :: string

record GetInjectedSchemaResponse =
  gsr_SchemaVersion :: string
  gsr_Capabilities :: "InjectedCapability list"
  gsr_Audit :: AuditInfo

record NegotiateProtocolRequest = RequestMeta +
  ng_PluginID :: string
  ng_InstanceID :: string
  ng_ProtocolVersions :: "string list"
  ng_Transports :: "string list"
  ng_SchemaVersion :: string
  ng_PreferredProtocol :: string

record NegotiateProtocolResponse =
  ngr_ProtocolVersion :: string
  ngr_Transport :: string
  ngr_Accepted :: bool
  ngr_Alternatives :: "string list"

record ReportStatusRequest = RequestMeta +
  rs_PluginID :: string
  rs_InstanceID :: string
  rs_Status :: string
  rs_RuntimeStatus :: string
  rs_Metadata :: "(string, string) gomap"

record ReportStatusResponse =
  rsr_Plugin :: PluginSnapshot

record SyncMetadataRequest = RequestMeta +
  sm_Plugin :: PluginMetadata

record SyncMetadataResponse =
  smr_Plugin :: PluginSnapshot

record DrainRequest = RequestMeta +
  dr_PluginID :: string
  dr_InstanceID :: string
  dr_Reason :: string

record DrainResponse =
  drr_Plugin :: PluginSnapshot

text \<open>The zero values of Go, where the code starts from them.\<close>

definition zero_metadata :: PluginMetadata where
  "zero_metadata = \<lparr>PluginID = [], InstanceID = [], pm_Name = [], pm_Version = [], Protocol = [],
     Transport = [], Endpoint = [], Capabilities = [], Permissions = [], Hooks = [],
     SchemaVersion = [], Metadata = []\<rparr>"

definition zero_snapshot :: PluginSnapshot where
  "zero_snapshot = PluginMetadata.extend zero_metadata
     (PluginSnapshot.fields [] [] [] 0 0 0 0 0 0)"

text \<open>\<open>snapshot.PluginMetadata\<close> and \<open>snapshot.PluginMetadata = m\<close>.\<close>

definition metadata_of :: "PluginSnapshot \<Rightarrow> PluginMetadata" where
  "metadata_of s = PluginMetadata.truncate s"

definition with_metadata :: "PluginMetadata \<Rightarrow> PluginSnapshot \<Rightarrow> PluginSnapshot" where
  "with_metadata m s = PluginMetadata.extend m (PluginMetadata.more s)"

lemmas snapshot_defs = metadata_of_def with_metadata_def PluginMetadata.defs PluginSnapshot.defs

section \<open>Transport names\<close>

definition NormalizeTransport :: "string \<Rightarrow> string" where
  "NormalizeTransport v =
     (let value = ToLower (TrimSpace v) in
      if value = TransportHTTP \<or> value = TransportWebSocket \<or> value = TransportRPC then value
      else if value = ''ws'' then TransportWebSocket
      else value)"

definition IsTransport :: "string \<Rightarrow> bool" where
  "IsTransport v =
     (let value = NormalizeTransport v in
      value = TransportHTTP \<or> value = TransportWebSocket \<or> value = TransportRPC)"

definition EffectiveTransport :: "PluginMetadata \<Rightarrow> string" where
  "EffectiveTransport m =
     (if IsTransport (Transport m) then NormalizeTransport (Transport m)
      else if IsTransport (Protocol m) then NormalizeTransport (Protocol m)
      else [])"

abbreviation builtin_transports :: "string set" where
  "builtin_transports \<equiv> {TransportHTTP, TransportWebSocket, TransportRPC}"

lemma NormalizeTransport_canonical [simp]:
  "NormalizeTransport TransportHTTP = TransportHTTP"
  "NormalizeTransport TransportWebSocket = TransportWebSocket"
  "NormalizeTransport TransportRPC = TransportRPC"
  by code_simp+

lemma IsTransport_iff: "IsTransport v \<longleftrightarrow> NormalizeTransport v \<in> builtin_transports"
  by (simp add: IsTransport_def Let_def)

lemma IsTransport_normalized: "IsTransport v \<Longrightarrow> IsTransport (NormalizeTransport v)"
  unfolding IsTransport_iff by (elim insertE emptyE) simp_all

lemma EffectiveTransport_range:
  "EffectiveTransport m = [] \<or> EffectiveTransport m \<in> builtin_transports"
  unfolding EffectiveTransport_def IsTransport_iff by presburger

lemma metadata_of_sel [simp]:
  "PluginID (metadata_of s) = PluginID s" "InstanceID (metadata_of s) = InstanceID s"
  "pm_Name (metadata_of s) = pm_Name s" "pm_Version (metadata_of s) = pm_Version s"
  "Protocol (metadata_of s) = Protocol s" "Transport (metadata_of s) = Transport s"
  "Endpoint (metadata_of s) = Endpoint s" "Capabilities (metadata_of s) = Capabilities s"
  "Permissions (metadata_of s) = Permissions s" "Hooks (metadata_of s) = Hooks s"
  "SchemaVersion (metadata_of s) = SchemaVersion s" "Metadata (metadata_of s) = Metadata s"
  by (simp_all add: snapshot_defs)

lemma with_metadata_sel [simp]:
  "metadata_of (with_metadata m s) = m"
  "PluginID (with_metadata m s) = PluginID m" "InstanceID (with_metadata m s) = InstanceID m"
  "Status (with_metadata m s) = Status s" "RuntimeStatus (with_metadata m s) = RuntimeStatus s"
  "OwnerHost (with_metadata m s) = OwnerHost s"
  "LeaseTTLSeconds (with_metadata m s) = LeaseTTLSeconds s"
  "LeaseExpiresAt (with_metadata m s) = LeaseExpiresAt s"
  "RegisteredAt (with_metadata m s) = RegisteredAt s"
  "LastHeartbeatAt (with_metadata m s) = LastHeartbeatAt s"
  "CreatedAt (with_metadata m s) = CreatedAt s" "UpdatedAt (with_metadata m s) = UpdatedAt s"
  by (cases s, cases m, simp add: snapshot_defs)+

lemma metadata_of_update [simp]:
  "metadata_of (s\<lparr>Status := x1\<rparr>) = metadata_of s"
  "metadata_of (s\<lparr>RuntimeStatus := x2\<rparr>) = metadata_of s"
  "metadata_of (s\<lparr>OwnerHost := x3\<rparr>) = metadata_of s"
  "metadata_of (s\<lparr>LeaseTTLSeconds := x4\<rparr>) = metadata_of s"
  "metadata_of (s\<lparr>LeaseExpiresAt := x5\<rparr>) = metadata_of s"
  "metadata_of (s\<lparr>RegisteredAt := x6\<rparr>) = metadata_of s"
  "metadata_of (s\<lparr>LastHeartbeatAt := x7\<rparr>) = metadata_of s"
  "metadata_of (s\<lparr>CreatedAt := x8\<rparr>) = metadata_of s"
  "metadata_of (s\<lparr>UpdatedAt := x9\<rparr>) = metadata_of s"
  by (simp_all add: snapshot_defs)

section \<open>Deep copies\<close>

text \<open>
  The packages copy the mutable fields of a snapshot before they hand it out or store it. On
  values a copy is the value; the definitions follow the code field by field.
\<close>

definition cloneStringMap :: "(string, string) gomap \<Rightarrow> (string, string) gomap" where
  "cloneStringMap src = (if src = [] then [] else map (\<lambda>(k, v). (k, v)) src)"

definition cloneCapability :: "Capability \<Rightarrow> Capability" where
  "cloneCapability src = src\<lparr>cap_Permissions := [] @ cap_Permissions src,
     cap_InputSchema := [] @ cap_InputSchema src, cap_OutputSchema := [] @ cap_OutputSchema src\<rparr>"

definition cloneCapabilities :: "Capability list \<Rightarrow> Capability list" where
  "cloneCapabilities src = map cloneCapability src"

definition cloneSnapshot :: "PluginSnapshot \<Rightarrow> PluginSnapshot" where
  "cloneSnapshot src = src\<lparr>Capabilities := cloneCapabilities (Capabilities src),
     Permissions := [] @ Permissions src, Hooks := [] @ Hooks src,
     Metadata := cloneStringMap (Metadata src)\<rparr>"

lemma cloneStringMap_id [simp, clone_simps]: "cloneStringMap m = m"
  by (simp add: cloneStringMap_def)

lemma cloneCapability_id [simp, clone_simps]: "cloneCapability c = c"
  by (simp add: cloneCapability_def)

lemma cloneCapabilities_id [simp, clone_simps]: "cloneCapabilities cs = cs"
  by (simp add: cloneCapabilities_def map_idI)

lemma cloneSnapshot_id [simp, clone_simps]: "cloneSnapshot s = s"
  by (simp add: cloneSnapshot_def)

end
