(* ===== verification/Plugin_Registry.thy ===== *)
theory Plugin_Registry
  imports Plugin_Protocol
begin

text \<open>
  The storage abstraction of the plugin host, \<open>pkg/plugin/registry/types.go\<close>, with the helper
  functions of \<open>memory.go\<close> that the implementations share. The Go interface \<open>Registry\<close> is the
  record of operations \<open>RegistryOps\<close> over the state type of an implementation; what its clients
  rely on is the locale \<open>plugin_registry\<close>. The first argument \<open>w\<close> of an operation is the reading
  of \<open>time.Now\<close> during the call, used where the code falls back to the wall clock.
\<close>

record InstanceFilter =
  if_PluginID :: string
  if_InstanceID :: string
  if_Capability :: string
  if_Status :: string
  IncludeExpired :: bool
  if_Now :: gotime

record Lease =
  ls_PluginID :: string
  ls_InstanceID :: string
  ls_LeaseTTL :: duration
  ls_LastHeartbeatAt :: gotime
  ls_ExpiresAt :: gotime

record Subscription =
  sub_PluginID :: string
  sub_InstanceID :: string
  sub_Event :: string
  sub_Filters :: "(string, string) gomap"
  sub_CreatedAt :: gotime
  sub_UpdatedAt :: gotime

record SubscriptionFilter =
  sf_PluginID :: string
  sf_InstanceID :: string
  sf_Event :: string

datatype ChangeType =
    ChangeRegistered | ChangeLeaseRenewed | ChangeUnregistered | ChangeStatusReported
  | ChangeMetadataSynced | ChangeLeaseExpired | ChangeEventSubscribed
  | ChangeSnapshotObserved | ChangeSnapshotDisappeared

record Change =
  ch_Type :: ChangeType
  ch_PluginID :: string
  ch_InstanceID :: string
  ch_Plugin :: PluginSnapshot
  ch_Previous :: "PluginSnapshot option"
  ch_Subscription :: "Subscription option"
  ch_ObservedAt :: gotime

record WatchOptions =
  wo_Buffer :: int
  InitialSnapshot :: bool
  PollInterval :: duration
  wo_Filter :: InstanceFilter

record 'r RegistryOps =
  ro_RegisterInstance :: "gotime \<Rightarrow> 'r \<Rightarrow> PluginSnapshot \<Rightarrow> 'r \<times> PluginSnapshot result"
  ro_RenewLease :: "gotime \<Rightarrow> 'r \<Rightarrow> Lease \<Rightarrow> 'r \<times> PluginSnapshot result"
  ro_UnregisterInstance :: "gotime \<Rightarrow> 'r \<Rightarrow> string \<Rightarrow> string \<Rightarrow> gotime \<Rightarrow> 'r \<times> goerror option"
  ro_ReportStatus :: "gotime \<Rightarrow> 'r \<Rightarrow> string \<Rightarrow> string \<Rightarrow> string \<Rightarrow> string \<Rightarrow>
     (string, string) gomap \<Rightarrow> gotime \<Rightarrow> 'r \<times> PluginSnapshot result"
  ro_SyncMetadata :: "gotime \<Rightarrow> 'r \<Rightarrow> PluginSnapshot \<Rightarrow> 'r \<times> PluginSnapshot result"
  ro_GetInstance :: "'r \<Rightarrow> string \<Rightarrow> string \<Rightarrow> PluginSnapshot result"
  ro_ListInstances :: "gotime \<Rightarrow> 'r \<Rightarrow> InstanceFilter \<Rightarrow> PluginSnapshot list result"
  ro_ListByCapability :: "gotime \<Rightarrow> 'r \<Rightarrow> string \<Rightarrow> InstanceFilter \<Rightarrow> PluginSnapshot list result"
  ro_ListExpired :: "gotime \<Rightarrow> 'r \<Rightarrow> gotime \<Rightarrow> PluginSnapshot list result"
  ro_ExpireLeases :: "gotime \<Rightarrow> 'r \<Rightarrow> gotime \<Rightarrow> 'r \<times> PluginSnapshot list result"
  ro_SubscribeEvent :: "gotime \<Rightarrow> 'r \<Rightarrow> Subscription \<Rightarrow> 'r \<times> Subscription result"
  ro_ListSubscriptions :: "'r \<Rightarrow> SubscriptionFilter \<Rightarrow> Subscription list result"

section \<open>Shared helpers\<close>

definition key :: "string \<Rightarrow> string \<Rightarrow> string" where
  "key pluginID instanceID = TrimSpace pluginID @ [CHR 0x00] @ TrimSpace instanceID"

definition subscriptionKey :: "string \<Rightarrow> string \<Rightarrow> string \<Rightarrow> string" where
  "subscriptionKey pluginID instanceID event =
     key pluginID instanceID @ [CHR 0x00] @ TrimSpace event"

definition utcOrNow :: "gotime \<Rightarrow> gotime \<Rightarrow> gotime" where
  "utcOrNow w value = (if IsZero value then w else value)"

definition validateSnapshot :: "PluginSnapshot \<Rightarrow> goerror option" where
  "validateSnapshot s =
     (if blank (PluginID s) \<or> blank (InstanceID s) then Some registry_ErrInvalid else None)"

fun hasCapability_in :: "Capability list \<Rightarrow> string \<Rightarrow> bool" where
  "hasCapability_in [] name = False"
| "hasCapability_in (c # cs) name = (if cap_Name c = name then True else hasCapability_in cs name)"

definition hasCapability :: "PluginSnapshot \<Rightarrow> string \<Rightarrow> bool" where
  "hasCapability item name = hasCapability_in (Capabilities item) name"

text \<open>The test the code repeats: online, with a lease that is set and not after \<open>now\<close>.\<close>

definition lease_over :: "PluginSnapshot \<Rightarrow> gotime \<Rightarrow> bool" where
  "lease_over item now \<longleftrightarrow>
     Status item = StatusOnline \<and> \<not> IsZero (LeaseExpiresAt item) \<and> \<not> After (LeaseExpiresAt item) now"

definition matches :: "gotime \<Rightarrow> PluginSnapshot \<Rightarrow> InstanceFilter \<Rightarrow> bool" where
  "matches w item f =
     (if if_PluginID f \<noteq> [] \<and> PluginID item \<noteq> if_PluginID f then False
      else if if_InstanceID f \<noteq> [] \<and> InstanceID item \<noteq> if_InstanceID f then False
      else if if_Status f \<noteq> [] \<and> Status item \<noteq> if_Status f then False
      else if if_Capability f \<noteq> [] \<and> \<not> hasCapability item (if_Capability f) then False
      else let now = (if IsZero (if_Now f) then w else if_Now f) in
           if \<not> IncludeExpired f \<and> lease_over item now then False else True)"

definition matchesChange :: "gotime \<Rightarrow> Change \<Rightarrow> InstanceFilter \<Rightarrow> bool" where
  "matchesChange w change f =
     (let item = ch_Plugin change;
          item = (if PluginID item = [] then item\<lparr>PluginID := ch_PluginID change\<rparr> else item);
          item = (if InstanceID item = [] then item\<lparr>InstanceID := ch_InstanceID change\<rparr> else item)
      in matches w item f)"

definition mergeMetadata ::
    "(string, string) gomap \<Rightarrow> (string, string) gomap \<Rightarrow> (string, string) gomap" where
  "mergeMetadata base update =
     fold (\<lambda>(k, v) out. if \<not> blank k then mput out (TrimSpace k) v else out) update
       (fold (\<lambda>(k, v) out. mput out k v) base [])"

definition sub_matches :: "SubscriptionFilter \<Rightarrow> Subscription \<Rightarrow> bool" where
  "sub_matches f sub =
     (if sf_PluginID f \<noteq> [] \<and> sub_PluginID sub \<noteq> sf_PluginID f then False
      else if sf_InstanceID f \<noteq> [] \<and> sub_InstanceID sub \<noteq> sf_InstanceID f then False
      else if sf_Event f \<noteq> [] \<and> sub_Event sub \<noteq> sf_Event f then False
      else True)"

definition expire_snapshot :: "gotime \<Rightarrow> PluginSnapshot \<Rightarrow> PluginSnapshot" where
  "expire_snapshot now s =
     (if lease_over s now then s\<lparr>Status := StatusOffline, UpdatedAt := now\<rparr> else s)"

definition backfill :: "PluginSnapshot \<Rightarrow> PluginSnapshot \<Rightarrow> PluginSnapshot" where
  "backfill snapshot existing = snapshot\<lparr>
     Status := firstNonEmpty [Status snapshot, Status existing],
     RuntimeStatus := firstNonEmpty [RuntimeStatus snapshot, RuntimeStatus existing],
     OwnerHost := firstNonEmpty [OwnerHost snapshot, OwnerHost existing],
     LeaseTTLSeconds := (if LeaseTTLSeconds snapshot = 0 then LeaseTTLSeconds existing
                         else LeaseTTLSeconds snapshot),
     LeaseExpiresAt := (if IsZero (LeaseExpiresAt snapshot) then LeaseExpiresAt existing
                        else LeaseExpiresAt snapshot),
     RegisteredAt := (if IsZero (RegisteredAt snapshot) then RegisteredAt existing
                      else RegisteredAt snapshot),
     LastHeartbeatAt := (if IsZero (LastHeartbeatAt snapshot) then LastHeartbeatAt existing
                         else LastHeartbeatAt snapshot),
     CreatedAt := (if IsZero (CreatedAt snapshot) then CreatedAt existing else CreatedAt snapshot),
     UpdatedAt := (if IsZero (UpdatedAt snapshot) then UpdatedAt existing else UpdatedAt snapshot)\<rparr>"

definition cloneSubscription :: "Subscription \<Rightarrow> Subscription" where
  "cloneSubscription src = src\<lparr>sub_Filters := cloneStringMap (sub_Filters src)\<rparr>"

definition cloneChange :: "Change \<Rightarrow> Change" where
  "cloneChange src = src\<lparr>ch_Plugin := cloneSnapshot (ch_Plugin src),
     ch_Previous := map_option cloneSnapshot (ch_Previous src),
     ch_Subscription := map_option cloneSubscription (ch_Subscription src)\<rparr>"

definition snapshot_ids :: "PluginSnapshot \<Rightarrow> string \<times> string" where
  "snapshot_ids s = (PluginID s, InstanceID s)"

definition sortSnapshots :: "PluginSnapshot list \<Rightarrow> PluginSnapshot list" where
  "sortSnapshots items = sort_key snapshot_ids items"

lemma cloneSubscription_id [simp, clone_simps]: "cloneSubscription s = s"
  by (simp add: cloneSubscription_def)

lemma cloneChange_id [simp, clone_simps]: "cloneChange c = c"
proof -
  have "map_option cloneSnapshot = id" "map_option cloneSubscription = id"
    by (rule ext, case_tac x, simp_all)+
  then show ?thesis by (simp add: cloneChange_def)
qed

lemma utcOrNow_set [simp]: "t \<noteq> 0 \<Longrightarrow> utcOrNow w t = t"
  by (simp add: utcOrNow_def IsZero_def)

lemma hasCapability_in_iff: "hasCapability_in cs name \<longleftrightarrow> name \<in> cap_Name ` set cs"
  by (induction cs) auto

lemma hasCapability_iff: "hasCapability item name \<longleftrightarrow> name \<in> cap_Name ` set (Capabilities item)"
  by (simp add: hasCapability_def hasCapability_in_iff)

text \<open>What a filter accepts, as one conjunction.\<close>

lemma matches_iff:
  "matches w item f \<longleftrightarrow>
     (if_PluginID f = [] \<or> PluginID item = if_PluginID f) \<and>
     (if_InstanceID f = [] \<or> InstanceID item = if_InstanceID f) \<and>
     (if_Status f = [] \<or> Status item = if_Status f) \<and>
     (if_Capability f = [] \<or> hasCapability item (if_Capability f)) \<and>
     (IncludeExpired f \<or> \<not> lease_over item (utcOrNow w (if_Now f)))"
  by (auto simp: matches_def Let_def utcOrNow_def)

text \<open>
  The NUL separator keeps two instances apart as long as the plugin ids hold no NUL byte
  (the same argument as for any separated path).
\<close>

lemma sep_inject:
  "c \<notin> set xs \<Longrightarrow> c \<notin> set ys \<Longrightarrow> xs @ [c] @ us = ys @ [c] @ vs \<Longrightarrow> xs = ys \<and> us = vs"
  by (induction xs arbitrary: ys) (auto simp: Cons_eq_append_conv)

lemma key_inject:
  assumes "CHR 0x00 \<notin> set p" and "CHR 0x00 \<notin> set p'" and "key p i = key p' i'"
  shows "TrimSpace p = TrimSpace p' \<and> TrimSpace i = TrimSpace i'"
proof (rule sep_inject)
  show "CHR 0x00 \<notin> set (TrimSpace p)" "CHR 0x00 \<notin> set (TrimSpace p')"
    using assms(1,2) set_TrimSpace by blast+
  show "TrimSpace p @ [CHR 0x00] @ TrimSpace i = TrimSpace p' @ [CHR 0x00] @ TrimSpace i'"
    using assms(3) by (simp add: key_def)
qed

lemma key_TrimSpace [simp]:
  "key (TrimSpace p) i = key p i" "key p (TrimSpace i) = key p i"
  by (simp_all add: key_def)

text \<open>What every key stores: the laws of the metadata merge.\<close>

lemma mget_fold_mput: "mget (fold (\<lambda>(k, v) out. mput out k v) xs m) k =
    (case map_of (rev xs) k of Some v \<Rightarrow> Some v | None \<Rightarrow> mget m k)"
  by (induction xs arbitrary: m) (auto split: option.splits prod.splits simp: map_add_def)

lemma wf_map_fold_mput: "wf_map m \<Longrightarrow> wf_map (fold (\<lambda>(k, v) out. mput out k v) xs m)"
  by (induction xs arbitrary: m) (auto split: prod.splits)

lemma backfill_ids [simp]:
  "PluginID (backfill x y) = PluginID x" "InstanceID (backfill x y) = InstanceID x"
  by (simp_all add: backfill_def)

lemma expire_snapshot_ids [simp]:
  "PluginID (expire_snapshot now s) = PluginID s" "InstanceID (expire_snapshot now s) = InstanceID s"
  by (simp_all add: expire_snapshot_def)

lemma validateSnapshot_None: "validateSnapshot x = None \<longleftrightarrow> \<not> blank (PluginID x) \<and> \<not> blank (InstanceID x)"
  by (simp add: validateSnapshot_def)

section \<open>The contract of a registry\<close>

text \<open>
  What the host and the router rely on. \<open>inv\<close> is the invariant of the implementation, \<open>idkey\<close>
  its identity of an instance, \<open>lookup\<close> what is stored under an identity and \<open>subs\<close> the stored
  subscriptions. Every law says what an operation returns and how it changes \<open>lookup\<close>.
\<close>

locale plugin_registry =
  fixes ops :: "'r RegistryOps"
    and inv :: "'r \<Rightarrow> bool"
    and idkey :: "string \<Rightarrow> string \<Rightarrow> 'k"
    and lookup :: "'r \<Rightarrow> 'k \<Rightarrow> PluginSnapshot option"
    and subs :: "'r \<Rightarrow> Subscription set"
  assumes get_instance: "inv s \<Longrightarrow> ro_GetInstance ops s p i =
      (case lookup s (idkey p i) of None \<Rightarrow> Inl registry_ErrNotFound | Some x \<Rightarrow> Inr x)"
    and stored_key: "inv s \<Longrightarrow> lookup s k = Some x \<Longrightarrow> idkey (PluginID x) (InstanceID x) = k"
    and register_invalid: "validateSnapshot x = Some e \<Longrightarrow> ro_RegisterInstance ops w s x = (s, Inl e)"
    and register_valid: "inv s \<Longrightarrow> validateSnapshot x = None \<Longrightarrow>
      \<exists>s' c. ro_RegisterInstance ops w s x = (s', Inr (x\<lparr>CreatedAt := c\<rparr>)) \<and> inv s' \<and>
        lookup s' = (lookup s)(idkey (PluginID x) (InstanceID x) \<mapsto> x\<lparr>CreatedAt := c\<rparr>) \<and> subs s' = subs s"
    and renew_missing: "inv s \<Longrightarrow> lookup s (idkey (ls_PluginID l) (ls_InstanceID l)) = None \<Longrightarrow>
      ro_RenewLease ops w s l = (s, Inl registry_ErrNotFound)"
    and renew_present: "inv s \<Longrightarrow> lookup s (idkey (ls_PluginID l) (ls_InstanceID l)) = Some x \<Longrightarrow>
      \<exists>s' ttl. let y = x\<lparr>Status := StatusOnline, LastHeartbeatAt := utcOrNow w (ls_LastHeartbeatAt l),
          LeaseExpiresAt := utcOrNow w (ls_ExpiresAt l), LeaseTTLSeconds := ttl,
          UpdatedAt := utcOrNow w (ls_LastHeartbeatAt l)\<rparr> in
        ro_RenewLease ops w s l = (s', Inr y) \<and> inv s' \<and>
        lookup s' = (lookup s)(idkey (ls_PluginID l) (ls_InstanceID l) \<mapsto> y) \<and> subs s' = subs s"
    and unregister_missing: "inv s \<Longrightarrow> lookup s (idkey p i) = None \<Longrightarrow>
      ro_UnregisterInstance ops w s p i now = (s, Some registry_ErrNotFound)"
    and unregister_present: "inv s \<Longrightarrow> lookup s (idkey p i) = Some x \<Longrightarrow>
      \<exists>s'. ro_UnregisterInstance ops w s p i now = (s', None) \<and> inv s' \<and>
        lookup s' = (lookup s)(idkey p i \<mapsto> x\<lparr>Status := StatusOffline, RuntimeStatus := [],
          LeaseExpiresAt := utcOrNow w now, UpdatedAt := utcOrNow w now\<rparr>) \<and> subs s' = subs s"
    and report_missing: "inv s \<Longrightarrow> lookup s (idkey p i) = None \<Longrightarrow>
      ro_ReportStatus ops w s p i st rst md now = (s, Inl registry_ErrNotFound)"
    and report_present: "inv s \<Longrightarrow> lookup s (idkey p i) = Some x \<Longrightarrow>
      \<exists>s' md'. let y = x\<lparr>Status := (if blank st then Status x else TrimSpace st),
          RuntimeStatus := (if blank rst then RuntimeStatus x else TrimSpace rst),
          Metadata := md', UpdatedAt := utcOrNow w now\<rparr> in
        ro_ReportStatus ops w s p i st rst md now = (s', Inr y) \<and> inv s' \<and>
        lookup s' = (lookup s)(idkey p i \<mapsto> y) \<and> subs s' = subs s"
    and sync_missing: "inv s \<Longrightarrow> validateSnapshot x = None \<Longrightarrow>
      lookup s (idkey (PluginID x) (InstanceID x)) = None \<Longrightarrow>
      ro_SyncMetadata ops w s x = (s, Inl registry_ErrNotFound)"
    and sync_present: "inv s \<Longrightarrow> validateSnapshot x = None \<Longrightarrow>
      lookup s (idkey (PluginID x) (InstanceID x)) = Some y \<Longrightarrow>
      \<exists>s'. ro_SyncMetadata ops w s x = (s', Inr (backfill x y)) \<and> inv s' \<and>
        lookup s' = (lookup s)(idkey (PluginID x) (InstanceID x) \<mapsto> backfill x y) \<and> subs s' = subs s"
    and expire: "inv s \<Longrightarrow> \<exists>s' xs. ro_ExpireLeases ops w s now = (s', Inr xs) \<and> inv s' \<and>
        lookup s' = (\<lambda>k. map_option (expire_snapshot (utcOrNow w now)) (lookup s k)) \<and> subs s' = subs s"
    and list_instances: "inv s \<Longrightarrow> \<exists>xs. ro_ListInstances ops w s f = Inr xs \<and>
        set xs = {x. (\<exists>k. lookup s k = Some x) \<and> matches w x f} \<and>
        sorted_wrt (\<lambda>a b. snapshot_ids a < snapshot_ids b) xs"
    and list_by_capability:
      "ro_ListByCapability ops w s c f = ro_ListInstances ops w s (f\<lparr>if_Capability := c\<rparr>)"
    and list_subscriptions: "inv s \<Longrightarrow> \<exists>xs. ro_ListSubscriptions ops s sf = Inr xs \<and>
        set xs = {x \<in> subs s. sub_matches sf x}"
    and subscribe_keeps: "inv s \<Longrightarrow> inv (fst (ro_SubscribeEvent ops w s b)) \<and>
        lookup (fst (ro_SubscribeEvent ops w s b)) = lookup s"

end
