(* ===== verification/Registry_Memory.thy ===== *)
theory Registry_Memory
  imports Plugin_Registry
begin

text \<open>
  The in-process registry, \<open>pkg/plugin/registry/memory.go\<close>. The state \<open>Memory\<close> has the fields of
  the Go struct; the channels its watchers hold are references into the store \<open>m_chans\<close>, since a
  consumer keeps a channel after the watcher is gone, \<open>m_pcs\<close> is the program counter of the
  goroutine each \<open>Watch\<close> starts, and \<open>m_panic\<close> records a send on, or a second close of, a closed
  channel. An operation is one step under the mutex followed by its notification.

  The lemmas give the registry invariant, its preservation by every operation, and the laws of
  the locale \<open>plugin_registry\<close>; the step relation \<open>mem_step\<close> interleaves all operations with the
  watcher goroutines and their consumers, and no reachable state has panicked.
\<close>

record memoryWatcher =
  mw_ch :: nat
  mw_filter :: InstanceFilter

datatype watch_pc = Sending "PluginSnapshot list" | Waiting | Closing | Finished

record Memory =
  instances :: "(string, PluginSnapshot) gomap"
  subscriptions :: "(string, Subscription) gomap"
  watchers :: "(nat, memoryWatcher) gomap"
  nextWatcherID :: nat
  m_chans :: "(nat, Change chan) gomap"
  m_pcs :: "(nat, watch_pc) gomap"
  m_panic :: bool

definition NewMemory :: Memory where
  "NewMemory = \<lparr>instances = [], subscriptions = [], watchers = [], nextWatcherID = 0,
     m_chans = [], m_pcs = [], m_panic = False\<rparr>"

section \<open>Notification\<close>

definition send_nb :: "nat \<Rightarrow> Change \<Rightarrow> Memory \<Rightarrow> Memory" where
  "send_nb r v m =
     (case mget (m_chans m) r of
        None \<Rightarrow> m
      | Some c \<Rightarrow>
          if cclosed c then m\<lparr>m_panic := True\<rparr>
          else m\<lparr>m_chans := mput (m_chans m) r (trySend v c)\<rparr>)"

definition notify_one :: "gotime \<Rightarrow> Change \<Rightarrow> nat \<times> memoryWatcher \<Rightarrow> Memory \<Rightarrow> Memory" where
  "notify_one w change iw m =
     (if \<not> matchesChange w change (mw_filter (snd iw)) then m
      else send_nb (mw_ch (snd iw)) change m)"

definition notify :: "gotime \<Rightarrow> Memory \<Rightarrow> Change \<Rightarrow> Memory" where
  "notify w m change =
     (let change = cloneChange change;
          change = (if IsZero (ch_ObservedAt change) then change\<lparr>ch_ObservedAt := w\<rparr> else change)
      in fold (notify_one w change) (watchers m) m)"

definition mk_change :: "ChangeType \<Rightarrow> PluginSnapshot \<Rightarrow> PluginSnapshot option \<Rightarrow> Change" where
  "mk_change t out previous = \<lparr>ch_Type = t, ch_PluginID = PluginID out, ch_InstanceID = InstanceID out,
     ch_Plugin = out, ch_Previous = previous, ch_Subscription = None, ch_ObservedAt = 0\<rparr>"

section \<open>Instances and leases\<close>

definition Memory_RegisterInstance ::
    "gotime \<Rightarrow> Memory \<Rightarrow> PluginSnapshot \<Rightarrow> Memory \<times> PluginSnapshot result" where
  "Memory_RegisterInstance w m snapshot =
     (case validateSnapshot snapshot of
        Some e \<Rightarrow> (m, Inl e)
      | None \<Rightarrow>
          let k = key (PluginID snapshot) (InstanceID snapshot);
              (previous, snapshot) =
                (case mget (instances m) k of
                   Some existing \<Rightarrow>
                     if \<not> IsZero (CreatedAt existing)
                     then (Some (cloneSnapshot existing), snapshot\<lparr>CreatedAt := CreatedAt existing\<rparr>)
                     else (None, snapshot)
                 | None \<Rightarrow> (None, snapshot));
              m = m\<lparr>instances := mput (instances m) k (cloneSnapshot snapshot)\<rparr>;
              out = cloneSnapshot snapshot
          in (notify w m (mk_change ChangeRegistered out previous), Inr out))"

definition Memory_RenewLease ::
    "gotime \<Rightarrow> Memory \<Rightarrow> Lease \<Rightarrow> Memory \<times> PluginSnapshot result" where
  "Memory_RenewLease w m lease =
     (let k = key (ls_PluginID lease) (ls_InstanceID lease) in
      case mget (instances m) k of
        None \<Rightarrow> (m, Inl registry_ErrNotFound)
      | Some item \<Rightarrow>
          let previous = cloneSnapshot item;
              item = item\<lparr>Status := StatusOnline,
                LastHeartbeatAt := utcOrNow w (ls_LastHeartbeatAt lease),
                LeaseExpiresAt := utcOrNow w (ls_ExpiresAt lease)\<rparr>;
              item = (if 0 < ls_LeaseTTL lease
                      then item\<lparr>LeaseTTLSeconds := secs (ls_LeaseTTL lease)\<rparr> else item);
              item = item\<lparr>UpdatedAt := LastHeartbeatAt item\<rparr>;
              m = m\<lparr>instances := mput (instances m) k item\<rparr>;
              out = cloneSnapshot item
          in (notify w m (mk_change ChangeLeaseRenewed out (Some previous)), Inr out))"

definition Memory_UnregisterInstance ::
    "gotime \<Rightarrow> Memory \<Rightarrow> string \<Rightarrow> string \<Rightarrow> gotime \<Rightarrow> Memory \<times> goerror option" where
  "Memory_UnregisterInstance w m pluginID instanceID now =
     (let k = key pluginID instanceID in
      case mget (instances m) k of
        None \<Rightarrow> (m, Some registry_ErrNotFound)
      | Some item \<Rightarrow>
          let previous = cloneSnapshot item;
              now = utcOrNow w now;
              item = item\<lparr>Status := StatusOffline, RuntimeStatus := [],
                LeaseExpiresAt := now, UpdatedAt := now\<rparr>;
              m = m\<lparr>instances := mput (instances m) k item\<rparr>;
              out = cloneSnapshot item
          in (notify w m (mk_change ChangeUnregistered out (Some previous)), None))"

definition Memory_ReportStatus ::
    "gotime \<Rightarrow> Memory \<Rightarrow> string \<Rightarrow> string \<Rightarrow> string \<Rightarrow> string \<Rightarrow> (string, string) gomap \<Rightarrow> gotime \<Rightarrow>
     Memory \<times> PluginSnapshot result" where
  "Memory_ReportStatus w m pluginID instanceID status runtimeStatus metadata now =
     (let k = key pluginID instanceID in
      case mget (instances m) k of
        None \<Rightarrow> (m, Inl registry_ErrNotFound)
      | Some item \<Rightarrow>
          let previous = cloneSnapshot item;
              item = (if \<not> blank status then item\<lparr>Status := TrimSpace status\<rparr> else item);
              item = (if \<not> blank runtimeStatus
                      then item\<lparr>RuntimeStatus := TrimSpace runtimeStatus\<rparr> else item);
              item = (if 0 < length metadata
                      then item\<lparr>Metadata := mergeMetadata (Metadata item) metadata\<rparr> else item);
              item = item\<lparr>UpdatedAt := utcOrNow w now\<rparr>;
              m = m\<lparr>instances := mput (instances m) k item\<rparr>;
              out = cloneSnapshot item
          in (notify w m (mk_change ChangeStatusReported out (Some previous)), Inr out))"

definition Memory_SyncMetadata ::
    "gotime \<Rightarrow> Memory \<Rightarrow> PluginSnapshot \<Rightarrow> Memory \<times> PluginSnapshot result" where
  "Memory_SyncMetadata w m snapshot =
     (case validateSnapshot snapshot of
        Some e \<Rightarrow> (m, Inl e)
      | None \<Rightarrow>
          let k = key (PluginID snapshot) (InstanceID snapshot) in
          case mget (instances m) k of
            None \<Rightarrow> (m, Inl registry_ErrNotFound)
          | Some existing \<Rightarrow>
              let previous = cloneSnapshot existing;
                  snapshot = backfill snapshot existing;
                  m = m\<lparr>instances := mput (instances m) k (cloneSnapshot snapshot)\<rparr>;
                  out = cloneSnapshot snapshot
              in (notify w m (mk_change ChangeMetadataSynced out (Some previous)), Inr out))"

definition Memory_GetInstance :: "Memory \<Rightarrow> string \<Rightarrow> string \<Rightarrow> PluginSnapshot result" where
  "Memory_GetInstance m pluginID instanceID =
     (case mget (instances m) (key pluginID instanceID) of
        None \<Rightarrow> Inl registry_ErrNotFound
      | Some item \<Rightarrow> Inr (cloneSnapshot item))"

definition Memory_ListInstances ::
    "gotime \<Rightarrow> Memory \<Rightarrow> InstanceFilter \<Rightarrow> PluginSnapshot list result" where
  "Memory_ListInstances w m f =
     Inr (sortSnapshots (map cloneSnapshot (filter (\<lambda>item. matches w item f) (map snd (instances m)))))"

definition Memory_ListByCapability ::
    "gotime \<Rightarrow> Memory \<Rightarrow> string \<Rightarrow> InstanceFilter \<Rightarrow> PluginSnapshot list result" where
  "Memory_ListByCapability w m capability f = Memory_ListInstances w m (f\<lparr>if_Capability := capability\<rparr>)"

definition Memory_ListExpired :: "gotime \<Rightarrow> Memory \<Rightarrow> gotime \<Rightarrow> PluginSnapshot list result" where
  "Memory_ListExpired w m now =
     (let now = utcOrNow w now in
      Inr (sortSnapshots (map cloneSnapshot
             (filter (\<lambda>item. lease_over item now) (map snd (instances m))))))"

text \<open>The loop of \<open>ExpireLeases\<close>: the entries still to visit, the map, and the two slices.\<close>

fun expire_loop ::
    "gotime \<Rightarrow> (string \<times> PluginSnapshot) list \<Rightarrow> (string, PluginSnapshot) gomap \<Rightarrow>
     PluginSnapshot list \<Rightarrow> Change list \<Rightarrow>
     (string, PluginSnapshot) gomap \<times> PluginSnapshot list \<times> Change list" where
  "expire_loop now [] inst expired changes = (inst, expired, changes)"
| "expire_loop now ((k, item) # rest) inst expired changes =
     (if lease_over item now then
        let previous = cloneSnapshot item;
            item = item\<lparr>Status := StatusOffline, UpdatedAt := now\<rparr>;
            out = cloneSnapshot item
        in expire_loop now rest (mput inst k item) (expired @ [out])
             (changes @ [mk_change ChangeLeaseExpired out (Some previous)])
      else expire_loop now rest inst expired changes)"

definition Memory_ExpireLeases ::
    "gotime \<Rightarrow> Memory \<Rightarrow> gotime \<Rightarrow> Memory \<times> PluginSnapshot list result" where
  "Memory_ExpireLeases w m now =
     (let now = utcOrNow w now;
          (inst, expired, changes) = expire_loop now (instances m) (instances m) [] [];
          m = m\<lparr>instances := inst\<rparr>
      in (fold (\<lambda>change m. notify w m change) changes m, Inr (sortSnapshots expired)))"

section \<open>Event subscriptions\<close>

definition Memory_SubscribeEvent ::
    "gotime \<Rightarrow> Memory \<Rightarrow> Subscription \<Rightarrow> Memory \<times> Subscription result" where
  "Memory_SubscribeEvent w m sub =
     (if blank (sub_PluginID sub) \<or> blank (sub_InstanceID sub) \<or> blank (sub_Event sub)
      then (m, Inl registry_ErrInvalid)
      else
        let now = utcOrNow w (sub_UpdatedAt sub);
            sub = sub\<lparr>sub_PluginID := TrimSpace (sub_PluginID sub),
                      sub_InstanceID := TrimSpace (sub_InstanceID sub),
                      sub_Event := TrimSpace (sub_Event sub)\<rparr>;
            sub = (if IsZero (sub_CreatedAt sub) then sub\<lparr>sub_CreatedAt := now\<rparr> else sub);
            sub = sub\<lparr>sub_UpdatedAt := now\<rparr>;
            m = m\<lparr>subscriptions := mput (subscriptions m)
                     (subscriptionKey (sub_PluginID sub) (sub_InstanceID sub) (sub_Event sub))
                     (cloneSubscription sub)\<rparr>;
            out = cloneSubscription sub
        in (notify w m \<lparr>ch_Type = ChangeEventSubscribed, ch_PluginID = sub_PluginID out,
              ch_InstanceID = sub_InstanceID out, ch_Plugin = zero_snapshot, ch_Previous = None,
              ch_Subscription = Some out, ch_ObservedAt = 0\<rparr>, Inr out))"

definition sub_ids :: "Subscription \<Rightarrow> string \<times> string \<times> string" where
  "sub_ids s = (sub_PluginID s, sub_InstanceID s, sub_Event s)"

definition Memory_ListSubscriptions :: "Memory \<Rightarrow> SubscriptionFilter \<Rightarrow> Subscription list result" where
  "Memory_ListSubscriptions m f =
     Inr (sort_key sub_ids (map cloneSubscription (filter (sub_matches f) (map snd (subscriptions m)))))"

section \<open>Watchers\<close>

text \<open>
  \<open>Watch\<close> registers the watcher and starts its goroutine, which sends the initial snapshot
  without blocking, waits for the context, and then closes the watcher: it removes it from the
  table under the lock (\<open>closeWatcher_remove\<close>) and closes the channel after unlocking
  (\<open>closeWatcher_close\<close>). Other operations may run between any two of these steps.
\<close>

definition Memory_Watch :: "gotime \<Rightarrow> Memory \<Rightarrow> WatchOptions \<Rightarrow> Memory \<times> nat" where
  "Memory_Watch w m options =
     (let buffer = (if wo_Buffer options \<le> 0 then 32 else nat (wo_Buffer options));
          f = wo_Filter options;
          f = (if IsZero (if_Now f) \<and> if_Status f = [] then f\<lparr>IncludeExpired := True\<rparr> else f);
          wid = nextWatcherID m;
          initial = (if InitialSnapshot options
                     then sortSnapshots (map cloneSnapshot
                            (filter (\<lambda>item. matches w item f) (map snd (instances m))))
                     else [])
      in (m\<lparr>nextWatcherID := Suc wid,
            watchers := mput (watchers m) wid \<lparr>mw_ch = wid, mw_filter = f\<rparr>,
            m_chans := mput (m_chans m) wid \<lparr>cbuf = [], ccap = buffer, cclosed = False\<rparr>,
            m_pcs := mput (m_pcs m) wid (Sending initial)\<rparr>, wid))"

definition watch_send :: "gotime \<Rightarrow> Memory \<Rightarrow> nat \<Rightarrow> Memory" where
  "watch_send w m wid =
     (case mget (m_pcs m) wid of
        Some (Sending []) \<Rightarrow> m\<lparr>m_pcs := mput (m_pcs m) wid Waiting\<rparr>
      | Some (Sending (item # rest)) \<Rightarrow>
          (let change = (mk_change ChangeSnapshotObserved item None)\<lparr>ch_ObservedAt := w\<rparr>;
               m = send_nb wid (cloneChange change) m
           in m\<lparr>m_pcs := mput (m_pcs m) wid (Sending rest)\<rparr>)
      | _ \<Rightarrow> m)"

definition closeWatcher_remove :: "Memory \<Rightarrow> nat \<Rightarrow> Memory" where
  "closeWatcher_remove m wid =
     (case mget (watchers m) wid of
        Some watcher \<Rightarrow> m\<lparr>watchers := mdel (watchers m) wid, m_pcs := mput (m_pcs m) wid Closing\<rparr>
      | None \<Rightarrow> m\<lparr>m_pcs := mput (m_pcs m) wid Finished\<rparr>)"

definition closeWatcher_close :: "Memory \<Rightarrow> nat \<Rightarrow> Memory" where
  "closeWatcher_close m wid =
     (case mget (m_chans m) wid of
        None \<Rightarrow> m
      | Some c \<Rightarrow>
          if cclosed c then m\<lparr>m_panic := True\<rparr>
          else m\<lparr>m_chans := mput (m_chans m) wid (c\<lparr>cclosed := True\<rparr>),
                 m_pcs := mput (m_pcs m) wid Finished\<rparr>)"

text \<open>The consumer takes the oldest queued change.\<close>

definition watch_recv :: "Memory \<Rightarrow> nat \<Rightarrow> Memory \<times> Change option" where
  "watch_recv m wid =
     (case mget (m_chans m) wid of
        None \<Rightarrow> (m, None)
      | Some c \<Rightarrow>
          (case cbuf c of
             [] \<Rightarrow> (m, None)
           | v # vs \<Rightarrow> (m\<lparr>m_chans := mput (m_chans m) wid (c\<lparr>cbuf := vs\<rparr>)\<rparr>, Some v)))"

definition Memory_ops :: "Memory RegistryOps" where
  "Memory_ops = \<lparr>ro_RegisterInstance = Memory_RegisterInstance, ro_RenewLease = Memory_RenewLease,
     ro_UnregisterInstance = Memory_UnregisterInstance, ro_ReportStatus = Memory_ReportStatus,
     ro_SyncMetadata = Memory_SyncMetadata, ro_GetInstance = Memory_GetInstance,
     ro_ListInstances = Memory_ListInstances, ro_ListByCapability = Memory_ListByCapability,
     ro_ListExpired = Memory_ListExpired, ro_ExpireLeases = Memory_ExpireLeases,
     ro_SubscribeEvent = Memory_SubscribeEvent, ro_ListSubscriptions = Memory_ListSubscriptions\<rparr>"

section \<open>What each operation leaves alone\<close>

lemma map_clone [simp, clone_simps]: "map cloneSnapshot xs = xs" "map cloneSubscription ys = ys"
  by (simp_all add: map_idI)

lemma fold_frame: "(\<And>x m. f (g x m) = f m) \<Longrightarrow> f (fold g xs m) = f m"
  by (induction xs arbitrary: m) auto

lemma send_nb_frame [simp]:
  "instances (send_nb r v m) = instances m" "subscriptions (send_nb r v m) = subscriptions m"
  "watchers (send_nb r v m) = watchers m" "nextWatcherID (send_nb r v m) = nextWatcherID m"
  "m_pcs (send_nb r v m) = m_pcs m"
  by (simp_all add: send_nb_def split: option.splits)

lemma notify_one_frame [simp]:
  "instances (notify_one w c iw m) = instances m"
  "subscriptions (notify_one w c iw m) = subscriptions m"
  "watchers (notify_one w c iw m) = watchers m"
  "nextWatcherID (notify_one w c iw m) = nextWatcherID m"
  "m_pcs (notify_one w c iw m) = m_pcs m"
  by (simp_all add: notify_one_def)

lemma notify_frame [simp]:
  "instances (notify w m c) = instances m" "subscriptions (notify w m c) = subscriptions m"
  "watchers (notify w m c) = watchers m" "nextWatcherID (notify w m c) = nextWatcherID m"
  "m_pcs (notify w m c) = m_pcs m"
  by (simp_all add: notify_def Let_def fold_frame)

lemma notify_all_frame [simp]:
  "instances (fold (\<lambda>c m. notify w m c) cs m) = instances m"
  "subscriptions (fold (\<lambda>c m. notify w m c) cs m) = subscriptions m"
  "watchers (fold (\<lambda>c m. notify w m c) cs m) = watchers m"
  "nextWatcherID (fold (\<lambda>c m. notify w m c) cs m) = nextWatcherID m"
  "m_pcs (fold (\<lambda>c m. notify w m c) cs m) = m_pcs m"
  by (rule fold_frame, simp)+

section \<open>The expiry loop\<close>

lemma expire_loop_mget:
  "wf_map es \<Longrightarrow> (\<And>k s. (k, s) \<in> set es \<Longrightarrow> mget inst k = Some s) \<Longrightarrow>
   mget (fst (expire_loop now es inst ex ch)) k =
     (case map_of es k of Some s \<Rightarrow> Some (expire_snapshot now s) | None \<Rightarrow> mget inst k)"
proof (induction es arbitrary: inst ex ch)
  case Nil
  then show ?case by simp
next
  case (Cons e es)
  obtain k' s where e: "e = (k', s)" by (cases e)
  have wf: "wf_map es" and fresh: "k' \<notin> fst ` set es" using Cons.prems(1) e by (auto simp: wf_map_def)
  have none: "map_of es k' = None" using fresh by (simp add: map_of_eq_None_iff)
  show ?case
  proof (cases "lease_over s now")
    case True
    have "(k'', s'') \<in> set es \<Longrightarrow>
        mget (mput inst k' (s\<lparr>Status := StatusOffline, UpdatedAt := now\<rparr>)) k'' = Some s''" for k'' s''
      using Cons.prems(2) [of k'' s''] fresh by force
    from Cons.IH [OF wf this] True none show ?thesis
      by (auto simp: e Let_def expire_snapshot_def split: option.splits)
  next
    case False
    have "(k'', s'') \<in> set es \<Longrightarrow> mget inst k'' = Some s''" for k'' s''
      using Cons.prems(2) by simp
    from Cons.IH [OF wf this] False none show ?thesis
      using Cons.prems(2) [of k' s] by (auto simp: e expire_snapshot_def split: option.splits)
  qed
qed

lemma expire_loop_wf: "wf_map inst \<Longrightarrow> wf_map (fst (expire_loop now es inst ex ch))"
  by (induction now es inst ex ch rule: expire_loop.induct) (auto simp: Let_def)

lemma expire_loop_expired:
  "fst (snd (expire_loop now es inst ex ch)) =
     ex @ map (expire_snapshot now) (filter (\<lambda>s. lease_over s now) (map snd es))"
  by (induction now es inst ex ch rule: expire_loop.induct) (auto simp: Let_def expire_snapshot_def)

section \<open>The registry invariant\<close>

definition data_inv :: "Memory \<Rightarrow> bool" where
  "data_inv m \<longleftrightarrow> wf_map (instances m) \<and> wf_map (subscriptions m) \<and>
     (\<forall>k s. mget (instances m) k = Some s \<longrightarrow> k = key (PluginID s) (InstanceID s)) \<and>
     (\<forall>k s. mget (subscriptions m) k = Some s \<longrightarrow>
        k = subscriptionKey (sub_PluginID s) (sub_InstanceID s) (sub_Event s))"

lemma data_inv_NewMemory: "data_inv NewMemory"
  by (simp add: data_inv_def NewMemory_def)

lemma data_inv_cong:
  "instances m = instances m' \<Longrightarrow> subscriptions m = subscriptions m' \<Longrightarrow> data_inv m \<longleftrightarrow> data_inv m'"
  by (simp add: data_inv_def)

lemma data_inv_put:
  "data_inv m \<Longrightarrow> k = key (PluginID s) (InstanceID s) \<Longrightarrow>
   data_inv (m\<lparr>instances := mput (instances m) k s\<rparr>)"
  by (auto simp: data_inv_def)

lemma data_inv_key: "data_inv m \<Longrightarrow> mget (instances m) k = Some s \<Longrightarrow> key (PluginID s) (InstanceID s) = k"
  by (auto simp: data_inv_def)

text \<open>Two stored instances with the same identifiers are the same entry.\<close>

lemma data_inv_ids_inj: "data_inv m \<Longrightarrow> inj_on snapshot_ids (set (map snd (instances m)))"
proof (rule inj_onI)
  fix x y
  assume inv: "data_inv m" and x: "x \<in> set (map snd (instances m))"
    and y: "y \<in> set (map snd (instances m))" and eq: "snapshot_ids x = snapshot_ids y"
  have wf: "wf_map (instances m)" using inv by (simp add: data_inv_def)
  obtain kx where kx: "mget (instances m) kx = Some x" using x values_mget [OF wf] by blast
  obtain ky where ky: "mget (instances m) ky = Some y" using y values_mget [OF wf] by blast
  have "kx = ky" using data_inv_key [OF inv kx] data_inv_key [OF inv ky] eq
    by (auto simp: snapshot_ids_def)
  with kx ky show "x = y" by simp
qed

lemma data_inv_expire:
  assumes "data_inv m"
  shows "data_inv (fst (Memory_ExpireLeases w m now))"
    and "mget (instances (fst (Memory_ExpireLeases w m now))) k =
           map_option (expire_snapshot (utcOrNow w now)) (mget (instances m) k)"
proof -
  have wf: "wf_map (instances m)" using assms by (simp add: data_inv_def)
  define t where "t = utcOrNow w now"
  have sub: "(k, s) \<in> set (instances m) \<Longrightarrow> mget (instances m) k = Some s" for k s
    using mget_in_set [OF wf] by blast
  have get: "mget (fst (expire_loop t (instances m) (instances m) [] [])) k =
      map_option (expire_snapshot t) (mget (instances m) k)" for k
    by (subst expire_loop_mget [OF wf sub]) (auto simp: mget_def split: option.splits)
  have inst: "instances (fst (Memory_ExpireLeases w m now)) =
      fst (expire_loop t (instances m) (instances m) [] [])"
    "subscriptions (fst (Memory_ExpireLeases w m now)) = subscriptions m"
    by (simp_all add: Memory_ExpireLeases_def Let_def t_def split: prod.splits)
  show "mget (instances (fst (Memory_ExpireLeases w m now))) k =
      map_option (expire_snapshot (utcOrNow w now)) (mget (instances m) k)"
    using get by (simp add: inst t_def)
  show "data_inv (fst (Memory_ExpireLeases w m now))"
    using assms expire_loop_wf [OF wf] get by (auto simp: data_inv_def inst)
qed

lemmas data_inv_notify = data_inv_cong [OF notify_frame(1,2)]

lemma data_inv_register: "data_inv m \<Longrightarrow> data_inv (fst (Memory_RegisterInstance w m x))"
  by (auto simp: Memory_RegisterInstance_def Let_def data_inv_notify intro!: data_inv_put
      split: option.splits)

lemma data_inv_update:
  assumes "data_inv m" and "mget (instances m) k = Some x"
    and "PluginID y = PluginID x" and "InstanceID y = InstanceID x"
  shows "data_inv (m\<lparr>instances := mput (instances m) k y\<rparr>)"
  using data_inv_put [OF assms(1), of k y] data_inv_key [OF assms(1,2)] assms(3,4) by simp

lemma data_inv_renew: "data_inv m \<Longrightarrow> data_inv (fst (Memory_RenewLease w m l))"
  by (auto simp: Memory_RenewLease_def Let_def data_inv_notify intro: data_inv_update split: option.splits)

lemma data_inv_unregister: "data_inv m \<Longrightarrow> data_inv (fst (Memory_UnregisterInstance w m p i now))"
  by (auto simp: Memory_UnregisterInstance_def Let_def data_inv_notify intro: data_inv_update
      split: option.splits)

lemma data_inv_report: "data_inv m \<Longrightarrow> data_inv (fst (Memory_ReportStatus w m p i st rst md now))"
  by (auto simp: Memory_ReportStatus_def Let_def data_inv_notify intro: data_inv_update
      split: option.splits)

lemma data_inv_sync: "data_inv m \<Longrightarrow> data_inv (fst (Memory_SyncMetadata w m x))"
  by (auto simp: Memory_SyncMetadata_def Let_def data_inv_notify intro!: data_inv_put
      split: option.splits)

lemma data_inv_subscribe: "data_inv m \<Longrightarrow> data_inv (fst (Memory_SubscribeEvent w m s))"
  by (auto simp: Memory_SubscribeEvent_def Let_def data_inv_notify)
    (auto simp: data_inv_def subscriptionKey_def)

lemmas data_inv_ops = data_inv_register data_inv_renew data_inv_unregister data_inv_report
  data_inv_sync data_inv_expire(1) data_inv_subscribe

section \<open>The memory registry keeps the contract\<close>

lemma Memory_register_spec:
  "validateSnapshot x = None \<Longrightarrow>
   \<exists>c. snd (Memory_RegisterInstance w m x) = Inr (x\<lparr>CreatedAt := c\<rparr>) \<and>
       instances (fst (Memory_RegisterInstance w m x)) =
         mput (instances m) (key (PluginID x) (InstanceID x)) (x\<lparr>CreatedAt := c\<rparr>) \<and>
       c = (case mget (instances m) (key (PluginID x) (InstanceID x)) of
              Some y \<Rightarrow> if CreatedAt y = 0 then CreatedAt x else CreatedAt y
            | None \<Rightarrow> CreatedAt x)"
  by (auto simp: Memory_RegisterInstance_def Let_def IsZero_def split: option.splits)

lemma Memory_list_spec:
  assumes "data_inv m"
  shows "\<exists>xs. Memory_ListInstances w m f = Inr xs \<and>
     set xs = {x. (\<exists>k. mget (instances m) k = Some x) \<and> matches w x f} \<and>
     sorted_wrt (\<lambda>a b. snapshot_ids a < snapshot_ids b) xs"
proof -
  define ys where "ys = filter (\<lambda>item. matches w item f) (map snd (instances m))"
  have wf: "wf_map (instances m)" using assms by (simp add: data_inv_def)
  have set: "set ys = {x. (\<exists>k. mget (instances m) k = Some x) \<and> matches w x f}"
    using values_mget [OF wf] by (auto simp: ys_def simp del: set_map)
  have "distinct (map snapshot_ids (map snd (instances m)))"
  proof -
    have "distinct (map snd (instances m))"
    proof (rule ccontr)
      assume "\<not> distinct (map snd (instances m))"
      then obtain i j where ij: "i < j" "j < length (instances m)"
        "snd (instances m ! i) = snd (instances m ! j)"
        by (auto simp: distinct_conv_nth) (metis linorder_neqE_nat)
      have "\<And>n. n < length (instances m) \<Longrightarrow>
          fst (instances m ! n) = key (PluginID (snd (instances m ! n))) (InstanceID (snd (instances m ! n)))"
        using assms mget_in_set [OF wf] by (metis data_inv_key nth_mem prod.collapse)
      then have "fst (instances m ! i) = fst (instances m ! j)" using ij by simp
      moreover have "distinct (map fst (instances m))" using wf by (simp add: wf_map_def)
      ultimately show False using ij by (simp add: distinct_conv_nth)
    qed
    then show ?thesis using data_inv_ids_inj [OF assms] by (simp add: distinct_map comp_inj_on)
  qed
  then have "distinct (map snapshot_ids ys)" unfolding ys_def by (rule distinct_map_filter)
  then have d: "distinct (map snapshot_ids (sortSnapshots ys))"
    by (metis distinct_map distinct_sort set_sort sortSnapshots_def)
  have "sorted (map snapshot_ids (sortSnapshots ys))" by (simp add: sortSnapshots_def)
  with d have "sorted_wrt (<) (map snapshot_ids (sortSnapshots ys))"
    by (simp add: strict_sorted_iff)
  then have "sorted_wrt (\<lambda>a b. snapshot_ids a < snapshot_ids b) (sortSnapshots ys)"
    by (simp add: sorted_wrt_map)
  moreover have "set (sortSnapshots ys) = set ys" by (simp add: sortSnapshots_def)
  ultimately show ?thesis using set by (simp add: Memory_ListInstances_def ys_def)
qed

lemma Memory_subs_spec:
  assumes "data_inv m"
  shows "\<exists>xs. Memory_ListSubscriptions m f = Inr xs \<and>
     set xs = {s. (\<exists>k. mget (subscriptions m) k = Some s) \<and> sub_matches f s}"
proof -
  have "set (map snd (subscriptions m)) = {v. \<exists>k. mget (subscriptions m) k = Some v}"
    using assms by (intro values_mget) (simp add: data_inv_def)
  then show ?thesis by (auto simp: Memory_ListSubscriptions_def)
qed

abbreviation memory_lookup :: "Memory \<Rightarrow> string \<Rightarrow> PluginSnapshot option" where
  "memory_lookup m \<equiv> mget (instances m)"

abbreviation memory_subs :: "Memory \<Rightarrow> Subscription set" where
  "memory_subs m \<equiv> {s. \<exists>k. mget (subscriptions m) k = Some s}"

interpretation mem: plugin_registry Memory_ops data_inv key memory_lookup memory_subs
proof (unfold_locales, goal_cases)
  case (1 s p i)
  then show ?case by (simp add: Memory_ops_def Memory_GetInstance_def split: option.splits)
next
  case (2 s k x)
  then show ?case using data_inv_key by metis
next
  case (3 x e w s)
  then show ?case by (simp add: Memory_ops_def Memory_RegisterInstance_def)
next
  case (4 s x w)
  obtain c where c: "snd (Memory_RegisterInstance w s x) = Inr (x\<lparr>CreatedAt := c\<rparr>)"
    "instances (fst (Memory_RegisterInstance w s x)) =
       mput (instances s) (key (PluginID x) (InstanceID x)) (x\<lparr>CreatedAt := c\<rparr>)"
    using Memory_register_spec [OF 4(2)] by blast
  have "subscriptions (fst (Memory_RegisterInstance w s x)) = subscriptions s"
    by (simp add: Memory_RegisterInstance_def Let_def split: option.splits)
  with c data_inv_register [OF 4(1), of w x] show ?case
    by (intro exI [of _ "fst (Memory_RegisterInstance w s x)"] exI [of _ c])
      (auto simp: Memory_ops_def prod_eq_iff fun_eq_iff)
next
  case (5 s l w)
  then show ?case by (simp add: Memory_ops_def Memory_RenewLease_def)
next
  case (6 s l x w)
  then show ?case
    using data_inv_renew [OF 6(1), of w l]
    by (intro exI [of _ "fst (Memory_RenewLease w s l)"]
        exI [of _ "if 0 < ls_LeaseTTL l then secs (ls_LeaseTTL l) else LeaseTTLSeconds x"])
      (auto simp: Memory_ops_def Memory_RenewLease_def Let_def fun_eq_iff)
next
  case (7 s p i w now)
  then show ?case by (simp add: Memory_ops_def Memory_UnregisterInstance_def)
next
  case (8 s p i x w now)
  then show ?case
    using data_inv_unregister [OF 8(1), of w p i now]
    by (intro exI [of _ "fst (Memory_UnregisterInstance w s p i now)"])
      (auto simp: Memory_ops_def Memory_UnregisterInstance_def Let_def fun_eq_iff)
next
  case (9 s p i w st rst md now)
  then show ?case by (simp add: Memory_ops_def Memory_ReportStatus_def)
next
  case (10 s p i x w now rst st md)
  then show ?case
    using data_inv_report [OF 10(1), of w p i st rst md now]
    by (intro exI [of _ "fst (Memory_ReportStatus w s p i st rst md now)"]
        exI [of _ "if 0 < length md then mergeMetadata (Metadata x) md else Metadata x"])
      (auto simp: Memory_ops_def Memory_ReportStatus_def Let_def fun_eq_iff)
next
  case (11 s x w)
  then show ?case by (simp add: Memory_ops_def Memory_SyncMetadata_def)
next
  case (12 s x y w)
  then show ?case
    using data_inv_sync [OF 12(1), of w x]
    by (intro exI [of _ "fst (Memory_SyncMetadata w s x)"])
      (auto simp: Memory_ops_def Memory_SyncMetadata_def Let_def fun_eq_iff)
next
  case (13 s w now)
  have "snd (Memory_ExpireLeases w s now) =
      Inr (sortSnapshots (fst (snd (expire_loop (utcOrNow w now) (instances s) (instances s) [] []))))"
    "subscriptions (fst (Memory_ExpireLeases w s now)) = subscriptions s"
    by (simp_all add: Memory_ExpireLeases_def Let_def split: prod.splits)
  with data_inv_expire [OF 13, of w now] show ?case
    by (intro exI [of _ "fst (Memory_ExpireLeases w s now)"]
        exI [of _ "sortSnapshots (fst (snd (expire_loop (utcOrNow w now) (instances s) (instances s) [] [])))"])
      (auto simp: Memory_ops_def prod_eq_iff)
next
  case (14 s w f)
  then show ?case using Memory_list_spec [OF 14, of w f] by (simp add: Memory_ops_def)
next
  case (15 w s c f)
  then show ?case by (simp add: Memory_ops_def Memory_ListByCapability_def)
next
  case (16 s f)
  then show ?case using Memory_subs_spec [OF 16, of f] by (simp add: Memory_ops_def)
next
  case (17 s w b)
  have "instances (fst (Memory_SubscribeEvent w s b)) = instances s"
    by (simp add: Memory_SubscribeEvent_def Let_def)
  then show ?case using data_inv_subscribe [OF 17, of w b] by (simp add: Memory_ops_def)
qed

section \<open>Watchers never send on a closed channel\<close>

definition chan_open :: "Memory \<Rightarrow> nat \<Rightarrow> bool" where
  "chan_open m i \<longleftrightarrow> (\<exists>c. mget (m_chans m) i = Some c \<and> \<not> cclosed c \<and> length (cbuf c) \<le> ccap c)"

text \<open>
  The goroutine of a watcher, whether the watcher is in the table, and whether its channel is
  open: registered while it sends or waits, removed but still open while it closes.
\<close>

fun pc_ok :: "watch_pc option \<Rightarrow> bool \<Rightarrow> bool \<Rightarrow> bool" where
  "pc_ok None registered opn = (\<not> registered)"
| "pc_ok (Some (Sending xs)) registered opn = (registered \<and> opn)"
| "pc_ok (Some Waiting) registered opn = (registered \<and> opn)"
| "pc_ok (Some Closing) registered opn = (\<not> registered \<and> opn)"
| "pc_ok (Some Finished) registered opn = (\<not> registered)"

definition watch_inv :: "Memory \<Rightarrow> bool" where
  "watch_inv m \<longleftrightarrow> \<not> m_panic m \<and> wf_map (watchers m) \<and>
     (\<forall>i wt. mget (watchers m) i = Some wt \<longrightarrow> mw_ch wt = i) \<and>
     (\<forall>i. nextWatcherID m \<le> i \<longrightarrow> mget (m_pcs m) i = None) \<and>
     (\<forall>i. pc_ok (mget (m_pcs m) i) (mget (watchers m) i \<noteq> None) (chan_open m i))"

lemma pc_ok_registered: "pc_ok p True opn \<Longrightarrow> opn"
  by (cases "(p, True, opn)" rule: pc_ok.cases) auto

lemma watch_inv_cong:
  "watchers m = watchers m' \<Longrightarrow> nextWatcherID m = nextWatcherID m' \<Longrightarrow> m_chans m = m_chans m' \<Longrightarrow>
   m_pcs m = m_pcs m' \<Longrightarrow> m_panic m = m_panic m' \<Longrightarrow> watch_inv m \<longleftrightarrow> watch_inv m'"
  by (simp add: watch_inv_def chan_open_def)

lemma watch_inv_data [simp]:
  "watch_inv (m\<lparr>instances := x\<rparr>) = watch_inv m" "watch_inv (m\<lparr>subscriptions := y\<rparr>) = watch_inv m"
  by (simp_all add: watch_inv_def chan_open_def)

lemma watch_inv_pcD:
  "watch_inv m \<Longrightarrow> pc_ok (mget (m_pcs m) i) (mget (watchers m) i \<noteq> None) (chan_open m i)"
  by (simp add: watch_inv_def)

lemma watch_inv_open: "watch_inv m \<Longrightarrow> mget (watchers m) i = Some wt \<Longrightarrow> mw_ch wt = i \<and> chan_open m i"
  using watch_inv_pcD [of m i] pc_ok_registered [of "mget (m_pcs m) i" "chan_open m i"]
  by (simp add: watch_inv_def)

lemma send_nb_open: "chan_open m r \<Longrightarrow> chan_open (send_nb r v m) i = chan_open m i"
  by (auto simp: chan_open_def send_nb_def trySend_bounded split: option.splits)

lemma send_nb_panic: "chan_open m r \<Longrightarrow> m_panic (send_nb r v m) = m_panic m"
  by (auto simp: chan_open_def send_nb_def)

lemma watch_inv_send_nb: "watch_inv m \<Longrightarrow> chan_open m r \<Longrightarrow> watch_inv (send_nb r v m)"
  by (simp add: watch_inv_def send_nb_open send_nb_panic)

lemma watch_inv_notify_fold:
  "watch_inv m \<Longrightarrow> set ws \<subseteq> set (watchers m) \<Longrightarrow> watch_inv (fold (notify_one w c) ws m)"
proof (induction ws arbitrary: m)
  case Nil
  then show ?case by simp
next
  case (Cons iw ws)
  obtain i wt where iw: "iw = (i, wt)" by (cases iw)
  have "mget (watchers m) i = Some wt"
    using Cons.prems mget_in_set iw by (fastforce simp: watch_inv_def)
  with Cons.prems(1) have "mw_ch wt = i" "chan_open m i" by (auto dest: watch_inv_open)
  then have "watch_inv (notify_one w c iw m)"
    using Cons.prems(1) by (simp add: notify_one_def iw watch_inv_send_nb)
  moreover have "set ws \<subseteq> set (watchers (notify_one w c iw m))" using Cons.prems(2) by simp
  ultimately show ?case by (simp add: Cons.IH)
qed

lemma watch_inv_notify: "watch_inv m \<Longrightarrow> watch_inv (notify w m c)"
  by (simp add: notify_def Let_def watch_inv_notify_fold)

lemma watch_inv_notify_all: "watch_inv m \<Longrightarrow> watch_inv (fold (\<lambda>c m. notify w m c) cs m)"
  by (induction cs arbitrary: m) (auto simp: watch_inv_notify)

lemma watch_inv_ops:
  "watch_inv m \<Longrightarrow> watch_inv (fst (Memory_RegisterInstance w m x))"
  "watch_inv m \<Longrightarrow> watch_inv (fst (Memory_RenewLease w m l))"
  "watch_inv m \<Longrightarrow> watch_inv (fst (Memory_UnregisterInstance w m p i now))"
  "watch_inv m \<Longrightarrow> watch_inv (fst (Memory_ReportStatus w m p i st rst md now))"
  "watch_inv m \<Longrightarrow> watch_inv (fst (Memory_SyncMetadata w m x))"
  "watch_inv m \<Longrightarrow> watch_inv (fst (Memory_ExpireLeases w m now))"
  "watch_inv m \<Longrightarrow> watch_inv (fst (Memory_SubscribeEvent w m sb))"
  by (simp_all add: Memory_RegisterInstance_def Memory_RenewLease_def Memory_UnregisterInstance_def
      Memory_ReportStatus_def Memory_SyncMetadata_def Memory_ExpireLeases_def Memory_SubscribeEvent_def
      Let_def watch_inv_notify watch_inv_notify_all split: option.splits prod.splits)

lemma watch_inv_Watch: "watch_inv m \<Longrightarrow> watch_inv (fst (Memory_Watch w m opt))"
  by (auto simp: watch_inv_def Memory_Watch_def Let_def chan_open_def)

lemma watch_inv_pc: "watch_inv m \<Longrightarrow> mget (m_pcs m) i = Some pc \<Longrightarrow> i < nextWatcherID m"
  unfolding watch_inv_def by (metis linorder_not_less option.distinct(1))

lemma watch_inv_set_pc:
  assumes "watch_inv m" and "mget (m_pcs m) i = Some pc"
    and "pc_ok (Some pc') (mget (watchers m) i \<noteq> None) (chan_open m i)"
  shows "watch_inv (m\<lparr>m_pcs := mput (m_pcs m) i pc'\<rparr>)"
  using assms watch_inv_pc [OF assms(1,2)] by (auto simp: watch_inv_def chan_open_def)

lemma watch_inv_send:
  assumes "watch_inv m" and "mget (m_pcs m) i = Some (Sending xs)"
  shows "watch_inv (watch_send w m i)"
proof -
  have o: "chan_open m i" and r: "mget (watchers m) i \<noteq> None"
    using watch_inv_pcD [OF assms(1), of i] assms(2) by auto
  show ?thesis
  proof (cases xs)
    case Nil
    with watch_inv_set_pc [OF assms, of Waiting] assms(2) o r show ?thesis
      by (simp add: watch_send_def)
  next
    case (Cons x ys)
    have "watch_inv ((send_nb i v m)\<lparr>m_pcs := mput (m_pcs m) i (Sending ys)\<rparr>)" for v
      using watch_inv_set_pc [OF watch_inv_send_nb [OF assms(1) o, of v], of i "Sending xs" "Sending ys"]
        assms(2) o r by (simp add: send_nb_open)
    with Cons assms(2) show ?thesis by (simp add: watch_send_def Let_def)
  qed
qed

lemma watch_inv_remove:
  assumes "watch_inv m" and "mget (m_pcs m) i = Some (Sending xs) \<or> mget (m_pcs m) i = Some Waiting"
  shows "watch_inv (closeWatcher_remove m i)"
proof -
  have o: "chan_open m i" and r: "mget (watchers m) i \<noteq> None" and lt: "i < nextWatcherID m"
    using watch_inv_pcD [OF assms(1), of i] assms watch_inv_pc [OF assms(1)] by auto
  then obtain wt where "mget (watchers m) i = Some wt" by auto
  with assms(1) o lt show ?thesis
    by (auto simp: watch_inv_def closeWatcher_remove_def chan_open_def)
qed

lemma watch_inv_close:
  assumes "watch_inv m" and "mget (m_pcs m) i = Some Closing"
  shows "watch_inv (closeWatcher_close m i)"
proof -
  have o: "chan_open m i" and r: "mget (watchers m) i = None" and lt: "i < nextWatcherID m"
    using watch_inv_pcD [OF assms(1), of i] assms watch_inv_pc [OF assms] by auto
  then obtain c where "mget (m_chans m) i = Some c" "\<not> cclosed c" by (auto simp: chan_open_def)
  with assms(1) r lt show ?thesis
    by (auto simp: watch_inv_def closeWatcher_close_def chan_open_def)
qed

lemma watch_recv_open: "chan_open m j \<Longrightarrow> chan_open (fst (watch_recv m i)) j"
  by (auto simp: chan_open_def watch_recv_def split: option.splits list.splits)

lemma pc_ok_mono: "pc_ok p r o1 \<Longrightarrow> (o1 \<Longrightarrow> o2) \<Longrightarrow> pc_ok p r o2"
  by (cases "(p, r, o1)" rule: pc_ok.cases) auto

lemma watch_inv_recv: "watch_inv m \<Longrightarrow> watch_inv (fst (watch_recv m i))"
proof -
  assume inv: "watch_inv m"
  have frame: "watchers (fst (watch_recv m i)) = watchers m" "m_pcs (fst (watch_recv m i)) = m_pcs m"
    "nextWatcherID (fst (watch_recv m i)) = nextWatcherID m" "m_panic (fst (watch_recv m i)) = m_panic m"
    by (simp_all add: watch_recv_def split: option.splits list.splits)
  show ?thesis using inv unfolding watch_inv_def frame
    using pc_ok_mono watch_recv_open by blast
qed

text \<open>
  The rule \<open>locked\<close> is an operation that has released the mutex and not yet sent its notification,
  which \<open>notify\<close> makes later, after any other steps.
\<close>

inductive mem_step :: "Memory \<Rightarrow> Memory \<Rightarrow> bool" where
  register: "mem_step m (fst (Memory_RegisterInstance w m x))"
| renew: "mem_step m (fst (Memory_RenewLease w m l))"
| unregister: "mem_step m (fst (Memory_UnregisterInstance w m p i now))"
| report: "mem_step m (fst (Memory_ReportStatus w m p i st rst md now))"
| sync: "mem_step m (fst (Memory_SyncMetadata w m x))"
| expire: "mem_step m (fst (Memory_ExpireLeases w m now))"
| subscribe: "mem_step m (fst (Memory_SubscribeEvent w m sb))"
| notify: "mem_step m (notify w m c)"
| watch: "mem_step m (fst (Memory_Watch w m opt))"
| send: "mget (m_pcs m) j = Some (Sending xs) \<Longrightarrow> mem_step m (watch_send w m j)"
| cancel: "mget (m_pcs m) j = Some (Sending xs) \<or> mget (m_pcs m) j = Some Waiting \<Longrightarrow>
    mem_step m (closeWatcher_remove m j)"
| close: "mget (m_pcs m) j = Some Closing \<Longrightarrow> mem_step m (closeWatcher_close m j)"
| recv: "mem_step m (fst (watch_recv m j))"
| locked: "mem_step m m' \<Longrightarrow>
    mem_step m (m\<lparr>instances := instances m', subscriptions := subscriptions m'\<rparr>)"

inductive mem_reachable :: "Memory \<Rightarrow> bool" where
  start: "mem_reachable NewMemory"
| step: "mem_reachable m \<Longrightarrow> mem_step m m' \<Longrightarrow> mem_reachable m'"

lemma watch_frame [simp]:
  "instances (fst (Memory_Watch w m opt)) = instances m"
  "subscriptions (fst (Memory_Watch w m opt)) = subscriptions m"
  "instances (watch_send w m j) = instances m" "subscriptions (watch_send w m j) = subscriptions m"
  "instances (closeWatcher_remove m j) = instances m"
  "subscriptions (closeWatcher_remove m j) = subscriptions m"
  "instances (closeWatcher_close m j) = instances m"
  "subscriptions (closeWatcher_close m j) = subscriptions m"
  "instances (fst (watch_recv m j)) = instances m"
  "subscriptions (fst (watch_recv m j)) = subscriptions m"
  by (simp_all add: Memory_Watch_def watch_send_def closeWatcher_remove_def closeWatcher_close_def
      watch_recv_def Let_def split: option.splits watch_pc.splits list.splits)

lemmas data_inv_watch = data_inv_cong [OF watch_frame(1,2)] data_inv_cong [OF watch_frame(3,4)]
  data_inv_cong [OF watch_frame(5,6)] data_inv_cong [OF watch_frame(7,8)]
  data_inv_cong [OF watch_frame(9,10)]

lemma mem_step_data_inv: "mem_step m m' \<Longrightarrow> data_inv m \<Longrightarrow> data_inv m'"
proof (induction rule: mem_step.induct)
  case (locked m m')
  then show ?case by (simp add: data_inv_cong [of "m\<lparr>instances := instances m', subscriptions := subscriptions m'\<rparr>" m'])
qed (simp_all add: data_inv_ops data_inv_notify data_inv_watch)

lemma mem_step_watch_inv: "mem_step m m' \<Longrightarrow> watch_inv m \<Longrightarrow> watch_inv m'"
  by (induction rule: mem_step.induct)
    (auto simp: watch_inv_ops watch_inv_notify watch_inv_Watch watch_inv_recv
      intro: watch_inv_send watch_inv_remove watch_inv_close)

lemma reachable_inv: "mem_reachable m \<Longrightarrow> data_inv m \<and> watch_inv m"
proof (induction rule: mem_reachable.induct)
  case start
  have "watch_inv NewMemory" by (simp add: watch_inv_def NewMemory_def)
  then show ?case by (simp add: data_inv_NewMemory)
next
  case (step m m')
  then show ?case using mem_step_data_inv mem_step_watch_inv by blast
qed

text \<open>What a broadcast does to one channel.\<close>

lemma notify_fold_chan:
  "wf_map ws \<Longrightarrow> set ws \<subseteq> set (watchers m) \<Longrightarrow> watch_inv m \<Longrightarrow> mget (m_chans m) i = Some c \<Longrightarrow>
   mget (m_chans (fold (notify_one w ch) ws m)) i =
     (case map_of ws i of
        Some wt \<Rightarrow> Some (if matchesChange w ch (mw_filter wt) then trySend ch c else c)
      | None \<Rightarrow> Some c)"
proof (induction ws arbitrary: m c)
  case Nil
  then show ?case by simp
next
  case (Cons iw ws)
  obtain j wt where iw: "iw = (j, wt)" by (cases iw)
  have wf: "wf_map ws" and none: "map_of ws j = None"
    using Cons.prems(1) by (auto simp: wf_map_def iw map_of_eq_None_iff)
  have "mget (watchers m) j = Some wt"
    using Cons.prems(2,3) mget_in_set iw by (fastforce simp: watch_inv_def)
  then have j: "mw_ch wt = j" "chan_open m j" using Cons.prems(3) by (auto dest: watch_inv_open)
  define m1 where "m1 = notify_one w ch iw m"
  have inv: "watch_inv m1" using Cons.prems(3) j by (simp add: m1_def notify_one_def iw watch_inv_send_nb)
  have sub: "set ws \<subseteq> set (watchers m1)" using Cons.prems(2) by (simp add: m1_def)
  have c1: "mget (m_chans m1) i =
      Some (if i = j \<and> matchesChange w ch (mw_filter wt) then trySend ch c else c)"
    using j Cons.prems(4) by (auto simp: m1_def notify_one_def iw send_nb_def chan_open_def split: option.splits)
  show ?case using Cons.IH [OF wf sub inv c1] none
    by (cases "i = j") (simp_all add: m1_def iw split: option.splits)
qed

end
