(* ===== verification/Plugin_Router.thy ===== *)
theory Plugin_Router
  imports Registry_Memory
begin

text \<open>
  Routing of capability calls and events, \<open>pkg/plugin/router/router.go\<close>, and the direct event
  bus, \<open>pkg/plugin/event/event.go\<close>. The router's registry is the registry state its operations
  take and return; \<open>w\<close> is the wall clock and \<open>now\<close> the reading of the router clock. A transport
  (\<open>RemoteInvoker\<close>) is a parameter: its answer may depend on every call made so far, which the
  router state keeps in \<open>rt_calls\<close> together with the timeout of the call context. The
  round-robin counters are unbounded.

  The lemmas show that the router only calls live instances, that consecutive picks go round
  the candidates, and that enough retries reach every candidate.
\<close>

datatype call =
    CallInvoke string "duration option" PluginSnapshot InvokeRequest
  | CallPush string "duration option" PluginSnapshot PushEventRequest

record RemoteInvoker =
  ri_Invoke :: "call list \<Rightarrow> PluginSnapshot \<Rightarrow> InvokeRequest \<Rightarrow> json result"
  ri_PushEvent :: "call list \<Rightarrow> PluginSnapshot \<Rightarrow> PushEventRequest \<Rightarrow> goerror option"

record Router =
  rt_remoteInvokers :: "(string, RemoteInvoker) gomap"
  rt_requestTimeout :: duration
  rt_retryCount :: int
  rt_counters :: "(string, nat) gomap"
  rt_calls :: "call list"

definition cloneInvokers :: "(string, RemoteInvoker option) gomap \<Rightarrow> (string, RemoteInvoker) gomap" where
  "cloneInvokers src =
     fold (\<lambda>(k, v) dst. case v of
             Some i \<Rightarrow> if \<not> blank k then mput dst (TrimSpace k) i else dst
           | None \<Rightarrow> dst) src []"

definition NewRouter :: "(string, RemoteInvoker option) gomap \<Rightarrow> duration \<Rightarrow> int \<Rightarrow> Router" where
  "NewRouter invokers requestTimeout retryCount =
     \<lparr>rt_remoteInvokers = cloneInvokers invokers,
      rt_requestTimeout = (if requestTimeout \<le> 0 then 10 * Second else requestTimeout),
      rt_retryCount = retryCount, rt_counters = [], rt_calls = []\<rparr>"

definition Router_RegisterRemoteInvoker ::
    "Router \<Rightarrow> string \<Rightarrow> RemoteInvoker option \<Rightarrow> Router \<times> goerror option" where
  "Router_RegisterRemoteInvoker r transport invk =
     (let transport = TrimSpace transport in
      if transport = [] then (r, Some router_ErrTransportUnavailable)
      else case invk of
             None \<Rightarrow> (r, Some router_ErrTransportUnavailable)
           | Some i \<Rightarrow> (r\<lparr>rt_remoteInvokers := mput (rt_remoteInvokers r) transport i\<rparr>, None))"

definition healthy_item :: "gotime \<Rightarrow> (string, RemoteInvoker) gomap \<Rightarrow> PluginSnapshot \<Rightarrow> bool" where
  "healthy_item now invokers item =
     (if Status item \<noteq> StatusOnline then False
      else if \<not> IsZero (LeaseExpiresAt item) \<and> \<not> After (LeaseExpiresAt item) now then False
      else if mget invokers (EffectiveTransport (metadata_of item)) = None then False
      else True)"

definition healthy ::
    "PluginSnapshot list \<Rightarrow> gotime \<Rightarrow> (string, RemoteInvoker) gomap \<Rightarrow> PluginSnapshot list" where
  "healthy items now invokers = filter (healthy_item now invokers) items"

definition pick :: "Router \<Rightarrow> string \<Rightarrow> PluginSnapshot list \<Rightarrow> Router \<times> PluginSnapshot result" where
  "pick r routeKey items =
     (if items = [] then (r, Inl router_ErrNoRoute)
      else
        let counter = (case mget (rt_counters r) routeKey of None \<Rightarrow> 0 | Some c \<Rightarrow> c);
            index = counter mod length items
        in (r\<lparr>rt_counters := mput (rt_counters r) routeKey (counter + 1)\<rparr>, Inr (items ! index)))"

definition Router_invoker :: "Router \<Rightarrow> string \<Rightarrow> RemoteInvoker option" where
  "Router_invoker r transport = mget (rt_remoteInvokers r) transport"

definition callContext :: "Router \<Rightarrow> int \<Rightarrow> duration option" where
  "callContext r timeoutMillis =
     (let timeout = (if 0 < timeoutMillis then wrap64 (timeoutMillis * Millisecond)
                     else rt_requestTimeout r) in
      if timeout \<le> 0 then None else Some timeout)"

definition live_filter :: "string \<Rightarrow> string \<Rightarrow> gotime \<Rightarrow> InstanceFilter" where
  "live_filter pluginID instanceID now =
     \<lparr>if_PluginID = TrimSpace pluginID, if_InstanceID = TrimSpace instanceID, if_Capability = [],
      if_Status = StatusOnline, IncludeExpired = False, if_Now = now\<rparr>"

definition candidate_items ::
    "'r RegistryOps \<Rightarrow> gotime \<Rightarrow> 'r \<Rightarrow> InstanceFilter \<Rightarrow> string \<Rightarrow> PluginSnapshot list result" where
  "candidate_items ops w reg f capability =
     (if if_InstanceID f \<noteq> [] then
        (case ro_GetInstance ops reg (if_PluginID f) (if_InstanceID f) of
           Inl e \<Rightarrow> Inl e
         | Inr item \<Rightarrow> Inr [item])
      else if \<not> blank capability then ro_ListByCapability ops w reg capability f
      else ro_ListInstances ops w reg f)"

definition candidates ::
    "'r RegistryOps \<Rightarrow> gotime \<Rightarrow> gotime \<Rightarrow> 'r \<Rightarrow> Router \<Rightarrow> string \<Rightarrow> string \<Rightarrow> string \<Rightarrow>
     'r \<times> PluginSnapshot list result" where
  "candidates ops w now reg r pluginID instanceID capability =
     (let reg = fst (ro_ExpireLeases ops w reg now) in
      case candidate_items ops w reg (live_filter pluginID instanceID now) capability of
        Inl e \<Rightarrow> (reg, Inl e)
      | Inr items \<Rightarrow>
          let items = healthy items now (rt_remoteInvokers r) in
          if length items = 0 then (reg, Inl router_ErrPluginOffline) else (reg, Inr items))"

text \<open>One remote call: the routed instance is written into the request the peer sees.\<close>

definition invoke_once ::
    "Router \<Rightarrow> InvokeRequest \<Rightarrow> PluginSnapshot \<Rightarrow> RemoteInvoker \<Rightarrow> Router \<times> json result" where
  "invoke_once r req plugin i =
     (let callReq = req\<lparr>inv_PluginID := PluginID plugin, inv_InstanceID := InstanceID plugin\<rparr>;
          callCtx = callContext r (inv_TimeoutMillis req)
      in (r\<lparr>rt_calls := rt_calls r @
              [CallInvoke (EffectiveTransport (metadata_of plugin)) callCtx plugin callReq]\<rparr>,
          ri_Invoke i (rt_calls r) plugin callReq))"

fun invoke_loop ::
    "nat \<Rightarrow> Router \<Rightarrow> InvokeRequest \<Rightarrow> PluginSnapshot list \<Rightarrow> goerror option \<Rightarrow>
     Router \<times> InvokeResponse result" where
  "invoke_loop 0 r req items lastErr =
     (r, case lastErr of Some e \<Rightarrow> Inl e | None \<Rightarrow> Inl router_ErrNoRoute)"
| "invoke_loop (Suc n) r req items lastErr =
     (case pick r (inv_Capability req) items of
        (r, Inl e) \<Rightarrow> (r, Inl e)
      | (r, Inr plugin) \<Rightarrow>
          (case Router_invoker r (EffectiveTransport (metadata_of plugin)) of
             None \<Rightarrow> (r, Inl router_ErrTransportUnavailable)
           | Some i \<Rightarrow>
               (case invoke_once r req plugin i of
                  (r, Inr res) \<Rightarrow> (r, Inr \<lparr>invr_Capability = inv_Capability req, invr_Result = res\<rparr>)
                | (r, Inl e) \<Rightarrow> invoke_loop n r req items (Some e))))"

definition attempts :: "Router \<Rightarrow> nat" where
  "attempts r = (let a = wrap64 (rt_retryCount r + 1) in if a < 1 then 1 else nat a)"

definition Router_Invoke ::
    "'r RegistryOps \<Rightarrow> gotime \<Rightarrow> gotime \<Rightarrow> 'r \<Rightarrow> Router \<Rightarrow> InvokeRequest \<Rightarrow>
     'r \<times> Router \<times> InvokeResponse result" where
  "Router_Invoke ops w now reg r req =
     (if blank (inv_Capability req) then (reg, r, Inl router_ErrInvalidRequest)
      else case candidates ops w now reg r (inv_PluginID req) (inv_InstanceID req) (inv_Capability req) of
             (reg, Inl e) \<Rightarrow> (reg, r, Inl e)
           | (reg, Inr items) \<Rightarrow> (reg, invoke_loop (attempts r) r req items None))"

text \<open>The subscribers of an event, one per instance, in the order of the subscriptions.\<close>

fun subscriber_loop ::
    "'r RegistryOps \<Rightarrow> 'r \<Rightarrow> Subscription list \<Rightarrow> string list \<Rightarrow> PluginSnapshot list \<Rightarrow>
     PluginSnapshot list" where
  "subscriber_loop ops reg [] seen out = out"
| "subscriber_loop ops reg (sub # subs) seen out =
     (let k = sub_PluginID sub @ [CHR 0x00] @ sub_InstanceID sub in
      if k \<in> set seen then subscriber_loop ops reg subs seen out
      else case ro_GetInstance ops reg (sub_PluginID sub) (sub_InstanceID sub) of
             Inl e \<Rightarrow> subscriber_loop ops reg subs (k # seen) out
           | Inr item \<Rightarrow> subscriber_loop ops reg subs (k # seen) (out @ [item]))"

definition eventTargets ::
    "'r RegistryOps \<Rightarrow> gotime \<Rightarrow> gotime \<Rightarrow> 'r \<Rightarrow> Router \<Rightarrow> PushEventRequest \<Rightarrow>
     'r \<times> PluginSnapshot list result" where
  "eventTargets ops w now reg r req =
     (if \<not> blank (pu_PluginID req) \<or> \<not> blank (pu_InstanceID req)
      then candidates ops w now reg r (pu_PluginID req) (pu_InstanceID req) []
      else case ro_ListSubscriptions ops reg
                  \<lparr>sf_PluginID = [], sf_InstanceID = [], sf_Event = pu_Event req\<rparr> of
             Inl e \<Rightarrow> (reg, Inl e)
           | Inr subs \<Rightarrow>
               let reg = fst (ro_ExpireLeases ops w reg now);
                   out = subscriber_loop ops reg subs [] []
               in (reg, Inr (healthy out now (rt_remoteInvokers r))))"

definition push_once ::
    "Router \<Rightarrow> PushEventRequest \<Rightarrow> PluginSnapshot \<Rightarrow> RemoteInvoker \<Rightarrow> Router \<times> goerror option" where
  "push_once r req plugin i =
     (let callReq = req\<lparr>pu_PluginID := PluginID plugin, pu_InstanceID := InstanceID plugin\<rparr>;
          callCtx = callContext r 0
      in (r\<lparr>rt_calls := rt_calls r @
              [CallPush (EffectiveTransport (metadata_of plugin)) callCtx plugin callReq]\<rparr>,
          ri_PushEvent i (rt_calls r) plugin callReq))"

fun push_loop ::
    "Router \<Rightarrow> PushEventRequest \<Rightarrow> PluginSnapshot list \<Rightarrow> int \<Rightarrow> goerror option \<Rightarrow>
     Router \<times> int \<times> goerror option" where
  "push_loop r req [] delivered lastErr = (r, delivered, lastErr)"
| "push_loop r req (plugin # rest) delivered lastErr =
     (case Router_invoker r (EffectiveTransport (metadata_of plugin)) of
        None \<Rightarrow> push_loop r req rest delivered (Some router_ErrTransportUnavailable)
      | Some i \<Rightarrow>
          (case push_once r req plugin i of
             (r, Some e) \<Rightarrow> push_loop r req rest delivered (Some e)
           | (r, None) \<Rightarrow> push_loop r req rest (delivered + 1) lastErr))"

definition Router_PushEvent ::
    "'r RegistryOps \<Rightarrow> gotime \<Rightarrow> gotime \<Rightarrow> 'r \<Rightarrow> Router \<Rightarrow> PushEventRequest \<Rightarrow>
     'r \<times> Router \<times> PushEventResponse result" where
  "Router_PushEvent ops w now reg r req =
     (if blank (pu_Event req) then (reg, r, Inl router_ErrInvalidRequest)
      else case eventTargets ops w now reg r req of
             (reg, Inl e) \<Rightarrow> (reg, r, Inl e)
           | (reg, Inr items) \<Rightarrow>
               (case push_loop r req items 0 None of
                  (r, delivered, lastErr) \<Rightarrow>
                    (reg, r,
                     if delivered = 0 \<and> lastErr \<noteq> None then Inl (the lastErr)
                     else Inr \<lparr>pur_Accepted = True, pur_Event = pu_Event req,
                               pur_Delivered = delivered\<rparr>)))"

section \<open>The direct event bus\<close>

definition DirectBus_Publish ::
    "'r RegistryOps \<Rightarrow> gotime \<Rightarrow> gotime \<Rightarrow> 'r \<Rightarrow> Router \<Rightarrow> PushEventRequest \<Rightarrow>
     'r \<times> Router \<times> PushEventResponse result" where
  "DirectBus_Publish ops w now reg r req = Router_PushEvent ops w now reg r req"

fun subscribe_loop ::
    "'r RegistryOps \<Rightarrow> gotime \<Rightarrow> 'r \<Rightarrow> SubscribeEventRequest \<Rightarrow> string list \<Rightarrow> string list \<Rightarrow>
     'r \<times> string list result" where
  "subscribe_loop ops w reg req [] accepted = (reg, Inr accepted)"
| "subscribe_loop ops w reg req (eventName # rest) accepted =
     (case ro_SubscribeEvent ops w reg
             \<lparr>sub_PluginID = se_PluginID req, sub_InstanceID = se_InstanceID req, sub_Event = eventName,
              sub_Filters = se_Filters req, sub_CreatedAt = 0, sub_UpdatedAt = 0\<rparr> of
        (reg, Inl e) \<Rightarrow> (reg, Inl e)
      | (reg, Inr sub) \<Rightarrow> subscribe_loop ops w reg req rest (accepted @ [sub_Event sub]))"

definition DirectBus_Subscribe ::
    "'r RegistryOps \<Rightarrow> gotime \<Rightarrow> 'r \<Rightarrow> SubscribeEventRequest \<Rightarrow> 'r \<times> SubscribeEventResponse result" where
  "DirectBus_Subscribe ops w reg req =
     (case subscribe_loop ops w reg req (se_Events req) [] of
        (reg, Inl e) \<Rightarrow> (reg, Inl e)
      | (reg, Inr accepted) \<Rightarrow>
          (reg, Inr \<lparr>ser_PluginID = se_PluginID req, ser_InstanceID = se_InstanceID req,
                     ser_Events = accepted, ser_Accepted = True\<rparr>))"

section \<open>Round robin\<close>

definition counter :: "Router \<Rightarrow> string \<Rightarrow> nat" where
  "counter r k = (case mget (rt_counters r) k of None \<Rightarrow> 0 | Some c \<Rightarrow> c)"

lemma pick_eq: "items \<noteq> [] \<Longrightarrow> pick r k items =
    (r\<lparr>rt_counters := mput (rt_counters r) k (counter r k + 1)\<rparr>, Inr (items ! (counter r k mod length items)))"
  by (simp add: pick_def counter_def Let_def)

lemma counter_upd [simp]:
  "counter (r\<lparr>rt_counters := mput (rt_counters r) k c\<rparr>) k' = (if k' = k then c else counter r k')"
  "counter (r\<lparr>rt_calls := cs\<rparr>) k = counter r k"
  by (simp_all add: counter_def)

fun picks :: "nat \<Rightarrow> Router \<Rightarrow> string \<Rightarrow> PluginSnapshot list \<Rightarrow> PluginSnapshot result list" where
  "picks 0 r k items = []"
| "picks (Suc n) r k items = snd (pick r k items) # picks n (fst (pick r k items)) k items"

lemma picks_eq: "items \<noteq> [] \<Longrightarrow>
    picks n r k items = map (\<lambda>i. Inr (items ! ((counter r k + i) mod length items))) [0..<n]"
proof (induction n arbitrary: r)
  case 0
  then show ?case by simp
next
  case (Suc n)
  then show ?case by (simp add: pick_eq upt_conv_Cons map_Suc_upt [symmetric] del: upt_Suc)
qed

lemma rotate_map_nth: "items \<noteq> [] \<Longrightarrow>
    map (\<lambda>i. items ! ((c + i) mod length items)) [0..<length items] = rotate c items"
  by (rule nth_equalityI) (auto simp: nth_rotate)

section \<open>Enough retries reach every candidate\<close>

definition answers :: "Router \<Rightarrow> InvokeRequest \<Rightarrow> PluginSnapshot \<Rightarrow> bool" where
  "answers r req x \<longleftrightarrow> (\<exists>i. Router_invoker r (EffectiveTransport (metadata_of x)) = Some i \<and>
     (\<forall>h. \<exists>v. ri_Invoke i h x (req\<lparr>inv_PluginID := PluginID x, inv_InstanceID := InstanceID x\<rparr>) = Inr v))"

lemma invoker_upd [simp]:
  "Router_invoker (r\<lparr>rt_counters := c\<rparr>) t = Router_invoker r t"
  "Router_invoker (r\<lparr>rt_calls := d\<rparr>) t = Router_invoker r t"
  by (simp_all add: Router_invoker_def)

lemma answers_upd [simp]:
  "answers (r\<lparr>rt_counters := c\<rparr>) req x = answers r req x" "answers (r\<lparr>rt_calls := d\<rparr>) req x = answers r req x"
  by (simp_all add: answers_def)

lemma once_frame [simp]:
  "counter (fst (invoke_once r req x i)) k = counter r k"
  "Router_invoker (fst (invoke_once r req x i)) t = Router_invoker r t"
  "answers (fst (invoke_once r req x i)) rq y = answers r rq y"
  "counter (fst (push_once r prq x i)) k = counter r k"
  "Router_invoker (fst (push_once r prq x i)) t = Router_invoker r t"
  by (simp_all add: invoke_once_def push_once_def Let_def)

lemma pick_frame [simp]:
  "Router_invoker (fst (pick r k items)) t = Router_invoker r t"
  "answers (fst (pick r k items)) req x = answers r req x"
  by (simp_all add: pick_def Let_def)

lemma answers_once:
  "answers r req x \<Longrightarrow> Router_invoker r (EffectiveTransport (metadata_of x)) = Some i \<Longrightarrow>
   \<exists>v. snd (invoke_once r' req x i) = Inr v"
  by (auto simp: answers_def invoke_once_def Let_def)

lemma invoke_loop_reaches:
  assumes "items \<noteq> []"
    and "\<And>x. x \<in> set items \<Longrightarrow> Router_invoker r (EffectiveTransport (metadata_of x)) \<noteq> None"
    and "j < n" and "answers r req (items ! ((counter r (inv_Capability req) + j) mod length items))"
  shows "\<exists>v. snd (invoke_loop n r req items e) = Inr v"
  using assms
proof (induction n arbitrary: r j e)
  case 0
  then show ?case by simp
next
  case (Suc n)
  define c where "c = counter r (inv_Capability req)"
  define x where "x = items ! (c mod length items)"
  define r1 where "r1 = fst (pick r (inv_Capability req) items)"
  have p: "pick r (inv_Capability req) items = (r1, Inr x)" and c1: "counter r1 (inv_Capability req) = c + 1"
    using Suc.prems(1) by (simp_all add: r1_def x_def c_def pick_eq)
  have "x \<in> set items" using Suc.prems(1) by (simp add: x_def)
  then obtain i where i: "Router_invoker r (EffectiveTransport (metadata_of x)) = Some i"
    using Suc.prems(2) by blast
  then have i1: "Router_invoker r1 (EffectiveTransport (metadata_of x)) = Some i" by (simp add: r1_def)
  obtain r2 a where once: "invoke_once r1 req x i = (r2, a)" by (cases "invoke_once r1 req x i")
  show ?case
  proof (cases a)
    case (Inr v)
    then show ?thesis using p i1 once by simp
  next
    case (Inl e')
    have r2: "r2 = fst (invoke_once r1 req x i)" using once by simp
    have "\<not> answers r req x" using answers_once [OF _ i, of req r1] once Inl by auto
    then have "j \<noteq> 0" using Suc.prems(4) by (intro notI) (simp add: x_def c_def)
    then obtain j' where j': "j = Suc j'" by (cases j) auto
    have a2: "answers r2 req (items ! ((counter r2 (inv_Capability req) + j') mod length items))"
      using Suc.prems(4) c1 by (simp add: r2 j' r1_def c_def)
    have "\<exists>v. snd (invoke_loop n r2 req items (Some e')) = Inr v"
      using Suc.prems(1-3) j' by (intro Suc.IH [OF _ _ _ a2]) (auto simp: r2 r1_def)
    then show ?thesis using p i1 once Inl by simp
  qed
qed

lemma round_trip_index:
  assumes "k < length items"
  shows "\<exists>j < length items. (c + j) mod length items = k"
proof -
  define n where "n = length items"
  define j where "j = (k + (n - c mod n)) mod n"
  have n: "0 < n" "k < n" using assms by (auto simp: n_def)
  have "(c + j) mod n = (c mod n + (k + (n - c mod n))) mod n"
    unfolding j_def by (metis mod_add_eq mod_add_right_eq mod_mod_trivial)
  also have "c mod n + (k + (n - c mod n)) = k + n" using n mod_less_divisor [of n c] by linarith
  also have "(k + n) mod n = k" using n by simp
  finally show ?thesis using n by (auto simp: n_def j_def intro!: exI [of _ j])
qed

section \<open>Only live instances are called\<close>

definition call_target :: "call \<Rightarrow> PluginSnapshot" where
  "call_target c = (case c of CallInvoke t d x q \<Rightarrow> x | CallPush t d x q \<Rightarrow> x)"

lemma pick_calls [simp]: "rt_calls (fst (pick r k items)) = rt_calls r"
  by (simp add: pick_def Let_def)

lemma pick_member: "snd (pick r k items) = Inr x \<Longrightarrow> x \<in> set items"
  by (cases "items = []") (auto simp: pick_eq, simp add: pick_def)

lemma once_calls:
  "\<exists>c. rt_calls (fst (invoke_once r req x i)) = rt_calls r @ [c] \<and> call_target c = x"
  "\<exists>c. rt_calls (fst (push_once r prq x i)) = rt_calls r @ [c] \<and> call_target c = x"
  by (auto simp: invoke_once_def push_once_def Let_def call_target_def)

lemma invoke_loop_calls:
  "\<exists>cs. rt_calls (fst (invoke_loop n r req items e)) = rt_calls r @ cs \<and> call_target ` set cs \<subseteq> set items \<and>
     length cs \<le> n"
proof (induction n arbitrary: r e)
  case 0
  then show ?case by simp
next
  case (Suc n)
  obtain r1 p where p: "pick r (inv_Capability req) items = (r1, p)" by (cases "pick r (inv_Capability req) items")
  have c1: "rt_calls r1 = rt_calls r" using pick_calls [of r "inv_Capability req" items] p by simp
  consider (stop) z where "invoke_loop (Suc n) r req items e = (r1, z)"
    | (call) x i where "p = Inr x" "Router_invoker r1 (EffectiveTransport (metadata_of x)) = Some i"
  proof (cases p)
    case (Inl a)
    then show ?thesis using p that(1) by simp
  next
    case (Inr x)
    then show ?thesis using p that
      by (cases "Router_invoker r1 (EffectiveTransport (metadata_of x))") simp_all
  qed
  then show ?case
  proof cases
    case stop
    then show ?thesis using c1 by (intro exI [of _ "[]"]) simp
  next
    case call
    then have x: "x \<in> set items" using pick_member [of r "inv_Capability req" items x] p by simp
    obtain c where c: "rt_calls (fst (invoke_once r1 req x i)) = rt_calls r @ [c]" "call_target c = x"
      using once_calls(1) [of r1] c1 by metis
    obtain r2 a where once: "invoke_once r1 req x i = (r2, a)" by (cases "invoke_once r1 req x i")
    show ?thesis
    proof (cases a)
      case (Inr v)
      then show ?thesis using p call once c x by (intro exI [of _ "[c]"]) simp
    next
      case (Inl e')
      obtain cs where "rt_calls (fst (invoke_loop n r2 req items (Some e'))) = rt_calls r2 @ cs"
        "call_target ` set cs \<subseteq> set items" "length cs \<le> n" using Suc.IH by blast
      then show ?thesis using p call once c x Inl by (intro exI [of _ "c # cs"]) simp
    qed
  qed
qed

lemma push_loop_calls:
  "\<exists>cs. rt_calls (fst (push_loop r req items d e)) = rt_calls r @ cs \<and> call_target ` set cs \<subseteq> set items"
proof (induction items arbitrary: r d e)
  case Nil
  then show ?case by simp
next
  case (Cons x items)
  show ?case
  proof (cases "Router_invoker r (EffectiveTransport (metadata_of x))")
    case None
    then show ?thesis using Cons.IH [of r d "Some router_ErrTransportUnavailable"] by auto
  next
    case (Some i)
    obtain c where c: "rt_calls (fst (push_once r req x i)) = rt_calls r @ [c]" "call_target c = x"
      using once_calls(2) by metis
    obtain r2 a where once: "push_once r req x i = (r2, a)" by (cases "push_once r req x i")
    obtain d' e' where eq: "push_loop r req (x # items) d e = push_loop r2 req items d' e'"
      using Some once by (cases a) auto
    obtain cs where "rt_calls (fst (push_loop r2 req items d' e')) = rt_calls r2 @ cs"
      "call_target ` set cs \<subseteq> set items" using Cons.IH by blast
    then show ?thesis using c once unfolding eq by (intro exI [of _ "c # cs"]) auto
  qed
qed

definition live :: "gotime \<Rightarrow> PluginSnapshot \<Rightarrow> bool" where
  "live now x \<longleftrightarrow> Status x = StatusOnline \<and> (LeaseExpiresAt x = 0 \<or> now < LeaseExpiresAt x)"

lemma healthy_iff: "x \<in> set (healthy items now invk) \<longleftrightarrow>
    x \<in> set items \<and> live now x \<and> mget invk (EffectiveTransport (metadata_of x)) \<noteq> None"
  by (auto simp: healthy_def healthy_item_def live_def IsZero_def After_def)

lemma push_loop_spec:
  "(\<And>x. x \<in> set items \<Longrightarrow> Router_invoker r (EffectiveTransport (metadata_of x)) \<noteq> None) \<Longrightarrow>
   push_loop r req items d e = (r', d', e') \<Longrightarrow>
   (\<exists>cs. rt_calls r' = rt_calls r @ cs \<and> map call_target cs = items) \<and>
   d \<le> d' \<and> d' \<le> d + int (length items) \<and> (e' = None \<longrightarrow> e = None \<and> d' = d + int (length items)) \<and>
   (e = None \<and> d' = d + int (length items) \<longrightarrow> e' = None)"
proof (induction items arbitrary: r d e)
  case Nil
  then show ?case by simp
next
  case (Cons x items)
  obtain i where i: "Router_invoker r (EffectiveTransport (metadata_of x)) = Some i" using Cons.prems(1) [of x] by auto
  obtain c where c: "rt_calls (fst (push_once r req x i)) = rt_calls r @ [c]" "call_target c = x"
    using once_calls(2) by metis
  obtain r2 a where once: "push_once r req x i = (r2, a)" by (cases "push_once r req x i")
  have inv: "Router_invoker r2 t = Router_invoker r t" for t using once_frame(5) [of r req x i t] once by simp
  define d2 where "d2 = (case a of None \<Rightarrow> d + 1 | Some _ \<Rightarrow> d)"
  define e2 where "e2 = (case a of None \<Rightarrow> e | Some z \<Rightarrow> Some z)"
  have "push_loop r req (x # items) d e = push_loop r2 req items d2 e2"
    using i once by (cases a) (simp_all add: d2_def e2_def)
  with Cons.prems have run: "push_loop r2 req items d2 e2 = (r', d', e')" by simp
  have "\<And>y. y \<in> set items \<Longrightarrow> Router_invoker r2 (EffectiveTransport (metadata_of y)) \<noteq> None"
    using Cons.prems(1) by (simp add: inv)
  from Cons.IH [OF this run] obtain cs where cs: "rt_calls r' = rt_calls r2 @ cs" "map call_target cs = items"
    and d: "d2 \<le> d'" "d' \<le> d2 + int (length items)" "e' = None \<longrightarrow> e2 = None \<and> d' = d2 + int (length items)"
      "e2 = None \<and> d' = d2 + int (length items) \<longrightarrow> e' = None" by blast
  have len: "int (length (x # items)) = int (length items) + 1" by simp
  have "\<exists>cs. rt_calls r' = rt_calls r @ cs \<and> map call_target cs = x # items"
    using cs c once by (intro exI [of _ "c # cs"]) simp
  moreover have "d \<le> d' \<and> d' \<le> d + (int (length items) + 1) \<and>
      (e' = None \<longrightarrow> e = None \<and> d' = d + (int (length items) + 1)) \<and>
      (e = None \<and> d' = d + (int (length items) + 1) \<longrightarrow> e' = None)"
  proof (cases a)
    case None
    then have "d2 = d + 1" "e2 = e" by (simp_all add: d2_def e2_def)
    with d show ?thesis by (cases e'; cases e) simp_all
  next
    case (Some z)
    then have "d2 = d" "e2 = Some z" by (simp_all add: d2_def e2_def)
    with d show ?thesis by (cases e'; cases e) simp_all
  qed
  ultimately show ?case unfolding len by (rule conjI)
qed

text \<open>
  The subscriber loop visits every subscription whose instance was not seen yet; subscriptions
  with the same loop key have the same lookup.
\<close>

lemma subscriber_loop_set:
  assumes "\<And>s t. s \<in> set subs \<Longrightarrow> t \<in> set subs \<Longrightarrow>
      sub_PluginID s @ [CHR 0x00] @ sub_InstanceID s = sub_PluginID t @ [CHR 0x00] @ sub_InstanceID t \<Longrightarrow>
      ro_GetInstance ops reg (sub_PluginID s) (sub_InstanceID s) =
      ro_GetInstance ops reg (sub_PluginID t) (sub_InstanceID t)"
  shows "set (subscriber_loop ops reg subs seen out) = set out \<union>
     {x. \<exists>s \<in> set subs. sub_PluginID s @ [CHR 0x00] @ sub_InstanceID s \<notin> set seen \<and>
        ro_GetInstance ops reg (sub_PluginID s) (sub_InstanceID s) = Inr x}"
  using assms
proof (induction subs arbitrary: seen out)
  case Nil
  then show ?case by simp
next
  case (Cons a subs)
  define k where "k s = sub_PluginID s @ [CHR 0x00] @ sub_InstanceID s" for s :: Subscription
  define g where "g s = ro_GetInstance ops reg (sub_PluginID s) (sub_InstanceID s)" for s :: Subscription
  have same: "s \<in> set subs \<Longrightarrow> k s = k a \<Longrightarrow> g s = g a" for s
    using Cons.prems [of s a] by (simp add: k_def g_def)
  have IH: "set (subscriber_loop ops reg subs seen out) = set out \<union>
      {x. \<exists>s \<in> set subs. k s \<notin> set seen \<and> g s = Inr x}" for seen out
    unfolding k_def g_def by (rule Cons.IH) (rule Cons.prems, simp_all)
  have step: "subscriber_loop ops reg (a # subs) seen out =
      (if k a \<in> set seen then subscriber_loop ops reg subs seen out
       else subscriber_loop ops reg subs (k a # seen) (case g a of Inl e \<Rightarrow> out | Inr y \<Rightarrow> out @ [y]))"
    by (simp add: Let_def k_def g_def split: sum.splits)
  show ?case
    unfolding step k_def [symmetric] g_def [symmetric] using same
    by (cases "g a") (auto simp: IH, metis sum.distinct(1), metis sum.inject(2))
qed

lemma subscriber_loop_sound:
  "x \<in> set (subscriber_loop ops reg subs seen out) \<Longrightarrow>
   x \<in> set out \<or> (\<exists>p i. ro_GetInstance ops reg p i = Inr x)"
proof (induction subs arbitrary: seen out)
  case Nil
  then show ?case by simp
next
  case (Cons sub subs)
  show ?case
  proof (cases "ro_GetInstance ops reg (sub_PluginID sub) (sub_InstanceID sub)")
    case (Inl e)
    with Cons show ?thesis by (simp add: Let_def split: if_splits)
  next
    case (Inr y)
    with Cons.prems consider "x \<in> set (subscriber_loop ops reg subs seen out)"
      | seen' where "x \<in> set (subscriber_loop ops reg subs seen' (out @ [y]))"
      by (auto simp: Let_def split: if_splits)
    then show ?thesis using Cons.IH Inr by cases fastforce+
  qed
qed

context plugin_registry
begin

lemma expire_ok:
  "inv s \<Longrightarrow> inv (fst (ro_ExpireLeases ops w s now)) \<and>
     lookup (fst (ro_ExpireLeases ops w s now)) =
       (\<lambda>k. map_option (expire_snapshot (utcOrNow w now)) (lookup s k)) \<and>
     subs (fst (ro_ExpireLeases ops w s now)) = subs s"
proof -
  assume "inv s"
  from expire [OF this, of w now] obtain s' xs where "ro_ExpireLeases ops w s now = (s', Inr xs)" "inv s'"
    "lookup s' = (\<lambda>k. map_option (expire_snapshot (utcOrNow w now)) (lookup s k))" "subs s' = subs s" by blast
  then show ?thesis by simp
qed

lemma get_Inr: "inv s \<Longrightarrow> ro_GetInstance ops s p i = Inr x \<longleftrightarrow> lookup s (idkey p i) = Some x"
  by (simp add: get_instance split: option.splits)

lemma listed_stored:
  "inv s \<Longrightarrow> ro_ListInstances ops w s f = Inr xs \<Longrightarrow> x \<in> set xs \<Longrightarrow>
   lookup s (idkey (PluginID x) (InstanceID x)) = Some x \<and> matches w x f"
proof -
  assume s: "inv s" and "ro_ListInstances ops w s f = Inr xs" and "x \<in> set xs"
  then have "x \<in> {x. (\<exists>k. lookup s k = Some x) \<and> matches w x f}" using list_instances [OF s, of w f] by auto
  then obtain k where "lookup s k = Some x" "matches w x f" by blast
  then show ?thesis using stored_key [OF s] by simp
qed

lemma got_stored:
  "inv s \<Longrightarrow> ro_GetInstance ops s p i = Inr x \<Longrightarrow> lookup s (idkey (PluginID x) (InstanceID x)) = Some x"
  using get_Inr stored_key by metis

text \<open>Every candidate is stored after the expiry sweep, live, and has a transport.\<close>

lemma candidates_sound:
  assumes "inv reg" and "candidates ops w now reg r p i c = (reg', Inr xs)"
  shows "inv reg'" and "reg' = fst (ro_ExpireLeases ops w reg now)" and "xs \<noteq> []"
    and "x \<in> set xs \<Longrightarrow> lookup reg' (idkey (PluginID x) (InstanceID x)) = Some x \<and> live now x \<and>
      mget (rt_remoteInvokers r) (EffectiveTransport (metadata_of x)) \<noteq> None"
    and "blank i \<Longrightarrow> x \<in> set xs \<Longrightarrow>
      (blank p \<or> PluginID x = TrimSpace p) \<and> (blank c \<or> hasCapability x c)"
proof -
  define reg1 where "reg1 = fst (ro_ExpireLeases ops w reg now)"
  have inv1: "inv reg1" using expire_ok [OF assms(1)] by (simp add: reg1_def)
  obtain ys where ys: "candidate_items ops w reg1 (live_filter p i now) c = Inr ys"
    using assms(2) by (cases "candidate_items ops w reg1 (live_filter p i now) c")
      (auto simp: candidates_def Let_def reg1_def)
  have eq: "candidates ops w now reg r p i c =
      (if length (healthy ys now (rt_remoteInvokers r)) = 0 then (reg1, Inl router_ErrPluginOffline)
       else (reg1, Inr (healthy ys now (rt_remoteInvokers r))))"
    using ys by (simp add: candidates_def Let_def reg1_def)
  have xs: "xs = healthy ys now (rt_remoteInvokers r)" "reg' = reg1" "xs \<noteq> []"
    using assms(2) unfolding eq by (auto split: if_splits)
  have stored: "lookup reg1 (idkey (PluginID x) (InstanceID x)) = Some x" if "x \<in> set ys" for x
    using ys that listed_stored [OF inv1] got_stored [OF inv1]
    by (auto simp: candidate_items_def list_by_capability split: if_splits sum.splits)
  show "inv reg'" "reg' = fst (ro_ExpireLeases ops w reg now)" "xs \<noteq> []"
    using inv1 xs by (auto simp: reg1_def)
  show "x \<in> set xs \<Longrightarrow> lookup reg' (idkey (PluginID x) (InstanceID x)) = Some x \<and> live now x \<and>
      mget (rt_remoteInvokers r) (EffectiveTransport (metadata_of x)) \<noteq> None"
    using stored by (simp add: xs healthy_iff)
  show "(blank p \<or> PluginID x = TrimSpace p) \<and> (blank c \<or> hasCapability x c)"
    if "blank i" "x \<in> set xs"
  proof -
    have x: "x \<in> set ys" using that(2) by (simp add: xs healthy_iff)
    show ?thesis
    proof (cases "blank c")
      case True
      then have "ro_ListInstances ops w reg1 (live_filter p i now) = Inr ys"
        using ys that(1) by (simp add: candidate_items_def live_filter_def)
      from listed_stored [OF inv1 this x] True show ?thesis
        by (auto simp: matches_iff live_filter_def)
    next
      case False
      then have "ro_ListInstances ops w reg1 ((live_filter p i now)\<lparr>if_Capability := c\<rparr>) = Inr ys"
        using ys that(1) by (simp add: candidate_items_def list_by_capability live_filter_def)
      from listed_stored [OF inv1 this x] False show ?thesis
        by (auto simp: matches_iff live_filter_def)
    qed
  qed
qed

lemma candidates_inv: "inv reg \<Longrightarrow> fst (candidates ops w now reg r p i c) = fst (ro_ExpireLeases ops w reg now)"
  by (auto simp: candidates_def Let_def split: sum.splits)

text \<open>All calls an invocation makes go to stored, live instances, at most one per attempt.\<close>

lemma Router_Invoke_calls:
  assumes "inv reg" and "Router_Invoke ops w now reg r req = (reg', r', res)"
  shows "inv reg' \<and> (\<exists>cs. rt_calls r' = rt_calls r @ cs \<and> length cs \<le> attempts r \<and>
     (\<forall>c \<in> set cs. lookup reg' (idkey (PluginID (call_target c)) (InstanceID (call_target c))) =
        Some (call_target c) \<and> live now (call_target c) \<and>
        (blank (inv_InstanceID req) \<longrightarrow>
          (blank (inv_PluginID req) \<or> PluginID (call_target c) = TrimSpace (inv_PluginID req)) \<and>
          hasCapability (call_target c) (inv_Capability req))))"
proof (cases "blank (inv_Capability req)")
  case True
  then show ?thesis using assms by (auto simp: Router_Invoke_def)
next
  case False
  obtain reg1 items where c: "candidates ops w now reg r (inv_PluginID req) (inv_InstanceID req)
      (inv_Capability req) = (reg1, items)" by fastforce
  show ?thesis
  proof (cases items)
    case (Inl e)
    have "inv reg1" using candidates_inv [OF assms(1)] expire_ok [OF assms(1)] c by (metis fst_conv)
    then show ?thesis using assms(2) False c Inl by (auto simp: Router_Invoke_def)
  next
    case (Inr xs)
    note sound = candidates_sound [OF assms(1) c [unfolded Inr]]
    obtain cs where "rt_calls (fst (invoke_loop (attempts r) r req xs None)) = rt_calls r @ cs"
      "call_target ` set cs \<subseteq> set xs" "length cs \<le> attempts r"
      using invoke_loop_calls by blast
    moreover have "reg' = reg1" "r' = fst (invoke_loop (attempts r) r req xs None)"
      using assms(2) False c Inr by (auto simp: Router_Invoke_def)
    moreover have "blank (inv_InstanceID req) \<Longrightarrow> x \<in> set xs \<Longrightarrow>
        (blank (inv_PluginID req) \<or> PluginID x = TrimSpace (inv_PluginID req)) \<and>
        hasCapability x (inv_Capability req)" for x
      using sound(5) [of x] False by simp
    ultimately show ?thesis using sound(1,4) by (intro conjI exI [of _ cs] ballI) (simp_all, blast+)
  qed
qed

lemma Router_Invoke_succeeds:
  assumes "inv reg" and "\<not> blank (inv_Capability req)"
    and c: "candidates ops w now reg r (inv_PluginID req) (inv_InstanceID req) (inv_Capability req) = (reg', Inr xs)"
    and "length xs \<le> attempts r" and "x \<in> set xs" and "answers r req x"
  shows "\<exists>v. snd (snd (Router_Invoke ops w now reg r req)) = Inr v"
proof -
  obtain k where k: "k < length xs" "xs ! k = x" using assms(5) by (auto simp: in_set_conv_nth)
  obtain j where j: "j < length xs" "(counter r (inv_Capability req) + j) mod length xs = k"
    using round_trip_index [OF k(1)] by blast
  have "\<exists>v. snd (invoke_loop (attempts r) r req xs None) = Inr v"
    using candidates_sound(3,4) [OF assms(1) c] assms(4,6) j k
    by (intro invoke_loop_reaches [of xs r j]) (auto simp: Router_invoker_def)
  then show ?thesis using assms(2) c by (simp add: Router_Invoke_def)
qed

lemma eventTargets_sound:
  assumes "inv reg" and "eventTargets ops w now reg r req = (reg', Inr xs)" and "x \<in> set xs"
  shows "lookup reg' (idkey (PluginID x) (InstanceID x)) = Some x \<and> live now x"
proof (cases "\<not> blank (pu_PluginID req) \<or> \<not> blank (pu_InstanceID req)")
  case True
  then have "candidates ops w now reg r (pu_PluginID req) (pu_InstanceID req) [] = (reg', Inr xs)"
    using assms(2) by (simp add: eventTargets_def)
  from candidates_sound(4) [OF assms(1) this assms(3)] show ?thesis by blast
next
  case False
  then obtain ss where "reg' = fst (ro_ExpireLeases ops w reg now)"
    and xs: "xs = healthy (subscriber_loop ops reg' ss [] []) now (rt_remoteInvokers r)"
    using assms(2) by (auto simp: eventTargets_def Let_def split: sum.splits)
  then have inv: "inv reg'" using expire_ok [OF assms(1)] by simp
  have x: "x \<in> set (subscriber_loop ops reg' ss [] [])" "live now x"
    using assms(3) xs by (auto simp: healthy_iff)
  show ?thesis using subscriber_loop_sound [OF x(1)] got_stored [OF inv] x(2) by auto
qed

end

end
