(* ===== verification/Plugin_Injection.thy ===== *)
theory Plugin_Injection
  imports Plugin_Protocol
begin

text \<open>
  The context injection registry, \<open>pkg/plugin/injection/registry.go\<close>. A provider is its
  capability definition and its builder (\<open>None\<close> for a nil builder); what a builder answers is a
  parameter. \<open>now\<close> is the reading of the registry clock. The lemmas describe which providers a
  request reaches and that the payload has exactly their names.
\<close>

abbreviation DefaultSchemaVersion :: string where "DefaultSchemaVersion \<equiv> ''v1''"

record InjCapability =
  jc_Name :: string
  jc_Version :: string
  jc_Kind :: string
  jc_Permissions :: "string list"
  jc_Schema :: json
  jc_Description :: string

record InjRequest =
  jq_PluginID :: string
  jq_Capabilities :: "string list"
  jq_SchemaVersion :: string

record InjProvider =
  jp_Definition :: InjCapability
  jp_Builder :: "(InjRequest \<Rightarrow> json result) option"

definition jp_Build :: "InjProvider \<Rightarrow> InjRequest \<Rightarrow> json result" where
  "jp_Build p req = (case jp_Builder p of None \<Rightarrow> Inr [] | Some b \<Rightarrow> b req)"

record InjRegistry =
  ir_schemaVersion :: string
  ir_source :: string
  ir_providers :: "(string, InjProvider) gomap"

definition NewInjRegistry :: "string \<Rightarrow> string \<Rightarrow> InjRegistry" where
  "NewInjRegistry schemaVersion source =
     (let v = (if blank schemaVersion then DefaultSchemaVersion else schemaVersion) in
      \<lparr>ir_schemaVersion = TrimSpace v, ir_source = TrimSpace source, ir_providers = []\<rparr>)"

definition normalizeInjCapability :: "InjCapability \<Rightarrow> InjCapability" where
  "normalizeInjCapability c = c\<lparr>jc_Name := TrimSpace (jc_Name c), jc_Version := TrimSpace (jc_Version c),
     jc_Kind := TrimSpace (jc_Kind c), jc_Description := TrimSpace (jc_Description c),
     jc_Permissions := normalizedStrings (jc_Permissions c), jc_Schema := [] @ jc_Schema c\<rparr>"

definition InjRegistry_Register :: "InjRegistry \<Rightarrow> InjProvider option \<Rightarrow> InjRegistry" where
  "InjRegistry_Register r provider =
     (case provider of
        None \<Rightarrow> r
      | Some p \<Rightarrow>
          let capability = normalizeInjCapability (jp_Definition p) in
          if jc_Name capability = [] then r
          else r\<lparr>ir_providers := mput (ir_providers r) (jc_Name capability)
                   \<lparr>jp_Definition = capability, jp_Builder = Some (jp_Build p)\<rparr>\<rparr>)"

fun wanted :: "string list \<Rightarrow> string list" where
  "wanted [] = []"
| "wanted (name # names) =
     (if TrimSpace name \<noteq> [] then List.insert (TrimSpace name) (wanted names) else wanted names)"

definition selected :: "string list \<Rightarrow> (string, InjProvider) gomap \<Rightarrow> (string, InjProvider) gomap" where
  "selected names providers =
     (let want = wanted names in
      filter (\<lambda>(name, p). \<not> (0 < length want \<and> name \<notin> set want)) providers)"

definition toProtocolCapability :: "InjCapability \<Rightarrow> InjectedCapability" where
  "toProtocolCapability capability =
     (let c = normalizeInjCapability capability in
      \<lparr>ij_Name = jc_Name c, ij_Version = jc_Version c, ij_Kind = jc_Kind c,
       ij_Permissions = [] @ jc_Permissions c, ij_Schema = [] @ jc_Schema c,
       ij_Description = jc_Description c\<rparr>)"

definition InjRegistry_Capabilities :: "InjRegistry \<Rightarrow> string list \<Rightarrow> InjectedCapability list" where
  "InjRegistry_Capabilities r names =
     sort_key ij_Name (map (\<lambda>(name, p). toProtocolCapability (jp_Definition p))
       (selected names (ir_providers r)))"

definition inj_audit :: "InjRegistry \<Rightarrow> gotime \<Rightarrow> AuditInfo" where
  "inj_audit r now = \<lparr>GeneratedAt = now, au_Source = ir_source r\<rparr>"

definition InjRegistry_Schema :: "InjRegistry \<Rightarrow> gotime \<Rightarrow> string list \<Rightarrow> GetInjectedSchemaResponse" where
  "InjRegistry_Schema r now names =
     \<lparr>gsr_SchemaVersion = ir_schemaVersion r, gsr_Capabilities = InjRegistry_Capabilities r names,
      gsr_Audit = inj_audit r now\<rparr>"

fun build_payload :: "InjRequest \<Rightarrow> (string \<times> InjProvider) list \<Rightarrow> (string, json) gomap \<Rightarrow>
    (string, json) gomap result" where
  "build_payload req [] payload = Inr payload"
| "build_payload req ((name, p) # rest) payload =
     (case jp_Build p req of
        Inl e \<Rightarrow> Inl e
      | Inr value \<Rightarrow>
          let value = (if length value = 0 then ''null'' else value)
          in build_payload req rest (mput payload name ([] @ value)))"

definition InjRegistry_BuildContext ::
    "InjRegistry \<Rightarrow> gotime \<Rightarrow> InjRequest \<Rightarrow> InjectContextResponse result" where
  "InjRegistry_BuildContext r now req =
     (case build_payload req (selected (jq_Capabilities req) (ir_providers r)) [] of
        Inl e \<Rightarrow> Inl e
      | Inr payload \<Rightarrow>
          Inr \<lparr>icr_SchemaVersion = ir_schemaVersion r, icr_Context = payload,
               icr_Audit = inj_audit r now\<rparr>)"

section \<open>Which providers a request reaches\<close>

definition inj_inv :: "InjRegistry \<Rightarrow> bool" where
  "inj_inv r \<longleftrightarrow> wf_map (ir_providers r) \<and>
     (\<forall>name p. mget (ir_providers r) name = Some p \<longrightarrow>
        name \<noteq> [] \<and> jc_Name (jp_Definition p) = name \<and>
        normalizeInjCapability (jp_Definition p) = jp_Definition p)"

lemma normalizeInjCapability_idem [simp]:
  "normalizeInjCapability (normalizeInjCapability c) = normalizeInjCapability c"
  by (simp add: normalizeInjCapability_def)

lemma inj_inv_New: "inj_inv (NewInjRegistry v src)"
  by (simp add: inj_inv_def NewInjRegistry_def Let_def)

lemma inj_inv_Register: "inj_inv r \<Longrightarrow> inj_inv (InjRegistry_Register r p)"
  by (auto simp: inj_inv_def InjRegistry_Register_def Let_def split: option.splits)

lemma set_wanted: "set (wanted names) = set (normalizedStrings names)"
  by (induction names) auto

lemma wanted_empty: "wanted names = [] \<longleftrightarrow> normalizedStrings names = []"
  by (metis set_empty set_wanted)

lemma selected_iff: "(name, p) \<in> set (selected names ps) \<longleftrightarrow>
    (name, p) \<in> set ps \<and> (normalizedStrings names = [] \<or> name \<in> set (normalizedStrings names))"
  by (auto simp: selected_def Let_def set_wanted wanted_empty)

lemma build_payload_names:
  "build_payload req ps payload = Inr out \<Longrightarrow>
   {n. mget out n \<noteq> None} = {n. mget payload n \<noteq> None} \<union> fst ` set ps"
proof (induction req ps payload rule: build_payload.induct)
  case (1 req payload)
  then show ?case by simp
next
  case (2 req name p rest payload)
  then obtain v where v: "jp_Build p req = Inr v" by (cases "jp_Build p req") auto
  define u where "u = (if length v = 0 then ''null'' else v)"
  have "{n. mget out n \<noteq> None} = {n. mget (mput payload name u) n \<noteq> None} \<union> fst ` set rest"
    using 2 v by (auto simp: u_def Let_def)
  then show ?case by auto
qed

lemma selected_wf: "wf_map ps \<Longrightarrow> wf_map (selected names ps)"
  unfolding wf_map_def selected_def Let_def by (rule distinct_map_filter)

lemma listed_names:
  assumes "inj_inv r"
  shows "map ij_Name (map (\<lambda>(name, p). toProtocolCapability (jp_Definition p)) (selected names (ir_providers r))) =
    map fst (selected names (ir_providers r))"
proof -
  have "ij_Name (toProtocolCapability (jp_Definition p)) = name" if "(name, p) \<in> set (selected names (ir_providers r))" for name p
  proof -
    have "mget (ir_providers r) name = Some p"
      using that assms by (auto simp: selected_iff inj_inv_def mget_in_set [symmetric])
    then have "jc_Name (jp_Definition p) = name" "normalizeInjCapability (jp_Definition p) = jp_Definition p"
      using assms by (auto simp: inj_inv_def)
    then show ?thesis by (simp add: toProtocolCapability_def Let_def)
  qed
  then show ?thesis by auto
qed

section \<open>Properties\<close>

text \<open>The context built for a request has exactly one entry for every registered provider the request
  selects (all of them when it names none) and no other entry; the schema and the listing of
  capabilities name the same providers, each once and in increasing order.\<close>

theorem build_context_covers_selection:
  assumes "inj_inv r" and "InjRegistry_BuildContext r now req = Inr resp"
  shows "{n. mget (icr_Context resp) n \<noteq> None} = {n. mget (ir_providers r) n \<noteq> None \<and>
       (normalizedStrings (jq_Capabilities req) = [] \<or> n \<in> set (normalizedStrings (jq_Capabilities req)))} \<and>
     set (map ij_Name (InjRegistry_Capabilities r (jq_Capabilities req))) =
       {n. mget (icr_Context resp) n \<noteq> None} \<and>
     sorted_wrt (<) (map ij_Name (InjRegistry_Capabilities r (jq_Capabilities req)))"
proof -
  define sel where "sel = selected (jq_Capabilities req) (ir_providers r)"
  have wf: "wf_map (ir_providers r)" using assms(1) by (simp add: inj_inv_def)
  obtain out where out: "build_payload req sel [] = Inr out" "icr_Context resp = out"
    using assms(2) by (auto simp: InjRegistry_BuildContext_def sel_def split: sum.splits)
  have names: "fst ` set sel = {n. mget (ir_providers r) n \<noteq> None \<and>
       (normalizedStrings (jq_Capabilities req) = [] \<or> n \<in> set (normalizedStrings (jq_Capabilities req)))}"
  proof (rule set_eqI)
    fix n
    have "n \<in> fst ` set sel \<longleftrightarrow> (\<exists>p. (n, p) \<in> set sel)" by force
    then show "n \<in> fst ` set sel \<longleftrightarrow> n \<in> {n. mget (ir_providers r) n \<noteq> None \<and>
        (normalizedStrings (jq_Capabilities req) = [] \<or> n \<in> set (normalizedStrings (jq_Capabilities req)))}"
      unfolding sel_def selected_iff mget_in_set [OF wf] by auto
  qed
  have keys: "{n. mget out n \<noteq> None} = fst ` set sel" using build_payload_names [OF out(1)] by simp
  define caps where "caps = map (\<lambda>(name, p). toProtocolCapability (jp_Definition p)) sel"
  have caps: "map ij_Name caps = map fst sel" unfolding caps_def sel_def by (rule listed_names [OF assms(1)])
  have listing: "InjRegistry_Capabilities r (jq_Capabilities req) = sort_key ij_Name caps"
    by (simp add: InjRegistry_Capabilities_def caps_def sel_def)
  have set: "set (map ij_Name (sort_key ij_Name caps)) = fst ` set sel"
    using arg_cong [OF caps, of set] by simp
  have "distinct (map ij_Name caps)"
    unfolding caps sel_def using selected_wf [OF wf] by (simp add: wf_map_def)
  then have "distinct (map ij_Name (sort_key ij_Name caps))" by (simp add: distinct_map)
  then have "sorted_wrt (<) (map ij_Name (sort_key ij_Name caps))" by (simp add: strict_sorted_iff)
  then show ?thesis using names keys set unfolding out(2) listing by simp
qed

definition sample_providers :: InjRegistry where
  "sample_providers = InjRegistry_Register (NewInjRegistry [] ''host'')
     (Some \<lparr>jp_Definition = \<lparr>jc_Name = ''tenant'', jc_Version = [], jc_Kind = [], jc_Permissions = [],
        jc_Schema = [], jc_Description = []\<rparr>, jp_Builder = None\<rparr>)"

theorem build_context_covers_selection_witness:
  "{n. mget (icr_Context \<lparr>icr_SchemaVersion = ''v1'', icr_Context = [(''tenant'', ''null'')],
      icr_Audit = \<lparr>GeneratedAt = 4, au_Source = ''host''\<rparr>\<rparr>) n \<noteq> None} =
   {n. mget (ir_providers sample_providers) n \<noteq> None \<and>
     (normalizedStrings [''tenant''] = [] \<or> n \<in> set (normalizedStrings [''tenant'']))}"
proof -
  have i: "inj_inv sample_providers" by (simp add: sample_providers_def inj_inv_Register inj_inv_New)
  have b: "InjRegistry_BuildContext sample_providers 4
      \<lparr>jq_PluginID = [], jq_Capabilities = [''tenant''], jq_SchemaVersion = []\<rparr> =
    Inr \<lparr>icr_SchemaVersion = ''v1'', icr_Context = [(''tenant'', ''null'')],
      icr_Audit = \<lparr>GeneratedAt = 4, au_Source = ''host''\<rparr>\<rparr>"
    by code_simp
  show ?thesis using build_context_covers_selection [OF i b] by simp
qed

end
