(* ===== verification/Plugin_Security.thy ===== *)
theory Plugin_Security
  imports Plugin_Protocol
begin

text \<open>
  Authentication and scope authorization of plugin requests,
  \<open>pkg/plugin/security/security.go\<close>. An \<open>Authorizer\<close> (a Go interface) is a function of the
  principal and the request that returns a decision and possibly an error; the clock of
  \<open>ScopeAuthorizer\<close> is the argument \<open>now\<close>. The lemmas characterise exactly when the two
  built-in implementations accept.
\<close>

record Operation =
  op_Name :: string
  op_PluginID :: string
  op_InstanceID :: string

record Principal =
  pr_PluginID :: string
  pr_InstanceID :: string
  Scopes :: "string list"
  AuthMode :: string
  pr_Metadata :: "(string, string) gomap"

record PermissionRequest =
  pq_Operation :: Operation
  pq_Permissions :: "string list"
  pq_Capability :: string
  pq_Event :: string
  pq_Context :: "(string, string) gomap"

record Decision =
  Allowed :: bool
  Reason :: string
  dc_Audit :: AuditInfo

type_synonym Authorizer = "gotime \<Rightarrow> Principal \<Rightarrow> PermissionRequest \<Rightarrow> Decision \<times> goerror option"

record SharedSecretAuthenticator =
  Secret :: string
  ss_Mode :: string

definition principal_of :: "Operation \<Rightarrow> string \<Rightarrow> Principal" where
  "principal_of op mode = \<lparr>pr_PluginID = op_PluginID op, pr_InstanceID = op_InstanceID op,
     Scopes = [], AuthMode = mode, pr_Metadata = []\<rparr>"

definition SharedSecret_Authenticate ::
    "SharedSecretAuthenticator \<Rightarrow> Operation \<Rightarrow> Auth option \<Rightarrow> Principal result" where
  "SharedSecret_Authenticate a op auth =
     (let mode = ToLower (TrimSpace (ss_Mode a)) in
      if mode = [] \<or> mode = ''none'' then Inr (principal_of op ''none'')
      else if mode = ''shared_secret'' then
        (if blank (Secret a) then Inl security_ErrUnauthorized
         else case auth of
                None \<Rightarrow> Inl security_ErrUnauthorized
              | Some au \<Rightarrow>
                  if TrimSpace (auth_Token au) \<noteq> TrimSpace (Secret a) then Inl security_ErrUnauthorized
                  else let authMode = ToLower (TrimSpace (auth_Mode au)) in
                       if authMode \<noteq> [] \<and> authMode \<noteq> ''shared_secret'' then Inl security_ErrUnauthorized
                       else Inr (principal_of op ''shared_secret''))
      else if mode = ''signature'' then Inl security_ErrUnsupportedAuth
      else Inl security_ErrUnsupportedAuth)"

record ScopeAuthorizer =
  AllowedPermissions :: "string list"
  sa_Source :: string

fun Scope_denied :: "string list \<Rightarrow> string list \<Rightarrow> bool" where
  "Scope_denied allowed [] = False"
| "Scope_denied allowed (p # ps) =
     (let permission = TrimSpace p in
      if permission = [] then Scope_denied allowed ps
      else if 0 < length allowed \<and> permission \<notin> set allowed then True
      else Scope_denied allowed ps)"

definition Scope_Authorize :: "ScopeAuthorizer \<Rightarrow> Authorizer" where
  "Scope_Authorize a now pr req =
     (let allowed = remdups (map TrimSpace (AllowedPermissions a));
          audit = \<lparr>GeneratedAt = now, au_Source = firstNonEmpty [sa_Source a, ''plugin-security'']\<rparr> in
      if Scope_denied allowed (pq_Permissions req)
      then (\<lparr>Allowed = False, Reason = ''permission not allowed'', dc_Audit = audit\<rparr>,
            Some security_ErrUnauthorized)
      else (\<lparr>Allowed = True, Reason = [], dc_Audit = audit\<rparr>, None))"

definition AllowAll :: Authorizer where
  "AllowAll now pr req =
     (\<lparr>Allowed = True, Reason = [],
       dc_Audit = \<lparr>GeneratedAt = now, au_Source = ''plugin-security''\<rparr>\<rparr>, None)"

section \<open>When the implementations accept\<close>

lemma Scope_denied_iff:
  "Scope_denied allowed ps \<longleftrightarrow> allowed \<noteq> [] \<and> (\<exists>p \<in> set (normalizedStrings ps). p \<notin> set allowed)"
  by (induction ps) (auto simp: Let_def)

text \<open>The scope authorizer allows a request exactly when no permission list is configured or every
  non-blank requested permission, trimmed, is one of the configured ones, trimmed; it returns an
  error exactly when it does not allow.\<close>

theorem Scope_Authorize_iff:
  "(Allowed (fst (Scope_Authorize a now pr req)) \<longleftrightarrow>
     AllowedPermissions a = [] \<or>
     set (normalizedStrings (pq_Permissions req)) \<subseteq> TrimSpace ` set (AllowedPermissions a)) \<and>
   (snd (Scope_Authorize a now pr req) = None \<longleftrightarrow> Allowed (fst (Scope_Authorize a now pr req)))"
  by (auto simp: Scope_Authorize_def Scope_denied_iff Let_def)

text \<open>In shared-secret mode a request is authenticated exactly when the configured secret is not
  blank, the request carries the same token up to surrounding white space, and its own mode is
  absent or shared-secret; the principal is the caller of the operation. Signature mode and
  unknown modes never authenticate.\<close>

theorem SharedSecret_accepts_iff:
  assumes "ToLower (TrimSpace (ss_Mode a)) = mode" and "mode \<noteq> []" and "mode \<noteq> ''none''"
  shows "SharedSecret_Authenticate a op auth = Inr p \<longleftrightarrow>
     mode = ''shared_secret'' \<and> \<not> blank (Secret a) \<and> p = principal_of op ''shared_secret'' \<and>
     (\<exists>au. auth = Some au \<and> TrimSpace (auth_Token au) = TrimSpace (Secret a) \<and>
           (ToLower (TrimSpace (auth_Mode au)) = [] \<or>
            ToLower (TrimSpace (auth_Mode au)) = ''shared_secret''))"
proof (cases "mode = ''shared_secret''")
  case True
  then show ?thesis using assms by (cases auth) (auto simp: SharedSecret_Authenticate_def Let_def)
next
  case False
  then show ?thesis using assms by (auto simp: SharedSecret_Authenticate_def Let_def)
qed

theorem SharedSecret_accepts_iff_witness:
  "SharedSecret_Authenticate \<lparr>Secret = ''s3cret '', ss_Mode = ''Shared_Secret''\<rparr>
     \<lparr>op_Name = OperationRegister, op_PluginID = ''billing'', op_InstanceID = ''i1''\<rparr>
     (Some \<lparr>auth_Mode = [], auth_Token = ''s3cret'', auth_Signature = [], auth_KeyID = [],
        auth_Timestamp = [], auth_Nonce = []\<rparr>) =
   Inr \<lparr>pr_PluginID = ''billing'', pr_InstanceID = ''i1'', Scopes = [], AuthMode = ''shared_secret'',
        pr_Metadata = []\<rparr>"
proof -
  have m: "ToLower (TrimSpace (ss_Mode \<lparr>Secret = ''s3cret '', ss_Mode = ''Shared_Secret''\<rparr>)) = ''shared_secret''"
    and t: "TrimSpace ''s3cret '' = ''s3cret''" "TrimSpace ''s3cret'' = ''s3cret''"
    by code_simp+
  show ?thesis using SharedSecret_accepts_iff [OF m]
    by (simp add: t principal_of_def)
qed

end
