(* ===== verification/Plugin_Host.thy ===== *)
theory Plugin_Host
  imports Plugin_Router Plugin_Injection Plugin_Security
begin

text \<open>
  The plugin host, \<open>pkg/plugin/host.go\<close> with \<open>instance.go\<close>, \<open>errors.go\<close> and
  \<open>observability/observability.go\<close>. A host operation takes the registry operations \<open>ops\<close>, the
  clock readings \<open>cl\<close> of the call and the host, and returns the new host with the result. The
  fields of \<open>clocks\<close> are the call sites of the host clock: the start and the end of the
  observation, the sweep of expired leases before a query, the operation itself, the router,
  and \<open>time.Now\<close>. The body of an operation whose Go function records an observation in a
  deferred call is a definition of its own; the operation runs the body and appends the event
  to \<open>h_observed\<close>, the events handed to the recorder.

  The receiver of a method is not nil; the host has the router and the direct event bus that
  \<open>New\<close> installs. Local providers and the authorizer are parameters.
\<close>

section \<open>Observability\<close>

record ObsEvent =
  ev_Operation :: string
  ev_PluginID :: string
  ev_InstanceID :: string
  ev_Capability :: string
  ev_Event :: string
  ev_Protocol :: string
  ev_Transport :: string
  ev_RequestID :: string
  ev_TraceID :: string
  ev_IdempotencyKey :: string
  ev_Status :: string
  ev_Error :: string
  ev_Source :: string
  ev_StartedAt :: gotime
  ev_EndedAt :: gotime
  ev_Duration :: duration
  ev_Metadata :: "(string, string) gomap"

abbreviation ObsStatusOK :: string where "ObsStatusOK \<equiv> ''ok''"
abbreviation ObsStatusError :: string where "ObsStatusError \<equiv> ''error''"

text \<open>\<open>t.Sub(u)\<close> saturates at the range of a duration.\<close>

definition time_Sub :: "gotime \<Rightarrow> gotime \<Rightarrow> duration" where
  "time_Sub t u = max (- (2 ^ 63)) (min (2 ^ 63 - 1) (t - u))"

section \<open>State and configuration\<close>

record Provider =
  pv_Definition :: Capability
  pv_Handler :: "(InvokeRequest \<Rightarrow> json result) option"

definition Provider_Invoke :: "Provider \<Rightarrow> InvokeRequest \<Rightarrow> json result" where
  "Provider_Invoke p req = (case pv_Handler p of None \<Rightarrow> Inl ErrProviderUnavailable | Some f \<Rightarrow> f req)"

record HostConfig =
  cfg_Enabled :: bool
  cfg_HeartbeatTimeout :: duration
  cfg_RequestTimeout :: duration
  cfg_DefaultProtocolVersion :: string
  cfg_AllowedTransports :: "string list"
  cfg_InjectionEnabled :: bool
  cfg_Injection :: "InjRegistry option"
  cfg_Authorizer :: "Authorizer option"
  cfg_NodeID :: string
  cfg_NodeAddress :: string
  cfg_LeaseTTL :: duration
  cfg_LeaseScanInterval :: duration
  cfg_RetryCount :: int

record 'r Host =
  h_enabled :: bool
  h_heartbeatTimeout :: duration
  h_requestTimeout :: duration
  h_defaultProtocolVersion :: string
  h_allowedTransports :: "string list"
  h_injectionEnabled :: bool
  h_injection :: "InjRegistry option"
  h_registry :: 'r
  h_router :: Router
  h_authorizer :: "Authorizer option"
  h_observed :: "ObsEvent list"
  h_nodeID :: string
  h_nodeAddress :: string
  h_leaseTTL :: duration
  h_leaseScanInterval :: duration
  h_providers :: "(string, Provider) gomap"

record clocks =
  t_start :: gotime
  t_expire :: gotime
  t_now :: gotime
  t_route :: gotime
  t_end :: gotime
  t_wall :: gotime

definition Host_New :: "HostConfig \<Rightarrow> 'r \<Rightarrow> 'r Host" where
  "Host_New cfg reg =
     (let heartbeat = (if cfg_HeartbeatTimeout cfg \<le> 0 then 30 * Second else cfg_HeartbeatTimeout cfg);
          request = (if cfg_RequestTimeout cfg \<le> 0 then 10 * Second else cfg_RequestTimeout cfg);
          ttl = (if cfg_LeaseTTL cfg \<le> 0 then heartbeat else cfg_LeaseTTL cfg);
          scan = (if cfg_LeaseScanInterval cfg \<le> 0 then tquot ttl 2 else cfg_LeaseScanInterval cfg);
          scan = (if scan \<le> 0 then 15 * Second else scan);
          version = (if blank (cfg_DefaultProtocolVersion cfg) then ProtocolVersionV1
                     else cfg_DefaultProtocolVersion cfg);
          transports = (if length (cfg_AllowedTransports cfg) = 0
                        then [TransportHTTP, TransportWebSocket] else cfg_AllowedTransports cfg)
      in \<lparr>h_enabled = cfg_Enabled cfg, h_heartbeatTimeout = heartbeat, h_requestTimeout = request,
          h_defaultProtocolVersion = TrimSpace version,
          h_allowedTransports = normalizedStrings transports,
          h_injectionEnabled = cfg_InjectionEnabled cfg, h_injection = cfg_Injection cfg,
          h_registry = reg, h_router = NewRouter [] request (cfg_RetryCount cfg),
          h_authorizer = cfg_Authorizer cfg, h_observed = [],
          h_nodeID = firstNonEmpty [cfg_NodeID cfg, cfg_NodeAddress cfg, ''plugin-host''],
          h_nodeAddress = TrimSpace (cfg_NodeAddress cfg), h_leaseTTL = ttl,
          h_leaseScanInterval = scan, h_providers = []\<rparr>)"

section \<open>Helpers\<close>

definition normalizeCapability :: "Capability \<Rightarrow> Capability result" where
  "normalizeCapability c =
     (let c = c\<lparr>cap_Name := TrimSpace (cap_Name c), cap_Version := TrimSpace (cap_Version c),
                cap_Scope := TrimSpace (cap_Scope c), cap_SecretPolicy := TrimSpace (cap_SecretPolicy c),
                cap_Description := TrimSpace (cap_Description c)\<rparr> in
      if cap_Name c = [] then Inl ErrInvalidCapability
      else
        let c = c\<lparr>cap_Permissions := normalizedStrings (cap_Permissions c)\<rparr>;
            c = (if cap_Scope c = [] then c\<lparr>cap_Scope := CapabilityScopePlugin\<rparr> else c);
            c = (if cap_SecretPolicy c = [] then c\<lparr>cap_SecretPolicy := SecretPolicyNone\<rparr> else c)
        in Inr c)"

fun normalize_all :: "Capability list \<Rightarrow> Capability list result" where
  "normalize_all [] = Inr []"
| "normalize_all (c # cs) =
     (case normalizeCapability c of
        Inl e \<Rightarrow> Inl e
      | Inr c' \<Rightarrow> (case normalize_all cs of Inl e \<Rightarrow> Inl e | Inr cs' \<Rightarrow> Inr (c' # cs')))"

definition trim_keys :: "(string, string) gomap \<Rightarrow> (string, string) gomap" where
  "trim_keys md =
     fold (\<lambda>(k, v) cloned. if TrimSpace k \<noteq> [] then mput cloned (TrimSpace k) v else cloned) md []"

definition normalizeMetadata :: "PluginMetadata \<Rightarrow> PluginMetadata result" where
  "normalizeMetadata m =
     (let m = m\<lparr>PluginID := TrimSpace (PluginID m), InstanceID := TrimSpace (InstanceID m),
                pm_Name := TrimSpace (pm_Name m), pm_Version := TrimSpace (pm_Version m),
                Protocol := TrimSpace (Protocol m), Transport := NormalizeTransport (Transport m),
                Endpoint := TrimSpace (Endpoint m), SchemaVersion := TrimSpace (SchemaVersion m)\<rparr>;
          m = (if Transport m = [] \<and> IsTransport (Protocol m)
               then m\<lparr>Transport := NormalizeTransport (Protocol m), Protocol := []\<rparr> else m);
          m = (if Protocol m = [] then m\<lparr>Protocol := PluginProtocolJSON\<rparr> else m)
      in if PluginID m = [] \<or> InstanceID m = [] \<or> pm_Name m = [] \<or> pm_Version m = [] \<or>
            Transport m = [] \<or> Endpoint m = []
         then Inl ErrInvalidPlugin
         else case normalize_all (cloneCapabilities (Capabilities m)) of
                Inl e \<Rightarrow> Inl e
              | Inr cs \<Rightarrow>
                  Inr (m\<lparr>Capabilities := cs, Permissions := normalizedStrings (Permissions m),
                         Hooks := normalizedStrings (Hooks m),
                         Metadata := (if 0 < length (Metadata m) then trim_keys (Metadata m)
                                      else Metadata m)\<rparr>))"

record InstanceContext =
  ctx_Now :: gotime
  ctx_DefaultProtocolVersion :: string
  ctx_Source :: string
  ctx_OwnerHost :: string
  ctx_LeaseTTL :: duration

record Instance =
  in_Snapshot :: PluginSnapshot
  in_ProtocolVersion :: string
  in_Transport :: string
  in_Endpoint :: string
  in_Audit :: AuditInfo

definition NewPluginInstance :: "gotime \<Rightarrow> RegisterRequest \<Rightarrow> InstanceContext \<Rightarrow> Instance result" where
  "NewPluginInstance w req ctx =
     (case normalizeMetadata (reg_Plugin req) of
        Inl e \<Rightarrow> Inl e
      | Inr metadata \<Rightarrow>
          let metadata = (if blank (SchemaVersion metadata)
                          then metadata\<lparr>SchemaVersion := TrimSpace (ctx_DefaultProtocolVersion ctx)\<rparr>
                          else metadata);
              now = (if IsZero (ctx_Now ctx) then w else ctx_Now ctx);
              source = TrimSpace (ctx_Source ctx);
              source = (if source = [] then ''plugin-host'' else source);
              leaseTTL = (if ctx_LeaseTTL ctx \<le> 0 then 30 * Second else ctx_LeaseTTL ctx);
              snapshot = PluginMetadata.extend metadata
                (PluginSnapshot.fields StatusOnline RuntimeStatusReady (TrimSpace (ctx_OwnerHost ctx))
                   (secs leaseTTL) (now + leaseTTL) now now now now)
          in Inr \<lparr>in_Snapshot = snapshot, in_ProtocolVersion = SchemaVersion metadata,
                  in_Transport = Transport metadata, in_Endpoint = Endpoint metadata,
                  in_Audit = \<lparr>GeneratedAt = now, au_Source = source\<rparr>\<rparr>)"

definition CreatePluginApp :: "gotime \<Rightarrow> RegisterRequest \<Rightarrow> InstanceContext \<Rightarrow> Instance result" where
  "CreatePluginApp w req ctx = NewPluginInstance w req ctx"

fun contains :: "string list \<Rightarrow> string \<Rightarrow> bool" where
  "contains [] value = False"
| "contains (item # items) value = (if item = value then True else contains items value)"

fun choose_loop :: "string list \<Rightarrow> string list \<Rightarrow> string" where
  "choose_loop [] supported = []"
| "choose_loop (v # vs) supported =
     (if contains supported (TrimSpace v) then TrimSpace v else choose_loop vs supported)"

definition choose_value :: "string list \<Rightarrow> string list \<Rightarrow> string" where
  "choose_value offered supported =
     (if offered = [] then (case supported of [] \<Rightarrow> [] | s # ss \<Rightarrow> s)
      else choose_loop offered supported)"

definition healthStatus :: "PluginSnapshot \<Rightarrow> gotime \<Rightarrow> HealthStatus" where
  "healthStatus plugin now =
     (let status = \<lparr>hs_PluginID = PluginID plugin, hs_InstanceID = InstanceID plugin,
            hs_Status = HealthStatusOK, hs_RuntimeStatus = RuntimeStatus plugin,
            hs_LastHeartbeatAt = LastHeartbeatAt plugin, hs_LeaseExpiresAt = LeaseExpiresAt plugin,
            hs_Error = []\<rparr> in
      if Status plugin \<noteq> StatusOnline \<or>
         (\<not> IsZero (LeaseExpiresAt plugin) \<and> \<not> After (LeaseExpiresAt plugin) now)
      then status\<lparr>hs_Status := HealthStatusUnknown, hs_Error := ''plugin lease expired or offline''\<rparr>
      else status)"

fun seen_add :: "(string, Capability) gomap \<Rightarrow> Capability list \<Rightarrow> (string, Capability) gomap" where
  "seen_add seen [] = seen"
| "seen_add seen (c # cs) =
     (case mget seen (cap_Name c) of
        Some _ \<Rightarrow> seen_add seen cs
      | None \<Rightarrow> seen_add (mput seen (cap_Name c) (cloneCapability c)) cs)"

fun seen_all :: "(string, Capability) gomap \<Rightarrow> PluginSnapshot list \<Rightarrow> (string, Capability) gomap" where
  "seen_all seen [] = seen"
| "seen_all seen (item # items) = seen_all (seen_add seen (Capabilities item)) items"

definition aggregateCapabilities :: "PluginSnapshot list \<Rightarrow> Capability list" where
  "aggregateCapabilities items = sort_key cap_Name (map snd (seen_all [] items))"

definition registrationPermissions :: "PluginSnapshot \<Rightarrow> string list" where
  "registrationPermissions s =
     normalizedStrings (Permissions s @ concat (map cap_Permissions (Capabilities s)))"

definition injectedCapabilityPermissions :: "InjectedCapability list \<Rightarrow> string list" where
  "injectedCapabilityPermissions cs = normalizedStrings (concat (map ij_Permissions cs))"

definition mapRegistryError :: "goerror \<Rightarrow> goerror" where
  "mapRegistryError e =
     (if errors_Is e registry_ErrNotFound then ErrPluginNotFound
      else if errors_Is e registry_ErrInvalid then ErrInvalidPlugin
      else e)"

definition mapRouterError :: "goerror \<Rightarrow> goerror" where
  "mapRouterError e =
     (if errors_Is e router_ErrNoRoute then ErrCapabilityNotFound
      else if errors_Is e router_ErrPluginOffline then ErrPluginOffline
      else if errors_Is e router_ErrTransportUnavailable then ErrTransportUnavailable
      else if errors_Is e router_ErrInvalidRequest then ErrInvalidCapability
      else e)"

abbreviation map_err :: "(goerror \<Rightarrow> goerror) \<Rightarrow> 'a result \<Rightarrow> 'a result" where
  "map_err f r \<equiv> map_sum f id r"

definition host_authorize ::
    "'r Host \<Rightarrow> gotime \<Rightarrow> string \<Rightarrow> PluginSnapshot \<Rightarrow> string list \<Rightarrow> string \<Rightarrow> string \<Rightarrow> goerror option" where
  "host_authorize h w operation snapshot permissions capability eventName =
     (case h_authorizer h of
        None \<Rightarrow> None
      | Some authz \<Rightarrow>
          (case authz w
             \<lparr>pr_PluginID = PluginID snapshot, pr_InstanceID = InstanceID snapshot,
              Scopes = Permissions snapshot, AuthMode = [], pr_Metadata = []\<rparr>
             \<lparr>pq_Operation = \<lparr>op_Name = operation, op_PluginID = PluginID snapshot,
                op_InstanceID = InstanceID snapshot\<rparr>,
              pq_Permissions = permissions, pq_Capability = capability, pq_Event = eventName,
              pq_Context = []\<rparr> of
             (decision, Some e) \<Rightarrow> Some ErrUnauthorized
           | (decision, None) \<Rightarrow> if \<not> Allowed decision then Some ErrUnauthorized else None))"

definition recordOperation ::
    "'r Host \<Rightarrow> clocks \<Rightarrow> string \<Rightarrow> RequestMeta \<Rightarrow> PluginMetadata \<Rightarrow> string \<Rightarrow> string \<Rightarrow>
     goerror option \<Rightarrow> 'r Host" where
  "recordOperation h cl operation meta plugin capability eventName err =
     (let ended = t_end cl;
          started = (if IsZero (t_start cl) then ended else t_start cl)
      in h\<lparr>h_observed := h_observed h @
           [\<lparr>ev_Operation = operation, ev_PluginID = TrimSpace (PluginID plugin),
             ev_InstanceID = TrimSpace (InstanceID plugin), ev_Capability = TrimSpace capability,
             ev_Event = TrimSpace eventName, ev_Protocol = TrimSpace (Protocol plugin),
             ev_Transport = EffectiveTransport plugin, ev_RequestID = TrimSpace (RequestID meta),
             ev_TraceID = TrimSpace (TraceID meta), ev_IdempotencyKey = TrimSpace (IdempotencyKey meta),
             ev_Status = (case err of None \<Rightarrow> ObsStatusOK | Some e \<Rightarrow> ObsStatusError),
             ev_Error = (case err of None \<Rightarrow> [] | Some e \<Rightarrow> Error_text e),
             ev_Source = h_nodeID h, ev_StartedAt = started, ev_EndedAt = ended,
             ev_Duration = time_Sub ended started, ev_Metadata = cloneStringMap (rm_Metadata meta)\<rparr>]\<rparr>)"

definition ids_metadata :: "string \<Rightarrow> string \<Rightarrow> PluginMetadata" where
  "ids_metadata p i = zero_metadata\<lparr>PluginID := p, InstanceID := i\<rparr>"

text \<open>The metadata a deferred recorder call reports: the response's, when it carries an id.\<close>

definition observed_metadata :: "PluginMetadata \<Rightarrow> PluginSnapshot result \<Rightarrow> PluginMetadata" where
  "observed_metadata fallback res =
     (case res of
        Inl e \<Rightarrow> fallback
      | Inr s \<Rightarrow> if PluginID s \<noteq> [] then metadata_of s else fallback)"

section \<open>Instance lifecycle\<close>

definition Register_body ::
    "'r RegistryOps \<Rightarrow> clocks \<Rightarrow> 'r Host \<Rightarrow> RegisterRequest \<Rightarrow> 'r Host \<times> PluginSnapshot result" where
  "Register_body ops cl h req =
     (if \<not> h_enabled h then (h, Inl ErrDisabled)
      else case CreatePluginApp (t_wall cl) req
                  \<lparr>ctx_Now = t_now cl, ctx_DefaultProtocolVersion = h_defaultProtocolVersion h,
                   ctx_Source = ''plugin-host'', ctx_OwnerHost = h_nodeID h,
                   ctx_LeaseTTL = h_leaseTTL h\<rparr> of
             Inl e \<Rightarrow> (h, Inl e)
           | Inr inst \<Rightarrow>
               let snapshot = in_Snapshot inst in
               if \<not> contains (h_allowedTransports h) (EffectiveTransport (metadata_of snapshot))
               then (h, Inl ErrUnsupportedProtocol)
               else case host_authorize h (t_wall cl) OperationRegister snapshot
                           (registrationPermissions snapshot) [] [] of
                      Some e \<Rightarrow> (h, Inl e)
                    | None \<Rightarrow>
                        (case ro_RegisterInstance ops (t_wall cl) (h_registry h) snapshot of
                           (reg, Inl e) \<Rightarrow> (h\<lparr>h_registry := reg\<rparr>, Inl (mapRegistryError e))
                         | (reg, Inr registered) \<Rightarrow>
                             (h\<lparr>h_registry := reg\<rparr>, Inr (cloneSnapshot registered))))"

definition Host_Register ::
    "'r RegistryOps \<Rightarrow> clocks \<Rightarrow> 'r Host \<Rightarrow> RegisterRequest \<Rightarrow> 'r Host \<times> RegisterResponse result" where
  "Host_Register ops cl h req =
     (let (h, res) = Register_body ops cl h req
      in (recordOperation h cl OperationRegister (RequestMeta.truncate req)
            (observed_metadata (reg_Plugin req) res) [] [] (err_of res),
          map_sum id (\<lambda>s. \<lparr>regr_Plugin = s\<rparr>) res))"

definition RenewLease_body ::
    "'r RegistryOps \<Rightarrow> clocks \<Rightarrow> 'r Host \<Rightarrow> RenewLeaseRequest \<Rightarrow> 'r Host \<times> PluginSnapshot result" where
  "RenewLease_body ops cl h req =
     (if \<not> h_enabled h then (h, Inl ErrDisabled)
      else if blank (rl_PluginID req) \<or> blank (rl_InstanceID req) then (h, Inl ErrInvalidPlugin)
      else
        let ttl = (if 0 < rl_LeaseTTLSeconds req then wrap64 (rl_LeaseTTLSeconds req * Second)
                   else h_leaseTTL h);
            now = t_now cl
        in case ro_RenewLease ops (t_wall cl) (h_registry h)
                  \<lparr>ls_PluginID = rl_PluginID req, ls_InstanceID = rl_InstanceID req, ls_LeaseTTL = ttl,
                   ls_LastHeartbeatAt = now, ls_ExpiresAt = now + ttl\<rparr> of
             (reg, Inl e) \<Rightarrow> (h\<lparr>h_registry := reg\<rparr>, Inl (mapRegistryError e))
           | (reg, Inr plugin) \<Rightarrow> (h\<lparr>h_registry := reg\<rparr>, Inr (cloneSnapshot plugin)))"

definition Host_RenewLease ::
    "'r RegistryOps \<Rightarrow> clocks \<Rightarrow> 'r Host \<Rightarrow> RenewLeaseRequest \<Rightarrow> 'r Host \<times> RenewLeaseResponse result" where
  "Host_RenewLease ops cl h req =
     (let (h, res) = RenewLease_body ops cl h req
      in (recordOperation h cl OperationRenewLease (RequestMeta.truncate req)
            (observed_metadata (ids_metadata (rl_PluginID req) (rl_InstanceID req)) res) [] [] (err_of res),
          map_sum id (\<lambda>s. \<lparr>rlr_Plugin = s\<rparr>) res))"

definition Host_Heartbeat ::
    "'r RegistryOps \<Rightarrow> clocks \<Rightarrow> 'r Host \<Rightarrow> HeartbeatRequest \<Rightarrow> 'r Host \<times> HeartbeatResponse result" where
  "Host_Heartbeat ops cl h req =
     (let (h, res) = Host_RenewLease ops cl h
            (RequestMeta.extend (RequestMeta.truncate req)
               (RenewLeaseRequest.fields (hb_PluginID req) (hb_InstanceID req) 0))
      in (h, map_sum id (\<lambda>r. \<lparr>hbr_Plugin = rlr_Plugin r\<rparr>) res))"

definition Unregister_body ::
    "'r RegistryOps \<Rightarrow> clocks \<Rightarrow> 'r Host \<Rightarrow> UnregisterRequest \<Rightarrow> 'r Host \<times> UnregisterResponse result" where
  "Unregister_body ops cl h req =
     (if \<not> h_enabled h then (h, Inl ErrDisabled)
      else if blank (un_PluginID req) \<or> blank (un_InstanceID req) then (h, Inl ErrInvalidPlugin)
      else
        let (reg, err) = ro_UnregisterInstance ops (t_wall cl) (h_registry h)
               (un_PluginID req) (un_InstanceID req) (t_now cl);
            h = h\<lparr>h_registry := reg\<rparr>;
            ok = Inr \<lparr>unr_PluginID = un_PluginID req, unr_InstanceID = un_InstanceID req,
                      unr_Status = StatusOffline\<rparr>
        in case err of
             Some e \<Rightarrow> if \<not> errors_Is e registry_ErrNotFound then (h, Inl (mapRegistryError e)) else (h, ok)
           | None \<Rightarrow> (h, ok))"

definition Host_Unregister ::
    "'r RegistryOps \<Rightarrow> clocks \<Rightarrow> 'r Host \<Rightarrow> UnregisterRequest \<Rightarrow> 'r Host \<times> UnregisterResponse result" where
  "Host_Unregister ops cl h req =
     (let (h, res) = Unregister_body ops cl h req
      in (recordOperation h cl OperationUnregister (RequestMeta.truncate req)
            (ids_metadata (un_PluginID req) (un_InstanceID req)) [] [] (err_of res), res))"

definition ReportStatus_body ::
    "'r RegistryOps \<Rightarrow> clocks \<Rightarrow> 'r Host \<Rightarrow> ReportStatusRequest \<Rightarrow> 'r Host \<times> PluginSnapshot result" where
  "ReportStatus_body ops cl h req =
     (if \<not> h_enabled h then (h, Inl ErrDisabled)
      else case ro_ReportStatus ops (t_wall cl) (h_registry h) (rs_PluginID req) (rs_InstanceID req)
                  (rs_Status req) (rs_RuntimeStatus req) (rs_Metadata req) (t_now cl) of
             (reg, Inl e) \<Rightarrow> (h\<lparr>h_registry := reg\<rparr>, Inl (mapRegistryError e))
           | (reg, Inr plugin) \<Rightarrow> (h\<lparr>h_registry := reg\<rparr>, Inr (cloneSnapshot plugin)))"

definition Host_ReportStatus ::
    "'r RegistryOps \<Rightarrow> clocks \<Rightarrow> 'r Host \<Rightarrow> ReportStatusRequest \<Rightarrow> 'r Host \<times> ReportStatusResponse result" where
  "Host_ReportStatus ops cl h req =
     (let (h, res) = ReportStatus_body ops cl h req
      in (recordOperation h cl OperationReportStatus (RequestMeta.truncate req)
            (observed_metadata (ids_metadata (rs_PluginID req) (rs_InstanceID req)) res) [] [] (err_of res),
          map_sum id (\<lambda>s. \<lparr>rsr_Plugin = s\<rparr>) res))"

definition SyncMetadata_body ::
    "'r RegistryOps \<Rightarrow> clocks \<Rightarrow> 'r Host \<Rightarrow> SyncMetadataRequest \<Rightarrow> 'r Host \<times> PluginSnapshot result" where
  "SyncMetadata_body ops cl h req =
     (if \<not> h_enabled h then (h, Inl ErrDisabled)
      else case normalizeMetadata (sm_Plugin req) of
             Inl e \<Rightarrow> (h, Inl e)
           | Inr metadata \<Rightarrow>
               (case ro_GetInstance ops (h_registry h) (PluginID metadata) (InstanceID metadata) of
                  Inl e \<Rightarrow> (h, Inl (mapRegistryError e))
                | Inr existing \<Rightarrow>
                    let existing = (with_metadata metadata existing)\<lparr>UpdatedAt := t_now cl\<rparr> in
                    (case ro_SyncMetadata ops (t_wall cl) (h_registry h) existing of
                       (reg, Inl e) \<Rightarrow> (h\<lparr>h_registry := reg\<rparr>, Inl (mapRegistryError e))
                     | (reg, Inr plugin) \<Rightarrow> (h\<lparr>h_registry := reg\<rparr>, Inr (cloneSnapshot plugin)))))"

definition Host_SyncMetadata ::
    "'r RegistryOps \<Rightarrow> clocks \<Rightarrow> 'r Host \<Rightarrow> SyncMetadataRequest \<Rightarrow> 'r Host \<times> SyncMetadataResponse result" where
  "Host_SyncMetadata ops cl h req =
     (let (h, res) = SyncMetadata_body ops cl h req
      in (recordOperation h cl OperationSyncMetadata (RequestMeta.truncate req)
            (observed_metadata (sm_Plugin req) res) [] [] (err_of res),
          map_sum id (\<lambda>s. \<lparr>smr_Plugin = s\<rparr>) res))"

definition Drain_body ::
    "'r RegistryOps \<Rightarrow> clocks \<Rightarrow> 'r Host \<Rightarrow> DrainRequest \<Rightarrow> 'r Host \<times> PluginSnapshot result" where
  "Drain_body ops cl h req =
     (if \<not> h_enabled h then (h, Inl ErrDisabled)
      else case ro_ReportStatus ops (t_wall cl) (h_registry h) (dr_PluginID req) (dr_InstanceID req)
                  StatusDraining RuntimeStatusDraining [] (t_now cl) of
             (reg, Inl e) \<Rightarrow> (h\<lparr>h_registry := reg\<rparr>, Inl (mapRegistryError e))
           | (reg, Inr plugin) \<Rightarrow> (h\<lparr>h_registry := reg\<rparr>, Inr (cloneSnapshot plugin)))"

definition Host_Drain ::
    "'r RegistryOps \<Rightarrow> clocks \<Rightarrow> 'r Host \<Rightarrow> DrainRequest \<Rightarrow> 'r Host \<times> DrainResponse result" where
  "Host_Drain ops cl h req =
     (let (h, res) = Drain_body ops cl h req
      in (recordOperation h cl OperationDrain (RequestMeta.truncate req)
            (observed_metadata (ids_metadata (dr_PluginID req) (dr_InstanceID req)) res) [] [] (err_of res),
          map_sum id (\<lambda>s. \<lparr>drr_Plugin = s\<rparr>) res))"

section \<open>Queries and the lease reaper\<close>

definition Host_ExpireLeases ::
    "'r RegistryOps \<Rightarrow> gotime \<Rightarrow> gotime \<Rightarrow> 'r Host \<Rightarrow> 'r Host \<times> PluginSnapshot list result" where
  "Host_ExpireLeases ops w now h =
     (case ro_ExpireLeases ops w (h_registry h) now of
        (reg, Inl e) \<Rightarrow> (h\<lparr>h_registry := reg\<rparr>, Inl (mapRegistryError e))
      | (reg, Inr expired) \<Rightarrow> (h\<lparr>h_registry := reg\<rparr>, Inr expired))"

definition expireLeases :: "'r RegistryOps \<Rightarrow> clocks \<Rightarrow> 'r Host \<Rightarrow> 'r Host" where
  "expireLeases ops cl h = fst (Host_ExpireLeases ops (t_wall cl) (t_expire cl) h)"

definition all_filter :: "string \<Rightarrow> gotime \<Rightarrow> InstanceFilter" where
  "all_filter pluginID now = \<lparr>if_PluginID = pluginID, if_InstanceID = [], if_Capability = [],
     if_Status = [], IncludeExpired = True, if_Now = now\<rparr>"

definition Host_ListPlugins ::
    "'r RegistryOps \<Rightarrow> clocks \<Rightarrow> 'r Host \<Rightarrow> 'r Host \<times> PluginSnapshot list result" where
  "Host_ListPlugins ops cl h =
     (if \<not> h_enabled h then (h, Inl ErrDisabled)
      else
        let h = expireLeases ops cl h in
        case ro_ListInstances ops (t_wall cl) (h_registry h) (all_filter [] (t_now cl)) of
          Inl e \<Rightarrow> (h, Inl (mapRegistryError e))
        | Inr items \<Rightarrow> (h, Inr (sortSnapshots items)))"

fun first_online :: "PluginSnapshot list \<Rightarrow> PluginSnapshot option" where
  "first_online [] = None"
| "first_online (item # items) = (if Status item = StatusOnline then Some item else first_online items)"

definition Host_GetPlugin ::
    "'r RegistryOps \<Rightarrow> clocks \<Rightarrow> 'r Host \<Rightarrow> string \<Rightarrow> 'r Host \<times> PluginSnapshot result" where
  "Host_GetPlugin ops cl h id0 =
     (if \<not> h_enabled h then (h, Inl ErrDisabled)
      else
        let pid = TrimSpace id0 in
        if pid = [] then (h, Inl ErrInvalidPlugin)
        else
          let h = expireLeases ops cl h in
          case ro_ListInstances ops (t_wall cl) (h_registry h) (all_filter pid (t_now cl)) of
            Inl e \<Rightarrow> (h, Inl (mapRegistryError e))
          | Inr items \<Rightarrow>
              (case sortSnapshots items of
                 [] \<Rightarrow> (h, Inl ErrPluginNotFound)
               | item # rest \<Rightarrow>
                   (case first_online (item # rest) of
                      Some s \<Rightarrow> (h, Inr (cloneSnapshot s))
                    | None \<Rightarrow> (h, Inr (cloneSnapshot item)))))"

definition Host_GetPluginInstance ::
    "'r RegistryOps \<Rightarrow> clocks \<Rightarrow> 'r Host \<Rightarrow> string \<Rightarrow> string \<Rightarrow> 'r Host \<times> PluginSnapshot result" where
  "Host_GetPluginInstance ops cl h pluginID instanceID =
     (if \<not> h_enabled h then (h, Inl ErrDisabled)
      else
        let h = expireLeases ops cl h in
        case ro_GetInstance ops (h_registry h) pluginID instanceID of
          Inl e \<Rightarrow> (h, Inl (mapRegistryError e))
        | Inr item \<Rightarrow> (h, Inr (cloneSnapshot item)))"

definition Host_Health ::
    "'r RegistryOps \<Rightarrow> clocks \<Rightarrow> 'r Host \<Rightarrow> string \<Rightarrow> 'r Host \<times> HealthStatus result" where
  "Host_Health ops cl h id0 =
     (let (h, res) = Host_GetPlugin ops cl h id0
      in (h, map_sum id (\<lambda>plugin. healthStatus plugin (t_end cl)) res))"

definition Host_HealthInstance ::
    "'r RegistryOps \<Rightarrow> clocks \<Rightarrow> 'r Host \<Rightarrow> string \<Rightarrow> string \<Rightarrow> 'r Host \<times> HealthStatus result" where
  "Host_HealthInstance ops cl h pluginID instanceID =
     (let (h, res) = Host_GetPluginInstance ops cl h pluginID instanceID
      in (h, map_sum id (\<lambda>plugin. healthStatus plugin (t_end cl)) res))"

text \<open>The reaper sweeps once and then at every tick (wall clock, host clock) until the context ends.\<close>

fun reap :: "'r RegistryOps \<Rightarrow> 'r Host \<Rightarrow> (gotime \<times> gotime) list \<Rightarrow> 'r Host" where
  "reap ops h [] = h"
| "reap ops h ((w, now) # ticks) = reap ops (fst (Host_ExpireLeases ops w now h)) ticks"

definition reaper_interval :: "'r Host \<Rightarrow> duration \<Rightarrow> duration" where
  "reaper_interval h interval =
     (let i = (if interval \<le> 0 then h_leaseScanInterval h else interval) in
      if i \<le> 0 then 15 * Second else i)"

definition Host_RunLeaseReaper ::
    "'r RegistryOps \<Rightarrow> 'r Host \<Rightarrow> gotime \<times> gotime \<Rightarrow> (gotime \<times> gotime) list \<Rightarrow> 'r Host" where
  "Host_RunLeaseReaper ops h first ticks = (if \<not> h_enabled h then h else reap ops h (first # ticks))"

section \<open>Capabilities and invocation\<close>

definition Host_RegisterProvider :: "'r Host \<Rightarrow> Provider option \<Rightarrow> 'r Host \<times> goerror option" where
  "Host_RegisterProvider h provider =
     (case provider of
        None \<Rightarrow> (h, Some ErrProviderUnavailable)
      | Some p \<Rightarrow>
          (case normalizeCapability (pv_Definition p) of
             Inl e \<Rightarrow> (h, Some e)
           | Inr capability \<Rightarrow>
               (case mget (h_providers h) (cap_Name capability) of
                  Some _ \<Rightarrow> (h, Some (Wrapped ErrInvalidCapability (cap_Name capability)))
                | None \<Rightarrow>
                    (h\<lparr>h_providers := mput (h_providers h) (cap_Name capability)
                        \<lparr>pv_Definition = capability, pv_Handler = Some (Provider_Invoke p)\<rparr>\<rparr>, None))))"

definition Host_RegisterRemoteInvoker ::
    "'r Host \<Rightarrow> string \<Rightarrow> RemoteInvoker option \<Rightarrow> 'r Host \<times> goerror option" where
  "Host_RegisterRemoteInvoker h transport invk =
     (let (r, err) = Router_RegisterRemoteInvoker (h_router h) transport invk
      in (h\<lparr>h_router := r\<rparr>, map_option mapRouterError err))"

definition Host_RegisterInjectionProvider :: "'r Host \<Rightarrow> InjProvider option \<Rightarrow> 'r Host" where
  "Host_RegisterInjectionProvider h provider =
     (let reg = (case h_injection h of
                   None \<Rightarrow> NewInjRegistry (h_defaultProtocolVersion h) ''plugin-host''
                 | Some r \<Rightarrow> r)
      in h\<lparr>h_injection := Some (InjRegistry_Register reg provider)\<rparr>)"

definition Host_ListProviders :: "'r Host \<Rightarrow> Capability list result" where
  "Host_ListProviders h =
     (if \<not> h_enabled h then Inl ErrDisabled
      else Inr (sort_key cap_Name (map (\<lambda>(n, p). cloneCapability (pv_Definition p)) (h_providers h))))"

definition Host_ListCapabilities ::
    "'r RegistryOps \<Rightarrow> clocks \<Rightarrow> 'r Host \<Rightarrow> ListCapabilitiesRequest \<Rightarrow>
     'r Host \<times> ListCapabilitiesResponse result" where
  "Host_ListCapabilities ops cl h req =
     (if \<not> blank (lc_PluginID req) then
        let h = expireLeases ops cl h;
            items = (if \<not> blank (lc_InstanceID req)
                     then map_sum id (\<lambda>item. [item])
                            (ro_GetInstance ops (h_registry h) (lc_PluginID req) (lc_InstanceID req))
                     else ro_ListInstances ops (t_wall cl) (h_registry h)
                            (all_filter (lc_PluginID req) (t_now cl)))
        in case items of
             Inl e \<Rightarrow> (h, Inl (mapRegistryError e))
           | Inr xs \<Rightarrow> (h, Inr \<lparr>lcr_Capabilities = aggregateCapabilities xs\<rparr>)
      else (h, map_sum id (\<lambda>cs. \<lparr>lcr_Capabilities = cs\<rparr>) (Host_ListProviders h)))"

text \<open>\<open>invokeProvider\<close>: \<open>None\<close> when no provider has the capability.\<close>

definition invokeProvider :: "'r Host \<Rightarrow> gotime \<Rightarrow> InvokeRequest \<Rightarrow> InvokeResponse result option" where
  "invokeProvider h w req =
     (case mget (h_providers h) (TrimSpace (inv_Capability req)) of
        None \<Rightarrow> None
      | Some provider \<Rightarrow>
          let capability = pv_Definition provider in
          Some (case host_authorize h w OperationInvoke
                       (zero_snapshot\<lparr>PluginID := inv_PluginID req, InstanceID := inv_InstanceID req\<rparr>)
                       (cap_Permissions capability) (cap_Name capability) [] of
                  Some e \<Rightarrow> Inl e
                | None \<Rightarrow>
                    (case Provider_Invoke provider req of
                       Inl e \<Rightarrow> Inl e
                     | Inr res \<Rightarrow> Inr \<lparr>invr_Capability = inv_Capability req, invr_Result = res\<rparr>)))"

definition Invoke_body ::
    "'r RegistryOps \<Rightarrow> clocks \<Rightarrow> 'r Host \<Rightarrow> InvokeRequest \<Rightarrow> 'r Host \<times> InvokeResponse result" where
  "Invoke_body ops cl h req =
     (if \<not> h_enabled h then (h, Inl ErrDisabled)
      else if blank (inv_Capability req) then (h, Inl ErrInvalidCapability)
      else case (if blank (inv_PluginID req) then invokeProvider h (t_wall cl) req else None) of
             Some res \<Rightarrow> (h, res)
           | None \<Rightarrow>
               (case Router_Invoke ops (t_wall cl) (t_route cl) (h_registry h) (h_router h) req of
                  (reg, r, res) \<Rightarrow>
                    let h = h\<lparr>h_registry := reg, h_router := r\<rparr> in
                    (case res of
                       Inr response \<Rightarrow> (h, Inr response)
                     | Inl e \<Rightarrow>
                         if \<not> blank (inv_PluginID req) then (h, Inl (mapRouterError e))
                         else case invokeProvider h (t_wall cl) req of
                                Some res \<Rightarrow> (h, res)
                              | None \<Rightarrow> (h, Inl ErrCapabilityNotFound))))"

definition Host_Invoke ::
    "'r RegistryOps \<Rightarrow> clocks \<Rightarrow> 'r Host \<Rightarrow> InvokeRequest \<Rightarrow> 'r Host \<times> InvokeResponse result" where
  "Host_Invoke ops cl h req =
     (let (h, res) = Invoke_body ops cl h req
      in (recordOperation h cl OperationInvoke (RequestMeta.truncate req)
            (ids_metadata (inv_PluginID req) (inv_InstanceID req)) (inv_Capability req) [] (err_of res), res))"

section \<open>Events\<close>

definition PushEvent_body ::
    "'r RegistryOps \<Rightarrow> clocks \<Rightarrow> 'r Host \<Rightarrow> PushEventRequest \<Rightarrow> 'r Host \<times> PushEventResponse result" where
  "PushEvent_body ops cl h req =
     (if \<not> h_enabled h then (h, Inl ErrDisabled)
      else if blank (pu_Event req) then (h, Inl ErrInvalidCapability)
      else case DirectBus_Publish ops (t_wall cl) (t_route cl) (h_registry h) (h_router h) req of
             (reg, r, res) \<Rightarrow> (h\<lparr>h_registry := reg, h_router := r\<rparr>, map_err mapRouterError res))"

definition Host_PushEvent ::
    "'r RegistryOps \<Rightarrow> clocks \<Rightarrow> 'r Host \<Rightarrow> PushEventRequest \<Rightarrow> 'r Host \<times> PushEventResponse result" where
  "Host_PushEvent ops cl h req =
     (let (h, res) = PushEvent_body ops cl h req
      in (recordOperation h cl OperationPushEvent (RequestMeta.truncate req)
            (ids_metadata (pu_PluginID req) (pu_InstanceID req)) [] (pu_Event req) (err_of res), res))"

fun authorize_events :: "'r Host \<Rightarrow> gotime \<Rightarrow> PluginSnapshot \<Rightarrow> string list \<Rightarrow> goerror option" where
  "authorize_events h w snapshot [] = None"
| "authorize_events h w snapshot (eventName # rest) =
     (case host_authorize h w OperationSubscribeEvent snapshot (Permissions snapshot) [] eventName of
        Some e \<Rightarrow> Some e
      | None \<Rightarrow> authorize_events h w snapshot rest)"

definition SubscribeEvent_body ::
    "'r RegistryOps \<Rightarrow> clocks \<Rightarrow> 'r Host \<Rightarrow> SubscribeEventRequest \<Rightarrow>
     'r Host \<times> SubscribeEventResponse result" where
  "SubscribeEvent_body ops cl h req =
     (if \<not> h_enabled h then (h, Inl ErrDisabled)
      else if blank (se_PluginID req) \<or> blank (se_InstanceID req) \<or> length (se_Events req) = 0
      then (h, Inl ErrInvalidPlugin)
      else case ro_GetInstance ops (h_registry h) (se_PluginID req) (se_InstanceID req) of
             Inl e \<Rightarrow> (h, Inl (mapRegistryError e))
           | Inr snapshot \<Rightarrow>
               (case authorize_events h (t_wall cl) snapshot (se_Events req) of
                  Some e \<Rightarrow> (h, Inl e)
                | None \<Rightarrow>
                    (case DirectBus_Subscribe ops (t_wall cl) (h_registry h) req of
                       (reg, res) \<Rightarrow> (h\<lparr>h_registry := reg\<rparr>, map_err mapRegistryError res))))"

definition Host_SubscribeEvent ::
    "'r RegistryOps \<Rightarrow> clocks \<Rightarrow> 'r Host \<Rightarrow> SubscribeEventRequest \<Rightarrow>
     'r Host \<times> SubscribeEventResponse result" where
  "Host_SubscribeEvent ops cl h req =
     (let (h, res) = SubscribeEvent_body ops cl h req
      in (recordOperation h cl OperationSubscribeEvent (RequestMeta.truncate req)
            (ids_metadata (se_PluginID req) (se_InstanceID req)) [] (join '','' (se_Events req)) (err_of res),
          res))"

section \<open>Context injection and negotiation\<close>

definition authorizeInjection ::
    "'r RegistryOps \<Rightarrow> gotime \<Rightarrow> 'r Host \<Rightarrow> string \<Rightarrow> string \<Rightarrow> string \<Rightarrow> string list \<Rightarrow> goerror option" where
  "authorizeInjection ops w h operation pluginID instanceID capabilityNames =
     (case (h_authorizer h, h_injection h) of
        (Some _, Some ir) \<Rightarrow>
          (case (if \<not> blank pluginID \<and> \<not> blank instanceID
                 then map_sum mapRegistryError id (ro_GetInstance ops (h_registry h) pluginID instanceID)
                 else Inr (zero_snapshot\<lparr>PluginID := TrimSpace pluginID,
                                         InstanceID := TrimSpace instanceID\<rparr>)) of
             Inl e \<Rightarrow> Some e
           | Inr snapshot \<Rightarrow>
               host_authorize h w operation snapshot
                 (injectedCapabilityPermissions (InjRegistry_Capabilities ir capabilityNames)) [] [])
      | _ \<Rightarrow> None)"

definition InjectContext_body ::
    "'r RegistryOps \<Rightarrow> clocks \<Rightarrow> 'r Host \<Rightarrow> InjectContextRequest \<Rightarrow> InjectContextResponse result" where
  "InjectContext_body ops cl h req =
     (if \<not> h_enabled h then Inl ErrDisabled
      else case h_injection h of
             Some ir \<Rightarrow>
               if \<not> h_injectionEnabled h
               then Inr \<lparr>icr_SchemaVersion = h_defaultProtocolVersion h, icr_Context = [],
                         icr_Audit = \<lparr>GeneratedAt = t_now cl, au_Source = ''plugin-host''\<rparr>\<rparr>
               else (case authorizeInjection ops (t_wall cl) h OperationInjectContext
                            (ic_PluginID req) (ic_InstanceID req) (ic_Capabilities req) of
                       Some e \<Rightarrow> Inl e
                     | None \<Rightarrow>
                         InjRegistry_BuildContext ir (t_now cl)
                           \<lparr>jq_PluginID = ic_PluginID req, jq_Capabilities = ic_Capabilities req,
                            jq_SchemaVersion = ic_SchemaVersion req\<rparr>)
           | None \<Rightarrow>
               Inr \<lparr>icr_SchemaVersion = h_defaultProtocolVersion h, icr_Context = [],
                    icr_Audit = \<lparr>GeneratedAt = t_now cl, au_Source = ''plugin-host''\<rparr>\<rparr>)"

definition Host_InjectContext ::
    "'r RegistryOps \<Rightarrow> clocks \<Rightarrow> 'r Host \<Rightarrow> InjectContextRequest \<Rightarrow>
     'r Host \<times> InjectContextResponse result" where
  "Host_InjectContext ops cl h req =
     (let res = InjectContext_body ops cl h req
      in (recordOperation h cl OperationInjectContext (RequestMeta.truncate req)
            (ids_metadata (ic_PluginID req) (ic_InstanceID req)) (join '','' (ic_Capabilities req)) []
            (err_of res), res))"

definition GetInjectedSchema_body ::
    "'r RegistryOps \<Rightarrow> clocks \<Rightarrow> 'r Host \<Rightarrow> GetInjectedSchemaRequest \<Rightarrow>
     GetInjectedSchemaResponse result" where
  "GetInjectedSchema_body ops cl h req =
     (if \<not> h_enabled h then Inl ErrDisabled
      else case h_injection h of
             Some ir \<Rightarrow>
               if \<not> h_injectionEnabled h
               then Inr \<lparr>gsr_SchemaVersion = h_defaultProtocolVersion h, gsr_Capabilities = [],
                         gsr_Audit = \<lparr>GeneratedAt = t_now cl, au_Source = ''plugin-host''\<rparr>\<rparr>
               else (case authorizeInjection ops (t_wall cl) h OperationGetInjectedSchema [] []
                            (gs_Capabilities req) of
                       Some e \<Rightarrow> Inl e
                     | None \<Rightarrow> Inr (InjRegistry_Schema ir (t_now cl) (gs_Capabilities req)))
           | None \<Rightarrow>
               Inr \<lparr>gsr_SchemaVersion = h_defaultProtocolVersion h, gsr_Capabilities = [],
                    gsr_Audit = \<lparr>GeneratedAt = t_now cl, au_Source = ''plugin-host''\<rparr>\<rparr>)"

definition Host_GetInjectedSchema ::
    "'r RegistryOps \<Rightarrow> clocks \<Rightarrow> 'r Host \<Rightarrow> GetInjectedSchemaRequest \<Rightarrow>
     'r Host \<times> GetInjectedSchemaResponse result" where
  "Host_GetInjectedSchema ops cl h req =
     (let res = GetInjectedSchema_body ops cl h req
      in (recordOperation h cl OperationGetInjectedSchema (RequestMeta.truncate req) zero_metadata
            (join '','' (gs_Capabilities req)) [] (err_of res), res))"

text \<open>Negotiation returns a response together with its error.\<close>

definition Negotiate_body ::
    "'r Host \<Rightarrow> NegotiateProtocolRequest \<Rightarrow> NegotiateProtocolResponse \<times> goerror option" where
  "Negotiate_body h req =
     (if \<not> h_enabled h
      then (\<lparr>ngr_ProtocolVersion = [], ngr_Transport = [], ngr_Accepted = False, ngr_Alternatives = []\<rparr>,
            Some ErrDisabled)
      else
        let transports = h_allowedTransports h;
            version = choose_value (ng_ProtocolVersions req) [h_defaultProtocolVersion h];
            transport = choose_value (ng_Transports req) transports
        in if version = [] \<or> transport = []
           then (\<lparr>ngr_ProtocolVersion = [], ngr_Transport = [], ngr_Accepted = False,
                  ngr_Alternatives = transports\<rparr>, Some ErrUnsupportedProtocol)
           else (\<lparr>ngr_ProtocolVersion = version, ngr_Transport = transport, ngr_Accepted = True,
                  ngr_Alternatives = transports\<rparr>, None))"

definition Host_NegotiateProtocol ::
    "clocks \<Rightarrow> 'r Host \<Rightarrow> NegotiateProtocolRequest \<Rightarrow>
     'r Host \<times> NegotiateProtocolResponse \<times> goerror option" where
  "Host_NegotiateProtocol cl h req =
     (let (resp, err) = Negotiate_body h req
      in (recordOperation h cl OperationNegotiateProtocol (RequestMeta.truncate req)
            ((ids_metadata (ng_PluginID req) (ng_InstanceID req))\<lparr>Protocol := PluginProtocolJSON,
               Transport := ngr_Transport resp\<rparr>) [] [] err, resp, err))"

end
