(* ===== verification/Host_Laws.thy ===== *)
theory Host_Laws
  imports Plugin_Host
begin

text \<open>
  The laws of the host operations. The first part is about the helper functions: normalization,
  negotiation, aggregation, recording. The second part holds for every registry that keeps the
  contract \<open>plugin_registry\<close>: what each host operation returns and what it leaves in the registry.
\<close>

named_theorems host_frame \<open>fields a host operation does not touch\<close>

section \<open>Recording\<close>

lemma recordOperation_frame [simp, host_frame]:
  "h_registry (recordOperation h cl op meta plugin c e err) = h_registry h"
  "h_router (recordOperation h cl op meta plugin c e err) = h_router h"
  "h_providers (recordOperation h cl op meta plugin c e err) = h_providers h"
  "h_injection (recordOperation h cl op meta plugin c e err) = h_injection h"
  "h_enabled (recordOperation h cl op meta plugin c e err) = h_enabled h"
  "h_leaseTTL (recordOperation h cl op meta plugin c e err) = h_leaseTTL h"
  "h_allowedTransports (recordOperation h cl op meta plugin c e err) = h_allowedTransports h"
  "h_defaultProtocolVersion (recordOperation h cl op meta plugin c e err) = h_defaultProtocolVersion h"
  "h_authorizer (recordOperation h cl op meta plugin c e err) = h_authorizer h"
  by (simp_all add: recordOperation_def Let_def)

text \<open>The event an operation appends: its name, its status and its error text.\<close>

definition records :: "'r Host \<Rightarrow> 'r Host \<Rightarrow> string \<Rightarrow> goerror option \<Rightarrow> bool" where
  "records h h' operation err \<longleftrightarrow> (\<exists>ev. h_observed h' = h_observed h @ [ev] \<and> ev_Operation ev = operation \<and>
     ev_Source ev = h_nodeID h \<and>
     ev_Status ev = (case err of None \<Rightarrow> ObsStatusOK | Some e \<Rightarrow> ObsStatusError) \<and>
     ev_Error ev = (case err of None \<Rightarrow> [] | Some e \<Rightarrow> Error_text e))"

lemma records_recordOperation:
  "h_observed h1 = h_observed h \<Longrightarrow> h_nodeID h1 = h_nodeID h \<Longrightarrow>
   records h (recordOperation h1 cl op meta plugin c e err) op err"
  by (simp add: records_def recordOperation_def Let_def)

section \<open>Helper functions\<close>

lemma contains_iff [simp]: "contains items v \<longleftrightarrow> v \<in> set items"
  by (induction items) auto

lemma choose_loop_Nil_iff:
  "[] \<notin> set supported \<Longrightarrow> choose_loop vs supported = [] \<longleftrightarrow> (\<forall>v \<in> set vs. TrimSpace v \<notin> set supported)"
  by (induction vs) auto

lemma choose_loop_member: "choose_loop vs supported \<noteq> [] \<Longrightarrow>
    choose_loop vs supported \<in> set supported \<and> choose_loop vs supported \<in> TrimSpace ` set vs"
  by (induction vs) auto

lemma choose_value_Nil_iff:
  "[] \<notin> set supported \<Longrightarrow> choose_value vs supported = [] \<longleftrightarrow>
     (if vs = [] then supported = [] else \<forall>v \<in> set vs. TrimSpace v \<notin> set supported)"
  by (cases supported) (auto simp: choose_value_def choose_loop_Nil_iff)

lemma choose_value_member: "choose_value vs supported \<noteq> [] \<Longrightarrow> choose_value vs supported \<in> set supported"
  using choose_loop_member [of vs supported] by (cases supported) (auto simp: choose_value_def split: if_splits)

lemma normalizeCapability_Inr:
  "normalizeCapability c = Inr d \<longleftrightarrow> \<not> blank (cap_Name c) \<and>
     d = c\<lparr>cap_Name := TrimSpace (cap_Name c), cap_Version := TrimSpace (cap_Version c),
           cap_Scope := (if blank (cap_Scope c) then CapabilityScopePlugin else TrimSpace (cap_Scope c)),
           cap_SecretPolicy := (if blank (cap_SecretPolicy c) then SecretPolicyNone
                                else TrimSpace (cap_SecretPolicy c)),
           cap_Description := TrimSpace (cap_Description c),
           cap_Permissions := normalizedStrings (cap_Permissions c)\<rparr>"
  by (cases c; cases "blank (cap_Name c)"; cases "blank (cap_Scope c)"; cases "blank (cap_SecretPolicy c)")
    (simp_all add: normalizeCapability_def Let_def eq_commute [of _ d])

lemma normalizeCapability_idem: "normalizeCapability c = Inr d \<Longrightarrow> normalizeCapability d = Inr d"
proof -
  assume "normalizeCapability c = Inr d"
  moreover have "TrimSpace CapabilityScopePlugin = CapabilityScopePlugin" "TrimSpace SecretPolicyNone = SecretPolicyNone"
    by code_simp+
  ultimately show ?thesis unfolding normalizeCapability_Inr
    by (cases "blank (cap_Scope c)"; cases "blank (cap_SecretPolicy c)") simp_all
qed

lemma normalizeCapability_name: "normalizeCapability c = Inr d \<Longrightarrow> cap_Name d = TrimSpace (cap_Name c) \<and> cap_Name d \<noteq> []"
  unfolding normalizeCapability_Inr by simp

lemma normalize_all_idem: "normalize_all cs = Inr ds \<Longrightarrow> normalize_all ds = Inr ds"
  by (induction cs arbitrary: ds) (auto simp: normalizeCapability_idem split: sum.splits)

lemma mput_fresh: "k \<notin> fst ` set m \<Longrightarrow> mput m k v = m @ [(k, v)]"
  by (induction m) (auto simp: mput_def)

lemma mput_keys: "fst ` set (mput m k v) = insert k (fst ` set m)"
  by (simp add: mput_def dom_update)

lemma fold_mput_fresh:
  "distinct (map fst md) \<Longrightarrow> \<forall>k \<in> fst ` set md. TrimSpace k = k \<and> k \<noteq> [] \<and> k \<notin> fst ` set m \<Longrightarrow>
   fold (\<lambda>(k, v) cloned. if TrimSpace k \<noteq> [] then mput cloned (TrimSpace k) v else cloned) md m = m @ md"
proof (induction md arbitrary: m)
  case Nil
  then show ?case by simp
next
  case (Cons kv md)
  obtain k v where kv: "kv = (k, v)" by (cases kv)
  have "\<forall>k' \<in> fst ` set md. TrimSpace k' = k' \<and> k' \<noteq> [] \<and> k' \<notin> fst ` set (m @ [(k, v)])"
    using Cons.prems kv by auto
  with Cons show ?case by (simp add: kv mput_fresh)
qed

definition trimmed_map :: "(string, string) gomap \<Rightarrow> bool" where
  "trimmed_map m \<longleftrightarrow> wf_map m \<and> (\<forall>k \<in> fst ` set m. TrimSpace k = k \<and> k \<noteq> [])"

lemma trimmed_map_Nil [simp]: "trimmed_map []"
  by (simp add: trimmed_map_def)

lemma trimmed_map_mput: "trimmed_map m \<Longrightarrow> TrimSpace k \<noteq> [] \<Longrightarrow> trimmed_map (mput m (TrimSpace k) v)"
  by (simp add: trimmed_map_def mput_keys)

lemma trim_keys_trimmed: "trimmed_map (trim_keys md)"
proof -
  have "trimmed_map m \<Longrightarrow> trimmed_map
      (fold (\<lambda>(k, v) cloned. if TrimSpace k \<noteq> [] then mput cloned (TrimSpace k) v else cloned) md m)" for m
  proof (induction md arbitrary: m)
    case Nil
    then show ?case by simp
  next
    case (Cons kv md)
    then show ?case by (cases kv) (simp add: trimmed_map_mput)
  qed
  then show ?thesis unfolding trim_keys_def using trimmed_map_Nil by blast
qed

lemma trim_keys_id: "trimmed_map md \<Longrightarrow> trim_keys md = md"
proof -
  assume "trimmed_map md"
  then have d: "distinct (map fst md)" and t: "\<forall>k \<in> fst ` set md. TrimSpace k = k \<and> k \<noteq> []"
    unfolding trimmed_map_def wf_map_def by blast+
  have "\<forall>k \<in> fst ` set md. TrimSpace k = k \<and> k \<noteq> [] \<and> k \<notin> fst ` set ([] :: (string, string) gomap)"
    using t unfolding list.set image_empty by blast
  from fold_mput_fresh [OF d this] show ?thesis by (simp only: trim_keys_def append_Nil)
qed

text \<open>Which metadata normalization accepts, and what it guarantees of the result.\<close>

definition metadata_ok :: "'a PluginMetadata_scheme \<Rightarrow> bool" where
  "metadata_ok m \<longleftrightarrow> PluginID m \<noteq> [] \<and> TrimSpace (PluginID m) = PluginID m \<and>
     InstanceID m \<noteq> [] \<and> TrimSpace (InstanceID m) = InstanceID m \<and>
     pm_Name m \<noteq> [] \<and> TrimSpace (pm_Name m) = pm_Name m \<and>
     pm_Version m \<noteq> [] \<and> TrimSpace (pm_Version m) = pm_Version m \<and>
     Endpoint m \<noteq> [] \<and> TrimSpace (Endpoint m) = Endpoint m \<and>
     Transport m \<noteq> [] \<and> Protocol m \<noteq> [] \<and> TrimSpace (Protocol m) = Protocol m \<and>
     TrimSpace (SchemaVersion m) = SchemaVersion m \<and>
     normalize_all (Capabilities m) = Inr (Capabilities m) \<and>
     normalizedStrings (Permissions m) = Permissions m \<and> normalizedStrings (Hooks m) = Hooks m"

lemma normalizeMetadata_Inr:
  assumes "normalizeMetadata m = Inr d"
  shows "PluginID d = TrimSpace (PluginID m)" "InstanceID d = TrimSpace (InstanceID m)"
    and "metadata_ok d" and "trimmed_map (Metadata d)"
proof -
  define m1 where "m1 = m\<lparr>PluginID := TrimSpace (PluginID m), InstanceID := TrimSpace (InstanceID m),
                pm_Name := TrimSpace (pm_Name m), pm_Version := TrimSpace (pm_Version m),
                Protocol := TrimSpace (Protocol m), Transport := NormalizeTransport (Transport m),
                Endpoint := TrimSpace (Endpoint m), SchemaVersion := TrimSpace (SchemaVersion m)\<rparr>"
  define m2 where "m2 = (if Transport m1 = [] \<and> IsTransport (Protocol m1)
               then m1\<lparr>Transport := NormalizeTransport (Protocol m1), Protocol := []\<rparr> else m1)"
  define m3 where "m3 = (if Protocol m2 = [] then m2\<lparr>Protocol := PluginProtocolJSON\<rparr> else m2)"
  define bad where "bad \<longleftrightarrow> PluginID m3 = [] \<or> InstanceID m3 = [] \<or> pm_Name m3 = [] \<or> pm_Version m3 = [] \<or>
            Transport m3 = [] \<or> Endpoint m3 = []"
  have "normalizeMetadata m = (if bad then Inl ErrInvalidPlugin
      else case normalize_all (Capabilities m3) of Inl e \<Rightarrow> Inl e
        | Inr cs \<Rightarrow> Inr (m3\<lparr>Capabilities := cs, Permissions := normalizedStrings (Permissions m3),
                         Hooks := normalizedStrings (Hooks m3),
                         Metadata := (if 0 < length (Metadata m3) then trim_keys (Metadata m3)
                                      else Metadata m3)\<rparr>))"
    unfolding normalizeMetadata_def Let_def m1_def [symmetric] m2_def [symmetric] m3_def [symmetric] bad_def
    by simp
  then obtain cs where ok: "\<not> bad" and cs: "normalize_all (Capabilities m3) = Inr cs"
    and d: "d = m3\<lparr>Capabilities := cs, Permissions := normalizedStrings (Permissions m3),
                         Hooks := normalizedStrings (Hooks m3),
                         Metadata := (if 0 < length (Metadata m3) then trim_keys (Metadata m3)
                                      else Metadata m3)\<rparr>"
    using assms by (cases bad; cases "normalize_all (Capabilities m3)") simp_all
  have json: "TrimSpace PluginProtocolJSON = PluginProtocolJSON" by code_simp
  have keep: "PluginID m3 = TrimSpace (PluginID m)" "InstanceID m3 = TrimSpace (InstanceID m)"
    "pm_Name m3 = TrimSpace (pm_Name m)" "pm_Version m3 = TrimSpace (pm_Version m)"
    "Endpoint m3 = TrimSpace (Endpoint m)" "SchemaVersion m3 = TrimSpace (SchemaVersion m)"
    "Protocol m3 \<noteq> []" "TrimSpace (Protocol m3) = Protocol m3"
    by (simp_all add: m3_def m2_def m1_def json)
  show "PluginID d = TrimSpace (PluginID m)" "InstanceID d = TrimSpace (InstanceID m)"
    by (simp_all add: d keep)
  show "metadata_ok d"
    using ok keep normalize_all_idem [OF cs] unfolding metadata_ok_def bad_def by (simp add: d)
  show "trimmed_map (Metadata d)"
    by (simp add: d trim_keys_trimmed)
qed

lemma normalizeMetadata_fixed:
  assumes ok: "metadata_ok m" and t: "trimmed_map (Metadata m)" and tr: "NormalizeTransport (Transport m) = Transport m"
  shows "normalizeMetadata m = Inr m"
proof -
  show ?thesis
    using ok tr unfolding normalizeMetadata_def metadata_ok_def by (simp add: Let_def trim_keys_id [OF t])
qed

lemma normalize_all_Inl: "normalize_all cs = Inl e \<Longrightarrow> e = ErrInvalidCapability"
  by (induction cs) (auto simp: normalizeCapability_def Let_def split: sum.splits if_splits)

lemma normalizeMetadata_Inl: "normalizeMetadata m = Inl e \<Longrightarrow> e = ErrInvalidPlugin \<or> e = ErrInvalidCapability"
  unfolding normalizeMetadata_def Let_def by (simp split: if_splits sum.splits) (auto dest: normalize_all_Inl)

lemma metadata_of_backfill [simp]: "metadata_of (backfill x y) = metadata_of x"
  by (simp add: backfill_def)

lemma with_metadata_ok [simp]: "metadata_ok (with_metadata m s) = metadata_ok m"
  by (cases m, cases s) (simp add: metadata_ok_def snapshot_defs)

lemma metadata_ok_valid: "metadata_ok x \<Longrightarrow> validateSnapshot x = None"
  unfolding validateSnapshot_None metadata_ok_def by simp

lemma metadata_ok_update [simp]:
  "metadata_ok (x\<lparr>Status := v1\<rparr>) = metadata_ok x" "metadata_ok (x\<lparr>RuntimeStatus := v2\<rparr>) = metadata_ok x"
  "metadata_ok (x\<lparr>OwnerHost := v3\<rparr>) = metadata_ok x" "metadata_ok (x\<lparr>LeaseTTLSeconds := v4\<rparr>) = metadata_ok x"
  "metadata_ok (x\<lparr>LeaseExpiresAt := v5\<rparr>) = metadata_ok x" "metadata_ok (x\<lparr>RegisteredAt := v6\<rparr>) = metadata_ok x"
  "metadata_ok (x\<lparr>LastHeartbeatAt := v7\<rparr>) = metadata_ok x" "metadata_ok (x\<lparr>CreatedAt := v8\<rparr>) = metadata_ok x"
  "metadata_ok (x\<lparr>UpdatedAt := v9\<rparr>) = metadata_ok x" "metadata_ok (x\<lparr>Metadata := v10\<rparr>) = metadata_ok x"
  by (simp_all add: metadata_ok_def)

lemma metadata_ok_derived [simp]:
  "metadata_ok (expire_snapshot now x) = metadata_ok x" "metadata_ok (backfill x y) = metadata_ok x"
  by (simp_all add: expire_snapshot_def backfill_def)

text \<open>The snapshot a registration stores.\<close>

definition registered :: "PluginSnapshot \<Rightarrow> gotime \<Rightarrow> 'r Host \<Rightarrow> bool" where
  "registered x now h \<longleftrightarrow> metadata_ok x \<and> Status x = StatusOnline \<and> RuntimeStatus x = RuntimeStatusReady \<and>
     OwnerHost x = TrimSpace (h_nodeID h) \<and> RegisteredAt x = now \<and> LastHeartbeatAt x = now \<and> UpdatedAt x = now \<and>
     LeaseExpiresAt x = now + (if h_leaseTTL h \<le> 0 then 30 * Second else h_leaseTTL h) \<and>
     EffectiveTransport (metadata_of x) \<in> set (h_allowedTransports h)"

lemma NewPluginInstance_Inr:
  assumes "NewPluginInstance w req ctx = Inr inst"
  shows "\<exists>m. normalizeMetadata (reg_Plugin req) = Inr m \<and>
     (let x = in_Snapshot inst; now = utcOrNow w (ctx_Now ctx) in
      PluginID x = PluginID m \<and> InstanceID x = InstanceID m \<and>
      metadata_ok x \<and> Status x = StatusOnline \<and> RuntimeStatus x = RuntimeStatusReady \<and>
      OwnerHost x = TrimSpace (ctx_OwnerHost ctx) \<and> RegisteredAt x = now \<and> LastHeartbeatAt x = now \<and>
      CreatedAt x = now \<and> UpdatedAt x = now \<and>
      LeaseExpiresAt x = now + (if ctx_LeaseTTL ctx \<le> 0 then 30 * Second else ctx_LeaseTTL ctx))"
proof -
  obtain m where m: "normalizeMetadata (reg_Plugin req) = Inr m"
    using assms by (cases "normalizeMetadata (reg_Plugin req)") (simp_all add: NewPluginInstance_def)
  define m' where "m' = (if blank (SchemaVersion m)
      then m\<lparr>SchemaVersion := TrimSpace (ctx_DefaultProtocolVersion ctx)\<rparr> else m)"
  have ok: "metadata_ok m'" using normalizeMetadata_Inr(3) [OF m] by (simp add: m'_def metadata_ok_def)
  have x: "in_Snapshot inst = PluginMetadata.extend m'
     (PluginSnapshot.fields StatusOnline RuntimeStatusReady (TrimSpace (ctx_OwnerHost ctx))
        (secs (if ctx_LeaseTTL ctx \<le> 0 then 30 * Second else ctx_LeaseTTL ctx))
        (utcOrNow w (ctx_Now ctx) + (if ctx_LeaseTTL ctx \<le> 0 then 30 * Second else ctx_LeaseTTL ctx))
        (utcOrNow w (ctx_Now ctx)) (utcOrNow w (ctx_Now ctx)) (utcOrNow w (ctx_Now ctx)) (utcOrNow w (ctx_Now ctx)))"
    using assms m by (auto simp: NewPluginInstance_def Let_def m'_def utcOrNow_def)
  have "PluginID m' = PluginID m" "InstanceID m' = InstanceID m" by (simp_all add: m'_def)
  with m ok x show ?thesis
    by (intro exI [of _ m]) (simp add: Let_def metadata_ok_def snapshot_defs)
qed

section \<open>Operations over a registry that keeps the contract\<close>

lemma mapRegistryError_simps [simp]:
  "mapRegistryError registry_ErrNotFound = ErrPluginNotFound"
  "mapRegistryError registry_ErrInvalid = ErrInvalidPlugin"
  by (simp_all add: mapRegistryError_def)

text \<open>Every stored instance went through metadata normalization.\<close>

definition stored_ok :: "('r \<Rightarrow> 'k \<Rightarrow> PluginSnapshot option) \<Rightarrow> 'r \<Rightarrow> bool" where
  "stored_ok lookup s \<longleftrightarrow> (\<forall>k x. lookup s k = Some x \<longrightarrow> metadata_ok x)"

lemma stored_ok_upd:
  "stored_ok lookup s \<Longrightarrow> lookup s' = (lookup s)(k \<mapsto> y) \<Longrightarrow> metadata_ok y \<Longrightarrow> stored_ok lookup s'"
  by (simp add: stored_ok_def)

lemma stored_okD: "stored_ok lookup s \<Longrightarrow> lookup s k = Some x \<Longrightarrow> metadata_ok x"
  by (simp add: stored_ok_def)

context plugin_registry
begin

text \<open>Registration either leaves the registry alone or stores exactly the registered snapshot.\<close>

lemma Register_cases:
  assumes "inv (h_registry h)" and "Register_body ops cl h req = (h', res)"
  obtains (refused) e where "res = Inl e" "h' = h"
    "\<not> h_enabled h \<and> e = ErrDisabled \<or> normalizeMetadata (reg_Plugin req) = Inl e \<or>
     e = ErrUnsupportedProtocol \<or> e = ErrUnauthorized"
  | (stored) m x reg' where "res = Inr x" "h' = h\<lparr>h_registry := reg'\<rparr>" "inv reg'"
    "h_enabled h" "normalizeMetadata (reg_Plugin req) = Inr m" "PluginID x = PluginID m" "InstanceID x = InstanceID m"
    "lookup reg' = (lookup (h_registry h))(idkey (PluginID x) (InstanceID x) \<mapsto> x)"
    "subs reg' = subs (h_registry h)"
    "registered x (utcOrNow (t_wall cl) (t_now cl)) h"
proof (cases "h_enabled h")
  case False
  then show ?thesis using assms(2) refused [of ErrDisabled] by (auto simp: Register_body_def)
next
  case True
  define ctx where "ctx = \<lparr>ctx_Now = t_now cl, ctx_DefaultProtocolVersion = h_defaultProtocolVersion h,
    ctx_Source = ''plugin-host'', ctx_OwnerHost = h_nodeID h, ctx_LeaseTTL = h_leaseTTL h\<rparr>"
  show ?thesis
  proof (cases "CreatePluginApp (t_wall cl) req ctx")
    case (Inl e)
    then have "normalizeMetadata (reg_Plugin req) = Inl e"
      by (cases "normalizeMetadata (reg_Plugin req)") (simp_all add: CreatePluginApp_def NewPluginInstance_def Let_def)
    with Inl True assms(2) refused [of e] show ?thesis by (auto simp: Register_body_def ctx_def)
  next
    case (Inr inst)
    define x where "x = in_Snapshot inst"
    have b: "Register_body ops cl h req =
      (if EffectiveTransport (metadata_of x) \<notin> set (h_allowedTransports h) then (h, Inl ErrUnsupportedProtocol)
       else case host_authorize h (t_wall cl) OperationRegister x (registrationPermissions x) [] [] of
              Some e \<Rightarrow> (h, Inl e)
            | None \<Rightarrow> (case ro_RegisterInstance ops (t_wall cl) (h_registry h) x of
                (reg, Inl e) \<Rightarrow> (h\<lparr>h_registry := reg\<rparr>, Inl (mapRegistryError e))
              | (reg, Inr r) \<Rightarrow> (h\<lparr>h_registry := reg\<rparr>, Inr r)))"
      using True Inr unfolding Register_body_def x_def Let_def cloneSnapshot_id by (simp add: ctx_def)
    obtain m where m: "normalizeMetadata (reg_Plugin req) = Inr m" and new: "PluginID x = PluginID m"
      "InstanceID x = InstanceID m" "metadata_ok x" "Status x = StatusOnline" "RuntimeStatus x = RuntimeStatusReady"
      "OwnerHost x = TrimSpace (h_nodeID h)" "RegisteredAt x = utcOrNow (t_wall cl) (t_now cl)"
      "LastHeartbeatAt x = utcOrNow (t_wall cl) (t_now cl)" "UpdatedAt x = utcOrNow (t_wall cl) (t_now cl)"
      "LeaseExpiresAt x = utcOrNow (t_wall cl) (t_now cl) + (if h_leaseTTL h \<le> 0 then 30 * Second else h_leaseTTL h)"
      using NewPluginInstance_Inr [OF Inr [unfolded CreatePluginApp_def]] by (auto simp: ctx_def x_def Let_def)
    have authz: "host_authorize h (t_wall cl) o1 x p1 c1 e1 = Some e \<Longrightarrow> e = ErrUnauthorized" for o1 p1 c1 e1 e
      by (simp add: host_authorize_def split: option.splits prod.splits if_splits)
    consider "EffectiveTransport (metadata_of x) \<notin> set (h_allowedTransports h)"
      | e where "EffectiveTransport (metadata_of x) \<in> set (h_allowedTransports h)"
          "host_authorize h (t_wall cl) OperationRegister x (registrationPermissions x) [] [] = Some e"
      | "EffectiveTransport (metadata_of x) \<in> set (h_allowedTransports h)"
          "host_authorize h (t_wall cl) OperationRegister x (registrationPermissions x) [] [] = None" by fastforce
    then show ?thesis
    proof cases
      case 1
      then show ?thesis using b assms(2) refused [of ErrUnsupportedProtocol] by auto
    next
      case 2
      then have "e = ErrUnauthorized" using authz by blast
      then show ?thesis using 2 b assms(2) refused [of ErrUnauthorized] by auto
    next
      case 3
      obtain reg' c where r: "ro_RegisterInstance ops (t_wall cl) (h_registry h) x = (reg', Inr (x\<lparr>CreatedAt := c\<rparr>))"
        "inv reg'" "lookup reg' = (lookup (h_registry h))(idkey (PluginID x) (InstanceID x) \<mapsto> x\<lparr>CreatedAt := c\<rparr>)"
        "subs reg' = subs (h_registry h)"
        using register_valid [OF assms(1) metadata_ok_valid [OF new(3)]] by blast
      have h': "res = Inr (x\<lparr>CreatedAt := c\<rparr>)" "h' = h\<lparr>h_registry := reg'\<rparr>" using b assms(2) 3 r(1) by simp_all
      have reg: "registered (x\<lparr>CreatedAt := c\<rparr>) (utcOrNow (t_wall cl) (t_now cl)) h"
        using new 3(1) unfolding registered_def by simp
      show ?thesis
        by (rule stored [OF h' r(2) True m _ _ _ r(4) reg]) (simp_all add: new r(3))
    qed
  qed
qed

lemma RenewLease_missing:
  assumes "inv (h_registry h)" and "h_enabled h" and "\<not> blank (rl_PluginID req)" and "\<not> blank (rl_InstanceID req)"
    and "lookup (h_registry h) (idkey (rl_PluginID req) (rl_InstanceID req)) = None"
  shows "RenewLease_body ops cl h req = (h, Inl ErrPluginNotFound)"
  using assms by (simp add: RenewLease_body_def Let_def renew_missing)

lemma RenewLease_present:
  assumes "inv (h_registry h)" and "h_enabled h" and "\<not> blank (rl_PluginID req)" and "\<not> blank (rl_InstanceID req)"
    and "lookup (h_registry h) (idkey (rl_PluginID req) (rl_InstanceID req)) = Some x"
    and "ttl = (if 0 < rl_LeaseTTLSeconds req then wrap64 (rl_LeaseTTLSeconds req * Second) else h_leaseTTL h)"
  shows "\<exists>reg' t. let y = x\<lparr>Status := StatusOnline, LastHeartbeatAt := utcOrNow (t_wall cl) (t_now cl),
       LeaseExpiresAt := utcOrNow (t_wall cl) (t_now cl + ttl), LeaseTTLSeconds := t,
       UpdatedAt := utcOrNow (t_wall cl) (t_now cl)\<rparr> in
     RenewLease_body ops cl h req = (h\<lparr>h_registry := reg'\<rparr>, Inr y) \<and> inv reg' \<and>
     lookup reg' = (lookup (h_registry h))(idkey (rl_PluginID req) (rl_InstanceID req) \<mapsto> y) \<and>
     subs reg' = subs (h_registry h)"
proof -
  define l where "l = \<lparr>ls_PluginID = rl_PluginID req, ls_InstanceID = rl_InstanceID req, ls_LeaseTTL = ttl,
    ls_LastHeartbeatAt = t_now cl, ls_ExpiresAt = t_now cl + ttl\<rparr>"
  have x: "lookup (h_registry h) (idkey (ls_PluginID l) (ls_InstanceID l)) = Some x" using assms(5) by (simp add: l_def)
  have body: "RenewLease_body ops cl h req = (case ro_RenewLease ops (t_wall cl) (h_registry h) l of
      (reg, Inl e) \<Rightarrow> (h\<lparr>h_registry := reg\<rparr>, Inl (mapRegistryError e))
    | (reg, Inr plugin) \<Rightarrow> (h\<lparr>h_registry := reg\<rparr>, Inr plugin))"
    using assms(2-4) by (simp add: RenewLease_body_def Let_def l_def assms(6))
  have ls: "ls_PluginID l = rl_PluginID req" "ls_InstanceID l = rl_InstanceID req"
    "ls_LastHeartbeatAt l = t_now cl" "ls_ExpiresAt l = t_now cl + ttl" by (simp_all add: l_def)
  define y where "y t = x\<lparr>Status := StatusOnline, LastHeartbeatAt := utcOrNow (t_wall cl) (t_now cl),
       LeaseExpiresAt := utcOrNow (t_wall cl) (t_now cl + ttl), LeaseTTLSeconds := t,
       UpdatedAt := utcOrNow (t_wall cl) (t_now cl)\<rparr>" for t
  obtain s' t where "ro_RenewLease ops (t_wall cl) (h_registry h) l = (s', Inr (y t))" "inv s'"
    "lookup s' = (lookup (h_registry h))(idkey (rl_PluginID req) (rl_InstanceID req) \<mapsto> y t)"
    "subs s' = subs (h_registry h)"
    using renew_present [OF assms(1) x, of "t_wall cl"] unfolding Let_def y_def ls by blast
  then show ?thesis unfolding Let_def body y_def [symmetric]
    by (intro exI [of _ s'] exI [of _ t]) simp
qed

lemma Unregister_ok:
  assumes "inv (h_registry h)" and "h_enabled h" and "\<not> blank (un_PluginID req)" and "\<not> blank (un_InstanceID req)"
  shows "\<exists>reg'. Unregister_body ops cl h req = (h\<lparr>h_registry := reg'\<rparr>,
       Inr \<lparr>unr_PluginID = un_PluginID req, unr_InstanceID = un_InstanceID req, unr_Status = StatusOffline\<rparr>) \<and>
     inv reg' \<and> subs reg' = subs (h_registry h) \<and>
     (case lookup (h_registry h) (idkey (un_PluginID req) (un_InstanceID req)) of
        None \<Rightarrow> reg' = h_registry h
      | Some x \<Rightarrow> lookup reg' = (lookup (h_registry h))(idkey (un_PluginID req) (un_InstanceID req) \<mapsto>
          x\<lparr>Status := StatusOffline, RuntimeStatus := [], LeaseExpiresAt := utcOrNow (t_wall cl) (t_now cl),
             UpdatedAt := utcOrNow (t_wall cl) (t_now cl)\<rparr>))"
proof (cases "lookup (h_registry h) (idkey (un_PluginID req) (un_InstanceID req))")
  case None
  from unregister_missing [OF assms(1) None, of "t_wall cl" "t_now cl"] assms None show ?thesis
    by (intro exI [of _ "h_registry h"]) (simp add: Unregister_body_def)
next
  case (Some x)
  from unregister_present [OF assms(1) Some, of "t_wall cl" "t_now cl"] assms(2-4) Some show ?thesis
    by (auto simp: Unregister_body_def)
qed

lemma Drain_present:
  assumes "inv (h_registry h)" and "h_enabled h"
    and "lookup (h_registry h) (idkey (dr_PluginID req) (dr_InstanceID req)) = Some x"
  shows "\<exists>reg' md'. let y = x\<lparr>Status := StatusDraining, RuntimeStatus := RuntimeStatusDraining, Metadata := md',
       UpdatedAt := utcOrNow (t_wall cl) (t_now cl)\<rparr> in
     Drain_body ops cl h req = (h\<lparr>h_registry := reg'\<rparr>, Inr y) \<and> inv reg' \<and>
     lookup reg' = (lookup (h_registry h))(idkey (dr_PluginID req) (dr_InstanceID req) \<mapsto> y)"
proof -
  have t: "TrimSpace StatusDraining = StatusDraining" by code_simp
  have n: "StatusDraining \<noteq> []" by simp
  define y where "y md' = x\<lparr>Status := StatusDraining, RuntimeStatus := RuntimeStatusDraining, Metadata := md',
       UpdatedAt := utcOrNow (t_wall cl) (t_now cl)\<rparr>" for md'
  have "\<exists>s' md'. ro_ReportStatus ops (t_wall cl) (h_registry h) (dr_PluginID req) (dr_InstanceID req)
      StatusDraining RuntimeStatusDraining [] (t_now cl) = (s', Inr (y md')) \<and> inv s' \<and>
      lookup s' = (lookup (h_registry h))(idkey (dr_PluginID req) (dr_InstanceID req) \<mapsto> y md')"
    using report_present [OF assms(1,3), where ?w = "t_wall cl" and ?st = StatusDraining
        and ?rst = RuntimeStatusDraining and ?md = "[]" and ?now = "t_now cl"]
    unfolding Let_def t y_def if_not_P [OF n] by blast
  then show ?thesis using assms(2) unfolding Let_def y_def [symmetric]
    by (elim exE conjE) (simp add: Drain_body_def, blast)
qed

lemma Sync_present:
  assumes "inv (h_registry h)" and "h_enabled h" and m: "normalizeMetadata (sm_Plugin req) = Inr m"
    and x: "lookup (h_registry h) (idkey (PluginID m) (InstanceID m)) = Some x"
    and "y = (with_metadata m x)\<lparr>UpdatedAt := t_now cl\<rparr>"
  shows "\<exists>reg'. SyncMetadata_body ops cl h req = (h\<lparr>h_registry := reg'\<rparr>, Inr (backfill y x)) \<and> inv reg' \<and>
     lookup reg' = (lookup (h_registry h))(idkey (PluginID m) (InstanceID m) \<mapsto> backfill y x) \<and>
     subs reg' = subs (h_registry h)"
proof -
  have ids: "PluginID y = PluginID m" "InstanceID y = InstanceID m" by (simp_all add: assms(5))
  have v: "validateSnapshot y = None"
    using normalizeMetadata_Inr(3) [OF m] by (intro metadata_ok_valid) (simp add: assms(5))
  have x': "lookup (h_registry h) (idkey (PluginID y) (InstanceID y)) = Some x" using x by (simp add: ids)
  have g: "ro_GetInstance ops (h_registry h) (PluginID m) (InstanceID m) = Inr x"
    using get_Inr [OF assms(1)] x by blast
  from sync_present [OF assms(1) v x', of "t_wall cl"] show ?thesis
    unfolding ids using assms(2) m g by (auto simp: SyncMetadata_body_def Let_def assms(5))
qed

end

section \<open>Every operation keeps the registry invariant\<close>

context plugin_registry
begin

abbreviation good :: "'r \<Rightarrow> bool" where
  "good s \<equiv> inv s \<and> stored_ok lookup s"

lemma Register_good: "good (h_registry h) \<Longrightarrow> good (h_registry (fst (Host_Register ops cl h req)))"
proof -
  assume g: "good (h_registry h)"
  obtain h1 r1 where b: "Register_body ops cl h req = (h1, r1)" by fastforce
  have "good (h_registry h1)"
  proof (cases rule: Register_cases [OF conjunct1 [OF g] b, case_names refused stored])
    case (refused e)
    then show ?thesis using g by simp
  next
    case (stored m x reg')
    then show ?thesis using g stored_ok_upd [OF conjunct2 [OF g] stored(8)] by (simp add: registered_def)
  qed
  then show ?thesis using b by (simp add: Host_Register_def)
qed

lemma Renew_good: "good (h_registry h) \<Longrightarrow> good (h_registry (fst (Host_RenewLease ops cl h req)))"
proof -
  assume g: "good (h_registry h)"
  have "good (h_registry (fst (RenewLease_body ops cl h req)))"
  proof (cases "h_enabled h \<and> \<not> blank (rl_PluginID req) \<and> \<not> blank (rl_InstanceID req)")
    case False
    then show ?thesis using g by (auto simp: RenewLease_body_def)
  next
    case True
    show ?thesis
    proof (cases "lookup (h_registry h) (idkey (rl_PluginID req) (rl_InstanceID req))")
      case None
      then show ?thesis using RenewLease_missing g True by simp
    next
      case (Some x)
      from RenewLease_present [OF _ _ _ _ Some refl, of cl] g True
      obtain reg' y where "fst (RenewLease_body ops cl h req) = h\<lparr>h_registry := reg'\<rparr>" "inv reg'"
        "lookup reg' = (lookup (h_registry h))(idkey (rl_PluginID req) (rl_InstanceID req) \<mapsto> y)" "metadata_ok y"
        using stored_okD [OF conjunct2 [OF g] Some] unfolding Let_def by fastforce
      then show ?thesis using stored_ok_upd [OF conjunct2 [OF g]] by simp
    qed
  qed
  then show ?thesis by (simp add: Host_RenewLease_def split_beta)
qed

lemma Heartbeat_good: "good (h_registry h) \<Longrightarrow> good (h_registry (fst (Host_Heartbeat ops cl h req)))"
  using Renew_good by (simp add: Host_Heartbeat_def split_beta)

lemma Unregister_good: "good (h_registry h) \<Longrightarrow> good (h_registry (fst (Host_Unregister ops cl h req)))"
proof -
  assume g: "good (h_registry h)"
  have "good (h_registry (fst (Unregister_body ops cl h req)))"
  proof (cases "h_enabled h \<and> \<not> blank (un_PluginID req) \<and> \<not> blank (un_InstanceID req)")
    case False
    then show ?thesis using g by (auto simp: Unregister_body_def)
  next
    case True
    then obtain reg' where r: "fst (Unregister_body ops cl h req) = h\<lparr>h_registry := reg'\<rparr>" "inv reg'"
      "(case lookup (h_registry h) (idkey (un_PluginID req) (un_InstanceID req)) of
        None \<Rightarrow> reg' = h_registry h
      | Some x \<Rightarrow> lookup reg' = (lookup (h_registry h))(idkey (un_PluginID req) (un_InstanceID req) \<mapsto>
          x\<lparr>Status := StatusOffline, RuntimeStatus := [], LeaseExpiresAt := utcOrNow (t_wall cl) (t_now cl),
             UpdatedAt := utcOrNow (t_wall cl) (t_now cl)\<rparr>))"
      using Unregister_ok [of h req cl] g by auto
    have "stored_ok lookup reg'"
    proof (cases "lookup (h_registry h) (idkey (un_PluginID req) (un_InstanceID req))")
      case None
      then show ?thesis using r g by simp
    next
      case (Some x)
      then show ?thesis using r(3) stored_ok_upd [OF conjunct2 [OF g]] stored_okD [OF conjunct2 [OF g] Some] by simp
    qed
    then show ?thesis using r by simp
  qed
  then show ?thesis by (simp add: Host_Unregister_def split_beta)
qed

lemma report_good:
  assumes g: "good s"
  shows "good (fst (ro_ReportStatus ops w s p i st rst md now))"
proof (cases "lookup s (idkey p i)")
  case None
  then show ?thesis using report_missing [OF conjunct1 [OF g] None] g by simp
next
  case (Some x)
  from report_present [OF conjunct1 [OF g] Some, where ?w = w and ?st = st and ?rst = rst and ?md = md and ?now = now]
  obtain s' y where "fst (ro_ReportStatus ops w s p i st rst md now) = s'" "inv s'"
    "lookup s' = (lookup s)(idkey p i \<mapsto> y)" "metadata_ok y"
    using stored_okD [OF conjunct2 [OF g] Some] unfolding Let_def by fastforce
  then show ?thesis using stored_ok_upd [OF conjunct2 [OF g]] by simp
qed

lemma Report_good: "good (h_registry h) \<Longrightarrow> good (h_registry (fst (Host_ReportStatus ops cl h req)))"
  using report_good [of "h_registry h" "t_wall cl" "rs_PluginID req" "rs_InstanceID req" "rs_Status req"
      "rs_RuntimeStatus req" "rs_Metadata req" "t_now cl"]
  by (auto simp: Host_ReportStatus_def ReportStatus_body_def split: prod.splits sum.splits)

lemma Drain_good: "good (h_registry h) \<Longrightarrow> good (h_registry (fst (Host_Drain ops cl h req)))"
  using report_good [of "h_registry h" "t_wall cl" "dr_PluginID req" "dr_InstanceID req" StatusDraining
      RuntimeStatusDraining "[]" "t_now cl"]
  by (auto simp: Host_Drain_def Drain_body_def split: prod.splits sum.splits)

lemma Sync_good: "good (h_registry h) \<Longrightarrow> good (h_registry (fst (Host_SyncMetadata ops cl h req)))"
proof -
  assume g: "good (h_registry h)"
  have "good (h_registry (fst (SyncMetadata_body ops cl h req)))"
  proof (cases "normalizeMetadata (sm_Plugin req)")
    case (Inl e)
    then show ?thesis using g by (simp add: SyncMetadata_body_def)
  next
    case (Inr m)
    show ?thesis
    proof (cases "h_enabled h \<and> lookup (h_registry h) (idkey (PluginID m) (InstanceID m)) \<noteq> None")
      case False
      then show ?thesis using g Inr by (auto simp: SyncMetadata_body_def get_instance)
    next
      case True
      then obtain x where x: "lookup (h_registry h) (idkey (PluginID m) (InstanceID m)) = Some x" by auto
      from Sync_present [OF conjunct1 [OF g] _ Inr x refl, of cl] True
      obtain reg' where r: "fst (SyncMetadata_body ops cl h req) = h\<lparr>h_registry := reg'\<rparr>" "inv reg'"
        "lookup reg' = (lookup (h_registry h))(idkey (PluginID m) (InstanceID m) \<mapsto>
           backfill ((with_metadata m x)\<lparr>UpdatedAt := t_now cl\<rparr>) x)" by auto
      then show ?thesis using stored_ok_upd [OF conjunct2 [OF g] r(3)] normalizeMetadata_Inr(3) [OF Inr] by simp
    qed
  qed
  then show ?thesis by (simp add: Host_SyncMetadata_def split_beta)
qed

lemma expire_good: "good s \<Longrightarrow> good (fst (ro_ExpireLeases ops w s now))"
  using expire_ok [of s w now] by (auto simp: stored_ok_def)

lemma ExpireLeases_good: "good (h_registry h) \<Longrightarrow> good (h_registry (fst (Host_ExpireLeases ops w now h)))"
  using expire_good [of "h_registry h" w now] by (auto simp: Host_ExpireLeases_def split: prod.splits sum.splits)

lemma queries_good:
  assumes g: "good (h_registry h)"
  shows "good (h_registry (fst (Host_ListPlugins ops cl h)))"
    and "good (h_registry (fst (Host_GetPlugin ops cl h id0)))"
    and "good (h_registry (fst (Host_GetPluginInstance ops cl h p i)))"
    and "good (h_registry (fst (Host_ListCapabilities ops cl h lreq)))"
proof -
  have e: "good (h_registry (expireLeases ops cl h))" using ExpireLeases_good [OF g] by (simp add: expireLeases_def)
  show "good (h_registry (fst (Host_ListPlugins ops cl h)))"
    and "good (h_registry (fst (Host_GetPlugin ops cl h id0)))"
    and "good (h_registry (fst (Host_GetPluginInstance ops cl h p i)))"
    and "good (h_registry (fst (Host_ListCapabilities ops cl h lreq)))"
    using g e by (simp_all add: Host_ListPlugins_def Host_GetPlugin_def Host_GetPluginInstance_def
        Host_ListCapabilities_def Let_def split: sum.splits list.splits option.splits)
qed

lemma Router_Invoke_registry:
  "fst (Router_Invoke ops w now reg r req) = reg \<or>
   fst (Router_Invoke ops w now reg r req) = fst (ro_ExpireLeases ops w reg now)"
  by (auto simp: Router_Invoke_def candidates_def Let_def split: prod.splits sum.splits if_splits)

lemma Router_Push_registry:
  "fst (Router_PushEvent ops w now reg r req) = reg \<or>
   fst (Router_PushEvent ops w now reg r req) = fst (ro_ExpireLeases ops w reg now)"
proof -
  have "fst (eventTargets ops w now reg r req) = reg \<or> fst (eventTargets ops w now reg r req) = fst (ro_ExpireLeases ops w reg now)"
    by (auto simp: eventTargets_def candidates_def Let_def split: sum.splits if_splits)
  moreover have "fst (Router_PushEvent ops w now reg r req) = reg \<or>
      fst (Router_PushEvent ops w now reg r req) = fst (eventTargets ops w now reg r req)"
    by (auto simp: Router_PushEvent_def split: prod.splits sum.splits)
  ultimately show ?thesis by metis
qed

lemma Invoke_good:
  assumes g: "good (h_registry h)"
  shows "good (h_registry (fst (Host_Invoke ops cl h req)))"
proof -
  have "good (fst (Router_Invoke ops (t_wall cl) (t_route cl) (h_registry h) (h_router h) req))"
    using Router_Invoke_registry [of "t_wall cl" "t_route cl" "h_registry h" "h_router h" req] g expire_good [OF g] by metis
  then have "good (h_registry (fst (Invoke_body ops cl h req)))"
    using g by (auto simp: Invoke_body_def Let_def split: prod.splits sum.splits option.splits if_splits)
  then show ?thesis by (simp add: Host_Invoke_def split_beta)
qed

lemma PushEvent_good:
  assumes g: "good (h_registry h)"
  shows "good (h_registry (fst (Host_PushEvent ops cl h req)))"
proof -
  have "good (fst (Router_PushEvent ops (t_wall cl) (t_route cl) (h_registry h) (h_router h) req))"
    using Router_Push_registry [of "t_wall cl" "t_route cl" "h_registry h" "h_router h" req] g expire_good [OF g] by metis
  then have "good (h_registry (fst (PushEvent_body ops cl h req)))"
    using g by (auto simp: PushEvent_body_def DirectBus_Publish_def split: prod.splits)
  then show ?thesis by (simp add: Host_PushEvent_def split_beta)
qed

lemma subscribe_good: "good s \<Longrightarrow> good (fst (ro_SubscribeEvent ops w s b))"
  using subscribe_keeps [of s w b] by (simp add: stored_ok_def)

lemma subscribe_loop_good: "good s \<Longrightarrow> good (fst (subscribe_loop ops w s req evs acc))"
proof (induction evs arbitrary: s acc)
  case Nil
  then show ?case by simp
next
  case (Cons e evs)
  define b where "b = \<lparr>sub_PluginID = se_PluginID req, sub_InstanceID = se_InstanceID req, sub_Event = e,
              sub_Filters = se_Filters req, sub_CreatedAt = 0, sub_UpdatedAt = 0\<rparr>"
  obtain s' r where r: "ro_SubscribeEvent ops w s b = (s', r)" by fastforce
  have "good s'" using subscribe_good [OF Cons.prems, of w b] r by simp
  then show ?case using Cons.IH r by (cases r) (simp_all add: b_def)
qed

lemma SubscribeEvent_good:
  assumes g: "good (h_registry h)"
  shows "good (h_registry (fst (Host_SubscribeEvent ops cl h req)))"
proof -
  have "good (fst (DirectBus_Subscribe ops (t_wall cl) (h_registry h) req))"
    using subscribe_loop_good [OF g, of "t_wall cl" req "se_Events req" "[]"]
    by (auto simp: DirectBus_Subscribe_def split: prod.splits sum.splits)
  then have "good (h_registry (fst (SubscribeEvent_body ops cl h req)))"
    using g by (auto simp: SubscribeEvent_body_def split: prod.splits sum.splits option.splits)
  then show ?thesis by (simp add: Host_SubscribeEvent_def split_beta)
qed

end

end
