(* ===== verification/Registry_Watcher.thy ===== *)
theory Registry_Watcher
  imports Registry_Memory
begin

text \<open>
  State synchronisation by polling, \<open>pkg/plugin/registry/watcher.go\<close>. One \<open>poll\<close> lists the
  registry, compares it with the snapshots of the previous round and sends the differences on
  the output channel; \<open>run\<close> is the loop, as a run over ticks and receives of the consumer.
  \<open>snapshotFingerprint\<close> (the JSON text of a snapshot) is the parameter \<open>fp\<close>; \<open>now\<close> is the reading
  of the watcher's clock in a round, and the context of the watcher is live during a round.

  The lemmas show what a round sends, that replaying it reproduces the registry, and that a
  round over an unchanged registry sends nothing, whatever earlier rounds had to drop.
\<close>

type_synonym InstanceKey = "string \<times> string"

record PollState =
  ps_previous :: "(InstanceKey, PluginSnapshot) gomap"
  ps_out :: "Change chan"

definition PollWatcher_Watch :: "WatchOptions \<Rightarrow> WatchOptions \<times> PollState" where
  "PollWatcher_Watch options =
     (let options = (if wo_Buffer options \<le> 0 then options\<lparr>wo_Buffer := 32\<rparr> else options);
          options = (if PollInterval options \<le> 0 then options\<lparr>PollInterval := 5 * Second\<rparr> else options);
          options = (if IsZero (if_Now (wo_Filter options)) \<and> if_Status (wo_Filter options) = []
                     then options\<lparr>wo_Filter := (wo_Filter options)\<lparr>IncludeExpired := True\<rparr>\<rparr>
                     else options)
      in (options, \<lparr>ps_previous = [],
           ps_out = \<lparr>cbuf = [], ccap = nat (wo_Buffer options), cclosed = False\<rparr>\<rparr>))"

definition sendChange :: "Change \<Rightarrow> Change chan \<Rightarrow> Change chan" where
  "sendChange change out = trySend (cloneChange change) out"

definition observed :: "gotime \<Rightarrow> PluginSnapshot option \<Rightarrow> PluginSnapshot \<Rightarrow> Change" where
  "observed now old item = \<lparr>ch_Type = ChangeSnapshotObserved, ch_PluginID = PluginID item,
     ch_InstanceID = InstanceID item, ch_Plugin = item, ch_Previous = old, ch_Subscription = None,
     ch_ObservedAt = now\<rparr>"

definition disappeared :: "gotime \<Rightarrow> InstanceKey \<Rightarrow> PluginSnapshot \<Rightarrow> Change" where
  "disappeared now k old = \<lparr>ch_Type = ChangeSnapshotDisappeared, ch_PluginID = fst k,
     ch_InstanceID = snd k, ch_Plugin = zero_snapshot, ch_Previous = Some old,
     ch_Subscription = None, ch_ObservedAt = now\<rparr>"

definition changed ::
    "(PluginSnapshot \<Rightarrow> string) \<Rightarrow> (InstanceKey, PluginSnapshot) gomap \<Rightarrow> PluginSnapshot \<Rightarrow> bool" where
  "changed fp previous item =
     (case mget previous (snapshot_ids item) of None \<Rightarrow> True | Some old \<Rightarrow> fp old \<noteq> fp item)"

fun poll_items ::
    "(PluginSnapshot \<Rightarrow> string) \<Rightarrow> gotime \<Rightarrow> bool \<Rightarrow> (InstanceKey, PluginSnapshot) gomap \<Rightarrow>
     PluginSnapshot list \<Rightarrow> (InstanceKey, PluginSnapshot) gomap \<Rightarrow> Change chan \<Rightarrow>
     (InstanceKey, PluginSnapshot) gomap \<times> Change chan" where
  "poll_items fp now emit previous [] current out = (current, out)"
| "poll_items fp now emit previous (item # items) current out =
     (let k = snapshot_ids item;
          current = mput current k item;
          out = (if emit \<and> changed fp previous item
                 then sendChange (observed now (mget previous k) item) out else out)
      in poll_items fp now emit previous items current out)"

fun poll_gone ::
    "gotime \<Rightarrow> (InstanceKey \<times> PluginSnapshot) list \<Rightarrow> (InstanceKey, PluginSnapshot) gomap \<Rightarrow>
     Change chan \<Rightarrow> Change chan" where
  "poll_gone now [] current out = out"
| "poll_gone now ((k, old) # rest) current out =
     (case mget current k of
        Some _ \<Rightarrow> poll_gone now rest current out
      | None \<Rightarrow> poll_gone now rest current (sendChange (disappeared now k old) out))"

definition poll ::
    "'r RegistryOps \<Rightarrow> (PluginSnapshot \<Rightarrow> string) \<Rightarrow> gotime \<Rightarrow> gotime \<Rightarrow> 'r \<Rightarrow> WatchOptions \<Rightarrow>
     bool \<Rightarrow> PollState \<Rightarrow> PollState \<times> goerror option" where
  "poll ops fp w now r options emit ps =
     (let f = wo_Filter options;
          f = (if IsZero (if_Now f) then f\<lparr>if_Now := now\<rparr> else f) in
      case ro_ListInstances ops w r f of
        Inl e \<Rightarrow> (ps, Some e)
      | Inr items \<Rightarrow>
          let (current, out) = poll_items fp now emit (ps_previous ps) items [] (ps_out ps);
              out = (if emit then poll_gone now (ps_previous ps) current out else out)
          in (\<lparr>ps_previous = current, ps_out = out\<rparr>, None))"

text \<open>The loop: one initial round, then a round per tick; the consumer receives in between.\<close>

datatype 'r poll_event = Tick gotime gotime 'r | Recv

fun run_events ::
    "'r RegistryOps \<Rightarrow> (PluginSnapshot \<Rightarrow> string) \<Rightarrow> WatchOptions \<Rightarrow> 'r poll_event list \<Rightarrow>
     PollState \<Rightarrow> Change list \<Rightarrow> PollState \<times> Change list" where
  "run_events ops fp options [] ps got = (ps, got)"
| "run_events ops fp options (Tick w now r # es) ps got =
     run_events ops fp options es (fst (poll ops fp w now r options True ps)) got"
| "run_events ops fp options (Recv # es) ps got =
     (case cbuf (ps_out ps) of
        [] \<Rightarrow> run_events ops fp options es ps got
      | v # vs \<Rightarrow> run_events ops fp options es (ps\<lparr>ps_out := (ps_out ps)\<lparr>cbuf := vs\<rparr>\<rparr>) (got @ [v]))"

definition PollWatcher_run ::
    "'r RegistryOps \<Rightarrow> (PluginSnapshot \<Rightarrow> string) \<Rightarrow> WatchOptions \<Rightarrow> gotime \<Rightarrow> gotime \<Rightarrow> 'r \<Rightarrow>
     'r poll_event list \<Rightarrow> PollState \<times> Change list" where
  "PollWatcher_run ops fp options w now r es =
     (let (options, ps) = PollWatcher_Watch options;
          ps = fst (poll ops fp w now r options (InitialSnapshot options) ps)
      in run_events ops fp options es ps [])"

text \<open>
  \<open>StatusSynchronizer.Run\<close> consumes what the watcher channel delivers until the context ends,
  the channel is closed or the handler fails; \<open>None\<close> means it is still waiting.
\<close>

datatype sync_event = CtxDone goerror | Delivered Change | ChanClosed

fun StatusSynchronizer_Run ::
    "('h \<Rightarrow> Change \<Rightarrow> 'h \<times> goerror option) \<Rightarrow> 'h \<Rightarrow> sync_event list \<Rightarrow> 'h \<times> goerror option option" where
  "StatusSynchronizer_Run handler h [] = (h, None)"
| "StatusSynchronizer_Run handler h (CtxDone e # es) = (h, Some (Some e))"
| "StatusSynchronizer_Run handler h (ChanClosed # es) = (h, Some None)"
| "StatusSynchronizer_Run handler h (Delivered c # es) =
     (case handler h c of
        (h', Some e) \<Rightarrow> (h', Some (Some e))
      | (h', None) \<Rightarrow> StatusSynchronizer_Run handler h' es)"

section \<open>What a round sends\<close>

text \<open>The changes of a round, in order, before the channel drops any.\<close>

definition item_changes where
  "item_changes fp now previous items =
     map (\<lambda>item. observed now (mget previous (snapshot_ids item)) item) (filter (changed fp previous) items)"

definition gone_changes where
  "gone_changes now previous current =
     map (\<lambda>(k, old). disappeared now k old) (filter (\<lambda>(k, old). mget current k = None) previous)"

lemma poll_items_current: "fst (poll_items fp now emit previous items current out) =
    fold (\<lambda>item m. mput m (snapshot_ids item) item) items current"
  by (induction items arbitrary: current out) (auto simp: Let_def)

lemma poll_items_out: "snd (poll_items fp now emit previous items current out) =
    fold sendChange (if emit then item_changes fp now previous items else []) out"
  by (induction items arbitrary: current out) (auto simp: Let_def item_changes_def)

lemma poll_gone_out: "poll_gone now previous current out = fold sendChange (gone_changes now previous current) out"
  by (induction previous arbitrary: out) (auto simp: gone_changes_def split: option.splits)

definition round_changes where
  "round_changes fp now previous items =
     item_changes fp now previous items @
     gone_changes now previous (fold (\<lambda>item m. mput m (snapshot_ids item) item) items [])"

lemma poll_ok:
  assumes "ro_ListInstances ops w r
     (let f = wo_Filter options in if IsZero (if_Now f) then f\<lparr>if_Now := now\<rparr> else f) = Inr items"
  shows "poll ops fp w now r options emit ps =
     (\<lparr>ps_previous = fold (\<lambda>item m. mput m (snapshot_ids item) item) items [],
       ps_out = fold sendChange (if emit then round_changes fp now (ps_previous ps) items else []) (ps_out ps)\<rparr>,
      None)"
  using assms unfolding poll_def Let_def
  by (simp add: split_beta poll_items_current poll_items_out poll_gone_out round_changes_def)

lemma current_mget:
  "distinct (map snapshot_ids items) \<Longrightarrow>
   mget (fold (\<lambda>item m. mput m (snapshot_ids item) item) items m) k =
     (case find (\<lambda>item. snapshot_ids item = k) items of Some x \<Rightarrow> Some x | None \<Rightarrow> mget m k)"
proof (induction items arbitrary: m)
  case Nil
  then show ?case by simp
next
  case (Cons a items)
  have "find (\<lambda>item. snapshot_ids item = snapshot_ids a) items = None"
    using Cons.prems by (simp add: find_None_iff) (metis image_eqI)
  with Cons show ?case by (auto split: option.splits)
qed

lemma current_mget_Some:
  assumes "distinct (map snapshot_ids items)"
  shows "mget (fold (\<lambda>item m. mput m (snapshot_ids item) item) items []) k = Some x \<longleftrightarrow>
    x \<in> set items \<and> snapshot_ids x = k"
proof
  assume "mget (fold (\<lambda>item m. mput m (snapshot_ids item) item) items []) k = Some x"
  then show "x \<in> set items \<and> snapshot_ids x = k"
    by (auto simp: current_mget [OF assms] find_Some_iff split: option.splits)
next
  assume x: "x \<in> set items \<and> snapshot_ids x = k"
  have "find (\<lambda>item. snapshot_ids item = k) items \<noteq> None"
    using x by (auto simp: find_None_iff)
  then obtain y where y: "find (\<lambda>item. snapshot_ids item = k) items = Some y" by auto
  then have "y \<in> set items" "snapshot_ids y = k" by (auto simp: find_Some_iff)
  then have "y = x" using x assms by (auto simp: distinct_map dest: inj_onD)
  with y show "mget (fold (\<lambda>item m. mput m (snapshot_ids item) item) items []) k = Some x"
    by (simp add: current_mget [OF assms])
qed

text \<open>A round over the snapshots of the previous round sends nothing.\<close>

lemma round_changes_same:
  assumes "distinct (map snapshot_ids items)"
  shows "round_changes fp now (fold (\<lambda>item m. mput m (snapshot_ids item) item) items []) items = []"
proof -
  have "\<not> changed fp (fold (\<lambda>item m. mput m (snapshot_ids item) item) items []) x" if "x \<in> set items" for x
    using current_mget_Some [OF assms, of "snapshot_ids x" x] that by (simp add: changed_def)
  moreover have "mget m k \<noteq> None" if "(k, v) \<in> set m" for m :: "(InstanceKey, PluginSnapshot) gomap" and k v
    using that by (metis fst_conv image_eqI map_of_eq_None_iff mget_def)
  ultimately show ?thesis
    by (auto simp: round_changes_def item_changes_def gone_changes_def filter_empty_conv)
qed

section \<open>Replaying the changes of a round\<close>

fun apply_change ::
    "Change \<Rightarrow> (InstanceKey \<rightharpoonup> PluginSnapshot) \<Rightarrow> InstanceKey \<rightharpoonup> PluginSnapshot" where
  "apply_change c v =
     (if ch_Type c = ChangeSnapshotDisappeared then v((ch_PluginID c, ch_InstanceID c) := None)
      else v((ch_PluginID c, ch_InstanceID c) \<mapsto> ch_Plugin c))"

lemma replay_items:
  assumes "distinct (map snapshot_ids items)"
  shows "fold apply_change (item_changes fp now previous items) v k =
     (case find (\<lambda>x. snapshot_ids x = k \<and> changed fp previous x) items of
        Some x \<Rightarrow> Some x | None \<Rightarrow> v k)"
  using assms
proof (induction items arbitrary: v)
  case Nil
  then show ?case by (simp add: item_changes_def)
next
  case (Cons a items)
  have "find (\<lambda>x. snapshot_ids x = snapshot_ids a \<and> changed fp previous x) items = None"
    using Cons.prems by (simp add: find_None_iff) (metis image_eqI)
  with Cons show ?case
    by (auto simp: item_changes_def observed_def snapshot_ids_def split: option.splits)
qed

lemma replay_gone:
  "fold apply_change (gone_changes now previous current) v k =
     (if k \<in> fst ` set previous \<and> mget current k = None then None else v k)"
  by (induction previous arbitrary: v) (auto simp: gone_changes_def disappeared_def)

lemma replay_round:
  assumes d: "distinct (map snapshot_ids items)"
  shows "map_option fp (fold apply_change (round_changes fp now previous items) (mget previous) k) =
     map_option fp (mget (fold (\<lambda>item m. mput m (snapshot_ids item) item) items []) k)"
proof -
  define current where "current = fold (\<lambda>item m. mput m (snapshot_ids item) item) items []"
  have fold: "fold apply_change (round_changes fp now previous items) (mget previous) k =
     (if k \<in> fst ` set previous \<and> mget current k = None then None
      else case find (\<lambda>x. snapshot_ids x = k \<and> changed fp previous x) items of
        Some x \<Rightarrow> Some x | None \<Rightarrow> mget previous k)"
    by (simp add: round_changes_def current_def [symmetric] replay_gone replay_items [OF d])
  show ?thesis
  proof (cases "mget current k")
    case None
    then have "\<forall>x \<in> set items. snapshot_ids x \<noteq> k"
      using current_mget_Some [OF d] by (metis current_def option.distinct(1))
    then have "find (\<lambda>x. snapshot_ids x = k \<and> changed fp previous x) items = None"
      by (auto simp: find_None_iff)
    moreover have "k \<notin> fst ` set previous \<Longrightarrow> mget previous k = None"
      by (simp add: mget_def map_of_eq_None_iff)
    ultimately show ?thesis using None fold by (simp add: current_def)
  next
    case (Some x)
    then have x: "x \<in> set items" "snapshot_ids x = k"
      using current_mget_Some [OF d] by (auto simp: current_def)
    show ?thesis
    proof (cases "find (\<lambda>y. snapshot_ids y = k \<and> changed fp previous y) items")
      case None
      then have "\<not> changed fp previous x" using x by (auto simp: find_None_iff)
      then show ?thesis using None Some fold x
        by (auto simp: changed_def current_def split: option.splits)
    next
      case (Some y)
      then have "y \<in> set items" "snapshot_ids y = k" by (auto simp: find_Some_iff)
      then have "y = x" using x d by (auto simp: distinct_map dest: inj_onD)
      then show ?thesis using Some fold \<open>mget current k = Some x\<close> by (simp add: current_def)
    qed
  qed
qed

lemma send_all_fits:
  "length (cbuf out) + length cs \<le> ccap out \<Longrightarrow>
   cbuf (fold sendChange cs out) = cbuf out @ cs \<and> ccap (fold sendChange cs out) = ccap out"
  by (induction cs arbitrary: out) (auto simp: sendChange_def trySend_def)

section \<open>Over any registry that keeps the contract\<close>

context plugin_registry
begin

lemma list_distinct:
  assumes "inv s" and "ro_ListInstances ops w s f = Inr xs"
  shows "distinct (map snapshot_ids xs)"
proof -
  have "sorted_wrt (\<lambda>a b. snapshot_ids a < snapshot_ids b) xs"
    using list_instances [OF assms(1), of w f] assms(2) by auto
  then have "sorted_wrt (<) (map snapshot_ids xs)" by (simp add: sorted_wrt_map)
  then show ?thesis by (simp add: strict_sorted_iff)
qed

lemma list_unique:
  assumes "inv s" and xs: "ro_ListInstances ops w s f = Inr xs" and ys: "ro_ListInstances ops w' s g = Inr ys"
    and "\<And>x. matches w x f \<longleftrightarrow> matches w' x g"
  shows "xs = ys"
proof -
  have set: "set xs = set ys"
    using list_instances [OF assms(1), of w f] list_instances [OF assms(1), of w' g] assms by auto
  have d: "distinct (map snapshot_ids xs)" "distinct (map snapshot_ids ys)"
    using list_distinct [OF assms(1)] xs ys by auto
  have s: "sorted (map snapshot_ids xs)" "sorted (map snapshot_ids ys)"
    using list_instances [OF assms(1), of w f] list_instances [OF assms(1), of w' g] xs ys
    by (auto simp: sorted_wrt_map intro: sorted_wrt_mono_rel [of _ "\<lambda>a b. snapshot_ids a < snapshot_ids b"])
  have "mset xs = mset ys" and "inj_on snapshot_ids (set xs)"
    using d set by (simp_all add: distinct_map set_eq_iff_mset_eq_distinct [symmetric])
  then have "sort_key snapshot_ids xs = sort_key snapshot_ids ys" by (rule sort_key_unique)
  then show ?thesis using s by (simp add: sort_key_id_if_sorted)
qed

text \<open>
  With a filter that does not hide expired instances, a second round over the same registry
  state, at any later time, adds nothing to the channel.
\<close>

lemma poll_settled:
  assumes "inv s" and "IncludeExpired (wo_Filter options)"
  shows "ps_out (fst (poll ops fp w' now' s options emit' (fst (poll ops fp w now s options emit ps)))) =
     ps_out (fst (poll ops fp w now s options emit ps))"
proof -
  define f where "f t = (let f = wo_Filter options in if IsZero (if_Now f) then f\<lparr>if_Now := t\<rparr> else f)" for t
  have m: "matches w x (f now) = matches w' x (f now')" for x
    using assms(2) by (auto simp: matches_iff f_def Let_def)
  obtain xs where xs: "ro_ListInstances ops w s (f now) = Inr xs" using list_instances [OF assms(1)] by blast
  obtain ys where ys: "ro_ListInstances ops w' s (f now') = Inr ys" using list_instances [OF assms(1)] by blast
  have "xs = ys" using list_unique [OF assms(1) xs ys m] .
  then show ?thesis
    using poll_ok [OF xs [unfolded f_def]] poll_ok [OF ys [unfolded f_def]]
    by (simp add: round_changes_same [OF list_distinct [OF assms(1) ys]])
qed

end

end
