(* ===== verification/Registry_Properties.thy ===== *)
theory Registry_Properties
  imports Registry_Watcher
begin

text \<open>
  The properties of the in-process registry and of the polling watcher: what a lookup, a listing
  or a sweep returns after any sequence of operations, what a watcher receives, and what a
  consumer of the changes can rebuild.
\<close>

section \<open>Samples\<close>

definition sample_snapshot :: PluginSnapshot where
  "sample_snapshot = zero_snapshot\<lparr>PluginID := ''billing'', InstanceID := ''i1'', Status := StatusOnline,
     LeaseExpiresAt := 50, CreatedAt := 7\<rparr>"

lemma sample_key: "key ''billing'' ''i1'' = ''billing'' @ [CHR 0x00] @ ''i1''"
  by code_simp

lemma sample_sel [simp]:
  "PluginID sample_snapshot = ''billing''" "InstanceID sample_snapshot = ''i1''"
  "Status sample_snapshot = StatusOnline" "LeaseExpiresAt sample_snapshot = 50"
  "CreatedAt sample_snapshot = 7"
  by (simp_all add: sample_snapshot_def)

lemma sample_valid: "validateSnapshot sample_snapshot = None"
  by code_simp

definition sample_filter :: InstanceFilter where
  "sample_filter = \<lparr>if_PluginID = [], if_InstanceID = [], if_Capability = [], if_Status = [],
     IncludeExpired = True, if_Now = 0\<rparr>"

section \<open>The in-process registry\<close>

lemma get_Inr_iff: "Memory_GetInstance m p i = Inr x \<longleftrightarrow> mget (instances m) (key p i) = Some x"
  by (simp add: Memory_GetInstance_def split: option.splits)

lemma stored_iff:
  assumes "data_inv m"
  shows "(\<exists>k. mget (instances m) k = Some x) \<longleftrightarrow> (\<exists>p i. Memory_GetInstance m p i = Inr x)"
proof
  assume "\<exists>k. mget (instances m) k = Some x"
  then obtain k where k: "mget (instances m) k = Some x" by blast
  with data_inv_key [OF assms k] have "Memory_GetInstance m (PluginID x) (InstanceID x) = Inr x"
    by (simp add: get_Inr_iff)
  then show "\<exists>p i. Memory_GetInstance m p i = Inr x" by blast
qed (auto simp: get_Inr_iff)

text \<open>After a registration with non-blank identifiers, looking the instance up returns the registered
  snapshot, with the creation time of an earlier registration of the same instance when that is
  set; every other instance is as before and the registry invariant is kept.\<close>

theorem register_then_get:
  assumes "data_inv m" and "validateSnapshot x = None"
    and "Memory_RegisterInstance w m x = (m', r)"
  shows "\<exists>c. r = Inr (x\<lparr>CreatedAt := c\<rparr>) \<and>
     c = (case Memory_GetInstance m (PluginID x) (InstanceID x) of
            Inl e \<Rightarrow> CreatedAt x
          | Inr y \<Rightarrow> if CreatedAt y = 0 then CreatedAt x else CreatedAt y) \<and>
     Memory_GetInstance m' (PluginID x) (InstanceID x) = Inr (x\<lparr>CreatedAt := c\<rparr>) \<and>
     (\<forall>p i. key p i \<noteq> key (PluginID x) (InstanceID x) \<longrightarrow>
        Memory_GetInstance m' p i = Memory_GetInstance m p i) \<and> data_inv m'"
proof -
  obtain c where c: "r = Inr (x\<lparr>CreatedAt := c\<rparr>)"
    "instances m' = mput (instances m) (key (PluginID x) (InstanceID x)) (x\<lparr>CreatedAt := c\<rparr>)"
    "c = (case mget (instances m) (key (PluginID x) (InstanceID x)) of
            Some y \<Rightarrow> if CreatedAt y = 0 then CreatedAt x else CreatedAt y
          | None \<Rightarrow> CreatedAt x)"
    using Memory_register_spec [OF assms(2), of w m] assms(3) by auto
  have "data_inv m'" using data_inv_register [OF assms(1), of w x] assms(3) by simp
  with c show ?thesis
    by (intro exI [of _ c]) (simp add: Memory_GetInstance_def split: option.splits)
qed

theorem register_then_get_witness:
  "Memory_GetInstance (fst (Memory_RegisterInstance 9 NewMemory sample_snapshot)) ''billing'' ''i1'' =
     Inr sample_snapshot"
proof -
  obtain m' r where e: "Memory_RegisterInstance 9 NewMemory sample_snapshot = (m', r)" by fastforce
  have n: "Memory_GetInstance NewMemory p i = Inl registry_ErrNotFound" for p i
    by (simp add: Memory_GetInstance_def NewMemory_def)
  have u: "sample_snapshot\<lparr>CreatedAt := 7\<rparr> = sample_snapshot" by (simp add: sample_snapshot_def)
  show ?thesis
    using register_then_get [OF data_inv_NewMemory sample_valid e] unfolding e n
    by (simp add: u)
qed


text \<open>C26. A sweep of expired leases takes exactly the online instances whose lease is set and not after the
  sweep time offline and returns exactly them; afterwards no expired instance is listed, and a
  second sweep at the same time returns nothing and changes nothing.\<close>

theorem expire_leases_complete:
  assumes "data_inv m" and "Memory_ExpireLeases w m now = (m', r)"
  shows "(\<forall>p i. Memory_GetInstance m' p i =
       map_sum id (expire_snapshot (utcOrNow w now)) (Memory_GetInstance m p i)) \<and>
     (\<exists>xs. r = Inr xs \<and> set xs = expire_snapshot (utcOrNow w now) `
       {x. (\<exists>p i. Memory_GetInstance m p i = Inr x) \<and> lease_over x (utcOrNow w now)}) \<and>
     Memory_ListExpired w m' (utcOrNow w now) = Inr [] \<and>
     Memory_ExpireLeases w m' now = (m', Inr [])"
proof -
  define t where "t = utcOrNow w now"
  have inv': "data_inv m'" and get: "\<And>k. mget (instances m') k = map_option (expire_snapshot t) (mget (instances m) k)"
    using data_inv_expire [OF assms(1), of w now] assms(2) by (simp_all add: t_def)
  have wf: "wf_map (instances m)" and wf': "wf_map (instances m')"
    using assms(1) inv' by (simp_all add: data_inv_def)
  note stored = stored_iff [OF assms(1)]
  have r: "r = Inr (sortSnapshots (fst (snd (expire_loop t (instances m) (instances m) [] []))))"
    using assms(2) by (auto simp: Memory_ExpireLeases_def Let_def t_def split: prod.splits)
  have "set (filter (\<lambda>s. lease_over s t) (map snd (instances m))) =
      {x. (\<exists>p i. Memory_GetInstance m p i = Inr x) \<and> lease_over x t}"
    unfolding stored [symmetric] using values_mget [OF wf] by auto
  then have expired: "\<exists>xs. r = Inr xs \<and> set xs = expire_snapshot t `
       {x. (\<exists>p i. Memory_GetInstance m p i = Inr x) \<and> lease_over x t}"
    unfolding r expire_loop_expired by (simp add: sortSnapshots_def del: filter_map set_map set_filter)
      (simp del: set_filter)
  have over: "\<not> lease_over (expire_snapshot t x) t" for x
    by (simp add: expire_snapshot_def lease_over_def)
  have none: "x \<in> set (map snd (instances m')) \<Longrightarrow> \<not> lease_over x t" for x
    using values_mget [OF wf'] get over by auto
  have loop: "(\<forall>x \<in> set (map snd es). \<not> lease_over x t) \<Longrightarrow> expire_loop t es ms ex ch = (ms, ex, ch)"
    for es ms ex ch by (induction es) auto
  have again: "Memory_ExpireLeases w m' now = (m', Inr [])"
    using loop [of "instances m'"] none
    by (simp add: Memory_ExpireLeases_def Let_def t_def [symmetric] sortSnapshots_def)
  have tt: "utcOrNow w t = t" by (simp add: t_def utcOrNow_def)
  have listed: "Memory_ListExpired w m' t = Inr []"
    using none by (simp add: Memory_ListExpired_def tt Let_def sortSnapshots_def filter_empty_conv)
  show ?thesis
    using get expired again listed
    by (auto simp: Memory_GetInstance_def t_def split: option.splits)
qed

theorem expire_leases_complete_witness:
  "Memory_ListExpired 99 (fst (Memory_ExpireLeases 99
     (fst (Memory_RegisterInstance 9 NewMemory sample_snapshot)) 60)) 60 = Inr []"
proof -
  define m where "m = fst (Memory_RegisterInstance 9 NewMemory sample_snapshot)"
  have i: "data_inv m" by (simp add: m_def data_inv_ops data_inv_NewMemory)
  obtain m' r where e: "Memory_ExpireLeases 99 m 60 = (m', r)" by fastforce
  show ?thesis using expire_leases_complete [OF i e] by (simp add: e m_def [symmetric])
qed

text \<open>A listing returns exactly the stored instances that match the filter, each once, in strictly
  increasing order of (plugin id, instance id), and does not depend on the iteration order of the
  instance map: two registries with the same entries give the same list.\<close>

theorem list_instances_canonical:
  assumes "data_inv m" and "wf_map (instances m')"
    and "\<forall>k. mget (instances m) k = mget (instances m') k"
  shows "\<exists>xs. Memory_ListInstances w m f = Inr xs \<and> Memory_ListInstances w m' f = Inr xs \<and>
     sorted_wrt (\<lambda>a b. snapshot_ids a < snapshot_ids b) xs \<and>
     set xs = {x. (\<exists>p i. Memory_GetInstance m p i = Inr x) \<and> matches w x f}"
proof -
  obtain xs where xs: "Memory_ListInstances w m f = Inr xs"
    "set xs = {x. (\<exists>k. mget (instances m) k = Some x) \<and> matches w x f}"
    "sorted_wrt (\<lambda>a b. snapshot_ids a < snapshot_ids b) xs"
    using Memory_list_spec [OF assms(1)] by blast
  note stored = stored_iff [OF assms(1)]
  have wf: "wf_map (instances m)" using assms(1) by (simp add: data_inv_def)
  have "sortSnapshots (filter (\<lambda>x. matches w x f) (map snd (instances m))) =
      sortSnapshots (filter (\<lambda>x. matches w x f) (map snd (instances m')))"
    unfolding sortSnapshots_def
  proof (rule sort_key_unique)
    show "mset (filter (\<lambda>x. matches w x f) (map snd (instances m))) =
        mset (filter (\<lambda>x. matches w x f) (map snd (instances m')))"
      using assms(3) by (intro mset_filter_values [OF wf assms(2)]) simp
    show "inj_on snapshot_ids (set (filter (\<lambda>x. matches w x f) (map snd (instances m))))"
      by (rule inj_on_subset [OF data_inv_ids_inj [OF assms(1)]]) auto
  qed
  then have "Memory_ListInstances w m' f = Inr xs" using xs(1) by (simp add: Memory_ListInstances_def)
  with xs stored show ?thesis by auto
qed

theorem list_instances_canonical_witness:
  "\<exists>xs. Memory_ListInstances 99 (fst (Memory_RegisterInstance 9 NewMemory sample_snapshot)) sample_filter =
       Inr xs \<and> sorted_wrt (\<lambda>a b. snapshot_ids a < snapshot_ids b) xs"
proof -
  have i: "data_inv (fst (Memory_RegisterInstance 9 NewMemory sample_snapshot))"
    by (simp add: data_inv_register data_inv_NewMemory)
  then have "wf_map (instances (fst (Memory_RegisterInstance 9 NewMemory sample_snapshot)))"
    by (simp add: data_inv_def)
  from list_instances_canonical [OF i this, of 99 sample_filter] show ?thesis by blast
qed

text \<open>C7. In no interleaving of registry operations, notifications, watcher goroutines, context cancellations
  and consumers does the registry send on a closed channel or close one twice; the invariants of
  the stored data and of the watcher table hold in every reachable state.\<close>

theorem memory_never_panics:
  assumes "mem_reachable m"
  shows "\<not> m_panic m \<and> data_inv m \<and> watch_inv m"
  using reachable_inv [OF assms] by (simp add: watch_inv_def)

theorem memory_never_panics_witness:
  "\<not> m_panic (notify 3 (closeWatcher_remove (fst (Memory_Watch 1 NewMemory
      \<lparr>wo_Buffer = 1, InitialSnapshot = False, PollInterval = 0, wo_Filter = sample_filter\<rparr>)) 0)
      (mk_change ChangeRegistered sample_snapshot None))"
proof -
  define opt where "opt = \<lparr>wo_Buffer = 1, InitialSnapshot = False, PollInterval = 0, wo_Filter = sample_filter\<rparr>"
  have "mem_reachable (fst (Memory_Watch 1 NewMemory opt))"
    by (rule mem_reachable.step [OF mem_reachable.start mem_step.watch])
  moreover have "mget (m_pcs (fst (Memory_Watch 1 NewMemory opt))) 0 = Some (Sending [])"
    by (simp add: Memory_Watch_def NewMemory_def Let_def opt_def)
  ultimately have "mem_reachable (closeWatcher_remove (fst (Memory_Watch 1 NewMemory opt)) 0)"
    using mem_reachable.step mem_step.cancel by blast
  then have "mem_reachable (notify 3 (closeWatcher_remove (fst (Memory_Watch 1 NewMemory opt)) 0)
      (mk_change ChangeRegistered sample_snapshot None))"
    using mem_reachable.step mem_step.notify by blast
  from memory_never_panics [OF this] show ?thesis by (simp add: opt_def)
qed

text \<open>A broadcast appends the change to the channel of a registered watcher exactly when the watcher's
  filter accepts it and the buffer has room, stamps it with the wall clock when it carries no
  time, and does not touch the channel otherwise; it never changes the stored data.\<close>

theorem notify_delivers:
  assumes "watch_inv m" and "mget (watchers m) i = Some wt" and "mget (m_chans m) i = Some c"
    and "change' = change\<lparr>ch_ObservedAt := utcOrNow w (ch_ObservedAt change)\<rparr>"
  shows "mget (m_chans (notify w m change)) i = Some (c\<lparr>cbuf :=
       (if matchesChange w change' (mw_filter wt) \<and> length (cbuf c) < ccap c
        then cbuf c @ [change'] else cbuf c)\<rparr>) \<and>
     instances (notify w m change) = instances m \<and> subscriptions (notify w m change) = subscriptions m"
proof -
  have wf: "wf_map (watchers m)" using assms(1) by (simp add: watch_inv_def)
  have e: "notify w m change = fold (notify_one w change') (watchers m) m"
    by (simp add: notify_def Let_def assms(4) utcOrNow_def)
  have "mget (m_chans (notify w m change)) i =
      Some (if matchesChange w change' (mw_filter wt) then trySend change' c else c)"
    unfolding e using notify_fold_chan [OF wf subset_refl assms(1,3), of w change'] assms(2)
    by (simp add: mget_def)
  then show ?thesis by (simp add: trySend_def)
qed

theorem notify_delivers_witness:
  "map_option cbuf (mget (m_chans (notify 3 (fst (Memory_Watch 1 NewMemory
      \<lparr>wo_Buffer = 1, InitialSnapshot = False, PollInterval = 0, wo_Filter = sample_filter\<rparr>))
      (mk_change ChangeRegistered sample_snapshot None))) 0) =
   Some [(mk_change ChangeRegistered sample_snapshot None)\<lparr>ch_ObservedAt := 3\<rparr>]"
proof -
  define opt where "opt = \<lparr>wo_Buffer = 1, InitialSnapshot = False, PollInterval = 0, wo_Filter = sample_filter\<rparr>"
  define m where "m = fst (Memory_Watch 1 NewMemory opt)"
  define ch where "ch = mk_change ChangeRegistered sample_snapshot None"
  have r: "watch_inv m"
    using reachable_inv [OF mem_reachable.step [OF mem_reachable.start mem_step.watch]] by (simp add: m_def)
  have w: "mget (watchers m) 0 = Some \<lparr>mw_ch = 0, mw_filter = sample_filter\<rparr>"
    and c: "mget (m_chans m) 0 = Some \<lparr>cbuf = [], ccap = 1, cclosed = False\<rparr>"
    by (simp_all add: m_def Memory_Watch_def NewMemory_def Let_def opt_def sample_filter_def)
  have o: "ch\<lparr>ch_ObservedAt := 3\<rparr> = ch\<lparr>ch_ObservedAt := utcOrNow 3 (ch_ObservedAt ch)\<rparr>"
    by (simp add: ch_def mk_change_def utcOrNow_def IsZero_def)
  have a: "matchesChange 3 (ch\<lparr>ch_ObservedAt := 3\<rparr>) sample_filter"
    by (simp add: matchesChange_def Let_def matches_iff sample_filter_def)
  show ?thesis using notify_delivers [OF r w c o] a
    by (simp add: m_def [symmetric] ch_def [symmetric] opt_def [symmetric])
qed

text \<open>The storage key of an instance identifies its trimmed (plugin id, instance id) pair, for plugin
  ids without a NUL byte.\<close>

theorem key_separates_instances:
  assumes "CHR 0x00 \<notin> set p" and "CHR 0x00 \<notin> set p'"
  shows "key p i = key p' i' \<longleftrightarrow> TrimSpace p = TrimSpace p' \<and> TrimSpace i = TrimSpace i'"
  using key_inject [OF assms, of i i'] by (auto simp: key_def)

theorem key_separates_instances_witness: "key ''billing'' ''i1'' \<noteq> key ''billing'' ''i2''"
proof -
  have "TrimSpace ''i1'' \<noteq> TrimSpace ''i2''" by code_simp
  then show ?thesis
    using key_separates_instances [of "''billing''" "''billing''" "''i1''" "''i2''"] by simp
qed

text \<open>With a NUL byte in the plugin id two different instances share one key: the registration of
  ("a", "b NUL c") is returned by a lookup of ("a NUL b", "c").\<close>

theorem nul_ids_collide:
  "Memory_GetInstance (fst (Memory_RegisterInstance w m
      (sample_snapshot\<lparr>PluginID := ''a'', InstanceID := ''b'' @ [CHR 0x00] @ ''c''\<rparr>)))
     (''a'' @ [CHR 0x00] @ ''b'') ''c'' =
   snd (Memory_RegisterInstance w m
      (sample_snapshot\<lparr>PluginID := ''a'', InstanceID := ''b'' @ [CHR 0x00] @ ''c''\<rparr>))"
proof -
  define x where "x = sample_snapshot\<lparr>PluginID := ''a'', InstanceID := ''b'' @ [CHR 0x00] @ ''c''\<rparr>"
  have v: "validateSnapshot x = None" unfolding x_def by code_simp
  have k: "key (''a'' @ [CHR 0x00] @ ''b'') ''c'' = key (PluginID x) (InstanceID x)"
    unfolding x_def by code_simp
  obtain c where "snd (Memory_RegisterInstance w m x) = Inr (x\<lparr>CreatedAt := c\<rparr>)"
    "instances (fst (Memory_RegisterInstance w m x)) =
       mput (instances m) (key (PluginID x) (InstanceID x)) (x\<lparr>CreatedAt := c\<rparr>)"
    using Memory_register_spec [OF v, of w m] by blast
  then show ?thesis unfolding x_def [symmetric] Memory_GetInstance_def k by simp
qed

lemma mget_fold_trimmed:
  "distinct (map (TrimSpace \<circ> fst) u) \<Longrightarrow>
   mget (fold (\<lambda>(k, v) out. if \<not> blank k then mput out (TrimSpace k) v else out) u m) k =
     (case find (\<lambda>(k', v). \<not> blank k' \<and> TrimSpace k' = k) u of Some (k', v) \<Rightarrow> Some v | None \<Rightarrow> mget m k)"
proof (induction u arbitrary: m)
  case Nil
  then show ?case by simp
next
  case (Cons kv u)
  obtain a b where kv: "kv = (a, b)" by (cases kv)
  have "find (\<lambda>(k', v). \<not> blank k' \<and> TrimSpace k' = TrimSpace a) u = None"
    using Cons.prems by (auto simp: find_None_iff kv image_iff)
  with Cons show ?case by (auto simp: kv split: option.splits)
qed

text \<open>A status report changes the status and the runtime status when they are given, and merges the
  reported metadata over the stored one: a reported key that is not blank wins under its trimmed
  name, every other stored key keeps its value. Identity, lease and all other fields stay.\<close>

theorem report_status_merges:
  assumes "Memory_GetInstance m p i = Inr x" and "wf_map (Metadata x)"
    and "distinct (map (TrimSpace \<circ> fst) md)"
    and "Memory_ReportStatus w m p i st rst md now = (m', r)"
  shows "\<exists>md'. r = Inr (x\<lparr>Status := (if blank st then Status x else TrimSpace st),
         RuntimeStatus := (if blank rst then RuntimeStatus x else TrimSpace rst),
         Metadata := md', UpdatedAt := utcOrNow w now\<rparr>) \<and>
     Memory_GetInstance m' p i = r \<and>
     (\<forall>k. mget md' k = (case find (\<lambda>(k', v). \<not> blank k' \<and> TrimSpace k' = k) md of
         Some (k', v) \<Rightarrow> Some v | None \<Rightarrow> mget (Metadata x) k))"
proof -
  define md' where "md' = (if 0 < length md then mergeMetadata (Metadata x) md else Metadata x)"
  have x: "mget (instances m) (key p i) = Some x" using assms(1) by (simp add: get_Inr_iff)
  have d: "distinct (map fst (Metadata x))" using assms(2) by (simp add: wf_map_def)
  have "map_of (rev (Metadata x)) = map_of (Metadata x)"
    by (rule map_of_eqI) (auto simp: d rev_map [symmetric])
  then have base: "mget (fold (\<lambda>(k, v) out. mput out k v) (Metadata x) []) k = mget (Metadata x) k" for k
    unfolding mget_fold_mput by (simp add: mget_def split: option.splits)
  have "mget md' k = (case find (\<lambda>(k', v). \<not> blank k' \<and> TrimSpace k' = k) md of
         Some (k', v) \<Rightarrow> Some v | None \<Rightarrow> mget (Metadata x) k)" for k
  proof (cases "md = []")
    case True
    then show ?thesis by (simp add: md'_def)
  next
    case False
    then show ?thesis
      unfolding md'_def mergeMetadata_def by (simp only: length_greater_0_conv if_True not_False_eq_True mget_fold_trimmed [OF assms(3)] base)
  qed
  with x assms(4) show ?thesis
    by (intro exI [of _ md']) (auto simp: Memory_ReportStatus_def Let_def md'_def Memory_GetInstance_def)
qed

theorem report_status_merges_witness:
  "\<exists>y. snd (Memory_ReportStatus 1 (fst (Memory_RegisterInstance 9 NewMemory sample_snapshot))
       ''billing'' ''i1'' '' draining '' [] [('' load '', ''3'')] 8) = Inr y \<and>
     Status y = StatusDraining \<and> mget (Metadata y) ''load'' = Some ''3''"
proof -
  define m where "m = fst (Memory_RegisterInstance 9 NewMemory sample_snapshot)"
  obtain m' r where e: "Memory_ReportStatus 1 m ''billing'' ''i1'' '' draining '' [] [('' load '', ''3'')] 8 = (m', r)"
    by fastforce
  obtain c where "instances m = mput (instances NewMemory) (key (PluginID sample_snapshot)
      (InstanceID sample_snapshot)) (sample_snapshot\<lparr>CreatedAt := c\<rparr>)"
    using Memory_register_spec [OF sample_valid, of 9 NewMemory] by (auto simp: m_def)
  then have g: "Memory_GetInstance m ''billing'' ''i1'' = Inr (sample_snapshot\<lparr>CreatedAt := c\<rparr>)"
    by (simp add: get_Inr_iff)
  have t: "TrimSpace '' draining '' = StatusDraining" "TrimSpace '' load '' = ''load''" by code_simp+
  have "wf_map (Metadata (sample_snapshot\<lparr>CreatedAt := c\<rparr>))"
    by (simp add: sample_snapshot_def zero_snapshot_def zero_metadata_def snapshot_defs)
  from report_status_merges [OF g this _ e] show ?thesis
    unfolding m_def [symmetric] e by (auto simp: t)
qed

lemma sub_key_stored:
  "data_inv m \<Longrightarrow> mget (subscriptions m) k = Some s \<Longrightarrow>
   k = subscriptionKey (sub_PluginID s) (sub_InstanceID s) (sub_Event s)"
  by (simp add: data_inv_def)

text \<open>Subscribing with non-blank identifiers and event stores one trimmed subscription under its
  (plugin, instance, event) key, replacing an earlier one with that key and keeping all others; a
  blank field is refused and changes nothing.\<close>

theorem subscribe_upserts:
  assumes "data_inv m" and "Memory_SubscribeEvent w m s = (m', r)"
  shows "(blank (sub_PluginID s) \<or> blank (sub_InstanceID s) \<or> blank (sub_Event s) \<longrightarrow>
       m' = m \<and> r = Inl registry_ErrInvalid) \<and>
     (\<not> (blank (sub_PluginID s) \<or> blank (sub_InstanceID s) \<or> blank (sub_Event s)) \<longrightarrow>
       (\<exists>out. r = Inr out \<and> sub_PluginID out = TrimSpace (sub_PluginID s) \<and>
          sub_InstanceID out = TrimSpace (sub_InstanceID s) \<and> sub_Event out = TrimSpace (sub_Event s) \<and>
          sub_Filters out = sub_Filters s \<and>
          memory_subs m' = insert out {b \<in> memory_subs m.
            subscriptionKey (sub_PluginID b) (sub_InstanceID b) (sub_Event b) \<noteq>
            subscriptionKey (sub_PluginID s) (sub_InstanceID s) (sub_Event s)} \<and> data_inv m'))"
proof (cases "blank (sub_PluginID s) \<or> blank (sub_InstanceID s) \<or> blank (sub_Event s)")
  case True
  then show ?thesis using assms(2) by (auto simp: Memory_SubscribeEvent_def)
next
  case False
  define k where "k = subscriptionKey (sub_PluginID s) (sub_InstanceID s) (sub_Event s)"
  define out where "out = s\<lparr>sub_PluginID := TrimSpace (sub_PluginID s),
    sub_InstanceID := TrimSpace (sub_InstanceID s), sub_Event := TrimSpace (sub_Event s),
    sub_CreatedAt := (if IsZero (sub_CreatedAt s) then utcOrNow w (sub_UpdatedAt s) else sub_CreatedAt s),
    sub_UpdatedAt := utcOrNow w (sub_UpdatedAt s)\<rparr>"
  have k': "subscriptionKey (TrimSpace (sub_PluginID s)) (TrimSpace (sub_InstanceID s)) (TrimSpace (sub_Event s)) = k"
    by (simp add: k_def subscriptionKey_def)
  have r: "r = Inr out" and m': "subscriptions m' = mput (subscriptions m) k out"
    using False assms(2) by (auto simp: Memory_SubscribeEvent_def Let_def out_def k')
  have "memory_subs m' = insert out {b \<in> memory_subs m.
      subscriptionKey (sub_PluginID b) (sub_InstanceID b) (sub_Event b) \<noteq> k}" (is "?L = ?R")
  proof (rule set_eqI)
    fix b'
    have "(\<exists>k'. (if k' = k then Some out else mget (subscriptions m) k') = Some b') \<longleftrightarrow>
        b' = out \<or> (\<exists>k'. k' \<noteq> k \<and> mget (subscriptions m) k' = Some b')"
      by (metis option.inject)
    also have "\<dots> \<longleftrightarrow> b' = out \<or> ((\<exists>k'. mget (subscriptions m) k' = Some b') \<and>
        subscriptionKey (sub_PluginID b') (sub_InstanceID b') (sub_Event b') \<noteq> k)"
      using sub_key_stored [OF assms(1), of _ b'] by blast
    finally show "b' \<in> ?L \<longleftrightarrow> b' \<in> ?R" unfolding m' by (simp only: mget_mput mem_Collect_eq insert_iff)
  qed
  moreover have "data_inv m'" using data_inv_subscribe [OF assms(1), of w s] assms(2) by simp
  ultimately show ?thesis using False r by (auto simp: out_def k_def)
qed

theorem subscribe_upserts_witness:
  "\<exists>out. snd (Memory_SubscribeEvent 5 NewMemory \<lparr>sub_PluginID = '' billing'', sub_InstanceID = ''i1'',
       sub_Event = ''paid '', sub_Filters = [], sub_CreatedAt = 0, sub_UpdatedAt = 0\<rparr>) = Inr out \<and>
     sub_PluginID out = ''billing'' \<and> sub_Event out = ''paid''"
proof -
  define s where "s = \<lparr>sub_PluginID = '' billing'', sub_InstanceID = ''i1'',
       sub_Event = ''paid '', sub_Filters = [], sub_CreatedAt = 0, sub_UpdatedAt = 0\<rparr>"
  have t: "TrimSpace '' billing'' = ''billing''" "TrimSpace ''i1'' = ''i1''" "TrimSpace ''paid '' = ''paid''"
    by code_simp+
  obtain m' r where e: "Memory_SubscribeEvent 5 NewMemory s = (m', r)" by fastforce
  show ?thesis using subscribe_upserts [OF data_inv_NewMemory e] e
    by (simp add: s_def t) blast
qed

section \<open>The polling watcher\<close>

abbreviation view :: "PollState \<Rightarrow> InstanceKey \<Rightarrow> PluginSnapshot option" where
  "view ps \<equiv> mget (ps_previous ps)"

abbreviation round_filter :: "WatchOptions \<Rightarrow> gotime \<Rightarrow> InstanceFilter" where
  "round_filter options now \<equiv>
     (let f = wo_Filter options in if IsZero (if_Now f) then f\<lparr>if_Now := now\<rparr> else f)"

lemma mem_list_ops: "ro_ListInstances Memory_ops = Memory_ListInstances"
  by (simp add: Memory_ops_def)

text \<open>When the channel has room for the changes of a polling round, a consumer that applies them, in
  order, to the view of the previous round gets a view with the same fingerprints as the
  registry listing of this round: observed instances are added or replaced, disappeared ones
  removed.\<close>

theorem poll_round_replays:
  assumes "data_inv m" and "poll Memory_ops fp w now m options True ps = (ps', err)"
    and "Memory_ListInstances w m (round_filter options now) = Inr items"
    and "length (cbuf (ps_out ps)) + length items + length (ps_previous ps) \<le> ccap (ps_out ps)"
  shows "err = None \<and>
     (\<exists>sent. cbuf (ps_out ps') = cbuf (ps_out ps) @ sent \<and>
       (\<forall>k. map_option fp (fold apply_change sent (view ps) k) = map_option fp (view ps' k))) \<and>
     (\<forall>k x. view ps' k = Some x \<longleftrightarrow> x \<in> set items \<and> snapshot_ids x = k)"
proof -
  define sent where "sent = round_changes fp now (ps_previous ps) items"
  have items: "ro_ListInstances Memory_ops w m (round_filter options now) = Inr items"
    using assms(3) by (simp add: mem_list_ops)
  have d: "distinct (map snapshot_ids items)" by (rule mem.list_distinct [OF assms(1) items])
  have ps': "ps' = \<lparr>ps_previous = fold (\<lambda>item m. mput m (snapshot_ids item) item) items [],
      ps_out = fold sendChange sent (ps_out ps)\<rparr>" "err = None"
    using poll_ok [OF items, of fp True ps] assms(2) by (simp_all add: sent_def)
  have "length sent \<le> length items + length (ps_previous ps)"
    unfolding sent_def round_changes_def item_changes_def gone_changes_def
    by (simp add: add_mono)
  then have "cbuf (ps_out ps') = cbuf (ps_out ps) @ sent"
    using send_all_fits [of "ps_out ps" sent] assms(4) by (simp add: ps')
  then show ?thesis
    using replay_round [OF d, of fp now "ps_previous ps"] current_mget_Some [OF d]
    by (auto simp: ps' sent_def [symmetric])
qed

definition sample_options :: WatchOptions where
  "sample_options = \<lparr>wo_Buffer = 1, InitialSnapshot = True, PollInterval = 0, wo_Filter = sample_filter\<rparr>"

definition sample_poll :: PollState where
  "sample_poll = \<lparr>ps_previous = [], ps_out = \<lparr>cbuf = [], ccap = 1, cclosed = False\<rparr>\<rparr>"

theorem poll_round_replays_witness:
  "view (fst (poll Memory_ops PluginID 5 5
      (fst (Memory_RegisterInstance 9 NewMemory sample_snapshot)) sample_options True sample_poll))
      (''billing'', ''i1'') = Some sample_snapshot"
proof -
  define m where "m = fst (Memory_RegisterInstance 9 NewMemory sample_snapshot)"
  have i: "data_inv m" by (simp add: m_def data_inv_register data_inv_NewMemory)
  have m: "instances m = [(key ''billing'' ''i1'', sample_snapshot)]"
    by (simp add: m_def Memory_RegisterInstance_def sample_valid NewMemory_def mput_def)
  have items: "Memory_ListInstances 5 m (round_filter sample_options 5) = Inr [sample_snapshot]"
    by (simp add: Memory_ListInstances_def m sortSnapshots_def matches_iff sample_options_def
        sample_filter_def IsZero_def)
  obtain ps' err where e: "poll Memory_ops PluginID 5 5 m sample_options True sample_poll = (ps', err)" by fastforce
  show ?thesis using poll_round_replays [OF i e items]
    unfolding m_def [symmetric] e by (simp add: sample_poll_def snapshot_ids_def)
qed

text \<open>A change dropped because the channel was full is never sent again: with a filter that keeps
  expired instances, a further round over the same registry state, at any later time, puts
  nothing on the channel, whatever the previous round could or could not send.\<close>

theorem dropped_change_not_resent:
  assumes "data_inv m" and "IncludeExpired (wo_Filter options)"
    and "poll Memory_ops fp w now m options True ps = (ps1, e1)"
    and "poll Memory_ops fp w' now' m options True ps1 = (ps2, e2)"
  shows "ps_out ps2 = ps_out ps1"
  using mem.poll_settled [OF assms(1,2), of fp w' now' True w now True ps] assms(3,4) by simp

theorem dropped_change_not_resent_witness:
  "cbuf (ps_out (fst (poll Memory_ops PluginID 6 6 (fst (Memory_RegisterInstance 9 NewMemory sample_snapshot))
      sample_options True (fst (poll Memory_ops PluginID 5 5
        (fst (Memory_RegisterInstance 9 NewMemory sample_snapshot)) sample_options True
        (sample_poll\<lparr>ps_out := \<lparr>cbuf = [], ccap = 0, cclosed = False\<rparr>\<rparr>)))))) = []"
proof -
  define m where "m = fst (Memory_RegisterInstance 9 NewMemory sample_snapshot)"
  define ps where "ps = sample_poll\<lparr>ps_out := \<lparr>cbuf = [], ccap = 0, cclosed = False\<rparr>\<rparr>"
  have i: "data_inv m" by (simp add: m_def data_inv_register data_inv_NewMemory)
  have f: "IncludeExpired (wo_Filter sample_options)" by (simp add: sample_options_def sample_filter_def)
  obtain ps1 e1 where 1: "poll Memory_ops PluginID 5 5 m sample_options True ps = (ps1, e1)" by fastforce
  obtain ps2 e2 where 2: "poll Memory_ops PluginID 6 6 m sample_options True ps1 = (ps2, e2)" by fastforce
  obtain xs where xs: "ro_ListInstances Memory_ops 5 m (round_filter sample_options 5) = Inr xs"
    using mem.list_instances [OF i] by blast
  have "fold sendChange cs \<lparr>cbuf = [], ccap = 0, cclosed = False\<rparr> = \<lparr>cbuf = [], ccap = 0, cclosed = False\<rparr>" for cs
    by (induction cs) (simp_all add: sendChange_def trySend_def)
  then have "cbuf (ps_out ps1) = []" using 1 unfolding poll_ok [OF xs] ps_def by auto
  then show ?thesis using dropped_change_not_resent [OF i f 1 2]
    unfolding m_def [symmetric] ps_def [symmetric] 1 fst_conv 2 by simp
qed

text \<open>The status synchronizer hands the delivered changes to the handler in order, stops at the first
  one the handler refuses and returns that error; otherwise it returns the context error or, for
  a closed channel, no error, and keeps waiting when there is nothing more to read.\<close>

theorem synchronizer_in_order:
  "StatusSynchronizer_Run handler h (map Delivered cs @ es) =
     (case fold (\<lambda>c (h, err). if err = None then handler h c else (h, err)) cs (h, None) of
        (h', Some e) \<Rightarrow> (h', Some (Some e))
      | (h', None) \<Rightarrow> StatusSynchronizer_Run handler h' es)"
proof (induction cs arbitrary: h)
  case Nil
  then show ?case by simp
next
  case (Cons c cs)
  have stuck: "fold (\<lambda>c (h, err). if err = None then handler h c else (h, err)) cs (h', Some e) = (h', Some e)"
    for h' e by (induction cs) simp_all
  show ?case by (cases "handler h c"; cases "snd (handler h c)") (simp_all add: Cons.IH stuck)
qed

end
