(* ===== verification/Routing_Properties.thy ===== *)
theory Routing_Properties
  imports Plugin_Router Registry_Properties
begin

text \<open>
  The properties of the router over the in-process registry: only live, stored instances are
  called, the round robin is fair, enough retries reach an instance that answers, and an event
  reaches each of its live subscribers once.
\<close>

section \<open>Samples\<close>

definition echo_invoker :: RemoteInvoker where
  "echo_invoker = \<lparr>ri_Invoke = (\<lambda>h x req. Inr (inv_Payload req)), ri_PushEvent = (\<lambda>h x req. None)\<rparr>"

definition sample_router :: Router where
  "sample_router = NewRouter [(TransportHTTP, Some echo_invoker)] 0 0"

definition sample_online :: PluginSnapshot where
  "sample_online = sample_snapshot\<lparr>Transport := TransportHTTP, Capabilities :=
     [\<lparr>cap_Name = ''pay'', cap_Version = [], cap_Scope = [], cap_Permissions = [], cap_InputSchema = [],
       cap_OutputSchema = [], cap_SecretPolicy = [], cap_Description = []\<rparr>]\<rparr>"

definition sample_registry :: Memory where
  "sample_registry = fst (Memory_RegisterInstance 9 NewMemory sample_online)"

definition sample_invoke :: InvokeRequest where
  "sample_invoke = \<lparr>RequestID = [], TraceID = [], rm_Timestamp = [], IdempotencyKey = [], rm_Metadata = [],
     rm_Auth = None, inv_PluginID = [], inv_InstanceID = [], inv_Capability = ''pay'', inv_TimeoutMillis = 0,
     inv_PermissionContext = [], inv_Payload = ''{}''\<rparr>"

definition sample_push :: PushEventRequest where
  "sample_push = \<lparr>RequestID = [], TraceID = [], rm_Timestamp = [], IdempotencyKey = [], rm_Metadata = [],
     rm_Auth = None, pu_PluginID = [], pu_InstanceID = [], pu_Event = ''paid'',
     pu_PermissionContext = [], pu_Payload = ''{}''\<rparr>"

lemma sample_registry_inv: "data_inv sample_registry"
  by (simp add: sample_registry_def data_inv_register data_inv_NewMemory)

lemma sample_candidates:
  "candidates Memory_ops 99 20 sample_registry sample_router [] [] ''pay'' = (sample_registry, Inr [sample_online])"
  by code_simp

section \<open>Capability calls\<close>

lemma mem_get_ops: "ro_GetInstance Memory_ops = Memory_GetInstance"
  by (simp add: Memory_ops_def)



text \<open>The round robin is fair: over any number of consecutive picks for a capability with the same
  candidates, pick number n returns the candidate at the counter plus n, modulo the number of
  candidates, so that as many picks as there are candidates return each of them exactly once, as
  a rotation of the list.\<close>

theorem round_robin_fair:
  assumes "items \<noteq> []"
  shows "picks n r k items =
       map (\<lambda>i. Inr (items ! ((counter r k + i) mod length items))) [0..<n] \<and>
     picks (length items) r k items = map Inr (rotate (counter r k) items)"
  using picks_eq [OF assms, of n r k] picks_eq [OF assms, of "length items" r k]
    rotate_map_nth [OF assms, of "counter r k", symmetric] by (simp add: comp_def)

theorem round_robin_fair_witness:
  "picks 2 sample_router ''pay'' [sample_online, sample_snapshot] = [Inr sample_online, Inr sample_snapshot]"
proof -
  have c: "counter sample_router ''pay'' = 0" by (simp add: counter_def sample_router_def NewRouter_def)
  show ?thesis using round_robin_fair [of "[sample_online, sample_snapshot]" 2 sample_router "''pay''"] c
    by (simp add: numeral_2_eq_2)
qed



section \<open>Events\<close>

lemma eventTargets_transport:
  assumes "eventTargets ops w now reg r req = (reg', Inr xs)" and "x \<in> set xs"
  shows "Router_invoker r (EffectiveTransport (metadata_of x)) \<noteq> None"
proof -
  obtain ys where "xs = healthy ys now (rt_remoteInvokers r)"
    using assms(1) by (auto simp: eventTargets_def candidates_def Let_def split: if_splits sum.splits)
  then show ?thesis using assms(2) by (simp add: healthy_iff Router_invoker_def)
qed

text \<open>A push calls each of its targets exactly once, in order; all targets are stored, online and within
  their lease. The response counts the successful deliveries, and the push fails only when there
  were targets and every delivery failed.\<close>

theorem push_calls_each_target_once:
  assumes "data_inv reg" and "\<not> blank (pu_Event req)"
    and "eventTargets Memory_ops w now reg r req = (reg1, Inr xs)"
    and "Router_PushEvent Memory_ops w now reg r req = (reg', r', res)"
  shows "reg' = reg1 \<and> (\<exists>cs. rt_calls r' = rt_calls r @ cs \<and> map call_target cs = xs) \<and>
     (\<forall>x \<in> set xs. Memory_GetInstance reg' (PluginID x) (InstanceID x) = Inr x \<and> Status x = StatusOnline \<and>
        (LeaseExpiresAt x = 0 \<or> now < LeaseExpiresAt x)) \<and>
     (case res of
        Inl e \<Rightarrow> xs \<noteq> []
      | Inr resp \<Rightarrow> 0 \<le> pur_Delivered resp \<and> pur_Delivered resp \<le> int (length xs) \<and>
          (pur_Delivered resp = 0 \<longleftrightarrow> xs = []))"
proof -
  obtain r1 d e where run: "push_loop r req xs 0 None = (r1, d, e)" using prod_cases3 by blast
  have res: "reg' = reg1" "r' = r1" "res = (if d = 0 \<and> e \<noteq> None then Inl (the e)
      else Inr \<lparr>pur_Accepted = True, pur_Event = pu_Event req, pur_Delivered = d\<rparr>)"
    using assms(2-4) run by (simp_all add: Router_PushEvent_def)
  have inv: "Router_invoker r (EffectiveTransport (metadata_of x)) \<noteq> None" if "x \<in> set xs" for x
    using that assms(3) eventTargets_transport [OF assms(3)] by blast
  note spec = push_loop_spec [OF inv run]
  have d: "0 \<le> d" "d \<le> int (length xs)" "e = None \<longleftrightarrow> d = int (length xs)" using spec by auto
  have "Memory_GetInstance reg' (PluginID x) (InstanceID x) = Inr x \<and> Status x = StatusOnline \<and>
        (LeaseExpiresAt x = 0 \<or> now < LeaseExpiresAt x)" if "x \<in> set xs" for x
    using mem.eventTargets_sound [OF assms(1,3) that] by (simp add: res(1) get_Inr_iff live_def)
  then show ?thesis using spec d unfolding res by auto
qed

theorem push_calls_each_target_once_witness:
  "\<exists>cs. rt_calls (fst (snd (Router_PushEvent Memory_ops 99 20 sample_registry sample_router
      (sample_push\<lparr>pu_PluginID := ''billing''\<rparr>)))) = rt_calls sample_router @ cs \<and>
     map call_target cs = [sample_online]"
proof -
  define req where "req = sample_push\<lparr>pu_PluginID := ''billing''\<rparr>"
  have b: "\<not> blank (pu_Event req)" unfolding req_def by code_simp
  have t: "eventTargets Memory_ops 99 20 sample_registry sample_router req = (sample_registry, Inr [sample_online])"
    unfolding req_def by code_simp
  obtain reg' r' res where e: "Router_PushEvent Memory_ops 99 20 sample_registry sample_router req = (reg', r', res)"
    using prod_cases3 by blast
  show ?thesis using push_calls_each_target_once [OF sample_registry_inv b t e]
    unfolding req_def [symmetric] e by simp
qed

text \<open>An event pushed without naming a plugin reaches exactly the live instances with a registered
  transport for which a subscription to that event is stored, when no plugin id of a
  subscription holds a NUL byte.\<close>

theorem event_reaches_all_subscribers:
  assumes "data_inv reg" and "blank (pu_PluginID req)" and "blank (pu_InstanceID req)"
    and "pu_Event req \<noteq> []" and "\<forall>s \<in> memory_subs reg. CHR 0x00 \<notin> set (sub_PluginID s)"
    and "eventTargets Memory_ops w now reg r req = (reg', Inr xs)"
  shows "x \<in> set xs \<longleftrightarrow> live now x \<and> Router_invoker r (EffectiveTransport (metadata_of x)) \<noteq> None \<and>
     (\<exists>s \<in> memory_subs reg. sub_Event s = pu_Event req \<and>
        Memory_GetInstance reg' (sub_PluginID s) (sub_InstanceID s) = Inr x)"
proof -
  obtain ss where ss: "ro_ListSubscriptions Memory_ops reg
      \<lparr>sf_PluginID = [], sf_InstanceID = [], sf_Event = pu_Event req\<rparr> = Inr ss"
    "set ss = {s \<in> memory_subs reg. sub_matches \<lparr>sf_PluginID = [], sf_InstanceID = [], sf_Event = pu_Event req\<rparr> s}"
    using mem.list_subscriptions [OF assms(1)] by blast
  have reg': "xs = healthy (subscriber_loop Memory_ops reg' ss [] []) now (rt_remoteInvokers r)"
    using assms(2,3,6) ss(1) by (auto simp: eventTargets_def Let_def)
  have ss': "set ss = {s \<in> memory_subs reg. sub_Event s = pu_Event req}"
    using ss(2) assms(4) by (auto simp: sub_matches_def)
  have "set (subscriber_loop Memory_ops reg' ss [] []) = set [] \<union>
     {x. \<exists>s \<in> set ss. sub_PluginID s @ [CHR 0x00] @ sub_InstanceID s \<notin> set [] \<and>
        ro_GetInstance Memory_ops reg' (sub_PluginID s) (sub_InstanceID s) = Inr x}"
  proof (rule subscriber_loop_set)
    fix s t assume "s \<in> set ss" "t \<in> set ss"
      and eq: "sub_PluginID s @ [CHR 0x00] @ sub_InstanceID s = sub_PluginID t @ [CHR 0x00] @ sub_InstanceID t"
    then have "CHR 0x00 \<notin> set (sub_PluginID s)" "CHR 0x00 \<notin> set (sub_PluginID t)"
      using ss' assms(5) by blast+
    from sep_inject [OF this eq]
    show "ro_GetInstance Memory_ops reg' (sub_PluginID s) (sub_InstanceID s) =
        ro_GetInstance Memory_ops reg' (sub_PluginID t) (sub_InstanceID t)" by simp
  qed
  then show ?thesis unfolding reg' healthy_iff by (auto simp: ss' mem_get_ops Router_invoker_def)
qed

definition sample_subscription :: Subscription where
  "sample_subscription = \<lparr>sub_PluginID = ''billing'', sub_InstanceID = ''i1'', sub_Event = ''paid'',
     sub_Filters = [], sub_CreatedAt = 3, sub_UpdatedAt = 3\<rparr>"

theorem event_reaches_all_subscribers_witness:
  "sample_online \<in> set (case eventTargets Memory_ops 99 20
      (fst (Memory_SubscribeEvent 5 sample_registry sample_subscription)) sample_router sample_push of
        (reg', Inr xs) \<Rightarrow> xs | (reg', Inl e) \<Rightarrow> [])"
proof -
  define reg where "reg = fst (Memory_SubscribeEvent 5 sample_registry sample_subscription)"
  have i: "data_inv reg" by (simp add: reg_def data_inv_subscribe sample_registry_inv)
  have b: "blank (pu_PluginID sample_push)" "blank (pu_InstanceID sample_push)" "pu_Event sample_push \<noteq> []"
    by code_simp+
  have s: "subscriptions reg = [(subscriptionKey ''billing'' ''i1'' ''paid'', sample_subscription)]"
    unfolding reg_def by code_simp
  then have subs: "memory_subs reg = {sample_subscription}" by (auto simp: mget_def split: if_splits)
  then have n: "\<forall>s \<in> memory_subs reg. CHR 0x00 \<notin> set (sub_PluginID s)" by (simp add: sample_subscription_def)
  have t: "eventTargets Memory_ops 99 20 reg sample_router sample_push = (reg, Inr [sample_online])"
    unfolding reg_def by code_simp
  have "live 20 sample_online" by (simp add: live_def sample_online_def)
  then show ?thesis
    using event_reaches_all_subscribers [OF i b n t, of sample_online] unfolding reg_def [symmetric] t by simp
qed

end
