(* ===== verification/Host_Properties.thy ===== *)
theory Host_Properties
  imports Host_Laws Routing_Properties
begin

text \<open>
  The properties of the plugin host over the in-process registry: the life of an instance from
  registration to removal, the error paths, negotiation, capability calls and what the recorder
  sees. The facts of the registry contract are used through its interpretation \<open>mem\<close>.
\<close>

section \<open>Samples\<close>

definition sample_config :: HostConfig where
  "sample_config = \<lparr>cfg_Enabled = True, cfg_HeartbeatTimeout = 0, cfg_RequestTimeout = 0,
     cfg_DefaultProtocolVersion = [], cfg_AllowedTransports = [], cfg_InjectionEnabled = False,
     cfg_Injection = None, cfg_Authorizer = None, cfg_NodeID = ''node-1'', cfg_NodeAddress = [],
     cfg_LeaseTTL = 0, cfg_LeaseScanInterval = 0, cfg_RetryCount = 0\<rparr>"

definition sample_host :: "Memory Host" where
  "sample_host = Host_New sample_config NewMemory"

definition sample_clocks :: clocks where
  "sample_clocks = \<lparr>t_start = 100, t_expire = 100, t_now = 100, t_route = 100, t_end = 101, t_wall = 100\<rparr>"

definition sample_metadata :: PluginMetadata where
  "sample_metadata = zero_metadata\<lparr>PluginID := '' billing'', InstanceID := ''i1'', pm_Name := ''Billing'',
     pm_Version := ''1.0'', Transport := ''HTTP'', Endpoint := ''http://billing''\<rparr>"

definition zero_meta :: RequestMeta where
  "zero_meta = \<lparr>RequestID = [], TraceID = [], rm_Timestamp = [], IdempotencyKey = [], rm_Metadata = [],
     rm_Auth = None\<rparr>"

definition sample_register :: RegisterRequest where
  "sample_register = RequestMeta.extend zero_meta (RegisterRequest.fields sample_metadata)"

definition sample_registered :: "Memory Host" where
  "sample_registered = fst (Host_Register Memory_ops sample_clocks sample_host sample_register)"

lemma sample_host_inv: "data_inv (h_registry sample_host)"
  by (simp add: sample_host_def Host_New_def Let_def data_inv_NewMemory)

definition sample_stored :: PluginSnapshot where
  "sample_stored = (case Memory_GetInstance (h_registry sample_registered) ''billing'' ''i1'' of
     Inr x \<Rightarrow> x | Inl e \<Rightarrow> zero_snapshot)"

lemma sample_stored_get: "Memory_GetInstance (h_registry sample_registered) ''billing'' ''i1'' = Inr sample_stored"
  by code_simp

lemma sample_registered_inv: "data_inv (h_registry sample_registered)"
proof -
  have "stored_ok memory_lookup (h_registry sample_host)"
    by (simp add: stored_ok_def sample_host_def Host_New_def Let_def NewMemory_def)
  then show ?thesis using mem.Register_good [of sample_host sample_clocks sample_register] sample_host_inv
    by (simp add: sample_registered_def)
qed

lemma sample_registered_on: "h_enabled sample_registered"
  by code_simp

lemma sample_ids: "TrimSpace ''billing'' = ''billing''" "TrimSpace ''i1'' = ''i1''"
  by code_simp+

definition sample_renew :: "int \<Rightarrow> RenewLeaseRequest" where
  "sample_renew n = RequestMeta.extend zero_meta (RenewLeaseRequest.fields ''billing'' ''i1'' n)"

lemma sample_renew_sel [simp]: "rl_PluginID (sample_renew s) = ''billing''" "rl_InstanceID (sample_renew s) = ''i1''"
  "rl_LeaseTTLSeconds (sample_renew s) = s"
  by (simp_all add: sample_renew_def zero_meta_def RequestMeta.defs RenewLeaseRequest.defs)

lemma map_sum_Inr: "map_sum f g r = Inr v \<longleftrightarrow> (\<exists>u. r = Inr u \<and> v = g u)"
  by (cases r) auto

lemma map_sum_Inl: "map_sum f g r = Inl v \<longleftrightarrow> (\<exists>u. r = Inl u \<and> v = f u)"
  by (cases r) auto

section \<open>The life of an instance\<close>

text \<open>C12. A successful registration stores a snapshot with trimmed, non-empty identifiers, online and ready,
  owned by this host, with a lease of the configured length from the current time and an allowed
  transport; a later lookup returns it, taken offline exactly when its lease has run out by then.
  The registry invariant is kept.\<close>

theorem host_register_then_lookup:
  assumes "data_inv (h_registry h)" and "Host_Register Memory_ops cl h req = (h', Inr resp)"
    and "x = regr_Plugin resp"
    and "Host_GetPluginInstance Memory_ops cl2 h' (PluginID x) (InstanceID x) = (h'', res)"
  shows "PluginID x = TrimSpace (PluginID (reg_Plugin req)) \<and>
     InstanceID x = TrimSpace (InstanceID (reg_Plugin req)) \<and>
     registered x (utcOrNow (t_wall cl) (t_now cl)) h \<and>
     res = Inr (expire_snapshot (utcOrNow (t_wall cl2) (t_expire cl2)) x) \<and>
     data_inv (h_registry h') \<and> data_inv (h_registry h'')"
proof -
  obtain h1 r1 where b: "Register_body Memory_ops cl h req = (h1, r1)" by fastforce
  have r1: "r1 = Inr x" and reg: "h_registry h' = h_registry h1" and en: "h_enabled h' = h_enabled h1"
    using assms(2,3) b by (auto simp: Host_Register_def map_sum_Inr)
  show ?thesis
  proof (cases rule: mem.Register_cases [OF assms(1) b, case_names refused stored])
    case (refused e)
    then show ?thesis using r1 by simp
  next
    case (stored m y reg')
    have xy: "y = x" using stored(1) r1 by simp
    note ids = normalizeMetadata_Inr(1,2) [OF stored(5)]
    have inv': "data_inv (h_registry h')" and look: "memory_lookup (h_registry h') (key (PluginID x) (InstanceID x)) = Some x"
      using stored(2,3,8) by (simp_all add: reg xy)
    have h'e: "h_enabled h'" using stored(2,4) by (simp add: en)
    define reg2 where "reg2 = fst (ro_ExpireLeases Memory_ops (t_wall cl2) (h_registry h') (t_expire cl2))"
    have x2: "expireLeases Memory_ops cl2 h' = h'\<lparr>h_registry := reg2\<rparr>"
      by (simp add: expireLeases_def Host_ExpireLeases_def reg2_def split: prod.splits sum.splits)
    note e = mem.expire_ok [OF inv', of "t_wall cl2" "t_expire cl2", folded reg2_def]
    have "ro_GetInstance Memory_ops reg2 (PluginID x) (InstanceID x) =
        Inr (expire_snapshot (utcOrNow (t_wall cl2) (t_expire cl2)) x)"
      using e look mem.get_Inr by simp
    then have "res = Inr (expire_snapshot (utcOrNow (t_wall cl2) (t_expire cl2)) x)" "h_registry h'' = reg2"
      using assms(4) h'e by (auto simp: Host_GetPluginInstance_def x2 Let_def)
    then show ?thesis using ids stored(6,7,10) inv' e by (simp add: xy)
  qed
qed

theorem host_register_then_lookup_witness:
  "\<exists>x. snd (Host_GetPluginInstance Memory_ops sample_clocks sample_registered ''billing'' ''i1'') = Inr x \<and>
     PluginID x = ''billing''"
proof -
  have ok: "\<exists>x. snd (Host_Register Memory_ops sample_clocks sample_host sample_register) = Inr \<lparr>regr_Plugin = x\<rparr> \<and>
      PluginID x = ''billing'' \<and> InstanceID x = ''i1''"
    by (intro exI [of _ "case snd (Host_Register Memory_ops sample_clocks sample_host sample_register) of Inr r \<Rightarrow> regr_Plugin r"])
      code_simp
  then obtain x where x: "snd (Host_Register Memory_ops sample_clocks sample_host sample_register) = Inr \<lparr>regr_Plugin = x\<rparr>"
    "PluginID x = ''billing''" "InstanceID x = ''i1''" by blast
  then have r: "Host_Register Memory_ops sample_clocks sample_host sample_register = (sample_registered, Inr \<lparr>regr_Plugin = x\<rparr>)"
    by (simp add: sample_registered_def prod_eq_iff)
  obtain h'' res where g: "Host_GetPluginInstance Memory_ops sample_clocks sample_registered (PluginID x) (InstanceID x) = (h'', res)"
    by fastforce
  show ?thesis
    using host_register_then_lookup [OF sample_host_inv r _ g] g x(2,3) by (simp add: expire_snapshot_ids)
qed



text \<open>Renewing the lease of a stored instance, with a lifetime that fits a duration, makes it online with
  the heartbeat at the current time and the lease until the current time plus the requested (or
  default) lifetime; identity, metadata and registration time stay, and a lookup returns it.\<close>

theorem host_renew_extends_lease:
  assumes "data_inv (h_registry h)" and "h_enabled h"
    and "\<not> blank (rl_PluginID req)" and "\<not> blank (rl_InstanceID req)"
    and "Memory_GetInstance (h_registry h) (rl_PluginID req) (rl_InstanceID req) = Inr x"
    and "int64 (rl_LeaseTTLSeconds req * Second)"
    and "ttl = (if 0 < rl_LeaseTTLSeconds req then rl_LeaseTTLSeconds req * Second else h_leaseTTL h)"
    and "0 < ttl" and "0 < t_now cl"
    and "Host_RenewLease Memory_ops cl h req = (h', res)"
  shows "\<exists>y. res = Inr \<lparr>rlr_Plugin = y\<rparr> \<and>
     Memory_GetInstance (h_registry h') (rl_PluginID req) (rl_InstanceID req) = Inr y \<and>
     live (t_now cl) y \<and> LastHeartbeatAt y = t_now cl \<and> LeaseExpiresAt y = t_now cl + ttl \<and>
     metadata_of y = metadata_of x \<and> RegisteredAt y = RegisteredAt x \<and> CreatedAt y = CreatedAt x \<and>
     data_inv (h_registry h')"
proof -
  have x: "memory_lookup (h_registry h) (key (rl_PluginID req) (rl_InstanceID req)) = Some x"
    using assms(5) by (simp add: get_Inr_iff)
  have ttl: "ttl = (if 0 < rl_LeaseTTLSeconds req then wrap64 (rl_LeaseTTLSeconds req * Second) else h_leaseTTL h)"
    using assms(6,7) by (simp add: wrap64_id)
  obtain reg' t where r: "RenewLease_body Memory_ops cl h req = (h\<lparr>h_registry := reg'\<rparr>,
      Inr (x\<lparr>Status := StatusOnline, LastHeartbeatAt := t_now cl, LeaseExpiresAt := t_now cl + ttl,
        LeaseTTLSeconds := t, UpdatedAt := t_now cl\<rparr>))" "data_inv reg'"
      "memory_lookup reg' = (memory_lookup (h_registry h))(key (rl_PluginID req) (rl_InstanceID req) \<mapsto>
        x\<lparr>Status := StatusOnline, LastHeartbeatAt := t_now cl, LeaseExpiresAt := t_now cl + ttl,
        LeaseTTLSeconds := t, UpdatedAt := t_now cl\<rparr>)"
    using mem.RenewLease_present [OF assms(1-4) x ttl, of cl] assms(8,9) unfolding Let_def by auto
  have "h_registry h' = reg'" "res = Inr \<lparr>rlr_Plugin = x\<lparr>Status := StatusOnline, LastHeartbeatAt := t_now cl,
      LeaseExpiresAt := t_now cl + ttl, LeaseTTLSeconds := t, UpdatedAt := t_now cl\<rparr>\<rparr>"
    using assms(10) r(1) by (auto simp: Host_RenewLease_def)
  then show ?thesis using r(2,3) assms(8) by (simp add: get_Inr_iff live_def)
qed

theorem host_renew_extends_lease_witness:
  "\<exists>y. snd (Host_RenewLease Memory_ops sample_clocks sample_registered (sample_renew 60)) = Inr \<lparr>rlr_Plugin = y\<rparr> \<and>
     LeaseExpiresAt y = 60000000100"
proof -
  obtain h' res where e: "Host_RenewLease Memory_ops sample_clocks sample_registered (sample_renew 60) = (h', res)" by fastforce
  show ?thesis
    using host_renew_extends_lease [OF sample_registered_inv sample_registered_on _ _ _ _ refl _ _ e, of sample_stored]
      sample_stored_get unfolding e by (auto simp: sample_ids int64_def Second_def sample_clocks_def)
qed

text \<open>A lifetime of 9223372037 seconds overflows the duration: the renewal reports success, and the
  stored lease ends before the renewal itself, so the next sweep takes the instance offline.\<close>

theorem host_renew_ttl_overflow:
  assumes "data_inv (h_registry h)" and "h_enabled h"
    and "\<not> blank (rl_PluginID req)" and "\<not> blank (rl_InstanceID req)"
    and "Memory_GetInstance (h_registry h) (rl_PluginID req) (rl_InstanceID req) = Inr x"
    and "rl_LeaseTTLSeconds req = 9223372037" and "9223372036709551616 < t_now cl"
    and "Host_RenewLease Memory_ops cl h req = (h', res)"
  shows "\<exists>y. res = Inr \<lparr>rlr_Plugin = y\<rparr> \<and>
     Memory_GetInstance (h_registry h') (rl_PluginID req) (rl_InstanceID req) = Inr y \<and>
     LeaseExpiresAt y = t_now cl - 9223372036709551616 \<and> lease_over y (t_now cl)"
proof -
  have x: "memory_lookup (h_registry h) (key (rl_PluginID req) (rl_InstanceID req)) = Some x"
    using assms(5) by (simp add: get_Inr_iff)
  have ttl: "- 9223372036709551616 = (if 0 < rl_LeaseTTLSeconds req then wrap64 (rl_LeaseTTLSeconds req * Second) else h_leaseTTL h)"
    by (simp add: assms(6) wrap64_def Second_def)
  obtain reg' t where r: "RenewLease_body Memory_ops cl h req = (h\<lparr>h_registry := reg'\<rparr>,
      Inr (x\<lparr>Status := StatusOnline, LastHeartbeatAt := t_now cl, LeaseExpiresAt := t_now cl - 9223372036709551616,
        LeaseTTLSeconds := t, UpdatedAt := t_now cl\<rparr>))"
      "memory_lookup reg' = (memory_lookup (h_registry h))(key (rl_PluginID req) (rl_InstanceID req) \<mapsto>
        x\<lparr>Status := StatusOnline, LastHeartbeatAt := t_now cl, LeaseExpiresAt := t_now cl - 9223372036709551616,
        LeaseTTLSeconds := t, UpdatedAt := t_now cl\<rparr>)"
    using mem.RenewLease_present [OF assms(1-4) x ttl, of cl] assms(7) unfolding Let_def by auto
  have "h_registry h' = reg'" "res = Inr \<lparr>rlr_Plugin = x\<lparr>Status := StatusOnline, LastHeartbeatAt := t_now cl,
      LeaseExpiresAt := t_now cl - 9223372036709551616, LeaseTTLSeconds := t, UpdatedAt := t_now cl\<rparr>\<rparr>"
    using assms(8) r(1) by (auto simp: Host_RenewLease_def)
  then show ?thesis using r(2) assms(7) by (simp add: get_Inr_iff lease_over_def IsZero_def After_def)
qed

theorem host_renew_ttl_overflow_witness:
  "\<exists>y. snd (Host_RenewLease Memory_ops (sample_clocks\<lparr>t_now := 63902000000000000000\<rparr>) sample_registered
       (sample_renew 9223372037)) = Inr \<lparr>rlr_Plugin = y\<rparr> \<and> lease_over y 63902000000000000000"
proof -
  obtain h' res where e: "Host_RenewLease Memory_ops (sample_clocks\<lparr>t_now := 63902000000000000000\<rparr>) sample_registered
       (sample_renew 9223372037) = (h', res)" by fastforce
  show ?thesis
    using host_renew_ttl_overflow [OF sample_registered_inv sample_registered_on _ _ _ _ _ e, of sample_stored]
      sample_stored_get unfolding e by (auto simp: sample_ids)
qed

lemma candidates_offline:
  assumes "data_inv reg" and "Memory_GetInstance reg p i = Inr x" and "Status x \<noteq> StatusOnline"
    and "\<not> blank i"
  shows "candidates Memory_ops w now reg r p i c = (fst (ro_ExpireLeases Memory_ops w reg now), Inl router_ErrPluginOffline)"
proof -
  have n: "TrimSpace i \<noteq> []" using assms(4) by simp
  have x: "memory_lookup reg (key (TrimSpace p) (TrimSpace i)) = Some x" using assms(2) by (simp add: get_Inr_iff)
  have "memory_lookup (fst (ro_ExpireLeases Memory_ops w reg now)) (key (TrimSpace p) (TrimSpace i)) = Some x"
    using mem.expire_ok [OF assms(1), of w now] x assms(3) by (simp add: expire_snapshot_def lease_over_def)
  then have "ro_GetInstance Memory_ops (fst (ro_ExpireLeases Memory_ops w reg now)) (TrimSpace p) (TrimSpace i) = Inr x"
    by (simp only: mem_get_ops get_Inr_iff)
  then have "candidate_items Memory_ops w (fst (ro_ExpireLeases Memory_ops w reg now)) (live_filter p i now) c = Inr [x]"
    using n by (simp add: candidate_items_def live_filter_def)
  then show ?thesis using assms(3) by (simp add: candidates_def Let_def healthy_def healthy_item_def)
qed

text \<open>C33. Unregistering is idempotent and final: on an enabled host with non-blank identifiers it always
  answers offline, whether or not the instance existed; an instance that existed is offline in the
  registry, a second removal gives the same answer, and an invocation that names the instance
  afterwards fails as offline without any remote call.\<close>

theorem host_unregister_final:
  assumes "data_inv (h_registry h)" and "h_enabled h"
    and "\<not> blank (un_PluginID req)" and "\<not> blank (un_InstanceID req)"
    and "Memory_GetInstance (h_registry h) (un_PluginID req) (un_InstanceID req) = Inr x"
    and "Host_Unregister Memory_ops cl h req = (h', res)"
    and "inv_PluginID q = un_PluginID req" and "inv_InstanceID q = un_InstanceID req" and "\<not> blank (inv_Capability q)"
  shows "res = Inr \<lparr>unr_PluginID = un_PluginID req, unr_InstanceID = un_InstanceID req, unr_Status = StatusOffline\<rparr> \<and>
     (\<exists>y. Memory_GetInstance (h_registry h') (un_PluginID req) (un_InstanceID req) = Inr y \<and>
        Status y = StatusOffline \<and> metadata_of y = metadata_of x) \<and>
     snd (Host_Unregister Memory_ops cl2 h' req) = res \<and>
     snd (Host_Invoke Memory_ops cl3 h' q) = Inl ErrPluginOffline \<and>
     rt_calls (h_router (fst (Host_Invoke Memory_ops cl3 h' q))) = rt_calls (h_router h')"
proof -
  define t where "t = utcOrNow (t_wall cl) (t_now cl)"
  define y where "y = x\<lparr>Status := StatusOffline, RuntimeStatus := [], LeaseExpiresAt := t, UpdatedAt := t\<rparr>"
  have x: "memory_lookup (h_registry h) (key (un_PluginID req) (un_InstanceID req)) = Some x"
    using assms(5) by (simp add: get_Inr_iff)
  obtain reg' where r: "Unregister_body Memory_ops cl h req = (h\<lparr>h_registry := reg'\<rparr>,
       Inr \<lparr>unr_PluginID = un_PluginID req, unr_InstanceID = un_InstanceID req, unr_Status = StatusOffline\<rparr>)"
    "data_inv reg'" "memory_lookup reg' = (memory_lookup (h_registry h))(key (un_PluginID req) (un_InstanceID req) \<mapsto> y)"
    using mem.Unregister_ok [OF assms(1-4), of cl] x by (auto simp: y_def t_def)
  have h': "h_registry h' = reg'" "h_enabled h'" and
    res: "res = Inr \<lparr>unr_PluginID = un_PluginID req, unr_InstanceID = un_InstanceID req, unr_Status = StatusOffline\<rparr>"
    using assms(2,6) r(1) by (auto simp: Host_Unregister_def)
  have gy: "Memory_GetInstance reg' (un_PluginID req) (un_InstanceID req) = Inr y" by (simp add: get_Inr_iff r(3))
  have again: "snd (Host_Unregister Memory_ops cl2 h' req) = res"
    using mem.Unregister_ok [of h' req cl2] r(2) h' assms(3,4) by (auto simp: Host_Unregister_def res)
  have "candidates Memory_ops (t_wall cl3) (t_route cl3) (h_registry h') (h_router h') (inv_PluginID q) (inv_InstanceID q) (inv_Capability q) =
      (fst (ro_ExpireLeases Memory_ops (t_wall cl3) (h_registry h') (t_route cl3)), Inl router_ErrPluginOffline)"
    using gy r(2) assms(4) by (intro candidates_offline [of _ _ _ y]) (simp_all add: h' assms(7,8) y_def)
  then have "Router_Invoke Memory_ops (t_wall cl3) (t_route cl3) (h_registry h') (h_router h') q =
      (fst (ro_ExpireLeases Memory_ops (t_wall cl3) (h_registry h') (t_route cl3)), h_router h', Inl router_ErrPluginOffline)"
    using assms(9) by (simp add: Router_Invoke_def)
  then have "snd (Host_Invoke Memory_ops cl3 h' q) = Inl ErrPluginOffline"
    "rt_calls (h_router (fst (Host_Invoke Memory_ops cl3 h' q))) = rt_calls (h_router h')"
    using h'(2) assms(3,7,9) by (simp_all add: Host_Invoke_def Invoke_body_def Let_def mapRouterError_def)
  then show ?thesis using gy again res h'(1) by (simp add: y_def)
qed

definition sample_unregister :: UnregisterRequest where
  "sample_unregister = RequestMeta.extend zero_meta (UnregisterRequest.fields ''billing'' ''i1'')"

theorem host_unregister_final_witness:
  "snd (Host_Invoke Memory_ops sample_clocks (fst (Host_Unregister Memory_ops sample_clocks sample_registered sample_unregister))
     (sample_invoke\<lparr>inv_PluginID := ''billing'', inv_InstanceID := ''i1''\<rparr>)) = Inl ErrPluginOffline"
proof -
  define q where "q = sample_invoke\<lparr>inv_PluginID := ''billing'', inv_InstanceID := ''i1''\<rparr>"
  have u: "un_PluginID sample_unregister = ''billing''" "un_InstanceID sample_unregister = ''i1''"
    by (simp_all add: sample_unregister_def zero_meta_def RequestMeta.defs UnregisterRequest.defs)
  have b: "\<not> blank (inv_Capability q)" "\<not> blank (un_PluginID sample_unregister)" "\<not> blank (un_InstanceID sample_unregister)"
    unfolding q_def by code_simp+
  have i: "inv_PluginID q = un_PluginID sample_unregister" "inv_InstanceID q = un_InstanceID sample_unregister"
    by (simp_all add: q_def u)
  obtain h' res where e: "Host_Unregister Memory_ops sample_clocks sample_registered sample_unregister = (h', res)" by fastforce
  show ?thesis
    using host_unregister_final [OF sample_registered_inv sample_registered_on b(2,3) _ e i b(1), of sample_stored]
      sample_stored_get unfolding e q_def [symmetric] by (simp add: u)
qed

text \<open>Synchronizing the metadata of a stored instance replaces exactly its metadata, in normalized form,
  and the update time; status, lease, registration, heartbeat and creation time are kept.\<close>

theorem host_sync_keeps_lifecycle:
  assumes "data_inv (h_registry h)" and "h_enabled h" and "normalizeMetadata (sm_Plugin req) = Inr m"
    and "Memory_GetInstance (h_registry h) (PluginID m) (InstanceID m) = Inr x" and "t_now cl \<noteq> 0"
    and "Host_SyncMetadata Memory_ops cl h req = (h', res)"
  shows "\<exists>y. res = Inr \<lparr>smr_Plugin = y\<rparr> \<and> Memory_GetInstance (h_registry h') (PluginID m) (InstanceID m) = Inr y \<and>
     metadata_of y = m \<and> UpdatedAt y = t_now cl \<and>
     Status y = TrimSpace (Status x) \<and> RuntimeStatus y = TrimSpace (RuntimeStatus x) \<and>
     OwnerHost y = TrimSpace (OwnerHost x) \<and> LeaseTTLSeconds y = LeaseTTLSeconds x \<and>
     LeaseExpiresAt y = LeaseExpiresAt x \<and> RegisteredAt y = RegisteredAt x \<and>
     LastHeartbeatAt y = LastHeartbeatAt x \<and> CreatedAt y = CreatedAt x \<and> data_inv (h_registry h')"
proof -
  define z where "z = (with_metadata m x)\<lparr>UpdatedAt := t_now cl\<rparr>"
  have x: "memory_lookup (h_registry h) (key (PluginID m) (InstanceID m)) = Some x" using assms(4) by (simp add: get_Inr_iff)
  obtain reg' where r: "SyncMetadata_body Memory_ops cl h req = (h\<lparr>h_registry := reg'\<rparr>, Inr (backfill z x))" "data_inv reg'"
    "memory_lookup reg' = (memory_lookup (h_registry h))(key (PluginID m) (InstanceID m) \<mapsto> backfill z x)"
    using mem.Sync_present [OF assms(1-3) x z_def] by blast
  have h': "h_registry h' = reg'" and res: "res = Inr \<lparr>smr_Plugin = backfill z x\<rparr>"
    using assms(6) r(1) by (auto simp: Host_SyncMetadata_def)
  have f: "metadata_of (backfill z x) = m" "UpdatedAt (backfill z x) = t_now cl"
    "Status (backfill z x) = TrimSpace (Status x)" "RuntimeStatus (backfill z x) = TrimSpace (RuntimeStatus x)"
    "OwnerHost (backfill z x) = TrimSpace (OwnerHost x)" "LeaseTTLSeconds (backfill z x) = LeaseTTLSeconds x"
    "LeaseExpiresAt (backfill z x) = LeaseExpiresAt x" "RegisteredAt (backfill z x) = RegisteredAt x"
    "LastHeartbeatAt (backfill z x) = LastHeartbeatAt x" "CreatedAt (backfill z x) = CreatedAt x"
    using assms(5) by (simp_all add: z_def backfill_def IsZero_def)
  show ?thesis using r(2,3) f by (simp add: res h' get_Inr_iff)
qed

definition sample_sync :: SyncMetadataRequest where
  "sample_sync = RequestMeta.extend zero_meta (SyncMetadataRequest.fields (sample_metadata\<lparr>pm_Version := ''2.0''\<rparr>))"

theorem host_sync_keeps_lifecycle_witness:
  "\<exists>y. snd (Host_SyncMetadata Memory_ops sample_clocks sample_registered sample_sync) = Inr \<lparr>smr_Plugin = y\<rparr> \<and>
     LeaseExpiresAt y = LeaseExpiresAt sample_stored"
proof -
  define m where "m = (case normalizeMetadata (sm_Plugin sample_sync) of Inr d \<Rightarrow> d | Inl e \<Rightarrow> zero_metadata)"
  have m: "normalizeMetadata (sm_Plugin sample_sync) = Inr m" "PluginID m = ''billing''" "InstanceID m = ''i1''"
    unfolding m_def by code_simp+
  have g: "Memory_GetInstance (h_registry sample_registered) (PluginID m) (InstanceID m) = Inr sample_stored"
    using sample_stored_get by (simp add: m(2,3))
  have t: "t_now sample_clocks \<noteq> 0" by (simp add: sample_clocks_def)
  obtain h' res where e: "Host_SyncMetadata Memory_ops sample_clocks sample_registered sample_sync = (h', res)" by fastforce
  show ?thesis using host_sync_keeps_lifecycle [OF sample_registered_inv sample_registered_on m(1) g t e] unfolding e by auto
qed

text \<open>Synchronizing metadata consults neither the authorizer nor the list of allowed transports, which
  registration enforces: its answer and its effect on the registry are the same for every
  authorizer and every list.\<close>

theorem host_sync_skips_registration_checks:
  "snd (Host_SyncMetadata ops cl (h\<lparr>h_authorizer := a, h_allowedTransports := ts\<rparr>) req) =
     snd (Host_SyncMetadata ops cl h req) \<and>
   h_registry (fst (Host_SyncMetadata ops cl (h\<lparr>h_authorizer := a, h_allowedTransports := ts\<rparr>) req)) =
     h_registry (fst (Host_SyncMetadata ops cl h req))"
  by (simp add: Host_SyncMetadata_def SyncMetadata_body_def Let_def split_beta split: sum.splits prod.splits)

text \<open>Draining a stored instance marks it draining and keeps its lease; the next heartbeat of the
  instance makes it online again, so draining lasts only until then.\<close>

theorem host_drain_until_heartbeat:
  assumes "data_inv (h_registry h)" and "h_enabled h"
    and "\<not> blank (dr_PluginID req)" and "\<not> blank (dr_InstanceID req)"
    and "Memory_GetInstance (h_registry h) (dr_PluginID req) (dr_InstanceID req) = Inr x"
    and "Host_Drain Memory_ops cl h req = (h1, res1)"
    and "hb_PluginID hb = dr_PluginID req" and "hb_InstanceID hb = dr_InstanceID req"
    and "Host_Heartbeat Memory_ops cl2 h1 hb = (h2, res2)"
  shows "(\<exists>y. res1 = Inr \<lparr>drr_Plugin = y\<rparr> \<and> Status y = StatusDraining \<and> LeaseExpiresAt y = LeaseExpiresAt x \<and>
       Memory_GetInstance (h_registry h1) (dr_PluginID req) (dr_InstanceID req) = Inr y) \<and>
     (\<exists>z. res2 = Inr \<lparr>hbr_Plugin = z\<rparr> \<and> Status z = StatusOnline \<and>
       Memory_GetInstance (h_registry h2) (dr_PluginID req) (dr_InstanceID req) = Inr z)"
proof -
  have x: "memory_lookup (h_registry h) (key (dr_PluginID req) (dr_InstanceID req)) = Some x"
    using assms(5) by (simp add: get_Inr_iff)
  obtain reg1 y where d: "Drain_body Memory_ops cl h req = (h\<lparr>h_registry := reg1\<rparr>, Inr y)" "data_inv reg1"
    "memory_lookup reg1 = (memory_lookup (h_registry h))(key (dr_PluginID req) (dr_InstanceID req) \<mapsto> y)"
    "Status y = StatusDraining" "LeaseExpiresAt y = LeaseExpiresAt x"
    using mem.Drain_present [OF assms(1,2) x, of cl] unfolding Let_def by fastforce
  have h1: "h_registry h1 = reg1" "h_enabled h1" and res1: "res1 = Inr \<lparr>drr_Plugin = y\<rparr>"
    using assms(2,6) d(1) by (auto simp: Host_Drain_def)
  define rq where "rq = RequestMeta.extend (RequestMeta.truncate hb) (RenewLeaseRequest.fields (hb_PluginID hb) (hb_InstanceID hb) 0)"
  have rq: "rl_PluginID rq = dr_PluginID req" "rl_InstanceID rq = dr_InstanceID req"
    by (simp_all add: rq_def RequestMeta.defs RenewLeaseRequest.defs assms(7,8))
  have y: "memory_lookup (h_registry h1) (key (rl_PluginID rq) (rl_InstanceID rq)) = Some y" by (simp add: h1 rq d(3))
  have inv1: "data_inv (h_registry h1)" by (simp add: h1 d(2))
  obtain reg2 z where z: "RenewLease_body Memory_ops cl2 h1 rq = (h1\<lparr>h_registry := reg2\<rparr>, Inr z)" "Status z = StatusOnline"
    "memory_lookup reg2 = (memory_lookup (h_registry h1))(key (rl_PluginID rq) (rl_InstanceID rq) \<mapsto> z)"
    using mem.RenewLease_present [OF inv1 h1(2) _ _ y refl, of cl2] assms(3,4) unfolding rq Let_def by fastforce
  have "h_registry h2 = reg2" "res2 = Inr \<lparr>hbr_Plugin = z\<rparr>"
    using assms(9) z(1) by (auto simp: Host_Heartbeat_def Host_RenewLease_def rq_def)
  then show ?thesis using d z res1 h1 by (simp add: get_Inr_iff rq)
qed

definition sample_drain :: DrainRequest where
  "sample_drain = RequestMeta.extend zero_meta (DrainRequest.fields ''billing'' ''i1'' [])"

definition sample_heartbeat :: HeartbeatRequest where
  "sample_heartbeat = RequestMeta.extend zero_meta (HeartbeatRequest.fields ''billing'' ''i1'')"

theorem host_drain_until_heartbeat_witness:
  "\<exists>z. snd (Host_Heartbeat Memory_ops sample_clocks (fst (Host_Drain Memory_ops sample_clocks sample_registered sample_drain))
     sample_heartbeat) = Inr \<lparr>hbr_Plugin = z\<rparr> \<and> Status z = StatusOnline"
proof -
  have d: "dr_PluginID sample_drain = ''billing''" "dr_InstanceID sample_drain = ''i1''"
    "hb_PluginID sample_heartbeat = ''billing''" "hb_InstanceID sample_heartbeat = ''i1''"
    by (simp_all add: sample_drain_def sample_heartbeat_def zero_meta_def RequestMeta.defs DrainRequest.defs HeartbeatRequest.defs)
  obtain h1 res1 where 1: "Host_Drain Memory_ops sample_clocks sample_registered sample_drain = (h1, res1)" by fastforce
  obtain h2 res2 where 2: "Host_Heartbeat Memory_ops sample_clocks h1 sample_heartbeat = (h2, res2)" by fastforce
  show ?thesis
    using host_drain_until_heartbeat [OF sample_registered_inv sample_registered_on _ _ _ 1 _ _ 2, of sample_stored]
      sample_stored_get unfolding 1 fst_conv 2 by (simp add: d sample_ids) blast
qed

end
