(* ===== verification/Host_Behaviour.thy ===== *)
theory Host_Behaviour
  imports Host_Properties
begin

text \<open>
  Cross-cutting behaviour of the plugin host: what the recorder sees, the disabled host,
  protocol negotiation, local providers against remote plugins, the aggregation of capabilities,
  metadata normalization and health.
\<close>

section \<open>What the bodies leave alone\<close>

lemma body_observed [simp]:
  "h_observed (fst (Register_body ops cl h r1)) = h_observed h" "h_nodeID (fst (Register_body ops cl h r1)) = h_nodeID h"
  "h_observed (fst (RenewLease_body ops cl h r2)) = h_observed h" "h_nodeID (fst (RenewLease_body ops cl h r2)) = h_nodeID h"
  "h_observed (fst (Unregister_body ops cl h r3)) = h_observed h" "h_nodeID (fst (Unregister_body ops cl h r3)) = h_nodeID h"
  "h_observed (fst (ReportStatus_body ops cl h r4)) = h_observed h" "h_nodeID (fst (ReportStatus_body ops cl h r4)) = h_nodeID h"
  "h_observed (fst (SyncMetadata_body ops cl h r5)) = h_observed h" "h_nodeID (fst (SyncMetadata_body ops cl h r5)) = h_nodeID h"
  "h_observed (fst (Drain_body ops cl h r6)) = h_observed h" "h_nodeID (fst (Drain_body ops cl h r6)) = h_nodeID h"
  "h_observed (fst (Invoke_body ops cl h r7)) = h_observed h" "h_nodeID (fst (Invoke_body ops cl h r7)) = h_nodeID h"
  "h_observed (fst (PushEvent_body ops cl h r8)) = h_observed h" "h_nodeID (fst (PushEvent_body ops cl h r8)) = h_nodeID h"
  "h_observed (fst (SubscribeEvent_body ops cl h r9)) = h_observed h" "h_nodeID (fst (SubscribeEvent_body ops cl h r9)) = h_nodeID h"
  by (simp_all add: Register_body_def RenewLease_body_def Unregister_body_def ReportStatus_body_def
      SyncMetadata_body_def Drain_body_def Invoke_body_def PushEvent_body_def SubscribeEvent_body_def Let_def
      split: prod.splits sum.splits option.splits)

lemma err_of_map_sum [simp]: "err_of (map_sum id f r) = err_of r"
  by (cases r) simp_all

text \<open>Every operation the host audits hands the recorder exactly one event, with the operation's name
  (a heartbeat is recorded as a lease renewal), this node as the source, and the status and error
  text of the answer the caller gets; no event is lost or recorded twice.\<close>

theorem every_operation_recorded_once:
  "records h (fst (Host_Register ops cl h r1)) OperationRegister (err_of (snd (Host_Register ops cl h r1))) \<and>
   records h (fst (Host_RenewLease ops cl h r2)) OperationRenewLease (err_of (snd (Host_RenewLease ops cl h r2))) \<and>
   records h (fst (Host_Heartbeat ops cl h r3)) OperationRenewLease (err_of (snd (Host_Heartbeat ops cl h r3))) \<and>
   records h (fst (Host_Unregister ops cl h r4)) OperationUnregister (err_of (snd (Host_Unregister ops cl h r4))) \<and>
   records h (fst (Host_ReportStatus ops cl h r5)) OperationReportStatus (err_of (snd (Host_ReportStatus ops cl h r5))) \<and>
   records h (fst (Host_SyncMetadata ops cl h r6)) OperationSyncMetadata (err_of (snd (Host_SyncMetadata ops cl h r6))) \<and>
   records h (fst (Host_Drain ops cl h r7)) OperationDrain (err_of (snd (Host_Drain ops cl h r7))) \<and>
   records h (fst (Host_Invoke ops cl h r8)) OperationInvoke (err_of (snd (Host_Invoke ops cl h r8))) \<and>
   records h (fst (Host_PushEvent ops cl h r9)) OperationPushEvent (err_of (snd (Host_PushEvent ops cl h r9))) \<and>
   records h (fst (Host_SubscribeEvent ops cl h r10)) OperationSubscribeEvent (err_of (snd (Host_SubscribeEvent ops cl h r10))) \<and>
   records h (fst (Host_InjectContext ops cl h r11)) OperationInjectContext (err_of (snd (Host_InjectContext ops cl h r11))) \<and>
   records h (fst (Host_GetInjectedSchema ops cl h r12)) OperationGetInjectedSchema (err_of (snd (Host_GetInjectedSchema ops cl h r12))) \<and>
   records h (fst (Host_NegotiateProtocol cl h r13)) OperationNegotiateProtocol (snd (snd (Host_NegotiateProtocol cl h r13)))"
  by (intro conjI)
    (simp_all add: Host_Register_def Host_RenewLease_def Host_Heartbeat_def Host_Unregister_def Host_ReportStatus_def
      Host_SyncMetadata_def Host_Drain_def Host_Invoke_def Host_PushEvent_def Host_SubscribeEvent_def
      Host_InjectContext_def Host_GetInjectedSchema_def Host_NegotiateProtocol_def Let_def split_beta
      records_recordOperation)

section \<open>The disabled host\<close>

text \<open>A disabled host refuses every lifecycle, query, call, event and injection operation with the
  disabled error and leaves the registry and the router as they are.\<close>

theorem disabled_host_refuses:
  assumes "\<not> h_enabled h"
  shows "snd (Host_Register ops cl h r1) = Inl ErrDisabled \<and> h_registry (fst (Host_Register ops cl h r1)) = h_registry h \<and>
   snd (Host_RenewLease ops cl h r2) = Inl ErrDisabled \<and> h_registry (fst (Host_RenewLease ops cl h r2)) = h_registry h \<and>
   snd (Host_Heartbeat ops cl h r3) = Inl ErrDisabled \<and> h_registry (fst (Host_Heartbeat ops cl h r3)) = h_registry h \<and>
   snd (Host_Unregister ops cl h r4) = Inl ErrDisabled \<and> h_registry (fst (Host_Unregister ops cl h r4)) = h_registry h \<and>
   snd (Host_ReportStatus ops cl h r5) = Inl ErrDisabled \<and> h_registry (fst (Host_ReportStatus ops cl h r5)) = h_registry h \<and>
   snd (Host_SyncMetadata ops cl h r6) = Inl ErrDisabled \<and> h_registry (fst (Host_SyncMetadata ops cl h r6)) = h_registry h \<and>
   snd (Host_Drain ops cl h r7) = Inl ErrDisabled \<and> h_registry (fst (Host_Drain ops cl h r7)) = h_registry h \<and>
   snd (Host_Invoke ops cl h r8) = Inl ErrDisabled \<and> h_registry (fst (Host_Invoke ops cl h r8)) = h_registry h \<and>
   h_router (fst (Host_Invoke ops cl h r8)) = h_router h \<and>
   snd (Host_PushEvent ops cl h r9) = Inl ErrDisabled \<and> h_registry (fst (Host_PushEvent ops cl h r9)) = h_registry h \<and>
   h_router (fst (Host_PushEvent ops cl h r9)) = h_router h \<and>
   snd (Host_SubscribeEvent ops cl h r10) = Inl ErrDisabled \<and> h_registry (fst (Host_SubscribeEvent ops cl h r10)) = h_registry h \<and>
   snd (Host_InjectContext ops cl h r11) = Inl ErrDisabled \<and> snd (Host_GetInjectedSchema ops cl h r12) = Inl ErrDisabled \<and>
   Host_ListPlugins ops cl h = (h, Inl ErrDisabled) \<and> Host_GetPlugin ops cl h p = (h, Inl ErrDisabled) \<and>
   Host_GetPluginInstance ops cl h p i = (h, Inl ErrDisabled) \<and> Host_ListProviders h = Inl ErrDisabled \<and>
   snd (snd (Host_NegotiateProtocol cl h r13)) = Some ErrDisabled"
  using assms
  by (simp add: Host_Register_def Register_body_def Host_RenewLease_def RenewLease_body_def Host_Heartbeat_def
      Host_Unregister_def Unregister_body_def Host_ReportStatus_def ReportStatus_body_def
      Host_SyncMetadata_def SyncMetadata_body_def Host_Drain_def Drain_body_def Host_Invoke_def Invoke_body_def
      Host_PushEvent_def PushEvent_body_def Host_SubscribeEvent_def SubscribeEvent_body_def
      Host_InjectContext_def InjectContext_body_def Host_GetInjectedSchema_def GetInjectedSchema_body_def
      Host_ListPlugins_def Host_GetPlugin_def Host_GetPluginInstance_def Host_ListProviders_def
      Host_NegotiateProtocol_def Negotiate_body_def Let_def)

theorem disabled_host_refuses_witness:
  "snd (Host_Drain Memory_ops sample_clocks (sample_host\<lparr>h_enabled := False\<rparr>) sample_drain) = Inl ErrDisabled"
proof -
  have off: "\<not> h_enabled (sample_host\<lparr>h_enabled := False\<rparr>)" by simp
  show ?thesis using disabled_host_refuses [OF off, of Memory_ops sample_clocks] by blast
qed

text \<open>Listing the capabilities of a named plugin does not look at the enabled flag: over the in-process
  registry it always answers, on a disabled host as well.\<close>

theorem list_capabilities_ignores_enabled:
  assumes "data_inv (h_registry h)" and "\<not> blank (lc_PluginID req)" and "blank (lc_InstanceID req)"
  shows "\<exists>caps. snd (Host_ListCapabilities Memory_ops cl h req) = Inr \<lparr>lcr_Capabilities = caps\<rparr> \<and>
     snd (Host_ListCapabilities Memory_ops cl (h\<lparr>h_enabled := b\<rparr>) req) = Inr \<lparr>lcr_Capabilities = caps\<rparr>"
  using assms(2,3)
  by (simp add: Host_ListCapabilities_def Let_def expireLeases_def Host_ExpireLeases_def Memory_ops_def
      Memory_ListInstances_def Memory_ExpireLeases_def split_beta)

definition sample_list :: ListCapabilitiesRequest where
  "sample_list = RequestMeta.extend zero_meta (ListCapabilitiesRequest.fields ''billing'' [])"

theorem list_capabilities_ignores_enabled_witness:
  "\<exists>caps. snd (Host_ListCapabilities Memory_ops sample_clocks (sample_registered\<lparr>h_enabled := False\<rparr>) sample_list) =
     Inr \<lparr>lcr_Capabilities = caps\<rparr>"
proof -
  have l: "lc_PluginID sample_list = ''billing''" "lc_InstanceID sample_list = []"
    by (simp_all add: sample_list_def zero_meta_def RequestMeta.defs ListCapabilitiesRequest.defs)
  show ?thesis
    using list_capabilities_ignores_enabled [OF sample_registered_inv, of sample_list sample_clocks False]
    by (auto simp: l sample_ids)
qed

section \<open>Negotiation\<close>

lemma Host_New_negotiable: "h_defaultProtocolVersion (Host_New cfg reg) \<noteq> [] \<and> [] \<notin> set (h_allowedTransports (Host_New cfg reg))"
proof -
  have "TrimSpace ProtocolVersionV1 = ProtocolVersionV1" by code_simp
  then show ?thesis by (simp add: Host_New_def Let_def set_normalizedStrings)
qed

text \<open>Negotiation accepts exactly when the host is enabled, the peer offers the host's version (or no
  version) and offers an allowed transport (or none, when some transport is allowed). It then
  answers the host's version and an allowed transport that the peer offered; otherwise it returns
  an error and both are empty.\<close>

theorem negotiation_accepts_iff:
  assumes "h_defaultProtocolVersion h \<noteq> []" and "[] \<notin> set (h_allowedTransports h)"
    and "Host_NegotiateProtocol cl h req = (h', resp, err)"
  shows "(ngr_Accepted resp \<longleftrightarrow> h_enabled h \<and>
       (ng_ProtocolVersions req = [] \<or> h_defaultProtocolVersion h \<in> TrimSpace ` set (ng_ProtocolVersions req)) \<and>
       (if ng_Transports req = [] then h_allowedTransports h \<noteq> []
        else \<exists>t \<in> set (ng_Transports req). TrimSpace t \<in> set (h_allowedTransports h))) \<and>
     (ngr_Accepted resp \<longleftrightarrow> err = None) \<and>
     (ngr_Accepted resp \<longrightarrow> ngr_ProtocolVersion resp = h_defaultProtocolVersion h \<and>
        ngr_Transport resp \<in> set (h_allowedTransports h) \<and>
        (ng_Transports req \<noteq> [] \<longrightarrow> ngr_Transport resp \<in> TrimSpace ` set (ng_Transports req))) \<and>
     (\<not> ngr_Accepted resp \<longrightarrow> ngr_ProtocolVersion resp = [] \<and> ngr_Transport resp = [])"
proof -
  define v where "v = choose_value (ng_ProtocolVersions req) [h_defaultProtocolVersion h]"
  define t where "t = choose_value (ng_Transports req) (h_allowedTransports h)"
  have body: "Negotiate_body h req = (resp, err)" using assms(3) by (simp add: Host_NegotiateProtocol_def split: prod.splits)
  have v_iff: "v \<noteq> [] \<longleftrightarrow> ng_ProtocolVersions req = [] \<or> h_defaultProtocolVersion h \<in> TrimSpace ` set (ng_ProtocolVersions req)"
    unfolding v_def using assms(1) by (auto simp: choose_value_Nil_iff image_iff) metis
  have v_val: "v \<noteq> [] \<Longrightarrow> v = h_defaultProtocolVersion h"
    using choose_value_member [of "ng_ProtocolVersions req" "[h_defaultProtocolVersion h]"] by (simp add: v_def)
  have t_iff: "t \<noteq> [] \<longleftrightarrow> (if ng_Transports req = [] then h_allowedTransports h \<noteq> []
        else \<exists>t \<in> set (ng_Transports req). TrimSpace t \<in> set (h_allowedTransports h))"
    unfolding t_def using assms(2) by (auto simp: choose_value_Nil_iff)
  have t_val: "t \<noteq> [] \<Longrightarrow> t \<in> set (h_allowedTransports h)"
    "t \<noteq> [] \<Longrightarrow> ng_Transports req \<noteq> [] \<Longrightarrow> t \<in> TrimSpace ` set (ng_Transports req)"
    using choose_value_member [of "ng_Transports req" "h_allowedTransports h"]
      choose_loop_member [of "ng_Transports req" "h_allowedTransports h"] by (simp_all add: t_def choose_value_def)
  show ?thesis
  proof (cases "h_enabled h \<and> v \<noteq> [] \<and> t \<noteq> []")
    case True
    then have "resp = \<lparr>ngr_ProtocolVersion = v, ngr_Transport = t, ngr_Accepted = True,
        ngr_Alternatives = h_allowedTransports h\<rparr>" and none: "err = None"
      using body by (auto simp: Negotiate_body_def Let_def v_def t_def)
    then have r: "ngr_Accepted resp" "ngr_ProtocolVersion resp = h_defaultProtocolVersion h" "ngr_Transport resp = t"
      using True v_val by simp_all
    have "v \<noteq> []" "t \<noteq> []" "h_enabled h" using True by blast+
    then show ?thesis unfolding r(2,3) none using r(1) v_iff t_iff t_val by blast
  next
    case False
    then have "ngr_Accepted resp = False" "ngr_ProtocolVersion resp = []" "ngr_Transport resp = []" "err \<noteq> None"
      using body by (auto simp: Negotiate_body_def Let_def v_def t_def split: if_splits)
    then show ?thesis using False v_iff t_iff by blast
  qed
qed

definition sample_negotiate :: NegotiateProtocolRequest where
  "sample_negotiate = RequestMeta.extend zero_meta
     (NegotiateProtocolRequest.fields ''billing'' ''i1'' [''v1''] [''rpc'', '' http ''] [] [])"

theorem negotiation_accepts_iff_witness:
  "ngr_Accepted (fst (snd (Host_NegotiateProtocol sample_clocks sample_host sample_negotiate)))"
proof -
  have n: "ng_ProtocolVersions sample_negotiate = [''v1'']" "ng_Transports sample_negotiate = [''rpc'', '' http '']"
    by (simp_all add: sample_negotiate_def zero_meta_def RequestMeta.defs NegotiateProtocolRequest.defs)
  have h: "h_defaultProtocolVersion sample_host = ''v1''" "h_allowedTransports sample_host = [''http'', ''websocket'']"
    "h_enabled sample_host" "TrimSpace ''v1'' = ''v1''" "TrimSpace '' http '' = ''http''"
    by code_simp+
  obtain h' resp err where e: "Host_NegotiateProtocol sample_clocks sample_host sample_negotiate = (h', resp, err)"
    using prod_cases3 by blast
  show ?thesis using negotiation_accepts_iff [OF _ _ e] unfolding e h n by (simp add: h)
qed

section \<open>Local providers and remote plugins\<close>

text \<open>A call that names a plugin is never served by a local provider: its answer, the registry and the
  remote calls are the same whatever local providers the host has.\<close>

theorem named_plugin_never_local:
  assumes "\<not> blank (inv_PluginID req)"
  shows "snd (Host_Invoke ops cl (h\<lparr>h_providers := ps\<rparr>) req) = snd (Host_Invoke ops cl h req) \<and>
     h_registry (fst (Host_Invoke ops cl (h\<lparr>h_providers := ps\<rparr>) req)) = h_registry (fst (Host_Invoke ops cl h req)) \<and>
     h_router (fst (Host_Invoke ops cl (h\<lparr>h_providers := ps\<rparr>) req)) = h_router (fst (Host_Invoke ops cl h req))"
  using assms
  by (simp add: Host_Invoke_def Invoke_body_def Let_def split_beta split: sum.splits)

theorem named_plugin_never_local_witness:
  "snd (Host_Invoke Memory_ops sample_clocks (sample_registered\<lparr>h_providers := []\<rparr>)
     (sample_invoke\<lparr>inv_PluginID := ''billing''\<rparr>)) =
   snd (Host_Invoke Memory_ops sample_clocks sample_registered (sample_invoke\<lparr>inv_PluginID := ''billing''\<rparr>))"
proof -
  have b: "\<not> blank (inv_PluginID (sample_invoke\<lparr>inv_PluginID := ''billing''\<rparr>))" by (simp add: sample_ids)
  from named_plugin_never_local [OF b, where ?ops = Memory_ops and ?cl = sample_clocks and ?h = sample_registered and ?ps = "[]"]
  show ?thesis by blast
qed

text \<open>A call that names no plugin and finds a local provider of the capability is answered by it alone:
  no remote call is made and the registry is untouched; the answer is the provider's, or
  unauthorized when the authorizer denies the capability's permissions.\<close>

theorem local_provider_answers:
  assumes "h_enabled h" and "\<not> blank (inv_Capability req)" and "blank (inv_PluginID req)"
    and "mget (h_providers h) (TrimSpace (inv_Capability req)) = Some p"
    and "Host_Invoke ops cl h req = (h', res)"
  shows "h_registry h' = h_registry h \<and> h_router h' = h_router h \<and>
     (res = Inl ErrUnauthorized \<or>
      res = map_sum id (\<lambda>v. \<lparr>invr_Capability = inv_Capability req, invr_Result = v\<rparr>) (Provider_Invoke p req)) \<and>
     (h_authorizer h = None \<longrightarrow>
      res = map_sum id (\<lambda>v. \<lparr>invr_Capability = inv_Capability req, invr_Result = v\<rparr>) (Provider_Invoke p req))"
proof -
  have a: "host_authorize h w o1 s1 p1 c1 e1 = Some e \<Longrightarrow> e = ErrUnauthorized" for w o1 s1 p1 c1 e1 e
    by (simp add: host_authorize_def split: option.splits prod.splits if_splits)
  have n: "h_authorizer h = None \<Longrightarrow> host_authorize h w o1 s1 p1 c1 e1 = None" for w o1 s1 p1 c1 e1
    by (simp add: host_authorize_def)
  have body: "Invoke_body ops cl h req = (h, res)" "h_registry h' = h_registry h" "h_router h' = h_router h"
    using assms by (auto simp: Host_Invoke_def Invoke_body_def invokeProvider_def Let_def)
  then show ?thesis using assms(1-4) a n
    by (auto simp: Invoke_body_def invokeProvider_def Let_def split: option.splits sum.splits)
qed

lemma Register_authorizer: "h_authorizer (fst (Host_Register ops cl h req)) = h_authorizer h"
  by (simp add: Host_Register_def Register_body_def Let_def split_beta split: sum.splits prod.splits option.splits)

definition sample_provider :: Provider where
  "sample_provider = \<lparr>pv_Definition = \<lparr>cap_Name = ''pay'', cap_Version = [], cap_Scope = [], cap_Permissions = [],
     cap_InputSchema = [], cap_OutputSchema = [], cap_SecretPolicy = [], cap_Description = []\<rparr>,
     pv_Handler = Some (\<lambda>req. Inr (inv_Payload req))\<rparr>"

theorem local_provider_answers_witness:
  "snd (Host_Invoke Memory_ops sample_clocks (sample_registered\<lparr>h_providers := [(''pay'', sample_provider)]\<rparr>) sample_invoke) =
     Inr \<lparr>invr_Capability = ''pay'', invr_Result = ''{}''\<rparr>"
proof -
  define h where "h = sample_registered\<lparr>h_providers := [(''pay'', sample_provider)]\<rparr>"
  have e: "h_enabled h" using sample_registered_on by (simp add: h_def)
  have t: "TrimSpace ''pay'' = ''pay''" by code_simp
  have q: "inv_Capability sample_invoke = ''pay''" "inv_PluginID sample_invoke = []" "inv_Payload sample_invoke = ''{}''"
    by (simp_all add: sample_invoke_def)
  have g: "mget (h_providers h) (TrimSpace (inv_Capability sample_invoke)) = Some sample_provider"
    by (simp add: h_def q t mget_def)
  have a: "h_authorizer h = None"
    by (simp add: h_def sample_registered_def Register_authorizer)
      (simp add: sample_host_def Host_New_def sample_config_def Let_def)
  obtain h' res where i: "Host_Invoke Memory_ops sample_clocks h sample_invoke = (h', res)" by fastforce
  show ?thesis using local_provider_answers [OF e _ _ g i] a unfolding h_def [symmetric] i
    by (simp add: q t Provider_Invoke_def sample_provider_def)
qed

section \<open>Aggregated capabilities\<close>

lemma find_append: "find P (xs @ ys) = (case find P xs of None \<Rightarrow> find P ys | Some x \<Rightarrow> Some x)"
  by (induction xs) auto

lemma seen_add_mget: "mget (seen_add seen cs) n =
    (case mget seen n of Some c \<Rightarrow> Some c | None \<Rightarrow> find (\<lambda>c. cap_Name c = n) cs)"
  by (induction seen cs rule: seen_add.induct) (auto split: option.splits)

lemma seen_add_wf: "wf_map seen \<Longrightarrow> wf_map (seen_add seen cs)"
  by (induction seen cs rule: seen_add.induct) (auto split: option.splits)

lemma seen_all_mget: "mget (seen_all seen items) n =
    (case mget seen n of Some c \<Rightarrow> Some c | None \<Rightarrow> find (\<lambda>c. cap_Name c = n) (concat (map Capabilities items)))"
  by (induction seen items rule: seen_all.induct) (auto simp: seen_add_mget find_append split: option.splits)

lemma seen_all_wf: "wf_map seen \<Longrightarrow> wf_map (seen_all seen items)"
  by (induction seen items rule: seen_all.induct) (auto simp: seen_add_wf)

text \<open>The capabilities of a plugin are listed once per name in increasing order; for each name any
  instance declares the first declaration, in the order of the instances, is the one listed, and
  nothing else is. The result does not depend on the iteration order of the map that removes
  duplicates.\<close>

theorem aggregate_capabilities_first_wins:
  "sorted_wrt (<) (map cap_Name (aggregateCapabilities items)) \<and>
   (c \<in> set (aggregateCapabilities items) \<longleftrightarrow>
      find (\<lambda>d. cap_Name d = cap_Name c) (concat (map Capabilities items)) = Some c)"
proof -
  define m where "m = seen_all [] items"
  have wf: "wf_map m" by (simp add: m_def seen_all_wf)
  have get: "mget m n = find (\<lambda>c. cap_Name c = n) (concat (map Capabilities items))" for n
    by (simp add: m_def seen_all_mget)
  have key: "mget m n = Some d \<Longrightarrow> cap_Name d = n" for n d by (auto simp: get find_Some_iff)
  have "map cap_Name (map snd m) = map fst m"
    using key mget_in_set [OF wf] by (auto intro!: map_cong)
  with wf have "distinct (map cap_Name (map snd m))" by (simp only: wf_map_def)
  moreover have "mset (map cap_Name (sort_key cap_Name (map snd m))) = mset (map cap_Name (map snd m))"
    by (simp only: mset_map mset_sort)
  ultimately have "distinct (map cap_Name (sort_key cap_Name (map snd m)))"
    using mset_eq_imp_distinct_iff by blast
  then have "sorted_wrt (<) (map cap_Name (aggregateCapabilities items))"
    by (simp add: aggregateCapabilities_def m_def [symmetric] strict_sorted_iff)
  moreover have "c \<in> set (aggregateCapabilities items) \<longleftrightarrow> (\<exists>n. mget m n = Some c)"
    using values_mget [OF wf] by (auto simp: aggregateCapabilities_def m_def [symmetric])
  moreover have "(\<exists>n. mget m n = Some c) \<longleftrightarrow> mget m (cap_Name c) = Some c" using key by blast
  ultimately show ?thesis by (simp add: get)
qed

section \<open>Normalization, health and errors\<close>

text \<open>Normalizing metadata is idempotent on what the host accepts: when normalization yields a built-in
  transport, normalizing the result again returns it unchanged. Hence re-registering or
  synchronizing what the host reported changes nothing.\<close>

theorem normalize_metadata_idempotent:
  assumes "normalizeMetadata m = Inr d" and "Transport d \<in> builtin_transports"
  shows "normalizeMetadata d = Inr d"
proof (rule normalizeMetadata_fixed)
  show "metadata_ok d" "trimmed_map (Metadata d)" using normalizeMetadata_Inr(3,4) [OF assms(1)] by blast+
  show "NormalizeTransport (Transport d) = Transport d"
    using assms(2) by (elim insertE emptyE) simp_all
qed

theorem normalize_metadata_idempotent_witness:
  "normalizeMetadata (case normalizeMetadata sample_metadata of Inr d \<Rightarrow> d | Inl e \<Rightarrow> zero_metadata) =
     normalizeMetadata sample_metadata"
proof -
  define d where "d = (case normalizeMetadata sample_metadata of Inr d \<Rightarrow> d | Inl e \<Rightarrow> zero_metadata)"
  have d: "normalizeMetadata sample_metadata = Inr d" "Transport d \<in> builtin_transports"
    unfolding d_def by code_simp+
  show ?thesis using normalize_metadata_idempotent [OF d] by (simp add: d(1) d_def [symmetric])
qed

text \<open>The health check and the router agree: an instance is reported healthy exactly when the router
  would accept it, given a transport for it.\<close>

theorem health_agrees_with_router:
  assumes "mget invokers (EffectiveTransport (metadata_of x)) \<noteq> None"
  shows "hs_Status (healthStatus x now) = HealthStatusOK \<longleftrightarrow> healthy [x] now invokers = [x]"
  using assms by (auto simp: healthStatus_def healthy_def healthy_item_def Let_def)

theorem health_agrees_with_router_witness:
  "hs_Status (healthStatus sample_online 20) = HealthStatusOK"
proof -
  have t: "EffectiveTransport (metadata_of sample_online) = TransportHTTP" by code_simp
  have m: "mget [(TransportHTTP, echo_invoker)] (EffectiveTransport (metadata_of sample_online)) \<noteq> None"
    by (simp add: t mget_def)
  have "healthy [sample_online] 20 [(TransportHTTP, echo_invoker)] = [sample_online]"
    using m by (simp add: healthy_def healthy_item_def sample_online_def IsZero_def After_def)
  then show ?thesis using health_agrees_with_router [OF m] by blast
qed

text \<open>A call that names an unknown instance returns the registry's internal not-found error, which the
  host's error mapping does not translate; a lookup of the same instance returns the host's
  plugin-not-found error.\<close>

theorem unknown_instance_error_leaks:
  assumes "data_inv (h_registry h)" and "h_enabled h" and "\<not> blank (inv_PluginID req)"
    and "\<not> blank (inv_InstanceID req)" and "\<not> blank (inv_Capability req)"
    and "Memory_GetInstance (h_registry h) (inv_PluginID req) (inv_InstanceID req) = Inl registry_ErrNotFound"
  shows "snd (Host_Invoke Memory_ops cl h req) = Inl registry_ErrNotFound \<and>
     snd (Host_GetPluginInstance Memory_ops cl h (inv_PluginID req) (inv_InstanceID req)) = Inl ErrPluginNotFound"
proof -
  have none: "memory_lookup (h_registry h) (key (inv_PluginID req) (inv_InstanceID req)) = None"
    using assms(6) by (simp add: Memory_GetInstance_def split: option.splits)
  have gone: "ro_GetInstance Memory_ops (fst (ro_ExpireLeases Memory_ops w (h_registry h) now)) p i = Inl registry_ErrNotFound"
    if "key p i = key (inv_PluginID req) (inv_InstanceID req)" for w now p i
    using mem.expire_ok [OF assms(1), of w now] mem.get_instance none that by simp
  have "candidate_items Memory_ops (t_wall cl) (fst (ro_ExpireLeases Memory_ops (t_wall cl) (h_registry h) (t_route cl)))
      (live_filter (inv_PluginID req) (inv_InstanceID req) (t_route cl)) (inv_Capability req) = Inl registry_ErrNotFound"
    using assms(4) gone by (simp add: candidate_items_def live_filter_def)
  then have "snd (snd (Router_Invoke Memory_ops (t_wall cl) (t_route cl) (h_registry h) (h_router h) req)) = Inl registry_ErrNotFound"
    using assms(5) by (simp add: Router_Invoke_def candidates_def Let_def)
  then have "snd (Host_Invoke Memory_ops cl h req) = Inl registry_ErrNotFound"
    using assms(2,3,5) by (simp add: Host_Invoke_def Invoke_body_def Let_def mapRouterError_def split_beta)
  moreover have "h_registry (expireLeases Memory_ops cl h) =
      fst (ro_ExpireLeases Memory_ops (t_wall cl) (h_registry h) (t_expire cl))" "h_enabled (expireLeases Memory_ops cl h) = h_enabled h"
    by (simp_all add: expireLeases_def Host_ExpireLeases_def split: prod.splits sum.splits)
  ultimately show ?thesis using assms(2) gone by (simp add: Host_GetPluginInstance_def Let_def)
qed

theorem unknown_instance_error_leaks_witness:
  "snd (Host_Invoke Memory_ops sample_clocks sample_host
     (sample_invoke\<lparr>inv_PluginID := ''billing'', inv_InstanceID := ''i1''\<rparr>)) = Inl registry_ErrNotFound"
proof -
  define q where "q = sample_invoke\<lparr>inv_PluginID := ''billing'', inv_InstanceID := ''i1''\<rparr>"
  have q: "h_enabled sample_host" "\<not> blank (inv_PluginID q)" "\<not> blank (inv_InstanceID q)" "\<not> blank (inv_Capability q)"
    "Memory_GetInstance (h_registry sample_host) (inv_PluginID q) (inv_InstanceID q) = Inl registry_ErrNotFound"
    unfolding q_def by code_simp+
  show ?thesis using unknown_instance_error_leaks [OF sample_host_inv q] by (simp add: q_def)
qed

end
