(* ===== verification/Host_Machine.thy ===== *)
theory Host_Machine
  imports Host_Behaviour
begin

text \<open>
  The host as a state machine over the in-process registry: one step is one call of a host
  operation, with any request and any clock readings, or a step of a registry watcher. The
  invariant holds in every reachable state, for every configuration.
\<close>

section \<open>What the operations leave alone\<close>

lemma expireLeases_frame [simp]:
  "h_providers (expireLeases ops cl h) = h_providers h" "h_router (expireLeases ops cl h) = h_router h"
  "h_injection (expireLeases ops cl h) = h_injection h"
  "h_providers (fst (Host_ExpireLeases ops w now h)) = h_providers h"
  "h_router (fst (Host_ExpireLeases ops w now h)) = h_router h"
  "h_injection (fst (Host_ExpireLeases ops w now h)) = h_injection h"
  by (simp_all add: expireLeases_def Host_ExpireLeases_def split: prod.splits sum.splits)

lemma lifecycle_frame [simp]:
  "h_providers (fst (Host_Register ops cl h r1)) = h_providers h" "h_router (fst (Host_Register ops cl h r1)) = h_router h"
  "h_providers (fst (Host_RenewLease ops cl h r2)) = h_providers h" "h_router (fst (Host_RenewLease ops cl h r2)) = h_router h"
  "h_providers (fst (Host_Unregister ops cl h r3)) = h_providers h" "h_router (fst (Host_Unregister ops cl h r3)) = h_router h"
  "h_providers (fst (Host_ReportStatus ops cl h r4)) = h_providers h" "h_router (fst (Host_ReportStatus ops cl h r4)) = h_router h"
  "h_providers (fst (Host_SyncMetadata ops cl h r5)) = h_providers h" "h_router (fst (Host_SyncMetadata ops cl h r5)) = h_router h"
  "h_providers (fst (Host_Drain ops cl h r6)) = h_providers h" "h_router (fst (Host_Drain ops cl h r6)) = h_router h"
  "h_providers (fst (Host_SubscribeEvent ops cl h r7)) = h_providers h" "h_router (fst (Host_SubscribeEvent ops cl h r7)) = h_router h"
  by (simp_all add: Host_Register_def Register_body_def Host_RenewLease_def RenewLease_body_def
      Host_Unregister_def Unregister_body_def Host_ReportStatus_def ReportStatus_body_def
      Host_SyncMetadata_def SyncMetadata_body_def Host_Drain_def Drain_body_def
      Host_SubscribeEvent_def SubscribeEvent_body_def Let_def split_beta
      split: sum.splits option.splits prod.splits)

lemma heartbeat_frame [simp]:
  "h_providers (fst (Host_Heartbeat ops cl h r)) = h_providers h" "h_router (fst (Host_Heartbeat ops cl h r)) = h_router h"
  by (simp_all add: Host_Heartbeat_def split_beta)

lemma query_frame [simp]:
  "h_providers (fst (Host_ListPlugins ops cl h)) = h_providers h" "h_router (fst (Host_ListPlugins ops cl h)) = h_router h"
  "h_providers (fst (Host_GetPlugin ops cl h i0)) = h_providers h" "h_router (fst (Host_GetPlugin ops cl h i0)) = h_router h"
  "h_providers (fst (Host_GetPluginInstance ops cl h p i)) = h_providers h"
  "h_router (fst (Host_GetPluginInstance ops cl h p i)) = h_router h"
  "h_providers (fst (Host_ListCapabilities ops cl h r)) = h_providers h" "h_router (fst (Host_ListCapabilities ops cl h r)) = h_router h"
  by (simp_all add: Host_ListPlugins_def Host_GetPlugin_def Host_GetPluginInstance_def Host_ListCapabilities_def
      Let_def split: sum.splits option.splits list.splits)

lemma call_frame [simp]:
  "h_providers (fst (Host_Invoke ops cl h r1)) = h_providers h" "h_providers (fst (Host_PushEvent ops cl h r2)) = h_providers h"
  by (simp_all add: Host_Invoke_def Invoke_body_def Host_PushEvent_def PushEvent_body_def Let_def split_beta
      split: sum.splits option.splits)

section \<open>The invariant\<close>

definition providers_ok :: "(string, Provider) gomap \<Rightarrow> bool" where
  "providers_ok ps \<longleftrightarrow> wf_map ps \<and> (\<forall>n p. mget ps n = Some p \<longrightarrow> n \<noteq> [] \<and> cap_Name (pv_Definition p) = n \<and>
     normalizeCapability (pv_Definition p) = Inr (pv_Definition p))"

definition calls_ok :: "Router \<Rightarrow> bool" where
  "calls_ok r \<longleftrightarrow> (\<forall>c \<in> set (rt_calls r). Status (call_target c) = StatusOnline \<and> metadata_ok (call_target c))"

definition host_inv :: "Memory Host \<Rightarrow> bool" where
  "host_inv h \<longleftrightarrow> data_inv (h_registry h) \<and> stored_ok memory_lookup (h_registry h) \<and>
     providers_ok (h_providers h) \<and> calls_ok (h_router h)"

lemma RegisterProvider_ok: "providers_ok (h_providers h) \<Longrightarrow> providers_ok (h_providers (fst (Host_RegisterProvider h p)))"
  by (auto simp: Host_RegisterProvider_def providers_ok_def split: option.splits sum.splits
      dest: normalizeCapability_name normalizeCapability_idem)

lemma Invoke_calls_ok:
  assumes "host_inv h"
  shows "calls_ok (h_router (fst (Host_Invoke Memory_ops cl h req)))"
proof -
  obtain reg' r' res where e: "Router_Invoke Memory_ops (t_wall cl) (t_route cl) (h_registry h) (h_router h) req = (reg', r', res)"
    using prod_cases3 by blast
  have inv: "data_inv (h_registry h)" "stored_ok memory_lookup (h_registry h)" using assms by (simp_all add: host_inv_def)
  then have ok: "stored_ok memory_lookup reg'"
    using mem.Router_Invoke_registry [of "t_wall cl" "t_route cl" "h_registry h" "h_router h" req] e mem.expire_good by fastforce
  obtain cs where cs: "rt_calls r' = rt_calls (h_router h) @ cs"
    "\<forall>c \<in> set cs. memory_lookup reg' (key (PluginID (call_target c)) (InstanceID (call_target c))) = Some (call_target c) \<and>
       live (t_route cl) (call_target c)"
    using mem.Router_Invoke_calls [OF inv(1) e] by blast
  have "calls_ok r'" using assms cs stored_okD [OF ok] by (auto simp: host_inv_def calls_ok_def live_def)
  moreover have "h_router (fst (Host_Invoke Memory_ops cl h req)) = h_router h \<or> h_router (fst (Host_Invoke Memory_ops cl h req)) = r'"
    using e by (auto simp: Host_Invoke_def Invoke_body_def Let_def split_beta split: option.splits sum.splits)
  ultimately show ?thesis using assms by (auto simp: host_inv_def)
qed

lemma Push_calls_ok:
  assumes "host_inv h"
  shows "calls_ok (h_router (fst (Host_PushEvent Memory_ops cl h req)))"
proof -
  define w where "w = t_wall cl"
  define now where "now = t_route cl"
  obtain reg1 xs where t: "eventTargets Memory_ops w now (h_registry h) (h_router h) req = (reg1, xs)" by fastforce
  have inv: "data_inv (h_registry h)" "stored_ok memory_lookup (h_registry h)" using assms by (simp_all add: host_inv_def)
  have reg: "fst (eventTargets Memory_ops w now (h_registry h) (h_router h) req) = h_registry h \<or>
      fst (eventTargets Memory_ops w now (h_registry h) (h_router h) req) = fst (ro_ExpireLeases Memory_ops w (h_registry h) now)"
    by (auto simp: eventTargets_def candidates_def Let_def split: sum.splits if_splits)
  then have ok: "stored_ok memory_lookup reg1" using inv t mem.expire_good by fastforce
  have "calls_ok (fst (snd (Router_PushEvent Memory_ops w now (h_registry h) (h_router h) req)))"
  proof (cases xs)
    case (Inl e)
    then show ?thesis using assms t by (simp add: Router_PushEvent_def host_inv_def)
  next
    case (Inr ys)
    obtain cs where cs: "rt_calls (fst (push_loop (h_router h) req ys 0 None)) = rt_calls (h_router h) @ cs"
      "call_target ` set cs \<subseteq> set ys" using push_loop_calls by blast
    have y: "Status x = StatusOnline \<and> metadata_ok x" if "x \<in> set ys" for x
      using mem.eventTargets_sound [OF inv(1) t [unfolded Inr] that] stored_okD [OF ok] by (auto simp: live_def)
    have "calls_ok (fst (push_loop (h_router h) req ys 0 None))"
      using assms cs y by (auto simp: calls_ok_def host_inv_def)
    then show ?thesis using assms t Inr by (simp add: Router_PushEvent_def split_beta host_inv_def)
  qed
  then show ?thesis using assms
    by (simp add: Host_PushEvent_def PushEvent_body_def DirectBus_Publish_def split_beta w_def now_def host_inv_def)
qed

section \<open>Steps\<close>

inductive host_step :: "Memory Host \<Rightarrow> Memory Host \<Rightarrow> bool" where
  register: "host_step h (fst (Host_Register Memory_ops cl h r1))"
| renew: "host_step h (fst (Host_RenewLease Memory_ops cl h r2))"
| heartbeat: "host_step h (fst (Host_Heartbeat Memory_ops cl h r3))"
| unregister: "host_step h (fst (Host_Unregister Memory_ops cl h r4))"
| report: "host_step h (fst (Host_ReportStatus Memory_ops cl h r5))"
| sync: "host_step h (fst (Host_SyncMetadata Memory_ops cl h r6))"
| drain: "host_step h (fst (Host_Drain Memory_ops cl h r7))"
| list_plugins: "host_step h (fst (Host_ListPlugins Memory_ops cl h))"
| get_plugin: "host_step h (fst (Host_GetPlugin Memory_ops cl h i0))"
| get_instance: "host_step h (fst (Host_GetPluginInstance Memory_ops cl h p i))"
| list_capabilities: "host_step h (fst (Host_ListCapabilities Memory_ops cl h r8))"
| sweep: "host_step h (fst (Host_ExpireLeases Memory_ops w now h))"
| provider: "host_step h (fst (Host_RegisterProvider h pv))"
| invoker: "host_step h (fst (Host_RegisterRemoteInvoker h tr iv))"
| injection: "host_step h (Host_RegisterInjectionProvider h ip)"
| invoke: "host_step h (fst (Host_Invoke Memory_ops cl h r9))"
| push: "host_step h (fst (Host_PushEvent Memory_ops cl h r10))"
| subscribe: "host_step h (fst (Host_SubscribeEvent Memory_ops cl h r11))"
| inject: "host_step h (fst (Host_InjectContext Memory_ops cl h r12))"
| schema: "host_step h (fst (Host_GetInjectedSchema Memory_ops cl h r13))"
| negotiate: "host_step h (fst (Host_NegotiateProtocol cl h r14))"
| watcher: "mem_step (h_registry h) m' \<Longrightarrow> instances m' = instances (h_registry h) \<Longrightarrow>
    subscriptions m' = subscriptions (h_registry h) \<Longrightarrow> host_step h (h\<lparr>h_registry := m'\<rparr>)"

inductive host_reachable :: "Memory Host \<Rightarrow> bool" where
  start: "host_reachable (Host_New cfg NewMemory)"
| step: "host_reachable h \<Longrightarrow> host_step h h' \<Longrightarrow> host_reachable h'"

lemma record_only [simp]:
  "h_registry (fst (Host_InjectContext ops cl h r)) = h_registry h" "h_router (fst (Host_InjectContext ops cl h r)) = h_router h"
  "h_providers (fst (Host_InjectContext ops cl h r)) = h_providers h"
  "h_registry (fst (Host_GetInjectedSchema ops cl h r')) = h_registry h"
  "h_router (fst (Host_GetInjectedSchema ops cl h r')) = h_router h"
  "h_providers (fst (Host_GetInjectedSchema ops cl h r')) = h_providers h"
  "h_registry (fst (Host_NegotiateProtocol cl h r'')) = h_registry h"
  "h_router (fst (Host_NegotiateProtocol cl h r'')) = h_router h"
  "h_providers (fst (Host_NegotiateProtocol cl h r'')) = h_providers h"
  by (simp_all add: Host_InjectContext_def Host_GetInjectedSchema_def Host_NegotiateProtocol_def Let_def split_beta)

lemma configure_frame [simp]:
  "h_registry (fst (Host_RegisterProvider h pv)) = h_registry h" "h_router (fst (Host_RegisterProvider h pv)) = h_router h"
  "h_registry (fst (Host_RegisterRemoteInvoker h tr iv)) = h_registry h"
  "h_providers (fst (Host_RegisterRemoteInvoker h tr iv)) = h_providers h"
  "rt_calls (h_router (fst (Host_RegisterRemoteInvoker h tr iv))) = rt_calls (h_router h)"
  "h_registry (Host_RegisterInjectionProvider h ip) = h_registry h" "h_router (Host_RegisterInjectionProvider h ip) = h_router h"
  "h_providers (Host_RegisterInjectionProvider h ip) = h_providers h"
  by (simp_all add: Host_RegisterProvider_def Host_RegisterRemoteInvoker_def Router_RegisterRemoteInvoker_def
      Host_RegisterInjectionProvider_def Let_def split: option.splits sum.splits)

lemmas registry_good = mem.Register_good mem.Renew_good mem.Heartbeat_good mem.Unregister_good mem.Report_good
  mem.Sync_good mem.Drain_good mem.queries_good mem.ExpireLeases_good mem.SubscribeEvent_good

lemma host_step_inv: "host_step h h' \<Longrightarrow> host_inv h \<Longrightarrow> host_inv h'"
proof (induction rule: host_step.induct)
  case (provider h pv)
  then show ?case using RegisterProvider_ok [of h pv] by (simp add: host_inv_def)
next
  case (invoker h tr iv)
  then show ?case by (simp add: host_inv_def calls_ok_def)
next
  case (invoke h cl r9)
  then show ?case using mem.Invoke_good [of h cl r9] Invoke_calls_ok [of h cl r9] by (simp add: host_inv_def)
next
  case (push h cl r10)
  then show ?case using mem.PushEvent_good [of h cl r10] Push_calls_ok [of h cl r10] by (simp add: host_inv_def)
next
  case (watcher h m')
  then show ?case using data_inv_cong [of m' "h_registry h"] by (simp add: host_inv_def stored_ok_def)
qed (simp_all add: host_inv_def registry_good)

lemma host_inv_New: "host_inv (Host_New cfg NewMemory)"
  by (simp add: host_inv_def Host_New_def Let_def data_inv_def stored_ok_def NewMemory_def providers_ok_def
      calls_ok_def NewRouter_def)

lemma reachable_host_inv: "host_reachable h \<Longrightarrow> host_inv h"
  by (induction rule: host_reachable.induct) (auto intro: host_inv_New host_step_inv)

section \<open>Properties\<close>

text \<open>C1. In every host state reachable by any sequence of operations, clock readings and watcher steps,
  from any configuration: each stored instance is found under its own identifiers, which are
  trimmed and not empty, with name, version, endpoint, transport and capabilities in normalized
  form; each local provider stands under its own non-empty name; and every remote call ever made
  went to an instance that was online at the time of the call.\<close>

theorem host_safe_in_every_state:
  assumes "host_reachable h"
  shows "(\<forall>p i x. Memory_GetInstance (h_registry h) p i = Inr x \<longrightarrow>
       metadata_ok x \<and> Memory_GetInstance (h_registry h) (PluginID x) (InstanceID x) = Inr x) \<and>
     (\<forall>n pv. mget (h_providers h) n = Some pv \<longrightarrow> n \<noteq> [] \<and> cap_Name (pv_Definition pv) = n) \<and>
     (\<forall>c \<in> set (rt_calls (h_router h)). Status (call_target c) = StatusOnline \<and> metadata_ok (call_target c)) \<and>
     data_inv (h_registry h)"
proof -
  have i: "data_inv (h_registry h)" "stored_ok memory_lookup (h_registry h)" "providers_ok (h_providers h)"
    "calls_ok (h_router h)" using reachable_host_inv [OF assms] by (simp_all add: host_inv_def)
  have "metadata_ok x \<and> Memory_GetInstance (h_registry h) (PluginID x) (InstanceID x) = Inr x"
    if "Memory_GetInstance (h_registry h) p i = Inr x" for p i x
  proof -
    have x: "memory_lookup (h_registry h) (key p i) = Some x" using that by (simp add: get_Inr_iff)
    show ?thesis using stored_okD [OF i(2) x] data_inv_key [OF i(1) x] x by (simp add: get_Inr_iff)
  qed
  then show ?thesis using i by (simp add: providers_ok_def calls_ok_def)
qed

theorem host_safe_in_every_state_witness: "data_inv (h_registry sample_registered)"
proof -
  have "host_reachable sample_host" unfolding sample_host_def by (rule host_reachable.start)
  then have "host_reachable sample_registered"
    unfolding sample_registered_def by (rule host_reachable.step) (rule host_step.register)
  from host_safe_in_every_state [OF this] show ?thesis by blast
qed

end
