(* ===== verification/Plugin_Transports.thy ===== *)
theory Plugin_Transports
  imports Plugin_Host
begin

text \<open>
  The three server-side transports of the plugin protocol: the WebSocket dispatcher
  (\<open>transport/ws/dispatcher.go\<close>), the JSON-RPC adapter (\<open>transport/rpc/adapter.go\<close>) and the HTTP
  handler (\<open>transport/http/handler.go\<close>). Each decodes a request, authorizes it with the
  transport's hook and calls the host. The JSON decoding of each request type and the encoding of
  an answer are parameters (the record \<open>Codec\<close>); an answer of type \<open>any\<close> is the datatype
  \<open>ResponseValue\<close>. The host interface is the host model, which has \<open>HealthInstance\<close>. When the
  host returns an error next to a value, the transports only use the error.
\<close>

section \<open>Requests, answers and codecs\<close>

datatype ResponseValue =
    RNegotiate NegotiateProtocolResponse | RRegister RegisterResponse | RHeartbeat HeartbeatResponse
  | RRenewLease RenewLeaseResponse | RUnregister UnregisterResponse | RHealth HealthStatus
  | RListCapabilities ListCapabilitiesResponse | RInvoke InvokeResponse | RPushEvent PushEventResponse
  | RSubscribeEvent SubscribeEventResponse | RInjectContext InjectContextResponse
  | RGetInjectedSchema GetInjectedSchemaResponse | RReportStatus ReportStatusResponse
  | RSyncMetadata SyncMetadataResponse | RDrain DrainResponse

record Codec =
  un_negotiate :: "json \<Rightarrow> NegotiateProtocolRequest option"
  un_register :: "json \<Rightarrow> RegisterRequest option"
  un_heartbeat :: "json \<Rightarrow> HeartbeatRequest option"
  un_renewLease :: "json \<Rightarrow> RenewLeaseRequest option"
  un_unregister :: "json \<Rightarrow> UnregisterRequest option"
  un_healthCheck :: "json \<Rightarrow> HealthCheckRequest option"
  un_listCapabilities :: "json \<Rightarrow> ListCapabilitiesRequest option"
  un_invoke :: "json \<Rightarrow> InvokeRequest option"
  un_pushEvent :: "json \<Rightarrow> PushEventRequest option"
  un_subscribeEvent :: "json \<Rightarrow> SubscribeEventRequest option"
  un_injectContext :: "json \<Rightarrow> InjectContextRequest option"
  un_getInjectedSchema :: "json \<Rightarrow> GetInjectedSchemaRequest option"
  un_reportStatus :: "json \<Rightarrow> ReportStatusRequest option"
  un_syncMetadata :: "json \<Rightarrow> SyncMetadataRequest option"
  un_drain :: "json \<Rightarrow> DrainRequest option"
  marshal :: "ResponseValue \<Rightarrow> json result"

type_synonym AuthFunc = "string \<Rightarrow> Auth option \<Rightarrow> goerror option"

text \<open>The host calls of the transports, with the answer as a \<open>ResponseValue\<close>.\<close>

definition lift_call :: "('v \<Rightarrow> ResponseValue) \<Rightarrow> 'r Host \<times> 'v result \<Rightarrow> 'r Host \<times> ResponseValue result" where
  "lift_call c hr = (fst hr, map_sum id c (snd hr))"

definition call_negotiate :: "clocks \<Rightarrow> 'r Host \<Rightarrow> NegotiateProtocolRequest \<Rightarrow> 'r Host \<times> ResponseValue result" where
  "call_negotiate cl h req =
     (case Host_NegotiateProtocol cl h req of
        (h', resp, None) \<Rightarrow> (h', Inr (RNegotiate resp))
      | (h', resp, Some e) \<Rightarrow> (h', Inl e))"

definition call_health :: "'r RegistryOps \<Rightarrow> clocks \<Rightarrow> 'r Host \<Rightarrow> HealthCheckRequest \<Rightarrow> 'r Host \<times> ResponseValue result" where
  "call_health ops cl h req =
     (if hc_InstanceID req \<noteq> []
      then lift_call RHealth (Host_HealthInstance ops cl h (hc_PluginID req) (hc_InstanceID req))
      else lift_call RHealth (Host_Health ops cl h (hc_PluginID req)))"

section \<open>WebSocket dispatcher\<close>

definition ws_authorize :: "AuthFunc option \<Rightarrow> string \<Rightarrow> Auth option \<Rightarrow> goerror option" where
  "ws_authorize auth operation a = (case auth of None \<Rightarrow> None | Some f \<Rightarrow> f operation a)"

definition ws_decode :: "(json \<Rightarrow> 'q option) \<Rightarrow> json \<Rightarrow> 'q result" where
  "ws_decode un payload =
     (let payload = (if length payload = 0 \<or> payload = ''null'' then ''{}'' else payload) in
      case un payload of None \<Rightarrow> Inl ErrInvalidPlugin | Some req \<Rightarrow> Inr req)"

definition ws_encode :: "Codec \<Rightarrow> 'r Host \<times> ResponseValue result \<Rightarrow> 'r Host \<times> json result" where
  "ws_encode cd hr =
     (case hr of
        (h, Inl e) \<Rightarrow> (h, Inl e)
      | (h, Inr value) \<Rightarrow> (case marshal cd value of Inl e \<Rightarrow> (h, Inl e) | Inr raw \<Rightarrow> (h, Inr raw)))"

text \<open>The body each branch of \<open>dispatch\<close> repeats: decode, authorize, call, encode.\<close>

definition ws_branch ::
    "Codec \<Rightarrow> AuthFunc option \<Rightarrow> 'r Host \<Rightarrow> Envelope \<Rightarrow> (json \<Rightarrow> 'q RequestMeta_scheme option) \<Rightarrow>
     ('q RequestMeta_scheme \<Rightarrow> 'r Host \<times> ResponseValue result) \<Rightarrow> 'r Host \<times> json result" where
  "ws_branch cd auth h envelope un call =
     (case ws_decode un (env_Payload envelope) of
        Inl e \<Rightarrow> (h, Inl e)
      | Inr req \<Rightarrow>
          (case ws_authorize auth (env_Operation envelope) (rm_Auth req) of
             Some e \<Rightarrow> (h, Inl e)
           | None \<Rightarrow> ws_encode cd (call req)))"

definition ws_dispatch ::
    "Codec \<Rightarrow> AuthFunc option \<Rightarrow> 'r RegistryOps \<Rightarrow> clocks \<Rightarrow> 'r Host \<Rightarrow> Envelope \<Rightarrow> 'r Host \<times> json result" where
  "ws_dispatch cd auth ops cl h envelope =
     (let operation = env_Operation envelope in
      if operation = OperationNegotiateProtocol then
        ws_branch cd auth h envelope (un_negotiate cd) (call_negotiate cl h)
      else if operation = OperationRegister then
        ws_branch cd auth h envelope (un_register cd) (\<lambda>req. lift_call RRegister (Host_Register ops cl h req))
      else if operation = OperationHeartbeat then
        ws_branch cd auth h envelope (un_heartbeat cd) (\<lambda>req. lift_call RHeartbeat (Host_Heartbeat ops cl h req))
      else if operation = OperationRenewLease then
        ws_branch cd auth h envelope (un_renewLease cd) (\<lambda>req. lift_call RRenewLease (Host_RenewLease ops cl h req))
      else if operation = OperationUnregister then
        ws_branch cd auth h envelope (un_unregister cd) (\<lambda>req. lift_call RUnregister (Host_Unregister ops cl h req))
      else if operation = OperationHealthCheck then
        ws_branch cd auth h envelope (un_healthCheck cd) (call_health ops cl h)
      else if operation = OperationListCapabilities then
        ws_branch cd auth h envelope (un_listCapabilities cd)
          (\<lambda>req. lift_call RListCapabilities (Host_ListCapabilities ops cl h req))
      else if operation = OperationInvoke then
        ws_branch cd auth h envelope (un_invoke cd) (\<lambda>req. lift_call RInvoke (Host_Invoke ops cl h req))
      else if operation = OperationPushEvent then
        ws_branch cd auth h envelope (un_pushEvent cd) (\<lambda>req. lift_call RPushEvent (Host_PushEvent ops cl h req))
      else if operation = OperationSubscribeEvent then
        ws_branch cd auth h envelope (un_subscribeEvent cd)
          (\<lambda>req. lift_call RSubscribeEvent (Host_SubscribeEvent ops cl h req))
      else if operation = OperationInjectContext then
        ws_branch cd auth h envelope (un_injectContext cd)
          (\<lambda>req. lift_call RInjectContext (Host_InjectContext ops cl h req))
      else if operation = OperationGetInjectedSchema then
        ws_branch cd auth h envelope (un_getInjectedSchema cd)
          (\<lambda>req. lift_call RGetInjectedSchema (Host_GetInjectedSchema ops cl h req))
      else if operation = OperationReportStatus then
        ws_branch cd auth h envelope (un_reportStatus cd)
          (\<lambda>req. lift_call RReportStatus (Host_ReportStatus ops cl h req))
      else if operation = OperationSyncMetadata then
        ws_branch cd auth h envelope (un_syncMetadata cd)
          (\<lambda>req. lift_call RSyncMetadata (Host_SyncMetadata ops cl h req))
      else if operation = OperationDrain then
        ws_branch cd auth h envelope (un_drain cd) (\<lambda>req. lift_call RDrain (Host_Drain ops cl h req))
      else (h, Inl ErrUnsupportedProtocol))"

text \<open>\<open>protocolError\<close> of the WebSocket and HTTP transports and \<open>ErrorCode\<close> of the RPC transport.\<close>

definition ws_protocolError :: "goerror \<Rightarrow> ProtoError" where
  "ws_protocolError err =
     (let code =
        (if errors_Is err ErrDisabled then ErrorCodeDisabled
         else if errors_Is err ErrPluginNotFound then ErrorCodePluginNotFound
         else if errors_Is err ErrCapabilityNotFound then ErrorCodeCapabilityNotFound
         else if errors_Is err ErrPluginOffline then ErrorCodePluginOffline
         else if errors_Is err ErrProviderUnavailable then ErrorCodeProviderUnavailable
         else if errors_Is err ErrTransportUnavailable then ErrorCodeTransportUnavailable
         else if errors_Is err ErrInvalidPlugin then ErrorCodeInvalidPlugin
         else if errors_Is err ErrInvalidCapability then ErrorCodeInvalidCapability
         else if errors_Is err ErrUnsupportedProtocol then ErrorCodeUnsupportedProtocol
         else if errors_Is err ErrUnauthorized then ErrorCodeUnauthorized
         else if errors_Is err ErrUnsupportedAuth then ErrorCodeUnsupportedAuth
         else ErrorCodeInternal)
      in \<lparr>pe_Code = code, pe_Message = Error_text err\<rparr>)"

definition ws_Dispatch ::
    "Codec \<Rightarrow> AuthFunc option \<Rightarrow> 'r RegistryOps \<Rightarrow> clocks \<Rightarrow> 'r Host \<Rightarrow> Envelope \<Rightarrow> 'r Host \<times> Envelope" where
  "ws_Dispatch cd auth ops cl h envelope =
     (let out = \<lparr>env_ID = env_ID envelope, env_Type = ''response'', env_Operation = env_Operation envelope,
                 env_Version = env_Version envelope, env_Payload = [], env_Error = None\<rparr>
      in case ws_dispatch cd auth ops cl h envelope of
           (h, Inl e) \<Rightarrow> (h, out\<lparr>env_Error := Some (ws_protocolError e)\<rparr>)
         | (h, Inr payload) \<Rightarrow> (h, out\<lparr>env_Payload := payload\<rparr>))"

section \<open>JSON-RPC adapter\<close>

abbreviation MethodNegotiateProtocol :: string where "MethodNegotiateProtocol \<equiv> ''plugin.negotiate''"
abbreviation MethodRegister :: string where "MethodRegister \<equiv> ''plugin.register''"
abbreviation MethodHeartbeat :: string where "MethodHeartbeat \<equiv> ''plugin.heartbeat''"
abbreviation MethodRenewLease :: string where "MethodRenewLease \<equiv> ''plugin.renewLease''"
abbreviation MethodUnregister :: string where "MethodUnregister \<equiv> ''plugin.unregister''"
abbreviation MethodHealthCheck :: string where "MethodHealthCheck \<equiv> ''plugin.healthCheck''"
abbreviation MethodListCapabilities :: string where "MethodListCapabilities \<equiv> ''plugin.listCapabilities''"
abbreviation MethodInvoke :: string where "MethodInvoke \<equiv> ''plugin.invoke''"
abbreviation MethodPushEvent :: string where "MethodPushEvent \<equiv> ''plugin.pushEvent''"
abbreviation MethodSubscribeEvent :: string where "MethodSubscribeEvent \<equiv> ''plugin.subscribeEvent''"
abbreviation MethodInjectContext :: string where "MethodInjectContext \<equiv> ''plugin.injectContext''"
abbreviation MethodGetInjectedSchema :: string where "MethodGetInjectedSchema \<equiv> ''plugin.getInjectedSchema''"
abbreviation MethodReportStatus :: string where "MethodReportStatus \<equiv> ''plugin.reportStatus''"
abbreviation MethodSyncMetadata :: string where "MethodSyncMetadata \<equiv> ''plugin.syncMetadata''"
abbreviation MethodDrain :: string where "MethodDrain \<equiv> ''plugin.drain''"

definition rpc_authorize :: "AuthFunc option \<Rightarrow> string \<Rightarrow> Auth option \<Rightarrow> goerror option" where
  "rpc_authorize auth operation a = (case auth of None \<Rightarrow> None | Some f \<Rightarrow> f operation a)"

definition rpc_decode :: "(json \<Rightarrow> 'q option) \<Rightarrow> json \<Rightarrow> 'q result" where
  "rpc_decode un params =
     (let params = (if length params = 0 \<or> params = ''null'' then ''{}'' else params) in
      case un params of None \<Rightarrow> Inl ErrInvalidPlugin | Some req \<Rightarrow> Inr req)"

definition rpc_handler ::
    "AuthFunc option \<Rightarrow> string \<Rightarrow> 'r Host \<Rightarrow> json \<Rightarrow> (json \<Rightarrow> 'q RequestMeta_scheme option) \<Rightarrow>
     ('q RequestMeta_scheme \<Rightarrow> 'r Host \<times> ResponseValue result) \<Rightarrow> 'r Host \<times> ResponseValue result" where
  "rpc_handler auth operation h params un call =
     (case rpc_decode un params of
        Inl e \<Rightarrow> (h, Inl e)
      | Inr req \<Rightarrow>
          (case rpc_authorize auth operation (rm_Auth req) of Some e \<Rightarrow> (h, Inl e) | None \<Rightarrow> call req))"

type_synonym 'r HandlerFunc = "'r Host \<Rightarrow> json \<Rightarrow> 'r Host \<times> ResponseValue result"

definition rpc_negotiate :: "Codec \<Rightarrow> AuthFunc option \<Rightarrow> 'r RegistryOps \<Rightarrow> clocks \<Rightarrow> 'r HandlerFunc" where
  "rpc_negotiate cd auth ops cl h params =
     rpc_handler auth OperationNegotiateProtocol h params (un_negotiate cd)
       (call_negotiate cl h)"

definition rpc_register :: "Codec \<Rightarrow> AuthFunc option \<Rightarrow> 'r RegistryOps \<Rightarrow> clocks \<Rightarrow> 'r HandlerFunc" where
  "rpc_register cd auth ops cl h params =
     rpc_handler auth OperationRegister h params (un_register cd)
       (\<lambda>req. lift_call RRegister (Host_Register ops cl h req))"

definition rpc_heartbeat :: "Codec \<Rightarrow> AuthFunc option \<Rightarrow> 'r RegistryOps \<Rightarrow> clocks \<Rightarrow> 'r HandlerFunc" where
  "rpc_heartbeat cd auth ops cl h params =
     rpc_handler auth OperationHeartbeat h params (un_heartbeat cd)
       (\<lambda>req. lift_call RHeartbeat (Host_Heartbeat ops cl h req))"

definition rpc_renewLease :: "Codec \<Rightarrow> AuthFunc option \<Rightarrow> 'r RegistryOps \<Rightarrow> clocks \<Rightarrow> 'r HandlerFunc" where
  "rpc_renewLease cd auth ops cl h params =
     rpc_handler auth OperationRenewLease h params (un_renewLease cd)
       (\<lambda>req. lift_call RRenewLease (Host_RenewLease ops cl h req))"

definition rpc_unregister :: "Codec \<Rightarrow> AuthFunc option \<Rightarrow> 'r RegistryOps \<Rightarrow> clocks \<Rightarrow> 'r HandlerFunc" where
  "rpc_unregister cd auth ops cl h params =
     rpc_handler auth OperationUnregister h params (un_unregister cd)
       (\<lambda>req. lift_call RUnregister (Host_Unregister ops cl h req))"

definition rpc_healthCheck :: "Codec \<Rightarrow> AuthFunc option \<Rightarrow> 'r RegistryOps \<Rightarrow> clocks \<Rightarrow> 'r HandlerFunc" where
  "rpc_healthCheck cd auth ops cl h params =
     rpc_handler auth OperationHealthCheck h params (un_healthCheck cd)
       (call_health ops cl h)"

definition rpc_listCapabilities :: "Codec \<Rightarrow> AuthFunc option \<Rightarrow> 'r RegistryOps \<Rightarrow> clocks \<Rightarrow> 'r HandlerFunc" where
  "rpc_listCapabilities cd auth ops cl h params =
     rpc_handler auth OperationListCapabilities h params (un_listCapabilities cd)
       (\<lambda>req. lift_call RListCapabilities (Host_ListCapabilities ops cl h req))"

definition rpc_invoke :: "Codec \<Rightarrow> AuthFunc option \<Rightarrow> 'r RegistryOps \<Rightarrow> clocks \<Rightarrow> 'r HandlerFunc" where
  "rpc_invoke cd auth ops cl h params =
     rpc_handler auth OperationInvoke h params (un_invoke cd)
       (\<lambda>req. lift_call RInvoke (Host_Invoke ops cl h req))"

definition rpc_pushEvent :: "Codec \<Rightarrow> AuthFunc option \<Rightarrow> 'r RegistryOps \<Rightarrow> clocks \<Rightarrow> 'r HandlerFunc" where
  "rpc_pushEvent cd auth ops cl h params =
     rpc_handler auth OperationPushEvent h params (un_pushEvent cd)
       (\<lambda>req. lift_call RPushEvent (Host_PushEvent ops cl h req))"

definition rpc_subscribeEvent :: "Codec \<Rightarrow> AuthFunc option \<Rightarrow> 'r RegistryOps \<Rightarrow> clocks \<Rightarrow> 'r HandlerFunc" where
  "rpc_subscribeEvent cd auth ops cl h params =
     rpc_handler auth OperationSubscribeEvent h params (un_subscribeEvent cd)
       (\<lambda>req. lift_call RSubscribeEvent (Host_SubscribeEvent ops cl h req))"

definition rpc_injectContext :: "Codec \<Rightarrow> AuthFunc option \<Rightarrow> 'r RegistryOps \<Rightarrow> clocks \<Rightarrow> 'r HandlerFunc" where
  "rpc_injectContext cd auth ops cl h params =
     rpc_handler auth OperationInjectContext h params (un_injectContext cd)
       (\<lambda>req. lift_call RInjectContext (Host_InjectContext ops cl h req))"

definition rpc_getInjectedSchema :: "Codec \<Rightarrow> AuthFunc option \<Rightarrow> 'r RegistryOps \<Rightarrow> clocks \<Rightarrow> 'r HandlerFunc" where
  "rpc_getInjectedSchema cd auth ops cl h params =
     rpc_handler auth OperationGetInjectedSchema h params (un_getInjectedSchema cd)
       (\<lambda>req. lift_call RGetInjectedSchema (Host_GetInjectedSchema ops cl h req))"

definition rpc_reportStatus :: "Codec \<Rightarrow> AuthFunc option \<Rightarrow> 'r RegistryOps \<Rightarrow> clocks \<Rightarrow> 'r HandlerFunc" where
  "rpc_reportStatus cd auth ops cl h params =
     rpc_handler auth OperationReportStatus h params (un_reportStatus cd)
       (\<lambda>req. lift_call RReportStatus (Host_ReportStatus ops cl h req))"

definition rpc_syncMetadata :: "Codec \<Rightarrow> AuthFunc option \<Rightarrow> 'r RegistryOps \<Rightarrow> clocks \<Rightarrow> 'r HandlerFunc" where
  "rpc_syncMetadata cd auth ops cl h params =
     rpc_handler auth OperationSyncMetadata h params (un_syncMetadata cd)
       (\<lambda>req. lift_call RSyncMetadata (Host_SyncMetadata ops cl h req))"

definition rpc_drain :: "Codec \<Rightarrow> AuthFunc option \<Rightarrow> 'r RegistryOps \<Rightarrow> clocks \<Rightarrow> 'r HandlerFunc" where
  "rpc_drain cd auth ops cl h params =
     rpc_handler auth OperationDrain h params (un_drain cd)
       (\<lambda>req. lift_call RDrain (Host_Drain ops cl h req))"

text \<open>\<open>Register\<close> hands the method table to the JSON-RPC server, which calls the handler of a method by name.\<close>

definition rpc_routes :: "Codec \<Rightarrow> AuthFunc option \<Rightarrow> 'r RegistryOps \<Rightarrow> clocks \<Rightarrow> (string \<times> 'r HandlerFunc) list" where
  "rpc_routes cd auth ops cl =
     [(MethodNegotiateProtocol, rpc_negotiate cd auth ops cl),
      (MethodRegister, rpc_register cd auth ops cl),
      (MethodHeartbeat, rpc_heartbeat cd auth ops cl),
      (MethodRenewLease, rpc_renewLease cd auth ops cl),
      (MethodUnregister, rpc_unregister cd auth ops cl),
      (MethodHealthCheck, rpc_healthCheck cd auth ops cl),
      (MethodListCapabilities, rpc_listCapabilities cd auth ops cl),
      (MethodInvoke, rpc_invoke cd auth ops cl),
      (MethodPushEvent, rpc_pushEvent cd auth ops cl),
      (MethodSubscribeEvent, rpc_subscribeEvent cd auth ops cl),
      (MethodInjectContext, rpc_injectContext cd auth ops cl),
      (MethodGetInjectedSchema, rpc_getInjectedSchema cd auth ops cl),
      (MethodReportStatus, rpc_reportStatus cd auth ops cl),
      (MethodSyncMetadata, rpc_syncMetadata cd auth ops cl),
      (MethodDrain, rpc_drain cd auth ops cl)]"

fun rpc_Register :: "('g \<Rightarrow> string \<Rightarrow> 'r HandlerFunc \<Rightarrow> 'g \<times> goerror option) \<Rightarrow> 'g \<Rightarrow> (string \<times> 'r HandlerFunc) list \<Rightarrow>
    'g \<times> goerror option" where
  "rpc_Register reg g [] = (g, None)"
| "rpc_Register reg g ((method, handler) # routes) =
     (case reg g method handler of (g, Some e) \<Rightarrow> (g, Some e) | (g, None) \<Rightarrow> rpc_Register reg g routes)"

definition rpc_ErrorCode :: "goerror \<Rightarrow> string" where
  "rpc_ErrorCode err =
     (if errors_Is err ErrDisabled then ErrorCodeDisabled
      else if errors_Is err ErrPluginNotFound then ErrorCodePluginNotFound
      else if errors_Is err ErrCapabilityNotFound then ErrorCodeCapabilityNotFound
      else if errors_Is err ErrPluginOffline then ErrorCodePluginOffline
      else if errors_Is err ErrProviderUnavailable then ErrorCodeProviderUnavailable
      else if errors_Is err ErrTransportUnavailable then ErrorCodeTransportUnavailable
      else if errors_Is err ErrInvalidPlugin then ErrorCodeInvalidPlugin
      else if errors_Is err ErrInvalidCapability then ErrorCodeInvalidCapability
      else if errors_Is err ErrUnsupportedProtocol then ErrorCodeUnsupportedProtocol
      else if errors_Is err ErrUnauthorized then ErrorCodeUnauthorized
      else if errors_Is err ErrUnsupportedAuth then ErrorCodeUnsupportedAuth
      else ErrorCodeInternal)"

section \<open>HTTP handler\<close>

text \<open>
  The framework context is what \<open>BindJSON\<close> yields (\<open>None\<close> for an error) and the status and body
  handed to \<open>JSON\<close>.
\<close>

record HttpResponse =
  hr_Data :: "ResponseValue option"
  hr_Error :: "ProtoError option"

abbreviation StatusOK :: int where "StatusOK \<equiv> 200"
abbreviation StatusBadRequest :: int where "StatusBadRequest \<equiv> 400"
abbreviation StatusUnauthorized :: int where "StatusUnauthorized \<equiv> 401"
abbreviation StatusNotFound :: int where "StatusNotFound \<equiv> 404"
abbreviation StatusConflict :: int where "StatusConflict \<equiv> 409"
abbreviation StatusBadGateway :: int where "StatusBadGateway \<equiv> 502"

definition statusCode :: "goerror \<Rightarrow> int" where
  "statusCode err =
     (if errors_Is err ErrDisabled then StatusNotFound
      else if errors_Is err ErrPluginNotFound \<or> errors_Is err ErrCapabilityNotFound then StatusNotFound
      else if errors_Is err ErrPluginOffline \<or> errors_Is err ErrProviderUnavailable \<or>
              errors_Is err ErrTransportUnavailable then StatusConflict
      else if errors_Is err ErrInvalidPlugin \<or> errors_Is err ErrInvalidCapability \<or>
              errors_Is err ErrUnsupportedProtocol then StatusBadRequest
      else if errors_Is err ErrUnauthorized then StatusUnauthorized
      else if errors_Is err ErrUnsupportedAuth then StatusBadRequest
      else StatusBadGateway)"

definition http_protocolError :: "goerror \<Rightarrow> ProtoError" where
  "http_protocolError err =
     (let code =
        (if errors_Is err ErrDisabled then ErrorCodeDisabled
         else if errors_Is err ErrPluginNotFound then ErrorCodePluginNotFound
         else if errors_Is err ErrCapabilityNotFound then ErrorCodeCapabilityNotFound
         else if errors_Is err ErrPluginOffline then ErrorCodePluginOffline
         else if errors_Is err ErrProviderUnavailable then ErrorCodeProviderUnavailable
         else if errors_Is err ErrTransportUnavailable then ErrorCodeTransportUnavailable
         else if errors_Is err ErrInvalidPlugin then ErrorCodeInvalidPlugin
         else if errors_Is err ErrInvalidCapability then ErrorCodeInvalidCapability
         else if errors_Is err ErrUnsupportedProtocol then ErrorCodeUnsupportedProtocol
         else if errors_Is err ErrUnauthorized then ErrorCodeUnauthorized
         else if errors_Is err ErrUnsupportedAuth then ErrorCodeUnsupportedAuth
         else ErrorCodeInternal)
      in \<lparr>pe_Code = code, pe_Message = Error_text err\<rparr>)"

definition http_bind :: "'q option \<Rightarrow> (int \<times> HttpResponse) + 'q" where
  "http_bind body =
     (case body of
        None \<Rightarrow> Inl (StatusBadRequest, \<lparr>hr_Data = None, hr_Error = Some \<lparr>pe_Code = ErrorCodeInvalidPlugin,
                   pe_Message = ''invalid json payload''\<rparr>\<rparr>)
      | Some req \<Rightarrow> Inr req)"

definition http_authorize :: "AuthFunc option \<Rightarrow> string \<Rightarrow> Auth option \<Rightarrow> (int \<times> HttpResponse) option" where
  "http_authorize auth operation a =
     (case auth of
        None \<Rightarrow> None
      | Some f \<Rightarrow>
          (case f operation a of
             Some e \<Rightarrow> Some (statusCode e, \<lparr>hr_Data = None, hr_Error = Some (http_protocolError e)\<rparr>)
           | None \<Rightarrow> None))"

definition http_write :: "'r Host \<times> ResponseValue result \<Rightarrow> 'r Host \<times> int \<times> HttpResponse" where
  "http_write hr =
     (case hr of
        (h, Inl e) \<Rightarrow> (h, statusCode e, \<lparr>hr_Data = None, hr_Error = Some (http_protocolError e)\<rparr>)
      | (h, Inr data) \<Rightarrow> (h, StatusOK, \<lparr>hr_Data = Some data, hr_Error = None\<rparr>))"

definition http_handler ::
    "AuthFunc option \<Rightarrow> string \<Rightarrow> 'r Host \<Rightarrow> 'q RequestMeta_scheme option \<Rightarrow>
     ('q RequestMeta_scheme \<Rightarrow> 'r Host \<times> ResponseValue result) \<Rightarrow> 'r Host \<times> int \<times> HttpResponse" where
  "http_handler auth operation h body call =
     (case http_bind body of
        Inl answer \<Rightarrow> (h, answer)
      | Inr req \<Rightarrow>
          (case http_authorize auth operation (rm_Auth req) of
             Some answer \<Rightarrow> (h, answer)
           | None \<Rightarrow> http_write (call req)))"

definition http_Negotiate ::
    "AuthFunc option \<Rightarrow> 'r RegistryOps \<Rightarrow> clocks \<Rightarrow> 'r Host \<Rightarrow> NegotiateProtocolRequest option \<Rightarrow> 'r Host \<times> int \<times> HttpResponse" where
  "http_Negotiate auth ops cl h body =
     http_handler auth OperationNegotiateProtocol h body (call_negotiate cl h)"

definition http_Register ::
    "AuthFunc option \<Rightarrow> 'r RegistryOps \<Rightarrow> clocks \<Rightarrow> 'r Host \<Rightarrow> RegisterRequest option \<Rightarrow> 'r Host \<times> int \<times> HttpResponse" where
  "http_Register auth ops cl h body =
     http_handler auth OperationRegister h body (\<lambda>req. lift_call RRegister (Host_Register ops cl h req))"

definition http_Heartbeat ::
    "AuthFunc option \<Rightarrow> 'r RegistryOps \<Rightarrow> clocks \<Rightarrow> 'r Host \<Rightarrow> HeartbeatRequest option \<Rightarrow> 'r Host \<times> int \<times> HttpResponse" where
  "http_Heartbeat auth ops cl h body =
     http_handler auth OperationHeartbeat h body (\<lambda>req. lift_call RHeartbeat (Host_Heartbeat ops cl h req))"

definition http_RenewLease ::
    "AuthFunc option \<Rightarrow> 'r RegistryOps \<Rightarrow> clocks \<Rightarrow> 'r Host \<Rightarrow> RenewLeaseRequest option \<Rightarrow> 'r Host \<times> int \<times> HttpResponse" where
  "http_RenewLease auth ops cl h body =
     http_handler auth OperationRenewLease h body (\<lambda>req. lift_call RRenewLease (Host_RenewLease ops cl h req))"

definition http_Unregister ::
    "AuthFunc option \<Rightarrow> 'r RegistryOps \<Rightarrow> clocks \<Rightarrow> 'r Host \<Rightarrow> UnregisterRequest option \<Rightarrow> 'r Host \<times> int \<times> HttpResponse" where
  "http_Unregister auth ops cl h body =
     http_handler auth OperationUnregister h body (\<lambda>req. lift_call RUnregister (Host_Unregister ops cl h req))"

definition http_HealthCheck ::
    "AuthFunc option \<Rightarrow> 'r RegistryOps \<Rightarrow> clocks \<Rightarrow> 'r Host \<Rightarrow> HealthCheckRequest option \<Rightarrow> 'r Host \<times> int \<times> HttpResponse" where
  "http_HealthCheck auth ops cl h body =
     http_handler auth OperationHealthCheck h body (call_health ops cl h)"

definition http_ListCapabilities ::
    "AuthFunc option \<Rightarrow> 'r RegistryOps \<Rightarrow> clocks \<Rightarrow> 'r Host \<Rightarrow> ListCapabilitiesRequest option \<Rightarrow> 'r Host \<times> int \<times> HttpResponse" where
  "http_ListCapabilities auth ops cl h body =
     http_handler auth OperationListCapabilities h body (\<lambda>req. lift_call RListCapabilities (Host_ListCapabilities ops cl h req))"

definition http_Invoke ::
    "AuthFunc option \<Rightarrow> 'r RegistryOps \<Rightarrow> clocks \<Rightarrow> 'r Host \<Rightarrow> InvokeRequest option \<Rightarrow> 'r Host \<times> int \<times> HttpResponse" where
  "http_Invoke auth ops cl h body =
     http_handler auth OperationInvoke h body (\<lambda>req. lift_call RInvoke (Host_Invoke ops cl h req))"

definition http_PushEvent ::
    "AuthFunc option \<Rightarrow> 'r RegistryOps \<Rightarrow> clocks \<Rightarrow> 'r Host \<Rightarrow> PushEventRequest option \<Rightarrow> 'r Host \<times> int \<times> HttpResponse" where
  "http_PushEvent auth ops cl h body =
     http_handler auth OperationPushEvent h body (\<lambda>req. lift_call RPushEvent (Host_PushEvent ops cl h req))"

definition http_SubscribeEvent ::
    "AuthFunc option \<Rightarrow> 'r RegistryOps \<Rightarrow> clocks \<Rightarrow> 'r Host \<Rightarrow> SubscribeEventRequest option \<Rightarrow> 'r Host \<times> int \<times> HttpResponse" where
  "http_SubscribeEvent auth ops cl h body =
     http_handler auth OperationSubscribeEvent h body (\<lambda>req. lift_call RSubscribeEvent (Host_SubscribeEvent ops cl h req))"

definition http_InjectContext ::
    "AuthFunc option \<Rightarrow> 'r RegistryOps \<Rightarrow> clocks \<Rightarrow> 'r Host \<Rightarrow> InjectContextRequest option \<Rightarrow> 'r Host \<times> int \<times> HttpResponse" where
  "http_InjectContext auth ops cl h body =
     http_handler auth OperationInjectContext h body (\<lambda>req. lift_call RInjectContext (Host_InjectContext ops cl h req))"

definition http_GetInjectedSchema ::
    "AuthFunc option \<Rightarrow> 'r RegistryOps \<Rightarrow> clocks \<Rightarrow> 'r Host \<Rightarrow> GetInjectedSchemaRequest option \<Rightarrow> 'r Host \<times> int \<times> HttpResponse" where
  "http_GetInjectedSchema auth ops cl h body =
     http_handler auth OperationGetInjectedSchema h body (\<lambda>req. lift_call RGetInjectedSchema (Host_GetInjectedSchema ops cl h req))"

definition http_ReportStatus ::
    "AuthFunc option \<Rightarrow> 'r RegistryOps \<Rightarrow> clocks \<Rightarrow> 'r Host \<Rightarrow> ReportStatusRequest option \<Rightarrow> 'r Host \<times> int \<times> HttpResponse" where
  "http_ReportStatus auth ops cl h body =
     http_handler auth OperationReportStatus h body (\<lambda>req. lift_call RReportStatus (Host_ReportStatus ops cl h req))"

definition http_SyncMetadata ::
    "AuthFunc option \<Rightarrow> 'r RegistryOps \<Rightarrow> clocks \<Rightarrow> 'r Host \<Rightarrow> SyncMetadataRequest option \<Rightarrow> 'r Host \<times> int \<times> HttpResponse" where
  "http_SyncMetadata auth ops cl h body =
     http_handler auth OperationSyncMetadata h body (\<lambda>req. lift_call RSyncMetadata (Host_SyncMetadata ops cl h req))"

definition http_Drain ::
    "AuthFunc option \<Rightarrow> 'r RegistryOps \<Rightarrow> clocks \<Rightarrow> 'r Host \<Rightarrow> DrainRequest option \<Rightarrow> 'r Host \<times> int \<times> HttpResponse" where
  "http_Drain auth ops cl h body =
     http_handler auth OperationDrain h body (\<lambda>req. lift_call RDrain (Host_Drain ops cl h req))"

end
