(* ===== verification/Transport_Properties.thy ===== *)
theory Transport_Properties
  imports Plugin_Transports Host_Properties
begin

text \<open>
  The properties of the transports: the WebSocket, JSON-RPC and HTTP entries of an operation have
  the same effect and the same answer, a denied request does not reach the host, and the error
  codes of the three transports agree.
\<close>

text \<open>The operation names of the protocol with their JSON-RPC methods.\<close>

definition protocol_methods :: "(string \<times> string) list" where
  "protocol_methods =
     [(OperationNegotiateProtocol, MethodNegotiateProtocol), (OperationRegister, MethodRegister),
      (OperationHeartbeat, MethodHeartbeat), (OperationRenewLease, MethodRenewLease),
      (OperationUnregister, MethodUnregister), (OperationHealthCheck, MethodHealthCheck),
      (OperationListCapabilities, MethodListCapabilities), (OperationInvoke, MethodInvoke),
      (OperationPushEvent, MethodPushEvent), (OperationSubscribeEvent, MethodSubscribeEvent),
      (OperationInjectContext, MethodInjectContext), (OperationGetInjectedSchema, MethodGetInjectedSchema),
      (OperationReportStatus, MethodReportStatus), (OperationSyncMetadata, MethodSyncMetadata),
      (OperationDrain, MethodDrain)]"

lemma ws_branch_rpc:
  "ws_branch cd auth h env un call = ws_encode cd (rpc_handler auth (env_Operation env) h (env_Payload env) un call)"
  by (simp add: ws_branch_def rpc_handler_def ws_decode_def rpc_decode_def ws_authorize_def rpc_authorize_def
      ws_encode_def Let_def split: sum.splits option.splits)

lemma ws_encode_Inl [simp]: "ws_encode cd (h, Inl e) = (h, Inl e)"
  by (simp add: ws_encode_def)

text \<open>Once the body is decoded, the HTTP and JSON-RPC handlers do the same.\<close>

lemma http_rpc_handler:
  "rpc_decode un p = Inr q \<Longrightarrow>
   http_handler auth operation h (Some q) call = http_write (rpc_handler auth operation h p un call)"
  by (simp add: http_handler_def http_bind_def http_authorize_def rpc_handler_def rpc_authorize_def http_write_def
      split: option.splits)

lemmas rpc_defs = rpc_negotiate_def rpc_register_def rpc_heartbeat_def rpc_renewLease_def rpc_unregister_def
  rpc_healthCheck_def rpc_listCapabilities_def rpc_invoke_def rpc_pushEvent_def rpc_subscribeEvent_def
  rpc_injectContext_def rpc_getInjectedSchema_def rpc_reportStatus_def rpc_syncMetadata_def rpc_drain_def

lemmas http_defs = http_Negotiate_def http_Register_def http_Heartbeat_def http_RenewLease_def http_Unregister_def
  http_HealthCheck_def http_ListCapabilities_def http_Invoke_def http_PushEvent_def http_SubscribeEvent_def
  http_InjectContext_def http_GetInjectedSchema_def http_ReportStatus_def http_SyncMetadata_def http_Drain_def

text \<open>C30. For every operation of the protocol, the JSON-RPC table has a handler for its method, and the
  WebSocket dispatcher has the effect of that handler on the host and answers the encoding of its
  answer, whatever the payload; an operation that is not of the protocol is refused as
  unsupported without any effect.\<close>

theorem ws_and_rpc_agree:
  "(\<forall>(operation, rpc_method) \<in> set protocol_methods. \<exists>handler.
      map_of (rpc_routes cd auth ops cl) rpc_method = Some handler \<and>
      (\<forall>h env. env_Operation env = operation \<longrightarrow>
         ws_dispatch cd auth ops cl h env = ws_encode cd (handler h (env_Payload env)))) \<and>
   (\<forall>h env. env_Operation env \<notin> fst ` set protocol_methods \<longrightarrow>
      ws_dispatch cd auth ops cl h env = (h, Inl ErrUnsupportedProtocol))"
  by (simp add: protocol_methods_def rpc_routes_def ws_dispatch_def ws_branch_rpc rpc_defs)

text \<open>A codec that knows one registration request and one drain request.\<close>

definition sample_drain :: DrainRequest where
  "sample_drain = RequestMeta.extend zero_meta (DrainRequest.fields ''billing'' ''i1'' ''upgrade'')"

definition sample_codec :: Codec where
  "sample_codec = \<lparr>un_negotiate = (\<lambda>p. None),
     un_register = (\<lambda>p. if p = ''reg'' then Some sample_register else None),
     un_heartbeat = (\<lambda>p. None), un_renewLease = (\<lambda>p. None), un_unregister = (\<lambda>p. None),
     un_healthCheck = (\<lambda>p. None), un_listCapabilities = (\<lambda>p. None), un_invoke = (\<lambda>p. None),
     un_pushEvent = (\<lambda>p. None), un_subscribeEvent = (\<lambda>p. None), un_injectContext = (\<lambda>p. None),
     un_getInjectedSchema = (\<lambda>p. None), un_reportStatus = (\<lambda>p. None), un_syncMetadata = (\<lambda>p. None),
     un_drain = (\<lambda>p. if p = ''drain'' then Some sample_drain else None),
     marshal = (\<lambda>v. Inr ''done'')\<rparr>"

definition sample_envelope :: "string \<Rightarrow> json \<Rightarrow> Envelope" where
  "sample_envelope operation payload = \<lparr>env_ID = ''7'', env_Type = ''request'', env_Operation = operation,
     env_Version = ProtocolVersionV1, env_Payload = payload, env_Error = None\<rparr>"

theorem ws_and_rpc_agree_witness:
  "ws_dispatch sample_codec None Memory_ops sample_clocks sample_host (sample_envelope OperationRegister ''reg'') =
     ws_encode sample_codec (rpc_register sample_codec None Memory_ops sample_clocks sample_host ''reg'') \<and>
   ws_dispatch sample_codec None Memory_ops sample_clocks sample_host (sample_envelope ''reboot'' []) =
     (sample_host, Inl ErrUnsupportedProtocol)"
  using ws_and_rpc_agree [of sample_codec None Memory_ops sample_clocks]
  by (simp add: protocol_methods_def sample_envelope_def rpc_routes_def)

text \<open>An HTTP request whose body decodes to the request that JSON-RPC decodes has the same effect on
  the host, and answers the status and body that stand for the JSON-RPC handler's result.\<close>

theorem http_and_rpc_agree:
  "(\<forall>q. rpc_decode (un_negotiate cd) p = Inr q \<longrightarrow>
      http_Negotiate auth ops cl h (Some q) = http_write (rpc_negotiate cd auth ops cl h p)) \<and>
   (\<forall>q. rpc_decode (un_register cd) p = Inr q \<longrightarrow>
      http_Register auth ops cl h (Some q) = http_write (rpc_register cd auth ops cl h p)) \<and>
   (\<forall>q. rpc_decode (un_heartbeat cd) p = Inr q \<longrightarrow>
      http_Heartbeat auth ops cl h (Some q) = http_write (rpc_heartbeat cd auth ops cl h p)) \<and>
   (\<forall>q. rpc_decode (un_renewLease cd) p = Inr q \<longrightarrow>
      http_RenewLease auth ops cl h (Some q) = http_write (rpc_renewLease cd auth ops cl h p)) \<and>
   (\<forall>q. rpc_decode (un_unregister cd) p = Inr q \<longrightarrow>
      http_Unregister auth ops cl h (Some q) = http_write (rpc_unregister cd auth ops cl h p)) \<and>
   (\<forall>q. rpc_decode (un_healthCheck cd) p = Inr q \<longrightarrow>
      http_HealthCheck auth ops cl h (Some q) = http_write (rpc_healthCheck cd auth ops cl h p)) \<and>
   (\<forall>q. rpc_decode (un_listCapabilities cd) p = Inr q \<longrightarrow>
      http_ListCapabilities auth ops cl h (Some q) = http_write (rpc_listCapabilities cd auth ops cl h p)) \<and>
   (\<forall>q. rpc_decode (un_invoke cd) p = Inr q \<longrightarrow>
      http_Invoke auth ops cl h (Some q) = http_write (rpc_invoke cd auth ops cl h p)) \<and>
   (\<forall>q. rpc_decode (un_pushEvent cd) p = Inr q \<longrightarrow>
      http_PushEvent auth ops cl h (Some q) = http_write (rpc_pushEvent cd auth ops cl h p)) \<and>
   (\<forall>q. rpc_decode (un_subscribeEvent cd) p = Inr q \<longrightarrow>
      http_SubscribeEvent auth ops cl h (Some q) = http_write (rpc_subscribeEvent cd auth ops cl h p)) \<and>
   (\<forall>q. rpc_decode (un_injectContext cd) p = Inr q \<longrightarrow>
      http_InjectContext auth ops cl h (Some q) = http_write (rpc_injectContext cd auth ops cl h p)) \<and>
   (\<forall>q. rpc_decode (un_getInjectedSchema cd) p = Inr q \<longrightarrow>
      http_GetInjectedSchema auth ops cl h (Some q) = http_write (rpc_getInjectedSchema cd auth ops cl h p)) \<and>
   (\<forall>q. rpc_decode (un_reportStatus cd) p = Inr q \<longrightarrow>
      http_ReportStatus auth ops cl h (Some q) = http_write (rpc_reportStatus cd auth ops cl h p)) \<and>
   (\<forall>q. rpc_decode (un_syncMetadata cd) p = Inr q \<longrightarrow>
      http_SyncMetadata auth ops cl h (Some q) = http_write (rpc_syncMetadata cd auth ops cl h p)) \<and>
   (\<forall>q. rpc_decode (un_drain cd) p = Inr q \<longrightarrow>
      http_Drain auth ops cl h (Some q) = http_write (rpc_drain cd auth ops cl h p))"
  by (simp add: http_defs rpc_defs http_rpc_handler)

theorem http_and_rpc_agree_witness:
  "http_Drain None Memory_ops sample_clocks sample_registered (Some sample_drain) =
     http_write (rpc_drain sample_codec None Memory_ops sample_clocks sample_registered ''drain'')"
proof -
  have "rpc_decode (un_drain sample_codec) ''drain'' = Inr sample_drain"
    by (simp add: rpc_decode_def sample_codec_def)
  then show ?thesis
    using http_and_rpc_agree [of sample_codec "''drain''" None Memory_ops sample_clocks sample_registered] by blast
qed



section \<open>Error codes\<close>

lemma errors_Is_Wrapped:
  "t \<in> {ErrDisabled, ErrPluginNotFound, ErrPluginOffline, ErrCapabilityNotFound, ErrProviderUnavailable,
     ErrTransportUnavailable, ErrInvalidPlugin, ErrInvalidCapability, ErrUnsupportedProtocol, ErrUnauthorized,
     ErrUnsupportedAuth} \<Longrightarrow> errors_Is (Wrapped e m) t = errors_Is e t"
  by auto

text \<open>The three transports give an error one code, which wrapping the error with more text does not
  change; the HTTP status is 502 exactly for the internal code and 401 exactly for the
  unauthorized code, and the code is internal exactly when the error wraps none of the plugin
  package's sentinels.\<close>

theorem error_codes_agree:
  "http_protocolError e = ws_protocolError e \<and> pe_Code (ws_protocolError e) = rpc_ErrorCode e \<and>
   pe_Message (ws_protocolError e) = Error_text e \<and>
   rpc_ErrorCode (Wrapped e m) = rpc_ErrorCode e \<and> statusCode (Wrapped e m) = statusCode e \<and>
   (statusCode e = StatusBadGateway \<longleftrightarrow> rpc_ErrorCode e = ErrorCodeInternal) \<and>
   (statusCode e = StatusUnauthorized \<longleftrightarrow> rpc_ErrorCode e = ErrorCodeUnauthorized) \<and>
   (rpc_ErrorCode e = ErrorCodeInternal \<longleftrightarrow>
      (\<exists>t \<in> {ErrDisabled, ErrPluginNotFound, ErrPluginOffline, ErrCapabilityNotFound, ErrProviderUnavailable,
         ErrTransportUnavailable, ErrInvalidPlugin, ErrInvalidCapability, ErrUnsupportedProtocol, ErrUnauthorized,
         ErrUnsupportedAuth}. errors_Is e t) = False)"
  by (simp add: http_protocolError_def ws_protocolError_def rpc_ErrorCode_def statusCode_def)

end
