(* ===== verification/WS_Frames.thy ===== *)
theory WS_Frames
  imports Go_Prelude "HOL-Library.Word"
begin

text \<open>
  The WebSocket framing of \<open>transport/ws/server.go\<close>: \<open>readFrame\<close>, \<open>writeFrame\<close> and
  \<open>writeControlFrame\<close>, on bytes.

  \<^item> A \<open>bufio.Reader\<close> is the list of the bytes that are still to come before the end of the
    stream. \<open>io.ReadFull\<close> fails with \<open>io.EOF\<close> when nothing is left and with
    \<open>io.ErrUnexpectedEOF\<close> when some but not all of the wanted bytes are left.
  \<^item> A \<open>bufio.Writer\<close> is its buffer, the bytes that reached the connection, the number of bytes
    the connection still takes before it breaks, and its sticky error. The buffer is not bounded:
    every writer of the program flushes after each frame under one lock, and flushing in several
    pieces puts the same bytes on the connection and reports the same error to the caller.
  \<^item> Lengths are natural numbers: an eight-byte length is below \<open>2 ^ 64\<close>, so \<open>uint64\<close> does not wrap.
\<close>

unbundle bit_operations_syntax

type_synonym byte = "8 word"

section \<open>Readers and writers of the library\<close>

definition ReadFull :: "nat \<Rightarrow> byte list \<Rightarrow> (byte list \<times> byte list) result" where
  "ReadFull n reader =
     (if n \<le> length reader then Inr (take n reader, drop n reader)
      else if reader = [] then Inl io_EOF else Inl io_ErrUnexpectedEOF)"

text \<open>\<open>binary.BigEndian\<close>.\<close>

definition BigEndian :: "byte list \<Rightarrow> nat" where
  "BigEndian bs = foldl (\<lambda>a b. a * 256 + unat b) 0 bs"

definition PutUint64 :: "nat \<Rightarrow> byte list" where
  "PutUint64 v = map (\<lambda>k. of_nat (v div 256 ^ k)) [7, 6, 5, 4, 3, 2, 1, 0]"

record Writer =
  wr_buf :: "byte list"
  wr_sent :: "byte list"
  wr_room :: nat
  wr_fault :: goerror
  wr_err :: "goerror option"

definition Writer_Write :: "Writer \<Rightarrow> byte list \<Rightarrow> Writer \<times> goerror option" where
  "Writer_Write w p =
     (case wr_err w of Some e \<Rightarrow> (w, Some e) | None \<Rightarrow> (w\<lparr>wr_buf := wr_buf w @ p\<rparr>, None))"

definition Writer_Flush :: "Writer \<Rightarrow> Writer \<times> goerror option" where
  "Writer_Flush w =
     (case wr_err w of
        Some e \<Rightarrow> (w, Some e)
      | None \<Rightarrow>
          if length (wr_buf w) \<le> wr_room w
          then (w\<lparr>wr_sent := wr_sent w @ wr_buf w, wr_room := wr_room w - length (wr_buf w), wr_buf := []\<rparr>, None)
          else (w\<lparr>wr_sent := wr_sent w @ take (wr_room w) (wr_buf w), wr_buf := drop (wr_room w) (wr_buf w),
                  wr_room := 0, wr_err := Some (wr_fault w)\<rparr>, Some (wr_fault w)))"

section \<open>Frames\<close>

abbreviation websocketGUID :: string where "websocketGUID \<equiv> ''258EAFA5-E914-47DA-95CA-C5AB0DC85B11''"
abbreviation maxWebSocketFrame :: nat where "maxWebSocketFrame \<equiv> 1048576"
abbreviation websocketOpcodeText :: byte where "websocketOpcodeText \<equiv> 0x1"
abbreviation websocketOpcodeClose :: byte where "websocketOpcodeClose \<equiv> 0x8"
abbreviation websocketOpcodePing :: byte where "websocketOpcodePing \<equiv> 0x9"
abbreviation websocketOpcodePong :: byte where "websocketOpcodePong \<equiv> 0xA"

definition xor_mask :: "byte list \<Rightarrow> byte list \<Rightarrow> byte list" where
  "xor_mask mask_key payload = map (\<lambda>i. payload ! i XOR mask_key ! (i mod 4)) [0..<length payload]"

text \<open>The length field: the short form, or the two or eight bytes that follow it.\<close>

definition read_length :: "byte \<Rightarrow> byte list \<Rightarrow> (nat \<times> byte list) result" where
  "read_length header1 reader =
     (let len = unat (header1 AND 0x7F) in
      if len = 126 then
        (case ReadFull 2 reader of Inl e \<Rightarrow> Inl e | Inr (extended, reader) \<Rightarrow> Inr (BigEndian extended, reader))
      else if len = 127 then
        (case ReadFull 8 reader of Inl e \<Rightarrow> Inl e | Inr (extended, reader) \<Rightarrow> Inr (BigEndian extended, reader))
      else Inr (len, reader))"

definition readFrame :: "byte list \<Rightarrow> (byte \<times> byte list \<times> byte list) result" where
  "readFrame reader =
     (case ReadFull 2 reader of
        Inl e \<Rightarrow> Inl e
      | Inr (header, reader) \<Rightarrow>
          let opcode = header ! 0 AND 0x0F; masked = (header ! 1 AND 0x80 \<noteq> 0) in
          (case read_length (header ! 1) reader of
             Inl e \<Rightarrow> Inl e
           | Inr (len, reader) \<Rightarrow>
               if maxWebSocketFrame < len then Inl (ErrOther (''websocket frame too large: '' @ FormatUint len))
               else
                 (case (if masked then ReadFull 4 reader else Inr ([0, 0, 0, 0], reader)) of
                    Inl e \<Rightarrow> Inl e
                  | Inr (mask_key, reader) \<Rightarrow>
                      (case ReadFull len reader of
                         Inl e \<Rightarrow> Inl e
                       | Inr (payload, reader) \<Rightarrow>
                           Inr (opcode, if masked then xor_mask mask_key payload else payload, reader)))))"

definition frame_header :: "byte \<Rightarrow> nat \<Rightarrow> byte list" where
  "frame_header opcode len =
     [0x80 OR opcode] @
     (if len < 126 then [of_nat len]
      else if len \<le> 0xFFFF then [126, of_nat (len div 256), of_nat len]
      else 127 # PutUint64 len)"

definition writeFrame :: "Writer \<Rightarrow> byte \<Rightarrow> byte list \<Rightarrow> Writer \<times> goerror option" where
  "writeFrame writer opcode payload =
     (case Writer_Write writer (frame_header opcode (length payload)) of
        (writer, Some e) \<Rightarrow> (writer, Some e)
      | (writer, None) \<Rightarrow>
          if length payload = 0 then (writer, None) else Writer_Write writer payload)"

definition writeControlFrame :: "Writer option \<Rightarrow> byte \<Rightarrow> byte list \<Rightarrow> Writer option \<times> goerror option" where
  "writeControlFrame writer opcode payload =
     (case writer of
        None \<Rightarrow> (None, None)
      | Some w \<Rightarrow>
          (case writeFrame w opcode payload of
             (w, Some e) \<Rightarrow> (Some w, Some e)
           | (w, None) \<Rightarrow> (case Writer_Flush w of (w, err) \<Rightarrow> (Some w, err))))"

text \<open>The bytes of a frame as the server writes it, and as a client writes it with a mask.\<close>

definition frame :: "byte \<Rightarrow> byte list \<Rightarrow> byte list" where
  "frame opcode payload = frame_header opcode (length payload) @ payload"

definition client_frame :: "byte \<Rightarrow> byte list \<Rightarrow> byte list \<Rightarrow> byte list" where
  "client_frame opcode mask_key payload =
     (let header = frame_header opcode (length payload) in
      header[1 := header ! 1 OR 0x80] @ mask_key @ xor_mask mask_key payload)"

section \<open>Lemmas\<close>

lemma ReadFull_append [simp]: "length xs = n \<Longrightarrow> ReadFull n (xs @ rest) = Inr (xs, rest)"
  by (simp add: ReadFull_def)

lemma ReadFull_Inr: "ReadFull n reader = Inr (xs, rest) \<longleftrightarrow> reader = xs @ rest \<and> length xs = n"
  by (auto simp: ReadFull_def)

lemma xor_mask_length [simp]: "length (xor_mask mask_key payload) = length payload"
  by (simp add: xor_mask_def)

lemma xor_mask_involution [simp]: "xor_mask mask_key (xor_mask mask_key payload) = payload"
  by (rule nth_equalityI) (simp_all add: xor_mask_def xor.assoc)

lemma BigEndian_Nil [simp]: "BigEndian [] = 0"
  by (simp add: BigEndian_def)

lemma BigEndian_snoc [simp]: "BigEndian (bs @ [b]) = BigEndian bs * 256 + unat b"
  by (simp add: BigEndian_def)

lemma BigEndian_digits: "BigEndian (map (\<lambda>k. of_nat (v div 256 ^ k)) (rev [0..<m])) = v mod 256 ^ m"
proof (induction m arbitrary: v)
  case 0
  show ?case by simp
next
  case (Suc m)
  have "map (\<lambda>k. of_nat (v div 256 ^ k) :: byte) (rev [0..<Suc m]) =
      map (\<lambda>k. of_nat (v div 256 ^ Suc k)) (rev [0..<m]) @ [of_nat v]"
    by (simp add: upt_conv_Cons map_Suc_upt [symmetric] rev_map [symmetric] del: upt_Suc)
  also have "map (\<lambda>k. of_nat (v div 256 ^ Suc k) :: byte) (rev [0..<m]) =
      map (\<lambda>k. of_nat (v div 256 div 256 ^ k)) (rev [0..<m])"
    by (simp add: div_mult2_eq)
  finally show ?case
    using Suc.IH [of "v div 256"] mod_mult2_eq [of v 256 "256 ^ m"] by (simp add: unat_of_nat)
qed

lemma BigEndian_2: "n < 2 ^ 16 \<Longrightarrow> BigEndian [of_nat (n div 256), of_nat n] = n"
  using BigEndian_digits [of n 2] by (simp add: upt_rec)

lemma BigEndian_PutUint64: "n < 2 ^ 64 \<Longrightarrow> BigEndian (PutUint64 n) = n"
proof -
  have "PutUint64 n = map (\<lambda>k. of_nat (n div 256 ^ k)) (rev [0..<8])"
    by (simp add: PutUint64_def upt_rec)
  moreover assume "n < 2 ^ 64"
  ultimately show ?thesis using BigEndian_digits [of n 8] by simp
qed

lemma BigEndian_bound: "BigEndian bs < 256 ^ length bs"
proof (induction bs rule: rev_induct)
  case Nil
  show ?case by simp
next
  case (snoc b bs)
  have "unat b < 256" by (rule order_less_le_trans [OF unsigned_less]) simp
  moreover have "BigEndian bs + 1 \<le> 256 ^ length bs" using snoc by simp
  then have "BigEndian bs * 256 + 256 \<le> 256 ^ length (bs @ [b])"
    by (metis (no_types, lifting) add_mult_distrib length_append_singleton mult_1 mult_le_mono1 power_Suc2)
  ultimately show ?case by simp
qed

text \<open>What the header of a frame says when it is read back.\<close>

lemma byte_eqI:
  fixes a b :: byte
  assumes "\<And>n. n \<in> {0, 1, 2, 3, 4, 5, 6, 7} \<Longrightarrow> bit a n = bit b n"
  shows "a = b"
proof (rule bit_word_eqI)
  fix n
  assume "n < LENGTH(8)"
  then have "n \<in> {0, 1, 2, 3, 4, 5, 6, 7}" by (simp, linarith)
  then show "bit a n = bit b n" by (rule assms)
qed

lemma high_bits:
  fixes b :: byte
  assumes "unat b < 2 ^ k" and "k \<le> n"
  shows "\<not> bit b n"
proof -
  have "take_bit k (unat b) = unat b" using assms(1) by (simp add: take_bit_nat_eq_self)
  then have "\<not> bit (unat b) n" using assms(2) by (metis bit_take_bit_iff linorder_not_le)
  then show ?thesis by (metis bit_unsigned_iff bit_imp_le_length possible_bit_nat)
qed

lemma header_bits:
  fixes opcode b :: byte
  shows "opcode < 16 \<Longrightarrow> (0x80 OR opcode) AND 0x0F = opcode"
    and "b < 128 \<Longrightarrow> b AND 0x80 = 0" and "b < 128 \<Longrightarrow> b AND 0x7F = b"
    and "b < 128 \<Longrightarrow> (b OR 0x80) AND 0x80 \<noteq> 0" and "b < 128 \<Longrightarrow> (b OR 0x80) AND 0x7F = b"
  subgoal using high_bits [of opcode 4] by (auto intro!: byte_eqI simp: bit_simps word_less_nat_alt)
  subgoal using high_bits [of b 7] by (auto intro!: byte_eqI simp: bit_simps word_less_nat_alt)
  subgoal using high_bits [of b 7] by (auto intro!: byte_eqI simp: bit_simps word_less_nat_alt)
  subgoal by (rule notI, drule arg_cong [where f = "\<lambda>w. bit w 7"]) (simp add: bit_simps)
  subgoal using high_bits [of b 7] by (auto intro!: byte_eqI simp: bit_simps word_less_nat_alt)
  done

lemma read_length_header:
  assumes "len < 2 ^ 64"
  shows "\<exists>b ext. frame_header opcode len = (0x80 OR opcode) # b # ext \<and> b < 128 \<and>
     (\<forall>rest h. h AND 0x7F = b \<longrightarrow> read_length h (ext @ rest) = Inr (len, rest))"
proof -
  consider (short) "len < 126" | (two) "126 \<le> len" "len \<le> 0xFFFF" | (eight) "0xFFFF < len" by linarith
  then show ?thesis
  proof cases
    case short
    have u: "unat (of_nat len :: byte) = len" using short by (simp add: unat_of_nat)
    then have "(of_nat len :: byte) < 128" using short by (simp add: word_less_nat_alt)
    then show ?thesis using short u by (auto simp: frame_header_def read_length_def Let_def)
  next
    case two
    have "ReadFull 2 (x # y # rest) = Inr ([x, y], rest)" for x y rest by (simp add: ReadFull_def)
    then show ?thesis using two BigEndian_2 [of len]
      by (auto simp: frame_header_def read_length_def Let_def word_less_nat_alt)
  next
    case eight
    have "length (PutUint64 len) = 8" by (simp add: PutUint64_def)
    with eight show ?thesis using BigEndian_PutUint64 [OF assms]
      by (auto simp: frame_header_def read_length_def Let_def word_less_nat_alt)
  qed
qed


section \<open>Reading what was written\<close>

lemma readFrame_frame:
  assumes "opcode < 16" and "length payload \<le> maxWebSocketFrame"
  shows "readFrame (frame opcode payload @ rest) = Inr (opcode, payload, rest)"
proof -
  obtain b ext where f: "frame_header opcode (length payload) = (0x80 OR opcode) # b # ext" "b < 128"
    "\<And>rest h. h AND 0x7F = b \<Longrightarrow> read_length h (ext @ rest) = Inr (length payload, rest)"
    using read_length_header [of "length payload" opcode] assms(2) by auto
  have "ReadFull 2 ((0x80 OR opcode) # b # xs) = Inr ([0x80 OR opcode, b], xs)" for xs
    by (simp add: ReadFull_def)
  then show ?thesis using assms f header_bits [of opcode] header_bits(2,3) [OF f(2)]
    by (simp add: frame_def readFrame_def)
qed

lemma readFrame_client_frame:
  assumes "opcode < 16" and "length payload \<le> maxWebSocketFrame" and "length mask_key = 4"
  shows "readFrame (client_frame opcode mask_key payload @ rest) = Inr (opcode, payload, rest)"
proof -
  obtain b ext where f: "frame_header opcode (length payload) = (0x80 OR opcode) # b # ext" "b < 128"
    "\<And>rest h. h AND 0x7F = b \<Longrightarrow> read_length h (ext @ rest) = Inr (length payload, rest)"
    using read_length_header [of "length payload" opcode] assms(2) by auto
  have "ReadFull 2 ((0x80 OR opcode) # (b OR 0x80) # xs) = Inr ([0x80 OR opcode, b OR 0x80], xs)" for xs
    by (simp add: ReadFull_def)
  then show ?thesis using assms f header_bits [of opcode] header_bits(4,5) [OF f(2)]
    by (simp add: client_frame_def readFrame_def)
qed

lemma writeFrame_ok:
  "wr_err w = None \<Longrightarrow> writeFrame w opcode payload = (w\<lparr>wr_buf := wr_buf w @ frame opcode payload\<rparr>, None)"
  by (cases w) (simp add: writeFrame_def Writer_Write_def frame_def)

text \<open>Writing a sequence of frames, each flushed, and reading a number of frames.\<close>

fun write_frames :: "Writer \<Rightarrow> (byte \<times> byte list) list \<Rightarrow> Writer option \<times> goerror option" where
  "write_frames w [] = (Some w, None)"
| "write_frames w ((opcode, payload) # fs) =
     (case writeControlFrame (Some w) opcode payload of
        (Some w, None) \<Rightarrow> write_frames w fs
      | r \<Rightarrow> r)"

fun read_frames :: "nat \<Rightarrow> byte list \<Rightarrow> ((byte \<times> byte list) list \<times> byte list) result" where
  "read_frames 0 reader = Inr ([], reader)"
| "read_frames (Suc n) reader =
     (case readFrame reader of
        Inl e \<Rightarrow> Inl e
      | Inr (opcode, payload, reader) \<Rightarrow>
          (case read_frames n reader of Inl e \<Rightarrow> Inl e | Inr (fs, reader) \<Rightarrow> Inr ((opcode, payload) # fs, reader)))"

lemma writeControlFrame_None:
  assumes "writeControlFrame (Some w) opcode payload = (w', None)" and "wr_buf w = []"
  shows "\<exists>v. w' = Some v \<and> wr_buf v = [] \<and> wr_sent v = wr_sent w @ frame opcode payload"
proof -
  have "wr_err w = None"
    using assms(1) by (cases "wr_err w") (simp_all add: writeControlFrame_def writeFrame_def Writer_Write_def)
  then show ?thesis using assms
    by (auto simp: writeControlFrame_def writeFrame_ok Writer_Flush_def split: if_splits)
qed

lemma write_frames_sent:
  "write_frames w fs = (w', None) \<Longrightarrow> wr_buf w = [] \<Longrightarrow>
   \<exists>v. w' = Some v \<and> wr_buf v = [] \<and> wr_sent v = wr_sent w @ concat (map (\<lambda>(opcode, payload). frame opcode payload) fs)"
proof (induction fs arbitrary: w)
  case Nil
  then show ?case by auto
next
  case (Cons f fs)
  obtain opcode payload where f: "f = (opcode, payload)" by fastforce
  obtain u where u: "writeControlFrame (Some w) opcode payload = (Some u, None)" "write_frames u fs = (w', None)"
    using Cons.prems writeControlFrame_None [of w opcode payload] by (auto simp: f split: prod.splits option.splits)
  then show ?case using writeControlFrame_None [OF u(1) Cons.prems(2)] Cons.IH [OF u(2)] by (auto simp: f)
qed

lemma read_frames_concat:
  "\<forall>(opcode, payload) \<in> set fs. opcode < 16 \<and> length payload \<le> maxWebSocketFrame \<Longrightarrow>
   read_frames (length fs) (concat (map (\<lambda>(opcode, payload). frame opcode payload) fs) @ rest) = Inr (fs, rest)"
  by (induction fs) (auto simp: readFrame_frame)

text \<open>C19. What the server writes can be read back: when a sequence of frames with payloads within the limit is
  written and flushed without an error, the bytes that reach the connection are read as exactly
  these frames in order, with nothing left. A frame that a client masks with any four-byte key is
  read as the same opcode and payload.\<close>

theorem frames_roundtrip:
  assumes "\<forall>(opcode, payload) \<in> set fs. opcode < 16 \<and> length payload \<le> maxWebSocketFrame"
    and "write_frames w fs = (Some w', None)" and "wr_buf w = []" and "length mask_key = 4"
  shows "(\<exists>bytes. wr_sent w' = wr_sent w @ bytes \<and> read_frames (length fs) bytes = Inr (fs, [])) \<and>
     (\<forall>(opcode, payload) \<in> set fs. \<forall>rest.
        readFrame (client_frame opcode mask_key payload @ rest) = Inr (opcode, payload, rest))"
  using assms readFrame_client_frame write_frames_sent [OF assms(2,3)] read_frames_concat [OF assms(1), of "[]"]
  by auto

theorem frames_roundtrip_witness:
  "read_frames 2 (frame websocketOpcodeText [104, 105] @ frame websocketOpcodePong []) =
     Inr ([(websocketOpcodeText, [104, 105]), (websocketOpcodePong, [])], [])"
proof -
  define w where "w = \<lparr>wr_buf = [], wr_sent = [], wr_room = 100, wr_fault = ErrOther ''broken pipe'', wr_err = None\<rparr>"
  define fs where "fs = [(websocketOpcodeText, [104, 105]), (websocketOpcodePong, [] :: byte list)]"
  have w: "write_frames w fs =
      (Some (w\<lparr>wr_sent := frame websocketOpcodeText [104, 105] @ frame websocketOpcodePong [], wr_room := 94\<rparr>), None)"
    by (simp add: w_def fs_def writeControlFrame_def writeFrame_ok Writer_Flush_def frame_def frame_header_def)
  have ok: "\<forall>(opcode, payload) \<in> set fs. opcode < 16 \<and> length payload \<le> maxWebSocketFrame" by (simp add: fs_def)
  have n: "length fs = 2" "wr_buf w = []" "wr_sent w = []" by (simp_all add: fs_def w_def)
  from frames_roundtrip [OF ok w n(2), of "[1, 2, 3, 4]", THEN conjunct1] show ?thesis
    unfolding n fs_def by (simp add: numeral_2_eq_2)
qed

section \<open>Bounds\<close>

lemma read_length_Inr:
  assumes "read_length h reader = Inr (len, rest)"
  shows "\<exists>used. reader = used @ rest \<and> length used \<le> 8"
  using assms by (auto simp: read_length_def Let_def ReadFull_Inr split: if_splits sum.splits)

lemma readFrame_Inr:
  assumes "readFrame reader = Inr (opcode, payload, rest)"
  shows "\<exists>header ext mask_key raw. reader = header @ ext @ mask_key @ raw @ rest \<and> length header = 2 \<and>
     length ext \<le> 8 \<and> length mask_key \<le> 4 \<and> length raw = length payload \<and> opcode = header ! 0 AND 0x0F \<and>
     length payload \<le> maxWebSocketFrame"
proof -
  obtain header r1 where h: "ReadFull 2 reader = Inr (header, r1)"
    using assms by (auto simp: readFrame_def split: sum.splits)
  then obtain len r2 where l: "read_length (header ! 1) r1 = Inr (len, r2)" "len \<le> maxWebSocketFrame"
    using assms by (auto simp: readFrame_def Let_def split: sum.splits if_splits)
  obtain ext where e: "r1 = ext @ r2" "length ext \<le> 8" using read_length_Inr [OF l(1)] by blast
  note body = assms [unfolded readFrame_def h sum.case prod.case Let_def l(1)]
  show ?thesis
  proof (cases "header ! 1 AND 0x80 = 0")
    case True
    then have "ReadFull len r2 = Inr (payload, rest)" "opcode = header ! 0 AND 0x0F"
      using body l(2) by (auto split: sum.splits)
    then show ?thesis using h e l(2)
      by (intro exI [of _ header] exI [of _ ext] exI [of _ "[]"] exI [of _ payload]) (simp add: ReadFull_Inr)
  next
    case False
    then obtain mask_key r3 raw where "ReadFull 4 r2 = Inr (mask_key, r3)" "ReadFull len r3 = Inr (raw, rest)"
        "payload = xor_mask mask_key raw" "opcode = header ! 0 AND 0x0F"
      using body l(2) by (auto split: sum.splits)
    then show ?thesis using h e l(2)
      by (intro exI [of _ header] exI [of _ ext] exI [of _ mask_key] exI [of _ raw]) (simp add: ReadFull_Inr)
  qed
qed

lemma and_15_less: "(b :: byte) AND 0x0F < 16"
proof -
  have "b AND 0x0F \<le> 0x0F" by (rule word_and_le1)
  then show ?thesis by (rule order_le_less_trans) simp
qed



end
