(* ===== verification/WS_Session.thy ===== *)
theory WS_Session
  imports WS_Frames Plugin_Protocol
begin

text \<open>
  The sessions of the WebSocket transport (\<open>transport/ws/session.go\<close>): a session per connection
  with its pending requests, and the registry that binds plugin instances to sessions.

  \<^item> The wait channels of a session live in a list, and a \<open>chan\<close> value is an index into it. The
    JSON encoding of an envelope is a parameter.
  \<^item> \<open>Request\<close> runs in the goroutine of its caller, \<open>Complete\<close> in the goroutine that reads the
    connection. The step relation \<open>session_step\<close> interleaves them at their critical sections:
    taking an id, inserting the wait channel, writing the frame, receiving or giving up, and
    deleting the entry on return; looking up the channel, and sending to it outside the lock.
  \<^item> Sessions are compared as pointers: a \<open>*Session\<close> is an index into the list of sessions.
\<close>

section \<open>Sessions\<close>

record Session =
  se_writer :: "Writer option"
  se_pending :: "(string, nat) gomap"
  se_chans :: "Envelope chan list"
  se_ids :: "64 word"
  se_pluginID :: string
  se_instanceID :: string

definition NewSession :: "Writer option \<Rightarrow> Session" where
  "NewSession writer = \<lparr>se_writer = writer, se_pending = [], se_chans = [], se_ids = 0, se_pluginID = [],
     se_instanceID = []\<rparr>"

definition setPlugin :: "string \<Rightarrow> string \<Rightarrow> Session \<Rightarrow> Session" where
  "setPlugin pluginID instanceID s = s\<lparr>se_pluginID := pluginID, se_instanceID := instanceID\<rparr>"

definition Session_Write :: "(Envelope \<Rightarrow> byte list result) \<Rightarrow> Session \<Rightarrow> Envelope \<Rightarrow> Session \<times> goerror option" where
  "Session_Write marshal_env s envelope =
     (case se_writer s of
        None \<Rightarrow> (s, Some ErrTransportUnavailable)
      | Some w \<Rightarrow>
          (case marshal_env envelope of
             Inl e \<Rightarrow> (s, Some e)
           | Inr raw \<Rightarrow>
               (case writeFrame w websocketOpcodeText raw of
                  (w, Some e) \<Rightarrow> (s\<lparr>se_writer := Some w\<rparr>, Some e)
                | (w, None) \<Rightarrow> (case Writer_Flush w of (w, err) \<Rightarrow> (s\<lparr>se_writer := Some w\<rparr>, err)))))"

section \<open>Request and Complete\<close>

definition zero_envelope :: Envelope where
  "zero_envelope = \<lparr>env_ID = [], env_Type = [], env_Operation = [], env_Version = [], env_Payload = [],
     env_Error = None\<rparr>"

text \<open>The parts of \<open>Request\<close> between its blocking points.\<close>

definition request_id :: "Session \<Rightarrow> Session \<times> string \<times> nat" where
  "request_id s =
     (let n = se_ids s + 1 in
      (s\<lparr>se_ids := n, se_chans := se_chans s @ [\<lparr>cbuf = [], ccap = 1, cclosed = False\<rparr>]\<rparr>, FormatUint (unat n),
       length (se_chans s)))"

definition request_insert :: "string \<Rightarrow> nat \<Rightarrow> Session \<Rightarrow> Session" where
  "request_insert i wait s = s\<lparr>se_pending := mput (se_pending s) i wait\<rparr>"

definition request_envelope :: "string \<Rightarrow> string \<Rightarrow> json \<Rightarrow> Envelope" where
  "request_envelope i operation raw = \<lparr>env_ID = i, env_Type = ''request'', env_Operation = operation,
     env_Version = ProtocolVersionV1, env_Payload = raw, env_Error = None\<rparr>"

definition request_receive :: "nat \<Rightarrow> Session \<Rightarrow> (Session \<times> Envelope) option" where
  "request_receive wait s =
     (case cbuf (se_chans s ! wait) of
        [] \<Rightarrow> None
      | envelope # buf \<Rightarrow>
          Some (s\<lparr>se_chans := (se_chans s)[wait := (se_chans s ! wait)\<lparr>cbuf := buf\<rparr>]\<rparr>, envelope))"

definition request_result :: "Envelope \<Rightarrow> Envelope \<times> goerror option" where
  "request_result envelope =
     (case env_Error envelope of
        Some e \<Rightarrow> (envelope, Some (Wrapped ErrTransportUnavailable (pe_Code e @ '': '' @ pe_Message e)))
      | None \<Rightarrow> (envelope, None))"

definition request_delete :: "string \<Rightarrow> Session \<Rightarrow> Session" where
  "request_delete i s = s\<lparr>se_pending := mdel (se_pending s) i\<rparr>"

text \<open>\<open>Complete\<close>: the lookup under the lock, and the send, which blocks while the buffer is full (\<open>None\<close>).\<close>

definition Complete_find :: "Session \<Rightarrow> Envelope \<Rightarrow> nat option" where
  "Complete_find s envelope = (if env_ID envelope = [] then None else mget (se_pending s) (env_ID envelope))"

definition Complete_send :: "nat \<Rightarrow> Envelope \<Rightarrow> Session \<Rightarrow> Session option" where
  "Complete_send wait envelope s =
     (let c = se_chans s ! wait in
      if length (cbuf c) < ccap c
      then Some (s\<lparr>se_chans := (se_chans s)[wait := c\<lparr>cbuf := cbuf c @ [envelope]\<rparr>]\<rparr>)
      else None)"

section \<open>Interleavings\<close>

datatype Phase =
    Allocated | Waiting | Sent
  | Leaving "Envelope \<times> goerror option"
  | Done "Envelope \<times> goerror option"

record Request =
  rq_id :: string
  rq_chan :: nat
  rq_operation :: string
  rq_payload :: json
  rq_phase :: Phase

datatype Reader = Reading | Sending nat Envelope

record Wire =
  wi_session :: Session
  wi_requests :: "Request list"
  wi_reader :: Reader

definition to_phase :: "nat \<Rightarrow> Phase \<Rightarrow> Session \<Rightarrow> Wire \<Rightarrow> Wire" where
  "to_phase i p s w = w\<lparr>wi_session := s, wi_requests := (wi_requests w)[i := (wi_requests w ! i)\<lparr>rq_phase := p\<rparr>]\<rparr>"

abbreviation request_at :: "Wire \<Rightarrow> nat \<Rightarrow> Phase \<Rightarrow> bool" where
  "request_at w i p \<equiv> i < length (wi_requests w) \<and> rq_phase (wi_requests w ! i) = p"

inductive session_step :: "(Envelope \<Rightarrow> byte list result) \<Rightarrow> Wire \<Rightarrow> Wire \<Rightarrow> bool" for marshal_env where
  alloc: "request_id (wi_session w) = (s, i, wait) \<Longrightarrow>
    session_step marshal_env w
      (w\<lparr>wi_session := s, wi_requests := wi_requests w @
         [\<lparr>rq_id = i, rq_chan = wait, rq_operation = operation, rq_payload = raw, rq_phase = Allocated\<rparr>]\<rparr>)"
| insert: "request_at w i Allocated \<Longrightarrow>
    session_step marshal_env w
      (to_phase i Waiting (request_insert (rq_id (wi_requests w ! i)) (rq_chan (wi_requests w ! i)) (wi_session w)) w)"
| send: "request_at w i Waiting \<Longrightarrow>
    Session_Write marshal_env (wi_session w) (request_envelope (rq_id (wi_requests w ! i))
      (rq_operation (wi_requests w ! i)) (rq_payload (wi_requests w ! i))) = (s, None) \<Longrightarrow>
    session_step marshal_env w (to_phase i Sent s w)"
| send_failed: "request_at w i Waiting \<Longrightarrow>
    Session_Write marshal_env (wi_session w) (request_envelope (rq_id (wi_requests w ! i))
      (rq_operation (wi_requests w ! i)) (rq_payload (wi_requests w ! i))) = (s, Some e) \<Longrightarrow>
    session_step marshal_env w (to_phase i (Leaving (zero_envelope, Some e)) s w)"
| receive: "request_at w i Sent \<Longrightarrow>
    request_receive (rq_chan (wi_requests w ! i)) (wi_session w) = Some (s, envelope) \<Longrightarrow>
    session_step marshal_env w (to_phase i (Leaving (request_result envelope)) s w)"
| give_up: "request_at w i Sent \<Longrightarrow>
    session_step marshal_env w (to_phase i (Leaving (zero_envelope, Some ctx_err)) (wi_session w) w)"
| leave: "request_at w i (Leaving r) \<Longrightarrow>
    session_step marshal_env w (to_phase i (Done r) (request_delete (rq_id (wi_requests w ! i)) (wi_session w)) w)"
| find: "wi_reader w = Reading \<Longrightarrow> Complete_find (wi_session w) envelope = Some wait \<Longrightarrow>
    session_step marshal_env w (w\<lparr>wi_reader := Sending wait envelope\<rparr>)"
| deliver: "wi_reader w = Sending wait envelope \<Longrightarrow> Complete_send wait envelope (wi_session w) = Some s \<Longrightarrow>
    session_step marshal_env w (w\<lparr>wi_session := s, wi_reader := Reading\<rparr>)"
| respond: "wi_reader w = Reading \<Longrightarrow> session_step marshal_env w
      (w\<lparr>wi_session := setPlugin p q (fst (Session_Write marshal_env (wi_session w) envelope))\<rparr>)"

definition start_wire :: "Writer option \<Rightarrow> Wire" where
  "start_wire writer = \<lparr>wi_session = NewSession writer, wi_requests = [], wi_reader = Reading\<rparr>"

inductive wire_reachable :: "(Envelope \<Rightarrow> byte list result) \<Rightarrow> Wire \<Rightarrow> bool" for marshal_env where
  start: "wire_reachable marshal_env (start_wire writer)"
| step: "wire_reachable marshal_env w \<Longrightarrow> session_step marshal_env w w' \<Longrightarrow> wire_reachable marshal_env w'"

section \<open>The invariant of a connection\<close>

text \<open>
  Every request has its own channel of capacity one, which only holds envelopes with the request's
  identifier; an entry of the pending table leads to the channel of a live request with that
  identifier; the reader sends only to a channel of the envelope's identifier.
\<close>

abbreviation nth_id :: "nat \<Rightarrow> string" where
  "nth_id i \<equiv> FormatUint (unat (of_nat (Suc i) :: 64 word))"

fun live_phase :: "Phase \<Rightarrow> bool" where
  "live_phase Allocated = False"
| "live_phase (Done r) = False"
| "live_phase p = True"

fun good_phase :: "string \<Rightarrow> Phase \<Rightarrow> bool" where
  "good_phase i (Leaving (envelope, None)) \<longleftrightarrow> env_ID envelope = i \<and> env_Error envelope = None"
| "good_phase i (Done (envelope, None)) \<longleftrightarrow> env_ID envelope = i \<and> env_Error envelope = None"
| "good_phase i p \<longleftrightarrow> True"

definition good_request :: "Session \<Rightarrow> nat \<Rightarrow> Request \<Rightarrow> bool" where
  "good_request s i rq \<longleftrightarrow> rq_id rq = nth_id i \<and> rq_chan rq = i \<and> ccap (se_chans s ! i) = 1 \<and>
     length (cbuf (se_chans s ! i)) \<le> 1 \<and> (\<forall>envelope \<in> set (cbuf (se_chans s ! i)). env_ID envelope = rq_id rq) \<and>
     good_phase (rq_id rq) (rq_phase rq)"

definition wire_inv :: "Wire \<Rightarrow> bool" where
  "wire_inv w \<longleftrightarrow>
     (let s = wi_session w; rs = wi_requests w in
      length (se_chans s) = length rs \<and> se_ids s = of_nat (length rs) \<and>
      (\<forall>i < length rs. good_request s i (rs ! i)) \<and>
      (\<forall>k wait. mget (se_pending s) k = Some wait \<longrightarrow>
         wait < length rs \<and> rq_id (rs ! wait) = k \<and> live_phase (rq_phase (rs ! wait))) \<and>
      (\<forall>wait envelope. wi_reader w = Sending wait envelope \<longrightarrow>
         wait < length rs \<and> rq_id (rs ! wait) = env_ID envelope))"

definition pending_complete :: "Wire \<Rightarrow> bool" where
  "pending_complete w \<longleftrightarrow>
     (\<forall>i < length (wi_requests w). live_phase (rq_phase (wi_requests w ! i)) \<longrightarrow>
        mget (se_pending (wi_session w)) (rq_id (wi_requests w ! i)) = Some i)"

lemma nth_id_inj: "i < n \<Longrightarrow> j < n \<Longrightarrow> n < 2 ^ 64 \<Longrightarrow> nth_id i = nth_id j \<longleftrightarrow> i = j"
proof -
  assume "i < n" "j < n" "n < 2 ^ 64"
  then have "unat (of_nat (Suc i) :: 64 word) = Suc i" "unat (of_nat (Suc j) :: 64 word) = Suc j"
    by (simp_all add: unat_of_nat del: of_nat_Suc)
  then show ?thesis using FormatUint_inj by (metis nat.inject)
qed

lemma Session_Write_frame:
  "Session_Write marshal_env s envelope = (s', r) \<Longrightarrow>
   se_pending s' = se_pending s \<and> se_chans s' = se_chans s \<and> se_ids s' = se_ids s"
  by (auto simp: Session_Write_def split: option.splits sum.splits prod.splits)

lemmas session_defs = request_id_def request_insert_def request_delete_def request_receive_def Complete_find_def
  Complete_send_def setPlugin_def to_phase_def

lemma good_phase_result: "env_ID envelope = i \<Longrightarrow> good_phase i (Leaving (request_result envelope))"
  by (simp add: request_result_def split: option.splits)

lemma good_phase_done: "good_phase i (Leaving r) \<Longrightarrow> good_phase i (Done r)"
  by (cases "(i, Leaving r)" rule: good_phase.cases) auto

text \<open>Moving one request to another phase keeps the invariant when its channel and table entry stay right.\<close>

lemma wire_inv_to_phase:
  assumes "wire_inv w" and "i < length (wi_requests w)" and "good_phase (rq_id (wi_requests w ! i)) p"
    and "length (se_chans s) = length (se_chans (wi_session w))" and "se_ids s = se_ids (wi_session w)"
    and "\<And>j. j < length (wi_requests w) \<Longrightarrow> ccap (se_chans s ! j) = ccap (se_chans (wi_session w) ! j) \<and>
       length (cbuf (se_chans s ! j)) \<le> length (cbuf (se_chans (wi_session w) ! j)) \<and>
       set (cbuf (se_chans s ! j)) \<subseteq> set (cbuf (se_chans (wi_session w) ! j))"
    and "\<And>k wait. mget (se_pending s) k = Some wait \<Longrightarrow>
       wait = i \<and> k = rq_id (wi_requests w ! i) \<and> live_phase p \<or>
       wait \<noteq> i \<and> mget (se_pending (wi_session w)) k = Some wait"
  shows "wire_inv (to_phase i p s w)"
proof -
  have "good_request s j ((wi_requests w)[i := (wi_requests w ! i)\<lparr>rq_phase := p\<rparr>] ! j)" if "j < length (wi_requests w)" for j
    using that assms(1,3) assms(6) [OF that] by (cases "j = i") (auto simp: wire_inv_def Let_def good_request_def)
  moreover have "wait < length (wi_requests w) \<and>
      rq_id ((wi_requests w)[i := (wi_requests w ! i)\<lparr>rq_phase := p\<rparr>] ! wait) = k \<and>
      live_phase (rq_phase ((wi_requests w)[i := (wi_requests w ! i)\<lparr>rq_phase := p\<rparr>] ! wait))"
    if "mget (se_pending s) k = Some wait" for k wait
    using assms(7) [OF that] assms(1,2) by (auto simp: wire_inv_def Let_def)
  moreover have "rq_id ((wi_requests w)[i := (wi_requests w ! i)\<lparr>rq_phase := p\<rparr>] ! j) = rq_id (wi_requests w ! j)"
    for j using assms(2) by (cases "j = i") simp_all
  ultimately show ?thesis
    using assms(1,4,5) unfolding wire_inv_def to_phase_def by (simp add: Let_def)
qed

lemma wire_inv_start: "wire_inv (start_wire writer)"
  by (simp add: wire_inv_def start_wire_def NewSession_def)

lemma wire_invD:
  assumes "wire_inv w" and "i < length (wi_requests w)"
  shows "good_request (wi_session w) i (wi_requests w ! i)" "rq_id (wi_requests w ! i) = nth_id i"
    "rq_chan (wi_requests w ! i) = i"
proof -
  show g: "good_request (wi_session w) i (wi_requests w ! i)" using assms by (simp add: wire_inv_def Let_def)
  show "rq_id (wi_requests w ! i) = nth_id i" "rq_chan (wi_requests w ! i) = i"
    using g by (simp_all add: good_request_def)
qed

lemma good_request_cong: "se_chans s = se_chans s' \<Longrightarrow> good_request s i rq = good_request s' i rq"
  by (simp add: good_request_def)

lemma wire_inv_alloc:
  assumes "wire_inv w" and "request_id (wi_session w) = (s, k, wait)"
  shows "wire_inv (w\<lparr>wi_session := s, wi_requests := wi_requests w @
     [\<lparr>rq_id = k, rq_chan = wait, rq_operation = operation, rq_payload = raw, rq_phase = Allocated\<rparr>]\<rparr>)"
proof -
  have "good_request s j ((wi_requests w @
      [\<lparr>rq_id = k, rq_chan = wait, rq_operation = operation, rq_payload = raw, rq_phase = Allocated\<rparr>]) ! j)"
    if "j < Suc (length (wi_requests w))" for j
    using that assms wire_invD(1) [OF assms(1), of j]
    by (cases "j = length (wi_requests w)")
      (auto simp: wire_inv_def Let_def good_request_def request_id_def nth_append add.commute)
  then show ?thesis using assms
    by (auto simp: wire_inv_def Let_def request_id_def nth_append add.commute)
qed

lemma wire_inv_deliver:
  assumes "wire_inv w" and "wi_reader w = Sending wait envelope"
    and "Complete_send wait envelope (wi_session w) = Some s"
  shows "wire_inv (w\<lparr>wi_session := s, wi_reader := Reading\<rparr>)"
proof -
  define c where "c = se_chans (wi_session w) ! wait"
  have s: "s = wi_session w\<lparr>se_chans := (se_chans (wi_session w))[wait := c\<lparr>cbuf := cbuf c @ [envelope]\<rparr>]\<rparr>"
    "length (cbuf c) < ccap c"
    using assms(3) by (auto simp: Complete_send_def Let_def c_def split: if_splits)
  have wait: "wait < length (wi_requests w)" "rq_id (wi_requests w ! wait) = env_ID envelope"
    using assms(1,2) by (simp_all add: wire_inv_def Let_def)
  have "good_request s j (wi_requests w ! j)" if "j < length (wi_requests w)" for j
    using that wire_invD(1) [OF assms(1) that] assms(1) s wait
    by (cases "j = wait") (auto simp: wire_inv_def Let_def good_request_def c_def)
  then show ?thesis using assms(1) by (simp add: wire_inv_def Let_def s)
qed

lemma wire_inv_step: "session_step marshal_env w w' \<Longrightarrow> wire_inv w \<Longrightarrow> wire_inv w'"
proof (induction rule: session_step.induct)
  case (alloc w s i wait operation raw)
  then show ?case by (intro wire_inv_alloc)
next
  case (insert w i)
  then show ?case
    by (intro wire_inv_to_phase) (auto simp: request_insert_def wire_invD(3) wire_inv_def Let_def split: if_splits)
next
  case (send w i s)
  then show ?case using Session_Write_frame [OF send(2)] 
    by (intro wire_inv_to_phase) (auto simp: wire_inv_def Let_def)
next
  case (send_failed w i s e)
  then show ?case using Session_Write_frame [OF send_failed(2)]
    by (intro wire_inv_to_phase) (auto simp: wire_inv_def Let_def)
next
  case (receive w i s envelope)
  have c: "rq_chan (wi_requests w ! i) = i" and g: "good_request (wi_session w) i (wi_requests w ! i)"
    using wire_invD [OF receive(3)] receive(1) by auto
  obtain buf where b: "cbuf (se_chans (wi_session w) ! i) = envelope # buf"
      "s = wi_session w\<lparr>se_chans := (se_chans (wi_session w))[i := (se_chans (wi_session w) ! i)\<lparr>cbuf := buf\<rparr>]\<rparr>"
    using receive(2) by (auto simp: request_receive_def c split: list.splits)
  have "env_ID envelope = rq_id (wi_requests w ! i)" using g b(1) by (simp add: good_request_def)
  then show ?case using receive(1,3) b
    by (intro wire_inv_to_phase good_phase_result) (auto simp: wire_inv_def Let_def nth_list_update)
next
  case (give_up w i ctx_err)
  then show ?case by (intro wire_inv_to_phase) (auto simp: wire_inv_def Let_def)
next
  case (leave w i r)
  have "good_phase (rq_id (wi_requests w ! i)) (Leaving r)"
    using wire_invD(1) [OF leave(2)] leave(1) by (metis good_request_def)
  then show ?case using leave
    by (intro wire_inv_to_phase) (auto simp: request_delete_def good_phase_done wire_inv_def Let_def split: if_splits)
next
  case (find w envelope wait)
  then show ?case by (auto simp: wire_inv_def Let_def Complete_find_def split: if_splits)
next
  case (deliver w wait envelope s)
  then show ?case by (intro wire_inv_deliver)
next
  case (respond w p q envelope)
  obtain s r where "Session_Write marshal_env (wi_session w) envelope = (s, r)" by fastforce
  with respond Session_Write_frame [OF this] good_request_cong [of "setPlugin p q s" "wi_session w"] show ?case
    by (simp add: wire_inv_def Let_def setPlugin_def)
qed

lemma reachable_wire_inv: "wire_reachable marshal_env w \<Longrightarrow> wire_inv w"
  by (induction rule: wire_reachable.induct) (auto intro: wire_inv_start wire_inv_step)

text \<open>As long as the 64-bit counter has not wrapped, a live request is always in the pending table.\<close>

lemma pending_to_phase:
  assumes "wire_inv w" and "pending_complete w" and "i < length (wi_requests w)"
    and "live_phase p \<Longrightarrow> mget (se_pending s) (rq_id (wi_requests w ! i)) = Some i"
    and "\<And>j. j < length (wi_requests w) \<Longrightarrow> j \<noteq> i \<Longrightarrow>
       mget (se_pending s) (rq_id (wi_requests w ! j)) = mget (se_pending (wi_session w)) (rq_id (wi_requests w ! j))"
  shows "pending_complete (to_phase i p s w)"
proof -
  have "mget (se_pending s) (rq_id (wi_requests w ! j)) = Some j"
    if "j < length (wi_requests w)" "j \<noteq> i" "live_phase (rq_phase (wi_requests w ! j))" for j
    using that assms(2) assms(5) [OF that(1,2)] by (simp add: pending_complete_def)
  then show ?thesis using assms(3,4) by (auto simp: pending_complete_def to_phase_def nth_list_update)
qed

lemma ids_distinct:
  assumes "wire_inv w" and "length (wi_requests w) < 2 ^ 64" and "i < length (wi_requests w)" "j < length (wi_requests w)"
  shows "rq_id (wi_requests w ! i) = rq_id (wi_requests w ! j) \<longleftrightarrow> i = j"
  using nth_id_inj [OF assms(3,4,2)] wire_invD(2) [OF assms(1)] assms(3,4) by simp

lemma pending_complete_step:
  "session_step marshal_env w w' \<Longrightarrow> wire_inv w \<Longrightarrow> length (wi_requests w') < 2 ^ 64 \<Longrightarrow> pending_complete w \<Longrightarrow>
   pending_complete w'"
proof (induction rule: session_step.induct)
  case (alloc w s i wait operation raw)
  then show ?case by (auto simp: pending_complete_def request_id_def Let_def nth_append less_Suc_eq)
next
  case (insert w i)
  then show ?case using ids_distinct [OF insert(2)]
    by (intro pending_to_phase) (auto simp: request_insert_def wire_invD(3) to_phase_def)
next
  case (send w i s)
  then show ?case using Session_Write_frame [OF send(2)]
    by (intro pending_to_phase) (auto simp: pending_complete_def)
next
  case (send_failed w i s e)
  then show ?case using Session_Write_frame [OF send_failed(2)]
    by (intro pending_to_phase) (auto simp: pending_complete_def)
next
  case (receive w i s envelope)
  then have "se_pending s = se_pending (wi_session w)" by (auto simp: request_receive_def split: list.splits)
  then show ?case using receive by (intro pending_to_phase) (auto simp: pending_complete_def)
next
  case (give_up w i ctx_err)
  then show ?case by (intro pending_to_phase) (auto simp: pending_complete_def)
next
  case (leave w i r)
  then show ?case using ids_distinct [OF leave(2)]
    by (intro pending_to_phase) (auto simp: request_delete_def to_phase_def)
next
  case (find w envelope wait)
  then show ?case by (simp add: pending_complete_def)
next
  case (deliver w wait envelope s)
  then show ?case by (auto simp: pending_complete_def Complete_send_def Let_def split: if_splits)
next
  case (respond w p q envelope)
  obtain s r where "Session_Write marshal_env (wi_session w) envelope = (s, r)" by fastforce
  with respond Session_Write_frame [OF this] show ?case by (simp add: pending_complete_def setPlugin_def)
qed

lemma requests_grow: "session_step marshal_env w w' \<Longrightarrow> length (wi_requests w) \<le> length (wi_requests w')"
  by (induction rule: session_step.induct) (simp_all add: to_phase_def)

lemma reachable_pending_complete:
  "wire_reachable marshal_env w \<Longrightarrow> length (wi_requests w) < 2 ^ 64 \<Longrightarrow> pending_complete w"
proof (induction rule: wire_reachable.induct)
  case (start writer)
  show ?case by (simp add: pending_complete_def start_wire_def)
next
  case (step w w')
  then show ?case using requests_grow [OF step(2)] pending_complete_step [OF step(2)] reachable_wire_inv [OF step(1)] by simp
qed

section \<open>Properties\<close>

text \<open>C8. In every interleaving of requests, cancellations, write errors and responses on a connection: a
  request that returns an envelope without an error returns one with its own identifier, no two
  requests share an identifier until the 64-bit counter wraps, and the pending table holds exactly
  the requests in flight, each with its own channel, so nothing is left behind by a request that
  returned, timed out or failed to write.\<close>

theorem response_reaches_its_request:
  assumes "wire_reachable marshal_env w" and "length (wi_requests w) < 2 ^ 64"
    and "rs = wi_requests w"
  shows "(\<forall>i < length rs. \<forall>envelope. rq_phase (rs ! i) = Done (envelope, None) \<longrightarrow>
       env_ID envelope = rq_id (rs ! i) \<and> env_Error envelope = None) \<and>
     (\<forall>i < length rs. \<forall>j < length rs. rq_id (rs ! i) = rq_id (rs ! j) \<longrightarrow> i = j) \<and>
     (\<forall>k wait. mget (se_pending (wi_session w)) k = Some wait \<longleftrightarrow>
       wait < length rs \<and> rq_id (rs ! wait) = k \<and> live_phase (rq_phase (rs ! wait)))"
proof -
  have inv: "wire_inv w" and pc: "pending_complete w"
    using reachable_wire_inv reachable_pending_complete assms(1,2) by blast+
  have "good_phase (rq_id (rs ! i)) (rq_phase (rs ! i))" if "i < length rs" for i
    using wire_invD(1) [OF inv] that unfolding assms(3) good_request_def by blast
  then have "env_ID envelope = rq_id (rs ! i) \<and> env_Error envelope = None"
    if "i < length rs" "rq_phase (rs ! i) = Done (envelope, None)" for i envelope
    using that by fastforce
  moreover have "mget (se_pending (wi_session w)) k = Some wait \<longleftrightarrow>
      wait < length rs \<and> rq_id (rs ! wait) = k \<and> live_phase (rq_phase (rs ! wait))" for k wait
    using inv pc by (auto simp: wire_inv_def Let_def pending_complete_def assms(3))
  ultimately show ?thesis using ids_distinct [OF inv assms(2)] by (simp add: assms(3))
qed

text \<open>A connection on which one request is sent; two responses to it arrive.\<close>

definition sample_writer :: Writer where
  "sample_writer = \<lparr>wr_buf = [], wr_sent = [], wr_room = 1000, wr_fault = ErrOther ''broken pipe'', wr_err = None\<rparr>"

definition sample_marshal :: "Envelope \<Rightarrow> byte list result" where
  "sample_marshal envelope = Inr [123, 125]"

definition sample_response :: Envelope where
  "sample_response = zero_envelope\<lparr>env_ID := ''1'', env_Type := ''response''\<rparr>"

definition wire1 :: Wire where
  "wire1 = (case request_id (wi_session (start_wire (Some sample_writer))) of
     (s, i, wait) \<Rightarrow> (start_wire (Some sample_writer))\<lparr>wi_session := s, wi_requests := wi_requests (start_wire (Some sample_writer)) @
       [\<lparr>rq_id = i, rq_chan = wait, rq_operation = OperationInvoke, rq_payload = ''{}'', rq_phase = Allocated\<rparr>]\<rparr>)"

definition wire2 :: Wire where
  "wire2 = to_phase 0 Waiting (request_insert (rq_id (wi_requests wire1 ! 0)) (rq_chan (wi_requests wire1 ! 0))
     (wi_session wire1)) wire1"

definition wire3 :: Wire where
  "wire3 = to_phase 0 Sent (fst (Session_Write sample_marshal (wi_session wire2) (request_envelope
     (rq_id (wi_requests wire2 ! 0)) (rq_operation (wi_requests wire2 ! 0)) (rq_payload (wi_requests wire2 ! 0))))) wire2"

definition wire4 :: Wire where
  "wire4 = wire3\<lparr>wi_reader := Sending 0 sample_response\<rparr>"

definition wire5 :: Wire where
  "wire5 = wire4\<lparr>wi_session := the (Complete_send 0 sample_response (wi_session wire4)), wi_reader := Reading\<rparr>"

definition wire_answered :: Wire where
  "wire_answered = (let w = to_phase 0 (Leaving (request_result sample_response))
       (fst (the (request_receive 0 (wi_session wire5)))) wire5
     in to_phase 0 (Done (request_result sample_response)) (request_delete (rq_id (wi_requests w ! 0)) (wi_session w)) w)"

definition wire_blocked :: Wire where
  "wire_blocked = (let w = wire5\<lparr>wi_reader := Sending 0 sample_response\<rparr>
     in to_phase 0 (Leaving (zero_envelope, Some (ErrOther ''context deadline exceeded''))) (wi_session w) w)"

lemma wire5_reachable: "wire_reachable sample_marshal wire5"
proof -
  have "wire_reachable sample_marshal (start_wire (Some sample_writer))" by (rule wire_reachable.start)
  moreover have "session_step sample_marshal (start_wire (Some sample_writer)) wire1"
    unfolding wire1_def by (auto split: prod.splits intro: session_step.alloc)
  moreover have "session_step sample_marshal wire1 wire2"
    unfolding wire2_def by (rule session_step.insert) code_simp
  moreover have "session_step sample_marshal wire2 wire3"
    unfolding wire3_def by (rule session_step.send) code_simp+
  moreover have "session_step sample_marshal wire3 wire4"
    unfolding wire4_def by (rule session_step.find) code_simp+
  moreover have "session_step sample_marshal wire4 wire5"
    unfolding wire5_def by (rule session_step.deliver) code_simp+
  ultimately show ?thesis by (meson wire_reachable.step)
qed

theorem response_reaches_its_request_witness:
  "env_ID sample_response = rq_id (wi_requests wire_answered ! 0) \<and> mget (se_pending (wi_session wire_answered)) ''1'' = None"
proof -
  define w where "w = to_phase 0 (Leaving (request_result sample_response))
    (fst (the (request_receive 0 (wi_session wire5)))) wire5"
  have "session_step sample_marshal wire5 w"
    unfolding w_def by (rule session_step.receive) code_simp+
  moreover have "session_step sample_marshal w wire_answered"
    unfolding wire_answered_def Let_def w_def by (rule session_step.leave) code_simp
  ultimately have "wire_reachable sample_marshal wire_answered"
    using wire5_reachable by (meson wire_reachable.step)
  moreover have n: "length (wi_requests wire_answered) = 1" "rq_phase (wi_requests wire_answered ! 0) = Done (sample_response, None)"
    by code_simp+
  ultimately have r: "env_ID sample_response = rq_id (wi_requests wire_answered ! 0)"
    using response_reaches_its_request [of sample_marshal wire_answered] by simp
  moreover have "mget (se_pending (wi_session wire_answered)) ''1'' = None" by code_simp
  ultimately show ?thesis by blast
qed

fun left_phase :: "Phase \<Rightarrow> bool" where
  "left_phase (Leaving r) = True"
| "left_phase (Done r) = True"
| "left_phase p = False"

definition stuck :: "nat \<Rightarrow> Envelope \<Rightarrow> Wire \<Rightarrow> bool" where
  "stuck wait envelope w \<longleftrightarrow> wi_reader w = Sending wait envelope \<and> wait < length (wi_requests w) \<and>
     cbuf (se_chans (wi_session w) ! wait) \<noteq> [] \<and> left_phase (rq_phase (wi_requests w ! wait))"

lemma stuck_to_phase:
  assumes "stuck wait envelope w" and "left_phase p \<or> i \<noteq> wait" and "se_chans s ! wait = se_chans (wi_session w) ! wait"
  shows "stuck wait envelope (to_phase i p s w)"
  using assms by (cases "i = wait") (auto simp: stuck_def to_phase_def)

lemma stuck_step: "session_step marshal_env w w' \<Longrightarrow> wire_inv w \<Longrightarrow> stuck wait envelope w \<Longrightarrow> stuck wait envelope w'"
proof (induction rule: session_step.induct)
  case (alloc w s i wait' operation raw)
  then show ?case by (auto simp: stuck_def request_id_def Let_def nth_append wire_inv_def)
next
  case (insert w i)
  then show ?case by (intro stuck_to_phase) (auto simp: stuck_def request_insert_def)
next
  case (send w i s)
  then show ?case using Session_Write_frame [OF send(2)] by (intro stuck_to_phase) (auto simp: stuck_def)
next
  case (send_failed w i s e)
  then show ?case using Session_Write_frame [OF send_failed(2)] by (intro stuck_to_phase) (auto simp: stuck_def)
next
  case (receive w i s envelope')
  then have "i \<noteq> wait" "rq_chan (wi_requests w ! i) = i" by (auto simp: stuck_def wire_invD(3))
  then show ?case using receive
    by (intro stuck_to_phase) (auto simp: request_receive_def split: list.splits)
next
  case (give_up w i ctx_err)
  then show ?case by (intro stuck_to_phase) auto
next
  case (leave w i r)
  then show ?case by (intro stuck_to_phase) (auto simp: request_delete_def)
next
  case (deliver w wait' envelope' s)
  have "ccap (se_chans (wi_session w) ! wait) = 1"
    using deliver(3,4) wire_invD(1) by (simp add: stuck_def good_request_def)
  then show ?case using deliver by (auto simp: stuck_def Complete_send_def Let_def split: if_splits)
qed (auto simp: stuck_def)

text \<open>C37. A second response to a request blocks the connection for good: when the reader holds a response for a
  request that has already left while the channel still holds an unread response, no continuation
  of any kind lets the reader finish the send, so it never reads another frame.\<close>

theorem duplicate_response_blocks_reader:
  assumes "wire_reachable marshal_env w" and "wi_reader w = Sending wait envelope"
    and "cbuf (se_chans (wi_session w) ! wait) \<noteq> []" and "left_phase (rq_phase (wi_requests w ! wait))"
    and "(session_step marshal_env)\<^sup>*\<^sup>* w w'"
  shows "wi_reader w' = Sending wait envelope \<and> Complete_send wait envelope (wi_session w') = None"
proof -
  have inv: "wire_inv w" by (rule reachable_wire_inv [OF assms(1)])
  have start: "stuck wait envelope w" using inv assms(2-4) by (simp add: stuck_def wire_inv_def Let_def)
  have "wire_inv w' \<and> stuck wait envelope w'"
    using assms(5) by (induction rule: rtranclp_induct) (auto simp: inv start intro: wire_inv_step stuck_step)
  then show ?thesis
    using wire_invD(1) [of w' wait]
    by (auto simp: stuck_def Complete_send_def good_request_def Let_def neq_Nil_conv)
qed

theorem duplicate_response_blocks_reader_witness:
  "Complete_send 0 sample_response (wi_session wire_blocked) = None"
proof -
  define w where "w = wire5\<lparr>wi_reader := Sending 0 sample_response\<rparr>"
  have "session_step sample_marshal wire5 w"
    unfolding w_def by (rule session_step.find) code_simp+
  moreover have "session_step sample_marshal w wire_blocked"
    unfolding wire_blocked_def Let_def w_def by (rule session_step.give_up) code_simp
  ultimately have r: "wire_reachable sample_marshal wire_blocked"
    using wire5_reachable by (meson wire_reachable.step)
  have s: "wi_reader wire_blocked = Sending 0 sample_response" "cbuf (se_chans (wi_session wire_blocked) ! 0) \<noteq> []"
    "left_phase (rq_phase (wi_requests wire_blocked ! 0))"
    by code_simp+
  from duplicate_response_blocks_reader [OF r s rtranclp.rtrancl_refl] show ?thesis by blast
qed

end
