(* ===== verification/WS_Server.thy ===== *)
theory WS_Server
  imports WS_Session Plugin_Transports
begin

text \<open>
  The WebSocket server (\<open>transport/ws/server.go\<close>), the session registry and the remote invoker
  (\<open>transport/ws/session.go\<close>).

  \<^item> The state the connections share is the record \<open>Hub\<close>: the plugin host, the session registry
    and the list of sessions, into which a \<open>*Session\<close> is an index.
  \<^item> What other goroutines do to the shared state while a connection is served is an argument, the
    record \<open>Environment\<close>: a change of the hub before each round of the loop, whether the context
    is done by then, the clock readings of the host call, and, when the reader has to wait for a
    full response channel, the state in which it goes on, if it ever does. One round of the loop
    (read, dispatch, bind, answer) is otherwise undisturbed.
  \<^item> JSON codecs are arguments, as are SHA-1 and base64, whose result is only written out.
\<close>

section \<open>Session registry\<close>

record 'r Hub =
  hub_host :: "'r Host"
  hub_sessions :: "(string, nat) gomap"
  hub_heap :: "Session list"

definition sessionKey :: "string \<Rightarrow> string \<Rightarrow> string" where
  "sessionKey pluginID instanceID = pluginID @ [CHR 0x00] @ instanceID"

definition Sessions_Bind :: "string \<Rightarrow> string \<Rightarrow> nat \<Rightarrow> 'r Hub \<Rightarrow> 'r Hub" where
  "Sessions_Bind pluginID instanceID session r =
     (if pluginID = [] \<or> instanceID = [] then r
      else r\<lparr>hub_heap := (hub_heap r)[session := setPlugin pluginID instanceID (hub_heap r ! session)],
             hub_sessions := mput (hub_sessions r) (sessionKey pluginID instanceID) session\<rparr>)"

definition Sessions_Get :: "'r Hub \<Rightarrow> string \<Rightarrow> string \<Rightarrow> nat option" where
  "Sessions_Get r pluginID instanceID =
     (if pluginID = [] \<or> instanceID = [] then None
      else mget (hub_sessions r) (sessionKey pluginID instanceID))"

definition Sessions_Unbind :: "string \<Rightarrow> string \<Rightarrow> 'r Hub \<Rightarrow> 'r Hub" where
  "Sessions_Unbind pluginID instanceID r =
     (if pluginID = [] \<or> instanceID = [] then r
      else r\<lparr>hub_sessions := mdel (hub_sessions r) (sessionKey pluginID instanceID)\<rparr>)"

fun unbind_loop :: "nat \<Rightarrow> (string, nat) gomap \<Rightarrow> (string, nat) gomap \<Rightarrow> (string, nat) gomap" where
  "unbind_loop session [] m = m"
| "unbind_loop session ((k, candidate) # rest) m =
     unbind_loop session rest (if candidate = session then mdel m k else m)"

definition Sessions_UnbindSession :: "nat \<Rightarrow> 'r Hub \<Rightarrow> 'r Hub" where
  "Sessions_UnbindSession session r = r\<lparr>hub_sessions := unbind_loop session (hub_sessions r) (hub_sessions r)\<rparr>"

section \<open>Remote invoker\<close>

text \<open>The outcome of \<open>Session.Request\<close> is an argument; the session it is made on comes from the registry.\<close>

definition Remote_Invoke ::
    "(nat \<Rightarrow> string \<Rightarrow> InvokeRequest \<Rightarrow> Envelope \<times> goerror option) \<Rightarrow> (json \<Rightarrow> InvokeResponse result) \<Rightarrow>
     'r Hub \<Rightarrow> PluginSnapshot \<Rightarrow> InvokeRequest \<Rightarrow> json result" where
  "Remote_Invoke request un_response r remote req =
     (case Sessions_Get r (PluginID remote) (InstanceID remote) of
        None \<Rightarrow> Inl ErrTransportUnavailable
      | Some session \<Rightarrow>
          (case request session OperationInvoke req of
             (envelope, Some e) \<Rightarrow> Inl e
           | (envelope, None) \<Rightarrow>
               (case un_response (env_Payload envelope) of
                  Inl e \<Rightarrow> Inl e
                | Inr response \<Rightarrow> Inr (invr_Result response))))"

definition Remote_PushEvent ::
    "(nat \<Rightarrow> string \<Rightarrow> PushEventRequest \<Rightarrow> Envelope \<times> goerror option) \<Rightarrow> 'r Hub \<Rightarrow> PluginSnapshot \<Rightarrow>
     PushEventRequest \<Rightarrow> goerror option" where
  "Remote_PushEvent request r remote req =
     (case Sessions_Get r (PluginID remote) (InstanceID remote) of
        None \<Rightarrow> Some ErrTransportUnavailable
      | Some session \<Rightarrow> snd (request session OperationPushEvent req))"

section \<open>Handshake\<close>

text \<open>
  \<open>strings.EqualFold\<close> against an ASCII constant: ASCII letters fold to lower case, and so do the
  Kelvin sign U+212A (to k) and the long s U+017F (to s).
\<close>

fun fold_ascii :: "string \<Rightarrow> string" where
  "fold_ascii (a # b # c # s) =
     (if a = CHR 0xE2 \<and> b = CHR 0x84 \<and> c = CHR 0xAA then CHR ''k'' # fold_ascii s
      else if a = CHR 0xC5 \<and> b = CHR 0xBF then CHR ''s'' # fold_ascii (c # s)
      else lower_byte a # fold_ascii (b # c # s))"
| "fold_ascii [a, b] = (if a = CHR 0xC5 \<and> b = CHR 0xBF then ''s'' else [lower_byte a, lower_byte b])"
| "fold_ascii [a] = [lower_byte a]"
| "fold_ascii [] = []"

definition EqualFold :: "string \<Rightarrow> string \<Rightarrow> bool" where
  "EqualFold s t \<longleftrightarrow> fold_ascii s = fold_ascii t"

fun Contains :: "string \<Rightarrow> string \<Rightarrow> bool" where
  "Contains [] sub \<longleftrightarrow> sub = []"
| "Contains (c # s) sub \<longleftrightarrow> take (length sub) (c # s) = sub \<or> Contains s sub"

record HttpUpgrade =
  hd_Upgrade :: string
  hd_Connection :: string
  hd_Key :: string
  hd_hijack :: "Writer result option"

definition isWebSocketRequest :: "HttpUpgrade \<Rightarrow> bool" where
  "isWebSocketRequest r \<longleftrightarrow> EqualFold (hd_Upgrade r) ''websocket'' \<and> Contains (ToLower (hd_Connection r)) ''upgrade''"

definition acceptKey :: "(string \<Rightarrow> string) \<Rightarrow> (string \<Rightarrow> string) \<Rightarrow> string \<Rightarrow> string" where
  "acceptKey sha1 base64 k = base64 (sha1 (k @ websocketGUID))"

text \<open>The bytes of a Go string.\<close>

definition bytes_of :: "string \<Rightarrow> byte list" where
  "bytes_of s = map (\<lambda>c. of_nat (of_char c)) s"

fun write_strings :: "Writer \<Rightarrow> string list \<Rightarrow> Writer \<times> goerror option" where
  "write_strings w [] = Writer_Flush w"
| "write_strings w (s # ss) =
     (case Writer_Write w (bytes_of s) of (w, Some e) \<Rightarrow> (w, Some e) | (w, None) \<Rightarrow> write_strings w ss)"

abbreviation crlf :: string where "crlf \<equiv> [CHR 0x0D, CHR 0x0A]"

section \<open>Serving frames\<close>

record WsCodec =
  un_envelope :: "byte list \<Rightarrow> Envelope option"
  marshal_envelope :: "Envelope \<Rightarrow> byte list result"
  un_registerResponse :: "json \<Rightarrow> RegisterResponse option"
  un_unregisterResponse :: "json \<Rightarrow> UnregisterResponse option"

record 'r Environment =
  ev_rely :: "nat \<Rightarrow> 'r Hub \<Rightarrow> 'r Hub"
  ev_done :: "nat \<Rightarrow> goerror option"
  ev_clocks :: "nat \<Rightarrow> clocks"
  ev_wait :: "nat \<Rightarrow> 'r Hub \<Rightarrow> 'r Hub option"

datatype Outcome = Continue | Return "goerror option" | Hang

definition on_session :: "nat \<Rightarrow> (Session \<Rightarrow> Session) \<Rightarrow> 'r Hub \<Rightarrow> 'r Hub" where
  "on_session session f r = r\<lparr>hub_heap := (hub_heap r)[session := f (hub_heap r ! session)]\<rparr>"

definition bindSessionAfterDispatch :: "WsCodec \<Rightarrow> nat \<Rightarrow> Envelope \<Rightarrow> 'r Hub \<Rightarrow> 'r Hub" where
  "bindSessionAfterDispatch wc session envelope r =
     (if env_Error envelope \<noteq> None then r
      else if env_Operation envelope = OperationRegister then
        (case un_registerResponse wc (env_Payload envelope) of
           Some response \<Rightarrow>
             if PluginID (regr_Plugin response) \<noteq> [] \<and> InstanceID (regr_Plugin response) \<noteq> []
             then Sessions_Bind (PluginID (regr_Plugin response)) (InstanceID (regr_Plugin response)) session r
             else r
         | None \<Rightarrow> r)
      else if env_Operation envelope = OperationUnregister then
        (case un_unregisterResponse wc (env_Payload envelope) of
           Some response \<Rightarrow>
             if unr_PluginID response \<noteq> [] \<and> unr_InstanceID response \<noteq> []
             then Sessions_Unbind (unr_PluginID response) (unr_InstanceID response) r
             else r
         | None \<Rightarrow> r)
      else r)"

text \<open>\<open>session.Complete\<close> on the shared state: a full channel waits for the environment to make room.\<close>

definition serve_complete ::
    "'r Environment \<Rightarrow> nat \<Rightarrow> nat \<Rightarrow> Envelope \<Rightarrow> 'r Hub \<Rightarrow> ('r Hub \<times> Outcome) option" where
  "serve_complete ev n session envelope r =
     (case Complete_find (hub_heap r ! session) envelope of
        None \<Rightarrow> None
      | Some wait \<Rightarrow>
          (case Complete_send wait envelope (hub_heap r ! session) of
             Some s \<Rightarrow> Some (on_session session (\<lambda>_. s) r, Continue)
           | None \<Rightarrow>
               (case ev_wait ev n r of
                  None \<Rightarrow> Some (r, Hang)
                | Some r \<Rightarrow>
                    (case Complete_send wait envelope (hub_heap r ! session) of
                       Some s \<Rightarrow> Some (on_session session (\<lambda>_. s) r, Continue)
                     | None \<Rightarrow> Some (r, Hang)))))"

definition serve_write :: "WsCodec \<Rightarrow> nat \<Rightarrow> Envelope \<Rightarrow> 'r Hub \<Rightarrow> 'r Hub \<times> Outcome" where
  "serve_write wc session envelope r =
     (case Session_Write (marshal_envelope wc) (hub_heap r ! session) envelope of
        (s, Some e) \<Rightarrow> (on_session session (\<lambda>_. s) r, Return (Some e))
      | (s, None) \<Rightarrow> (on_session session (\<lambda>_. s) r, Continue))"

definition serve_control :: "nat \<Rightarrow> byte \<Rightarrow> byte list \<Rightarrow> 'r Hub \<Rightarrow> 'r Hub \<times> goerror option" where
  "serve_control session opcode payload r =
     (case writeControlFrame (se_writer (hub_heap r ! session)) opcode payload of
        (w, err) \<Rightarrow> (on_session session (se_writer_update (\<lambda>_. w)) r, err))"

definition serve_dispatch ::
    "WsCodec \<Rightarrow> Codec \<Rightarrow> AuthFunc option \<Rightarrow> 'r RegistryOps \<Rightarrow> clocks \<Rightarrow> nat \<Rightarrow> Envelope \<Rightarrow> 'r Hub \<Rightarrow> 'r Hub \<times> Outcome" where
  "serve_dispatch wc cd auth ops cl session envelope r =
     (case ws_Dispatch cd auth ops cl (hub_host r) envelope of
        (h, response) \<Rightarrow>
          serve_write wc session response (bindSessionAfterDispatch wc session response (r\<lparr>hub_host := h\<rparr>)))"

definition serve_frame ::
    "WsCodec \<Rightarrow> Codec \<Rightarrow> AuthFunc option \<Rightarrow> 'r RegistryOps \<Rightarrow> 'r Environment \<Rightarrow> nat \<Rightarrow> nat \<Rightarrow> byte \<Rightarrow> byte list \<Rightarrow>
     'r Hub \<Rightarrow> 'r Hub \<times> Outcome" where
  "serve_frame wc cd auth ops ev n session opcode payload r =
     (if opcode = websocketOpcodeClose then
        (fst (serve_control session websocketOpcodeClose [] r), Return None)
      else if opcode = websocketOpcodePing then
        (case serve_control session websocketOpcodePong payload r of
           (r, Some e) \<Rightarrow> (r, Return (Some e))
         | (r, None) \<Rightarrow> (r, Continue))
      else if opcode = websocketOpcodeText then
        (case un_envelope wc payload of
           None \<Rightarrow>
             serve_write wc session (zero_envelope\<lparr>env_Type := ''response'', env_Error :=
               Some \<lparr>pe_Code = ErrorCodeInvalidPlugin, pe_Message = ''invalid websocket envelope''\<rparr>\<rparr>) r
         | Some envelope \<Rightarrow>
             (case (if EqualFold (env_Type envelope) ''response'' then serve_complete ev n session envelope r else None) of
                Some result \<Rightarrow> result
              | None \<Rightarrow> serve_dispatch wc cd auth ops (ev_clocks ev n) session envelope r))
      else (fst (serve_control session websocketOpcodeClose [] r), Return None))"

lemma readFrame_shorter: "readFrame reader = Inr (opcode, payload, rest) \<Longrightarrow> length rest < length reader"
  by (auto dest!: readFrame_Inr)

function serveFrames ::
    "WsCodec \<Rightarrow> Codec \<Rightarrow> AuthFunc option \<Rightarrow> 'r RegistryOps \<Rightarrow> 'r Environment \<Rightarrow> nat \<Rightarrow> byte list \<Rightarrow> nat \<Rightarrow> 'r Hub \<Rightarrow>
     'r Hub \<times> goerror option option" where
  "serveFrames wc cd auth ops ev n reader session r =
     (let r = ev_rely ev n r in
      case ev_done ev n of
        Some e \<Rightarrow> (r, Some (Some e))
      | None \<Rightarrow>
          (case readFrame reader of
             Inl e \<Rightarrow> (r, Some (if errors_Is e io_EOF then None else Some e))
           | Inr (opcode, payload, reader) \<Rightarrow>
               (case serve_frame wc cd auth ops ev n session opcode payload r of
                  (r, Continue) \<Rightarrow> serveFrames wc cd auth ops ev (Suc n) reader session r
                | (r, Return err) \<Rightarrow> (r, Some err)
                | (r, Hang) \<Rightarrow> (r, None))))"
  by pat_completeness auto
termination
  by (relation "measure (\<lambda>(wc, cd, auth, ops, ev, n, reader, session, r). length reader)")
    (auto dest: readFrame_shorter)

declare serveFrames.simps [simp del]

definition Serve ::
    "(string \<Rightarrow> string) \<Rightarrow> (string \<Rightarrow> string) \<Rightarrow> WsCodec \<Rightarrow> Codec \<Rightarrow> AuthFunc option \<Rightarrow> 'r RegistryOps \<Rightarrow> 'r Environment \<Rightarrow> HttpUpgrade \<Rightarrow> byte list \<Rightarrow>
     'r Hub \<Rightarrow> 'r Hub \<times> goerror option option" where
  "Serve sha1 base64 wc cd auth ops ev req reader r =
     (if \<not> isWebSocketRequest req then (r, Some (Some ErrInvalidWebSocketHandshake))
      else let k = TrimSpace (hd_Key req) in
      if k = [] then (r, Some (Some ErrInvalidWebSocketHandshake))
      else case hd_hijack req of
        None \<Rightarrow> (r, Some (Some (Wrapped ErrInvalidWebSocketHandshake ''response writer does not support hijacking'')))
      | Some (Inl e) \<Rightarrow> (r, Some (Some e))
      | Some (Inr w) \<Rightarrow>
          (case write_strings w [''HTTP/1.1 101 Switching Protocols'' @ crlf, ''Upgrade: websocket'' @ crlf,
                  ''Connection: Upgrade'' @ crlf, ''Sec-WebSocket-Accept: '' @ acceptKey sha1 base64 k @ crlf @ crlf] of
             (w, Some e) \<Rightarrow> (r, Some (Some e))
           | (w, None) \<Rightarrow>
               let session = length (hub_heap r);
                   res = serveFrames wc cd auth ops ev 0 reader session (r\<lparr>hub_heap := hub_heap r @ [NewSession (Some w)]\<rparr>)
               in case res of
                    (r, Some err) \<Rightarrow> (Sessions_UnbindSession session r, Some err)
                  | (r, None) \<Rightarrow> (r, None)))"

end
