(* ===== verification/WS_Properties.thy ===== *)
theory WS_Properties
  imports WS_Server Host_Properties
begin

text \<open>
  The properties of the WebSocket server: which sessions the registry can lead to, and what is left
  of a connection when it ends.
\<close>

section \<open>Registry laws\<close>

lemma set_mdel: "set (mdel m k) = {(k', v) \<in> set m. k' \<noteq> k}"
  by (auto simp: mdel_def AList.delete_eq)

lemma set_unbind_loop: "set (unbind_loop s xs m) = {(k, v) \<in> set m. (k, s) \<notin> set xs}"
  by (induction s xs m rule: unbind_loop.induct) (auto simp: set_mdel)

lemma wf_unbind_loop: "wf_map m \<Longrightarrow> wf_map (unbind_loop s xs m)"
  by (induction s xs m rule: unbind_loop.induct) auto

lemma UnbindSession_gone: "Sessions_Get (Sessions_UnbindSession s r) p i \<noteq> Some s"
  by (auto simp: Sessions_Get_def Sessions_UnbindSession_def set_unbind_loop dest!: mget_SomeD split: if_splits)

lemma UnbindSession_keeps:
  assumes "wf_map (hub_sessions r)" and "t \<noteq> s"
  shows "Sessions_Get (Sessions_UnbindSession s r) p i = Some t \<longleftrightarrow> Sessions_Get r p i = Some t"
  using assms wf_unbind_loop [OF assms(1)] mget_in_set [OF assms(1)]
  by (auto simp: Sessions_Get_def Sessions_UnbindSession_def mget_in_set [symmetric] set_unbind_loop wf_map_def
      dest: eq_key_imp_eq_value)

lemma Get_Bind: "p \<noteq> [] \<Longrightarrow> i \<noteq> [] \<Longrightarrow> Sessions_Get (Sessions_Bind p i s r) p' i' =
   (if p' \<noteq> [] \<and> i' \<noteq> [] \<and> sessionKey p' i' = sessionKey p i then Some s else Sessions_Get r p' i')"
  by (simp add: Sessions_Get_def Sessions_Bind_def)

lemma Get_Unbind: "Sessions_Get (Sessions_Unbind p i r) p' i' = Some s \<Longrightarrow> Sessions_Get r p' i' = Some s"
  by (auto simp: Sessions_Get_def Sessions_Unbind_def split: if_splits)

lemma Get_cong: "hub_sessions r = hub_sessions r' \<Longrightarrow> Sessions_Get r p i = Sessions_Get r' p i"
  by (simp add: Sessions_Get_def)

lemma serve_frames_keep [simp]:
  "hub_sessions (on_session s f r) = hub_sessions r" "hub_host (on_session s f r) = hub_host r"
  "hub_sessions (fst (serve_write wc s envelope r)) = hub_sessions r" "hub_host (fst (serve_write wc s envelope r)) = hub_host r"
  "hub_sessions (fst (serve_control s opcode payload r)) = hub_sessions r"
  by (auto simp: on_session_def serve_write_def serve_control_def split: prod.splits option.splits)

section \<open>Properties\<close>

text \<open>C35. When the serving of a connection ends, for whatever reason and whatever other connections did in the
  meantime, either nothing changed because the handshake failed with an error, or no plugin
  instance is bound to its session any more; and the clean-up removes no binding to another
  session.\<close>

theorem connection_end_unbinds:
  assumes "Serve sha1 base64 wc cd auth ops ev req reader r = (r', Some err)"
    and "wf_map (hub_sessions q)" and "t \<noteq> s"
  shows "(r' = r \<and> err \<noteq> None \<or> (\<forall>p i. Sessions_Get r' p i \<noteq> Some (length (hub_heap r)))) \<and>
     (Sessions_Get (Sessions_UnbindSession s q) p i = Some t \<longleftrightarrow> Sessions_Get q p i = Some t)"
  using assms(1) UnbindSession_keeps [OF assms(2,3)]
  by (auto simp: Serve_def Let_def UnbindSession_gone split: if_splits option.splits sum.splits prod.splits)

lemma Register_accepted:
  assumes "Host_Register Memory_ops cl h req = (h', Inr resp)" and "data_inv (h_registry h)"
  shows "Status (regr_Plugin resp) = StatusOnline \<and> PluginID (regr_Plugin resp) \<noteq> [] \<and> InstanceID (regr_Plugin resp) \<noteq> [] \<and>
     Memory_GetInstance (h_registry h') (PluginID (regr_Plugin resp)) (InstanceID (regr_Plugin resp)) = Inr (regr_Plugin resp)"
proof -
  obtain h1 r1 where b: "Register_body Memory_ops cl h req = (h1, r1)" by fastforce
  have r1: "r1 = Inr (regr_Plugin resp)" "h_registry h' = h_registry h1"
    using assms(1) b by (auto simp: Host_Register_def map_sum_Inr)
  show ?thesis
  proof (cases rule: mem.Register_cases [OF assms(2) b, case_names refused stored])
    case (refused e)
    then show ?thesis using r1 by simp
  next
    case (stored m y reg')
    then show ?thesis using r1 by (simp add: registered_def metadata_ok_def get_Inr_iff)
  qed
qed

lemma Dispatch_register:
  assumes "ws_Dispatch cd auth Memory_ops cl h env = (h', response)" and "env_Error response = None"
    and "env_Operation response = OperationRegister" and "data_inv (h_registry h)"
  shows "\<exists>resp. marshal cd (RRegister resp) = Inr (env_Payload response) \<and> Status (regr_Plugin resp) = StatusOnline \<and>
     Memory_GetInstance (h_registry h') (PluginID (regr_Plugin resp)) (InstanceID (regr_Plugin resp)) = Inr (regr_Plugin resp)"
proof -
  obtain raw where d: "ws_dispatch cd auth Memory_ops cl h env = (h', Inr raw)" "env_Payload response = raw"
      "env_Operation env = OperationRegister"
    using assms(1-3) by (auto simp: ws_Dispatch_def Let_def split: prod.splits sum.splits)
  then obtain req resp where "Host_Register Memory_ops cl h req = (h', Inr resp)" "marshal cd (RRegister resp) = Inr raw"
    by (auto simp: ws_dispatch_def Let_def ws_branch_def ws_encode_def lift_call_def map_sum_Inr
        split: sum.splits option.splits prod.splits) (metis prod.collapse)
  then show ?thesis using Register_accepted [OF _ assms(4)] d(2) by blast
qed

lemma bind_after_dispatch:
  assumes "Sessions_Get (bindSessionAfterDispatch wc session response r) p i = Some t"
  shows "Sessions_Get r p i = Some t \<or>
     (\<exists>resp. env_Error response = None \<and> env_Operation response = OperationRegister \<and> t = session \<and>
        un_registerResponse wc (env_Payload response) = Some resp \<and>
        sessionKey (PluginID (regr_Plugin resp)) (InstanceID (regr_Plugin resp)) = sessionKey p i)"
  using assms
  by (auto simp: bindSessionAfterDispatch_def Get_Bind dest: Get_Unbind split: if_splits option.splits)

lemma bind_keeps_host [simp]: "hub_host (bindSessionAfterDispatch wc session response r) = hub_host r"
  by (simp add: bindSessionAfterDispatch_def Sessions_Bind_def Sessions_Unbind_def split: option.splits)


section \<open>Samples\<close>

definition sample_ws_codec :: WsCodec where
  "sample_ws_codec = \<lparr>un_envelope = (\<lambda>p. if p = [1] then Some \<lparr>env_ID = ''9'', env_Type = ''request'',
       env_Operation = OperationRegister, env_Version = ProtocolVersionV1, env_Payload = ''reg'', env_Error = None\<rparr> else None),
     marshal_envelope = (\<lambda>e. Inr [123, 125]), un_registerResponse = (\<lambda>p. Some \<lparr>regr_Plugin = sample_stored\<rparr>),
     un_unregisterResponse = (\<lambda>p. None)\<rparr>"

definition sample_register_codec :: Codec where
  "sample_register_codec = \<lparr>un_negotiate = (\<lambda>p. None),
     un_register = (\<lambda>p. if p = ''reg'' then Some sample_register else None),
     un_heartbeat = (\<lambda>p. None), un_renewLease = (\<lambda>p. None), un_unregister = (\<lambda>p. None),
     un_healthCheck = (\<lambda>p. None), un_listCapabilities = (\<lambda>p. None), un_invoke = (\<lambda>p. None),
     un_pushEvent = (\<lambda>p. None), un_subscribeEvent = (\<lambda>p. None), un_injectContext = (\<lambda>p. None),
     un_getInjectedSchema = (\<lambda>p. None), un_reportStatus = (\<lambda>p. None), un_syncMetadata = (\<lambda>p. None),
     un_drain = (\<lambda>p. None),
     marshal = (\<lambda>v. if v = RRegister \<lparr>regr_Plugin = sample_stored\<rparr> then Inr ''plugin'' else Inl (ErrOther ''unsupported''))\<rparr>"

definition sample_env :: "Memory Environment" where
  "sample_env = \<lparr>ev_rely = (\<lambda>n r. r), ev_done = (\<lambda>n. None), ev_clocks = (\<lambda>n. sample_clocks), ev_wait = (\<lambda>n r. None)\<rparr>"

definition sample_hub :: "Memory Hub" where
  "sample_hub = \<lparr>hub_host = sample_host, hub_sessions = [], hub_heap = [NewSession (Some sample_writer)]\<rparr>"

text \<open>The hub after the registration frame, and the writer after its answer.\<close>

definition sample_answered :: Writer where
  "sample_answered = sample_writer\<lparr>wr_sent := frame websocketOpcodeText [123, 125], wr_room := 996\<rparr>"

definition sample_bound :: "Memory Hub" where
  "sample_bound = \<lparr>hub_host = sample_registered, hub_sessions = [(sessionKey ''billing'' ''i1'', 0)],
     hub_heap = [setPlugin ''billing'' ''i1'' (NewSession (Some sample_answered))]\<rparr>"

lemma sample_register_result:
  "Host_Register Memory_ops sample_clocks sample_host sample_register = (sample_registered, Inr \<lparr>regr_Plugin = sample_stored\<rparr>)"
proof -
  have "snd (Host_Register Memory_ops sample_clocks sample_host sample_register) = Inr \<lparr>regr_Plugin = sample_stored\<rparr>" by code_simp
  then show ?thesis unfolding sample_registered_def by (metis prod.collapse)
qed

lemma sample_stored_ids: "PluginID sample_stored = ''billing''" "InstanceID sample_stored = ''i1''"
  by code_simp+

lemma sample_write:
  "Session_Write (marshal_envelope sample_ws_codec) (setPlugin p i (NewSession (Some sample_writer))) envelope =
     (setPlugin p i (NewSession (Some sample_answered)), None)"
  by (simp add: Session_Write_def setPlugin_def NewSession_def sample_ws_codec_def sample_writer_def writeFrame_ok
      Writer_Flush_def sample_answered_def frame_def frame_header_def)

lemma sample_serve:
  "serve_frame sample_ws_codec sample_register_codec None Memory_ops sample_env 0 0 websocketOpcodeText [1] sample_hub =
     (sample_bound, Continue)"
  by (simp add: serve_frame_def sample_ws_codec_def [THEN arg_cong [of _ _ un_envelope]] EqualFold_def lower_byte_def
      serve_dispatch_def sample_env_def sample_hub_def ws_Dispatch_def ws_dispatch_def ws_branch_def ws_decode_def
      sample_register_codec_def ws_authorize_def lift_call_def sample_register_result ws_encode_def
      bindSessionAfterDispatch_def sample_ws_codec_def [THEN arg_cong [of _ _ un_registerResponse]] sample_stored_ids
      Sessions_Bind_def serve_write_def sample_write on_session_def sample_bound_def mput_def)


definition sample_upgrade :: HttpUpgrade where
  "sample_upgrade = \<lparr>hd_Upgrade = ''WebSocket'', hd_Connection = ''keep-alive, Upgrade'', hd_Key = ''x3JJHMbDL1EzLkh9GBhXDw=='',
     hd_hijack = Some (Inr sample_writer)\<rparr>"

theorem connection_end_unbinds_witness:
  "\<forall>p i. Sessions_Get (fst (Serve (\<lambda>k. k) (\<lambda>k. k) sample_ws_codec sample_register_codec None Memory_ops sample_env sample_upgrade
      [] sample_bound)) p i \<noteq> Some 1"
proof -
  define res where "res = Serve (\<lambda>k. k) (\<lambda>k. k) sample_ws_codec sample_register_codec None Memory_ops sample_env sample_upgrade
      [] sample_bound"
  have n: "snd res = Some None" "length (hub_heap sample_bound) = 1" unfolding res_def by code_simp+
  have "res = (fst res, Some None)" by (simp add: n [symmetric])
  moreover have "wf_map (hub_sessions sample_bound)" by code_simp
  ultimately have "\<forall>p i. Sessions_Get (fst res) p i \<noteq> Some (length (hub_heap sample_bound))"
    using connection_end_unbinds [of "\<lambda>k. k" "\<lambda>k. k" sample_ws_codec sample_register_codec None Memory_ops sample_env
        sample_upgrade "[]" sample_bound "fst res" None sample_bound 0 1] zero_neq_one unfolding res_def by blast
  then show ?thesis unfolding n(2) res_def .
qed

section \<open>The loop ends\<close>

lemma serve_frame_no_hang:
  assumes "\<And>k envelope q q'. serve_complete ev k session envelope q \<noteq> Some (q', Hang)"
    and "serve_frame wc cd auth ops ev n session opcode payload r = (r', Hang)"
  shows False
  using assms(2) assms(1)
  by (auto simp: serve_frame_def serve_write_def serve_dispatch_def split: if_splits option.splits prod.splits)


text \<open>An environment whose requesters take every response at once.\<close>

definition taken :: "Session \<Rightarrow> Session" where
  "taken s = s\<lparr>se_chans := replicate (Suc (sum_list (map snd (se_pending s)))) \<lparr>cbuf = [], ccap = 1, cclosed = False\<rparr>\<rparr>"

definition taking_env :: "Memory Environment" where
  "taking_env = sample_env\<lparr>ev_wait := (\<lambda>n r. Some (r\<lparr>hub_heap := [taken (hub_heap r ! 0)]\<rparr>))\<rparr>"

lemma taken_room: "mget (se_pending s) k = Some wait \<Longrightarrow> Complete_send wait envelope (taken s) \<noteq> None"
proof -
  assume "mget (se_pending s) k = Some wait"
  then have "wait \<in> set (map snd (se_pending s))" by (force dest: mget_SomeD)
  then have "wait \<le> sum_list (map snd (se_pending s))" by (simp add: member_le_sum_list)
  then show ?thesis by (simp add: taken_def Complete_send_def Let_def del: replicate_Suc)
qed


section \<open>Unregistering with padded identifiers\<close>

text \<open>The host trims the plugin id of an unregistration, but its answer echoes the id as it was sent and the
  session registry looks for exactly that id: when the id has white space around it, the instance
  goes offline and the session stays bound to it.\<close>

theorem padded_unregister_keeps_binding:
  assumes "data_inv (h_registry h)" and "h_enabled h"
    and "\<not> blank (un_PluginID req)" and "\<not> blank (un_InstanceID req)"
    and "Memory_GetInstance (h_registry h) (un_PluginID req) (un_InstanceID req) = Inr x"
    and "Host_Unregister Memory_ops cl h req = (h', Inr resp)"
    and "p = TrimSpace (un_PluginID req)" and "p \<noteq> un_PluginID req" and "i = un_InstanceID req"
    and "env_Error answer = None" and "env_Operation answer = OperationUnregister"
    and "un_unregisterResponse wc (env_Payload answer) = Some resp"
  shows "(\<exists>y. Memory_GetInstance (h_registry h') p i = Inr y \<and> Status y = StatusOffline) \<and>
     Sessions_Get (bindSessionAfterDispatch wc session answer r) p i = Sessions_Get r p i"
proof -
  have x: "memory_lookup (h_registry h) (key (un_PluginID req) (un_InstanceID req)) = Some x"
    using assms(5) by (simp add: get_Inr_iff)
  have u: "resp = \<lparr>unr_PluginID = un_PluginID req, unr_InstanceID = un_InstanceID req, unr_Status = StatusOffline\<rparr>"
    "\<exists>y. memory_lookup (h_registry h') (key (un_PluginID req) (un_InstanceID req)) = Some y \<and> Status y = StatusOffline"
    using mem.Unregister_ok [OF assms(1-4), of cl] assms(6) x by (auto simp: Host_Unregister_def)
  have "key p i = key (un_PluginID req) (un_InstanceID req)" by (simp add: key_def assms(7,9))
  then have "\<exists>y. Memory_GetInstance (h_registry h') p i = Inr y \<and> Status y = StatusOffline"
    using u(2) by (simp add: get_Inr_iff)
  moreover have "sessionKey p i \<noteq> sessionKey (un_PluginID req) i" using assms(8) by (simp add: sessionKey_def)
  ultimately show ?thesis using assms(10-12) u(1)
    by (simp add: bindSessionAfterDispatch_def Sessions_Unbind_def Sessions_Get_def assms(9))
qed

theorem padded_unregister_keeps_binding_witness:
  "Sessions_Get (bindSessionAfterDispatch (sample_ws_codec\<lparr>un_unregisterResponse := (\<lambda>p. Some \<lparr>unr_PluginID = '' billing'',
       unr_InstanceID = ''i1'', unr_Status = StatusOffline\<rparr>)\<rparr>) 0 (zero_envelope\<lparr>env_Operation := OperationUnregister\<rparr>) sample_bound)
     ''billing'' ''i1'' = Some 0"
proof -
  define req where "req = sample_unregister\<lparr>un_PluginID := '' billing''\<rparr>"
  have ids: "un_PluginID req = '' billing''" "un_InstanceID req = ''i1''"
    by (simp_all add: req_def sample_unregister_def zero_meta_def RequestMeta.defs UnregisterRequest.defs)
  have trim: "TrimSpace '' billing'' = ''billing''" "TrimSpace ''i1'' = ''i1''" by code_simp+
  have k: "key '' billing'' ''i1'' = key ''billing'' ''i1''" by code_simp
  have b: "\<not> blank (un_PluginID req)" "\<not> blank (un_InstanceID req)" by (simp_all add: ids trim)
  have g: "Memory_GetInstance (h_registry sample_registered) (un_PluginID req) (un_InstanceID req) = Inr sample_stored"
    using sample_stored_get by (simp add: ids get_Inr_iff k)
  define h' where "h' = fst (Host_Unregister Memory_ops sample_clocks sample_registered req)"
  have u: "Host_Unregister Memory_ops sample_clocks sample_registered req =
      (h', Inr \<lparr>unr_PluginID = '' billing'', unr_InstanceID = ''i1'', unr_Status = StatusOffline\<rparr>)"
    using mem.Unregister_ok [OF sample_registered_inv sample_registered_on b, of sample_clocks] g
    by (auto simp: Host_Unregister_def h'_def ids get_Inr_iff)
  have p: "''billing'' = TrimSpace (un_PluginID req)" "''billing'' \<noteq> un_PluginID req" "''i1'' = un_InstanceID req"
    by (simp_all add: ids trim)
  have "Sessions_Get sample_bound ''billing'' ''i1'' = Some 0"
    by (simp add: Sessions_Get_def sample_bound_def mget_def)
  then show ?thesis
    using padded_unregister_keeps_binding [OF sample_registered_inv sample_registered_on b g u p,
        of "zero_envelope\<lparr>env_Operation := OperationUnregister\<rparr>" "sample_ws_codec\<lparr>un_unregisterResponse := (\<lambda>p. Some
          \<lparr>unr_PluginID = '' billing'', unr_InstanceID = ''i1'', unr_Status = StatusOffline\<rparr>)\<rparr>" 0 sample_bound]
    by (simp add: zero_envelope_def)
qed

end
