(* ===== verification/Registry_Refinement.thy ===== *)
theory Registry_Refinement
  imports Registry_Properties
begin

text \<open>
  The in-process registry refines a map from identifier pairs to instances. The specification has
  no storage keys, locks, copies or watchers: a command looks up the trimmed (plugin id, instance id)
  pair, changes or replaces that one entry, and answers the new entry or an error. The refinement
  holds for any sequence of commands whose plugin ids have no NUL byte.
\<close>

section \<open>Specification\<close>

datatype RegCommand =
    CRegister PluginSnapshot | CRenew Lease | CUnregister string string gotime
  | CReport string string string string "(string, string) gomap" gotime
  | CSync PluginSnapshot | CExpire gotime

datatype RegAnswer = AError goerror | ASnapshot PluginSnapshot | ADone

type_synonym InstanceMap = "string \<times> string \<Rightarrow> PluginSnapshot option"

definition ids :: "string \<Rightarrow> string \<Rightarrow> string \<times> string" where
  "ids p i = (TrimSpace p, TrimSpace i)"

definition spec_change :: "InstanceMap \<Rightarrow> string \<times> string \<Rightarrow> (PluginSnapshot \<Rightarrow> PluginSnapshot) \<Rightarrow> InstanceMap \<times> RegAnswer" where
  "spec_change A k f =
     (case A k of None \<Rightarrow> (A, AError registry_ErrNotFound) | Some x \<Rightarrow> (A(k \<mapsto> f x), ASnapshot (f x)))"

fun spec_step :: "gotime \<Rightarrow> RegCommand \<Rightarrow> InstanceMap \<Rightarrow> InstanceMap \<times> RegAnswer" where
  "spec_step w (CRegister x) A =
     (if blank (PluginID x) \<or> blank (InstanceID x) then (A, AError registry_ErrInvalid)
      else let y = (case A (ids (PluginID x) (InstanceID x)) of
                      Some old \<Rightarrow> if CreatedAt old \<noteq> 0 then x\<lparr>CreatedAt := CreatedAt old\<rparr> else x
                    | None \<Rightarrow> x)
           in (A(ids (PluginID x) (InstanceID x) \<mapsto> y), ASnapshot y))"
| "spec_step w (CRenew l) A =
     spec_change A (ids (ls_PluginID l) (ls_InstanceID l))
       (\<lambda>x. x\<lparr>Status := StatusOnline, LastHeartbeatAt := utcOrNow w (ls_LastHeartbeatAt l),
          LeaseExpiresAt := utcOrNow w (ls_ExpiresAt l),
          LeaseTTLSeconds := (if 0 < ls_LeaseTTL l then secs (ls_LeaseTTL l) else LeaseTTLSeconds x),
          UpdatedAt := utcOrNow w (ls_LastHeartbeatAt l)\<rparr>)"
| "spec_step w (CUnregister p i now) A =
     (case spec_change A (ids p i) (\<lambda>x. x\<lparr>Status := StatusOffline, RuntimeStatus := [],
          LeaseExpiresAt := utcOrNow w now, UpdatedAt := utcOrNow w now\<rparr>) of
        (A, ASnapshot x) \<Rightarrow> (A, ADone)
      | r \<Rightarrow> r)"
| "spec_step w (CReport p i status runtime metadata now) A =
     spec_change A (ids p i)
       (\<lambda>x. x\<lparr>Status := (if blank status then Status x else TrimSpace status),
          RuntimeStatus := (if blank runtime then RuntimeStatus x else TrimSpace runtime),
          Metadata := (if metadata = [] then Metadata x else mergeMetadata (Metadata x) metadata),
          UpdatedAt := utcOrNow w now\<rparr>)"
| "spec_step w (CSync x) A =
     (if blank (PluginID x) \<or> blank (InstanceID x) then (A, AError registry_ErrInvalid)
      else spec_change A (ids (PluginID x) (InstanceID x)) (backfill x))"
| "spec_step w (CExpire now) A = (\<lambda>k. map_option (expire_snapshot (utcOrNow w now)) (A k), ADone)"

section \<open>Implementation\<close>

fun answer :: "PluginSnapshot result \<Rightarrow> RegAnswer" where
  "answer (Inl e) = AError e"
| "answer (Inr x) = ASnapshot x"

fun memory_step :: "gotime \<Rightarrow> RegCommand \<Rightarrow> Memory \<Rightarrow> Memory \<times> RegAnswer" where
  "memory_step w (CRegister x) m = map_prod id answer (Memory_RegisterInstance w m x)"
| "memory_step w (CRenew l) m = map_prod id answer (Memory_RenewLease w m l)"
| "memory_step w (CUnregister p i now) m =
     map_prod id (case_option ADone AError) (Memory_UnregisterInstance w m p i now)"
| "memory_step w (CReport p i status runtime metadata now) m =
     map_prod id answer (Memory_ReportStatus w m p i status runtime metadata now)"
| "memory_step w (CSync x) m = map_prod id answer (Memory_SyncMetadata w m x)"
| "memory_step w (CExpire now) m = map_prod id (\<lambda>r. ADone) (Memory_ExpireLeases w m now)"

fun run :: "(gotime \<Rightarrow> RegCommand \<Rightarrow> 's \<Rightarrow> 's \<times> RegAnswer) \<Rightarrow> (gotime \<times> RegCommand) list \<Rightarrow> 's \<Rightarrow> 's \<times> RegAnswer list" where
  "run step [] s = (s, [])"
| "run step ((w, c) # cs) s =
     (case step w c s of (s, a) \<Rightarrow> case run step cs s of (s, as) \<Rightarrow> (s, a # as))"

fun command_plugin :: "RegCommand \<Rightarrow> string" where
  "command_plugin (CRegister x) = PluginID x"
| "command_plugin (CRenew l) = ls_PluginID l"
| "command_plugin (CUnregister p i now) = p"
| "command_plugin (CReport p i status runtime metadata now) = p"
| "command_plugin (CSync x) = PluginID x"
| "command_plugin (CExpire now) = []"

text \<open>The abstraction: the entry of a pair is the entry of its storage key.\<close>

definition abs_map :: "Memory \<Rightarrow> InstanceMap" where
  "abs_map m = (\<lambda>(p, i). if CHR 0x00 \<in> set p then None else mget (instances m) (p @ [CHR 0x00] @ i))"

section \<open>Simulation\<close>

lemma nul_split:
  assumes "CHR 0x00 \<notin> set p" and "CHR 0x00 \<notin> set p'"
  shows "p @ CHR 0x00 # i = p' @ CHR 0x00 # i' \<longleftrightarrow> p = p' \<and> i = i'"
  using sep_inject [OF assms, of i i'] by auto

lemma abs_map_ids:
  assumes "CHR 0x00 \<notin> set p"
  shows "abs_map m (ids p i) = mget (instances m) (key p i)"
  using assms set_TrimSpace [of p] by (auto simp: abs_map_def ids_def key_def)

lemma abs_map_put:
  assumes "CHR 0x00 \<notin> set p" and "instances m' = mput (instances m) (key p i) x"
  shows "abs_map m' = (abs_map m)(ids p i \<mapsto> x)"
proof
  fix k
  have "CHR 0x00 \<notin> set (TrimSpace p)" using assms(1) set_TrimSpace [of p] by blast
  then show "abs_map m' k = ((abs_map m)(ids p i \<mapsto> x)) k"
    by (cases k) (auto simp: abs_map_def ids_def key_def assms(2) nul_split)
qed

lemma abs_map_same: "instances m' = instances m \<Longrightarrow> abs_map m' = abs_map m"
  by (simp add: abs_map_def fun_eq_iff)

text \<open>A command that changes one entry: both sides miss it, or both replace it by the same instance.\<close>

lemma refine_change:
  assumes "CHR 0x00 \<notin> set p"
    and "mget (instances m) (key p i) = None \<Longrightarrow> m' = m \<and> a = AError registry_ErrNotFound"
    and "\<And>x. mget (instances m) (key p i) = Some x \<Longrightarrow>
       instances m' = mput (instances m) (key p i) (f x) \<and> a = ASnapshot (f x)"
  shows "spec_change (abs_map m) (ids p i) f = (abs_map m', a)"
  using assms(2,3) abs_map_put [OF assms(1), of m' m i]
  by (cases "mget (instances m) (key p i)") (simp_all add: spec_change_def abs_map_ids [OF assms(1)])

lemma refine_register:
  assumes "CHR 0x00 \<notin> set (PluginID x)" and "Memory_RegisterInstance w m x = (m', r)"
  shows "spec_step w (CRegister x) (abs_map m) = (abs_map m', answer r)"
proof (cases "validateSnapshot x")
  case (Some e)
  then show ?thesis using assms(2)
    by (auto simp: Memory_RegisterInstance_def validateSnapshot_def split: if_splits)
next
  case None
  obtain c where c: "r = Inr (x\<lparr>CreatedAt := c\<rparr>)"
      "instances m' = mput (instances m) (key (PluginID x) (InstanceID x)) (x\<lparr>CreatedAt := c\<rparr>)"
      "c = (case mget (instances m) (key (PluginID x) (InstanceID x)) of
              Some y \<Rightarrow> if CreatedAt y = 0 then CreatedAt x else CreatedAt y | None \<Rightarrow> CreatedAt x)"
    using Memory_register_spec [OF None, of w m] assms(2) by auto
  have "\<not> blank (PluginID x)" "\<not> blank (InstanceID x)" using None by (auto simp: validateSnapshot_def split: if_splits)
  then show ?thesis using c(1,3) abs_map_put [OF assms(1) c(2)]
    by (auto simp: abs_map_ids [OF assms(1)] Let_def split: option.splits)
qed

lemma refine_expire:
  assumes "data_inv m" and "Memory_ExpireLeases w m now = (m', r)"
  shows "spec_step w (CExpire now) (abs_map m) = (abs_map m', ADone)"
  using data_inv_expire(2) [OF assms(1), of w now] assms(2) by (auto simp: abs_map_def fun_eq_iff)

lemma refine_step:
  assumes "data_inv m" and "CHR 0x00 \<notin> set (command_plugin c)" and "memory_step w c m = (m', a)"
  shows "spec_step w c (abs_map m) = (abs_map m', a) \<and> data_inv m'"
proof (intro conjI)
  have "m' = fst (memory_step w c m)" using assms(3) by simp
  then show "data_inv m'" by (cases c) (simp_all add: data_inv_ops assms(1))
  show "spec_step w c (abs_map m) = (abs_map m', a)"
  proof (cases c)
    case (CRegister x)
    then show ?thesis using assms(2,3) by (auto simp: map_prod_def refine_register split: prod.splits simp del: spec_step.simps)
  next
    case (CRenew l)
    show ?thesis using assms(2,3) unfolding CRenew spec_step.simps
      by (intro refine_change) (auto simp: Memory_RenewLease_def Let_def)
  next
    case (CUnregister p i now)
    have "spec_change (abs_map m) (ids p i) (\<lambda>x. x\<lparr>Status := StatusOffline, RuntimeStatus := [],
        LeaseExpiresAt := utcOrNow w now, UpdatedAt := utcOrNow w now\<rparr>) =
      (abs_map m', case mget (instances m) (key p i) of None \<Rightarrow> AError registry_ErrNotFound
         | Some x \<Rightarrow> ASnapshot (x\<lparr>Status := StatusOffline, RuntimeStatus := [],
        LeaseExpiresAt := utcOrNow w now, UpdatedAt := utcOrNow w now\<rparr>))"
      using assms(2,3) unfolding CUnregister
      by (intro refine_change) (auto simp: Memory_UnregisterInstance_def Let_def)
    then show ?thesis using assms(3) unfolding CUnregister
      by (auto simp: Memory_UnregisterInstance_def Let_def split: option.splits)
  next
    case (CReport p i status runtime metadata now)
    show ?thesis using assms(2,3) unfolding CReport spec_step.simps
      by (intro refine_change) (auto simp: Memory_ReportStatus_def Let_def)
  next
    case (CSync x)
    then show ?thesis
    proof (cases "validateSnapshot x")
      case (Some e)
      then show ?thesis using assms(3) unfolding CSync
        by (auto simp: Memory_SyncMetadata_def validateSnapshot_def split: if_splits)
    next
      case None
      have "spec_change (abs_map m) (ids (PluginID x) (InstanceID x)) (backfill x) = (abs_map m', a)"
        using assms(2,3) None unfolding CSync
        by (intro refine_change) (auto simp: Memory_SyncMetadata_def Let_def)
      with None show ?thesis unfolding CSync by (auto simp: validateSnapshot_def split: if_splits)
    qed
  next
    case (CExpire now)
    then show ?thesis using assms(3) refine_expire [OF assms(1)]
      by (auto simp: map_prod_def split: prod.splits simp del: spec_step.simps)
  qed
qed

lemma run_refines:
  "data_inv m \<Longrightarrow> \<forall>(w, c) \<in> set cs. CHR 0x00 \<notin> set (command_plugin c) \<Longrightarrow> run memory_step cs m = (m', as) \<Longrightarrow>
   run spec_step cs (abs_map m) = (abs_map m', as) \<and> data_inv m'"
proof (induction cs arbitrary: m as)
  case Nil
  then show ?case by simp
next
  case (Cons wc cs)
  obtain w c where wc: "wc = (w, c)" by fastforce
  obtain m1 a where s: "memory_step w c m = (m1, a)" by fastforce
  then have r: "spec_step w c (abs_map m) = (abs_map m1, a)" "data_inv m1"
    using refine_step [OF Cons.prems(1) _ s] Cons.prems(2) by (auto simp: wc)
  obtain as' where as: "run memory_step cs m1 = (m', as')" "as = a # as'"
    using Cons.prems(3) by (auto simp: wc s split: prod.splits)
  show ?case using Cons.IH [OF r(2) _ as(1)] Cons.prems(2) r(1) by (auto simp: wc as(2))
qed

section \<open>Property\<close>

text \<open>C2. The in-process registry refines the map specification: for any sequence of registrations, renewals,
  removals, status reports, synchronizations and lease sweeps with plugin ids free of NUL bytes,
  from any state that satisfies the invariant and at any clock readings, it gives the answers of
  the specification, and its state stands for the specification's state and keeps the invariant.\<close>

theorem memory_refines_map:
  assumes "data_inv m" and "\<forall>(w, c) \<in> set cs. CHR 0x00 \<notin> set (command_plugin c)"
    and "run memory_step cs m = (m', as)"
  shows "run spec_step cs (abs_map m) = (abs_map m', as) \<and> data_inv m'"
  by (rule run_refines [OF assms])

theorem memory_refines_map_witness:
  "snd (run spec_step [(9, CRegister sample_snapshot), (12, CUnregister ''other'' ''i9'' 0)] (abs_map NewMemory)) =
     [ASnapshot sample_snapshot, AError registry_ErrNotFound]"
proof -
  define cs where "cs = [(9 :: gotime, CRegister sample_snapshot), (12, CUnregister ''other'' ''i9'' 0)]"
  have a: "snd (run memory_step cs NewMemory) = [ASnapshot sample_snapshot, AError registry_ErrNotFound]"
    unfolding cs_def by code_simp
  have nul: "\<forall>(w, c) \<in> set cs. CHR 0x00 \<notin> set (command_plugin c)" unfolding cs_def by code_simp
  obtain m' as where r: "run memory_step cs NewMemory = (m', as)" by fastforce
  show ?thesis using memory_refines_map [OF data_inv_NewMemory nul r] a r by (simp add: cs_def)
qed

end
