(* ===== verification/Registry_SQL.thy ===== *)
theory Registry_SQL
  imports Registry_Memory
begin

text \<open>
  The SQL registry, \<open>registry/sqlstore.go\<close>, over the tables of
  \<open>internal/migrations/20260615000100_create_plugin_registry.sql\<close>.

  \<^item> A table is the list of its rows. \<open>DELETE\<close>, \<open>UPDATE\<close> and \<open>SELECT\<close> work on the rows that
    match, an \<open>INSERT\<close> fails when the primary key exists. Columns hold the values written.
  \<^item> Every statement, \<open>BeginTx\<close> and \<open>Commit\<close> may fail: the database state carries the
    outcomes of the statements to come (\<open>db_faults\<close>; none left means no more failures). A
    transaction that fails, or whose commit fails, leaves the tables as they were.
  \<^item> The JSON codecs are arguments; a decoder is the function from the text to what the Go variable
    holds after \<open>json.Unmarshal\<close>, whose error the code ignores.
  \<^item> The store and its database exist: the checks of the code for a nil receiver are left out.
  \<^item> \<open>Watch\<close> is \<open>NewPollWatcher(s).Watch\<close>, the watcher of \<open>Registry_Watcher\<close>.
\<close>

section \<open>Tables\<close>

record InstanceRow =
  ir_plugin_id :: string
  ir_instance_id :: string
  ir_name :: string
  ir_version :: string
  ir_protocol :: string
  ir_transport :: string
  ir_endpoint :: string
  ir_status :: string
  ir_runtime_status :: string
  ir_schema_version :: string
  ir_owner_host :: string
  ir_lease_ttl_seconds :: int
  ir_lease_expires_at :: gotime
  ir_registered_at :: gotime
  ir_last_heartbeat_at :: gotime
  ir_created_at :: gotime
  ir_updated_at :: gotime
  ir_permissions_json :: json
  ir_hooks_json :: json
  ir_metadata_json :: json
  ir_capabilities_json :: json

record CapabilityRow =
  cr_plugin_id :: string
  cr_instance_id :: string
  cr_capability :: string
  cr_version :: string
  cr_scope :: string
  cr_permissions_json :: json
  cr_input_schema :: json
  cr_output_schema :: json
  cr_secret_policy :: string
  cr_description :: string
  cr_updated_at :: gotime

record SubscriptionRow =
  es_plugin_id :: string
  es_instance_id :: string
  es_event :: string
  es_filters_json :: json
  es_created_at :: gotime
  es_updated_at :: gotime

record DB =
  t_instances :: "InstanceRow list"
  t_capabilities :: "CapabilityRow list"
  t_subscriptions :: "SubscriptionRow list"
  db_faults :: "goerror option list"

record SqlCodec =
  j_strings :: "string list \<Rightarrow> json result"
  j_map :: "(string, string) gomap \<Rightarrow> json result"
  j_caps :: "Capability list \<Rightarrow> json result"
  u_strings :: "json \<Rightarrow> string list"
  u_map :: "json \<Rightarrow> (string, string) gomap"
  u_caps :: "json \<Rightarrow> Capability list"

section \<open>Statements and transactions\<close>

definition stmt :: "DB \<Rightarrow> DB \<times> goerror option" where
  "stmt db = (case db_faults db of [] \<Rightarrow> (db, None) | f # fs \<Rightarrow> (db\<lparr>db_faults := fs\<rparr>, f))"

definition exec :: "(DB \<Rightarrow> DB result) \<Rightarrow> DB \<Rightarrow> DB \<times> goerror option" where
  "exec st db =
     (case stmt db of
        (db, Some e) \<Rightarrow> (db, Some e)
      | (db, None) \<Rightarrow> (case st db of Inl e \<Rightarrow> (db, Some e) | Inr db' \<Rightarrow> (db', None)))"

definition with_tx :: "(DB \<Rightarrow> DB \<times> goerror option) \<Rightarrow> DB \<Rightarrow> DB \<times> goerror option" where
  "with_tx body db =
     (case stmt db of
        (db, Some e) \<Rightarrow> (db, Some e)
      | (start, None) \<Rightarrow>
          (case body start of
             (db, Some e) \<Rightarrow> (start\<lparr>db_faults := db_faults db\<rparr>, Some e)
           | (db, None) \<Rightarrow>
               (case stmt db of
                  (db, Some e) \<Rightarrow> (start\<lparr>db_faults := db_faults db\<rparr>, Some e)
                | (db, None) \<Rightarrow> (db, None))))"

abbreviation ErrUnique :: goerror where
  "ErrUnique \<equiv> ErrOther ''UNIQUE constraint failed''"

definition same_instance :: "string \<Rightarrow> string \<Rightarrow> InstanceRow \<Rightarrow> bool" where
  "same_instance p i r \<longleftrightarrow> ir_plugin_id r = p \<and> ir_instance_id r = i"

definition delete_capabilities :: "string \<Rightarrow> string \<Rightarrow> DB \<Rightarrow> DB result" where
  "delete_capabilities p i db =
     Inr (db\<lparr>t_capabilities := filter (\<lambda>r. \<not> (cr_plugin_id r = p \<and> cr_instance_id r = i)) (t_capabilities db)\<rparr>)"

definition delete_instances :: "string \<Rightarrow> string \<Rightarrow> DB \<Rightarrow> DB result" where
  "delete_instances p i db = Inr (db\<lparr>t_instances := filter (\<lambda>r. \<not> same_instance p i r) (t_instances db)\<rparr>)"

definition insert_instance :: "InstanceRow \<Rightarrow> DB \<Rightarrow> DB result" where
  "insert_instance row db =
     (if \<exists>r \<in> set (t_instances db). same_instance (ir_plugin_id row) (ir_instance_id row) r then Inl ErrUnique
      else Inr (db\<lparr>t_instances := t_instances db @ [row]\<rparr>))"

definition capability_key :: "CapabilityRow \<Rightarrow> string \<times> string \<times> string" where
  "capability_key r = (cr_plugin_id r, cr_instance_id r, cr_capability r)"

definition insert_capability :: "CapabilityRow \<Rightarrow> DB \<Rightarrow> DB result" where
  "insert_capability row db =
     (if capability_key row \<in> capability_key ` set (t_capabilities db) then Inl ErrUnique
      else Inr (db\<lparr>t_capabilities := t_capabilities db @ [row]\<rparr>))"

definition update_instances :: "string \<Rightarrow> string \<Rightarrow> (InstanceRow \<Rightarrow> InstanceRow) \<Rightarrow> DB \<Rightarrow> DB result" where
  "update_instances p i f db =
     Inr (db\<lparr>t_instances := map (\<lambda>r. if same_instance p i r then f r else r) (t_instances db)\<rparr>)"

definition subscription_key :: "SubscriptionRow \<Rightarrow> string \<times> string \<times> string" where
  "subscription_key r = (es_plugin_id r, es_instance_id r, es_event r)"

definition delete_subscriptions :: "string \<times> string \<times> string \<Rightarrow> DB \<Rightarrow> DB result" where
  "delete_subscriptions k db = Inr (db\<lparr>t_subscriptions := filter (\<lambda>r. subscription_key r \<noteq> k) (t_subscriptions db)\<rparr>)"

definition insert_subscription :: "SubscriptionRow \<Rightarrow> DB \<Rightarrow> DB result" where
  "insert_subscription row db =
     (if subscription_key row \<in> subscription_key ` set (t_subscriptions db) then Inl ErrUnique
      else Inr (db\<lparr>t_subscriptions := t_subscriptions db @ [row]\<rparr>))"

section \<open>Rows and snapshots\<close>

definition unmarshalStrings :: "SqlCodec \<Rightarrow> json \<Rightarrow> string list" where
  "unmarshalStrings cd raw = (if blank raw then [] else u_strings cd raw)"

definition unmarshalStringMap :: "SqlCodec \<Rightarrow> json \<Rightarrow> (string, string) gomap" where
  "unmarshalStringMap cd raw = (if blank raw then [] else u_map cd raw)"

definition row_snapshot :: "SqlCodec \<Rightarrow> InstanceRow \<Rightarrow> PluginSnapshot" where
  "row_snapshot cd r =
     \<lparr>PluginID = ir_plugin_id r, InstanceID = ir_instance_id r, pm_Name = ir_name r, pm_Version = ir_version r,
      Protocol = ir_protocol r, Transport = ir_transport r, Endpoint = ir_endpoint r,
      Capabilities = (if blank (ir_capabilities_json r) then [] else u_caps cd (ir_capabilities_json r)),
      Permissions = unmarshalStrings cd (ir_permissions_json r), Hooks = unmarshalStrings cd (ir_hooks_json r),
      SchemaVersion = ir_schema_version r, Metadata = unmarshalStringMap cd (ir_metadata_json r),
      Status = ir_status r, RuntimeStatus = ir_runtime_status r, OwnerHost = ir_owner_host r,
      LeaseTTLSeconds = ir_lease_ttl_seconds r, LeaseExpiresAt = ir_lease_expires_at r,
      RegisteredAt = ir_registered_at r, LastHeartbeatAt = ir_last_heartbeat_at r, CreatedAt = ir_created_at r,
      UpdatedAt = ir_updated_at r\<rparr>"

definition snapshot_row :: "PluginSnapshot \<Rightarrow> json \<Rightarrow> json \<Rightarrow> json \<Rightarrow> json \<Rightarrow> InstanceRow" where
  "snapshot_row s permissions hooks metadata capabilities =
     \<lparr>ir_plugin_id = PluginID s, ir_instance_id = InstanceID s, ir_name = pm_Name s, ir_version = pm_Version s,
      ir_protocol = Protocol s, ir_transport = EffectiveTransport (metadata_of s), ir_endpoint = Endpoint s,
      ir_status = Status s, ir_runtime_status = RuntimeStatus s, ir_schema_version = SchemaVersion s,
      ir_owner_host = OwnerHost s, ir_lease_ttl_seconds = LeaseTTLSeconds s, ir_lease_expires_at = LeaseExpiresAt s,
      ir_registered_at = RegisteredAt s, ir_last_heartbeat_at = LastHeartbeatAt s, ir_created_at = CreatedAt s,
      ir_updated_at = UpdatedAt s, ir_permissions_json = permissions, ir_hooks_json = hooks,
      ir_metadata_json = metadata, ir_capabilities_json = capabilities\<rparr>"

definition capability_row :: "PluginSnapshot \<Rightarrow> Capability \<Rightarrow> json \<Rightarrow> CapabilityRow" where
  "capability_row s c perms =
     \<lparr>cr_plugin_id = PluginID s, cr_instance_id = InstanceID s, cr_capability = cap_Name c, cr_version = cap_Version c,
      cr_scope = cap_Scope c, cr_permissions_json = perms, cr_input_schema = cap_InputSchema c,
      cr_output_schema = cap_OutputSchema c, cr_secret_policy = cap_SecretPolicy c,
      cr_description = cap_Description c, cr_updated_at = UpdatedAt s\<rparr>"

fun insert_capabilities :: "SqlCodec \<Rightarrow> PluginSnapshot \<Rightarrow> Capability list \<Rightarrow> DB \<Rightarrow> DB \<times> goerror option" where
  "insert_capabilities cd s [] db = (db, None)"
| "insert_capabilities cd s (c # cs) db =
     (case j_strings cd (cap_Permissions c) of
        Inl e \<Rightarrow> (db, Some e)
      | Inr perms \<Rightarrow>
          (case exec (insert_capability (capability_row s c perms)) db of
             (db, Some e) \<Rightarrow> (db, Some e)
           | (db, None) \<Rightarrow> insert_capabilities cd s cs db))"

definition marshal_row :: "SqlCodec \<Rightarrow> PluginSnapshot \<Rightarrow> InstanceRow result" where
  "marshal_row cd s =
     (case j_caps cd (Capabilities s) of
        Inl e \<Rightarrow> Inl e
      | Inr capabilities \<Rightarrow>
          (case j_strings cd (Permissions s) of
             Inl e \<Rightarrow> Inl e
           | Inr permissions \<Rightarrow>
               (case j_strings cd (Hooks s) of
                  Inl e \<Rightarrow> Inl e
                | Inr hooks \<Rightarrow>
                    (case j_map cd (Metadata s) of
                       Inl e \<Rightarrow> Inl e
                     | Inr metadata \<Rightarrow> Inr (snapshot_row s permissions hooks metadata capabilities)))))"

definition replaceInstance :: "SqlCodec \<Rightarrow> PluginSnapshot \<Rightarrow> DB \<Rightarrow> DB \<times> goerror option" where
  "replaceInstance cd s db =
     (case exec (delete_capabilities (PluginID s) (InstanceID s)) db of
        (db, Some e) \<Rightarrow> (db, Some e)
      | (db, None) \<Rightarrow>
          (case exec (delete_instances (PluginID s) (InstanceID s)) db of
             (db, Some e) \<Rightarrow> (db, Some e)
           | (db, None) \<Rightarrow>
               (case marshal_row cd s of
                  Inl e \<Rightarrow> (db, Some e)
                | Inr row \<Rightarrow>
                    (case exec (insert_instance row) db of
                       (db, Some e) \<Rightarrow> (db, Some e)
                     | (db, None) \<Rightarrow> insert_capabilities cd s (Capabilities s) db))))"

definition listInstances :: "SqlCodec \<Rightarrow> DB \<Rightarrow> DB \<times> PluginSnapshot list result" where
  "listInstances cd db =
     (case stmt db of
        (db, Some e) \<Rightarrow> (db, Inl e)
      | (db, None) \<Rightarrow> (db, Inr (sortSnapshots (map cloneSnapshot (map (row_snapshot cd) (t_instances db))))))"

section \<open>Operations\<close>

fun find_instance :: "string \<Rightarrow> string \<Rightarrow> PluginSnapshot list \<Rightarrow> PluginSnapshot result" where
  "find_instance p i [] = Inl registry_ErrNotFound"
| "find_instance p i (item # items) =
     (if PluginID item = p \<and> InstanceID item = i then Inr item else find_instance p i items)"

definition SQL_GetInstance :: "SqlCodec \<Rightarrow> DB \<Rightarrow> string \<Rightarrow> string \<Rightarrow> DB \<times> PluginSnapshot result" where
  "SQL_GetInstance cd db p i =
     (case listInstances cd db of
        (db, Inl e) \<Rightarrow> (db, Inl e)
      | (db, Inr items) \<Rightarrow> (db, find_instance p i items))"

definition SQL_RegisterInstance :: "SqlCodec \<Rightarrow> DB \<Rightarrow> PluginSnapshot \<Rightarrow> DB \<times> PluginSnapshot result" where
  "SQL_RegisterInstance cd db s =
     (case validateSnapshot s of
        Some e \<Rightarrow> (db, Inl e)
      | None \<Rightarrow>
          let s = (if IsZero (CreatedAt s) then s\<lparr>CreatedAt := RegisteredAt s\<rparr> else s);
              s = (if IsZero (UpdatedAt s) then s\<lparr>UpdatedAt := LastHeartbeatAt s\<rparr> else s)
          in case with_tx (replaceInstance cd s) db of
               (db, Some e) \<Rightarrow> (db, Inl e)
             | (db, None) \<Rightarrow> SQL_GetInstance cd db (PluginID s) (InstanceID s))"

definition rows_affected :: "string \<Rightarrow> string \<Rightarrow> DB \<Rightarrow> nat" where
  "rows_affected p i db = length (filter (same_instance p i) (t_instances db))"

definition SQL_RenewLease :: "gotime \<Rightarrow> SqlCodec \<Rightarrow> DB \<Rightarrow> Lease \<Rightarrow> DB \<times> PluginSnapshot result" where
  "SQL_RenewLease w cd db lease =
     (let lease = lease\<lparr>ls_LastHeartbeatAt := utcOrNow w (ls_LastHeartbeatAt lease)\<rparr>;
          lease = lease\<lparr>ls_ExpiresAt := utcOrNow w (ls_ExpiresAt lease)\<rparr>
      in case exec (update_instances (ls_PluginID lease) (ls_InstanceID lease)
                (\<lambda>r. r\<lparr>ir_status := StatusOnline, ir_last_heartbeat_at := ls_LastHeartbeatAt lease,
                   ir_lease_expires_at := ls_ExpiresAt lease, ir_lease_ttl_seconds := secs (ls_LeaseTTL lease),
                   ir_updated_at := ls_LastHeartbeatAt lease\<rparr>)) db of
           (db, Some e) \<Rightarrow> (db, Inl e)
         | (db, None) \<Rightarrow>
             if rows_affected (ls_PluginID lease) (ls_InstanceID lease) db = 0 then (db, Inl registry_ErrNotFound)
             else SQL_GetInstance cd db (ls_PluginID lease) (ls_InstanceID lease))"

definition SQL_UnregisterInstance :: "gotime \<Rightarrow> DB \<Rightarrow> string \<Rightarrow> string \<Rightarrow> gotime \<Rightarrow> DB \<times> goerror option" where
  "SQL_UnregisterInstance w db p i now =
     (let now = utcOrNow w now in
      case exec (update_instances p i (\<lambda>r. r\<lparr>ir_status := StatusOffline, ir_runtime_status := [],
                ir_lease_expires_at := now, ir_updated_at := now\<rparr>)) db of
        (db, Some e) \<Rightarrow> (db, Some e)
      | (db, None) \<Rightarrow> if rows_affected p i db = 0 then (db, Some registry_ErrNotFound) else (db, None))"

definition sql_backfill :: "gotime \<Rightarrow> PluginSnapshot \<Rightarrow> PluginSnapshot \<Rightarrow> PluginSnapshot" where
  "sql_backfill w s existing = s\<lparr>
     Status := (if Status s = [] then Status existing else Status s),
     RuntimeStatus := (if RuntimeStatus s = [] then RuntimeStatus existing else RuntimeStatus s),
     OwnerHost := (if OwnerHost s = [] then OwnerHost existing else OwnerHost s),
     LeaseTTLSeconds := (if LeaseTTLSeconds s = 0 then LeaseTTLSeconds existing else LeaseTTLSeconds s),
     LeaseExpiresAt := (if IsZero (LeaseExpiresAt s) then LeaseExpiresAt existing else LeaseExpiresAt s),
     RegisteredAt := (if IsZero (RegisteredAt s) then RegisteredAt existing else RegisteredAt s),
     LastHeartbeatAt := (if IsZero (LastHeartbeatAt s) then LastHeartbeatAt existing else LastHeartbeatAt s),
     CreatedAt := (if IsZero (CreatedAt s) then CreatedAt existing else CreatedAt s),
     UpdatedAt := (if IsZero (UpdatedAt s) then w else UpdatedAt s)\<rparr>"

definition SQL_SyncMetadata :: "gotime \<Rightarrow> SqlCodec \<Rightarrow> DB \<Rightarrow> PluginSnapshot \<Rightarrow> DB \<times> PluginSnapshot result" where
  "SQL_SyncMetadata w cd db s =
     (case validateSnapshot s of
        Some e \<Rightarrow> (db, Inl e)
      | None \<Rightarrow>
          (case SQL_GetInstance cd db (PluginID s) (InstanceID s) of
             (db, Inl e) \<Rightarrow> (db, Inl e)
           | (db, Inr existing) \<Rightarrow>
               (case with_tx (replaceInstance cd (sql_backfill w s existing)) db of
                  (db, Some e) \<Rightarrow> (db, Inl e)
                | (db, None) \<Rightarrow> SQL_GetInstance cd db (PluginID s) (InstanceID s))))"

definition SQL_ReportStatus ::
    "gotime \<Rightarrow> SqlCodec \<Rightarrow> DB \<Rightarrow> string \<Rightarrow> string \<Rightarrow> string \<Rightarrow> string \<Rightarrow> (string, string) gomap \<Rightarrow> gotime \<Rightarrow>
     DB \<times> PluginSnapshot result" where
  "SQL_ReportStatus w cd db p i status runtimeStatus metadata now =
     (case SQL_GetInstance cd db p i of
        (db, Inl e) \<Rightarrow> (db, Inl e)
      | (db, Inr item) \<Rightarrow>
          let item = (if \<not> blank status then item\<lparr>Status := TrimSpace status\<rparr> else item);
              item = (if \<not> blank runtimeStatus then item\<lparr>RuntimeStatus := TrimSpace runtimeStatus\<rparr> else item);
              item = (if 0 < length metadata then item\<lparr>Metadata := mergeMetadata (Metadata item) metadata\<rparr> else item);
              item = item\<lparr>UpdatedAt := utcOrNow w now\<rparr>
          in SQL_SyncMetadata w cd db item)"

definition SQL_ListInstances :: "gotime \<Rightarrow> SqlCodec \<Rightarrow> DB \<Rightarrow> InstanceFilter \<Rightarrow> DB \<times> PluginSnapshot list result" where
  "SQL_ListInstances w cd db f =
     (case listInstances cd db of
        (db, Inl e) \<Rightarrow> (db, Inl e)
      | (db, Inr items) \<Rightarrow> (db, Inr (sortSnapshots (filter (\<lambda>item. matches w item f) items))))"

definition SQL_ListByCapability ::
    "gotime \<Rightarrow> SqlCodec \<Rightarrow> DB \<Rightarrow> string \<Rightarrow> InstanceFilter \<Rightarrow> DB \<times> PluginSnapshot list result" where
  "SQL_ListByCapability w cd db capability f = SQL_ListInstances w cd db (f\<lparr>if_Capability := capability\<rparr>)"

definition SQL_ListExpired :: "gotime \<Rightarrow> SqlCodec \<Rightarrow> DB \<Rightarrow> gotime \<Rightarrow> DB \<times> PluginSnapshot list result" where
  "SQL_ListExpired w cd db now =
     (let now = utcOrNow w now in
      case SQL_ListInstances w cd db \<lparr>if_PluginID = [], if_InstanceID = [], if_Capability = [], if_Status = [],
             IncludeExpired = True, if_Now = 0\<rparr> of
        (db, Inl e) \<Rightarrow> (db, Inl e)
      | (db, Inr items) \<Rightarrow> (db, Inr (sortSnapshots (filter (\<lambda>item. lease_over item now) items))))"

fun expire_rows :: "gotime \<Rightarrow> PluginSnapshot list \<Rightarrow> DB \<Rightarrow> DB \<times> goerror option" where
  "expire_rows now [] db = (db, None)"
| "expire_rows now (item # items) db =
     (case exec (update_instances (PluginID item) (InstanceID item)
             (\<lambda>r. r\<lparr>ir_status := StatusOffline, ir_updated_at := now\<rparr>)) db of
        (db, Some e) \<Rightarrow> (db, Some e)
      | (db, None) \<Rightarrow> expire_rows now items db)"

definition SQL_ExpireLeases :: "gotime \<Rightarrow> SqlCodec \<Rightarrow> DB \<Rightarrow> gotime \<Rightarrow> DB \<times> PluginSnapshot list result" where
  "SQL_ExpireLeases w cd db now =
     (case SQL_ListExpired w cd db now of
        (db, Inl e) \<Rightarrow> (db, Inl e)
      | (db, Inr expired) \<Rightarrow>
          (case expire_rows (utcOrNow w now) expired db of
             (db, Some e) \<Rightarrow> (db, Inl e)
           | (db, None) \<Rightarrow> (db, Inr expired)))"

definition SQL_SubscribeEvent :: "gotime \<Rightarrow> SqlCodec \<Rightarrow> DB \<Rightarrow> Subscription \<Rightarrow> DB \<times> Subscription result" where
  "SQL_SubscribeEvent w cd db sub =
     (if blank (sub_PluginID sub) \<or> blank (sub_InstanceID sub) \<or> blank (sub_Event sub)
      then (db, Inl registry_ErrInvalid)
      else
        let now = utcOrNow w (sub_UpdatedAt sub);
            sub = sub\<lparr>sub_PluginID := TrimSpace (sub_PluginID sub), sub_InstanceID := TrimSpace (sub_InstanceID sub),
                      sub_Event := TrimSpace (sub_Event sub)\<rparr>;
            sub = (if IsZero (sub_CreatedAt sub) then sub\<lparr>sub_CreatedAt := now\<rparr> else sub);
            sub = sub\<lparr>sub_UpdatedAt := now\<rparr>
        in case j_map cd (sub_Filters sub) of
             Inl e \<Rightarrow> (db, Inl e)
           | Inr filters \<Rightarrow>
               let k = (sub_PluginID sub, sub_InstanceID sub, sub_Event sub);
                   row = \<lparr>es_plugin_id = sub_PluginID sub, es_instance_id = sub_InstanceID sub,
                          es_event = sub_Event sub, es_filters_json = filters, es_created_at = sub_CreatedAt sub,
                          es_updated_at = sub_UpdatedAt sub\<rparr>
               in case with_tx (\<lambda>db. case exec (delete_subscriptions k) db of
                           (db, Some e) \<Rightarrow> (db, Some e)
                         | (db, None) \<Rightarrow> exec (insert_subscription row) db) db of
                    (db, Some e) \<Rightarrow> (db, Inl e)
                  | (db, None) \<Rightarrow> (db, Inr sub))"

definition row_subscription :: "SqlCodec \<Rightarrow> SubscriptionRow \<Rightarrow> Subscription" where
  "row_subscription cd r = \<lparr>sub_PluginID = es_plugin_id r, sub_InstanceID = es_instance_id r, sub_Event = es_event r,
     sub_Filters = unmarshalStringMap cd (es_filters_json r), sub_CreatedAt = es_created_at r,
     sub_UpdatedAt = es_updated_at r\<rparr>"

definition SQL_ListSubscriptions :: "SqlCodec \<Rightarrow> DB \<Rightarrow> SubscriptionFilter \<Rightarrow> DB \<times> Subscription list result" where
  "SQL_ListSubscriptions cd db f =
     (case stmt db of
        (db, Some e) \<Rightarrow> (db, Inl e)
      | (db, None) \<Rightarrow>
          (db, Inr (map cloneSubscription (filter (sub_matches f) (map (row_subscription cd) (t_subscriptions db))))))"

text \<open>\<open>bind\<close>: PostgreSQL placeholders.\<close>

fun bind_loop :: "nat \<Rightarrow> nat \<Rightarrow> string \<Rightarrow> string" where
  "bind_loop n index [] = []"
| "bind_loop n index (r # rs) =
     (if r = CHR ''?'' \<and> index \<le> n then ''$'' @ FormatUint index @ bind_loop n (index + 1) rs
      else r # bind_loop n index rs)"

definition sql_bind :: "string \<Rightarrow> string \<Rightarrow> nat \<Rightarrow> string" where
  "sql_bind dialect query n = (if dialect \<noteq> ''postgres'' then query else bind_loop n 1 query)"

definition NewSQLStore_dialect :: "string \<Rightarrow> string" where
  "NewSQLStore_dialect dialect = ToLower (TrimSpace dialect)"

end
