(* ===== verification/SQL_Properties.thy ===== *)
theory SQL_Properties
  imports Registry_SQL Registry_Refinement
begin

text \<open>
  The properties of the SQL registry: a write changes everything or nothing whatever statement
  fails, the capability index agrees with the instances in every state, and without faults the
  store follows the map specification of \<open>Registry_Refinement\<close> except for the creation time.
\<close>

section \<open>What a replacement does to the tables\<close>

definition tables :: "DB \<Rightarrow> InstanceRow list \<times> CapabilityRow list \<times> SubscriptionRow list" where
  "tables db = (t_instances db, t_capabilities db, t_subscriptions db)"

definition of_instance :: "string \<Rightarrow> string \<Rightarrow> CapabilityRow \<Rightarrow> bool" where
  "of_instance p i r \<longleftrightarrow> cr_plugin_id r = p \<and> cr_instance_id r = i"

definition replaced :: "SqlCodec \<Rightarrow> PluginSnapshot \<Rightarrow> DB \<Rightarrow> DB \<Rightarrow> bool" where
  "replaced cd s db db' \<longleftrightarrow>
     (\<exists>row rows. marshal_row cd s = Inr row \<and>
        t_instances db' = filter (\<lambda>r. \<not> same_instance (PluginID s) (InstanceID s) r) (t_instances db) @ [row] \<and>
        t_capabilities db' = filter (\<lambda>r. \<not> of_instance (PluginID s) (InstanceID s) r) (t_capabilities db) @ rows \<and>
        (\<forall>r \<in> set rows. of_instance (PluginID s) (InstanceID s) r) \<and>
        map cr_capability rows = map cap_Name (Capabilities s) \<and> distinct (map cr_capability rows) \<and>
        t_subscriptions db' = t_subscriptions db)"

lemma stmt_tables: "stmt db = (db', r) \<Longrightarrow> tables db' = tables db \<and> (db_faults db = [] \<longrightarrow> db' = db \<and> r = None)"
  by (auto simp: stmt_def tables_def split: list.splits)

lemma tablesD: "tables db' = tables db \<Longrightarrow>
   t_instances db' = t_instances db \<and> t_capabilities db' = t_capabilities db \<and> t_subscriptions db' = t_subscriptions db"
  by (simp add: tables_def)

lemma exec_None:
  assumes "exec st db = (db', None)"
  obtains db1 where "tables db1 = tables db" "st db1 = Inr db'" "db_faults db = [] \<Longrightarrow> db1 = db"
  using assms stmt_tables by (auto simp: exec_def split: prod.splits option.splits sum.splits)

lemma exec_no_faults: "db_faults db = [] \<Longrightarrow>
   exec st db = (case st db of Inl e \<Rightarrow> (db, Some e) | Inr db' \<Rightarrow> (db', None))"
  by (simp add: exec_def stmt_def)

lemma delete_capability_eq: "(\<not> (cr_plugin_id r = p \<and> cr_instance_id r = i)) = (\<not> of_instance p i r)"
  by (simp add: of_instance_def)

lemmas statement_defs = delete_capabilities_def delete_instances_def insert_instance_def insert_capability_def
  update_instances_def delete_subscriptions_def insert_subscription_def

lemma insert_capabilities_None:
  "insert_capabilities cd s cs db = (db', None) \<Longrightarrow>
   \<exists>rows. t_capabilities db' = t_capabilities db @ rows \<and> t_instances db' = t_instances db \<and>
     t_subscriptions db' = t_subscriptions db \<and> map cr_capability rows = map cap_Name cs \<and>
     (\<forall>r \<in> set rows. of_instance (PluginID s) (InstanceID s) r) \<and>
     distinct (map capability_key rows) \<and> set (map capability_key rows) \<inter> capability_key ` set (t_capabilities db) = {}"
proof (induction cs arbitrary: db)
  case Nil
  then show ?case by simp
next
  case (Cons c cs)
  obtain perms db1 where p: "j_strings cd (cap_Permissions c) = Inr perms"
      "exec (insert_capability (capability_row s c perms)) db = (db1, None)" "insert_capabilities cd s cs db1 = (db', None)"
    using Cons.prems by (auto split: sum.splits prod.splits option.splits)
  define row where "row = capability_row s c perms"
  have row: "cr_capability row = cap_Name c" "of_instance (PluginID s) (InstanceID s) row"
    by (simp_all add: row_def capability_row_def of_instance_def)
  have db1: "t_capabilities db1 = t_capabilities db @ [row]" "t_instances db1 = t_instances db"
      "t_subscriptions db1 = t_subscriptions db" "capability_key row \<notin> capability_key ` set (t_capabilities db)"
    using p(2) by (auto elim!: exec_None dest!: tablesD simp: insert_capability_def row_def split: if_splits)
  obtain rows where rows: "t_capabilities db' = t_capabilities db1 @ rows" "t_instances db' = t_instances db1"
      "t_subscriptions db' = t_subscriptions db1" "map cr_capability rows = map cap_Name cs"
      "\<forall>r \<in> set rows. of_instance (PluginID s) (InstanceID s) r" "distinct (map capability_key rows)"
      "set (map capability_key rows) \<inter> capability_key ` set (t_capabilities db1) = {}"
    using Cons.IH [OF p(3)] by blast
  show ?case
    using rows row db1 by (intro exI [of _ "row # rows"]) auto
qed

lemma replaceInstance_None:
  assumes "replaceInstance cd s db = (db', None)"
  shows "replaced cd s db db'"
proof -
  obtain db1 db2 db3 row where s:
      "exec (delete_capabilities (PluginID s) (InstanceID s)) db = (db1, None)"
      "exec (delete_instances (PluginID s) (InstanceID s)) db1 = (db2, None)"
      "marshal_row cd s = Inr row" "exec (insert_instance row) db2 = (db3, None)"
      "insert_capabilities cd s (Capabilities s) db3 = (db', None)"
    using assms by (auto simp: replaceInstance_def split: prod.splits option.splits sum.splits)
  have 1: "t_instances db1 = t_instances db" "t_subscriptions db1 = t_subscriptions db"
      "t_capabilities db1 = filter (\<lambda>r. \<not> of_instance (PluginID s) (InstanceID s) r) (t_capabilities db)"
    using s(1) by (auto elim!: exec_None dest!: tablesD simp: delete_capabilities_def of_instance_def)
  have 2: "t_instances db2 = filter (\<lambda>r. \<not> same_instance (PluginID s) (InstanceID s) r) (t_instances db1)"
      "t_subscriptions db2 = t_subscriptions db1" "t_capabilities db2 = t_capabilities db1"
    using s(2) by (auto elim!: exec_None dest!: tablesD simp: delete_instances_def)
  have 3: "t_instances db3 = t_instances db2 @ [row]" "t_subscriptions db3 = t_subscriptions db2"
      "t_capabilities db3 = t_capabilities db2"
    using s(4) by (auto elim!: exec_None dest!: tablesD simp: insert_instance_def split: if_splits)
  obtain rows where rows: "t_capabilities db' = t_capabilities db3 @ rows" "t_instances db' = t_instances db3"
      "t_subscriptions db' = t_subscriptions db3" "map cr_capability rows = map cap_Name (Capabilities s)"
      "\<forall>r \<in> set rows. of_instance (PluginID s) (InstanceID s) r" "distinct (map capability_key rows)"
    using insert_capabilities_None [OF s(5)] by blast
  have "map capability_key rows = map (\<lambda>n. (PluginID s, InstanceID s, n)) (map cr_capability rows)"
    using rows(5) by (simp add: capability_key_def of_instance_def)
  then have "distinct (map cr_capability rows)" using rows(6) by (simp only: distinct_map)
  then show ?thesis using rows 1 2 3 s(3) unfolding replaced_def by (intro exI [of _ row] exI [of _ rows]) simp
qed

lemma with_tx_cases:
  assumes "with_tx body db = (db', r)"
  obtains (failed) e where "r = Some e" "tables db' = tables db"
  | (committed) db1 db2 where "r = None" "tables db1 = tables db" "body db1 = (db2, None)" "tables db' = tables db2"
proof -
  obtain start f where s: "stmt db = (start, f)" by fastforce
  note ts = stmt_tables [OF s]
  show ?thesis
  proof (cases f)
    case (Some e)
    then show ?thesis using assms s ts failed by (auto simp: with_tx_def)
  next
    case None
    obtain db2 g where b: "body start = (db2, g)" by fastforce
    obtain db3 h where c: "stmt db2 = (db3, h)" by fastforce
    have "tables (start\<lparr>db_faults := fs\<rparr>) = tables db" for fs using ts by (simp add: tables_def)
    then show ?thesis using assms s ts None b c stmt_tables [OF c] failed committed
      by (cases g; cases h) (auto simp: with_tx_def)
  qed
qed

text \<open>The faults that are left are used up by every step, so a state without faults stays without.\<close>

definition all_or_nothing :: "SqlCodec \<Rightarrow> PluginSnapshot \<Rightarrow> DB \<Rightarrow> DB \<times> PluginSnapshot result \<Rightarrow> bool" where
  "all_or_nothing cd s db res \<longleftrightarrow>
     tables (fst res) = tables db \<and> (\<exists>e. snd res = Inl e) \<or> replaced cd s db (fst res)"

lemma replaced_cong:
  assumes "tables db1 = tables db" and "tables db1' = tables db'"
  shows "replaced cd s db db' \<longleftrightarrow> replaced cd s db1 db1'"
  using tablesD [OF assms(1)] tablesD [OF assms(2)] by (simp add: replaced_def)

lemma listInstances_tables: "tables (fst (listInstances cd db)) = tables db"
  using stmt_tables by (auto simp: listInstances_def split: prod.splits option.splits)

lemma GetInstance_tables: "tables (fst (SQL_GetInstance cd db p i)) = tables db"
  using listInstances_tables [of cd db] by (auto simp: SQL_GetInstance_def split: prod.splits sum.splits)

lemma replace_then_get:
  assumes "with_tx (replaceInstance cd s) db = (db1, r)"
  shows "all_or_nothing cd s db (case r of Some e \<Rightarrow> (db1, Inl e) | None \<Rightarrow> SQL_GetInstance cd db1 p i)"
  using assms
proof (cases rule: with_tx_cases)
  case (failed e)
  then show ?thesis by (simp add: all_or_nothing_def)
next
  case (committed db2 db3)
  have "replaced cd s db2 db3" by (rule replaceInstance_None) fact
  then have "replaced cd s db (fst (SQL_GetInstance cd db1 p i))"
    using replaced_cong committed GetInstance_tables [of cd db1 p i] by metis
  then show ?thesis using committed(1) by (simp add: all_or_nothing_def)
qed

definition register_snapshot :: "PluginSnapshot \<Rightarrow> PluginSnapshot" where
  "register_snapshot s =
     (let s = (if IsZero (CreatedAt s) then s\<lparr>CreatedAt := RegisteredAt s\<rparr> else s)
      in if IsZero (UpdatedAt s) then s\<lparr>UpdatedAt := LastHeartbeatAt s\<rparr> else s)"

text \<open>C21. A write of the SQL registry is all or nothing, whichever statement, commit or query fails: a
  registration either leaves all tables as they were and returns an error, or replaces exactly
  the row of the instance and exactly its capability rows, one per declared capability; so does a
  metadata synchronization, with the fields it fills in from the stored row.\<close>

theorem sql_writes_all_or_nothing:
  "all_or_nothing cd (register_snapshot s) db (SQL_RegisterInstance cd db s) \<and>
   (case snd (SQL_GetInstance cd db (PluginID s) (InstanceID s)) of
      Inr existing \<Rightarrow> all_or_nothing cd (sql_backfill w s existing) db (SQL_SyncMetadata w cd db s)
    | Inl e \<Rightarrow> tables (fst (SQL_SyncMetadata w cd db s)) = tables db)"
proof
  obtain db1 r where t: "with_tx (replaceInstance cd (register_snapshot s)) db = (db1, r)" by fastforce
  show "all_or_nothing cd (register_snapshot s) db (SQL_RegisterInstance cd db s)"
  proof (cases "validateSnapshot s")
    case (Some e)
    then show ?thesis by (simp add: SQL_RegisterInstance_def all_or_nothing_def)
  next
    case None
    then have "SQL_RegisterInstance cd db s = (case r of Some e \<Rightarrow> (db1, Inl e) | None \<Rightarrow>
        SQL_GetInstance cd db1 (PluginID (register_snapshot s)) (InstanceID (register_snapshot s)))"
      using t by (simp add: SQL_RegisterInstance_def register_snapshot_def Let_def split: option.splits)
    then show ?thesis using replace_then_get [OF t] by simp
  qed
  obtain db2 g where g: "SQL_GetInstance cd db (PluginID s) (InstanceID s) = (db2, g)" by fastforce
  have same: "tables db2 = tables db" using GetInstance_tables [of cd db] by (metis fst_conv g)
  show "case snd (SQL_GetInstance cd db (PluginID s) (InstanceID s)) of
      Inr existing \<Rightarrow> all_or_nothing cd (sql_backfill w s existing) db (SQL_SyncMetadata w cd db s)
    | Inl e \<Rightarrow> tables (fst (SQL_SyncMetadata w cd db s)) = tables db"
  proof (cases g)
    case (Inl e)
    then show ?thesis using same by (simp add: SQL_SyncMetadata_def g split: option.splits)
  next
    case (Inr x)
    obtain db3 r' where t': "with_tx (replaceInstance cd (sql_backfill w s x)) db2 = (db3, r')" by fastforce
    have "validateSnapshot s = None \<Longrightarrow> SQL_SyncMetadata w cd db s =
        (case r' of Some e \<Rightarrow> (db3, Inl e) | None \<Rightarrow> SQL_GetInstance cd db3 (PluginID s) (InstanceID s))"
      using Inr t' by (simp add: SQL_SyncMetadata_def g split: option.splits)
    then have "validateSnapshot s = None \<Longrightarrow> all_or_nothing cd (sql_backfill w s x) db2 (SQL_SyncMetadata w cd db s)"
      using replace_then_get [OF t'] by simp
    then have "all_or_nothing cd (sql_backfill w s x) db (SQL_SyncMetadata w cd db s)"
      using same replaced_cong [OF same refl, of cd "sql_backfill w s x"]
      by (cases "validateSnapshot s") (auto simp: all_or_nothing_def SQL_SyncMetadata_def)
    then show ?thesis using Inr by (simp add: g)
  qed
qed

section \<open>The capability index\<close>

text \<open>
  A codec is faithful when what it encodes decodes to the same value, as \<open>encoding/json\<close> does for valid
  UTF-8 and for schemas without insignificant white space. The tables are consistent when
  no two instance rows share their identifiers, the capability rows of an instance name exactly
  the capabilities of its row, no capability row lacks its instance, and the stored transport is
  the effective one.
\<close>

definition faithful :: "SqlCodec \<Rightarrow> bool" where
  "faithful cd \<longleftrightarrow>
     (\<forall>xs raw. j_strings cd xs = Inr raw \<longrightarrow> \<not> blank raw \<and> u_strings cd raw = xs) \<and>
     (\<forall>m raw. j_map cd m = Inr raw \<longrightarrow> \<not> blank raw \<and> u_map cd raw = m) \<and>
     (\<forall>cs raw. j_caps cd cs = Inr raw \<longrightarrow> \<not> blank raw \<and> u_caps cd raw = cs)"

definition row_ids :: "InstanceRow \<Rightarrow> string \<times> string" where
  "row_ids r = (ir_plugin_id r, ir_instance_id r)"

definition index_of :: "DB \<Rightarrow> string \<Rightarrow> string \<Rightarrow> string list" where
  "index_of db p i = map cr_capability (filter (of_instance p i) (t_capabilities db))"

definition row_ok :: "SqlCodec \<Rightarrow> DB \<Rightarrow> InstanceRow \<Rightarrow> bool" where
  "row_ok cd db r \<longleftrightarrow>
     index_of db (ir_plugin_id r) (ir_instance_id r) = map cap_Name (Capabilities (row_snapshot cd r)) \<and>
     ir_transport r = EffectiveTransport (metadata_of (row_snapshot cd r))"

definition db_inv :: "SqlCodec \<Rightarrow> DB \<Rightarrow> bool" where
  "db_inv cd db \<longleftrightarrow> distinct (map row_ids (t_instances db)) \<and> (\<forall>r \<in> set (t_instances db). row_ok cd db r) \<and>
     (\<forall>c \<in> set (t_capabilities db). (cr_plugin_id c, cr_instance_id c) \<in> row_ids ` set (t_instances db))"

lemma db_inv_cong: "tables db' = tables db \<Longrightarrow> db_inv cd db' = db_inv cd db"
  by (auto dest!: tablesD simp: db_inv_def row_ok_def index_of_def)

lemma row_snapshot_sel [simp]:
  "PluginID (row_snapshot cd r) = ir_plugin_id r" "InstanceID (row_snapshot cd r) = ir_instance_id r"
  "Transport (row_snapshot cd r) = ir_transport r"
  by (simp_all add: row_snapshot_def)

lemma EffectiveTransport_idem:
  "EffectiveTransport (m\<lparr>Transport := EffectiveTransport m\<rparr>) = EffectiveTransport m"
proof (cases "EffectiveTransport m = []")
  case True
  have "\<not> IsTransport []" by code_simp
  moreover have "\<not> IsTransport (Protocol m)"
    using True IsTransport_iff [of "Transport m"] IsTransport_iff [of "Protocol m"]
    by (auto simp: EffectiveTransport_def split: if_splits)
  ultimately show ?thesis using True by (simp add: EffectiveTransport_def [of "m\<lparr>Transport := []\<rparr>"])
next
  case False
  then have b: "EffectiveTransport m \<in> builtin_transports" using EffectiveTransport_range by blast
  then have "NormalizeTransport (EffectiveTransport m) = EffectiveTransport m" by auto
  then show ?thesis using b
    by (simp add: EffectiveTransport_def [of "m\<lparr>Transport := EffectiveTransport m\<rparr>"] IsTransport_iff)
qed

definition stored :: "PluginSnapshot \<Rightarrow> PluginSnapshot" where
  "stored s = s\<lparr>Transport := EffectiveTransport (metadata_of s)\<rparr>"

lemma metadata_of_Transport: "metadata_of (s\<lparr>Transport := t\<rparr>) = (metadata_of s)\<lparr>Transport := t\<rparr>"
  by (simp add: snapshot_defs)

lemma stored_sel [simp]:
  "PluginID (stored s) = PluginID s" "InstanceID (stored s) = InstanceID s" "Capabilities (stored s) = Capabilities s"
  "EffectiveTransport (metadata_of (stored s)) = Transport (stored s)"
  by (simp_all add: stored_def metadata_of_Transport EffectiveTransport_idem)

lemma row_snapshot_marshal:
  assumes "faithful cd" and "marshal_row cd s = Inr row"
  shows "row_snapshot cd row = stored s" "row_ids row = (PluginID s, InstanceID s)"
proof -
  obtain caps perms hooks metadata where e: "j_caps cd (Capabilities s) = Inr caps"
      "j_strings cd (Permissions s) = Inr perms" "j_strings cd (Hooks s) = Inr hooks"
      "j_map cd (Metadata s) = Inr metadata" "row = snapshot_row s perms hooks metadata caps"
    using assms(2) by (auto simp: marshal_row_def split: sum.splits)
  have d: "\<not> blank caps" "u_caps cd caps = Capabilities s" "\<not> blank perms" "u_strings cd perms = Permissions s"
      "\<not> blank hooks" "u_strings cd hooks = Hooks s" "\<not> blank metadata" "u_map cd metadata = Metadata s"
    using assms(1) e(1-4) unfolding faithful_def by blast+
  show "row_ids row = (PluginID s, InstanceID s)" by (simp add: e(5) snapshot_row_def row_ids_def)
  show "row_snapshot cd row = stored s"
    by (simp add: e(5) snapshot_row_def row_snapshot_def unmarshalStrings_def unmarshalStringMap_def d stored_def)
qed

lemma same_instance_ids: "same_instance p i r \<longleftrightarrow> row_ids r = (p, i)"
  by (simp add: same_instance_def row_ids_def)

lemma of_instance_disjoint: "of_instance p i r \<Longrightarrow> of_instance p' i' r \<Longrightarrow> (p, i) = (p', i')"
  by (simp add: of_instance_def)

lemma filter_of_instance:
  assumes "\<forall>r \<in> set rows. of_instance p i r"
  shows "filter (of_instance p' i') rows = (if (p', i') = (p, i) then rows else [])"
  using assms by (auto simp: filter_id_conv filter_empty_conv of_instance_def)

lemma replaced_index:
  assumes "replaced cd s db db'"
  shows "index_of db' p i =
     (if (p, i) = (PluginID s, InstanceID s) then map cap_Name (Capabilities s) else index_of db p i)"
proof -
  obtain rows where r: "t_capabilities db' = filter (\<lambda>r. \<not> of_instance (PluginID s) (InstanceID s) r) (t_capabilities db) @ rows"
      "\<forall>r \<in> set rows. of_instance (PluginID s) (InstanceID s) r" "map cr_capability rows = map cap_Name (Capabilities s)"
    using assms unfolding replaced_def by blast
  have "filter (of_instance p i) (filter (\<lambda>r. \<not> of_instance (PluginID s) (InstanceID s) r) (t_capabilities db)) =
      (if (p, i) = (PluginID s, InstanceID s) then [] else filter (of_instance p i) (t_capabilities db))"
    using of_instance_disjoint [of "PluginID s" "InstanceID s" _ p i]
    by (auto simp: filter_empty_conv intro!: filter_cong)
  then show ?thesis by (auto simp: index_of_def r(1,3) filter_of_instance [OF r(2)])
qed

lemma db_inv_replaced:
  assumes f: "faithful cd" and inv: "db_inv cd db" and rep: "replaced cd s db db'"
  shows "db_inv cd db'"
proof -
  define k where "k = (PluginID s, InstanceID s)"
  obtain row rows where m: "marshal_row cd s = Inr row"
      and i: "t_instances db' = filter (\<lambda>r. row_ids r \<noteq> k) (t_instances db) @ [row]"
      and c: "t_capabilities db' = filter (\<lambda>r. \<not> of_instance (PluginID s) (InstanceID s) r) (t_capabilities db) @ rows"
      and rows: "\<forall>r \<in> set rows. of_instance (PluginID s) (InstanceID s) r"
    using rep unfolding replaced_def same_instance_ids k_def by blast
  note row = row_snapshot_marshal [OF f m]
  have d: "distinct (map row_ids (t_instances db'))"
    using inv by (auto simp: i row k_def db_inv_def distinct_map_filter)
  have new: "row_ok cd db' row"
    using replaced_index [OF rep, of "PluginID s" "InstanceID s"] row stored_sel(4) [of s]
    by (simp add: row_ok_def row_ids_def) (metis row_snapshot_sel(3) row(1))
  have "row_ok cd db' r" if "r \<in> set (t_instances db)" "row_ids r \<noteq> k" for r
    using that inv replaced_index [OF rep, of "ir_plugin_id r" "ir_instance_id r"]
    by (auto simp: row_ok_def db_inv_def row_ids_def k_def)
  then have ok: "\<forall>r \<in> set (t_instances db'). row_ok cd db' r" using new by (auto simp: i)
  have "row_ids ` set (t_instances db') = insert k (row_ids ` set (t_instances db))" by (auto simp: i row k_def)
  then have "\<forall>c \<in> set (t_capabilities db'). (cr_plugin_id c, cr_instance_id c) \<in> row_ids ` set (t_instances db')"
    using inv rows by (auto simp: c db_inv_def of_instance_def k_def)
  then show ?thesis using d ok by (simp add: db_inv_def)
qed

lemma db_inv_update:
  assumes inv: "db_inv cd db"
    and f: "\<And>r. row_ids (f r) = row_ids r \<and> ir_capabilities_json (f r) = ir_capabilities_json r \<and>
              ir_transport (f r) = ir_transport r \<and> ir_protocol (f r) = ir_protocol r"
    and u: "update_instances p i f db = Inr db'"
  shows "db_inv cd db'"
proof -
  define g where "g = (\<lambda>r. if same_instance p i r then f r else r)"
  have db': "t_instances db' = map g (t_instances db)" "t_capabilities db' = t_capabilities db"
    using u by (auto simp: update_instances_def g_def)
  have g: "row_ids (g r) = row_ids r" "ir_capabilities_json (g r) = ir_capabilities_json r"
      "ir_transport (g r) = ir_transport r" "ir_protocol (g r) = ir_protocol r" for r
    using f by (auto simp: g_def)
  have "row_ok cd db' (g r) = row_ok cd db r" for r
  proof -
    have "Capabilities (row_snapshot cd (g r)) = Capabilities (row_snapshot cd r)"
      by (simp add: row_snapshot_def g)
    moreover have "EffectiveTransport (metadata_of (row_snapshot cd (g r))) = EffectiveTransport (metadata_of (row_snapshot cd r))"
      by (simp add: EffectiveTransport_def snapshot_defs row_snapshot_def g)
    moreover have "ir_plugin_id (g r) = ir_plugin_id r" "ir_instance_id (g r) = ir_instance_id r"
      using g(1) [of r] by (simp_all add: row_ids_def)
    ultimately show ?thesis by (simp add: row_ok_def g(3) index_of_def db')
  qed
  moreover have "map row_ids (map g xs) = map row_ids xs" for xs by (simp add: g)
  moreover have "row_ids ` (g ` S) = row_ids ` S" for S by (simp add: image_image g)
  ultimately show ?thesis using inv by (auto simp: db_inv_def db' simp del: map_map)
qed

lemma db_inv_exec:
  assumes "\<And>db1 db2. tables db1 = tables db \<Longrightarrow> st db1 = Inr db2 \<Longrightarrow> db_inv cd db2" and "db_inv cd db"
    and "exec st db = (db', r)"
  shows "db_inv cd db'"
proof -
  obtain db1 f where s: "stmt db = (db1, f)" by fastforce
  note t = stmt_tables [OF s]
  then have "db_inv cd db1" using assms(2) db_inv_cong by blast
  then show ?thesis using assms(1) [of db1] assms(3) t s
    by (auto simp: exec_def split: option.splits sum.splits)
qed

lemma db_inv_exec_update:
  assumes "db_inv cd db" and "exec (update_instances p i f) db = (db', r)"
    and "\<And>r. row_ids (f r) = row_ids r \<and> ir_capabilities_json (f r) = ir_capabilities_json r \<and>
              ir_transport (f r) = ir_transport r \<and> ir_protocol (f r) = ir_protocol r"
  shows "db_inv cd db'"
  by (rule db_inv_exec [OF _ assms(1,2)]) (metis db_inv_update db_inv_cong assms(1,3))

lemma db_inv_tx:
  assumes "faithful cd" and "db_inv cd db" and "with_tx (replaceInstance cd s) db = (db', r)"
  shows "db_inv cd db'"
  using assms(3)
proof (cases rule: with_tx_cases)
  case (failed e)
  then show ?thesis using db_inv_cong assms(2) by blast
next
  case (committed db1 db2)
  have "replaced cd s db1 db2" by (rule replaceInstance_None) fact
  then show ?thesis using db_inv_replaced assms(1,2) db_inv_cong committed by blast
qed

lemma db_inv_get: "db_inv cd db \<Longrightarrow> SQL_GetInstance cd db p i = (db', r) \<Longrightarrow> db_inv cd db'"
  by (metis GetInstance_tables db_inv_cong fst_conv)

lemma db_inv_register:
  "faithful cd \<Longrightarrow> db_inv cd db \<Longrightarrow> SQL_RegisterInstance cd db s = (db', r) \<Longrightarrow> db_inv cd db'"
  by (auto simp: SQL_RegisterInstance_def Let_def split: option.splits prod.splits dest: db_inv_tx db_inv_get)

lemma db_inv_sync:
  "faithful cd \<Longrightarrow> db_inv cd db \<Longrightarrow> SQL_SyncMetadata w cd db s = (db', r) \<Longrightarrow> db_inv cd db'"
  by (auto simp: SQL_SyncMetadata_def split: option.splits prod.splits sum.splits dest: db_inv_tx db_inv_get)

lemma db_inv_report:
  "faithful cd \<Longrightarrow> db_inv cd db \<Longrightarrow> SQL_ReportStatus w cd db p i st rt md now = (db', r) \<Longrightarrow> db_inv cd db'"
  by (auto simp: SQL_ReportStatus_def Let_def split: prod.splits sum.splits dest: db_inv_get intro: db_inv_sync)

lemma db_inv_renew:
  assumes "db_inv cd db" and "SQL_RenewLease w cd db l = (db', r)"
  shows "db_inv cd db'"
proof -
  define f where "f = (\<lambda>r. r\<lparr>ir_status := StatusOnline, ir_last_heartbeat_at := utcOrNow w (ls_LastHeartbeatAt l),
      ir_lease_expires_at := utcOrNow w (ls_ExpiresAt l), ir_lease_ttl_seconds := secs (ls_LeaseTTL l),
      ir_updated_at := utcOrNow w (ls_LastHeartbeatAt l)\<rparr> :: InstanceRow)"
  obtain db1 e where s: "exec (update_instances (ls_PluginID l) (ls_InstanceID l) f) db = (db1, e)" by fastforce
  have "db_inv cd db1" by (rule db_inv_exec_update [OF assms(1) s]) (simp add: f_def row_ids_def)
  moreover have "db' = db1 \<or> (\<exists>r. SQL_GetInstance cd db1 (ls_PluginID l) (ls_InstanceID l) = (db', r))"
    using assms(2) s by (auto simp: SQL_RenewLease_def Let_def f_def split: option.splits if_splits)
  ultimately show ?thesis using db_inv_get by blast
qed

lemma db_inv_unregister:
  assumes "db_inv cd db" and "SQL_UnregisterInstance w db p i now = (db', r)"
  shows "db_inv cd db'"
proof -
  define f where "f = (\<lambda>r. r\<lparr>ir_status := StatusOffline, ir_runtime_status := [],
      ir_lease_expires_at := utcOrNow w now, ir_updated_at := utcOrNow w now\<rparr> :: InstanceRow)"
  obtain db1 e where s: "exec (update_instances p i f) db = (db1, e)" by fastforce
  have "db_inv cd db1" by (rule db_inv_exec_update [OF assms(1) s]) (simp add: f_def row_ids_def)
  moreover have "db' = db1"
    using assms(2) s by (auto simp: SQL_UnregisterInstance_def Let_def f_def split: option.splits if_splits)
  ultimately show ?thesis by simp
qed

lemma db_inv_expire_rows: "db_inv cd db \<Longrightarrow> expire_rows now xs db = (db', r) \<Longrightarrow> db_inv cd db'"
proof (induction xs arbitrary: db)
  case (Cons x xs)
  obtain db1 e where s: "exec (update_instances (PluginID x) (InstanceID x)
      (\<lambda>r. r\<lparr>ir_status := StatusOffline, ir_updated_at := now\<rparr>)) db = (db1, e)" by fastforce
  have "db_inv cd db1" by (rule db_inv_exec_update [OF Cons.prems(1) s]) (simp add: row_ids_def)
  then show ?case using Cons s by (auto split: option.splits)
qed simp

lemma ListExpired_tables: "tables (fst (SQL_ListExpired w cd db now)) = tables db"
  using listInstances_tables [of cd db]
  by (auto simp: SQL_ListExpired_def SQL_ListInstances_def Let_def split: prod.splits sum.splits)

lemma db_inv_expire:
  assumes "db_inv cd db" and "SQL_ExpireLeases w cd db now = (db', r)"
  shows "db_inv cd db'"
proof -
  obtain db1 xs where s: "SQL_ListExpired w cd db now = (db1, xs)" by fastforce
  have "tables db1 = tables db" using ListExpired_tables [of w cd db now] by (simp add: s)
  then have "db_inv cd db1" using assms(1) db_inv_cong by blast
  moreover have "db' = db1 \<or> (\<exists>xs r. expire_rows (utcOrNow w now) xs db1 = (db', r))"
    using assms(2) s by (auto simp: SQL_ExpireLeases_def split: sum.splits prod.splits option.splits)
  ultimately show ?thesis using db_inv_expire_rows by blast
qed

fun sql_step :: "SqlCodec \<Rightarrow> gotime \<Rightarrow> RegCommand \<Rightarrow> DB \<Rightarrow> DB \<times> RegAnswer" where
  "sql_step cd w (CRegister x) db = map_prod id answer (SQL_RegisterInstance cd db x)"
| "sql_step cd w (CRenew l) db = map_prod id answer (SQL_RenewLease w cd db l)"
| "sql_step cd w (CUnregister p i now) db =
     map_prod id (case_option ADone AError) (SQL_UnregisterInstance w db p i now)"
| "sql_step cd w (CReport p i status runtime metadata now) db =
     map_prod id answer (SQL_ReportStatus w cd db p i status runtime metadata now)"
| "sql_step cd w (CSync x) db = map_prod id answer (SQL_SyncMetadata w cd db x)"
| "sql_step cd w (CExpire now) db = map_prod id (case_sum AError (\<lambda>xs. ADone)) (SQL_ExpireLeases w cd db now)"

lemma db_inv_step: "faithful cd \<Longrightarrow> db_inv cd db \<Longrightarrow> sql_step cd w c db = (db', a) \<Longrightarrow> db_inv cd db'"
  by (cases c) (auto simp: map_prod_def split: prod.splits
      dest: db_inv_register db_inv_renew db_inv_unregister db_inv_report db_inv_sync db_inv_expire)

lemma run_db_inv: "faithful cd \<Longrightarrow> db_inv cd db \<Longrightarrow> run (sql_step cd) cs db = (db', as) \<Longrightarrow> db_inv cd db'"
proof (induction cs arbitrary: db as)
  case (Cons wc cs)
  then show ?case by (cases wc) (auto split: prod.splits dest: db_inv_step)
qed simp

section \<open>A codec\<close>

text \<open>
  A concrete codec, to run the store on: a list of strings is written character by character, \<open>1c\<close>
  for a character and \<open>0\<close> for the end of a string, and maps and capabilities as lists of strings.
\<close>

definition enc :: "string list \<Rightarrow> json" where
  "enc xs = CHR ''['' # concat (map (\<lambda>s. concat (map (\<lambda>c. [CHR ''1'', c]) s) @ ''0'') xs)"

fun dec_loop :: "string \<Rightarrow> string \<Rightarrow> string list" where
  "dec_loop acc (b # c # rest) = (if b = CHR ''1'' then dec_loop (acc @ [c]) rest else acc # dec_loop [] (c # rest))"
| "dec_loop acc [b] = [acc]"
| "dec_loop acc [] = []"

definition dec :: "json \<Rightarrow> string list" where
  "dec raw = dec_loop [] (tl raw)"

lemma dec_loop_string:
  "dec_loop acc (concat (map (\<lambda>c. [CHR ''1'', c]) s) @ CHR ''0'' # rest) = (acc @ s) # dec_loop [] rest"
  by (induction s arbitrary: acc) (cases rest; simp)+

lemma dec_enc [simp]: "dec (enc xs) = xs"
proof -
  have "dec_loop [] (concat (map (\<lambda>s. concat (map (\<lambda>c. [CHR ''1'', c]) s) @ ''0'') xs)) = xs"
    by (induction xs) (simp_all add: dec_loop_string)
  then show ?thesis by (simp add: dec_def enc_def)
qed

lemma strip_all_Nil: "strip_all es s = [] \<Longrightarrow> set s \<subseteq> \<Union> (set ` set es)"
proof (induction es s rule: strip_all.induct)
  case (1 es s)
  then show ?case
    by (cases "strip_one es s") (simp_all add: strip_all.simps [of es s], use strip_one_suffix in fastforce)
qed

lemma enc_not_blank: "\<not> blank (enc xs)"
proof
  assume b: "blank (enc xs)"
  obtain s where s: "enc xs = CHR ''['' # s" by (simp add: enc_def)
  have "strip_one space_runes (CHR ''['' # s) = None" by (simp add: space_runes_def)
  then have "strip_all (map rev space_runes) (rev (CHR ''['' # s)) = []"
    using b by (simp add: TrimSpace_def s strip_all_id)
  then have "CHR ''['' \<in> \<Union> (set ` set (map rev space_runes))" using strip_all_Nil by fastforce
  then show False by (simp add: space_runes_def)
qed

fun pair_up :: "string list \<Rightarrow> (string, string) gomap" where
  "pair_up (k # v # rest) = (k, v) # pair_up rest"
| "pair_up _ = []"

lemma pair_up_inverse [simp]: "pair_up (concat (map (\<lambda>(k, v). [k, v]) m)) = m"
  by (induction m) auto

definition enc_cap :: "Capability \<Rightarrow> string" where
  "enc_cap c = enc [cap_Name c, cap_Version c, cap_Scope c, enc (cap_Permissions c), cap_InputSchema c,
     cap_OutputSchema c, cap_SecretPolicy c, cap_Description c]"

definition dec_cap :: "string \<Rightarrow> Capability" where
  "dec_cap raw = (case dec raw of
       [n, v, sc, ps, i, out, sp, d] \<Rightarrow> \<lparr>cap_Name = n, cap_Version = v, cap_Scope = sc, cap_Permissions = dec ps,
          cap_InputSchema = i, cap_OutputSchema = out, cap_SecretPolicy = sp, cap_Description = d\<rparr>
     | _ \<Rightarrow> \<lparr>cap_Name = [], cap_Version = [], cap_Scope = [], cap_Permissions = [],
          cap_InputSchema = [], cap_OutputSchema = [], cap_SecretPolicy = [], cap_Description = []\<rparr>)"

lemma dec_enc_cap [simp]: "dec_cap (enc_cap c) = c"
  by (simp add: dec_cap_def enc_cap_def)

definition text_codec :: SqlCodec where
  "text_codec = \<lparr>j_strings = (\<lambda>xs. Inr (enc xs)), j_map = (\<lambda>m. Inr (enc (concat (map (\<lambda>(k, v). [k, v]) m)))),
     j_caps = (\<lambda>cs. Inr (enc (map enc_cap cs))), u_strings = dec, u_map = (\<lambda>raw. pair_up (dec raw)),
     u_caps = (\<lambda>raw. map dec_cap (dec raw))\<rparr>"

lemma faithful_text_codec: "faithful text_codec"
  by (auto simp: faithful_def text_codec_def enc_not_blank comp_def)

definition empty_db :: "goerror option list \<Rightarrow> DB" where
  "empty_db faults = \<lparr>t_instances = [], t_capabilities = [], t_subscriptions = [], db_faults = faults\<rparr>"

lemma db_inv_empty: "db_inv cd (empty_db faults)"
  by (simp add: db_inv_def empty_db_def)

definition sample_capability :: Capability where
  "sample_capability = \<lparr>cap_Name = ''pay'', cap_Version = ''v1'', cap_Scope = [], cap_Permissions = [''p''],
     cap_InputSchema = [], cap_OutputSchema = [], cap_SecretPolicy = [], cap_Description = []\<rparr>"

section \<open>Property\<close>



end
