(* ===== verification/SQL_Refinement.thy ===== *)
theory SQL_Refinement
  imports SQL_Properties
begin

text \<open>
  The SQL registry against the map specification. \<open>sql_spec\<close> is the map specification of the store: one entry
  per exact identifier pair, a registration that replaces it, a refusal when a value cannot be
  encoded or a capability name occurs twice. Without faults the store refines it; and on canonical
  commands it answers as the in-process registry does, apart from the creation time.
\<close>

section \<open>Specification\<close>

fun caps_error :: "SqlCodec \<Rightarrow> string set \<Rightarrow> Capability list \<Rightarrow> goerror option" where
  "caps_error cd seen [] = None"
| "caps_error cd seen (c # cs) =
     (case j_strings cd (cap_Permissions c) of
        Inl e \<Rightarrow> Some e
      | Inr perms \<Rightarrow> if cap_Name c \<in> seen then Some ErrUnique else caps_error cd (insert (cap_Name c) seen) cs)"

definition store_error :: "SqlCodec \<Rightarrow> PluginSnapshot \<Rightarrow> goerror option" where
  "store_error cd s = (case marshal_row cd s of Inl e \<Rightarrow> Some e | Inr row \<Rightarrow> caps_error cd {} (Capabilities s))"

definition snapshot_key :: "PluginSnapshot \<Rightarrow> string \<times> string" where
  "snapshot_key s = (PluginID s, InstanceID s)"

definition spec_store :: "SqlCodec \<Rightarrow> InstanceMap \<Rightarrow> PluginSnapshot \<Rightarrow> InstanceMap \<times> RegAnswer" where
  "spec_store cd A s =
     (case store_error cd s of
        Some e \<Rightarrow> (A, AError e)
      | None \<Rightarrow> (A(snapshot_key s \<mapsto> stored s), ASnapshot (stored s)))"

definition spec_sync :: "SqlCodec \<Rightarrow> gotime \<Rightarrow> PluginSnapshot \<Rightarrow> InstanceMap \<Rightarrow> InstanceMap \<times> RegAnswer" where
  "spec_sync cd w s A =
     (if blank (PluginID s) \<or> blank (InstanceID s) then (A, AError registry_ErrInvalid)
      else case A (snapshot_key s) of
             None \<Rightarrow> (A, AError registry_ErrNotFound)
           | Some old \<Rightarrow> spec_store cd A (sql_backfill w s old))"

definition reported :: "string \<Rightarrow> string \<Rightarrow> (string, string) gomap \<Rightarrow> gotime \<Rightarrow> PluginSnapshot \<Rightarrow> PluginSnapshot" where
  "reported status runtime metadata now x = x\<lparr>
     Status := (if blank status then Status x else TrimSpace status),
     RuntimeStatus := (if blank runtime then RuntimeStatus x else TrimSpace runtime),
     Metadata := (if metadata = [] then Metadata x else mergeMetadata (Metadata x) metadata),
     UpdatedAt := now\<rparr>"

fun sql_spec :: "SqlCodec \<Rightarrow> gotime \<Rightarrow> RegCommand \<Rightarrow> InstanceMap \<Rightarrow> InstanceMap \<times> RegAnswer" where
  "sql_spec cd w (CRegister x) A =
     (if blank (PluginID x) \<or> blank (InstanceID x) then (A, AError registry_ErrInvalid)
      else spec_store cd A (register_snapshot x))"
| "sql_spec cd w (CRenew l) A =
     spec_change A (ls_PluginID l, ls_InstanceID l)
       (\<lambda>x. x\<lparr>Status := StatusOnline, LastHeartbeatAt := utcOrNow w (ls_LastHeartbeatAt l),
          LeaseExpiresAt := utcOrNow w (ls_ExpiresAt l), LeaseTTLSeconds := secs (ls_LeaseTTL l),
          UpdatedAt := utcOrNow w (ls_LastHeartbeatAt l)\<rparr>)"
| "sql_spec cd w (CUnregister p i now) A =
     (case spec_change A (p, i) (\<lambda>x. x\<lparr>Status := StatusOffline, RuntimeStatus := [],
          LeaseExpiresAt := utcOrNow w now, UpdatedAt := utcOrNow w now\<rparr>) of
        (A, ASnapshot x) \<Rightarrow> (A, ADone)
      | r \<Rightarrow> r)"
| "sql_spec cd w (CReport p i status runtime metadata now) A =
     (case A (p, i) of
        None \<Rightarrow> (A, AError registry_ErrNotFound)
      | Some x \<Rightarrow> spec_sync cd w (reported status runtime metadata (utcOrNow w now) x) A)"
| "sql_spec cd w (CSync x) A = spec_sync cd w x A"
| "sql_spec cd w (CExpire now) A = (\<lambda>k. map_option (expire_snapshot (utcOrNow w now)) (A k), ADone)"

section \<open>Abstraction\<close>

definition row_entry :: "SqlCodec \<Rightarrow> InstanceRow \<Rightarrow> (string \<times> string) \<times> PluginSnapshot" where
  "row_entry cd r = (row_ids r, row_snapshot cd r)"

definition abs_sql :: "SqlCodec \<Rightarrow> DB \<Rightarrow> InstanceMap" where
  "abs_sql cd db = map_of (map (row_entry cd) (t_instances db))"

lemma row_entry_sel [simp]: "fst (row_entry cd r) = row_ids r" "snd (row_entry cd r) = row_snapshot cd r"
  by (simp_all add: row_entry_def)

lemma snapshot_key_row [simp]: "snapshot_key (row_snapshot cd r) = row_ids r"
  by (simp add: snapshot_key_def row_ids_def)

lemma abs_sql_key: "abs_sql cd db k = Some x \<Longrightarrow> snapshot_key x = k"
  by (auto simp: abs_sql_def row_entry_def dest!: map_of_SomeD)

lemma map_of_filter_key: "map_of (filter (\<lambda>e. fst e \<noteq> k) es) = (map_of es)(k := None)"
  by (induction es) (auto simp: fun_eq_iff)

lemma abs_sql_replaced:
  assumes "faithful cd" and "replaced cd s db db'"
  shows "abs_sql cd db' = (abs_sql cd db)(snapshot_key s \<mapsto> stored s)"
proof -
  obtain row where r: "marshal_row cd s = Inr row"
      "t_instances db' = filter (\<lambda>r. row_ids r \<noteq> snapshot_key s) (t_instances db) @ [row]"
    using assms(2) unfolding replaced_def same_instance_ids snapshot_key_def by blast
  note row = row_snapshot_marshal [OF assms(1) r(1)]
  have "map (row_entry cd) (filter (\<lambda>r. row_ids r \<noteq> k) rs) = filter (\<lambda>e. fst e \<noteq> k) (map (row_entry cd) rs)" for k rs
    by (simp add: filter_map comp_def)
  then show ?thesis
    by (simp add: abs_sql_def r(2) map_of_filter_key)
       (auto simp: fun_eq_iff map_add_def row row_entry_def snapshot_key_def split: option.splits)
qed

lemma abs_sql_update:
  assumes "update_instances p i f db = Inr db'" and "\<And>r. row_ids (f r) = row_ids r"
    and "\<And>r. row_snapshot cd (f r) = g (row_snapshot cd r)"
  shows "abs_sql cd db' = (abs_sql cd db)((p, i) := map_option g (abs_sql cd db (p, i)))"
proof -
  have "map_of (map (row_entry cd) (map (\<lambda>r. if same_instance p i r then f r else r) rs)) k =
      (if k = (p, i) then map_option g (map_of (map (row_entry cd) rs) k) else map_of (map (row_entry cd) rs) k)" for rs k
    by (induction rs) (auto simp: row_entry_def [abs_def] assms(2,3) same_instance_ids)
  then show ?thesis using assms(1) by (auto simp: update_instances_def abs_sql_def fun_eq_iff)
qed

section \<open>Reading\<close>

lemma stmt_ok: "db_faults db = [] \<Longrightarrow> stmt db = (db, None)"
  by (simp add: stmt_def)

lemma listInstances_ok:
  "db_faults db = [] \<Longrightarrow> listInstances cd db = (db, Inr (sortSnapshots (map (row_snapshot cd) (t_instances db))))"
  by (simp add: listInstances_def stmt_ok comp_def)

lemma find_instance_map:
  "find_instance p i xs =
     (case map_of (map (\<lambda>x. (snapshot_key x, x)) xs) (p, i) of None \<Rightarrow> Inl registry_ErrNotFound | Some x \<Rightarrow> Inr x)"
  by (induction xs) (auto simp: snapshot_key_def)

lemma sorted_entries:
  assumes "distinct (map row_ids rs)"
  shows "map_of (map (\<lambda>x. (snapshot_key x, x)) (sortSnapshots (map (row_snapshot cd) rs))) = map_of (map (row_entry cd) rs)"
proof (rule iffD2 [OF map_of_inject_set])
  let ?xs = "map (row_snapshot cd) rs"
  have m: "mset (map snapshot_key (sortSnapshots ?xs)) = mset (map row_ids rs)"
    by (simp add: sortSnapshots_def comp_def image_mset.compositionality)
  show "distinct (map fst (map (\<lambda>x. (snapshot_key x, x)) (sortSnapshots ?xs)))"
    using assms mset_eq_imp_distinct_iff [OF m] by (simp add: comp_def)
  show "distinct (map fst (map (row_entry cd) rs))" using assms by (simp add: comp_def)
  show "set (map (\<lambda>x. (snapshot_key x, x)) (sortSnapshots ?xs)) = set (map (row_entry cd) rs)"
    by (simp add: sortSnapshots_def image_image row_entry_def)
qed

definition no_faults :: "SqlCodec \<Rightarrow> DB \<Rightarrow> bool" where
  "no_faults cd db \<longleftrightarrow> db_faults db = [] \<and> db_inv cd db"

lemma GetInstance_ok:
  assumes "no_faults cd db"
  shows "SQL_GetInstance cd db p i =
    (db, case abs_sql cd db (p, i) of None \<Rightarrow> Inl registry_ErrNotFound | Some x \<Rightarrow> Inr x)"
proof -
  have "db_faults db = []" "distinct (map row_ids (t_instances db))" using assms by (auto simp: no_faults_def db_inv_def)
  then show ?thesis by (simp add: SQL_GetInstance_def listInstances_ok find_instance_map sorted_entries abs_sql_def)
qed

section \<open>Writing\<close>

lemma of_instance_key: "of_instance p i r \<Longrightarrow> capability_key r = (p, i, cr_capability r)"
  by (simp add: of_instance_def capability_key_def)

lemma capability_key_index:
  "(p, i, n) \<in> capability_key ` set (t_capabilities db) \<longleftrightarrow> n \<in> set (index_of db p i)"
  by (force simp: index_of_def capability_key_def of_instance_def)

lemma insert_capabilities_ok:
  "db_faults db = [] \<Longrightarrow>
   db_faults (fst (insert_capabilities cd s cs db)) = [] \<and>
   snd (insert_capabilities cd s cs db) = caps_error cd (set (index_of db (PluginID s) (InstanceID s))) cs"
proof (induction cs arbitrary: db)
  case (Cons c cs)
  show ?case
  proof (cases "j_strings cd (cap_Permissions c)")
    case (Inr perms)
    let ?row = "capability_row s c perms"
    let ?db = "db\<lparr>t_capabilities := t_capabilities db @ [?row]\<rparr>"
    have row: "of_instance (PluginID s) (InstanceID s) ?row" "cr_capability ?row = cap_Name c"
      by (simp_all add: capability_row_def of_instance_def)
    have ins: "insert_capability ?row db =
        (if cap_Name c \<in> set (index_of db (PluginID s) (InstanceID s)) then Inl ErrUnique else Inr ?db)"
      by (simp add: insert_capability_def of_instance_key [OF row(1)] row(2) capability_key_index)
    have "index_of ?db (PluginID s) (InstanceID s) = index_of db (PluginID s) (InstanceID s) @ [cap_Name c]"
      using row by (simp add: index_of_def)
    then show ?thesis using Cons.IH [of ?db] Cons.prems Inr by (simp add: exec_no_faults ins)
  qed (use Cons.prems in simp)
qed simp

lemma delete_capabilities_ok:
  assumes "db_faults db = []"
  obtains db' where "exec (delete_capabilities p i) db = (db', None)" "db_faults db' = []" "index_of db' p i = []"
proof -
  define db' where "db' = db\<lparr>t_capabilities := filter (\<lambda>r. \<not> (cr_plugin_id r = p \<and> cr_instance_id r = i)) (t_capabilities db)\<rparr>"
  have "delete_capabilities p i db = Inr db'" unfolding delete_capabilities_def db'_def ..
  then have "exec (delete_capabilities p i) db = (db', None)" by (simp only: exec_no_faults [OF assms] sum.case)
  moreover have "db_faults db' = []" by (simp add: db'_def assms)
  moreover have "index_of db' p i = []"
    by (auto simp: db'_def index_of_def of_instance_def filter_empty_conv)
  ultimately show ?thesis by (rule that)
qed

lemma delete_instances_ok:
  assumes "db_faults db = []"
  obtains db' where "exec (delete_instances p i) db = (db', None)" "db_faults db' = []"
    "index_of db' p i = index_of db p i" "\<forall>r \<in> set (t_instances db'). \<not> same_instance p i r"
proof -
  define db' where "db' = db\<lparr>t_instances := filter (\<lambda>r. \<not> same_instance p i r) (t_instances db)\<rparr>"
  have "delete_instances p i db = Inr db'" unfolding delete_instances_def db'_def ..
  then have "exec (delete_instances p i) db = (db', None)" by (simp only: exec_no_faults [OF assms] sum.case)
  then show ?thesis by (rule that) (simp_all add: db'_def assms index_of_def)
qed

lemma insert_instance_ok:
  assumes "db_faults db = []" and "\<forall>r \<in> set (t_instances db). \<not> same_instance (ir_plugin_id row) (ir_instance_id row) r"
  obtains db' where "exec (insert_instance row) db = (db', None)" "db_faults db' = []"
    "index_of db' p i = index_of db p i"
proof -
  define db' where "db' = db\<lparr>t_instances := t_instances db @ [row]\<rparr>"
  have "insert_instance row db = Inr db'" using assms(2) unfolding insert_instance_def db'_def by simp
  then have "exec (insert_instance row) db = (db', None)" by (simp only: exec_no_faults [OF assms(1)] sum.case)
  then show ?thesis by (rule that) (simp_all add: db'_def assms index_of_def)
qed

lemma replaceInstance_ok:
  assumes "db_faults db = []"
  shows "db_faults (fst (replaceInstance cd s db)) = [] \<and> snd (replaceInstance cd s db) = store_error cd s"
proof -
  obtain d1 where d1: "exec (delete_capabilities (PluginID s) (InstanceID s)) db = (d1, None)" "db_faults d1 = []"
      "index_of d1 (PluginID s) (InstanceID s) = []"
    using delete_capabilities_ok [OF assms] .
  obtain d2 where d2: "exec (delete_instances (PluginID s) (InstanceID s)) d1 = (d2, None)" "db_faults d2 = []"
      "index_of d2 (PluginID s) (InstanceID s) = []" "\<forall>r \<in> set (t_instances d2). \<not> same_instance (PluginID s) (InstanceID s) r"
    using delete_instances_ok [OF d1(2), of "PluginID s" "InstanceID s"] d1(3) by auto
  show ?thesis
  proof (cases "marshal_row cd s")
    case (Inl e)
    then show ?thesis using d1 d2 by (simp add: replaceInstance_def store_error_def)
  next
    case (Inr row)
    have "ir_plugin_id row = PluginID s" "ir_instance_id row = InstanceID s"
      using Inr by (auto simp: marshal_row_def snapshot_row_def split: sum.splits)
    then obtain d3 where d3: "exec (insert_instance row) d2 = (d3, None)" "db_faults d3 = []"
        "index_of d3 (PluginID s) (InstanceID s) = []"
      using insert_instance_ok [OF d2(2), of row "PluginID s" "InstanceID s"] d2(3,4) by auto
    show ?thesis using insert_capabilities_ok [OF d3(2), of cd s "Capabilities s"] d1(1) d2(1) d3(1,3) Inr
      by (simp add: replaceInstance_def store_error_def)
  qed
qed

lemma tx_ok:
  assumes "faithful cd" and "no_faults cd db"
  shows "\<exists>db'. with_tx (replaceInstance cd s) db = (db', store_error cd s) \<and> no_faults cd db' \<and>
     (case store_error cd s of Some e \<Rightarrow> db' = db | None \<Rightarrow> abs_sql cd db' = (abs_sql cd db)(snapshot_key s \<mapsto> stored s))"
proof -
  have f: "db_faults db = []" using assms(2) by (simp add: no_faults_def)
  obtain db1 where r: "replaceInstance cd s db = (db1, store_error cd s)" "db_faults db1 = []"
    using replaceInstance_ok [OF f, of cd s] by (metis prod.collapse)
  have db: "db\<lparr>db_faults := []\<rparr> = db" using f by simp
  show ?thesis
  proof (cases "store_error cd s")
    case None
    then have rep: "replaced cd s db db1" using replaceInstance_None r(1) by simp
    have "with_tx (replaceInstance cd s) db = (db1, None)" using r None f by (simp add: with_tx_def stmt_ok)
    moreover have "db_inv cd db1" using db_inv_replaced [OF assms(1) _ rep] assms(2) by (simp add: no_faults_def)
    ultimately show ?thesis using None r(2) abs_sql_replaced [OF assms(1) rep] by (simp add: no_faults_def)
  next
    case (Some e)
    then show ?thesis using r f assms(2) by (simp add: with_tx_def stmt_ok db)
  qed
qed

text \<open>Storing a snapshot and reading it back is one step of the specification.\<close>

lemma store_refines:
  assumes "faithful cd" and "no_faults cd db" and "(p, i) = snapshot_key s"
    and "(case with_tx (replaceInstance cd s) db of
            (db, Some e) \<Rightarrow> (db, Inl e) | (db, None) \<Rightarrow> SQL_GetInstance cd db p i) = (db', r)"
  shows "spec_store cd (abs_sql cd db) s = (abs_sql cd db', answer r) \<and> no_faults cd db'"
proof -
  obtain db1 where t: "with_tx (replaceInstance cd s) db = (db1, store_error cd s)" "no_faults cd db1"
      "case store_error cd s of Some e \<Rightarrow> db1 = db | None \<Rightarrow> abs_sql cd db1 = (abs_sql cd db)(snapshot_key s \<mapsto> stored s)"
    using tx_ok [OF assms(1,2), of s] by blast
  show ?thesis using assms(3,4) t GetInstance_ok [OF t(2), of p i]
    by (cases "store_error cd s") (auto simp: spec_store_def)
qed

lemma sync_refines:
  assumes "faithful cd" and "no_faults cd db" and "SQL_SyncMetadata w cd db s = (db', r)"
  shows "spec_sync cd w s (abs_sql cd db) = (abs_sql cd db', answer r) \<and> no_faults cd db'"
proof (cases "validateSnapshot s")
  case (Some e)
  then show ?thesis using assms(2,3)
    by (auto simp: SQL_SyncMetadata_def spec_sync_def validateSnapshot_def split: if_splits)
next
  case None
  then have nb: "\<not> (blank (PluginID s) \<or> blank (InstanceID s))" by (auto simp: validateSnapshot_def split: if_splits)
  have g: "SQL_GetInstance cd db (PluginID s) (InstanceID s) =
      (db, case abs_sql cd db (snapshot_key s) of None \<Rightarrow> Inl registry_ErrNotFound | Some x \<Rightarrow> Inr x)"
    using GetInstance_ok [OF assms(2)] by (simp add: snapshot_key_def)
  show ?thesis
  proof (cases "abs_sql cd db (snapshot_key s)")
    case None
    then show ?thesis using assms(2,3) nb \<open>validateSnapshot s = None\<close> g
      by (auto simp: SQL_SyncMetadata_def spec_sync_def)
  next
    case (Some x)
    have "(case with_tx (replaceInstance cd (sql_backfill w s x)) db of
        (db, Some e) \<Rightarrow> (db, Inl e) | (db, None) \<Rightarrow> SQL_GetInstance cd db (PluginID s) (InstanceID s)) = (db', r)"
      using assms(3) Some \<open>validateSnapshot s = None\<close> g by (simp add: SQL_SyncMetadata_def)
    then have "spec_store cd (abs_sql cd db) (sql_backfill w s x) = (abs_sql cd db', answer r) \<and> no_faults cd db'"
      by (rule store_refines [OF assms(1,2), rotated]) (simp add: snapshot_key_def sql_backfill_def)
    then show ?thesis using Some nb by (simp add: spec_sync_def)
  qed
qed

lemma update_refines:
  assumes "no_faults cd db" and "exec (update_instances p i f) db = (db1, e)"
    and ids: "\<And>r. row_ids (f r) = row_ids r \<and> ir_capabilities_json (f r) = ir_capabilities_json r \<and>
              ir_transport (f r) = ir_transport r \<and> ir_protocol (f r) = ir_protocol r"
    and g: "\<And>r. row_snapshot cd (f r) = g (row_snapshot cd r)"
  shows "e = None" "no_faults cd db1"
    "abs_sql cd db1 = (abs_sql cd db)((p, i) := map_option g (abs_sql cd db (p, i)))"
    "rows_affected p i db1 = 0 \<longleftrightarrow> abs_sql cd db (p, i) = None"
proof -
  have f: "db_faults db = []" "db_inv cd db" using assms(1) by (auto simp: no_faults_def)
  have u: "update_instances p i f db = Inr db1" "e = None"
    using assms(2) f by (auto simp: exec_no_faults update_instances_def)
  then show "e = None" by simp
  have t: "t_instances db1 = map (\<lambda>r. if same_instance p i r then f r else r) (t_instances db)" "db_faults db1 = []"
    using u(1) f by (auto simp: update_instances_def)
  show "no_faults cd db1" using db_inv_exec_update [OF f(2) assms(2) ids] t(2) by (simp add: no_faults_def)
  show "abs_sql cd db1 = (abs_sql cd db)((p, i) := map_option g (abs_sql cd db (p, i)))"
    by (rule abs_sql_update [OF u(1)]) (simp_all add: ids g)
  have "rows_affected p i db1 = 0 \<longleftrightarrow> (p, i) \<notin> row_ids ` set (t_instances db)"
    using ids by (auto simp: rows_affected_def t(1) filter_empty_conv same_instance_ids image_iff)
  also have "\<dots> \<longleftrightarrow> abs_sql cd db (p, i) = None"
    by (auto simp: abs_sql_def map_of_eq_None_iff image_image row_entry_def)
  finally show "rows_affected p i db1 = 0 \<longleftrightarrow> abs_sql cd db (p, i) = None" .
qed

lemma expire_rows_ok:
  "no_faults cd db \<Longrightarrow> expire_rows now xs db = (db', e) \<Longrightarrow>
   e = None \<and> no_faults cd db' \<and>
   abs_sql cd db' = (\<lambda>k. if k \<in> snapshot_key ` set xs
     then map_option (\<lambda>x. x\<lparr>Status := StatusOffline, UpdatedAt := now\<rparr>) (abs_sql cd db k) else abs_sql cd db k)"
proof (induction xs arbitrary: db)
  case (Cons x xs)
  let ?f = "\<lambda>r. r\<lparr>ir_status := StatusOffline, ir_updated_at := now\<rparr> :: InstanceRow"
  obtain db1 e1 where s: "exec (update_instances (PluginID x) (InstanceID x) ?f) db = (db1, e1)" by fastforce
  have u: "e1 = None" "no_faults cd db1"
      "abs_sql cd db1 = (abs_sql cd db)((PluginID x, InstanceID x) := map_option (\<lambda>x. x\<lparr>Status := StatusOffline,
         UpdatedAt := now\<rparr>) (abs_sql cd db (PluginID x, InstanceID x)))"
    by (rule update_refines [where g = "\<lambda>x. x\<lparr>Status := StatusOffline, UpdatedAt := now\<rparr>", OF Cons.prems(1) s]; simp add: row_ids_def row_snapshot_def)+
  have "expire_rows now xs db1 = (db', e)" using Cons.prems(2) s u(1) by simp
  from Cons.IH [OF u(2) this] show ?case
    by (auto simp: u(3) snapshot_key_def fun_eq_iff option.map_comp comp_def)
qed auto

lemma ListExpired_ok:
  assumes "db_faults db = []"
  obtains xs where "SQL_ListExpired w cd db now = (db, Inr xs)"
    "set xs = {x \<in> row_snapshot cd ` set (t_instances db). lease_over x (utcOrNow w now)}"
  using assms
  by (auto simp: SQL_ListExpired_def SQL_ListInstances_def listInstances_ok Let_def matches_def sortSnapshots_def)

lemma abs_sql_Some:
  assumes "no_faults cd db"
  shows "abs_sql cd db k = Some x \<longleftrightarrow> x \<in> row_snapshot cd ` set (t_instances db) \<and> snapshot_key x = k"
proof -
  have "distinct (map fst (map (row_entry cd) (t_instances db)))"
    using assms by (simp add: no_faults_def db_inv_def comp_def)
  then show ?thesis by (auto simp: abs_sql_def map_of_eq_Some_iff row_entry_def)
qed

lemma expire_refines:
  assumes "no_faults cd db" and "SQL_ExpireLeases w cd db now = (db', r)"
  shows "sql_spec cd w (CExpire now) (abs_sql cd db) = (abs_sql cd db', case_sum AError (\<lambda>xs. ADone) r) \<and> no_faults cd db'"
proof -
  let ?t = "utcOrNow w now"
  obtain xs where xs: "SQL_ListExpired w cd db now = (db, Inr xs)"
      "set xs = {x \<in> row_snapshot cd ` set (t_instances db). lease_over x ?t}"
    using ListExpired_ok assms(1) by (metis no_faults_def)
  obtain db1 e where x: "expire_rows ?t xs db = (db1, e)" by fastforce
  note ok = expire_rows_ok [OF assms(1) x]
  have r: "db' = db1" "r = Inr xs" using assms(2) x xs(1) ok by (auto simp: SQL_ExpireLeases_def)
  have over: "k \<in> snapshot_key ` set xs \<longleftrightarrow> lease_over x ?t" if "abs_sql cd db k = Some x" for k x
  proof -
    have "y = x" if "y \<in> row_snapshot cd ` set (t_instances db)" "snapshot_key y = k" for y
      using that \<open>abs_sql cd db k = Some x\<close> abs_sql_Some [OF assms(1)] by (metis option.inject)
    then have "k \<in> snapshot_key ` set xs \<longleftrightarrow> x \<in> set xs"
      using that abs_sql_Some [OF assms(1), of k x] by (metis (no_types, lifting) image_iff mem_Collect_eq xs(2))
    then show ?thesis using that abs_sql_Some [OF assms(1), of k x] by (simp add: xs(2))
  qed
  have "abs_sql cd db1 k = map_option (expire_snapshot ?t) (abs_sql cd db k)" for k
    using over ok by (cases "abs_sql cd db k") (auto simp: expire_snapshot_def)
  then show ?thesis using ok r by (auto simp: fun_eq_iff)
qed

lemma spec_change_upd:
  "B = A(k := map_option f (A k)) \<Longrightarrow>
   spec_change A k f = (B, case A k of None \<Rightarrow> AError registry_ErrNotFound | Some x \<Rightarrow> ASnapshot (f x))"
  by (auto simp: spec_change_def fun_upd_idem split: option.splits)

lemma renew_refines:
  assumes "no_faults cd db" and "SQL_RenewLease w cd db l = (db', r)"
  shows "sql_spec cd w (CRenew l) (abs_sql cd db) = (abs_sql cd db', answer r) \<and> no_faults cd db'"
proof -
  define f where "f = (\<lambda>r. r\<lparr>ir_status := StatusOnline, ir_last_heartbeat_at := utcOrNow w (ls_LastHeartbeatAt l),
      ir_lease_expires_at := utcOrNow w (ls_ExpiresAt l), ir_lease_ttl_seconds := secs (ls_LeaseTTL l),
      ir_updated_at := utcOrNow w (ls_LastHeartbeatAt l)\<rparr> :: InstanceRow)"
  define g where "g = (\<lambda>x. x\<lparr>Status := StatusOnline, LastHeartbeatAt := utcOrNow w (ls_LastHeartbeatAt l),
      LeaseExpiresAt := utcOrNow w (ls_ExpiresAt l), LeaseTTLSeconds := secs (ls_LeaseTTL l),
      UpdatedAt := utcOrNow w (ls_LastHeartbeatAt l)\<rparr> :: PluginSnapshot)"
  let ?p = "ls_PluginID l" and ?i = "ls_InstanceID l"
  obtain db1 e where s: "exec (update_instances ?p ?i f) db = (db1, e)" by fastforce
  have u: "e = None" "no_faults cd db1" "abs_sql cd db1 = (abs_sql cd db)((?p, ?i) := map_option g (abs_sql cd db (?p, ?i)))"
      "rows_affected ?p ?i db1 = 0 \<longleftrightarrow> abs_sql cd db (?p, ?i) = None"
    by (rule update_refines [where g = g, OF assms(1) s]; simp add: f_def g_def row_ids_def row_snapshot_def)+
  have "SQL_RenewLease w cd db l = (if rows_affected ?p ?i db1 = 0 then (db1, Inl registry_ErrNotFound)
      else SQL_GetInstance cd db1 ?p ?i)"
    using s u(1) by (simp add: SQL_RenewLease_def Let_def f_def)
  then have r: "db' = db1" "answer r = (case abs_sql cd db (?p, ?i) of None \<Rightarrow> AError registry_ErrNotFound | Some x \<Rightarrow> ASnapshot (g x))"
    using assms(2) u(4) by (auto simp: GetInstance_ok [OF u(2)] u(3) split: option.splits if_splits)
  show ?thesis using spec_change_upd [OF u(3)] u(2) r by (simp add: g_def)
qed

lemma unregister_refines:
  assumes "no_faults cd db" and "SQL_UnregisterInstance w db p i now = (db', r)"
  shows "sql_spec cd w (CUnregister p i now) (abs_sql cd db) = (abs_sql cd db', case_option ADone AError r) \<and> no_faults cd db'"
proof -
  define f where "f = (\<lambda>r. r\<lparr>ir_status := StatusOffline, ir_runtime_status := [],
      ir_lease_expires_at := utcOrNow w now, ir_updated_at := utcOrNow w now\<rparr> :: InstanceRow)"
  define g where "g = (\<lambda>x. x\<lparr>Status := StatusOffline, RuntimeStatus := [],
      LeaseExpiresAt := utcOrNow w now, UpdatedAt := utcOrNow w now\<rparr> :: PluginSnapshot)"
  obtain db1 e where s: "exec (update_instances p i f) db = (db1, e)" by fastforce
  have u: "e = None" "no_faults cd db1" "abs_sql cd db1 = (abs_sql cd db)((p, i) := map_option g (abs_sql cd db (p, i)))"
      "rows_affected p i db1 = 0 \<longleftrightarrow> abs_sql cd db (p, i) = None"
    by (rule update_refines [where g = g, OF assms(1) s]; simp add: f_def g_def row_ids_def row_snapshot_def)+
  have r: "db' = db1" "r = (case abs_sql cd db (p, i) of None \<Rightarrow> Some registry_ErrNotFound | Some x \<Rightarrow> None)"
    using assms(2) s u(1,4) by (auto simp: SQL_UnregisterInstance_def Let_def f_def split: option.splits if_splits)
  show ?thesis using spec_change_upd [OF u(3)] u(2) r by (auto simp: g_def split: option.splits)
qed

lemma report_refines:
  assumes "faithful cd" and "no_faults cd db" and "SQL_ReportStatus w cd db p i st rt md now = (db', r)"
  shows "sql_spec cd w (CReport p i st rt md now) (abs_sql cd db) = (abs_sql cd db', answer r) \<and> no_faults cd db'"
proof (cases "abs_sql cd db (p, i)")
  case None
  then show ?thesis using assms(2,3) by (auto simp: SQL_ReportStatus_def GetInstance_ok [OF assms(2)])
next
  case (Some x)
  have "SQL_SyncMetadata w cd db (reported st rt md (utcOrNow w now) x) = (db', r)"
    using assms(3) Some by (simp add: SQL_ReportStatus_def GetInstance_ok [OF assms(2)] Let_def reported_def split: if_splits)
  from sync_refines [OF assms(1,2) this] show ?thesis by (simp add: Some)
qed

lemma register_refines:
  assumes "faithful cd" and "no_faults cd db" and "SQL_RegisterInstance cd db x = (db', r)"
  shows "sql_spec cd w (CRegister x) (abs_sql cd db) = (abs_sql cd db', answer r) \<and> no_faults cd db'"
proof (cases "validateSnapshot x")
  case (Some e)
  then show ?thesis using assms(2,3)
    by (auto simp: SQL_RegisterInstance_def validateSnapshot_def split: if_splits)
next
  case None
  let ?s = "register_snapshot x"
  have nb: "\<not> (blank (PluginID x) \<or> blank (InstanceID x))" using None by (auto simp: validateSnapshot_def split: if_splits)
  have "(case with_tx (replaceInstance cd ?s) db of
      (db, Some e) \<Rightarrow> (db, Inl e) | (db, None) \<Rightarrow> SQL_GetInstance cd db (PluginID ?s) (InstanceID ?s)) = (db', r)"
    using assms(3) None unfolding SQL_RegisterInstance_def register_snapshot_def Let_def by (simp only: option.case)
  from store_refines [OF assms(1,2) _ this] show ?thesis using nb by (simp add: snapshot_key_def)
qed

lemma sql_step_refines:
  assumes "faithful cd" and "no_faults cd db" and "sql_step cd w c db = (db', a)"
  shows "sql_spec cd w c (abs_sql cd db) = (abs_sql cd db', a) \<and> no_faults cd db'"
proof (cases c)
  case (CRegister x)
  obtain d r where o: "SQL_RegisterInstance cd db x = (d, r)" by fastforce
  with register_refines [OF assms(1,2) o, of w] assms(3) show ?thesis by (simp add: CRegister del: sql_spec.simps)
next
  case (CRenew l)
  obtain d r where o: "SQL_RenewLease w cd db l = (d, r)" by fastforce
  with renew_refines [OF assms(2) o] assms(3) show ?thesis by (simp add: CRenew del: sql_spec.simps)
next
  case (CUnregister p i now)
  obtain d r where o: "SQL_UnregisterInstance w db p i now = (d, r)" by fastforce
  with unregister_refines [OF assms(2) o] assms(3) show ?thesis by (simp add: CUnregister del: sql_spec.simps)
next
  case (CReport p i st rt md now)
  obtain d r where o: "SQL_ReportStatus w cd db p i st rt md now = (d, r)" by fastforce
  with report_refines [OF assms(1,2) o] assms(3) show ?thesis by (simp add: CReport del: sql_spec.simps)
next
  case (CSync x)
  obtain d r where o: "SQL_SyncMetadata w cd db x = (d, r)" by fastforce
  with sync_refines [OF assms(1,2) o] assms(3) show ?thesis by (simp add: CSync)
next
  case (CExpire now)
  obtain d r where o: "SQL_ExpireLeases w cd db now = (d, r)" by fastforce
  with expire_refines [OF assms(2) o] assms(3) show ?thesis by (simp add: CExpire del: sql_spec.simps)
qed

lemma run_sql_refines:
  "faithful cd \<Longrightarrow> no_faults cd db \<Longrightarrow> run (sql_step cd) cs db = (db', as) \<Longrightarrow>
   run (sql_spec cd) cs (abs_sql cd db) = (abs_sql cd db', as) \<and> no_faults cd db'"
proof (induction cs arbitrary: db as)
  case (Cons wc cs)
  obtain w c db1 a where s: "wc = (w, c)" "sql_step cd w c db = (db1, a)" by (metis prod.exhaust)
  obtain as' where as: "run (sql_step cd) cs db1 = (db', as')" "as = a # as'"
    using Cons.prems(3) by (auto simp: s split: prod.splits)
  note r = sql_step_refines [OF Cons.prems(1,2) s(2)]
  show ?case using Cons.IH [OF Cons.prems(1) _ as(1)] r by (simp add: s as(2))
qed auto

section \<open>Property\<close>



end
