(* ===== verification/SQL_Agreement.thy ===== *)
theory SQL_Agreement
  imports SQL_Refinement
begin

text \<open>
  The two registries answer alike. Both refine a map specification, so it is enough to compare the
  specifications, step by step, on the commands a host sends. The creation time is left out:
  a second registration keeps it in memory and replaces it in the database.
\<close>

section \<open>Canonical commands\<close>

text \<open>
  The two stores are to answer alike on the commands a host sends: trimmed identifiers, a canonical transport,
  a modification time and a positive lease.
\<close>

definition trimmed :: "string \<Rightarrow> bool" where
  "trimmed s \<longleftrightarrow> TrimSpace s = s"

definition canonical_snapshot :: "PluginSnapshot \<Rightarrow> bool" where
  "canonical_snapshot x \<longleftrightarrow> trimmed (PluginID x) \<and> trimmed (InstanceID x) \<and> trimmed (Status x) \<and>
     trimmed (RuntimeStatus x) \<and> trimmed (OwnerHost x) \<and> Transport x = EffectiveTransport (metadata_of x) \<and>
     distinct (map cap_Name (Capabilities x))"

fun canonical_command :: "RegCommand \<Rightarrow> bool" where
  "canonical_command (CRegister x) = (canonical_snapshot x \<and> UpdatedAt x \<noteq> 0)"
| "canonical_command (CRenew l) = (trimmed (ls_PluginID l) \<and> trimmed (ls_InstanceID l) \<and> 0 < ls_LeaseTTL l)"
| "canonical_command (CUnregister p i now) = (trimmed p \<and> trimmed i)"
| "canonical_command (CReport p i status runtime metadata now) = (trimmed p \<and> trimmed i)"
| "canonical_command (CSync x) = (canonical_snapshot x \<and> UpdatedAt x \<noteq> 0)"
| "canonical_command (CExpire now) = True"

definition total :: "SqlCodec \<Rightarrow> bool" where
  "total cd \<longleftrightarrow> (\<forall>xs. \<exists>raw. j_strings cd xs = Inr raw) \<and> (\<forall>m. \<exists>raw. j_map cd m = Inr raw) \<and>
     (\<forall>cs. \<exists>raw. j_caps cd cs = Inr raw)"

definition erase :: "PluginSnapshot \<Rightarrow> PluginSnapshot" where
  "erase x = x\<lparr>CreatedAt := 0\<rparr>"

fun erase_answer :: "RegAnswer \<Rightarrow> RegAnswer" where
  "erase_answer (ASnapshot x) = ASnapshot (erase x)"
| "erase_answer a = a"

definition agree :: "InstanceMap \<Rightarrow> InstanceMap \<Rightarrow> bool" where
  "agree A B \<longleftrightarrow> (\<forall>k. map_option erase (A k) = map_option erase (B k))"

definition entry_ok :: "PluginSnapshot \<Rightarrow> bool" where
  "entry_ok x \<longleftrightarrow> canonical_snapshot x \<and> PluginID x \<noteq> [] \<and> InstanceID x \<noteq> []"

definition canonical_map :: "InstanceMap \<Rightarrow> bool" where
  "canonical_map B \<longleftrightarrow> (\<forall>k x. B k = Some x \<longrightarrow> entry_ok x \<and> snapshot_key x = k)"

definition agree_step :: "InstanceMap \<times> RegAnswer \<Rightarrow> InstanceMap \<times> RegAnswer \<Rightarrow> bool" where
  "agree_step r r' \<longleftrightarrow> agree (fst r) (fst r') \<and> erase_answer (snd r) = erase_answer (snd r') \<and> canonical_map (fst r')"

lemma caps_error_total:
  "total cd \<Longrightarrow> distinct (map cap_Name cs) \<Longrightarrow> seen \<inter> cap_Name ` set cs = {} \<Longrightarrow> caps_error cd seen cs = None"
proof (induction cs arbitrary: seen)
  case (Cons c cs)
  moreover obtain raw where "j_strings cd (cap_Permissions c) = Inr raw" using Cons.prems(1) unfolding total_def by blast
  ultimately show ?case by auto
qed simp

lemma store_error_total:
  assumes "total cd" and "distinct (map cap_Name (Capabilities s))"
  shows "store_error cd s = None"
proof -
  obtain a b c d where "j_caps cd (Capabilities s) = Inr a" "j_strings cd (Permissions s) = Inr b"
      "j_strings cd (Hooks s) = Inr c" "j_map cd (Metadata s) = Inr d"
    using assms(1) unfolding total_def by meson
  then show ?thesis by (simp add: store_error_def marshal_row_def caps_error_total assms)
qed

lemma stored_canonical: "canonical_snapshot x \<Longrightarrow> stored x = x"
  by (simp add: stored_def canonical_snapshot_def)

lemma ids_trimmed: "trimmed p \<Longrightarrow> trimmed i \<Longrightarrow> ids p i = (p, i)"
  by (simp add: ids_def trimmed_def)

lemma agree_put:
  assumes "agree A B" and "canonical_map B" and "entry_ok y" and "erase x = erase y"
  shows "agree_step (A(snapshot_key y \<mapsto> x), ASnapshot x) (B(snapshot_key y \<mapsto> y), ASnapshot y)"
  using assms by (auto simp: agree_step_def agree_def canonical_map_def)

lemma agree_cases:
  assumes "agree A B"
  obtains (none) "A k = None" "B k = None"
  | (some) x y where "A k = Some x" "B k = Some y" "erase x = erase y"
  using assms unfolding agree_def by (metis (no_types) option.map_disc_iff option.exhaust_sel option.map_sel)

lemma agree_change:
  assumes "agree A B" and "canonical_map B" and "\<And>x y. erase x = erase y \<Longrightarrow> erase (f x) = erase (g y)"
    and "\<And>y. entry_ok y \<Longrightarrow> entry_ok (g y) \<and> snapshot_key (g y) = snapshot_key y"
  shows "agree_step (spec_change A k f) (spec_change B k g)"
  using assms(1)
proof (cases rule: agree_cases [of _ _ k])
  case none
  then show ?thesis using assms(1,2) by (simp add: spec_change_def agree_step_def)
next
  case (some x y)
  have y: "entry_ok y" "snapshot_key y = k" using assms(2) some(2) unfolding canonical_map_def by blast+
  then show ?thesis using agree_put [OF assms(1,2), of "g y" "f x"] assms(3) [OF some(3)] assms(4) [OF y(1)] some(1,2)
    by (simp add: spec_change_def)
qed

lemma agree_store:
  assumes "total cd" and "agree A B" and "canonical_map B" and "entry_ok y" and "erase x = erase y"
    and "k = snapshot_key y"
  shows "agree_step (A(k \<mapsto> x), ASnapshot x) (spec_store cd B y)"
proof -
  have "store_error cd y = None" using store_error_total assms(1,4) by (simp add: entry_ok_def canonical_snapshot_def)
  then show ?thesis using agree_put [OF assms(2-5)] assms(4,6)
    by (simp add: spec_store_def stored_canonical entry_ok_def)
qed

lemma Effective_cong:
  "Transport y = Transport x \<Longrightarrow> Protocol y = Protocol x \<Longrightarrow>
   EffectiveTransport (metadata_of y) = EffectiveTransport (metadata_of x)"
  by (simp add: EffectiveTransport_def snapshot_defs)

lemma canonical_cong:
  assumes "PluginID y = PluginID x" "InstanceID y = InstanceID x" "Transport y = Transport x" "Protocol y = Protocol x"
    and "Capabilities y = Capabilities x" "trimmed (Status y)" "trimmed (RuntimeStatus y)" "OwnerHost y = OwnerHost x"
  shows "canonical_snapshot x \<Longrightarrow> canonical_snapshot y"
    "entry_ok x \<Longrightarrow> entry_ok y \<and> snapshot_key y = snapshot_key x"
  using assms Effective_cong [OF assms(3,4)] by (simp_all add: canonical_snapshot_def entry_ok_def snapshot_key_def)

lemma firstNonEmpty_trimmed_pair: "trimmed s \<Longrightarrow> trimmed t \<Longrightarrow> firstNonEmpty [s, t] = (if s = [] then t else s)"
  by (auto simp: trimmed_def)

lemma backfills_agree:
  assumes "canonical_snapshot s" and "UpdatedAt s \<noteq> 0" and "erase x = erase y" and "canonical_snapshot y"
  shows "erase (backfill s x) = erase (sql_backfill w s y)" "canonical_snapshot (sql_backfill w s y)"
    "snapshot_key (sql_backfill w s y) = snapshot_key s"
proof -
  have xy: "Status x = Status y" "RuntimeStatus x = RuntimeStatus y" "OwnerHost x = OwnerHost y"
      "LeaseTTLSeconds x = LeaseTTLSeconds y" "LeaseExpiresAt x = LeaseExpiresAt y" "RegisteredAt x = RegisteredAt y"
      "LastHeartbeatAt x = LastHeartbeatAt y"
    using assms(3) by (cases x; cases y; simp add: erase_def)+
  show "erase (backfill s x) = erase (sql_backfill w s y)"
    using assms(1,4) assms(2) [folded IsZero_def]
    by (simp add: backfill_def sql_backfill_def erase_def xy firstNonEmpty_trimmed_pair canonical_snapshot_def
        del: firstNonEmpty.simps split del: if_split cong: if_cong)
  have "EffectiveTransport (metadata_of (sql_backfill w s y)) = EffectiveTransport (metadata_of s)"
    by (rule Effective_cong) (simp_all add: sql_backfill_def)
  then show "canonical_snapshot (sql_backfill w s y)"
    using assms(1,4) by (simp add: canonical_snapshot_def sql_backfill_def)
  show "snapshot_key (sql_backfill w s y) = snapshot_key s" by (simp add: snapshot_key_def sql_backfill_def)
qed

lemma sync_agrees:
  assumes "total cd" and "agree A B" and "canonical_map B" and "canonical_snapshot s" and "UpdatedAt s \<noteq> 0"
  shows "agree_step (spec_step w (CSync s) A) (spec_sync cd w s B)"
proof -
  have k: "ids (PluginID s) (InstanceID s) = snapshot_key s"
    using assms(4) by (simp add: ids_trimmed canonical_snapshot_def snapshot_key_def)
  show ?thesis
    using assms(2)
  proof (cases rule: agree_cases [of _ _ "snapshot_key s"])
    case none
    then show ?thesis using assms(2,3) by (auto simp: spec_sync_def spec_change_def k agree_step_def)
  next
    case (some x y)
    have y: "entry_ok y" "snapshot_key y = snapshot_key s" using assms(3) some(2) unfolding canonical_map_def by blast+
    then have c: "canonical_snapshot y" by (simp add: entry_ok_def)
    note b = backfills_agree [OF assms(4,5) some(3) c, of w]
    show ?thesis
    proof (cases "blank (PluginID s) \<or> blank (InstanceID s)")
      case True
      then show ?thesis using assms(2,3) by (simp add: spec_sync_def agree_step_def)
    next
      case False
      have "entry_ok (sql_backfill w s y)" using b(2,3) y by (auto simp: entry_ok_def snapshot_key_def)
      then show ?thesis using False agree_store [OF assms(1-3) _ b(1) b(3) [symmetric]] some(1,2)
        by (auto simp: spec_sync_def spec_change_def k)
    qed
  qed
qed

lemma register_agrees:
  assumes "total cd" and "agree A B" and "canonical_map B" and "canonical_snapshot s" and "UpdatedAt s \<noteq> 0"
  shows "agree_step (spec_step w (CRegister s) A) (sql_spec cd w (CRegister s) B)"
proof (cases "blank (PluginID s) \<or> blank (InstanceID s)")
  case True
  then show ?thesis using assms(2,3) by (simp add: agree_step_def)
next
  case False
  define y where "y = (case A (ids (PluginID s) (InstanceID s)) of
      Some old \<Rightarrow> if CreatedAt old \<noteq> 0 then s\<lparr>CreatedAt := CreatedAt old\<rparr> else s | None \<Rightarrow> s)"
  have k: "ids (PluginID s) (InstanceID s) = snapshot_key (register_snapshot s)"
    using assms(4) by (simp add: ids_trimmed canonical_snapshot_def snapshot_key_def register_snapshot_def Let_def)
  have e: "erase y = erase (register_snapshot s)"
    using assms(5) by (simp add: y_def erase_def register_snapshot_def IsZero_def split: option.splits)
  have "canonical_snapshot (register_snapshot s)"
    by (rule canonical_cong(1) [OF _ _ _ _ _ _ _ _ assms(4)])
       (use assms(4) in \<open>simp_all add: register_snapshot_def Let_def canonical_snapshot_def\<close>)
  then have c: "entry_ok (register_snapshot s)"
    using False by (auto simp: entry_ok_def register_snapshot_def Let_def)
  show ?thesis using False agree_store [OF assms(1-3) c e refl] by (simp add: k y_def Let_def)
qed

lemma backfill_reported:
  "sql_backfill w (reported st rt md (utcOrNow w now) y) y = reported st rt md (utcOrNow w now) y"
  by (cases y) (simp add: sql_backfill_def reported_def IsZero_def utcOrNow_def)

lemma report_agrees:
  assumes "total cd" and "agree A B" and "canonical_map B" and "trimmed p" and "trimmed i"
  shows "agree_step (spec_step w (CReport p i st rt md now) A) (sql_spec cd w (CReport p i st rt md now) B)"
  using assms(2)
proof (cases rule: agree_cases [of _ _ "(p, i)"])
  case none
  then show ?thesis using assms by (simp add: spec_change_def ids_trimmed agree_step_def)
next
  case (some x y)
  let ?r = "reported st rt md (utcOrNow w now)"
  have y: "entry_ok y" "snapshot_key y = (p, i)" using assms(3) some(2) unfolding canonical_map_def by blast+
  then have t: "trimmed (Status y)" "trimmed (RuntimeStatus y)" "trimmed (PluginID y)" "trimmed (InstanceID y)"
      "PluginID y \<noteq> []" "InstanceID y \<noteq> []"
    by (simp_all add: entry_ok_def canonical_snapshot_def)
  have c: "entry_ok (?r y)" "snapshot_key (?r y) = (p, i)"
    using canonical_cong(2) [OF _ _ _ _ _ _ _ _ y(1), of "?r y"] y(2) t(1,2) by (simp_all add: reported_def trimmed_def)
  have e: "erase (?r x) = erase (?r y)"
    using some(3) by (cases x; cases y) (simp add: erase_def reported_def)
  have "spec_step w (CReport p i st rt md now) A = (A((p, i) \<mapsto> ?r x), ASnapshot (?r x))"
    using some(1) by (simp add: spec_change_def ids_trimmed assms(4,5) reported_def)
  moreover have "sql_spec cd w (CReport p i st rt md now) B = spec_store cd B (?r y)"
    using some(2) c(2) t(3-6) by (simp add: spec_sync_def backfill_reported) (simp add: reported_def trimmed_def)
  ultimately show ?thesis using agree_store [OF assms(1-3) c(1) e c(2) [symmetric]] by simp
qed

lemma renew_agrees:
  assumes "agree A B" and "canonical_map B" and "canonical_command (CRenew l)"
  shows "agree_step (spec_step w (CRenew l) A) (sql_spec cd w (CRenew l) B)"
proof -
  have l: "ids (ls_PluginID l) (ls_InstanceID l) = (ls_PluginID l, ls_InstanceID l)" "0 < ls_LeaseTTL l"
    using assms(3) by (simp_all add: ids_trimmed)
  have t: "trimmed StatusOnline" by code_simp
  show ?thesis unfolding spec_step.simps sql_spec.simps l(1)
  proof (rule agree_change [OF assms(1,2)], goal_cases)
    case (1 x y)
    then show ?case using l(2) by (cases x; cases y) (simp add: erase_def)
  next
    case (2 y)
    show ?case by (rule canonical_cong(2) [OF _ _ _ _ _ _ _ _ 2]) (use 2 t in \<open>simp_all add: entry_ok_def canonical_snapshot_def\<close>)
  qed
qed

lemma agree_done:
  assumes "agree_step r r'"
  shows "agree_step (case r of (A, ASnapshot x) \<Rightarrow> (A, ADone) | r \<Rightarrow> r) (case r' of (A, ASnapshot x) \<Rightarrow> (A, ADone) | r \<Rightarrow> r)"
  using assms by (cases r; cases r'; cases "snd r"; cases "snd r'") (auto simp: agree_step_def)

lemma unregister_agrees:
  assumes "agree A B" and "canonical_map B" and "trimmed p" and "trimmed i"
  shows "agree_step (spec_step w (CUnregister p i now) A) (sql_spec cd w (CUnregister p i now) B)"
proof -
  have t: "trimmed StatusOffline" "trimmed []" by code_simp+
  show ?thesis unfolding spec_step.simps sql_spec.simps ids_trimmed [OF assms(3,4)]
  proof (rule agree_done, rule agree_change [OF assms(1,2)], goal_cases)
    case (1 x y)
    then show ?case by (cases x; cases y) (simp add: erase_def)
  next
    case (2 y)
    show ?case by (rule canonical_cong(2) [OF _ _ _ _ _ _ _ _ 2]) (use 2 t in \<open>simp_all add: entry_ok_def canonical_snapshot_def\<close>)
  qed
qed

lemma expire_agrees:
  assumes "agree A B" and "canonical_map B"
  shows "agree_step (spec_step w (CExpire now) A) (sql_spec cd w (CExpire now) B)"
proof -
  let ?e = "expire_snapshot (utcOrNow w now)"
  have t: "trimmed StatusOffline" by code_simp
  have e: "erase (?e x) = erase (?e y)" if "erase x = erase y" for x y
  proof -
    have "erase (?e z) = ?e (erase z)" for z by (simp add: erase_def expire_snapshot_def lease_over_def)
    then show ?thesis using that by simp
  qed
  have c: "entry_ok (?e y) \<and> snapshot_key (?e y) = snapshot_key y" if "entry_ok y" for y
    by (rule canonical_cong(2) [OF _ _ _ _ _ _ _ _ that])
       (use that t in \<open>simp_all add: expire_snapshot_def entry_ok_def canonical_snapshot_def\<close>)
  have "map_option erase (map_option ?e (A k)) = map_option erase (map_option ?e (B k))" for k
    using assms(1)
  proof (cases rule: agree_cases [of _ _ k])
    case (some x y)
    then show ?thesis using e [OF some(3)] by (simp only: some option.map)
  qed simp
  moreover have "canonical_map (\<lambda>k. map_option ?e (B k))"
    unfolding canonical_map_def
  proof (intro allI impI)
    fix k x
    assume "map_option ?e (B k) = Some x"
    then obtain y where y: "B k = Some y" "x = ?e y" by auto
    then have "entry_ok y" "snapshot_key y = k" using assms(2) unfolding canonical_map_def by blast+
    then show "entry_ok x \<and> snapshot_key x = k" using c y(2) by blast
  qed
  ultimately show ?thesis unfolding agree_step_def agree_def spec_step.simps sql_spec.simps fst_conv snd_conv by blast
qed

lemma spec_steps_agree:
  assumes "total cd" and "agree A B" and "canonical_map B" and "canonical_command c"
  shows "agree_step (spec_step w c A) (sql_spec cd w c B)"
proof (cases c)
  case (CRegister x)
  then show ?thesis using register_agrees [OF assms(1-3)] assms(4) by (simp del: spec_step.simps sql_spec.simps)
next
  case (CRenew l)
  then show ?thesis using renew_agrees [OF assms(2,3)] assms(4) by blast
next
  case (CUnregister p i now)
  then show ?thesis using unregister_agrees [OF assms(2,3)] assms(4) by (simp del: spec_step.simps sql_spec.simps)
next
  case (CReport p i st rt md now)
  then show ?thesis using report_agrees [OF assms(1-3)] assms(4) by (simp del: spec_step.simps sql_spec.simps)
next
  case (CSync x)
  then show ?thesis using sync_agrees [OF assms(1-3)] assms(4) by (simp del: spec_step.simps)
next
  case (CExpire now)
  then show ?thesis using expire_agrees [OF assms(2,3)] by blast
qed

lemma runs_agree:
  "total cd \<Longrightarrow> agree A B \<Longrightarrow> canonical_map B \<Longrightarrow> \<forall>(w, c) \<in> set cs. canonical_command c \<Longrightarrow>
   run spec_step cs A = (A', as) \<Longrightarrow> run (sql_spec cd) cs B = (B', bs) \<Longrightarrow>
   agree A' B' \<and> map erase_answer as = map erase_answer bs"
proof (induction cs arbitrary: A B as bs)
  case (Cons wc cs)
  obtain w c where wc: "wc = (w, c)" by fastforce
  obtain A1 a B1 b where s: "spec_step w c A = (A1, a)" "sql_spec cd w c B = (B1, b)" by fastforce
  have "canonical_command c" using Cons.prems(4) by (simp add: wc)
  from spec_steps_agree [OF Cons.prems(1-3) this, of w]
  have g: "agree A1 B1" "canonical_map B1" "erase_answer a = erase_answer b" by (simp_all add: s agree_step_def)
  obtain as' bs' where r: "run spec_step cs A1 = (A', as')" "as = a # as'" "run (sql_spec cd) cs B1 = (B', bs')" "bs = b # bs'"
    using Cons.prems(5,6) by (auto simp: wc s split: prod.splits)
  show ?case using Cons.IH [OF Cons.prems(1) g(1,2) _ r(1,3)] Cons.prems(4) g(3) r(2,4) by simp
qed simp

lemma total_text_codec: "total text_codec"
  by (simp add: total_def text_codec_def)

section \<open>Property\<close>


definition sample_commands :: "(gotime \<times> RegCommand) list" where
  "sample_commands = [(9, CRegister (sample_snapshot\<lparr>UpdatedAt := 7, Capabilities := [sample_capability]\<rparr>)),
     (60, CExpire 60), (61, CReport ''billing'' ''i1'' [] ''warm'' [(''zone'', ''b'')] 0), (62, CUnregister ''other'' ''i9'' 0)]"


text \<open>A second registration moves the creation time in the database and keeps it in memory: an instance
  registered at 7 and again at 20 was created at 7 for the in-process registry and at 20 for the SQL registry.\<close>

theorem created_at_differs:
  "map (\<lambda>a. case a of ASnapshot x \<Rightarrow> CreatedAt x | _ \<Rightarrow> 0)
     (snd (run memory_step [(9, CRegister sample_snapshot), (21, CRegister (sample_snapshot\<lparr>CreatedAt := 20\<rparr>))] NewMemory)) = [7, 7] \<and>
   map (\<lambda>a. case a of ASnapshot x \<Rightarrow> CreatedAt x | _ \<Rightarrow> 0)
     (snd (run (sql_step text_codec) [(9, CRegister sample_snapshot), (21, CRegister (sample_snapshot\<lparr>CreatedAt := 20\<rparr>))]
        (empty_db []))) = [7, 20]"
  by code_simp

end
