(* ===== verification/IAM_Model.thy ===== *)
theory IAM_Model
  imports Plugin_Protocol "HOL-Library.State_Monad"
begin

text \<open>
  The data and the pure rules of the identity and access module (\<open>internal/modules/iam\<close>): the rows of
  \<open>model/model.go\<close>, the inputs and the configuration of \<open>service/service.go\<close>, its normal forms,
  the password policy, the permission test and the page bounds.

  Upper-case letters outside ASCII are not lowered by \<open>ToLower\<close> (see \<open>Go_Prelude\<close>). The Unicode
  classes of \<open>unicode.IsLower\<close> and its relatives are an argument of the password check.
\<close>

section \<open>Constants\<close>

abbreviation StatusActive :: string where "StatusActive \<equiv> ''active''"
abbreviation StatusDisabled :: string where "StatusDisabled \<equiv> ''disabled''"
abbreviation StatusPending :: string where "StatusPending \<equiv> ''pending''"
abbreviation StatusUsed :: string where "StatusUsed \<equiv> ''used''"
abbreviation StatusRevoked :: string where "StatusRevoked \<equiv> ''revoked''"
abbreviation StatusExpired :: string where "StatusExpired \<equiv> ''expired''"
abbreviation RolePlatformOwner :: string where "RolePlatformOwner \<equiv> ''platform_owner''"
abbreviation RoleOwner :: string where "RoleOwner \<equiv> ''owner''"
abbreviation RoleAdmin :: string where "RoleAdmin \<equiv> ''admin''"
abbreviation RoleMember :: string where "RoleMember \<equiv> ''member''"
abbreviation OrgKindPlatform :: string where "OrgKindPlatform \<equiv> ''platform''"
abbreviation OrgKindTenant :: string where "OrgKindTenant \<equiv> ''tenant''"
abbreviation PermissionScopePlatform :: string where "PermissionScopePlatform \<equiv> ''platform''"
abbreviation PermissionScopeTenant :: string where "PermissionScopeTenant \<equiv> ''tenant''"
abbreviation PermissionScopeProduct :: string where "PermissionScopeProduct \<equiv> ''product''"
abbreviation RegistrationModeDisabled :: string where "RegistrationModeDisabled \<equiv> ''disabled''"
abbreviation RegistrationModeDirect :: string where "RegistrationModeDirect \<equiv> ''direct''"
abbreviation RegistrationModeEmailVerification :: string where
  "RegistrationModeEmailVerification \<equiv> ''email_verification''"
abbreviation RegistrationModeInviteOnly :: string where "RegistrationModeInviteOnly \<equiv> ''invite_only''"
abbreviation SignupStatusAuthenticated :: string where "SignupStatusAuthenticated \<equiv> ''authenticated''"
abbreviation SignupStatusVerificationPending :: string where
  "SignupStatusVerificationPending \<equiv> ''verification_pending''"
abbreviation TokenTypeAccess :: string where "TokenTypeAccess \<equiv> ''access''"

abbreviation iam_ErrInvalidInput :: goerror where "iam_ErrInvalidInput \<equiv> ErrOther ''invalid iam input''"
abbreviation iam_ErrUnauthorized :: goerror where "iam_ErrUnauthorized \<equiv> ErrOther ''invalid credentials''"
abbreviation iam_ErrForbidden :: goerror where "iam_ErrForbidden \<equiv> ErrOther ''permission denied''"
abbreviation iam_ErrNotFound :: goerror where "iam_ErrNotFound \<equiv> ErrOther ''iam resource not found''"
abbreviation iam_ErrDuplicate :: goerror where "iam_ErrDuplicate \<equiv> ErrOther ''iam resource already exists''"
abbreviation iam_ErrMFARequired :: goerror where "iam_ErrMFARequired \<equiv> ErrOther ''mfa code required''"
abbreviation iam_ErrInvalidToken :: goerror where "iam_ErrInvalidToken \<equiv> ErrOther ''invalid iam token''"
abbreviation iam_ErrAccountLocked :: goerror where "iam_ErrAccountLocked \<equiv> ErrOther ''account locked''"
abbreviation iam_ErrAccountDisabled :: goerror where "iam_ErrAccountDisabled \<equiv> ErrOther ''account disabled''"
abbreviation iam_ErrCaptchaRequired :: goerror where "iam_ErrCaptchaRequired \<equiv> ErrOther ''captcha code required''"
abbreviation iam_ErrCaptchaInvalid :: goerror where "iam_ErrCaptchaInvalid \<equiv> ErrOther ''invalid captcha code''"
abbreviation iam_ErrSessionRevoked :: goerror where "iam_ErrSessionRevoked \<equiv> ErrOther ''session revoked''"
abbreviation iam_ErrInvitationClosed :: goerror where "iam_ErrInvitationClosed \<equiv> ErrOther ''invitation is not available''"
abbreviation iam_ErrSignupDisabled :: goerror where "iam_ErrSignupDisabled \<equiv> ErrOther ''signup is disabled''"
abbreviation iam_ErrSetupCompleted :: goerror where "iam_ErrSetupCompleted \<equiv> ErrOther ''setup already completed''"
abbreviation iam_ErrNotificationDelivery :: goerror where
  "iam_ErrNotificationDelivery \<equiv> ErrOther ''notification delivery failed''"

section \<open>Rows\<close>

record Organization =
  o_ID :: int
  o_Code :: string
  o_Name :: string
  o_Kind :: string
  o_Status :: string
  o_CreatedAt :: gotime
  o_UpdatedAt :: gotime
  o_DeletedAt :: "gotime option"

record User =
  u_ID :: int
  u_Username :: string
  u_Email :: string
  u_PasswordHash :: string
  u_DisplayName :: string
  u_Status :: string
  u_MFAEnabled :: bool
  u_FailedLoginAttempts :: int
  u_LockedUntil :: "gotime option"
  u_LastLoginAt :: "gotime option"
  u_CreatedAt :: gotime
  u_UpdatedAt :: gotime
  u_DeletedAt :: "gotime option"

record Membership =
  mb_ID :: int
  mb_OrgID :: int
  mb_UserID :: int
  mb_Status :: string
  mb_CreatedAt :: gotime
  mb_UpdatedAt :: gotime
  mb_DeletedAt :: "gotime option"

record IamRole =
  ro_ID :: int
  ro_OrgID :: int
  ro_Code :: string
  ro_Name :: string
  ro_Description :: string
  ro_System :: bool
  ro_CreatedAt :: gotime
  ro_UpdatedAt :: gotime
  ro_DeletedAt :: "gotime option"

record Permission =
  pm_ID :: int
  pm_ProductCode :: string
  pm_Scope :: string
  pm_Code :: string
  pm_Name :: string
  pm_Description :: string
  pm_CreatedAt :: gotime
  pm_UpdatedAt :: gotime

record IamSession =
  s_ID :: int
  s_UserID :: int
  s_OrgID :: int
  s_ProductCode :: string
  s_ClientType :: string
  s_RefreshTokenHash :: string
  s_UserAgent :: string
  s_IPAddress :: string
  s_ExpiresAt :: gotime
  s_RevokedAt :: "gotime option"
  s_LastUsedAt :: "gotime option"
  s_CreatedAt :: gotime
  s_UpdatedAt :: gotime

record APIToken =
  at_ID :: int
  at_OrgID :: int
  at_UserID :: int
  at_RoleCode :: string
  at_TokenPrefix :: string
  at_TokenHash :: string
  at_Status :: string
  at_ExpiresAt :: "gotime option"
  at_LastUsedAt :: "gotime option"
  at_RevokedAt :: "gotime option"
  at_RevokedBy :: "int option"
  at_Remark :: string
  at_CreatedBy :: int
  at_CreatedAt :: gotime
  at_UpdatedAt :: gotime

record Invitation =
  iv_ID :: int
  iv_OrgID :: int
  iv_Email :: string
  iv_RoleCode :: string
  iv_TokenHash :: string
  iv_Status :: string
  iv_InvitedBy :: int
  iv_AcceptedBy :: "int option"
  iv_ExpiresAt :: gotime
  iv_CreatedAt :: gotime
  iv_UpdatedAt :: gotime

record PasswordReset =
  pr_ID :: int
  pr_UserID :: int
  pr_TokenHash :: string
  pr_Status :: string
  pr_ExpiresAt :: gotime
  pr_UsedAt :: "gotime option"
  pr_CreatedAt :: gotime
  pr_UpdatedAt :: gotime

record EmailVerification =
  ev_ID :: int
  ev_UserID :: int
  ev_OrgID :: int
  ev_TokenHash :: string
  ev_Status :: string
  ev_ExpiresAt :: gotime
  ev_VerifiedAt :: "gotime option"
  ev_CreatedAt :: gotime
  ev_UpdatedAt :: gotime

record MFAFactor =
  mf_ID :: int
  mf_UserID :: int
  mf_Type :: string
  mf_Secret :: string
  mf_Status :: string
  mf_ConfirmedAt :: "gotime option"
  mf_CreatedAt :: gotime
  mf_UpdatedAt :: gotime

record AuditLog =
  au_ID :: int
  au_OrgID :: "int option"
  au_UserID :: "int option"
  au_ProductCode :: string
  au_ClientType :: string
  au_Action :: string
  au_Resource :: string
  au_ResourceID :: string
  au_IPAddress :: string
  au_UserAgent :: string
  au_Metadata :: string
  au_CreatedAt :: gotime

record CasbinRule =
  cb_ID :: int
  cb_PType :: string
  cb_V0 :: string
  cb_V1 :: string
  cb_V2 :: string
  cb_V3 :: string
  cb_V4 :: string
  cb_V5 :: string
  cb_CreatedAt :: gotime

record AuthorizationRule =
  ar_PType :: string
  ar_Values :: "string list"

section \<open>Configuration and values\<close>

record PasswordPolicy =
  MinLength :: int
  RequireLower :: bool
  RequireUpper :: bool
  RequireNumber :: bool
  RequireSymbol :: bool

record IamConfig =
  RegistrationMode :: string
  MFAIssuer :: string
  LoginMaxFailures :: int
  LoginLockDuration :: duration
  CaptchaEnabled :: bool
  CaptchaTTL :: duration
  InvitationTTL :: duration
  EmailVerificationTTL :: duration
  PasswordResetTTL :: duration
  NotificationDriver :: string
  PublicBaseURL :: string
  DefaultProductCode :: string
  DefaultClientType :: string
  SingleSessionPerContext :: bool
  Policy :: PasswordPolicy

record IamPrincipal =
  p_UserID :: int
  p_OrgID :: int
  p_SessionID :: int
  p_ProductCode :: string
  p_ClientType :: string
  p_Username :: string
  p_Email :: string
  p_RoleCode :: string

record PermissionContext =
  pc_ProductCode :: string
  pc_Scope :: string
  pc_Object :: string
  pc_Action :: string

record RolePermission =
  rp_ProductCode :: string
  rp_Scope :: string
  rp_Code :: string

record SessionContext =
  sc_ProductCode :: string
  sc_ClientType :: string

record TokenSubject =
  ts_UserID :: int
  ts_OrgID :: int
  ts_SessionID :: int
  ts_ProductCode :: string

record TokenClaims =
  tc_UserID :: int
  tc_OrgID :: int
  tc_SessionID :: int
  tc_ProductCode :: string

record IssuedTokenPair =
  ip_AccessToken :: string
  ip_AccessExpiresAt :: gotime
  ip_RefreshToken :: string
  ip_RefreshTokenHash :: string
  ip_RefreshExpiresAt :: gotime

record TokenPair =
  tp_AccessToken :: string
  tp_AccessExpiresAt :: gotime
  tp_RefreshToken :: string
  tp_RefreshExpiresAt :: gotime
  tp_UserID :: int
  tp_OrgID :: int
  tp_SessionID :: int
  tp_ProductCode :: string
  tp_ClientType :: string

record captchaState =
  cs_answer :: string
  cs_expiresAt :: gotime

section \<open>Normal forms\<close>

text \<open>\<open>strconv.FormatInt(x, 10)\<close>.\<close>

definition FormatInt :: "int \<Rightarrow> string" where
  "FormatInt x = (if x < 0 then CHR ''-'' # FormatUint (nat (- x)) else FormatUint (nat x))"

definition normalizeCode :: "string \<Rightarrow> string" where
  "normalizeCode value = ToLower (TrimSpace value)"

definition normalizeProductCode :: "string \<Rightarrow> string" where
  "normalizeProductCode value = normalizeCode value"

definition normalizeClientType :: "string \<Rightarrow> string" where
  "normalizeClientType value =
     map (\<lambda>c. if c = CHR ''-'' \<or> c = CHR '' '' then CHR ''_'' else c) (ToLower (TrimSpace value))"

definition normalizeRegistrationMode :: "string \<Rightarrow> string" where
  "normalizeRegistrationMode value = ToLower (TrimSpace value)"

definition normalizePermissionScope :: "string \<Rightarrow> string" where
  "normalizePermissionScope value = ToLower (TrimSpace value)"

definition validPermissionScope :: "string \<Rightarrow> bool" where
  "validPermissionScope value \<longleftrightarrow>
     value = PermissionScopePlatform \<or> value = PermissionScopeTenant \<or> value = PermissionScopeProduct"

definition isBuiltinRoleCode :: "string \<Rightarrow> bool" where
  "isBuiltinRoleCode code \<longleftrightarrow> normalizeCode code \<in> {RolePlatformOwner, RoleOwner, RoleAdmin, RoleMember}"

fun iam_firstNonEmpty :: "string list \<Rightarrow> string" where
  "iam_firstNonEmpty [] = []"
| "iam_firstNonEmpty (value # values) = (if \<not> blank value then value else iam_firstNonEmpty values)"

definition normalizeEmail :: "string \<Rightarrow> string" where
  "normalizeEmail value = ToLower (TrimSpace value)"

definition userSubject :: "int \<Rightarrow> string" where
  "userSubject i = ''user:'' @ FormatInt i"

definition HasPrefix :: "string \<Rightarrow> string \<Rightarrow> bool" where
  "HasPrefix s pre \<longleftrightarrow> take (length pre) s = pre"

definition roleSubject :: "string \<Rightarrow> string" where
  "roleSubject code = (if HasPrefix code ''role:'' then code else ''role:'' @ normalizeCode code)"

definition resolveSessionContext :: "IamConfig \<Rightarrow> string \<Rightarrow> string \<Rightarrow> SessionContext" where
  "resolveSessionContext cfg productCode clientType =
     \<lparr>sc_ProductCode = normalizeProductCode (iam_firstNonEmpty [productCode, DefaultProductCode cfg]),
      sc_ClientType = normalizeClientType (iam_firstNonEmpty [clientType, DefaultClientType cfg])\<rparr>"

definition normalizePermissionContext :: "IamConfig \<Rightarrow> PermissionContext \<Rightarrow> PermissionContext" where
  "normalizePermissionContext cfg permission =
     (let scope = normalizePermissionScope (pc_Scope permission) in
      permission\<lparr>pc_ProductCode := sc_ProductCode (resolveSessionContext cfg (pc_ProductCode permission) []),
        pc_Scope := (if validPermissionScope scope then scope else []),
        pc_Object := TrimSpace (pc_Object permission), pc_Action := TrimSpace (pc_Action permission)\<rparr>)"

section \<open>Permissions\<close>

text \<open>\<open>strings.SplitN(s, ":", 2)\<close> of a string that contains a colon, as head and rest.\<close>

definition permissionObjectAction :: "string \<Rightarrow> string \<times> string" where
  "permissionObjectAction code =
     (let s = TrimSpace code; obj = takeWhile (\<lambda>c. c \<noteq> CHR '':'') s; act = drop (length obj + 1) s
      in if CHR '':'' \<notin> set s \<or> obj = [] \<or> act = [] then ([], []) else (obj, act))"

definition permissionAllows :: "RolePermission \<Rightarrow> PermissionContext \<Rightarrow> bool" where
  "permissionAllows grant required =
     (if rp_ProductCode grant \<noteq> pc_ProductCode required then False
      else if rp_Scope grant \<noteq> pc_Scope required then False
      else case permissionObjectAction (rp_Code grant) of
             (obj, act) \<Rightarrow> if obj = [] \<or> act = [] then False
               else (obj = ''*'' \<or> obj = pc_Object required) \<and> (act = ''*'' \<or> act = pc_Action required))"

section \<open>Password policy\<close>

text \<open>The runes of a string as their UTF-8 encodings: a lead byte with the continuation bytes after it.\<close>

definition continuation :: "char \<Rightarrow> bool" where
  "continuation c \<longleftrightarrow> 128 \<le> (of_char c :: nat) \<and> (of_char c :: nat) < 192"

function runes :: "string \<Rightarrow> string list" where
  "runes [] = []"
| "runes (c # s) = (c # takeWhile continuation s) # runes (dropWhile continuation s)"
  by pat_completeness auto
termination
  by (relation "measure length") (auto simp: length_dropWhile_le le_imp_less_Suc)

datatype RuneClass = Lower | Upper | Digit | Symbol | OtherRune

definition passwordPolicy :: "IamConfig \<Rightarrow> PasswordPolicy" where
  "passwordPolicy cfg = (let p = Policy cfg in if MinLength p \<le> 0 then p\<lparr>MinLength := 8\<rparr> else p)"

definition utf8 :: "nat list \<Rightarrow> string" where
  "utf8 bs = map char_of bs"

definition passwordPolicyRequirements :: "PasswordPolicy \<Rightarrow> string list" where
  "passwordPolicyRequirements policy =
     (let n = (if MinLength policy \<le> 0 then 8 else MinLength policy) in
      [utf8 [0xE8, 0x87, 0xB3, 0xE5, 0xB0, 0x91, 0x20] @ FormatInt n @ utf8 [0x20, 0xE4, 0xBD, 0x8D]] @
      (if RequireLower policy then [utf8 [0xE5, 0x8C, 0x85, 0xE5, 0x90, 0xAB, 0xE5, 0xB0, 0x8F, 0xE5, 0x86,
        0x99, 0xE5, 0xAD, 0x97, 0xE6, 0xAF, 0x8D]] else []) @
      (if RequireUpper policy then [utf8 [0xE5, 0x8C, 0x85, 0xE5, 0x90, 0xAB, 0xE5, 0xA4, 0xA7, 0xE5, 0x86,
        0x99, 0xE5, 0xAD, 0x97, 0xE6, 0xAF, 0x8D]] else []) @
      (if RequireNumber policy then [utf8 [0xE5, 0x8C, 0x85, 0xE5, 0x90, 0xAB, 0xE6, 0x95, 0xB0, 0xE5, 0xAD,
        0x97]] else []) @
      (if RequireSymbol policy then [utf8 [0xE5, 0x8C, 0x85, 0xE5, 0x90, 0xAB, 0xE7, 0xAC, 0xA6, 0xE5, 0x8F,
        0xB7]] else []))"

definition passwordPolicyError :: "PasswordPolicy \<Rightarrow> goerror" where
  "passwordPolicyError policy =
     Wrapped iam_ErrInvalidInput (utf8 [0xE5, 0xAF, 0x86, 0xE7, 0xA0, 0x81, 0xE5, 0xBF, 0x85, 0xE9, 0xA1, 0xBB] @
       join (utf8 [0xE3, 0x80, 0x81]) (passwordPolicyRequirements policy))"

definition validatePassword :: "(string \<Rightarrow> RuneClass) \<Rightarrow> IamConfig \<Rightarrow> string \<Rightarrow> goerror option" where
  "validatePassword class cfg value =
     (let policy = passwordPolicy cfg; rs = runes value; classes = map class rs in
      if int (length rs) < MinLength policy then Some (passwordPolicyError policy)
      else if RequireLower policy \<and> Lower \<notin> set classes then Some (passwordPolicyError policy)
      else if RequireUpper policy \<and> Upper \<notin> set classes then Some (passwordPolicyError policy)
      else if RequireNumber policy \<and> Digit \<notin> set classes then Some (passwordPolicyError policy)
      else if RequireSymbol policy \<and> Symbol \<notin> set classes then Some (passwordPolicyError policy)
      else None)"

section \<open>API tokens and pages\<close>

definition normalizeAPITokenDays :: "int \<Rightarrow> int result" where
  "normalizeAPITokenDays value =
     (if value = 0 then Inr 30
      else if value = - 1 then Inr value
      else if value < 1 \<or> value > 3650 then Inl iam_ErrInvalidInput
      else Inr value)"

definition apiTokenDisplayPrefix :: "string \<Rightarrow> string" where
  "apiTokenDisplayPrefix value = (if length value \<le> 16 then value else take 16 value)"

definition normalizeListPage :: "int \<Rightarrow> int \<Rightarrow> int \<times> int" where
  "normalizeListPage page pageSize =
     (let page = (if page \<le> 0 then 1 else page);
          pageSize = (if pageSize \<le> 0 then 10 else pageSize);
          pageSize = (if pageSize > 100 then 100 else pageSize)
      in (page, pageSize))"

definition IamConfig_defaults :: "IamConfig \<Rightarrow> IamConfig" where
  "IamConfig_defaults cfg = cfg\<lparr>
     LoginMaxFailures := (if LoginMaxFailures cfg \<le> 0 then 5 else LoginMaxFailures cfg),
     LoginLockDuration := (if LoginLockDuration cfg \<le> 0 then 900 * Second else LoginLockDuration cfg),
     CaptchaTTL := (if CaptchaTTL cfg \<le> 0 then 120 * Second else CaptchaTTL cfg),
     RegistrationMode := (let mode = normalizeRegistrationMode (RegistrationMode cfg)
        in if mode = [] then RegistrationModeDisabled else mode),
     EmailVerificationTTL := (if EmailVerificationTTL cfg \<le> 0 then 86400 * Second else EmailVerificationTTL cfg),
     InvitationTTL := (if InvitationTTL cfg \<le> 0 then 86400 * Second else InvitationTTL cfg),
     PasswordResetTTL := (if PasswordResetTTL cfg \<le> 0 then 1800 * Second else PasswordResetTTL cfg),
     NotificationDriver := (if NotificationDriver cfg = [] then ''debug'' else NotificationDriver cfg),
     DefaultProductCode := normalizeProductCode (if blank (DefaultProductCode cfg) then ''platform'' else DefaultProductCode cfg),
     DefaultClientType := normalizeClientType (if blank (DefaultClientType cfg) then ''pc_web'' else DefaultClientType cfg),
     Policy := (let p = Policy cfg in if MinLength p \<le> 0 then p\<lparr>MinLength := 8\<rparr> else p),
     MFAIssuer := (if MFAIssuer cfg = [] then ''mfa'' else MFAIssuer cfg)\<rparr>"

end
