(* ===== verification/IAM_Store.thy ===== *)
theory IAM_Store
  imports IAM_Model
begin

text \<open>
  The repository of the identity module, \<open>internal/modules/iam/repository/repository.go\<close>, over its tables.

  \<^item> A repository or service function is a state monad of \<open>HOL-Library.State_Monad\<close> over the record
    \<open>Iam\<close> with a \<open>result\<close>; \<open>attempt\<close> returns the first error as Go's \<open>if err != nil { return err }\<close>,
    \<open>instead e\<close> returns \<open>e\<close> in its place, \<open>ignore\<close> drops it as \<open>_ = f()\<close>.
  \<^item> A table is the list of its rows. \<open>First\<close> is the matching row with the least primary key, as GORM orders
    it; \<open>Save\<close> replaces the row of the same primary key or inserts it; an insert or a replacement that breaks a
    unique index fails. A statement may fail for any reason: \<open>ia_faults\<close> holds the outcomes of the
    statements to come, none left means no more failures.
  \<^item> What the service asks of the outside world is the record \<open>IamEnv\<close>: clocks, identifiers, randomness, password
    hashes, tokens, one-time codes, encryption, the policy engine, notifications. Every question takes the
    next number of \<open>ia_seq\<close>, so two questions need not have the same answer.
\<close>

section \<open>State and environment\<close>

record Iam =
  ia_users :: "User list"
  ia_orgs :: "Organization list"
  ia_memberships :: "Membership list"
  ia_roles :: "IamRole list"
  ia_sessions :: "IamSession list"
  ia_tokens :: "APIToken list"
  ia_invitations :: "Invitation list"
  ia_resets :: "PasswordReset list"
  ia_factors :: "MFAFactor list"
  ia_audit :: "AuditLog list"
  ia_rules :: "CasbinRule list"
  ia_permissions :: "Permission list"
  ia_verifications :: "EmailVerification list"
  ia_policies :: "AuthorizationRule list"
  ia_captchas :: "(string, captchaState) gomap"
  ia_driver :: string
  ia_publicURL :: string
  ia_mode :: string
  ia_verifyTTL :: duration
  ia_seq :: nat
  ia_faults :: "goerror option list"

datatype Notice =
    InvitationNotice string string string
  | PasswordResetNotice string string string
  | EmailVerificationNotice string string string

datatype MetaValue = MInt int | MString string | MStrings "string list" | MTime "gotime option"

record IamEnv =
  v_cfg :: IamConfig
  v_now :: "nat \<Rightarrow> gotime"
  v_wall :: "nat \<Rightarrow> gotime"
  v_id :: "nat \<Rightarrow> int"
  v_id_string :: "nat \<Rightarrow> string"
  v_has_users :: bool
  v_random :: "nat \<Rightarrow> string result"
  v_verify :: "string \<Rightarrow> string \<Rightarrow> goerror option"
  v_hash :: "nat \<Rightarrow> string \<Rightarrow> string result"
  v_issue :: "nat \<Rightarrow> TokenSubject \<Rightarrow> IssuedTokenPair result"
  v_parse :: "nat \<Rightarrow> string \<Rightarrow> TokenClaims result"
  v_token_hash :: "string \<Rightarrow> string"
  v_totp_new :: "nat \<Rightarrow> string \<Rightarrow> string \<Rightarrow> (string \<times> string) result"
  v_totp :: "nat \<Rightarrow> string \<Rightarrow> string \<Rightarrow> bool"
  v_encrypt :: "nat \<Rightarrow> string \<Rightarrow> string result"
  v_decrypt :: "string \<Rightarrow> string result"
  v_enforce :: "AuthorizationRule list \<Rightarrow> string list \<Rightarrow> bool result"
  v_roles :: "AuthorizationRule list \<Rightarrow> string \<Rightarrow> string \<Rightarrow> string list"
  v_notify :: "nat \<Rightarrow> Notice \<Rightarrow> goerror option"
  v_digit :: "nat \<Rightarrow> int result"
  v_class :: "string \<Rightarrow> RuneClass"
  v_json :: "(string \<times> MetaValue) list \<Rightarrow> string"
  v_base64 :: "string \<Rightarrow> string"

section \<open>The monad\<close>

type_synonym 'a iam = "(Iam, 'a) state"

definition reads :: "(Iam \<Rightarrow> 'a) \<Rightarrow> 'a iam" where
  "reads f = State (\<lambda>s. (f s, s))"

definition modify :: "(Iam \<Rightarrow> Iam) \<Rightarrow> unit iam" where
  "modify f = State (\<lambda>s. ((), f s))"

definition ok :: "'a \<Rightarrow> 'a result iam" where
  "ok x = State_Monad.return (Inr x)"

definition throw :: "goerror \<Rightarrow> 'a result iam" where
  "throw e = State_Monad.return (Inl e)"

definition attempt :: "'a result iam \<Rightarrow> ('a \<Rightarrow> 'b result iam) \<Rightarrow> 'b result iam" where
  "attempt m f = do { r \<leftarrow> m; case r of Inl e \<Rightarrow> throw e | Inr x \<Rightarrow> f x }"

definition instead :: "goerror \<Rightarrow> 'a result iam \<Rightarrow> ('a \<Rightarrow> 'b result iam) \<Rightarrow> 'b result iam" where
  "instead e m f = do { r \<leftarrow> m; case r of Inl _ \<Rightarrow> throw e | Inr x \<Rightarrow> f x }"

definition ignore :: "'a result iam \<Rightarrow> unit iam" where
  "ignore m = do { r \<leftarrow> m; State_Monad.return () }"

definition require :: "goerror option \<Rightarrow> 'a result iam \<Rightarrow> 'a result iam" where
  "require e m = (case e of Some err \<Rightarrow> throw err | None \<Rightarrow> m)"

definition ask :: "(nat \<Rightarrow> 'a) \<Rightarrow> 'a iam" where
  "ask f = State (\<lambda>s. (f (ia_seq s), s\<lparr>ia_seq := ia_seq s + 1\<rparr>))"

section \<open>Statements\<close>

abbreviation iam_ErrUnique :: goerror where
  "iam_ErrUnique \<equiv> ErrOther ''UNIQUE constraint failed''"

text \<open>A statement fails with the next outcome, or does its work.\<close>

definition statement :: "(Iam \<Rightarrow> 'a result \<times> Iam) \<Rightarrow> 'a result iam" where
  "statement work = State (\<lambda>s. case ia_faults s of
       Some e # fs \<Rightarrow> (Inl e, s\<lparr>ia_faults := fs\<rparr>)
     | None # fs \<Rightarrow> work (s\<lparr>ia_faults := fs\<rparr>)
     | [] \<Rightarrow> work s)"

definition first_row :: "('r \<Rightarrow> int) \<Rightarrow> ('r \<Rightarrow> bool) \<Rightarrow> 'r list \<Rightarrow> 'r option" where
  "first_row order p rows = (case sort_key order (filter p rows) of [] \<Rightarrow> None | r # rs \<Rightarrow> Some r)"

definition First :: "(Iam \<Rightarrow> 'r list) \<Rightarrow> ('r \<Rightarrow> int) \<Rightarrow> ('r \<Rightarrow> bool) \<Rightarrow> 'r result iam" where
  "First table order p = statement (\<lambda>s.
     (case first_row order p (table s) of None \<Rightarrow> Inl iam_ErrNotFound | Some r \<Rightarrow> Inr r, s))"

definition Find :: "(Iam \<Rightarrow> 'r list) \<Rightarrow> ('r list \<Rightarrow> 'r list) \<Rightarrow> 'r list result iam" where
  "Find table query = statement (\<lambda>s. (Inr (query (table s)), s))"

text \<open>\<open>clash\<close>: the two rows may not both be in the table; \<open>key\<close>: the primary key.\<close>

definition Create ::
    "(Iam \<Rightarrow> 'r list) \<Rightarrow> ('r list \<Rightarrow> Iam \<Rightarrow> Iam) \<Rightarrow> ('r \<Rightarrow> 'r \<Rightarrow> bool) \<Rightarrow> 'r \<Rightarrow> unit result iam" where
  "Create table put clash row = statement (\<lambda>s.
     if \<exists>r \<in> set (table s). clash row r then (Inl iam_ErrUnique, s)
     else (Inr (), put (table s @ [row]) s))"

definition Save ::
    "(Iam \<Rightarrow> 'r list) \<Rightarrow> ('r list \<Rightarrow> Iam \<Rightarrow> Iam) \<Rightarrow> ('r \<Rightarrow> int) \<Rightarrow> ('r \<Rightarrow> 'r \<Rightarrow> bool) \<Rightarrow> 'r \<Rightarrow> unit result iam" where
  "Save table put key clash row = statement (\<lambda>s.
     if \<exists>r \<in> set (table s). key r \<noteq> key row \<and> clash row r then (Inl iam_ErrUnique, s)
     else if \<exists>r \<in> set (table s). key r = key row
     then (Inr (), put (map (\<lambda>r. if key r = key row then row else r) (table s)) s)
     else (Inr (), put (table s @ [row]) s))"

text \<open>\<open>WithTx\<close>: begin and commit may fail as a statement does; a failed transaction leaves the tables as they were.\<close>

definition rollback :: "Iam \<Rightarrow> Iam \<Rightarrow> Iam" where
  "rollback start s = s\<lparr>ia_users := ia_users start, ia_orgs := ia_orgs start, ia_memberships := ia_memberships start,
     ia_roles := ia_roles start, ia_sessions := ia_sessions start, ia_tokens := ia_tokens start,
     ia_invitations := ia_invitations start, ia_resets := ia_resets start, ia_factors := ia_factors start,
     ia_audit := ia_audit start, ia_rules := ia_rules start, ia_permissions := ia_permissions start,
     ia_verifications := ia_verifications start\<rparr>"

definition WithTx :: "'a result iam \<Rightarrow> 'a result iam" where
  "WithTx body = attempt (statement (\<lambda>s. (Inr (), s))) (\<lambda>_. State (\<lambda>start.
     case run_state (attempt body (\<lambda>x. attempt (statement (\<lambda>s. (Inr (), s))) (\<lambda>_. ok x))) start of
       (Inl e, s) \<Rightarrow> (Inl e, rollback start s)
     | (Inr x, s) \<Rightarrow> (Inr x, s)))"

section \<open>Unique indexes\<close>

definition user_clash :: "User \<Rightarrow> User \<Rightarrow> bool" where
  "user_clash a b \<longleftrightarrow> u_ID a = u_ID b \<or> u_Username a = u_Username b \<or> u_Email a = u_Email b"

definition org_clash :: "Organization \<Rightarrow> Organization \<Rightarrow> bool" where
  "org_clash a b \<longleftrightarrow> o_ID a = o_ID b \<or> o_Code a = o_Code b"

definition permission_clash :: "Permission \<Rightarrow> Permission \<Rightarrow> bool" where
  "permission_clash a b \<longleftrightarrow> pm_ID a = pm_ID b \<or>
     pm_ProductCode a = pm_ProductCode b \<and> pm_Scope a = pm_Scope b \<and> pm_Code a = pm_Code b"

definition verification_clash :: "EmailVerification \<Rightarrow> EmailVerification \<Rightarrow> bool" where
  "verification_clash a b \<longleftrightarrow> ev_ID a = ev_ID b \<or> ev_TokenHash a = ev_TokenHash b"

definition membership_clash :: "Membership \<Rightarrow> Membership \<Rightarrow> bool" where
  "membership_clash a b \<longleftrightarrow> mb_ID a = mb_ID b \<or> mb_OrgID a = mb_OrgID b \<and> mb_UserID a = mb_UserID b"

definition role_clash :: "IamRole \<Rightarrow> IamRole \<Rightarrow> bool" where
  "role_clash a b \<longleftrightarrow> ro_ID a = ro_ID b \<or> ro_OrgID a = ro_OrgID b \<and> ro_Code a = ro_Code b"

definition session_clash :: "IamSession \<Rightarrow> IamSession \<Rightarrow> bool" where
  "session_clash a b \<longleftrightarrow> s_ID a = s_ID b \<or> s_RefreshTokenHash a = s_RefreshTokenHash b"

definition token_clash :: "APIToken \<Rightarrow> APIToken \<Rightarrow> bool" where
  "token_clash a b \<longleftrightarrow> at_ID a = at_ID b \<or> at_TokenHash a = at_TokenHash b"

definition invitation_clash :: "Invitation \<Rightarrow> Invitation \<Rightarrow> bool" where
  "invitation_clash a b \<longleftrightarrow> iv_ID a = iv_ID b \<or> iv_TokenHash a = iv_TokenHash b"

definition reset_clash :: "PasswordReset \<Rightarrow> PasswordReset \<Rightarrow> bool" where
  "reset_clash a b \<longleftrightarrow> pr_ID a = pr_ID b \<or> pr_TokenHash a = pr_TokenHash b"

definition factor_clash :: "MFAFactor \<Rightarrow> MFAFactor \<Rightarrow> bool" where
  "factor_clash a b \<longleftrightarrow> mf_ID a = mf_ID b"

definition audit_clash :: "AuditLog \<Rightarrow> AuditLog \<Rightarrow> bool" where
  "audit_clash a b \<longleftrightarrow> au_ID a = au_ID b"

definition rule_tuple :: "CasbinRule \<Rightarrow> string list" where
  "rule_tuple r = [cb_PType r, cb_V0 r, cb_V1 r, cb_V2 r, cb_V3 r, cb_V4 r, cb_V5 r]"

definition rule_clash :: "CasbinRule \<Rightarrow> CasbinRule \<Rightarrow> bool" where
  "rule_clash a b \<longleftrightarrow> cb_ID a = cb_ID b \<or> rule_tuple a = rule_tuple b"

section \<open>Repository operations\<close>

definition FindOrganizationByID :: "int \<Rightarrow> Organization result iam" where
  "FindOrganizationByID i = First ia_orgs o_ID (\<lambda>o'. o_ID o' = i \<and> o_DeletedAt o' = None)"

definition FindOrganizationByCode :: "string \<Rightarrow> Organization result iam" where
  "FindOrganizationByCode code = First ia_orgs o_ID (\<lambda>o'. o_Code o' = code \<and> o_DeletedAt o' = None)"

definition CreateOrganization_row :: "Organization \<Rightarrow> unit result iam" where
  "CreateOrganization_row org = Create ia_orgs (\<lambda>t s. s\<lparr>ia_orgs := t\<rparr>) org_clash org"

definition SaveOrganization :: "IamEnv \<Rightarrow> Organization \<Rightarrow> unit result iam" where
  "SaveOrganization v org = do {
     now \<leftarrow> ask (v_wall v);
     Save ia_orgs (\<lambda>t s. s\<lparr>ia_orgs := t\<rparr>) o_ID org_clash (org\<lparr>o_UpdatedAt := now\<rparr>) }"

definition HasUsersTable :: "IamEnv \<Rightarrow> bool result iam" where
  "HasUsersTable v = statement (\<lambda>s. (Inr (v_has_users v), s))"

definition CountUsers :: "nat result iam" where
  "CountUsers = statement (\<lambda>s. (Inr (length (filter (\<lambda>u. u_DeletedAt u = None) (ia_users s))), s))"

definition FindUserByID :: "int \<Rightarrow> User result iam" where
  "FindUserByID i = First ia_users u_ID (\<lambda>u. u_ID u = i \<and> u_DeletedAt u = None)"

definition FindUserByIdentifier :: "string \<Rightarrow> User result iam" where
  "FindUserByIdentifier identifier =
     First ia_users u_ID (\<lambda>u. (u_Username u = identifier \<or> u_Email u = identifier) \<and> u_DeletedAt u = None)"

definition CreateUser :: "User \<Rightarrow> unit result iam" where
  "CreateUser user = Create ia_users (\<lambda>t s. s\<lparr>ia_users := t\<rparr>) user_clash user"

definition SaveUser :: "IamEnv \<Rightarrow> User \<Rightarrow> unit result iam" where
  "SaveUser v user = do {
     now \<leftarrow> ask (v_wall v);
     Save ia_users (\<lambda>t s. s\<lparr>ia_users := t\<rparr>) u_ID user_clash (user\<lparr>u_UpdatedAt := now\<rparr>) }"

definition CreateMembership :: "Membership \<Rightarrow> unit result iam" where
  "CreateMembership m = Create ia_memberships (\<lambda>t s. s\<lparr>ia_memberships := t\<rparr>) membership_clash m"

definition active_member :: "int \<Rightarrow> int \<Rightarrow> Membership \<Rightarrow> bool" where
  "active_member org user m \<longleftrightarrow>
     mb_OrgID m = org \<and> mb_UserID m = user \<and> mb_Status m = StatusActive \<and> mb_DeletedAt m = None"

definition FindMembership :: "int \<Rightarrow> int \<Rightarrow> Membership result iam" where
  "FindMembership org user = First ia_memberships mb_ID (active_member org user)"

definition FindMembershipAnyStatus :: "int \<Rightarrow> int \<Rightarrow> Membership result iam" where
  "FindMembershipAnyStatus org user =
     First ia_memberships mb_ID (\<lambda>m. mb_OrgID m = org \<and> mb_UserID m = user \<and> mb_DeletedAt m = None)"

definition ListMembershipsByUser :: "int \<Rightarrow> Membership list result iam" where
  "ListMembershipsByUser user = Find ia_memberships
     (filter (\<lambda>m. mb_UserID m = user \<and> mb_Status m = StatusActive \<and> mb_DeletedAt m = None))"

definition SaveMembership :: "IamEnv \<Rightarrow> Membership \<Rightarrow> unit result iam" where
  "SaveMembership v m = do {
     now \<leftarrow> ask (v_wall v);
     Save ia_memberships (\<lambda>t s. s\<lparr>ia_memberships := t\<rparr>) mb_ID membership_clash (m\<lparr>mb_UpdatedAt := now\<rparr>) }"

definition FindRole :: "int \<Rightarrow> string \<Rightarrow> IamRole result iam" where
  "FindRole org code =
     First ia_roles ro_ID (\<lambda>r. ro_OrgID r = org \<and> ro_Code r = code \<and> ro_DeletedAt r = None)"

definition FindRoleByID :: "int \<Rightarrow> IamRole result iam" where
  "FindRoleByID i = First ia_roles ro_ID (\<lambda>r. ro_ID r = i \<and> ro_DeletedAt r = None)"

definition CreateRole_row :: "IamRole \<Rightarrow> unit result iam" where
  "CreateRole_row r = Create ia_roles (\<lambda>t s. s\<lparr>ia_roles := t\<rparr>) role_clash r"

definition SaveRole :: "IamEnv \<Rightarrow> IamRole \<Rightarrow> unit result iam" where
  "SaveRole v r = do {
     now \<leftarrow> ask (v_wall v);
     Save ia_roles (\<lambda>t s. s\<lparr>ia_roles := t\<rparr>) ro_ID role_clash (r\<lparr>ro_UpdatedAt := now\<rparr>) }"

definition ListRolePermissions :: "int \<Rightarrow> string \<Rightarrow> RolePermission list result iam" where
  "ListRolePermissions org subject = attempt
     (Find ia_rules (\<lambda>rules. sort_key (\<lambda>r. [cb_V2 r, cb_V3 r, cb_V4 r, cb_V5 r])
        (filter (\<lambda>r. cb_PType r = ''p'' \<and> cb_V0 r = subject \<and> cb_V1 r = FormatInt org) rules)))
     (\<lambda>rows. ok (map (\<lambda>r. \<lparr>rp_ProductCode = cb_V2 r, rp_Scope = cb_V3 r, rp_Code = cb_V4 r @ '':'' @ cb_V5 r\<rparr>)
        (filter (\<lambda>r. cb_V4 r \<noteq> [] \<and> cb_V5 r \<noteq> []) rows)))"

definition CreatePermission :: "Permission \<Rightarrow> unit result iam" where
  "CreatePermission p = Create ia_permissions (\<lambda>t s. s\<lparr>ia_permissions := t\<rparr>) permission_clash p"

definition FindPermission :: "string \<Rightarrow> string \<Rightarrow> string \<Rightarrow> Permission result iam" where
  "FindPermission productCode scope code =
     First ia_permissions pm_ID (\<lambda>p. pm_ProductCode p = productCode \<and> pm_Scope p = scope \<and> pm_Code p = code)"

definition CreateSession :: "IamSession \<Rightarrow> unit result iam" where
  "CreateSession session = Create ia_sessions (\<lambda>t s. s\<lparr>ia_sessions := t\<rparr>) session_clash session"

definition FindSessionByID :: "int \<Rightarrow> IamSession result iam" where
  "FindSessionByID i = First ia_sessions s_ID (\<lambda>r. s_ID r = i)"

definition FindSessionByRefreshHash :: "string \<Rightarrow> IamSession result iam" where
  "FindSessionByRefreshHash hash = First ia_sessions s_ID (\<lambda>r. s_RefreshTokenHash r = hash)"

definition ListSessionsByUser :: "int \<Rightarrow> IamSession list result iam" where
  "ListSessionsByUser user =
     Find ia_sessions (\<lambda>t. sort_key (\<lambda>r. - s_CreatedAt r) (filter (\<lambda>r. s_UserID r = user) t))"

definition SaveSession :: "IamEnv \<Rightarrow> IamSession \<Rightarrow> unit result iam" where
  "SaveSession v session = do {
     now \<leftarrow> ask (v_wall v);
     Save ia_sessions (\<lambda>t s. s\<lparr>ia_sessions := t\<rparr>) s_ID session_clash (session\<lparr>s_UpdatedAt := now\<rparr>) }"

definition CreateAPIToken_row :: "APIToken \<Rightarrow> unit result iam" where
  "CreateAPIToken_row t = Create ia_tokens (\<lambda>t s. s\<lparr>ia_tokens := t\<rparr>) token_clash t"

definition FindAPITokenByHash :: "string \<Rightarrow> APIToken result iam" where
  "FindAPITokenByHash hash = First ia_tokens at_ID (\<lambda>t. at_TokenHash t = hash)"

definition FindAPITokenByID :: "int \<Rightarrow> APIToken result iam" where
  "FindAPITokenByID i = First ia_tokens at_ID (\<lambda>t. at_ID t = i)"

definition SaveAPIToken :: "IamEnv \<Rightarrow> APIToken \<Rightarrow> unit result iam" where
  "SaveAPIToken v t = do {
     now \<leftarrow> ask (v_wall v);
     Save ia_tokens (\<lambda>t s. s\<lparr>ia_tokens := t\<rparr>) at_ID token_clash (t\<lparr>at_UpdatedAt := now\<rparr>) }"

definition CreateInvitation :: "Invitation \<Rightarrow> unit result iam" where
  "CreateInvitation i = Create ia_invitations (\<lambda>t s. s\<lparr>ia_invitations := t\<rparr>) invitation_clash i"

definition FindInvitationByID :: "int \<Rightarrow> Invitation result iam" where
  "FindInvitationByID i = First ia_invitations iv_ID (\<lambda>r. iv_ID r = i)"

definition FindInvitationByTokenHash :: "string \<Rightarrow> Invitation result iam" where
  "FindInvitationByTokenHash hash = First ia_invitations iv_ID (\<lambda>r. iv_TokenHash r = hash)"

definition SaveInvitation :: "IamEnv \<Rightarrow> Invitation \<Rightarrow> unit result iam" where
  "SaveInvitation v i = do {
     now \<leftarrow> ask (v_wall v);
     Save ia_invitations (\<lambda>t s. s\<lparr>ia_invitations := t\<rparr>) iv_ID invitation_clash (i\<lparr>iv_UpdatedAt := now\<rparr>) }"

definition CreatePasswordReset :: "PasswordReset \<Rightarrow> unit result iam" where
  "CreatePasswordReset r = Create ia_resets (\<lambda>t s. s\<lparr>ia_resets := t\<rparr>) reset_clash r"

definition FindPasswordResetByTokenHash :: "string \<Rightarrow> PasswordReset result iam" where
  "FindPasswordResetByTokenHash hash = First ia_resets pr_ID (\<lambda>r. pr_TokenHash r = hash)"

definition SavePasswordReset :: "IamEnv \<Rightarrow> PasswordReset \<Rightarrow> unit result iam" where
  "SavePasswordReset v r = do {
     now \<leftarrow> ask (v_wall v);
     Save ia_resets (\<lambda>t s. s\<lparr>ia_resets := t\<rparr>) pr_ID reset_clash (r\<lparr>pr_UpdatedAt := now\<rparr>) }"

definition CreateEmailVerification :: "EmailVerification \<Rightarrow> unit result iam" where
  "CreateEmailVerification e = Create ia_verifications (\<lambda>t s. s\<lparr>ia_verifications := t\<rparr>) verification_clash e"

definition FindEmailVerificationByTokenHash :: "string \<Rightarrow> EmailVerification result iam" where
  "FindEmailVerificationByTokenHash hash = First ia_verifications ev_ID (\<lambda>r. ev_TokenHash r = hash)"

definition SaveEmailVerification :: "IamEnv \<Rightarrow> EmailVerification \<Rightarrow> unit result iam" where
  "SaveEmailVerification v e = do {
     now \<leftarrow> ask (v_wall v);
     Save ia_verifications (\<lambda>t s. s\<lparr>ia_verifications := t\<rparr>) ev_ID verification_clash (e\<lparr>ev_UpdatedAt := now\<rparr>) }"

text \<open>The four \<open>DELETE\<close> statements of \<open>DeletePendingSignup\<close>, in order; each removes pending rows only.\<close>

definition delete_rows :: "(Iam \<Rightarrow> Iam) \<Rightarrow> unit result iam" where
  "delete_rows f = statement (\<lambda>s. (Inr (), f s))"

definition DeletePendingSignup :: "int \<Rightarrow> int \<Rightarrow> int \<Rightarrow> unit result iam" where
  "DeletePendingSignup org user verification =
     attempt (delete_rows (\<lambda>s. s\<lparr>ia_verifications := filter (\<lambda>e. \<not> (ev_ID e = verification \<and> ev_UserID e = user \<and>
       ev_OrgID e = org \<and> ev_Status e = StatusPending)) (ia_verifications s)\<rparr>)) (\<lambda>_.
     attempt (delete_rows (\<lambda>s. s\<lparr>ia_memberships := filter (\<lambda>m. \<not> (mb_OrgID m = org \<and> mb_UserID m = user \<and>
       mb_Status m = StatusPending)) (ia_memberships s)\<rparr>)) (\<lambda>_.
     attempt (delete_rows (\<lambda>s. s\<lparr>ia_users := filter (\<lambda>u. \<not> (u_ID u = user \<and> u_Status u = StatusPending)) (ia_users s)\<rparr>))
       (\<lambda>_.
     delete_rows (\<lambda>s. s\<lparr>ia_orgs := filter (\<lambda>o'. \<not> (o_ID o' = org \<and> o_Status o' = StatusPending)) (ia_orgs s)\<rparr>))))"

definition CreateMFAFactor :: "MFAFactor \<Rightarrow> unit result iam" where
  "CreateMFAFactor f = Create ia_factors (\<lambda>t s. s\<lparr>ia_factors := t\<rparr>) factor_clash f"

definition FindActiveMFAFactor :: "int \<Rightarrow> MFAFactor result iam" where
  "FindActiveMFAFactor user = First ia_factors (\<lambda>f. - mf_ID f)
     (\<lambda>f. mf_UserID f = user \<and> mf_Type f = ''totp'' \<and> mf_Status f = StatusActive)"

definition SaveMFAFactor :: "IamEnv \<Rightarrow> MFAFactor \<Rightarrow> unit result iam" where
  "SaveMFAFactor v f = do {
     now \<leftarrow> ask (v_wall v);
     Save ia_factors (\<lambda>t s. s\<lparr>ia_factors := t\<rparr>) mf_ID factor_clash (f\<lparr>mf_UpdatedAt := now\<rparr>) }"

definition CreateAuditLog :: "AuditLog \<Rightarrow> unit result iam" where
  "CreateAuditLog a = Create ia_audit (\<lambda>t s. s\<lparr>ia_audit := t\<rparr>) audit_clash a"

definition AddCasbinRule :: "CasbinRule \<Rightarrow> unit result iam" where
  "AddCasbinRule rule = do {
     r \<leftarrow> First ia_rules cb_ID (\<lambda>r. rule_tuple r = rule_tuple rule);
     case r of
       Inr existing \<Rightarrow> ok ()
     | Inl e \<Rightarrow> if \<not> errors_Is e iam_ErrNotFound then throw e
         else Create ia_rules (\<lambda>t s. s\<lparr>ia_rules := t\<rparr>) rule_clash rule }"

text \<open>\<open>DeleteCasbinRules(ptype, v0, v1, v2)\<close>: an empty value is no condition.\<close>

definition DeleteCasbinRules :: "string \<Rightarrow> string \<Rightarrow> string \<Rightarrow> string \<Rightarrow> unit result iam" where
  "DeleteCasbinRules ptype v0 v1 v2 = statement (\<lambda>s. (Inr (), s\<lparr>ia_rules := filter (\<lambda>r. \<not> (cb_PType r = ptype \<and>
     (v0 = [] \<or> cb_V0 r = v0) \<and> (v1 = [] \<or> cb_V1 r = v1) \<and> (v2 = [] \<or> cb_V2 r = v2))) (ia_rules s)\<rparr>))"

definition rule_values :: "CasbinRule \<Rightarrow> AuthorizationRule" where
  "rule_values r =
     (let values = [cb_V0 r, cb_V1 r, cb_V2 r, cb_V3 r, cb_V4 r, cb_V5 r]
      in \<lparr>ar_PType = cb_PType r,
          ar_Values = (if cb_PType r = ''p'' then take 6 values else if cb_PType r = ''g'' then take 3 values else values)\<rparr>)"

definition ListCasbinRules :: "AuthorizationRule list result iam" where
  "ListCasbinRules = attempt (Find ia_rules (sort_key cb_ID)) (\<lambda>rows. ok (map rule_values rows))"

section \<open>The policy engine\<close>

text \<open>
  \<open>pkg/authorization/authorization.go\<close>: the engine holds the rules that were loaded; adding a rule that is there
  changes nothing. Casbin's answers are \<open>v_enforce\<close> and \<open>v_roles\<close>.
\<close>

fun LoadRules_loop :: "AuthorizationRule list \<Rightarrow> AuthorizationRule list \<Rightarrow> goerror option \<times> AuthorizationRule list" where
  "LoadRules_loop [] loaded = (None, loaded)"
| "LoadRules_loop (rule # rules) loaded =
     (let n = (if ar_PType rule = ''p'' then 6 else 3);
          entry = rule\<lparr>ar_Values := take n (ar_Values rule)\<rparr>
      in if ar_PType rule = ''p'' \<or> ar_PType rule = ''g'' then
           if length (ar_Values rule) < n then (Some (ErrOther (''invalid '' @ ar_PType rule @ '' rule'')), loaded)
           else LoadRules_loop rules (if entry \<in> set loaded then loaded else loaded @ [entry])
         else (Some (ErrOther (''unsupported casbin rule type: '' @ ar_PType rule)), loaded))"

definition LoadRules :: "AuthorizationRule list \<Rightarrow> unit result iam" where
  "LoadRules rules = State (\<lambda>s. case LoadRules_loop rules [] of
     (e, loaded) \<Rightarrow> (case e of Some err \<Rightarrow> Inl err | None \<Rightarrow> Inr (), s\<lparr>ia_policies := loaded\<rparr>))"

definition GetRolesForUser :: "IamEnv \<Rightarrow> string \<Rightarrow> string \<Rightarrow> string list iam" where
  "GetRolesForUser v user org = reads (\<lambda>s. v_roles v (ia_policies s) user org)"

definition Enforce :: "IamEnv \<Rightarrow> string \<Rightarrow> string \<Rightarrow> string \<Rightarrow> string \<Rightarrow> string \<Rightarrow> string \<Rightarrow> bool result iam" where
  "Enforce v sub org product scope obj act = reads (\<lambda>s. v_enforce v (ia_policies s) [sub, org, product, scope, obj, act])"

end
