(* ===== verification/IAM_Service.thy ===== *)
theory IAM_Service
  imports IAM_Store
begin

text \<open>
  The operations of the identity service, \<open>internal/modules/iam/service/service.go\<close> and \<open>captcha.go\<close>: captcha
  challenges, login with lockout and second factor, refresh, logout, switching organizations,
  authentication of access and API tokens, authorization, password reset, second-factor set-up,
  members and roles, API tokens and invitations. Each follows the code's order of calls.

  The caches of the list operations are left out: bumping an epoch changes nothing the model holds.
\<close>

section \<open>Auditing and links\<close>

definition audit ::
    "IamEnv \<Rightarrow> int option \<Rightarrow> int option \<Rightarrow> string \<Rightarrow> string \<Rightarrow> string \<Rightarrow> string \<Rightarrow> string \<Rightarrow>
     (string \<times> MetaValue) list \<Rightarrow> string \<times> string \<Rightarrow> unit result iam" where
  "audit v org user action resource resourceID ip userAgent metadata context' =
     (let c = resolveSessionContext (v_cfg v) (fst context') (snd context') in do {
       i \<leftarrow> ask (v_id v);
       now \<leftarrow> ask (v_now v);
       CreateAuditLog \<lparr>au_ID = i, au_OrgID = org, au_UserID = user, au_ProductCode = sc_ProductCode c,
         au_ClientType = sc_ClientType c, au_Action = action, au_Resource = resource, au_ResourceID = resourceID,
         au_IPAddress = ip, au_UserAgent = userAgent, au_Metadata = v_json v metadata, au_CreatedAt = now\<rparr> })"

definition unreserved :: "char \<Rightarrow> bool" where
  "unreserved c \<longleftrightarrow> (let n = (of_char c :: nat) in
     48 \<le> n \<and> n \<le> 57 \<or> 65 \<le> n \<and> n \<le> 90 \<or> 97 \<le> n \<and> n \<le> 122) \<or> c \<in> {CHR ''-'', CHR ''_'', CHR ''.'', CHR ''~''}"

definition percent :: "char \<Rightarrow> string" where
  "percent c = (let n = (of_char c :: nat); hex = ''0123456789ABCDEF'' in [CHR ''%'', hex ! (n div 16), hex ! (n mod 16)])"

definition QueryEscape :: "string \<Rightarrow> string" where
  "QueryEscape s = concat (map (\<lambda>c. if unreserved c then [c] else if c = CHR '' '' then ''+'' else percent c) s)"

definition PathEscape :: "string \<Rightarrow> string" where
  "PathEscape s = concat (map (\<lambda>c. if unreserved c \<or> c \<in> set ''$&+=:@'' then [c] else percent c) s)"

definition TrimLeftSlash :: "string \<Rightarrow> string" where
  "TrimLeftSlash s = dropWhile (\<lambda>c. c = CHR ''/'') s"

definition TrimRightSlash :: "string \<Rightarrow> string" where
  "TrimRightSlash s = rev (dropWhile (\<lambda>c. c = CHR ''/'') (rev s))"

definition publicBaseURL :: "Iam \<Rightarrow> string" where
  "publicBaseURL s = TrimRightSlash (TrimSpace (ia_publicURL s))"

definition notificationURL :: "Iam \<Rightarrow> string \<Rightarrow> string" where
  "notificationURL s adminPath =
     (let adminPath = TrimLeftSlash adminPath; base = publicBaseURL s in
      if base = [] then ''/admin/'' @ adminPath else TrimRightSlash base @ ''/'' @ adminPath)"

definition debugNotificationsEnabled :: "Iam \<Rightarrow> bool" where
  "debugNotificationsEnabled s \<longleftrightarrow> normalizeCode (ia_driver s) \<in> {[], ''debug'', ''noop'', ''local''}"

record NotificationDelivery =
  nd_Debug :: bool
  nd_Token :: string
  nd_URL :: string

definition debugDelivery :: "string \<Rightarrow> string \<Rightarrow> Iam \<Rightarrow> NotificationDelivery" where
  "debugDelivery token adminPath s =
     (if \<not> debugNotificationsEnabled s then \<lparr>nd_Debug = False, nd_Token = [], nd_URL = []\<rparr>
      else \<lparr>nd_Debug = True, nd_Token = token, nd_URL = notificationURL s adminPath\<rparr>)"

definition ReloadNotificationRuntime :: "string \<Rightarrow> string \<Rightarrow> unit iam" where
  "ReloadNotificationRuntime driver base =
     (let driver = TrimSpace driver in
      modify (\<lambda>s. s\<lparr>ia_driver := (if driver = [] then ''debug'' else driver), ia_publicURL := base\<rparr>))"

section \<open>Captcha\<close>

definition cleanupCaptchas :: "gotime \<Rightarrow> (string, captchaState) gomap \<Rightarrow> (string, captchaState) gomap" where
  "cleanupCaptchas now m = filter (\<lambda>(i, state). \<not> After now (cs_expiresAt state)) m"

record CaptchaChallenge =
  cc_CaptchaID :: string
  cc_Enabled :: bool
  cc_ExpiresAt :: gotime
  cc_Image :: string

definition captchaImage :: "(string \<Rightarrow> string) \<Rightarrow> string \<Rightarrow> string" where
  "captchaImage base64 question = ''data:image/svg+xml;base64,'' @ base64 (
       ''<svg xmlns=\"http://www.w3.org/2000/svg\" width=\"160\" height=\"52\" viewBox=\"0 0 160 52\">'' @ [CHR 0x0A] @
       ''<rect width=\"160\" height=\"52\" rx=\"8\" fill=\"#eef6ff\"/>'' @ [CHR 0x0A] @
       ''<path d=\"M8 40 C32 8, 58 50, 86 18 S132 40, 152 14\" fill=\"none\" stroke=\"#9cc3e6\"'' @
       '' stroke-width=\"2\" opacity=\".85\"/>'' @ [CHR 0x0A] @
       ''<path d=\"M14 16 L144 44 M18 42 L148 12\" stroke=\"#c8d6e5\" stroke-width=\"1\" opacity=\".7\"/>'' @ [CHR 0x0A] @
       ''<text x=\"80\" y=\"34\" text-anchor=\"middle\" font-family=\"ui-monospace, SFMono-Regular,'' @
       '' Consolas, monospace\" font-size=\"22\" font-weight=\"700\" fill=\"#1f6feb\"'' @
       '' transform=\"rotate(-4 80 28)\">'' @ question @ '' = ?</text>'' @ [CHR 0x0A] @
       ''</svg>'')"

definition Captcha :: "IamEnv \<Rightarrow> CaptchaChallenge result iam" where
  "Captcha v =
     (if \<not> CaptchaEnabled (v_cfg v) then ok \<lparr>cc_CaptchaID = [], cc_Enabled = False, cc_ExpiresAt = 0, cc_Image = []\<rparr>
      else attempt (ask (v_digit v)) (\<lambda>left. attempt (ask (v_digit v)) (\<lambda>right.
           attempt (ask (v_random v)) (\<lambda>captchaID. do {
             let question = FormatInt left @ '' + '' @ FormatInt right;
             now \<leftarrow> ask (v_now v);
             let expiresAt = now + CaptchaTTL (v_cfg v);
             clean \<leftarrow> ask (v_now v);
             modify (\<lambda>s. s\<lparr>ia_captchas := mput (cleanupCaptchas clean (ia_captchas s)) captchaID
               \<lparr>cs_answer = FormatInt (left + right), cs_expiresAt = expiresAt\<rparr>\<rparr>);
             ok \<lparr>cc_CaptchaID = captchaID, cc_Enabled = True, cc_ExpiresAt = expiresAt,
                 cc_Image = captchaImage (v_base64 v) question\<rparr> }))))"

definition validateLoginCaptcha :: "IamEnv \<Rightarrow> string \<Rightarrow> string \<Rightarrow> unit result iam" where
  "validateLoginCaptcha v captchaID captchaCode =
     (let captchaID = TrimSpace captchaID; captchaCode = TrimSpace captchaCode in
      if \<not> CaptchaEnabled (v_cfg v) then ok ()
      else if captchaID = [] \<or> captchaCode = [] then throw iam_ErrCaptchaRequired
      else do {
        now \<leftarrow> ask (v_now v);
        found \<leftarrow> reads (\<lambda>s. mget (cleanupCaptchas now (ia_captchas s)) captchaID);
        modify (\<lambda>s. s\<lparr>ia_captchas := mdel (cleanupCaptchas now (ia_captchas s)) captchaID\<rparr>);
        case found of
          None \<Rightarrow> throw iam_ErrCaptchaInvalid
        | Some state \<Rightarrow> if After now (cs_expiresAt state) then throw iam_ErrCaptchaInvalid
            else if captchaCode \<noteq> cs_answer state then throw iam_ErrCaptchaInvalid else ok () })"

section \<open>Sessions\<close>

text \<open>\<open>t.Before(u)\<close> is \<open>t < u\<close>.\<close>

definition ensureUserCanLogin :: "IamEnv \<Rightarrow> User \<Rightarrow> unit result iam" where
  "ensureUserCanLogin v user =
     (if u_Status user \<noteq> StatusActive then throw iam_ErrAccountDisabled
      else case u_LockedUntil user of
        None \<Rightarrow> ok ()
      | Some t \<Rightarrow> do { now \<leftarrow> ask (v_now v); if After t now then throw iam_ErrAccountLocked else ok () })"

definition ensureSessionActive :: "IamEnv \<Rightarrow> IamSession \<Rightarrow> unit result iam" where
  "ensureSessionActive v session =
     (if s_RevokedAt session \<noteq> None then throw iam_ErrSessionRevoked
      else do { now \<leftarrow> ask (v_now v); if s_ExpiresAt session < now then throw iam_ErrInvalidToken else ok () })"

fun revoke_loop :: "IamEnv \<Rightarrow> (IamSession \<Rightarrow> bool) \<Rightarrow> gotime \<Rightarrow> IamSession list \<Rightarrow> unit result iam" where
  "revoke_loop v skip now [] = ok ()"
| "revoke_loop v skip now (session # sessions) =
     (if skip session then revoke_loop v skip now sessions
      else attempt (SaveSession v (session\<lparr>s_RevokedAt := Some now\<rparr>)) (\<lambda>_. revoke_loop v skip now sessions))"

definition other_context :: "int \<Rightarrow> SessionContext \<Rightarrow> gotime \<Rightarrow> IamSession \<Rightarrow> bool" where
  "other_context org c now session \<longleftrightarrow>
     s_OrgID session \<noteq> org \<or> s_ProductCode session \<noteq> sc_ProductCode c \<or> s_ClientType session \<noteq> sc_ClientType c \<or>
     s_RevokedAt session \<noteq> None \<or> s_ExpiresAt session < now"

definition revokeActiveSessionsForContext :: "IamEnv \<Rightarrow> int \<Rightarrow> int \<Rightarrow> SessionContext \<Rightarrow> gotime \<Rightarrow> unit result iam" where
  "revokeActiveSessionsForContext v user org c now =
     attempt (ListSessionsByUser user) (revoke_loop v (other_context org c now) now)"

definition tokenPair :: "IssuedTokenPair \<Rightarrow> IamSession \<Rightarrow> TokenPair" where
  "tokenPair pair session = \<lparr>tp_AccessToken = ip_AccessToken pair, tp_AccessExpiresAt = ip_AccessExpiresAt pair,
     tp_RefreshToken = ip_RefreshToken pair, tp_RefreshExpiresAt = ip_RefreshExpiresAt pair,
     tp_UserID = s_UserID session, tp_OrgID = s_OrgID session, tp_SessionID = s_ID session,
     tp_ProductCode = s_ProductCode session, tp_ClientType = s_ClientType session\<rparr>"

definition createSessionAndTokens ::
    "IamEnv \<Rightarrow> User \<Rightarrow> int \<Rightarrow> string \<Rightarrow> string \<Rightarrow> string \<Rightarrow> string \<Rightarrow> TokenPair result iam" where
  "createSessionAndTokens v user org userAgent ip productCode clientType = do {
     now \<leftarrow> ask (v_now v);
     let c = resolveSessionContext (v_cfg v) productCode clientType;
     attempt (if SingleSessionPerContext (v_cfg v) then revokeActiveSessionsForContext v (u_ID user) org c now else ok ())
       (\<lambda>_. do {
       sessionID \<leftarrow> ask (v_id v);
       attempt (ask (\<lambda>n. v_issue v n \<lparr>ts_UserID = u_ID user, ts_OrgID = org, ts_SessionID = sessionID,
           ts_ProductCode = sc_ProductCode c\<rparr>)) (\<lambda>pair.
         let session = \<lparr>s_ID = sessionID, s_UserID = u_ID user, s_OrgID = org, s_ProductCode = sc_ProductCode c,
               s_ClientType = sc_ClientType c, s_RefreshTokenHash = ip_RefreshTokenHash pair, s_UserAgent = userAgent,
               s_IPAddress = ip, s_ExpiresAt = ip_RefreshExpiresAt pair, s_RevokedAt = None, s_LastUsedAt = None,
               s_CreatedAt = now, s_UpdatedAt = now\<rparr>
         in attempt (CreateSession session) (\<lambda>_. ok (tokenPair pair session))) }) }"

definition loginOrg :: "int \<Rightarrow> string \<Rightarrow> Organization result iam" where
  "loginOrg user code =
     (if code \<noteq> [] then
        instead iam_ErrNotFound (FindOrganizationByCode (normalizeCode code)) (\<lambda>org.
        instead iam_ErrForbidden (FindMembership (o_ID org) user) (\<lambda>_. ok org))
      else
        instead iam_ErrForbidden (ListMembershipsByUser user) (\<lambda>memberships.
          case memberships of [] \<Rightarrow> throw iam_ErrForbidden | m # _ \<Rightarrow> FindOrganizationByID (mb_OrgID m)))"

definition recordFailedLogin :: "IamEnv \<Rightarrow> User \<Rightarrow> unit result iam" where
  "recordFailedLogin v user =
     (let user = user\<lparr>u_FailedLoginAttempts := u_FailedLoginAttempts user + 1\<rparr> in
      if u_FailedLoginAttempts user \<ge> LoginMaxFailures (v_cfg v)
      then do { now \<leftarrow> ask (v_now v); SaveUser v (user\<lparr>u_LockedUntil := Some (now + LoginLockDuration (v_cfg v))\<rparr>) }
      else SaveUser v user)"

definition verifyUserMFA :: "IamEnv \<Rightarrow> int \<Rightarrow> string \<Rightarrow> unit result iam" where
  "verifyUserMFA v user code =
     instead iam_ErrUnauthorized (FindActiveMFAFactor user) (\<lambda>factor.
       case v_decrypt v (mf_Secret factor) of
         Inl e \<Rightarrow> throw e
       | Inr secret \<Rightarrow> do { valid \<leftarrow> ask (\<lambda>n. v_totp v n code secret);
           if \<not> valid then throw iam_ErrUnauthorized else ok () })"

record LoginInput =
  li_CaptchaCode :: string
  li_CaptchaID :: string
  li_Identifier :: string
  li_Password :: string
  li_OrgCode :: string
  li_MFACode :: string
  li_UserAgent :: string
  li_IPAddress :: string
  li_ProductCode :: string
  li_ClientType :: string

definition login_mfa :: "IamEnv \<Rightarrow> User \<Rightarrow> string \<Rightarrow> unit result iam" where
  "login_mfa v user code =
     (if \<not> u_MFAEnabled user then ok ()
      else if code = [] then throw iam_ErrMFARequired
      else instead iam_ErrUnauthorized (verifyUserMFA v (u_ID user) code) ok)"

definition Login :: "IamEnv \<Rightarrow> LoginInput \<Rightarrow> TokenPair result iam" where
  "Login v input =
     (let identifier = TrimSpace (ToLower (li_Identifier input)) in
      if identifier = [] \<or> li_Password input = [] then throw iam_ErrUnauthorized
      else
        attempt (validateLoginCaptcha v (li_CaptchaID input) (li_CaptchaCode input)) (\<lambda>_.
        instead iam_ErrUnauthorized (FindUserByIdentifier identifier) (\<lambda>user.
        attempt (ensureUserCanLogin v user) (\<lambda>_.
          case v_verify v (u_PasswordHash user) (li_Password input) of
            Some e \<Rightarrow> do { ignore (recordFailedLogin v user); throw iam_ErrUnauthorized }
          | None \<Rightarrow>
              attempt (login_mfa v user (li_MFACode input)) (\<lambda>_.
              attempt (loginOrg (u_ID user) (li_OrgCode input)) (\<lambda>org.
              attempt (createSessionAndTokens v user (o_ID org) (li_UserAgent input) (li_IPAddress input)
                  (li_ProductCode input) (li_ClientType input)) (\<lambda>pair. do {
                now \<leftarrow> ask (v_now v);
                ignore (SaveUser v (user\<lparr>u_FailedLoginAttempts := 0, u_LockedUntil := None, u_LastLoginAt := Some now\<rparr>));
                ignore (audit v (Some (o_ID org)) (Some (u_ID user)) ''auth.login'' ''session'' [] (li_IPAddress input)
                  (li_UserAgent input) [] (li_ProductCode input, li_ClientType input));
                ok pair })))))))"

definition Refresh :: "IamEnv \<Rightarrow> string \<Rightarrow> string \<Rightarrow> string \<Rightarrow> TokenPair result iam" where
  "Refresh v refreshToken userAgent ip =
     instead iam_ErrInvalidToken (FindSessionByRefreshHash (v_token_hash v (TrimSpace refreshToken))) (\<lambda>session.
     attempt (ensureSessionActive v session) (\<lambda>_.
     instead iam_ErrInvalidToken (FindUserByID (s_UserID session)) (\<lambda>user.
     attempt (ensureUserCanLogin v user) (\<lambda>_.
     instead iam_ErrForbidden (FindMembership (s_OrgID session) (s_UserID session)) (\<lambda>_.
       let c = resolveSessionContext (v_cfg v) (s_ProductCode session) (s_ClientType session) in
       attempt (ask (\<lambda>n. v_issue v n \<lparr>ts_UserID = u_ID user, ts_OrgID = s_OrgID session, ts_SessionID = s_ID session,
           ts_ProductCode = sc_ProductCode c\<rparr>)) (\<lambda>pair. do {
         now \<leftarrow> ask (v_now v);
         let session' = session\<lparr>s_RefreshTokenHash := ip_RefreshTokenHash pair, s_ExpiresAt := ip_RefreshExpiresAt pair,
               s_LastUsedAt := Some now, s_UserAgent := userAgent, s_IPAddress := ip,
               s_ProductCode := sc_ProductCode c, s_ClientType := sc_ClientType c\<rparr>;
         attempt (SaveSession v session') (\<lambda>_. ok (tokenPair pair session')) }))))))"

definition Logout :: "IamEnv \<Rightarrow> IamPrincipal \<Rightarrow> unit result iam" where
  "Logout v p =
     instead iam_ErrInvalidToken (FindSessionByID (p_SessionID p)) (\<lambda>session. do {
       now \<leftarrow> ask (v_now v);
       SaveSession v (session\<lparr>s_RevokedAt := Some now\<rparr>) })"

definition SwitchOrg :: "IamEnv \<Rightarrow> IamPrincipal \<Rightarrow> int \<Rightarrow> string \<Rightarrow> string \<Rightarrow> TokenPair result iam" where
  "SwitchOrg v p org userAgent ip =
     instead iam_ErrForbidden (FindMembership org (p_UserID p)) (\<lambda>_.
     instead iam_ErrInvalidToken (FindUserByID (p_UserID p)) (\<lambda>user.
     createSessionAndTokens v user org userAgent ip (p_ProductCode p) (p_ClientType p)))"

definition RevokeSession :: "IamEnv \<Rightarrow> IamPrincipal \<Rightarrow> int \<Rightarrow> unit result iam" where
  "RevokeSession v p sessionID =
     instead iam_ErrNotFound (FindSessionByID sessionID) (\<lambda>session.
       if s_OrgID session \<noteq> p_OrgID p then throw iam_ErrForbidden
       else do {
         now \<leftarrow> ask (v_now v);
         SaveSession v (session\<lparr>s_RevokedAt := Some now\<rparr>) })"

section \<open>Authentication and authorization\<close>

definition userHasRole :: "IamEnv \<Rightarrow> int \<Rightarrow> int \<Rightarrow> string \<Rightarrow> bool iam" where
  "userHasRole v user org roleCode = do {
     roles \<leftarrow> GetRolesForUser v (userSubject user) (FormatInt org);
     State_Monad.return (\<exists>role \<in> set roles. roleSubject role = roleSubject roleCode) }"

definition authenticateAPIToken :: "IamEnv \<Rightarrow> string \<Rightarrow> IamPrincipal result iam" where
  "authenticateAPIToken v raw =
     (let raw = TrimSpace raw in
      if raw = [] then throw iam_ErrInvalidToken
      else
        instead iam_ErrInvalidToken (FindAPITokenByHash (v_token_hash v raw)) (\<lambda>t.
        if at_Status t \<noteq> StatusActive then throw iam_ErrSessionRevoked
        else attempt (case at_ExpiresAt t of None \<Rightarrow> ok ()
               | Some e \<Rightarrow> do { now \<leftarrow> ask (v_now v); if e < now then throw iam_ErrInvalidToken else ok () }) (\<lambda>_.
        instead iam_ErrInvalidToken (FindUserByID (at_UserID t)) (\<lambda>user.
        attempt (ensureUserCanLogin v user) (\<lambda>_.
        instead iam_ErrForbidden (FindMembership (at_OrgID t) (at_UserID t)) (\<lambda>_.
        instead iam_ErrForbidden (FindRole (at_OrgID t) (at_RoleCode t)) (\<lambda>_. do {
          has \<leftarrow> userHasRole v (at_UserID t) (at_OrgID t) (at_RoleCode t);
          if \<not> has then throw iam_ErrForbidden
          else do {
            now \<leftarrow> ask (v_now v);
            ignore (SaveAPIToken v (t\<lparr>at_LastUsedAt := Some now\<rparr>));
            let c = resolveSessionContext (v_cfg v) [] ''api_token'';
            ok \<lparr>p_UserID = u_ID user, p_OrgID = at_OrgID t, p_SessionID = 0, p_ProductCode = sc_ProductCode c,
                p_ClientType = sc_ClientType c, p_Username = u_Username user, p_Email = u_Email user,
                p_RoleCode = at_RoleCode t\<rparr> } })))))))"

definition AuthenticateToken :: "IamEnv \<Rightarrow> string \<Rightarrow> IamPrincipal result iam" where
  "AuthenticateToken v raw = do {
     parsed \<leftarrow> ask (\<lambda>n. v_parse v n raw);
     case parsed of
       Inl e \<Rightarrow> authenticateAPIToken v raw
     | Inr claims \<Rightarrow>
         instead iam_ErrInvalidToken (FindSessionByID (tc_SessionID claims)) (\<lambda>session.
         attempt (ensureSessionActive v session) (\<lambda>_.
         instead iam_ErrInvalidToken (FindUserByID (tc_UserID claims)) (\<lambda>user.
         attempt (ensureUserCanLogin v user) (\<lambda>_.
         instead iam_ErrForbidden (FindMembership (tc_OrgID claims) (tc_UserID claims)) (\<lambda>_.
           let c = resolveSessionContext (v_cfg v) (tc_ProductCode claims) (s_ClientType session) in
           if s_ProductCode session \<noteq> sc_ProductCode c \<or> s_ClientType session \<noteq> sc_ClientType c
           then throw iam_ErrInvalidToken
           else ok \<lparr>p_UserID = u_ID user, p_OrgID = tc_OrgID claims, p_SessionID = s_ID session,
                  p_ProductCode = sc_ProductCode c, p_ClientType = sc_ClientType c, p_Username = u_Username user,
                  p_Email = u_Email user, p_RoleCode = []\<rparr>))))) }"

definition authorizeRole :: "IamPrincipal \<Rightarrow> PermissionContext \<Rightarrow> bool result iam" where
  "authorizeRole p permission =
     attempt (ListRolePermissions (p_OrgID p) (roleSubject (p_RoleCode p))) (\<lambda>permissions.
       ok (\<exists>grant \<in> set permissions. permissionAllows grant permission))"

definition Authorize :: "IamEnv \<Rightarrow> IamPrincipal \<Rightarrow> PermissionContext \<Rightarrow> bool result iam" where
  "Authorize v p permission =
     (let permission = normalizePermissionContext (v_cfg v) permission in
      if pc_Scope permission = [] \<or> pc_Object permission = [] \<or> pc_Action permission = [] then ok False
      else if p_RoleCode p \<noteq> [] then authorizeRole p permission
      else Enforce v (userSubject (p_UserID p)) (FormatInt (p_OrgID p)) (pc_ProductCode permission)
             (pc_Scope permission) (pc_Object permission) (pc_Action permission))"

record SessionSnapshot =
  sn_UserID :: int
  sn_OrgID :: int
  sn_SessionID :: int
  sn_ProductCode :: string
  sn_ClientType :: string
  sn_AccessExpiresAt :: gotime
  sn_RefreshExpiresAt :: gotime

definition CurrentSession :: "IamEnv \<Rightarrow> IamPrincipal \<Rightarrow> SessionSnapshot result iam" where
  "CurrentSession v p =
     instead iam_ErrInvalidToken (FindSessionByID (p_SessionID p)) (\<lambda>session.
     attempt (ensureSessionActive v session) (\<lambda>_.
       let c = resolveSessionContext (v_cfg v) (s_ProductCode session) (s_ClientType session) in
       if s_UserID session \<noteq> p_UserID p \<or> s_OrgID session \<noteq> p_OrgID p \<or> sc_ProductCode c \<noteq> p_ProductCode p \<or>
          sc_ClientType c \<noteq> p_ClientType p
       then throw iam_ErrInvalidToken
       else ok \<lparr>sn_UserID = s_UserID session, sn_OrgID = s_OrgID session, sn_SessionID = s_ID session,
              sn_ProductCode = sc_ProductCode c, sn_ClientType = sc_ClientType c, sn_AccessExpiresAt = 0,
              sn_RefreshExpiresAt = s_ExpiresAt session\<rparr>))"

definition Me :: "IamPrincipal \<Rightarrow> User result iam" where
  "Me p = FindUserByID (p_UserID p)"

section \<open>Password reset\<close>

definition oneTimeToken :: "IamEnv \<Rightarrow> (string \<times> string) result iam" where
  "oneTimeToken v = attempt (ask (v_random v)) (\<lambda>value. ok (value, v_token_hash v value))"

text \<open>
  A failed notification revokes the record it announced: \<open>%w: %v\<close>, and \<open>%w: %v; revoke ...: %v\<close> when that
  fails as well.
\<close>

definition deliver :: "IamEnv \<Rightarrow> Notice \<Rightarrow> string \<Rightarrow> unit result iam \<Rightarrow> unit result iam" where
  "deliver v notice what revoke = do {
     sent \<leftarrow> ask (\<lambda>n. v_notify v n notice);
     case sent of
       None \<Rightarrow> ok ()
     | Some e \<Rightarrow> do {
         revoked \<leftarrow> revoke;
         case revoked of
           Inl e' \<Rightarrow> throw (Wrapped iam_ErrNotificationDelivery (Error_text e @ ''; revoke '' @ what @ '': '' @ Error_text e'))
         | Inr _ \<Rightarrow> throw (Wrapped iam_ErrNotificationDelivery (Error_text e)) } }"

definition ForgotPassword :: "IamEnv \<Rightarrow> string \<Rightarrow> string \<Rightarrow> string \<Rightarrow> NotificationDelivery result iam" where
  "ForgotPassword v email userAgent ip = do {
     found \<leftarrow> FindUserByIdentifier (normalizeEmail email);
     case found of
       Inl e \<Rightarrow> ok \<lparr>nd_Debug = False, nd_Token = [], nd_URL = []\<rparr>
     | Inr user \<Rightarrow>
         attempt (oneTimeToken v) (\<lambda>(raw, hash). do {
           now \<leftarrow> ask (v_now v);
           i \<leftarrow> ask (v_id v);
           let reset = \<lparr>pr_ID = i, pr_UserID = u_ID user, pr_TokenHash = hash, pr_Status = StatusPending,
                 pr_ExpiresAt = now + PasswordResetTTL (v_cfg v), pr_UsedAt = None, pr_CreatedAt = now, pr_UpdatedAt = now\<rparr>;
           attempt (CreatePasswordReset reset) (\<lambda>_. do {
             let adminPath = ''password/reset?token='' @ QueryEscape raw;
             link \<leftarrow> reads (\<lambda>s. notificationURL s adminPath);
             attempt (deliver v (PasswordResetNotice (u_Email user) raw link) ''password reset'' (do {
                 t \<leftarrow> ask (v_now v);
                 SavePasswordReset v (reset\<lparr>pr_Status := StatusRevoked, pr_UpdatedAt := t\<rparr>) })) (\<lambda>_. do {
               ignore (audit v None (Some (u_ID user)) ''password.forgot'' ''password_reset'' (FormatInt i) ip userAgent []
                 ([], []));
               delivery \<leftarrow> reads (debugDelivery raw adminPath);
               ok delivery }) }) }) }"

definition ResetPassword :: "IamEnv \<Rightarrow> string \<Rightarrow> string \<Rightarrow> string \<Rightarrow> string \<Rightarrow> unit result iam" where
  "ResetPassword v token newPassword userAgent ip =
     instead iam_ErrInvalidToken (FindPasswordResetByTokenHash (v_token_hash v (TrimSpace token))) (\<lambda>reset.
     attempt (if pr_Status reset \<noteq> StatusPending then throw iam_ErrInvalidToken
        else do { now \<leftarrow> ask (v_now v); if pr_ExpiresAt reset < now then throw iam_ErrInvalidToken else ok () }) (\<lambda>_.
     require (validatePassword (v_class v) (v_cfg v) newPassword) (
     instead iam_ErrInvalidToken (FindUserByID (pr_UserID reset)) (\<lambda>user.
     attempt (ask (\<lambda>n. v_hash v n newPassword)) (\<lambda>hash.
     attempt (SaveUser v (user\<lparr>u_PasswordHash := hash, u_FailedLoginAttempts := 0, u_LockedUntil := None\<rparr>)) (\<lambda>_. do {
       now \<leftarrow> ask (v_now v);
       attempt (SavePasswordReset v (reset\<lparr>pr_Status := StatusUsed, pr_UsedAt := Some now\<rparr>)) (\<lambda>_.
       attempt (ListSessionsByUser (u_ID user)) (\<lambda>sessions.
       attempt (revoke_loop v (\<lambda>s. s_RevokedAt s \<noteq> None) now sessions) (\<lambda>_.
         audit v None (Some (u_ID user)) ''password.reset'' ''password_reset'' (FormatInt (pr_ID reset)) ip userAgent []
           ([], [])))) }))))))"

section \<open>Second factor\<close>

definition mfa_audit :: "IamEnv \<Rightarrow> IamPrincipal \<Rightarrow> string \<Rightarrow> string \<Rightarrow> unit result iam" where
  "mfa_audit v p action resourceID = audit v (Some (p_OrgID p)) (Some (p_UserID p)) action ''mfa_factor'' resourceID [] [] []
     (p_ProductCode p, p_ClientType p)"

definition SetupMFA :: "IamEnv \<Rightarrow> IamPrincipal \<Rightarrow> (string \<times> string) result iam" where
  "SetupMFA v p =
     instead iam_ErrInvalidToken (FindUserByID (p_UserID p)) (\<lambda>user.
     attempt (ask (\<lambda>n. v_totp_new v n (MFAIssuer (v_cfg v)) (u_Email user))) (\<lambda>(secret, link).
     attempt (ask (\<lambda>n. v_encrypt v n secret)) (\<lambda>encrypted. do {
       now \<leftarrow> ask (v_now v);
       found \<leftarrow> FindActiveMFAFactor (u_ID user);
       case found of
         Inr factor \<Rightarrow>
           attempt (SaveMFAFactor v (factor\<lparr>mf_Secret := encrypted, mf_ConfirmedAt := None, mf_UpdatedAt := now\<rparr>)) (\<lambda>_.
           attempt (mfa_audit v p ''mfa.setup'' (FormatInt (mf_ID factor))) (\<lambda>_. ok (secret, link)))
       | Inl e \<Rightarrow>
           if \<not> errors_Is e iam_ErrNotFound then throw e
           else do {
             i \<leftarrow> ask (v_id v);
             attempt (CreateMFAFactor \<lparr>mf_ID = i, mf_UserID = u_ID user, mf_Type = ''totp'', mf_Secret = encrypted,
                 mf_Status = StatusActive, mf_ConfirmedAt = None, mf_CreatedAt = now, mf_UpdatedAt = now\<rparr>) (\<lambda>_.
             attempt (mfa_audit v p ''mfa.setup'' (FormatInt i)) (\<lambda>_. ok (secret, link))) } })))"

definition VerifyMFA :: "IamEnv \<Rightarrow> IamPrincipal \<Rightarrow> string \<Rightarrow> unit result iam" where
  "VerifyMFA v p code =
     attempt (verifyUserMFA v (p_UserID p) code) (\<lambda>_.
     attempt (FindUserByID (p_UserID p)) (\<lambda>user. do {
       now \<leftarrow> ask (v_now v);
       attempt (SaveUser v (user\<lparr>u_MFAEnabled := True\<rparr>)) (\<lambda>_. do {
         found \<leftarrow> FindActiveMFAFactor (p_UserID p);
         (case found of
            Inl e \<Rightarrow> State_Monad.return ()
          | Inr factor \<Rightarrow> ignore (SaveMFAFactor v (factor\<lparr>mf_ConfirmedAt := Some now\<rparr>)));
         mfa_audit v p ''mfa.verify'' [] }) }))"

end
