(* ===== verification/IAM_Admin.thy ===== *)
theory IAM_Admin
  imports IAM_Service
begin

text \<open>
  The administrative operations of the identity service: roles and their policies, members, API tokens
  and invitations (\<open>internal/modules/iam/service/service.go\<close>).
\<close>

section \<open>Policies and roles\<close>

definition LoadPolicies :: "unit result iam" where
  "LoadPolicies = attempt ListCasbinRules LoadRules"

definition addUserRole :: "IamEnv \<Rightarrow> int \<Rightarrow> int \<Rightarrow> string \<Rightarrow> unit result iam" where
  "addUserRole v user org roleCode = do {
     now \<leftarrow> ask (v_now v);
     i \<leftarrow> ask (v_id v);
     AddCasbinRule \<lparr>cb_ID = i, cb_PType = ''g'', cb_V0 = userSubject user, cb_V1 = roleSubject roleCode,
       cb_V2 = FormatInt org, cb_V3 = [], cb_V4 = [], cb_V5 = [], cb_CreatedAt = now\<rparr> }"

definition addPolicy :: "IamEnv \<Rightarrow> int \<Rightarrow> string \<Rightarrow> string \<Rightarrow> string \<Rightarrow> string \<Rightarrow> string \<Rightarrow> unit result iam" where
  "addPolicy v org roleCode productCode scope obj act =
     (let productCode = normalizeProductCode (iam_firstNonEmpty [productCode, DefaultProductCode (v_cfg v)]);
          scope = normalizePermissionScope scope
      in if productCode = [] \<or> \<not> validPermissionScope scope \<or> blank obj \<or> blank act then throw iam_ErrInvalidInput
         else do {
           now \<leftarrow> ask (v_now v);
           i \<leftarrow> ask (v_id v);
           AddCasbinRule \<lparr>cb_ID = i, cb_PType = ''p'', cb_V0 = roleSubject roleCode, cb_V1 = FormatInt org,
             cb_V2 = productCode, cb_V3 = scope, cb_V4 = TrimSpace obj, cb_V5 = TrimSpace act, cb_CreatedAt = now\<rparr> })"

fun add_policies :: "IamEnv \<Rightarrow> int \<Rightarrow> string \<Rightarrow> string \<Rightarrow> string list \<Rightarrow> unit result iam" where
  "add_policies v org code productCode [] = ok ()"
| "add_policies v org code productCode (permission # permissions) =
     (case permissionObjectAction permission of (obj, act) \<Rightarrow>
        if obj = [] \<or> act = [] then add_policies v org code productCode permissions
        else attempt (addPolicy v org code productCode PermissionScopeTenant obj act)
               (\<lambda>_. add_policies v org code productCode permissions))"

text \<open>The role that is answered, with the codes of its permissions when they can be read.\<close>

definition hydrateRolePermissions :: "IamRole \<Rightarrow> (IamRole \<times> string list) iam" where
  "hydrateRolePermissions role = do {
     r \<leftarrow> ListRolePermissions (ro_OrgID role) (roleSubject (ro_Code role));
     State_Monad.return (role, case r of Inl e \<Rightarrow> [] | Inr permissions \<Rightarrow> map rp_Code permissions) }"

definition CreateRole ::
    "IamEnv \<Rightarrow> IamPrincipal \<Rightarrow> string \<Rightarrow> string \<Rightarrow> string \<Rightarrow> string list \<Rightarrow> (IamRole \<times> string list) result iam" where
  "CreateRole v p code name description permissions =
     (let code = normalizeCode code; name = TrimSpace name in
      if code = [] \<or> name = [] then throw iam_ErrInvalidInput
      else if isBuiltinRoleCode code then throw iam_ErrForbidden
      else do {
        now \<leftarrow> ask (v_now v);
        i \<leftarrow> ask (v_id v);
        let role = \<lparr>ro_ID = i, ro_OrgID = p_OrgID p, ro_Code = code, ro_Name = name,
              ro_Description = TrimSpace description, ro_System = False, ro_CreatedAt = now, ro_UpdatedAt = now,
              ro_DeletedAt = None\<rparr>;
        attempt (CreateRole_row role) (\<lambda>_.
        attempt (add_policies v (p_OrgID p) code (p_ProductCode p) permissions) (\<lambda>_. do {
          ignore LoadPolicies;
          out \<leftarrow> hydrateRolePermissions role;
          ok out })) })"

definition UpdateRole ::
    "IamEnv \<Rightarrow> IamPrincipal \<Rightarrow> int \<Rightarrow> string \<Rightarrow> string \<Rightarrow> string list option \<Rightarrow> string \<Rightarrow> string \<Rightarrow>
     (IamRole \<times> string list) result iam" where
  "UpdateRole v p roleID name description permissions userAgent ip =
     instead iam_ErrNotFound (FindRoleByID roleID) (\<lambda>role.
       if ro_OrgID role \<noteq> p_OrgID p then throw iam_ErrForbidden
       else if ro_System role then throw iam_ErrForbidden
       else
         let name = TrimSpace name;
             role = role\<lparr>ro_Name := (if name \<noteq> [] then name else ro_Name role), ro_Description := TrimSpace description\<rparr>
         in attempt (SaveRole v role) (\<lambda>_.
            attempt (case permissions of
                None \<Rightarrow> ok ()
              | Some ps \<Rightarrow>
                  attempt (DeleteCasbinRules ''p'' (roleSubject (ro_Code role)) (FormatInt (p_OrgID p)) []) (\<lambda>_.
                  attempt (add_policies v (p_OrgID p) (ro_Code role) (p_ProductCode p) ps) (\<lambda>_. do {
                    ignore LoadPolicies;
                    ok () }))) (\<lambda>_. do {
              out \<leftarrow> hydrateRolePermissions role;
              ignore (audit v (Some (p_OrgID p)) (Some (p_UserID p)) ''role.update'' ''role'' (FormatInt (ro_ID role)) ip userAgent
                [(''permissions'', MStrings (case permissions of None \<Rightarrow> [] | Some ps \<Rightarrow> ps))]
                (p_ProductCode p, p_ClientType p));
              ok out })))"

section \<open>Members\<close>

record OrganizationUser =
  ou_User :: User
  ou_MembershipStatus :: string
  ou_Roles :: "string list"

fun check_roles :: "int \<Rightarrow> string list \<Rightarrow> unit result iam" where
  "check_roles org [] = ok ()"
| "check_roles org (roleCode # roles) =
     (if normalizeCode roleCode = RolePlatformOwner then throw iam_ErrForbidden
      else instead iam_ErrNotFound (FindRole org (normalizeCode roleCode)) (\<lambda>_. check_roles org roles))"

fun add_roles :: "IamEnv \<Rightarrow> int \<Rightarrow> int \<Rightarrow> string list \<Rightarrow> unit result iam" where
  "add_roles v user org [] = ok ()"
| "add_roles v user org (roleCode # roles) =
     attempt (addUserRole v user org roleCode) (\<lambda>_. add_roles v user org roles)"

definition update_status ::
    "IamEnv \<Rightarrow> IamPrincipal \<Rightarrow> int \<Rightarrow> Membership \<Rightarrow> string \<Rightarrow> string \<Rightarrow> string option \<Rightarrow> Membership result iam" where
  "update_status v p user membership userAgent ip status =
     (case status of
        None \<Rightarrow> ok membership
      | Some s \<Rightarrow>
          let status = normalizeCode s; membership = membership\<lparr>mb_Status := status\<rparr> in
          if status = StatusActive \<or> status = StatusDisabled then
            attempt (SaveMembership v membership) (\<lambda>_. do {
              ignore (audit v (Some (p_OrgID p)) (Some (p_UserID p)) ''user.update'' ''membership''
                (FormatInt (mb_ID membership)) ip userAgent [(''userId'', MInt user), (''status'', MString status)]
                (p_ProductCode p, p_ClientType p));
              ok membership })
          else throw iam_ErrInvalidInput)"

definition update_roles ::
    "IamEnv \<Rightarrow> IamPrincipal \<Rightarrow> int \<Rightarrow> string \<Rightarrow> string \<Rightarrow> string list option \<Rightarrow> unit result iam" where
  "update_roles v p user userAgent ip roles =
     (case roles of
        None \<Rightarrow> ok ()
      | Some rs \<Rightarrow>
          attempt (check_roles (p_OrgID p) rs) (\<lambda>_.
          attempt (DeleteCasbinRules ''g'' (userSubject user) [] (FormatInt (p_OrgID p))) (\<lambda>_.
          attempt (add_roles v user (p_OrgID p) rs) (\<lambda>_. do {
            ignore LoadPolicies;
            ignore (audit v (Some (p_OrgID p)) (Some (p_UserID p)) ''user.roles.update'' ''user'' (FormatInt user) ip userAgent
              [(''roles'', MStrings rs)] (p_ProductCode p, p_ClientType p));
            ok () }))))"

definition UpdateUser ::
    "IamEnv \<Rightarrow> IamPrincipal \<Rightarrow> int \<Rightarrow> string option \<Rightarrow> string list option \<Rightarrow> string \<Rightarrow> string \<Rightarrow> OrganizationUser result iam" where
  "UpdateUser v p userID status roles userAgent ip =
     instead iam_ErrNotFound (FindMembershipAnyStatus (p_OrgID p) userID) (\<lambda>membership.
     instead iam_ErrNotFound (FindUserByID userID) (\<lambda>user.
     attempt (update_status v p userID membership userAgent ip status) (\<lambda>membership.
     attempt (update_roles v p userID userAgent ip roles) (\<lambda>_. do {
       held \<leftarrow> GetRolesForUser v (userSubject (u_ID user)) (FormatInt (p_OrgID p));
       ok \<lparr>ou_User = user, ou_MembershipStatus = mb_Status membership, ou_Roles = held\<rparr> }))))"

section \<open>API tokens\<close>

definition issueAPITokenSecret :: "IamEnv \<Rightarrow> (string \<times> string \<times> string) result iam" where
  "issueAPITokenSecret v = attempt (ask (v_random v)) (\<lambda>r.
     let value = ''aoi_'' @ r in ok (value, v_token_hash v value, apiTokenDisplayPrefix value))"

record APITokenView =
  av_token :: APIToken
  av_Username :: string
  av_UserDisplayName :: string
  av_Status :: string

text \<open>The view has the token's fields except its hash, the user's names and the derived status.\<close>

definition apiTokenView :: "IamEnv \<Rightarrow> APIToken \<Rightarrow> User option \<Rightarrow> APITokenView iam" where
  "apiTokenView v t user = do {
     status \<leftarrow> (case (at_Status t = StatusActive, at_ExpiresAt t) of
         (True, Some e) \<Rightarrow> do { now \<leftarrow> ask (v_now v);
           State_Monad.return (if e < now then StatusExpired else at_Status t) }
       | _ \<Rightarrow> State_Monad.return (at_Status t));
     State_Monad.return \<lparr>av_token = t\<lparr>at_TokenHash := []\<rparr>,
       av_Username = (case user of None \<Rightarrow> [] | Some u \<Rightarrow> u_Username u),
       av_UserDisplayName = (case user of None \<Rightarrow> [] | Some u \<Rightarrow> u_DisplayName u), av_Status = status\<rparr> }"

definition CreateAPIToken ::
    "IamEnv \<Rightarrow> IamPrincipal \<Rightarrow> int \<Rightarrow> string \<Rightarrow> int \<Rightarrow> string \<Rightarrow> string \<Rightarrow> string \<Rightarrow> (APITokenView \<times> string) result iam" where
  "CreateAPIToken v p userID roleCode days remark userAgent ip =
     (let roleCode = normalizeCode roleCode in
      if userID \<le> 0 \<or> roleCode = [] then throw iam_ErrInvalidInput
      else
        attempt (if roleCode \<noteq> RolePlatformOwner then ok ()
           else if userID \<noteq> p_UserID p then throw iam_ErrForbidden
           else do { has \<leftarrow> userHasRole v (p_UserID p) (p_OrgID p) RolePlatformOwner;
                     if \<not> has then throw iam_ErrForbidden else ok () }) (\<lambda>_.
        attempt (State_Monad.return (normalizeAPITokenDays days)) (\<lambda>days.
        instead iam_ErrNotFound (FindMembership (p_OrgID p) userID) (\<lambda>_.
        instead iam_ErrNotFound (FindUserByID userID) (\<lambda>user.
        attempt (ensureUserCanLogin v user) (\<lambda>_.
        instead iam_ErrNotFound (FindRole (p_OrgID p) roleCode) (\<lambda>_. do {
          has \<leftarrow> userHasRole v userID (p_OrgID p) roleCode;
          if \<not> has then throw iam_ErrForbidden
          else attempt (issueAPITokenSecret v) (\<lambda>(raw, hash, pre). do {
            now \<leftarrow> ask (v_now v);
            let expiresAt = (if days > 0 then Some (now + days * 24 * 3600 * Second) else None);
            i \<leftarrow> ask (v_id v);
            let t = \<lparr>at_ID = i, at_OrgID = p_OrgID p, at_UserID = userID, at_RoleCode = roleCode, at_TokenPrefix = pre,
                  at_TokenHash = hash, at_Status = StatusActive, at_ExpiresAt = expiresAt, at_LastUsedAt = None,
                  at_RevokedAt = None, at_RevokedBy = None, at_Remark = TrimSpace remark, at_CreatedBy = p_UserID p,
                  at_CreatedAt = now, at_UpdatedAt = now\<rparr>;
            attempt (CreateAPIToken_row t) (\<lambda>_. do {
              ignore (audit v (Some (p_OrgID p)) (Some (p_UserID p)) ''api_token.create'' ''api_token'' (FormatInt i) ip
                userAgent [(''userId'', MInt userID), (''roleCode'', MString roleCode), (''expiresAt'', MTime expiresAt)]
                (p_ProductCode p, p_ClientType p));
              view \<leftarrow> apiTokenView v t (Some user);
              ok (view, raw) }) }) })))))))"

definition RevokeAPIToken :: "IamEnv \<Rightarrow> IamPrincipal \<Rightarrow> int \<Rightarrow> string \<Rightarrow> string \<Rightarrow> unit result iam" where
  "RevokeAPIToken v p tokenID userAgent ip =
     (if tokenID \<le> 0 then throw iam_ErrInvalidInput
      else instead iam_ErrNotFound (FindAPITokenByID tokenID) (\<lambda>t.
        if at_OrgID t \<noteq> p_OrgID p then throw iam_ErrForbidden
        else if at_Status t = StatusRevoked then ok ()
        else do {
          now \<leftarrow> ask (v_now v);
          attempt (SaveAPIToken v (t\<lparr>at_Status := StatusRevoked, at_RevokedAt := Some now, at_RevokedBy := Some (p_UserID p)\<rparr>))
            (\<lambda>_. audit v (Some (p_OrgID p)) (Some (p_UserID p)) ''api_token.revoke'' ''api_token'' (FormatInt (at_ID t)) ip
               userAgent [(''userId'', MInt (at_UserID t)), (''roleCode'', MString (at_RoleCode t))]
               (p_ProductCode p, p_ClientType p)) }))"

section \<open>Invitations\<close>

definition InviteUser ::
    "IamEnv \<Rightarrow> IamPrincipal \<Rightarrow> string \<Rightarrow> string \<Rightarrow> string \<Rightarrow> string \<Rightarrow> NotificationDelivery result iam" where
  "InviteUser v p email roleCode userAgent ip =
     (let email = normalizeEmail email; roleCode = normalizeCode roleCode in
      if email = [] \<or> roleCode = [] then throw iam_ErrInvalidInput
      else if roleCode = RolePlatformOwner then throw iam_ErrForbidden
      else instead iam_ErrNotFound (FindRole (p_OrgID p) roleCode) (\<lambda>_.
           attempt (oneTimeToken v) (\<lambda>(raw, hash). do {
             now \<leftarrow> ask (v_now v);
             i \<leftarrow> ask (v_id v);
             let invitation = \<lparr>iv_ID = i, iv_OrgID = p_OrgID p, iv_Email = email, iv_RoleCode = roleCode, iv_TokenHash = hash,
                   iv_Status = StatusPending, iv_InvitedBy = p_UserID p, iv_AcceptedBy = None,
                   iv_ExpiresAt = now + InvitationTTL (v_cfg v), iv_CreatedAt = now, iv_UpdatedAt = now\<rparr>;
             attempt (CreateInvitation invitation) (\<lambda>_. do {
               let adminPath = ''invitations/'' @ PathEscape raw;
               link \<leftarrow> reads (\<lambda>s. notificationURL s adminPath);
               attempt (deliver v (InvitationNotice email raw link) ''invitation'' (do {
                   t \<leftarrow> ask (v_now v);
                   SaveInvitation v (invitation\<lparr>iv_Status := StatusRevoked, iv_UpdatedAt := t\<rparr>) })) (\<lambda>_. do {
                 ignore (audit v (Some (p_OrgID p)) (Some (p_UserID p)) ''user.invite'' ''invitation'' (FormatInt i) ip userAgent
                   [(''email'', MString email)] (p_ProductCode p, p_ClientType p));
                 delivery \<leftarrow> reads (debugDelivery raw adminPath);
                 ok delivery }) }) })))"

definition RevokeInvitation :: "IamEnv \<Rightarrow> IamPrincipal \<Rightarrow> int \<Rightarrow> string \<Rightarrow> string \<Rightarrow> unit result iam" where
  "RevokeInvitation v p invitationID userAgent ip =
     instead iam_ErrNotFound (FindInvitationByID invitationID) (\<lambda>invitation.
       if iv_OrgID invitation \<noteq> p_OrgID p then throw iam_ErrForbidden
       else if iv_Status invitation \<noteq> StatusPending then throw iam_ErrInvitationClosed
       else attempt (SaveInvitation v (invitation\<lparr>iv_Status := StatusRevoked\<rparr>)) (\<lambda>_.
         audit v (Some (p_OrgID p)) (Some (p_UserID p)) ''invite.revoke'' ''invitation'' (FormatInt (iv_ID invitation)) ip userAgent
           [(''email'', MString (iv_Email invitation))] (p_ProductCode p, p_ClientType p)))"

definition ensureMembership :: "IamEnv \<Rightarrow> int \<Rightarrow> int \<Rightarrow> unit result iam" where
  "ensureMembership v org user = do {
     found \<leftarrow> FindMembership org user;
     case found of
       Inr m \<Rightarrow> ok ()
     | Inl e \<Rightarrow>
         if \<not> errors_Is e iam_ErrNotFound then throw e
         else do {
           now \<leftarrow> ask (v_now v);
           i \<leftarrow> ask (v_id v);
           CreateMembership \<lparr>mb_ID = i, mb_OrgID = org, mb_UserID = user, mb_Status = StatusActive, mb_CreatedAt = now,
             mb_UpdatedAt = now, mb_DeletedAt = None\<rparr> } }"

definition invited_user :: "IamEnv \<Rightarrow> string \<Rightarrow> string \<Rightarrow> string \<Rightarrow> string \<Rightarrow> User result iam" where
  "invited_user v email username displayName password = do {
     found \<leftarrow> FindUserByIdentifier email;
     case found of
       Inr user \<Rightarrow> ok user
     | Inl e \<Rightarrow>
         if \<not> errors_Is e iam_ErrNotFound then throw e
         else attempt (ask (\<lambda>n. v_hash v n password)) (\<lambda>hash. do {
           now \<leftarrow> ask (v_now v);
           i \<leftarrow> ask (v_id v);
           let user = \<lparr>u_ID = i, u_Username = username, u_Email = email, u_PasswordHash = hash, u_DisplayName = displayName,
                 u_Status = StatusActive, u_MFAEnabled = False, u_FailedLoginAttempts = 0, u_LockedUntil = None,
                 u_LastLoginAt = None, u_CreatedAt = now, u_UpdatedAt = now, u_DeletedAt = None\<rparr>;
           attempt (CreateUser user) (\<lambda>_. ok user) }) }"

definition AcceptInvitation ::
    "IamEnv \<Rightarrow> string \<Rightarrow> string \<Rightarrow> string \<Rightarrow> string \<Rightarrow> string \<Rightarrow> string \<Rightarrow> IamPrincipal result iam" where
  "AcceptInvitation v token username displayName password userAgent ip =
     instead iam_ErrInvalidToken (FindInvitationByTokenHash (v_token_hash v (TrimSpace token))) (\<lambda>invitation.
     attempt (if iv_Status invitation \<noteq> StatusPending then throw iam_ErrInvitationClosed
        else do { now \<leftarrow> ask (v_now v); if iv_ExpiresAt invitation < now then throw iam_ErrInvitationClosed else ok () }) (\<lambda>_.
       let username = normalizeCode username;
           email = normalizeEmail (iv_Email invitation);
           displayName = (if blank displayName then username else TrimSpace displayName)
       in if normalizeCode (iv_RoleCode invitation) = RolePlatformOwner then throw iam_ErrForbidden
          else if username = [] \<or> password = [] then throw iam_ErrInvalidInput
          else require (validatePassword (v_class v) (v_cfg v) password) (
          attempt (WithTx (
            attempt (invited_user v email username displayName password) (\<lambda>user.
            attempt (ensureMembership v (iv_OrgID invitation) (u_ID user)) (\<lambda>_.
            attempt (addUserRole v (u_ID user) (iv_OrgID invitation) (iv_RoleCode invitation)) (\<lambda>_. do {
              now \<leftarrow> ask (v_now v);
              attempt (SaveInvitation v (invitation\<lparr>iv_Status := StatusUsed, iv_AcceptedBy := Some (u_ID user),
                  iv_UpdatedAt := now\<rparr>)) (\<lambda>_.
                let c = resolveSessionContext (v_cfg v) [] [] in
                attempt (audit v (Some (iv_OrgID invitation)) (Some (u_ID user)) ''invitation.accept'' ''invitation''
                    (FormatInt (iv_ID invitation)) ip userAgent [] (sc_ProductCode c, sc_ClientType c)) (\<lambda>_.
                  ok \<lparr>p_UserID = u_ID user, p_OrgID = iv_OrgID invitation, p_SessionID = 0, p_ProductCode = sc_ProductCode c,
                      p_ClientType = sc_ClientType c, p_Username = u_Username user, p_Email = u_Email user,
                      p_RoleCode = []\<rparr>)) }))))) (\<lambda>p. do {
            ignore LoadPolicies;
            ok p }))))"

end
