(* ===== verification/IAM_Signup.thy ===== *)
theory IAM_Signup
  imports IAM_Admin
begin

text \<open>
  How installations and organizations come into being (\<open>internal/modules/iam/service/service.go\<close>): the first
  administrator, public signup with and without email verification, organizations created by members, and
  the built-in permissions, roles and policies each organization starts with.
\<close>

section \<open>Registration settings\<close>

definition New_runtime :: "IamConfig \<Rightarrow> Iam \<Rightarrow> Iam" where
  "New_runtime cfg s = (let cfg = IamConfig_defaults cfg in
     s\<lparr>ia_driver := NotificationDriver cfg, ia_publicURL := PublicBaseURL cfg, ia_mode := RegistrationMode cfg,
       ia_verifyTTL := EmailVerificationTTL cfg, ia_captchas := []\<rparr>)"

definition ReloadRegistrationRuntime :: "string \<Rightarrow> duration \<Rightarrow> unit iam" where
  "ReloadRegistrationRuntime mode ttl =
     (let mode = normalizeRegistrationMode mode;
          mode = (if mode = [] then RegistrationModeDisabled else mode);
          ttl = (if ttl \<le> 0 then 86400 * Second else ttl)
      in modify (\<lambda>s. s\<lparr>ia_mode := mode, ia_verifyTTL := ttl\<rparr>))"

definition currentRegistrationMode :: "Iam \<Rightarrow> string" where
  "currentRegistrationMode s = normalizeRegistrationMode (ia_mode s)"

definition currentEmailVerificationTTL :: "Iam \<Rightarrow> duration" where
  "currentEmailVerificationTTL s = (if ia_verifyTTL s \<le> 0 then 86400 * Second else ia_verifyTTL s)"

section \<open>Built-in permissions, roles and policies\<close>

record permissionSeed =
  seed_Code :: string
  seed_Scope :: string
  seed_Name :: string
  seed_Description :: string

definition seed :: "string \<Rightarrow> string \<Rightarrow> string \<Rightarrow> string \<Rightarrow> permissionSeed" where
  "seed code scope name description =
     \<lparr>seed_Code = code, seed_Scope = scope, seed_Name = name, seed_Description = description\<rparr>"

definition builtinPermissions :: "permissionSeed list" where
  "builtinPermissions =
    [seed ''org:create'' PermissionScopePlatform ''Create organizations'' ''Create organizations'',
     seed ''org:read'' PermissionScopePlatform ''Read organizations'' ''Read organizations'',
     seed ''org:update'' PermissionScopeTenant ''Update organizations'' ''Update organization settings'',
     seed ''user:read'' PermissionScopeTenant ''Read users'' ''Read organization users'',
     seed ''user:invite'' PermissionScopeTenant ''Invite users'' ''Invite users into organization'',
     seed ''user:update'' PermissionScopeTenant ''Update users'' ''Update organization users'',
     seed ''user:disable'' PermissionScopeTenant ''Disable users'' ''Disable organization users'',
     seed ''role:read'' PermissionScopeTenant ''Read roles'' ''Read roles'',
     seed ''role:create'' PermissionScopeTenant ''Create roles'' ''Create roles'',
     seed ''role:update'' PermissionScopeTenant ''Update roles'' ''Update roles'',
     seed ''config:read'' PermissionScopePlatform ''Read runtime config'' ''Read sanitized system runtime configuration'',
     seed ''config:update'' PermissionScopePlatform ''Update runtime config'' ''Update current runtime configuration snapshot'',
     seed ''server:read'' PermissionScopePlatform ''Read server info'' ''Read runtime server information'',
     seed ''dictionary:read'' PermissionScopePlatform ''Read dictionaries'' ''Read system dictionaries'',
     seed ''dictionary:create'' PermissionScopePlatform ''Create dictionaries'' ''Create system dictionaries'',
     seed ''dictionary:update'' PermissionScopePlatform ''Update dictionaries'' ''Update system dictionaries and items'',
     seed ''dictionary:delete'' PermissionScopePlatform ''Delete dictionaries'' ''Delete system dictionaries and items'',
     seed ''operation:read'' PermissionScopePlatform ''Read operation records'' ''Read HTTP operation records'',
     seed ''operation:delete'' PermissionScopePlatform ''Delete operation records'' ''Delete HTTP operation records'',
     seed ''traffic_hijack:read'' PermissionScopePlatform ''Read traffic hijack monitoring'' ''Read traffic hijack probe targets, results, and events'',
     seed ''traffic_hijack:update'' PermissionScopePlatform ''Update traffic hijack monitoring'' ''Create, update, probe, and resolve traffic hijack monitoring records'',
     seed ''traffic_hijack:delete'' PermissionScopePlatform ''Delete traffic hijack monitoring'' ''Delete traffic hijack probe targets'',
     seed ''parameter:read'' PermissionScopePlatform ''Read parameters'' ''Read system parameters'',
     seed ''parameter:create'' PermissionScopePlatform ''Create parameters'' ''Create system parameters'',
     seed ''parameter:update'' PermissionScopePlatform ''Update parameters'' ''Update system parameters'',
     seed ''parameter:delete'' PermissionScopePlatform ''Delete parameters'' ''Delete system parameters'',
     seed ''version:read'' PermissionScopePlatform ''Read versions'' ''Read system release packages'',
     seed ''version:create'' PermissionScopePlatform ''Create versions'' ''Create system release packages'',
     seed ''version:import'' PermissionScopePlatform ''Import versions'' ''Import system release packages'',
     seed ''version:download'' PermissionScopePlatform ''Download versions'' ''Download system release packages'',
     seed ''version:delete'' PermissionScopePlatform ''Delete versions'' ''Delete system release packages'',
     seed ''media:read'' PermissionScopePlatform ''Read media'' ''Read media assets and categories'',
     seed ''media:upload'' PermissionScopePlatform ''Upload media'' ''Upload local media assets'',
     seed ''media:import'' PermissionScopePlatform ''Import media URLs'' ''Import external media URL records'',
     seed ''media:update'' PermissionScopePlatform ''Update media'' ''Update media assets and categories'',
     seed ''media:download'' PermissionScopePlatform ''Download media'' ''Download local media assets'',
     seed ''media:delete'' PermissionScopePlatform ''Delete media'' ''Delete media assets'',
     seed ''permission:read'' PermissionScopeTenant ''Read tenant permissions'' ''Read tenant permissions'',
     seed ''permission:read'' PermissionScopePlatform ''Read platform permissions'' ''Read platform API and permission catalog'',
     seed ''permission:sync'' PermissionScopePlatform ''Sync permissions'' ''Sync permissions from registered APIs'',
     seed ''session:read'' PermissionScopeTenant ''Read sessions'' ''Read sessions'',
     seed ''session:revoke'' PermissionScopeTenant ''Revoke sessions'' ''Revoke sessions'',
     seed ''api_token:read'' PermissionScopeTenant ''Read API tokens'' ''Read API token records'',
     seed ''api_token:create'' PermissionScopeTenant ''Create API tokens'' ''Issue API tokens'',
     seed ''api_token:revoke'' PermissionScopeTenant ''Revoke API tokens'' ''Revoke API tokens'',
     seed ''audit:read'' PermissionScopeTenant ''Read audit logs'' ''Read audit logs'',
     seed ''plugin:read'' PermissionScopePlatform ''Read plugins'' ''Read registered remote plugins'']"

fun seed_permissions :: "IamEnv \<Rightarrow> permissionSeed list \<Rightarrow> unit result iam" where
  "seed_permissions v [] = ok ()"
| "seed_permissions v (permission # permissions) =
     (let scope = normalizePermissionScope (seed_Scope permission);
          scope = (if scope = [] then PermissionScopeTenant else scope);
          product = DefaultProductCode (v_cfg v)
      in do {
        found \<leftarrow> FindPermission product scope (seed_Code permission);
        case found of
          Inr p \<Rightarrow> seed_permissions v permissions
        | Inl e \<Rightarrow> if \<not> errors_Is e iam_ErrNotFound then throw e
            else do {
              now \<leftarrow> ask (v_now v);
              i \<leftarrow> ask (v_id v);
              attempt (CreatePermission \<lparr>pm_ID = i, pm_ProductCode = product, pm_Scope = scope,
                  pm_Code = seed_Code permission, pm_Name = seed_Name permission,
                  pm_Description = seed_Description permission, pm_CreatedAt = now, pm_UpdatedAt = now\<rparr>)
                (\<lambda>_. seed_permissions v permissions) } })"

definition builtin_roles :: "string \<Rightarrow> (string \<times> string) list" where
  "builtin_roles orgKind = (if orgKind = OrgKindPlatform then [(RolePlatformOwner, ''Platform Owner'')] else []) @
     [(RoleOwner, ''Owner''), (RoleAdmin, ''Admin''), (RoleMember, ''Member'')]"

fun seed_roles :: "IamEnv \<Rightarrow> int \<Rightarrow> (string \<times> string) list \<Rightarrow> unit result iam" where
  "seed_roles v org [] = ok ()"
| "seed_roles v org ((code, name) # roles) = do {
     found \<leftarrow> FindRole org code;
     case found of
       Inr r \<Rightarrow> seed_roles v org roles
     | Inl e \<Rightarrow> if \<not> errors_Is e iam_ErrNotFound then throw e
         else do {
           now \<leftarrow> ask (v_now v);
           i \<leftarrow> ask (v_id v);
           attempt (CreateRole_row \<lparr>ro_ID = i, ro_OrgID = org, ro_Code = code, ro_Name = name, ro_Description = name,
               ro_System = True, ro_CreatedAt = now, ro_UpdatedAt = now, ro_DeletedAt = None\<rparr>)
             (\<lambda>_. seed_roles v org roles) } }"

fun seed_policies :: "IamEnv \<Rightarrow> int \<Rightarrow> string \<Rightarrow> permissionSeed list \<Rightarrow> unit result iam" where
  "seed_policies v org orgKind [] = ok ()"
| "seed_policies v org orgKind (permission # permissions) =
     (case permissionObjectAction (seed_Code permission) of (obj, act) \<Rightarrow>
        let scope = normalizePermissionScope (seed_Scope permission);
            grant = (\<lambda>role. addPolicy v org role (DefaultProductCode (v_cfg v)) scope obj act)
        in if obj = [] \<or> act = [] \<or> scope = [] then seed_policies v org orgKind permissions
           else attempt (if orgKind = OrgKindPlatform then grant RolePlatformOwner else ok ()) (\<lambda>_.
                attempt (if scope = PermissionScopeTenant then attempt (grant RoleOwner) (\<lambda>_. grant RoleAdmin) else ok ())
                  (\<lambda>_. seed_policies v org orgKind permissions)))"

definition ensureBuiltins :: "IamEnv \<Rightarrow> int \<Rightarrow> string \<Rightarrow> unit result iam" where
  "ensureBuiltins v org orgKind =
     attempt (seed_permissions v builtinPermissions) (\<lambda>_.
     attempt (seed_roles v org (builtin_roles orgKind)) (\<lambda>_.
     attempt (seed_policies v org orgKind builtinPermissions) (\<lambda>_.
     addPolicy v org RoleMember (DefaultProductCode (v_cfg v)) PermissionScopeTenant ''me'' ''read'')))"

definition new_organization :: "int \<Rightarrow> string \<Rightarrow> string \<Rightarrow> string \<Rightarrow> string \<Rightarrow> gotime \<Rightarrow> Organization" where
  "new_organization i code name kind status now = \<lparr>o_ID = i, o_Code = code, o_Name = name, o_Kind = kind,
     o_Status = status, o_CreatedAt = now, o_UpdatedAt = now, o_DeletedAt = None\<rparr>"

definition new_user :: "int \<Rightarrow> string \<Rightarrow> string \<Rightarrow> string \<Rightarrow> string \<Rightarrow> string \<Rightarrow> gotime \<Rightarrow> User" where
  "new_user i username email hash displayName status now = \<lparr>u_ID = i, u_Username = username, u_Email = email,
     u_PasswordHash = hash, u_DisplayName = displayName, u_Status = status, u_MFAEnabled = False,
     u_FailedLoginAttempts = 0, u_LockedUntil = None, u_LastLoginAt = None, u_CreatedAt = now, u_UpdatedAt = now,
     u_DeletedAt = None\<rparr>"

section \<open>The first administrator\<close>

record ownerBootstrapInput =
  ob_OrgCode :: string
  ob_OrgName :: string
  ob_Username :: string
  ob_Email :: string
  ob_DisplayName :: string
  ob_Password :: string
  ob_UserAgent :: string
  ob_IPAddress :: string
  ob_ProductCode :: string
  ob_ClientType :: string
  ob_AuditAction :: string
  ob_AllowExisting :: bool
  ob_RequireEmpty :: bool
  ob_ValidatePassword :: bool
  ob_IssueTokens :: bool

definition no_tokens :: TokenPair where
  "no_tokens = \<lparr>tp_AccessToken = [], tp_AccessExpiresAt = 0, tp_RefreshToken = [], tp_RefreshExpiresAt = 0,
     tp_UserID = 0, tp_OrgID = 0, tp_SessionID = 0, tp_ProductCode = [], tp_ClientType = []\<rparr>"

definition normalize_bootstrap :: "ownerBootstrapInput \<Rightarrow> ownerBootstrapInput" where
  "normalize_bootstrap input =
     (let orgCode = normalizeCode (ob_OrgCode input);
          orgName = TrimSpace (ob_OrgName input);
          username = normalizeCode (ob_Username input);
          displayName = TrimSpace (ob_DisplayName input)
      in input\<lparr>ob_OrgCode := orgCode,
           ob_OrgName := (if orgName = [] \<and> ob_AllowExisting input then orgCode else orgName),
           ob_Username := username, ob_Email := normalizeEmail (ob_Email input),
           ob_DisplayName := (if displayName = [] then username else displayName)\<rparr>)"

definition bootstrap_org :: "IamEnv \<Rightarrow> ownerBootstrapInput \<Rightarrow> Organization result iam" where
  "bootstrap_org v input = do {
     found \<leftarrow> FindOrganizationByCode (ob_OrgCode input);
     attempt (case found of
         Inr org \<Rightarrow> if \<not> ob_AllowExisting input then throw iam_ErrDuplicate else ok org
       | Inl e \<Rightarrow> if \<not> errors_Is e iam_ErrNotFound then throw e
           else do {
             now \<leftarrow> ask (v_now v);
             i \<leftarrow> ask (v_id v);
             let org = new_organization i (ob_OrgCode input) (ob_OrgName input) OrgKindPlatform StatusActive now;
             attempt (CreateOrganization_row org) (\<lambda>_. ok org) }) (\<lambda>org.
       if o_Kind org \<noteq> OrgKindPlatform
       then let org = org\<lparr>o_Kind := OrgKindPlatform\<rparr> in attempt (SaveOrganization v org) (\<lambda>_. ok org)
       else ok org) }"

definition bootstrap_user :: "IamEnv \<Rightarrow> ownerBootstrapInput \<Rightarrow> User result iam" where
  "bootstrap_user v input = do {
     found \<leftarrow> FindUserByIdentifier (ob_Email input);
     case found of
       Inr user \<Rightarrow> if \<not> ob_AllowExisting input then throw iam_ErrDuplicate else ok user
     | Inl e \<Rightarrow> if \<not> errors_Is e iam_ErrNotFound then throw e
         else attempt (ask (\<lambda>n. v_hash v n (ob_Password input))) (\<lambda>hash. do {
           now \<leftarrow> ask (v_now v);
           i \<leftarrow> ask (v_id v);
           let user = new_user i (ob_Username input) (ob_Email input) hash (ob_DisplayName input) StatusActive now;
           attempt (CreateUser user) (\<lambda>_. ok user) }) }"

definition bootstrap_tx :: "IamEnv \<Rightarrow> ownerBootstrapInput \<Rightarrow> (IamPrincipal \<times> TokenPair) result iam" where
  "bootstrap_tx v input =
     attempt (if ob_RequireEmpty input
        then attempt CountUsers (\<lambda>n. if n > 0 then throw iam_ErrSetupCompleted else ok ()) else ok ()) (\<lambda>_.
     attempt (bootstrap_org v input) (\<lambda>org.
     attempt (bootstrap_user v input) (\<lambda>user.
     attempt (ensureMembership v (o_ID org) (u_ID user)) (\<lambda>_.
     attempt (ensureBuiltins v (o_ID org) (o_Kind org)) (\<lambda>_.
     attempt (addUserRole v (u_ID user) (o_ID org) RolePlatformOwner) (\<lambda>_.
     attempt (if ob_IssueTokens input
        then createSessionAndTokens v user (o_ID org) (ob_UserAgent input) (ob_IPAddress input) (ob_ProductCode input)
               (ob_ClientType input)
        else ok no_tokens) (\<lambda>tokens.
     attempt (audit v (Some (o_ID org)) (Some (u_ID user)) (ob_AuditAction input) ''organization'' (FormatInt (o_ID org))
        (ob_IPAddress input) (ob_UserAgent input) [(''orgCode'', MString (o_Code org)), (''email'', MString (u_Email user))]
        (ob_ProductCode input, ob_ClientType input)) (\<lambda>_.
     let c = resolveSessionContext (v_cfg v) (ob_ProductCode input) (ob_ClientType input) in
     ok (\<lparr>p_UserID = u_ID user, p_OrgID = o_ID org, p_SessionID = 0, p_ProductCode = sc_ProductCode c,
          p_ClientType = sc_ClientType c, p_Username = u_Username user, p_Email = u_Email user, p_RoleCode = []\<rparr>,
         tokens)))))))))"

definition bootstrapOwner :: "IamEnv \<Rightarrow> ownerBootstrapInput \<Rightarrow> (IamPrincipal \<times> TokenPair) result iam" where
  "bootstrapOwner v input =
     (let input = normalize_bootstrap input in
      if ob_OrgCode input = [] \<or> ob_OrgName input = [] \<or> ob_Username input = [] \<or> ob_Email input = [] \<or> ob_Password input = []
      then throw iam_ErrInvalidInput
      else require (if ob_ValidatePassword input then validatePassword (v_class v) (v_cfg v) (ob_Password input) else None)
        (WithTx (bootstrap_tx v (if ob_AuditAction input = [] then input\<lparr>ob_AuditAction := ''iam.bootstrap_owner''\<rparr> else input))))"

definition BootstrapAdmin ::
    "IamEnv \<Rightarrow> string \<Rightarrow> string \<Rightarrow> string \<Rightarrow> string \<Rightarrow> string \<Rightarrow> string \<Rightarrow> IamPrincipal result iam" where
  "BootstrapAdmin v orgCode orgName username email displayName password =
     attempt (bootstrapOwner v \<lparr>ob_OrgCode = orgCode, ob_OrgName = orgName, ob_Username = username, ob_Email = email,
         ob_DisplayName = displayName, ob_Password = password, ob_UserAgent = [], ob_IPAddress = [], ob_ProductCode = [],
         ob_ClientType = [], ob_AuditAction = ''iam.bootstrap_admin'', ob_AllowExisting = True, ob_RequireEmpty = False,
         ob_ValidatePassword = False, ob_IssueTokens = False\<rparr>) (\<lambda>(p, tokens). do {
       ignore LoadPolicies;
       ok p })"

record SignupInput =
  si_OrgCode :: string
  si_OrgName :: string
  si_Username :: string
  si_Email :: string
  si_DisplayName :: string
  si_Password :: string
  si_UserAgent :: string
  si_IPAddress :: string
  si_ProductCode :: string
  si_ClientType :: string

text \<open>\<open>InitialAdminSetupInput\<close> has the ten fields of \<open>SignupInput\<close>.\<close>

type_synonym InitialAdminSetupInput = SignupInput

definition InitialAdminSetup :: "IamEnv \<Rightarrow> InitialAdminSetupInput \<Rightarrow> TokenPair result iam" where
  "InitialAdminSetup v input =
     attempt (bootstrapOwner v \<lparr>ob_OrgCode = si_OrgCode input, ob_OrgName = si_OrgName input, ob_Username = si_Username input,
         ob_Email = si_Email input, ob_DisplayName = si_DisplayName input, ob_Password = si_Password input,
         ob_UserAgent = si_UserAgent input, ob_IPAddress = si_IPAddress input, ob_ProductCode = si_ProductCode input,
         ob_ClientType = si_ClientType input, ob_AuditAction = ''iam.initial_setup'', ob_AllowExisting = False,
         ob_RequireEmpty = True, ob_ValidatePassword = True, ob_IssueTokens = True\<rparr>) (\<lambda>(p, tokens). do {
       ignore LoadPolicies;
       ok tokens })"

definition Contains :: "string \<Rightarrow> string \<Rightarrow> bool" where
  "Contains s sub \<longleftrightarrow> list_ex (\<lambda>i. HasPrefix (drop i s) sub) [0..<Suc (length s)]"

definition isMissingTableError :: "goerror \<Rightarrow> bool" where
  "isMissingTableError e = (let text = ToLower (Error_text e) in
     Contains text ''no such table'' \<or> Contains text (''doesn'' @ [CHR 0x27] @ ''t exist'') \<or>
     Contains text ''undefined_table'' \<or> Contains text ''unknown table'')"

record IamSetupStatus =
  su_Required :: bool
  su_PasswordPolicy :: PasswordPolicy

definition setupStatus :: "IamEnv \<Rightarrow> bool \<Rightarrow> IamSetupStatus" where
  "setupStatus v required = \<lparr>su_Required = required, su_PasswordPolicy = passwordPolicy (v_cfg v)\<rparr>"

definition SetupStatus :: "IamEnv \<Rightarrow> IamSetupStatus result iam" where
  "SetupStatus v = attempt (HasUsersTable v) (\<lambda>hasUsersTable.
     if \<not> hasUsersTable then ok (setupStatus v True)
     else do {
       counted \<leftarrow> CountUsers;
       case counted of
         Inl e \<Rightarrow> if isMissingTableError e then ok (setupStatus v True) else throw e
       | Inr n \<Rightarrow> ok (setupStatus v (n = 0)) })"

section \<open>Signup\<close>

record SignupResult =
  sr_Status :: string
  sr_Session :: "SessionSnapshot option"
  sr_Delivery :: "NotificationDelivery option"
  sr_Tokens :: TokenPair

definition normalizeSignupInput :: "IamEnv \<Rightarrow> SignupInput \<Rightarrow> SignupInput result" where
  "normalizeSignupInput v input =
     (let displayName = TrimSpace (si_DisplayName input);
          input = input\<lparr>si_OrgCode := normalizeCode (si_OrgCode input), si_OrgName := TrimSpace (si_OrgName input),
            si_Username := normalizeCode (si_Username input), si_Email := normalizeEmail (si_Email input),
            si_DisplayName := displayName\<rparr>
      in if si_OrgCode input = [] \<or> si_OrgName input = [] \<or> si_Username input = [] \<or> si_Email input = [] \<or> si_Password input = []
         then Inl iam_ErrInvalidInput
         else let input = (if displayName = [] then input\<lparr>si_DisplayName := si_Username input\<rparr> else input)
              in case validatePassword (v_class v) (v_cfg v) (si_Password input) of Some e \<Rightarrow> Inl e | None \<Rightarrow> Inr input)"

definition TokenPair_SessionSnapshot :: "TokenPair \<Rightarrow> SessionSnapshot" where
  "TokenPair_SessionSnapshot p = \<lparr>sn_UserID = tp_UserID p, sn_OrgID = tp_OrgID p, sn_SessionID = tp_SessionID p,
     sn_ProductCode = tp_ProductCode p, sn_ClientType = tp_ClientType p, sn_AccessExpiresAt = tp_AccessExpiresAt p,
     sn_RefreshExpiresAt = tp_RefreshExpiresAt p\<rparr>"

text \<open>No row is found: a row is a duplicate, another error is returned.\<close>

definition absent :: "'a result iam \<Rightarrow> unit result iam" where
  "absent m = do {
     found \<leftarrow> m;
     case found of
       Inr x \<Rightarrow> throw iam_ErrDuplicate
     | Inl e \<Rightarrow> if \<not> errors_Is e iam_ErrNotFound then throw e else ok () }"

definition ensureSignupUnique :: "SignupInput \<Rightarrow> unit result iam" where
  "ensureSignupUnique input =
     attempt (absent (FindOrganizationByCode (si_OrgCode input))) (\<lambda>_.
     attempt (absent (FindUserByIdentifier (si_Username input))) (\<lambda>_.
     if si_Email input \<noteq> si_Username input then absent (FindUserByIdentifier (si_Email input)) else ok ()))"

definition signup_tx :: "IamEnv \<Rightarrow> SignupInput \<Rightarrow> TokenPair result iam" where
  "signup_tx v input =
     attempt (ensureSignupUnique input) (\<lambda>_.
     attempt (ask (\<lambda>n. v_hash v n (si_Password input))) (\<lambda>hash. do {
       now \<leftarrow> ask (v_now v);
       i \<leftarrow> ask (v_id v);
       let org = new_organization i (si_OrgCode input) (si_OrgName input) OrgKindTenant StatusActive now;
       attempt (CreateOrganization_row org) (\<lambda>_. do {
         j \<leftarrow> ask (v_id v);
         let user = new_user j (si_Username input) (si_Email input) hash (si_DisplayName input) StatusActive now;
         attempt (CreateUser user) (\<lambda>_.
         attempt (ensureMembership v i j) (\<lambda>_.
         attempt (ensureBuiltins v i (o_Kind org)) (\<lambda>_.
         attempt (addUserRole v j i RoleOwner) (\<lambda>_.
         attempt (createSessionAndTokens v user i (si_UserAgent input) (si_IPAddress input) (si_ProductCode input)
            (si_ClientType input)) (\<lambda>issued.
         attempt (audit v (Some i) (Some j) ''auth.signup'' ''organization'' (FormatInt i) (si_IPAddress input)
            (si_UserAgent input) [(''orgCode'', MString (o_Code org)), (''email'', MString (u_Email user))]
            (si_ProductCode input, si_ClientType input)) (\<lambda>_. ok issued)))))) }) }))"

definition signupDirect :: "IamEnv \<Rightarrow> SignupInput \<Rightarrow> SignupResult result iam" where
  "signupDirect v input =
     (case normalizeSignupInput v input of
        Inl e \<Rightarrow> throw e
      | Inr input \<Rightarrow> attempt (WithTx (signup_tx v input)) (\<lambda>pair. do {
          ignore LoadPolicies;
          ok \<lparr>sr_Status = SignupStatusAuthenticated, sr_Session = Some (TokenPair_SessionSnapshot pair),
              sr_Delivery = None, sr_Tokens = pair\<rparr> }))"

definition pending_tx :: "IamEnv \<Rightarrow> SignupInput \<Rightarrow> (string \<times> int \<times> int \<times> int) result iam" where
  "pending_tx v input =
     attempt (ensureSignupUnique input) (\<lambda>_.
     attempt (ask (\<lambda>n. v_hash v n (si_Password input))) (\<lambda>hash. do {
       rawToken \<leftarrow> ask (v_id_string v);
       now \<leftarrow> ask (v_now v);
       i \<leftarrow> ask (v_id v);
       attempt (CreateOrganization_row (new_organization i (si_OrgCode input) (si_OrgName input) OrgKindTenant StatusPending now))
         (\<lambda>_. do {
         j \<leftarrow> ask (v_id v);
         attempt (CreateUser (new_user j (si_Username input) (si_Email input) hash (si_DisplayName input) StatusPending now))
           (\<lambda>_. do {
           k \<leftarrow> ask (v_id v);
           attempt (CreateMembership \<lparr>mb_ID = k, mb_OrgID = i, mb_UserID = j, mb_Status = StatusPending, mb_CreatedAt = now,
               mb_UpdatedAt = now, mb_DeletedAt = None\<rparr>) (\<lambda>_. do {
             l \<leftarrow> ask (v_id v);
             ttl \<leftarrow> reads currentEmailVerificationTTL;
             attempt (CreateEmailVerification \<lparr>ev_ID = l, ev_UserID = j, ev_OrgID = i,
                 ev_TokenHash = v_token_hash v rawToken, ev_Status = StatusPending, ev_ExpiresAt = now + ttl,
                 ev_VerifiedAt = None, ev_CreatedAt = now, ev_UpdatedAt = now\<rparr>) (\<lambda>_. ok (rawToken, i, j, l)) }) }) }) }))"

definition send_verification :: "IamEnv \<Rightarrow> SignupInput \<Rightarrow> string \<Rightarrow> int \<Rightarrow> int \<Rightarrow> int \<Rightarrow> SignupResult result iam" where
  "send_verification v input rawToken org user verification = do {
     let adminPath = ''signup/verify/'' @ PathEscape rawToken;
     link \<leftarrow> reads (\<lambda>s. notificationURL s adminPath);
     sent \<leftarrow> ask (\<lambda>n. v_notify v n (EmailVerificationNotice (si_Email input) rawToken link));
     case sent of
       Some e \<Rightarrow> do {
         cleaned \<leftarrow> DeletePendingSignup org user verification;
         case cleaned of
           Inl e' \<Rightarrow> throw (Wrapped iam_ErrNotificationDelivery
               (Error_text e @ ''; cleanup pending signup: '' @ Error_text e'))
         | Inr _ \<Rightarrow> throw (Wrapped iam_ErrNotificationDelivery (Error_text e)) }
     | None \<Rightarrow> do {
         delivery \<leftarrow> reads (debugDelivery rawToken adminPath);
         ok \<lparr>sr_Status = SignupStatusVerificationPending, sr_Session = None,
             sr_Delivery = (if nd_Debug delivery then Some delivery else None), sr_Tokens = no_tokens\<rparr> } }"

definition signupWithEmailVerification :: "IamEnv \<Rightarrow> SignupInput \<Rightarrow> SignupResult result iam" where
  "signupWithEmailVerification v input =
     (case normalizeSignupInput v input of
        Inl e \<Rightarrow> throw e
      | Inr input \<Rightarrow> attempt (WithTx (pending_tx v input)) (\<lambda>(rawToken, org, user, verification).
          send_verification v input rawToken org user verification))"

definition Signup :: "IamEnv \<Rightarrow> SignupInput \<Rightarrow> SignupResult result iam" where
  "Signup v input = do {
     mode \<leftarrow> reads currentRegistrationMode;
     if mode = RegistrationModeDirect then signupDirect v input
     else if mode = RegistrationModeEmailVerification then signupWithEmailVerification v input
     else throw iam_ErrSignupDisabled }"

definition confirm_tx :: "IamEnv \<Rightarrow> string \<Rightarrow> string \<Rightarrow> string \<Rightarrow> string \<Rightarrow> string \<Rightarrow> TokenPair result iam" where
  "confirm_tx v tokenHash userAgent ip productCode clientType =
     instead iam_ErrInvalidToken (FindEmailVerificationByTokenHash tokenHash) (\<lambda>verification. do {
       now \<leftarrow> ask (v_now v);
       if ev_Status verification \<noteq> StatusPending then throw iam_ErrInvalidToken
       else if ev_ExpiresAt verification < now then do {
         ignore (SaveEmailVerification v (verification\<lparr>ev_Status := StatusExpired, ev_UpdatedAt := now\<rparr>));
         throw iam_ErrInvalidToken }
       else
         instead iam_ErrInvalidToken (FindUserByID (ev_UserID verification)) (\<lambda>user.
         instead iam_ErrInvalidToken (FindOrganizationByID (ev_OrgID verification)) (\<lambda>org.
         instead iam_ErrInvalidToken (FindMembershipAnyStatus (o_ID org) (u_ID user)) (\<lambda>membership.
         if u_Status user \<noteq> StatusPending \<or> o_Status org \<noteq> StatusPending \<or> mb_Status membership \<noteq> StatusPending
         then throw iam_ErrInvalidToken
         else
           let user = user\<lparr>u_Status := StatusActive, u_UpdatedAt := now\<rparr>;
               org = org\<lparr>o_Status := StatusActive, o_UpdatedAt := now\<rparr>;
               membership = membership\<lparr>mb_Status := StatusActive, mb_UpdatedAt := now\<rparr>;
               verification = verification\<lparr>ev_Status := StatusUsed, ev_VerifiedAt := Some now, ev_UpdatedAt := now\<rparr>
           in attempt (SaveOrganization v org) (\<lambda>_.
              attempt (SaveUser v user) (\<lambda>_.
              attempt (SaveMembership v membership) (\<lambda>_.
              attempt (SaveEmailVerification v verification) (\<lambda>_.
              attempt (ensureBuiltins v (o_ID org) (o_Kind org)) (\<lambda>_.
              attempt (addUserRole v (u_ID user) (o_ID org) RoleOwner) (\<lambda>_.
              attempt (createSessionAndTokens v user (o_ID org) userAgent ip productCode clientType) (\<lambda>issued.
              attempt (audit v (Some (o_ID org)) (Some (u_ID user)) ''auth.email_verification.confirm'' ''email_verification''
                 (FormatInt (ev_ID verification)) ip userAgent
                 [(''orgCode'', MString (o_Code org)), (''email'', MString (u_Email user))] (productCode, clientType))
                (\<lambda>_. ok issued))))))))))) })"

definition ConfirmEmailVerification ::
    "IamEnv \<Rightarrow> string \<Rightarrow> string \<Rightarrow> string \<Rightarrow> string \<Rightarrow> string \<Rightarrow> TokenPair result iam" where
  "ConfirmEmailVerification v token userAgent ip productCode clientType =
     (let rawToken = TrimSpace token in
      if rawToken = [] then throw iam_ErrInvalidToken
      else attempt (WithTx (confirm_tx v (v_token_hash v rawToken) userAgent ip productCode clientType)) (\<lambda>pair. do {
        ignore LoadPolicies;
        ok pair }))"

section \<open>Organizations\<close>

definition create_org_tx :: "IamEnv \<Rightarrow> IamPrincipal \<Rightarrow> string \<Rightarrow> string \<Rightarrow> Organization result iam" where
  "create_org_tx v p code name =
     attempt (absent (FindOrganizationByCode code)) (\<lambda>_. do {
       now \<leftarrow> ask (v_now v);
       i \<leftarrow> ask (v_id v);
       let org = new_organization i code name OrgKindTenant StatusActive now;
       attempt (CreateOrganization_row org) (\<lambda>_.
       attempt (ensureMembership v i (p_UserID p)) (\<lambda>_.
       attempt (ensureBuiltins v i (o_Kind org)) (\<lambda>_.
       attempt (addUserRole v (p_UserID p) i RoleOwner) (\<lambda>_.
       attempt (audit v (Some i) (Some (p_UserID p)) ''org.create'' ''organization'' (FormatInt i) [] [] []
          (p_ProductCode p, p_ClientType p)) (\<lambda>_. ok org))))) })"

definition CreateOrganization :: "IamEnv \<Rightarrow> IamPrincipal \<Rightarrow> string \<Rightarrow> string \<Rightarrow> Organization result iam" where
  "CreateOrganization v p code name =
     (let code = normalizeCode code; name = TrimSpace name in
      if code = [] \<or> name = [] then throw iam_ErrInvalidInput
      else attempt (WithTx (create_org_tx v p code name)) (\<lambda>org. do {
        ignore LoadPolicies;
        ok org }))"

definition UpdateOrganization ::
    "IamEnv \<Rightarrow> IamPrincipal \<Rightarrow> int \<Rightarrow> string \<Rightarrow> string \<Rightarrow> string \<Rightarrow> Organization result iam" where
  "UpdateOrganization v p orgID name userAgent ip =
     (if orgID \<noteq> p_OrgID p then throw iam_ErrForbidden
      else let name = TrimSpace name in
        if name = [] then throw iam_ErrInvalidInput
        else instead iam_ErrNotFound (FindOrganizationByID orgID) (\<lambda>org.
          let org = org\<lparr>o_Name := name\<rparr> in
          attempt (SaveOrganization v org) (\<lambda>_. do {
            ignore (audit v (Some (p_OrgID p)) (Some (p_UserID p)) ''org.update'' ''organization'' (FormatInt (o_ID org)) ip
              userAgent [(''name'', MString name)] (p_ProductCode p, p_ClientType p));
            ok org })))"

end
