(* ===== verification/Go_Lower.thy ===== *)
theory Go_Lower
  imports Go_Prelude
begin

text \<open>
  Lower-casing keeps a trimmed string trimmed and is idempotent, so a normal form of the kind
  \<open>strings.ToLower(strings.TrimSpace(s))\<close> normalizes to itself.
\<close>

section \<open>First and last byte\<close>

definition lower_letter :: "char \<Rightarrow> bool" where
  "lower_letter c \<longleftrightarrow> 97 \<le> (of_char c :: nat) \<and> (of_char c :: nat) \<le> 122"

lemma of_char_of_small: "n < 256 \<Longrightarrow> (of_char (char_of n :: char) :: nat) = n"
  by (simp add: of_char_of take_bit_eq_mod)

lemma lower_byte_fixed: "\<not> lower_letter (lower_byte a) \<Longrightarrow> lower_byte a = a"
  by (auto simp: lower_byte_def lower_letter_def of_char_of take_bit_eq_mod split: if_splits)

lemma lower_byte_idem [simp]: "lower_byte (lower_byte a) = lower_byte a"
  by (auto simp: lower_byte_def of_char_of take_bit_eq_mod)

lemma letters [simp]: "lower_letter CHR ''i''" "lower_letter CHR ''k''"
  by (simp_all add: lower_letter_def)

lemma ToLower_Nil_iff [simp]: "ToLower s = [] \<longleftrightarrow> s = []"
  by (cases s) (auto split: list.splits)

lemma ToLower_Cons:
  "ToLower (a # s) =
     (if a = CHR 0xC4 \<and> take 1 s = [CHR 0xB0] then CHR ''i'' # ToLower (drop 1 s)
      else if a = CHR 0xE2 \<and> take 2 s = [CHR 0x84, CHR 0xAA] then CHR ''k'' # ToLower (drop 2 s)
      else lower_byte a # ToLower s)"
  by (auto split: list.splits)

lemma ToLower_head:
  assumes "ToLower s = b # r" and "\<not> lower_letter b"
  obtains s' where "s = b # s'" "ToLower s' = r"
proof (cases s)
  case (Cons a s')
  then have "lower_byte a = b" "ToLower s' = r"
    using assms unfolding Cons ToLower_Cons by (auto split: if_splits)
  then show ?thesis using that lower_byte_fixed assms(2) Cons by metis
qed (use assms in simp)

lemma ToLower_last:
  "ToLower s = u @ [b] \<Longrightarrow> \<not> lower_letter b \<Longrightarrow> \<exists>w. s = w @ [b] \<and> ToLower w = u"
proof (induction s arbitrary: u rule: length_induct)
  case (1 s)
  show ?case
  proof (cases s)
    case Nil
    then show ?thesis using 1 by simp
  next
    case (Cons a t)
    obtain c rest pre where step: "ToLower s = c # ToLower rest" "s = pre @ rest" "length rest < length s"
        "\<And>w v. rest = w @ v \<Longrightarrow> ToLower (pre @ w) = c # ToLower w" "lower_letter c \<or> pre = [c] \<and> lower_byte c = c"
    proof -
      consider (i) "a = CHR 0xC4" "take 1 t = [CHR 0xB0]" | (k) "a = CHR 0xE2" "take 2 t = [CHR 0x84, CHR 0xAA]"
        | (o) "\<not> (a = CHR 0xC4 \<and> take 1 t = [CHR 0xB0])" "\<not> (a = CHR 0xE2 \<and> take 2 t = [CHR 0x84, CHR 0xAA])" by blast
      then show ?thesis
      proof cases
        case i
        then obtain t' where t: "t = CHR 0xB0 # t'" by (cases t) auto
        show ?thesis by (rule that [of "CHR ''i''" t' "[a, CHR 0xB0]"]) (simp_all add: Cons t i(1))
      next
        case k
        then obtain t' where t: "t = CHR 0x84 # CHR 0xAA # t'" by (cases t; cases "tl t") auto
        show ?thesis by (rule that [of "CHR ''k''" t' "[a, CHR 0x84, CHR 0xAA]"]) (simp_all add: Cons t k(1))
      next
        case o
        have "ToLower ([a] @ w) = lower_byte a # ToLower w" if "t = w @ v" for w v
          using o that by (cases w; cases "tl w") (auto simp: ToLower_Cons split: if_splits)
        moreover have "lower_letter (lower_byte a) \<or> [a] = [lower_byte a] \<and> lower_byte (lower_byte a) = lower_byte a"
          using lower_byte_fixed [of a] by (metis lower_byte_idem)
        ultimately show ?thesis using o by (intro that [of "lower_byte a" t "[a]"]) (simp_all add: Cons ToLower_Cons del: ToLower.simps)
      qed
    qed
    show ?thesis
    proof (cases u)
      case Nil
      then have "c = b" "ToLower rest = []" using step(1) 1(2) by simp_all
      then have "c = b" "rest = []" by simp_all
      then show ?thesis using step 1(3) Nil by auto
    next
      case (Cons x u')
      then have "ToLower rest = u' @ [b]" "x = c" using step(1) 1(2) by auto
      then obtain w where "rest = w @ [b]" "ToLower w = u'" using 1(1,3) step(3) by blast
      then show ?thesis using step(2,4) Cons \<open>x = c\<close> by (intro exI [of _ "pre @ w"]) simp
    qed
  qed
qed

lemma ToLower_prefix:
  "ToLower s = e @ r \<Longrightarrow> \<forall>b \<in> set e. \<not> lower_letter b \<Longrightarrow> \<exists>s'. s = e @ s'"
proof (induction e arbitrary: s)
  case (Cons b e)
  then obtain s' where "s = b # s'" "ToLower s' = e @ r" using ToLower_head by (metis append_Cons list.set_intros(1))
  then show ?case using Cons by auto
qed simp

lemma ToLower_suffix:
  "ToLower s = r @ e \<Longrightarrow> \<forall>b \<in> set e. \<not> lower_letter b \<Longrightarrow> \<exists>s'. s = s' @ e"
proof (induction e arbitrary: s rule: rev_induct)
  case (snoc b e)
  then obtain w where w: "s = w @ [b]" "ToLower w = r @ e"
    using ToLower_last [of s "r @ e" b] by auto
  then show ?case using snoc.IH [OF w(2)] snoc.prems(2) by auto
qed simp

section \<open>Normal forms\<close>

lemma space_runes_no_letter: "e \<in> set space_runes \<Longrightarrow> b \<in> set e \<Longrightarrow> \<not> lower_letter b"
  by (auto simp: space_runes_def lower_letter_def)

lemma strip_one_None_iff: "strip_one es s = None \<longleftrightarrow> (\<forall>e \<in> set es. e \<noteq> [] \<longrightarrow> (\<nexists>r. s = e @ r))"
  unfolding strip_one_None by (metis append_take_drop_id append_eq_conv_conj)

lemma TrimSpace_fixed_iff:
  "TrimSpace s = s \<longleftrightarrow> (\<forall>e \<in> set space_runes. e \<noteq> [] \<longrightarrow> (\<nexists>r. s = e @ r) \<and> (\<nexists>r. s = r @ e))"
proof
  assume t: "TrimSpace s = s"
  define l where "l = strip_all space_runes s"
  define m where "m = strip_all (map rev space_runes) (rev l)"
  have s: "s = rev m" using t by (simp add: TrimSpace_def m_def l_def)
  obtain p where p: "rev l = p @ m" unfolding m_def using strip_all_suffix by blast
  obtain q where q: "s = q @ l" unfolding l_def using strip_all_suffix by blast
  have "length s = length q + length l" "length l = length p + length m" "length s = length m"
    using p q s by (metis length_append, metis length_append length_rev, metis length_rev)
  then have "p = []" "q = []" by auto
  then have l: "l = s" and m: "m = rev s" using p q s by auto
  have "strip_one space_runes s = None" using strip_all_fixed l unfolding l_def by metis
  moreover have "strip_one (map rev space_runes) (rev s) = None" using strip_all_fixed m unfolding m_def by metis
  ultimately show "\<forall>e \<in> set space_runes. e \<noteq> [] \<longrightarrow> (\<nexists>r. s = e @ r) \<and> (\<nexists>r. s = r @ e)"
    unfolding strip_one_None_iff by (metis (no_types, lifting) image_eqI list.set_map rev_append rev_is_Nil_conv)
next
  assume a: "\<forall>e \<in> set space_runes. e \<noteq> [] \<longrightarrow> (\<nexists>r. s = e @ r) \<and> (\<nexists>r. s = r @ e)"
  have "strip_one space_runes s = None" using a by (simp add: strip_one_None_iff)
  moreover have "strip_one (map rev space_runes) (rev s) = None"
    unfolding strip_one_None_iff
  proof (intro ballI impI notI)
    fix e
    assume e: "e \<in> set (map rev space_runes)" "e \<noteq> []" "\<exists>r. rev s = e @ r"
    then obtain f r where "f \<in> set space_runes" "e = rev f" "rev s = e @ r" by auto
    then have "s = rev r @ f" by (metis rev_append rev_rev_ident)
    then show False using a \<open>f \<in> set space_runes\<close> e(2) \<open>e = rev f\<close> by auto
  qed
  ultimately show "TrimSpace s = s" by (simp add: TrimSpace_def strip_all_id)
qed

lemma TrimSpace_ToLower:
  assumes "TrimSpace s = s"
  shows "TrimSpace (ToLower s) = ToLower s"
  unfolding TrimSpace_fixed_iff
proof (intro ballI impI conjI notI; elim exE)
  fix e r
  assume e: "e \<in> set space_runes" "e \<noteq> []"
  then have n: "\<forall>b \<in> set e. \<not> lower_letter b" using space_runes_no_letter by blast
  { assume "ToLower s = e @ r"
    from ToLower_prefix [OF this n] show False using assms e unfolding TrimSpace_fixed_iff by blast }
  { assume "ToLower s = r @ e"
    from ToLower_suffix [OF this n] show False using assms e unfolding TrimSpace_fixed_iff by blast }
qed

lemma ToLower_idem [simp]: "ToLower (ToLower s) = ToLower s"
proof (induction s rule: length_induct)
  case (1 s)
  show ?case
  proof (cases s)
    case (Cons a t)
    consider (i) "a = CHR 0xC4" "take 1 t = [CHR 0xB0]" | (k) "a = CHR 0xE2" "take 2 t = [CHR 0x84, CHR 0xAA]"
      | (o) "\<not> (a = CHR 0xC4 \<and> take 1 t = [CHR 0xB0])" "\<not> (a = CHR 0xE2 \<and> take 2 t = [CHR 0x84, CHR 0xAA])" by blast
    then show ?thesis
    proof cases
      case o
      have ih: "ToLower (ToLower t) = ToLower t" using 1 Cons by simp
      have n: "\<not> lower_letter CHR 0xB0" "\<not> lower_letter CHR 0x84" "\<not> lower_letter CHR 0xAA" "\<not> lower_letter CHR 0xC4"
        "\<not> lower_letter CHR 0xE2" by (simp_all add: lower_letter_def)
      have "\<not> (lower_byte a = CHR 0xC4 \<and> take 1 (ToLower t) = [CHR 0xB0])"
      proof
        assume b: "lower_byte a = CHR 0xC4 \<and> take 1 (ToLower t) = [CHR 0xB0]"
        then have "a = CHR 0xC4" using lower_byte_fixed n(4) by metis
        moreover obtain r where "ToLower t = [CHR 0xB0] @ r" using b by (metis append_take_drop_id)
        then obtain t' where "t = [CHR 0xB0] @ t'" using ToLower_prefix [of t "[CHR 0xB0]" r] n(1) by auto
        ultimately show False using o(1) by simp
      qed
      moreover have "\<not> (lower_byte a = CHR 0xE2 \<and> take 2 (ToLower t) = [CHR 0x84, CHR 0xAA])"
      proof
        assume b: "lower_byte a = CHR 0xE2 \<and> take 2 (ToLower t) = [CHR 0x84, CHR 0xAA]"
        then have "a = CHR 0xE2" using lower_byte_fixed n(5) by metis
        moreover obtain r where "ToLower t = [CHR 0x84, CHR 0xAA] @ r" using b by (metis append_take_drop_id)
        then obtain t' where "t = [CHR 0x84, CHR 0xAA] @ t'" using ToLower_prefix [of t "[CHR 0x84, CHR 0xAA]" r] n(2,3) by auto
        ultimately show False using o(2) by simp
      qed
      moreover have "ToLower s = lower_byte a # ToLower t" using o unfolding Cons ToLower_Cons by auto
      ultimately show ?thesis using ih by (simp add: ToLower_Cons [of "lower_byte a"] del: ToLower.simps)
    next
      case i
      have "length (drop 1 t) < length s" using Cons by simp
      then have "ToLower (ToLower (drop 1 t)) = ToLower (drop 1 t)" using 1 by blast
      then show ?thesis using i by (simp add: Cons ToLower_Cons lower_byte_def del: ToLower.simps)
    next
      case k
      have "length (drop 2 t) < length s" using Cons by simp
      then have "ToLower (ToLower (drop 2 t)) = ToLower (drop 2 t)" using 1 by blast
      then show ?thesis using k by (simp add: Cons ToLower_Cons lower_byte_def del: ToLower.simps)
    qed
  qed simp
qed

definition normal_form :: "string \<Rightarrow> string" where
  "normal_form s = ToLower (TrimSpace s)"

lemma normal_form_idem [simp]: "normal_form (normal_form s) = normal_form s"
  by (simp add: normal_form_def TrimSpace_ToLower)

lemma normal_form_blank: "TrimSpace (normal_form s) = [] \<longleftrightarrow> TrimSpace s = []"
  by (simp add: normal_form_def TrimSpace_ToLower)

end
