(* ===== verification/IAM_Laws.thy ===== *)
theory IAM_Laws
  imports IAM_Signup Go_Lower
begin

text \<open>
  Reasoning about the identity service. A run is taken apart by the rules \<open>run_\<close>; what every operation keeps of the
  state is proved once for any reflexive and transitive relation, in the locale
  \<open>iam_relation\<close>, and for any relation that the session writes respect in \<open>session_relation\<close>.
\<close>

section \<open>Taking a run apart\<close>

named_theorems run_simps \<open>results of the basic commands\<close>

lemma run_basic [run_simps, simp]:
  "run_state (ok x) s = (Inr x, s)" "run_state (throw e) s = (Inl e, s)"
  "run_state (reads f) s = (f s, s)" "run_state (modify g) s = ((), g s)"
  "run_state (ask h) s = (h (ia_seq s), s\<lparr>ia_seq := ia_seq s + 1\<rparr>)"
  by (simp_all add: ok_def throw_def reads_def modify_def ask_def)

lemma run_attempt [run_simps]:
  "run_state (attempt m f) s = (case run_state m s of (Inl e, t) \<Rightarrow> (Inl e, t) | (Inr x, t) \<Rightarrow> run_state (f x) t)"
  by (simp add: attempt_def split: prod.splits sum.splits)

lemma run_instead [run_simps]:
  "run_state (instead e m f) s = (case run_state m s of (Inl e', t) \<Rightarrow> (Inl e, t) | (Inr x, t) \<Rightarrow> run_state (f x) t)"
  by (simp add: instead_def split: prod.splits sum.splits)

lemma run_ignore [run_simps]: "run_state (ignore m) s = ((), snd (run_state m s))"
  by (simp add: ignore_def split: prod.splits)

lemma run_require [run_simps]:
  "run_state (require e m) s = (case e of Some err \<Rightarrow> (Inl err, s) | None \<Rightarrow> run_state m s)"
  by (simp add: require_def split: option.splits)

lemma attempt_ok:
  assumes "run_state (attempt m f) s = (Inr y, t)"
  obtains x u where "run_state m s = (Inr x, u)" "run_state (f x) u = (Inr y, t)"
  using assms by (auto simp: run_attempt split: prod.splits sum.splits)

lemma instead_ok:
  assumes "run_state (instead e m f) s = (Inr y, t)"
  obtains x u where "run_state m s = (Inr x, u)" "run_state (f x) u = (Inr y, t)"
  using assms by (auto simp: run_instead split: prod.splits sum.splits)

lemma bind_run:
  assumes "run_state (do { x \<leftarrow> m; f x }) s = (r, t)"
  obtains x u where "run_state m s = (x, u)" "run_state (f x) u = (r, t)"
  using assms by (auto split: prod.splits)

lemma require_ok:
  assumes "run_state (require e m) s = (Inr y, t)"
  shows "e = None" "run_state m s = (Inr y, t)"
  using assms by (auto simp: run_require split: option.splits)

section \<open>What the statements do\<close>

text \<open>Two states with the same data: only the counters of questions and of statement outcomes moved on.\<close>

definition same_data :: "Iam \<Rightarrow> Iam \<Rightarrow> bool" where
  "same_data s t \<longleftrightarrow> t\<lparr>ia_seq := 0, ia_faults := []\<rparr> = s\<lparr>ia_seq := 0, ia_faults := []\<rparr> \<and> ia_seq s \<le> ia_seq t"

lemma same_data_refl [simp]: "same_data s s"
  by (simp add: same_data_def)

lemma same_data_trans: "same_data s t \<Longrightarrow> same_data t u \<Longrightarrow> same_data s u"
  by (simp add: same_data_def)

lemma same_dataD:
  assumes "same_data s t"
  shows "ia_users t = ia_users s" "ia_orgs t = ia_orgs s" "ia_memberships t = ia_memberships s" "ia_roles t = ia_roles s"
    "ia_sessions t = ia_sessions s" "ia_tokens t = ia_tokens s" "ia_invitations t = ia_invitations s"
    "ia_resets t = ia_resets s" "ia_factors t = ia_factors s" "ia_rules t = ia_rules s" "ia_policies t = ia_policies s"
    "ia_captchas t = ia_captchas s" "ia_seq s \<le> ia_seq t" "ia_permissions t = ia_permissions s"
    "ia_verifications t = ia_verifications s"
  using assms by (cases s; cases t; simp add: same_data_def)+

lemma same_data_seq [simp]: "same_data s (s\<lparr>ia_seq := Suc (ia_seq s)\<rparr>)"
  by (cases s) (simp add: same_data_def)

lemma statement_run:
  assumes "run_state (statement work) s = (r, t)"
  obtains (failed) e where "r = Inl e" "same_data s t" "ia_faults s \<noteq> []"
  | (works) u where "same_data s u" "ia_seq u = ia_seq s" "run_state (State work) u = (r, t)" "ia_faults s = [] \<longrightarrow> u = s"
proof (cases "ia_faults s")
  case Nil
  then show ?thesis using assms works [of s] by (simp add: statement_def)
next
  case (Cons f fs)
  have "same_data s (s\<lparr>ia_faults := fs\<rparr>)" by (cases s) (simp add: same_data_def)
  then show ?thesis using assms Cons failed works [of "s\<lparr>ia_faults := fs\<rparr>"] by (cases f) (auto simp: statement_def)
qed

lemma statement_ok: "ia_faults s = [] \<Longrightarrow> run_state (statement work) s = work s"
  by (simp add: statement_def)

lemma first_row_Some:
  assumes "first_row order p rows = Some r"
  shows "r \<in> set rows" "p r"
proof -
  obtain rs where e: "sort_key order (filter p rows) = r # rs"
    using assms by (auto simp: first_row_def split: list.splits)
  have "r \<in> set (sort_key order (filter p rows))" unfolding e by simp
  then show "r \<in> set rows" "p r" by auto
qed

lemma first_row_None: "first_row order p rows = None \<longleftrightarrow> (\<forall>r \<in> set rows. \<not> p r)"
proof -
  have "sort_key order xs = [] \<longleftrightarrow> xs = []" for xs by (metis length_0_conv length_sort)
  then have "sort_key order (filter p rows) = [] \<longleftrightarrow> (\<forall>r \<in> set rows. \<not> p r)" by (simp add: filter_empty_conv)
  moreover have "first_row order p rows = None \<longleftrightarrow> sort_key order (filter p rows) = []"
    by (simp add: first_row_def split: list.split)
  ultimately show ?thesis by simp
qed

text \<open>When only one row can match, \<open>First\<close> finds it.\<close>

lemma first_row_unique:
  assumes "r \<in> set rows" and "p r" and "\<And>r'. r' \<in> set rows \<Longrightarrow> p r' \<Longrightarrow> r' = r"
  shows "first_row order p rows = Some r"
proof (cases "first_row order p rows")
  case None
  then show ?thesis using assms(1,2) unfolding first_row_None by blast
next
  case (Some x)
  then show ?thesis using first_row_Some [OF Some] assms(3) by simp
qed

definition found :: "'r option \<Rightarrow> 'r result" where
  "found o' = (case o' of None \<Rightarrow> Inl iam_ErrNotFound | Some x \<Rightarrow> Inr x)"

lemma found_Inr [simp]: "found o' = Inr x \<longleftrightarrow> o' = Some x" "Inr x = found o' \<longleftrightarrow> o' = Some x"
  by (auto simp: found_def split: option.splits)

lemma First_run:
  assumes "run_state (First table order p) s = (r, t)"
  shows "same_data s t \<and> (ia_faults s \<noteq> [] \<and> (\<exists>e. r = Inl e) \<or> r = found (first_row order p (table t))) \<and>
    (ia_faults s = [] \<longrightarrow> t = s)"
  using assms unfolding First_def
proof (cases rule: statement_run)
  case (works u)
  then have "t = u \<and> r = found (first_row order p (table u))" by (auto simp: found_def)
  then show ?thesis using works by simp
qed simp

lemma Find_run:
  assumes "run_state (Find table query) s = (r, t)"
  shows "same_data s t \<and> (ia_faults s \<noteq> [] \<and> (\<exists>e. r = Inl e) \<or> r = Inr (query (table t))) \<and>
    (ia_faults s = [] \<longrightarrow> t = s)"
  using assms unfolding Find_def
proof (cases rule: statement_run)
  case (works u)
  then have "t = u \<and> r = Inr (query (table u))" by auto
  then show ?thesis using works by simp
qed simp

lemma Create_run:
  assumes "run_state (Create table put clash row) s = (r, t)"
  obtains (failed) e where "r = Inl e" "same_data s t"
  | (created) u where "r = Inr ()" "same_data s u" "t = put (table u @ [row]) u" "\<forall>x \<in> set (table u). \<not> clash row x"
      "ia_faults s = [] \<longrightarrow> u = s"
  using assms unfolding Create_def
proof (cases rule: statement_run)
  case (works u)
  then show ?thesis using failed created by (cases "\<exists>x \<in> set (table u). clash row x") auto
qed (use failed in auto)

lemma Save_run:
  assumes "run_state (Save table put key clash row) s = (r, t)"
  obtains (failed) e where "r = Inl e" "same_data s t"
  | (replaced) u where "r = Inr ()" "same_data s u" "t = put (map (\<lambda>x. if key x = key row then row else x) (table u)) u"
      "\<forall>x \<in> set (table u). key x \<noteq> key row \<longrightarrow> \<not> clash row x" "\<exists>x \<in> set (table u). key x = key row"
      "ia_faults s = [] \<longrightarrow> u = s"
  | (inserted) u where "r = Inr ()" "same_data s u" "t = put (table u @ [row]) u"
      "\<forall>x \<in> set (table u). key x \<noteq> key row \<and> \<not> clash row x" "ia_faults s = [] \<longrightarrow> u = s"
  using assms unfolding Save_def
proof (cases rule: statement_run)
  case (works u)
  show ?thesis
  proof (cases "\<exists>x \<in> set (table u). key x \<noteq> key row \<and> clash row x")
    case True
    then show ?thesis using works failed by auto
  next
    case no: False
    show ?thesis
    proof (cases "\<exists>x \<in> set (table u). key x = key row")
      case True
      then show ?thesis using works no by (intro replaced [of u]) auto
    next
      case False
      then show ?thesis using works no by (intro inserted [of u]) auto
    qed
  qed
qed (use failed in auto)

section \<open>Reads and checks that succeed\<close>

lemma First_ok:
  assumes "run_state (First table order p) s = (Inr r, t)"
  shows "r \<in> set (table t)" "p r" "same_data s t" "ia_faults s = [] \<Longrightarrow> t = s"
proof -
  note First_run [OF assms]
  then have t: "same_data s t" "ia_faults s = [] \<longrightarrow> t = s" "first_row order p (table t) = Some r" by auto
  then show "r \<in> set (table t)" "p r" "same_data s t" "ia_faults s = [] \<Longrightarrow> t = s" using first_row_Some by fastforce+
qed

lemma FindSessionByRefreshHash_ok:
  assumes "run_state (FindSessionByRefreshHash hash) s = (Inr r, t)"
  shows "r \<in> set (ia_sessions s) \<and> s_RefreshTokenHash r = hash \<and> same_data s t"
  using First_ok [OF assms [unfolded FindSessionByRefreshHash_def]] same_dataD by metis

lemma FindSessionByID_ok:
  assumes "run_state (FindSessionByID i) s = (Inr r, t)"
  shows "r \<in> set (ia_sessions s) \<and> s_ID r = i \<and> same_data s t"
  using First_ok [OF assms [unfolded FindSessionByID_def]] same_dataD by metis

lemma ensureSessionActive_ok:
  assumes "run_state (ensureSessionActive v session) s = (Inr x, t)"
  shows "s_RevokedAt session = None \<and> \<not> s_ExpiresAt session < v_now v (ia_seq s) \<and> t = s\<lparr>ia_seq := ia_seq s + 1\<rparr>"
  using assms by (auto simp: ensureSessionActive_def split: if_splits)

section \<open>What every operation keeps\<close>

text \<open>
  A relation between the states before and after: reflexive, transitive, and kept by what changes no session.
  \<open>state_io_rel R m\<close> of the state-monad library says that every run of \<open>m\<close> is in \<open>R\<close>.
\<close>

definition same_sessions :: "Iam \<Rightarrow> Iam \<Rightarrow> bool" where
  "same_sessions s t \<longleftrightarrow> ia_sessions t = ia_sessions s \<and> ia_seq s \<le> ia_seq t"

lemma same_sessions_trans: "same_sessions s t \<Longrightarrow> same_sessions t u \<Longrightarrow> same_sessions s u"
  by (simp add: same_sessions_def)

locale state_preorder =
  fixes R :: "'s \<Rightarrow> 's \<Rightarrow> bool"
  assumes refl: "R s s"
    and trans: "R s t \<Longrightarrow> R t u \<Longrightarrow> R s u"
begin

lemma rel_return: "state_io_rel R (State_Monad.return x)"
  by (auto intro: refl simp: state_io_rel_def)

lemma rel_bind: "state_io_rel R m \<Longrightarrow> (\<And>x. state_io_rel R (f x)) \<Longrightarrow> state_io_rel R (m \<bind> f)"
  unfolding state_io_rel_def by (auto intro: trans split: prod.split)

end

text \<open>A preorder on the states of the service, kept by the commands that change nothing.\<close>

locale quiet_relation = state_preorder R for R :: "Iam \<Rightarrow> Iam \<Rightarrow> bool"
begin

lemma rel_ok: "state_io_rel R (ok x)" and rel_throw: "state_io_rel R (throw e)"
  by (simp_all add: state_io_rel_def refl)

lemma rel_reads: "state_io_rel R (reads f)"
  by (simp add: state_io_rel_def refl)

lemma rel_attempt: "state_io_rel R m \<Longrightarrow> (\<And>x. state_io_rel R (f x)) \<Longrightarrow> state_io_rel R (attempt m f)"
  unfolding attempt_def by (intro rel_bind) (auto split: sum.splits intro: rel_throw)

lemma rel_instead: "state_io_rel R m \<Longrightarrow> (\<And>x. state_io_rel R (f x)) \<Longrightarrow> state_io_rel R (instead e m f)"
  unfolding instead_def by (intro rel_bind) (auto split: sum.splits intro: rel_throw)

lemma rel_ignore: "state_io_rel R m \<Longrightarrow> state_io_rel R (ignore m)"
  unfolding ignore_def by (intro rel_bind rel_return)

lemma rel_require: "state_io_rel R m \<Longrightarrow> state_io_rel R (require e m)"
  unfolding require_def by (auto split: option.splits intro: rel_throw)

lemmas quiet_rules = rel_return rel_bind rel_ok rel_throw rel_reads rel_attempt rel_instead rel_ignore rel_require

end
text \<open>
  A preorder that every basic command of the service is in, the session writes apart: the counters, the captchas, the
  notification runtime, the rows of the other tables and the rollback of a transaction.
\<close>

locale step_relation = quiet_relation R for R :: "Iam \<Rightarrow> Iam \<Rightarrow> bool" +
  assumes tick: "R s (s\<lparr>ia_seq := Suc (ia_seq s)\<rparr>)"
    and dropped: "R s (s\<lparr>ia_faults := fs\<rparr>)"
    and captchas: "R s (s\<lparr>ia_captchas := c\<rparr>)"
    and runtime: "R s (s\<lparr>ia_driver := dr, ia_publicURL := b\<rparr>)"
    and settings: "R s (s\<lparr>ia_mode := md, ia_verifyTTL := ttl\<rparr>)"
    and undone: "R s t \<Longrightarrow> R s (rollback s t)"
    and rel_creates:
      "state_io_rel R (CreateUser a1)" "state_io_rel R (CreateMembership a2)" "state_io_rel R (CreateAPIToken_row a3)"
      "state_io_rel R (CreateInvitation a4)" "state_io_rel R (CreatePasswordReset a5)" "state_io_rel R (CreateMFAFactor a6)"
      "state_io_rel R (CreateAuditLog a7)" "state_io_rel R (CreateRole_row a8)" "state_io_rel R (CreateOrganization_row a9)"
      "state_io_rel R (CreatePermission a10)" "state_io_rel R (CreateEmailVerification a11)"
    and rel_save_user: "u_DeletedAt b1 = None \<Longrightarrow> state_io_rel R (SaveUser v b1)"
    and rel_saves:
      "state_io_rel R (SaveMembership v b2)" "state_io_rel R (SaveAPIToken v b3)"
      "state_io_rel R (SaveInvitation v b4)" "state_io_rel R (SavePasswordReset v b5)" "state_io_rel R (SaveMFAFactor v b6)"
      "state_io_rel R (SaveRole v b7)" "state_io_rel R (SaveOrganization v b8)" "state_io_rel R (SaveEmailVerification v b9)"
    and rel_rules_table:
      "state_io_rel R (DeleteCasbinRules c1 c2 c3 c4)" "state_io_rel R (LoadRules rs)" "state_io_rel R (AddCasbinRule rule)"
begin

lemma rel_ask: "state_io_rel R (ask f)"
  by (simp add: state_io_rel_def tick)

lemma rel_read:
  assumes "\<And>s. snd (work s) = s"
  shows "state_io_rel R (statement work)"
  unfolding state_io_rel_def
  by (auto simp: statement_def assms intro: refl dropped split: list.splits option.splits)

lemma rel_First: "state_io_rel R (First table order p)" and rel_Find: "state_io_rel R (Find table query)"
  unfolding First_def Find_def by (rule rel_read, simp)+

lemma rel_WithTx:
  assumes "state_io_rel R body"
  shows "state_io_rel R (WithTx body)"
proof -
  let ?all = "attempt body (\<lambda>x. attempt (statement (\<lambda>s. (Inr (), s))) (\<lambda>_. ok x))"
  have all: "state_io_rel R ?all" by (intro rel_attempt assms rel_read rel_ok) simp
  have "R start (snd (case run_state ?all start of (Inl e, s) \<Rightarrow> (Inl e, rollback start s) | (Inr x, s) \<Rightarrow> (Inr x, s)))" for start
  proof -
    obtain r t where r: "run_state ?all start = (r, t)" by fastforce
    then have "R start t" using all by (metis snd_conv state_io_rel_def)
    then show ?thesis using r undone by (simp split: sum.splits)
  qed
  then have "state_io_rel R (State (\<lambda>start.
     case run_state ?all start of (Inl e, s) \<Rightarrow> (Inl e, rollback start s) | (Inr x, s) \<Rightarrow> (Inr x, s)))"
    unfolding state_io_rel_def by simp
  then show ?thesis unfolding WithTx_def by (intro rel_attempt rel_read) simp_all
qed

lemma rel_captchas: "state_io_rel R (modify (\<lambda>s. s\<lparr>ia_captchas := f s\<rparr>))"
  by (simp add: state_io_rel_def captchas)

lemma rel_reload: "state_io_rel R (ReloadNotificationRuntime driver base)"
  by (simp add: ReloadNotificationRuntime_def Let_def state_io_rel_def runtime)

lemma rel_settings: "state_io_rel R (ReloadRegistrationRuntime mode ttl)"
  by (simp add: ReloadRegistrationRuntime_def Let_def state_io_rel_def settings)

lemmas rel_rules = rel_return rel_ok rel_throw rel_reads rel_ask rel_bind rel_attempt rel_instead rel_ignore rel_require
  rel_First rel_Find

lemmas finders = FindOrganizationByID_def FindOrganizationByCode_def FindUserByID_def FindUserByIdentifier_def
  FindMembership_def FindMembershipAnyStatus_def ListMembershipsByUser_def FindRole_def FindRoleByID_def
  FindSessionByID_def FindSessionByRefreshHash_def ListSessionsByUser_def FindAPITokenByHash_def FindAPITokenByID_def
  FindInvitationByID_def FindInvitationByTokenHash_def FindPasswordResetByTokenHash_def FindActiveMFAFactor_def
  FindPermission_def FindEmailVerificationByTokenHash_def

lemma rel_finds:
  "state_io_rel R (FindOrganizationByID i)" "state_io_rel R (FindOrganizationByCode c)" "state_io_rel R (FindUserByID i)"
  "state_io_rel R (FindUserByIdentifier c)" "state_io_rel R (FindMembership i j)" "state_io_rel R (FindMembershipAnyStatus i j)"
  "state_io_rel R (ListMembershipsByUser i)" "state_io_rel R (FindRole i c)" "state_io_rel R (FindRoleByID i)"
  "state_io_rel R (FindSessionByID i)" "state_io_rel R (FindSessionByRefreshHash c)" "state_io_rel R (ListSessionsByUser i)"
  "state_io_rel R (FindAPITokenByHash c)" "state_io_rel R (FindAPITokenByID i)" "state_io_rel R (FindInvitationByID i)"
  "state_io_rel R (FindInvitationByTokenHash c)" "state_io_rel R (FindPasswordResetByTokenHash c)"
  "state_io_rel R (FindActiveMFAFactor i)" "state_io_rel R (ListRolePermissions i c)" "state_io_rel R ListCasbinRules"
  "state_io_rel R (FindPermission c d e)" "state_io_rel R (FindEmailVerificationByTokenHash c)"
  unfolding finders ListRolePermissions_def ListCasbinRules_def by (intro rel_rules)+

lemma rel_counts: "state_io_rel R CountUsers" "state_io_rel R (HasUsersTable v)"
  unfolding CountUsers_def HasUsersTable_def by (rule rel_read, simp)+

lemmas rel_store = rel_creates rel_saves rel_finds rel_rules_table rel_counts

text \<open>A user who is found is not deleted.\<close>

lemma rel_found_user:
  assumes "\<And>u. u_DeletedAt u = None \<Longrightarrow> state_io_rel R (f u)"
  shows "state_io_rel R (instead e (FindUserByID i) f)" "state_io_rel R (instead e (FindUserByIdentifier c) f)"
    "state_io_rel R (attempt (FindUserByID i) f)"
proof -
  have found: "R s (snd (case run_state m s of (Inl e', t) \<Rightarrow> (g e', t) | (Inr x, t) \<Rightarrow> run_state (f x) t))"
    if "state_io_rel R m" "\<And>x t. run_state m s = (Inr x, t) \<Longrightarrow> u_DeletedAt x = None" for m s g
  proof -
    obtain r t where m: "run_state m s = (r, t)" by fastforce
    then have st: "R s t" using that(1) by (metis snd_conv state_io_rel_def)
    show ?thesis
    proof (cases r)
      case (Inr x)
      then have "R t (snd (run_state (f x) t))" using that(2) m assms by (simp add: state_io_rel_def)
      then show ?thesis using trans [OF st] m Inr by simp
    qed (use m st in simp)
  qed
  have alive: "run_state (FindUserByID i) s = (Inr x, t) \<Longrightarrow> u_DeletedAt x = None"
    "run_state (FindUserByIdentifier c) s = (Inr x, t) \<Longrightarrow> u_DeletedAt x = None" for i c s x t
    unfolding FindUserByID_def FindUserByIdentifier_def by (auto dest: First_ok(2))
  show "state_io_rel R (instead e (FindUserByID i) f)" unfolding state_io_rel_def run_instead
    by (intro allI found [of "FindUserByID i" _ "\<lambda>_. Inl e"] rel_finds(3) alive(1))
  show "state_io_rel R (instead e (FindUserByIdentifier c) f)" unfolding state_io_rel_def run_instead
    by (intro allI found [of "FindUserByIdentifier c" _ "\<lambda>_. Inl e"] rel_finds(4) alive(2))
  show "state_io_rel R (attempt (FindUserByID i) f)" unfolding state_io_rel_def run_attempt
    by (intro allI found [of "FindUserByID i" _ Inl] rel_finds(3) alive(1))
qed

lemma rel_audit: "state_io_rel R (audit v a b c d e f g h i)"
  unfolding audit_def Let_def by (intro rel_rules rel_store)

lemma rel_captcha: "state_io_rel R (Captcha v)" "state_io_rel R (validateLoginCaptcha v a b)"
  unfolding Captcha_def validateLoginCaptcha_def Let_def
  by (auto intro!: rel_rules rel_captchas split: option.splits)

lemma rel_checks: "state_io_rel R (ensureUserCanLogin v u)" "state_io_rel R (ensureSessionActive v se)"
  unfolding ensureUserCanLogin_def ensureSessionActive_def
  by (auto intro!: rel_rules split: option.splits)

lemma rel_recordFailedLogin: "u_DeletedAt u = None \<Longrightarrow> state_io_rel R (recordFailedLogin v u)"
  unfolding recordFailedLogin_def Let_def by (auto intro!: rel_rules rel_save_user)

lemma rel_login_parts:
  "state_io_rel R (loginOrg a c)" "state_io_rel R (verifyUserMFA v a c)"
  "state_io_rel R (login_mfa v u c)"
proof -
  show "state_io_rel R (loginOrg a c)"
    unfolding loginOrg_def by (auto intro!: rel_rules rel_store split: list.splits)
  show m: "state_io_rel R (verifyUserMFA v a c)" for v a
    unfolding verifyUserMFA_def by (auto intro!: rel_rules rel_store split: sum.splits)
  show "state_io_rel R (login_mfa v u c)"
    unfolding login_mfa_def by (auto intro!: rel_rules m)
qed

lemma rel_userHasRole: "state_io_rel R (userHasRole v a b c)"
  unfolding userHasRole_def GetRolesForUser_def by (intro rel_rules)

lemma rel_api_auth: "state_io_rel R (authenticateAPIToken v raw)"
  unfolding authenticateAPIToken_def Let_def
  by (auto intro!: rel_rules rel_store rel_checks rel_userHasRole split: option.splits)

lemma rel_authenticate: "state_io_rel R (AuthenticateToken v raw)"
  unfolding AuthenticateToken_def Let_def
  by (auto intro!: rel_rules rel_store rel_checks rel_api_auth split: sum.splits)

lemma rel_authorize: "state_io_rel R (Authorize v p perm)"
  unfolding Authorize_def authorizeRole_def Enforce_def Let_def by (auto intro!: rel_rules rel_store)

lemma rel_current: "state_io_rel R (CurrentSession v p)" "state_io_rel R (Me p)"
  unfolding CurrentSession_def Me_def Let_def by (auto intro!: rel_rules rel_store rel_checks)

lemma rel_deliver: "state_io_rel R m \<Longrightarrow> state_io_rel R (deliver v n w m)"
  unfolding deliver_def by (auto intro!: rel_rules split: option.splits sum.splits)

lemma rel_forgot: "state_io_rel R (ForgotPassword v a b c)"
  unfolding ForgotPassword_def oneTimeToken_def Let_def
  by (auto intro!: rel_rules rel_store rel_deliver rel_audit split: sum.splits prod.splits)

lemma rel_mfa: "state_io_rel R (SetupMFA v p)" "state_io_rel R (VerifyMFA v p code)"
  unfolding SetupMFA_def VerifyMFA_def mfa_audit_def
  by (auto intro!: rel_found_user rel_save_user rel_rules rel_store rel_audit rel_login_parts split: sum.splits prod.splits)

lemma rel_policies: "state_io_rel R LoadPolicies" "state_io_rel R (addUserRole v i j c)"
  "state_io_rel R (addPolicy v k a b d e f)"
  unfolding LoadPolicies_def addUserRole_def addPolicy_def Let_def by (auto intro!: rel_rules rel_store)

lemma rel_policy_loops:
  "state_io_rel R (add_policies v a b c ps)" "state_io_rel R (check_roles a rs)" "state_io_rel R (add_roles v a d rs)"
proof -
  show "state_io_rel R (add_policies v a b c ps)"
    by (induction ps) (auto intro!: rel_rules rel_policies split: prod.splits)
  show "state_io_rel R (check_roles a rs)" by (induction rs) (auto intro!: rel_rules rel_store)
  show "state_io_rel R (add_roles v a d rs)" by (induction rs) (auto intro!: rel_rules rel_policies)
qed

lemma rel_hydrate: "state_io_rel R (hydrateRolePermissions r)"
  unfolding hydrateRolePermissions_def by (intro rel_rules rel_store)

lemma rel_roles: "state_io_rel R (CreateRole v p a b c ps)" "state_io_rel R (UpdateRole v p i a b pso c d)"
  unfolding CreateRole_def UpdateRole_def Let_def
  by (auto intro!: rel_rules rel_store rel_policies rel_policy_loops rel_hydrate rel_audit split: option.splits)

lemma rel_update_user: "state_io_rel R (UpdateUser v p u st rs a b)"
  unfolding UpdateUser_def update_status_def update_roles_def GetRolesForUser_def Let_def
  by (auto intro!: rel_rules rel_store rel_policies rel_policy_loops rel_audit split: option.splits)

lemma rel_apiTokenView: "state_io_rel R (apiTokenView v t u)"
  unfolding apiTokenView_def Let_def by (auto intro!: rel_rules split: option.splits bool.splits prod.splits)

lemma rel_api_tokens: "state_io_rel R (CreateAPIToken v p u c d e f g)" "state_io_rel R (RevokeAPIToken v p i a b)"
  unfolding CreateAPIToken_def RevokeAPIToken_def issueAPITokenSecret_def Let_def
  by (auto intro!: rel_rules rel_store rel_checks rel_userHasRole rel_audit rel_apiTokenView split: prod.splits)

lemma rel_invitations: "state_io_rel R (InviteUser v p a b c d)" "state_io_rel R (RevokeInvitation v p i a b)"
  unfolding InviteUser_def RevokeInvitation_def oneTimeToken_def Let_def
  by (auto intro!: rel_rules rel_store rel_deliver rel_audit split: prod.splits)

lemma rel_ensureMembership: "state_io_rel R (ensureMembership v i j)"
  unfolding ensureMembership_def by (auto intro!: rel_rules rel_store split: sum.splits)

lemma rel_accept: "state_io_rel R (AcceptInvitation v a b c d e f)"
proof -
  have "state_io_rel R (invited_user v a b c d)" for a b c d
    unfolding invited_user_def Let_def by (auto intro!: rel_rules rel_store split: sum.splits)
  then show ?thesis unfolding AcceptInvitation_def Let_def
    by (auto intro!: rel_rules rel_store rel_WithTx rel_policies rel_audit rel_ensureMembership)
qed

lemma rel_seeds: "state_io_rel R (seed_permissions v ps)" "state_io_rel R (seed_roles v org rs)"
  "state_io_rel R (seed_policies v org kind ps)"
proof -
  show "state_io_rel R (seed_permissions v ps)"
    by (induction ps) (auto intro!: rel_rules rel_store simp: Let_def split: sum.splits)
  show "state_io_rel R (seed_roles v org rs)"
    by (induction rs) (auto intro!: rel_rules rel_store split: sum.splits)
  show "state_io_rel R (seed_policies v org kind ps)"
    by (induction ps) (auto intro!: rel_rules rel_policies simp: Let_def split: prod.splits)
qed

lemma rel_builtins: "state_io_rel R (ensureBuiltins v org kind)"
  unfolding ensureBuiltins_def by (intro rel_rules rel_seeds rel_policies)

lemma rel_absent: "state_io_rel R m \<Longrightarrow> state_io_rel R (absent m)"
  unfolding absent_def by (auto intro!: rel_rules split: sum.splits)

lemma rel_signup_unique: "state_io_rel R (ensureSignupUnique i)"
  unfolding ensureSignupUnique_def by (auto intro!: rel_rules rel_absent rel_store)

lemmas rel_founding = rel_rules rel_store rel_WithTx rel_policies rel_audit rel_ensureMembership rel_builtins rel_absent
  rel_signup_unique

lemma rel_organizations: "state_io_rel R (CreateOrganization v p a b)" "state_io_rel R (UpdateOrganization v p i a b c)"
  unfolding CreateOrganization_def create_org_tx_def UpdateOrganization_def Let_def by (auto intro!: rel_founding)

lemma rel_bootstrap_rows: "state_io_rel R (bootstrap_org v i)" "state_io_rel R (bootstrap_user v i)"
  unfolding bootstrap_org_def bootstrap_user_def Let_def by (auto intro!: rel_founding split: sum.splits)

lemma rel_pending_tx: "state_io_rel R (pending_tx v i)"
  unfolding pending_tx_def Let_def by (auto intro!: rel_founding)

lemma rel_pending_from:
  assumes "\<And>i j k. state_io_rel R (DeletePendingSignup i j k)"
  shows "state_io_rel R (signupWithEmailVerification v i)"
  unfolding signupWithEmailVerification_def send_verification_def Let_def
  by (auto intro!: rel_founding rel_pending_tx assms split: sum.splits option.splits)

lemma rel_setup_status: "state_io_rel R (SetupStatus v)"
  unfolding SetupStatus_def by (auto intro!: rel_founding split: sum.splits)

end

locale iam_relation =
  fixes R :: "Iam \<Rightarrow> Iam \<Rightarrow> bool"
  assumes frame: "same_sessions s t \<Longrightarrow> R s t"
    and composed: "R s t \<Longrightarrow> R t u \<Longrightarrow> R s u"
    and undo: "R s t \<Longrightarrow> R s (t\<lparr>ia_sessions := ia_sessions s\<rparr>)"

sublocale iam_relation \<subseteq> quiet_relation R
  by unfold_locales (auto simp: same_sessions_def intro: frame composed)

context iam_relation
begin

lemma frame_ask: "state_io_rel R (ask f)"
  by (simp add: state_io_rel_def frame same_sessions_def)

lemma frame_statement:
  assumes "\<And>s. same_sessions s (snd (work s))"
  shows "state_io_rel R (statement work)"
  unfolding state_io_rel_def
proof
  fix s
  have "same_sessions s (snd (run_state (statement work) s))"
    using assms [of s] assms [of "s\<lparr>ia_faults := tl (ia_faults s)\<rparr>"]
    by (auto simp: statement_def same_sessions_def split: list.splits option.splits)
  then show "R s (snd (run_state (statement work) s))" by (rule frame)
qed

lemma frame_Create:
  "(\<And>t s. same_sessions s (put t s)) \<Longrightarrow> state_io_rel R (Create table put clash row)"
  unfolding Create_def by (rule frame_statement) (auto simp: same_sessions_def)

lemma frame_Save:
  "(\<And>t s. same_sessions s (put t s)) \<Longrightarrow> state_io_rel R (Save table put key clash row)"
  unfolding Save_def by (rule frame_statement) (auto simp: same_sessions_def)
lemmas row_puts = CreateUser_def CreateMembership_def CreateAPIToken_row_def CreateInvitation_def CreatePasswordReset_def
  CreateMFAFactor_def CreateAuditLog_def CreateRole_row_def CreateOrganization_row_def CreatePermission_def
  CreateEmailVerification_def

lemma frame_creates:
  "state_io_rel R (CreateUser a)" "state_io_rel R (CreateMembership b)" "state_io_rel R (CreateAPIToken_row c)"
  "state_io_rel R (CreateInvitation d)" "state_io_rel R (CreatePasswordReset e)" "state_io_rel R (CreateMFAFactor f)"
  "state_io_rel R (CreateAuditLog g)" "state_io_rel R (CreateRole_row h)" "state_io_rel R (CreateOrganization_row i)"
  "state_io_rel R (CreatePermission j)" "state_io_rel R (CreateEmailVerification k)"
  unfolding row_puts by (rule frame_Create, simp add: same_sessions_def)+

lemma frame_saves:
  "state_io_rel R (SaveUser v a)" "state_io_rel R (SaveMembership v b)" "state_io_rel R (SaveAPIToken v c)"
  "state_io_rel R (SaveInvitation v d)" "state_io_rel R (SavePasswordReset v e)" "state_io_rel R (SaveMFAFactor v f)"
  "state_io_rel R (SaveRole v h)" "state_io_rel R (SaveOrganization v i)" "state_io_rel R (SaveEmailVerification v j)"
  unfolding SaveUser_def SaveMembership_def SaveAPIToken_def SaveInvitation_def SavePasswordReset_def SaveMFAFactor_def
    SaveRole_def SaveOrganization_def SaveEmailVerification_def
  by (intro rel_bind frame_ask frame_Save, simp add: same_sessions_def)+

lemma frame_rules_table:
  "state_io_rel R (DeleteCasbinRules a b c d)" "state_io_rel R (LoadRules rules)" "state_io_rel R (AddCasbinRule rule)"
proof -
  show "state_io_rel R (DeleteCasbinRules a b c d)"
    unfolding DeleteCasbinRules_def by (rule frame_statement) (simp add: same_sessions_def)
  show "state_io_rel R (LoadRules rules)"
    unfolding LoadRules_def state_io_rel_def by (auto intro: frame simp: same_sessions_def split: prod.splits)
  have "state_io_rel R (First ia_rules cb_ID (\<lambda>r. rule_tuple r = rule_tuple rule))"
    unfolding First_def by (rule frame_statement) (simp add: same_sessions_def)
  then show "state_io_rel R (AddCasbinRule rule)"
    unfolding AddCasbinRule_def
    by (intro rel_bind) (auto split: sum.splits intro!: quiet_rules frame_Create simp: same_sessions_def)
qed

lemma frame_delete: "state_io_rel R (DeletePendingSignup i j k)"
  unfolding DeletePendingSignup_def delete_rows_def by (intro rel_attempt frame_statement, simp_all add: same_sessions_def)

lemma frame_rollback: "R s t \<Longrightarrow> R s (rollback s t)"
proof -
  assume "R s t"
  moreover have "same_sessions (t\<lparr>ia_sessions := ia_sessions s\<rparr>) (rollback s t)"
    by (simp add: rollback_def same_sessions_def)
  ultimately show ?thesis using undo frame trans by blast
qed

end

sublocale iam_relation \<subseteq> step_relation R
  by unfold_locales
    (auto intro: frame frame_rollback frame_creates frame_saves frame_rules_table
      simp: same_sessions_def)

interpretation keep: iam_relation same_sessions
  by unfold_locales (auto simp: same_sessions_def)

section \<open>The service as a machine\<close>

text \<open>Every operation of the model as a call; a run is a sequence of calls.\<close>

datatype IamCall =
    C_Captcha | C_Login LoginInput | C_Refresh string string string | C_Logout IamPrincipal
  | C_SwitchOrg IamPrincipal int string string | C_RevokeSession IamPrincipal int | C_AuthenticateToken string
  | C_Authorize IamPrincipal PermissionContext | C_CurrentSession IamPrincipal | C_Me IamPrincipal
  | C_ForgotPassword string string string | C_ResetPassword string string string string
  | C_SetupMFA IamPrincipal | C_VerifyMFA IamPrincipal string
  | C_CreateRole IamPrincipal string string string "string list"
  | C_UpdateRole IamPrincipal int string string "string list option" string string
  | C_UpdateUser IamPrincipal int "string option" "string list option" string string
  | C_CreateAPIToken IamPrincipal int string int string string string
  | C_RevokeAPIToken IamPrincipal int string string
  | C_InviteUser IamPrincipal string string string string | C_RevokeInvitation IamPrincipal int string string
  | C_AcceptInvitation string string string string string string | C_ReloadNotificationRuntime string string
  | C_ReloadRegistrationRuntime string duration | C_SetupStatus | C_InitialAdminSetup InitialAdminSetupInput
  | C_BootstrapAdmin string string string string string string | C_Signup SignupInput
  | C_ConfirmEmailVerification string string string string string | C_CreateOrganization IamPrincipal string string
  | C_UpdateOrganization IamPrincipal int string string string

fun iam_call :: "IamEnv \<Rightarrow> IamCall \<Rightarrow> unit iam" where
  "iam_call v C_Captcha = ignore (Captcha v)"
| "iam_call v (C_Login i) = ignore (Login v i)"
| "iam_call v (C_Refresh a b c) = ignore (Refresh v a b c)"
| "iam_call v (C_Logout p) = ignore (Logout v p)"
| "iam_call v (C_SwitchOrg p i a b) = ignore (SwitchOrg v p i a b)"
| "iam_call v (C_RevokeSession p i) = ignore (RevokeSession v p i)"
| "iam_call v (C_AuthenticateToken a) = ignore (AuthenticateToken v a)"
| "iam_call v (C_Authorize p q) = ignore (Authorize v p q)"
| "iam_call v (C_CurrentSession p) = ignore (CurrentSession v p)"
| "iam_call v (C_Me p) = ignore (Me p)"
| "iam_call v (C_ForgotPassword a b c) = ignore (ForgotPassword v a b c)"
| "iam_call v (C_ResetPassword a b c d) = ignore (ResetPassword v a b c d)"
| "iam_call v (C_SetupMFA p) = ignore (SetupMFA v p)"
| "iam_call v (C_VerifyMFA p a) = ignore (VerifyMFA v p a)"
| "iam_call v (C_CreateRole p a b c ps) = ignore (CreateRole v p a b c ps)"
| "iam_call v (C_UpdateRole p i a b ps c d) = ignore (UpdateRole v p i a b ps c d)"
| "iam_call v (C_UpdateUser p i st rs a b) = ignore (UpdateUser v p i st rs a b)"
| "iam_call v (C_CreateAPIToken p i a d b c e) = ignore (CreateAPIToken v p i a d b c e)"
| "iam_call v (C_RevokeAPIToken p i a b) = ignore (RevokeAPIToken v p i a b)"
| "iam_call v (C_InviteUser p a b c d) = ignore (InviteUser v p a b c d)"
| "iam_call v (C_RevokeInvitation p i a b) = ignore (RevokeInvitation v p i a b)"
| "iam_call v (C_AcceptInvitation a b c d e f) = ignore (AcceptInvitation v a b c d e f)"
| "iam_call v (C_ReloadNotificationRuntime a b) = ReloadNotificationRuntime a b"
| "iam_call v (C_ReloadRegistrationRuntime a d) = ReloadRegistrationRuntime a d"
| "iam_call v C_SetupStatus = ignore (SetupStatus v)"
| "iam_call v (C_InitialAdminSetup i) = ignore (InitialAdminSetup v i)"
| "iam_call v (C_BootstrapAdmin a b c d e f) = ignore (BootstrapAdmin v a b c d e f)"
| "iam_call v (C_Signup i) = ignore (Signup v i)"
| "iam_call v (C_ConfirmEmailVerification a b c d e) = ignore (ConfirmEmailVerification v a b c d e)"
| "iam_call v (C_CreateOrganization p a b) = ignore (CreateOrganization v p a b)"
| "iam_call v (C_UpdateOrganization p i a b c) = ignore (UpdateOrganization v p i a b c)"

fun iam_run :: "IamEnv \<Rightarrow> IamCall list \<Rightarrow> Iam \<Rightarrow> Iam" where
  "iam_run v [] s = s"
| "iam_run v (c # cs) s = iam_run v cs (snd (run_state (iam_call v c) s))"

definition refreshed :: "IamEnv \<Rightarrow> IamSession \<Rightarrow> IssuedTokenPair \<Rightarrow> gotime \<Rightarrow> string \<Rightarrow> string \<Rightarrow> IamSession" where
  "refreshed v session pair now userAgent ip =
     (let c = resolveSessionContext (v_cfg v) (s_ProductCode session) (s_ClientType session)
      in session\<lparr>s_RefreshTokenHash := ip_RefreshTokenHash pair, s_ExpiresAt := ip_RefreshExpiresAt pair,
           s_LastUsedAt := Some now, s_UserAgent := userAgent, s_IPAddress := ip,
           s_ProductCode := sc_ProductCode c, s_ClientType := sc_ClientType c\<rparr>)"

lemma Refresh_eq:
  "Refresh v refreshToken userAgent ip =
     instead iam_ErrInvalidToken (FindSessionByRefreshHash (v_token_hash v (TrimSpace refreshToken))) (\<lambda>session.
     attempt (ensureSessionActive v session) (\<lambda>_.
     instead iam_ErrInvalidToken (FindUserByID (s_UserID session)) (\<lambda>user.
     attempt (ensureUserCanLogin v user) (\<lambda>_.
     instead iam_ErrForbidden (FindMembership (s_OrgID session) (s_UserID session)) (\<lambda>_.
     attempt (ask (\<lambda>n. v_issue v n \<lparr>ts_UserID = u_ID user, ts_OrgID = s_OrgID session, ts_SessionID = s_ID session,
       ts_ProductCode = sc_ProductCode (resolveSessionContext (v_cfg v) (s_ProductCode session) (s_ClientType session))\<rparr>))
     (\<lambda>pair. ask (v_now v) \<bind> (\<lambda>now. attempt (SaveSession v (refreshed v session pair now userAgent ip))
       (\<lambda>_. ok (tokenPair pair (refreshed v session pair now userAgent ip))))))))))"
  unfolding Refresh_def refreshed_def Let_def ..

context iam_relation
begin


lemma step_attempt:
  assumes "state_io_rel same_sessions m" and "same_sessions s0 s"
    and "\<And>x u. run_state m s = (Inr x, u) \<Longrightarrow> same_sessions s0 u \<Longrightarrow> R s0 (snd (run_state (f x) u))"
  shows "R s0 (snd (run_state (attempt m f) s))"
proof -
  obtain r u where m: "run_state m s = (r, u)" by fastforce
  have "same_sessions s u" using assms(1) m by (metis snd_conv state_io_rel_def)
  then have "same_sessions s0 u" using assms(2) same_sessions_trans by blast
  then show ?thesis using assms(3) m frame by (cases r) (auto simp: run_attempt)
qed

lemma step_instead:
  assumes "state_io_rel same_sessions m" and "same_sessions s0 s"
    and "\<And>x u. run_state m s = (Inr x, u) \<Longrightarrow> same_sessions s0 u \<Longrightarrow> R s0 (snd (run_state (f x) u))"
  shows "R s0 (snd (run_state (instead e m f) s))"
proof -
  obtain r u where m: "run_state m s = (r, u)" by fastforce
  have "same_sessions s u" using assms(1) m by (metis snd_conv state_io_rel_def)
  then have "same_sessions s0 u" using assms(2) same_sessions_trans by blast
  then show ?thesis using assms(3) m frame by (cases r) (auto simp: run_instead)
qed

lemma step_ask:
  assumes "same_sessions s0 s" and "\<And>x u. x = h (ia_seq s) \<Longrightarrow> u = s\<lparr>ia_seq := ia_seq s + 1\<rparr> \<Longrightarrow>
    same_sessions s0 u \<Longrightarrow> R s0 (snd (run_state (f x) u))"
  shows "R s0 (snd (run_state (ask h \<bind> f) s))"
proof -
  have "same_sessions s0 (s\<lparr>ia_seq := ia_seq s + 1\<rparr>)" using assms(1) by (simp add: same_sessions_def)
  then show ?thesis using assms(2) by simp
qed

lemma rel_refresh_from:
  assumes refresh: "\<And>session s0 s pair t. session \<in> set (ia_sessions s0) \<Longrightarrow> s_RevokedAt session = None \<Longrightarrow>
      same_sessions s0 s \<Longrightarrow> \<exists>n \<ge> ia_seq s0. \<not> s_ExpiresAt session < v_now v n \<Longrightarrow>
      R s0 (snd (run_state (SaveSession v (refreshed v session pair t b c)) s))"
  shows "state_io_rel R (Refresh v a b c)"
  unfolding state_io_rel_def
proof
  fix s0
  have s0: "same_sessions s0 s0" by (rule keep.refl)
  show "R s0 (snd (run_state (Refresh v a b c) s0))"
    unfolding Refresh_eq
  proof (rule step_instead [OF keep.rel_finds(11) s0], rule step_attempt [OF keep.rel_checks(2)], assumption)
    fix session s1 x s2
    assume f: "run_state (FindSessionByRefreshHash (v_token_hash v (TrimSpace a))) s0 = (Inr session, s1)"
      and "same_sessions s0 s1" and "run_state (ensureSessionActive v session) s1 = (Inr x, s2)" and s2: "same_sessions s0 s2"
    then have live: "s_RevokedAt session = None" "\<exists>n \<ge> ia_seq s0. \<not> s_ExpiresAt session < v_now v n"
      using ensureSessionActive_ok by (auto simp: same_sessions_def)
    have old: "session \<in> set (ia_sessions s0)" using FindSessionByRefreshHash_ok [OF f] by simp
    have save: "R s0 (snd (run_state (attempt (SaveSession v (refreshed v session pair t b c)) (\<lambda>_. ok x)) s))"
      if "same_sessions s0 s" for pair t x s
      using refresh [OF old live(1) that live(2), of pair t] by (auto simp: run_attempt split: prod.splits sum.splits)
    note reads = step_instead [OF keep.rel_finds(3) _] step_attempt [OF keep.rel_checks(1) _]
      step_instead [OF keep.rel_finds(5) _] step_attempt [OF keep.rel_ask _] step_ask
    from s2 show "R s0 (snd (run_state (instead iam_ErrInvalidToken (FindUserByID (s_UserID session)) (\<lambda>user.
     attempt (ensureUserCanLogin v user) (\<lambda>_.
     instead iam_ErrForbidden (FindMembership (s_OrgID session) (s_UserID session)) (\<lambda>_.
     attempt (ask (\<lambda>n. v_issue v n \<lparr>ts_UserID = u_ID user, ts_OrgID = s_OrgID session, ts_SessionID = s_ID session,
       ts_ProductCode = sc_ProductCode (resolveSessionContext (v_cfg v) (s_ProductCode session) (s_ClientType session))\<rparr>))
     (\<lambda>pair. ask (v_now v) \<bind> (\<lambda>now. attempt (SaveSession v (refreshed v session pair now b c))
       (\<lambda>_. ok (tokenPair pair (refreshed v session pair now b c))))))))) s2))"
      by (intro reads save; assumption?)
  qed
qed

end

text \<open>A relation that the three kinds of session writes are in: a new session, a revocation, a refresh; and a signup that
  waits for its verification, which removes its rows when the message cannot be sent.\<close>

locale session_relation = step_relation +
  fixes v :: IamEnv
  assumes new_session: "state_io_rel R (createSessionAndTokens v user org a b c d)"
    and revocation: "state_io_rel R (SaveSession v (session\<lparr>s_RevokedAt := Some now\<rparr>))"
    and rel_refresh: "state_io_rel R (Refresh v a b c)"
    and rel_pending: "state_io_rel R (signupWithEmailVerification v i)"
begin

lemma rel_revoke_loop: "state_io_rel R (revoke_loop v skip now sessions)"
  by (induction sessions) (auto intro!: rel_rules revocation)

lemma rel_session_ops:
  "state_io_rel R (Login v i)" "state_io_rel R (Logout v p)" "state_io_rel R (SwitchOrg v p org a b)"
  "state_io_rel R (RevokeSession v p j)" "state_io_rel R (ResetPassword v a b c d)"
proof -
  show "state_io_rel R (Login v i)" unfolding Login_def Let_def
    by (auto intro!: rel_found_user rel_save_user rel_rules rel_store rel_captcha rel_checks rel_login_parts
        rel_recordFailedLogin new_session rel_audit split: option.splits)
  show "state_io_rel R (Logout v p)" unfolding Logout_def by (intro rel_rules rel_store revocation)
  show "state_io_rel R (SwitchOrg v p org a b)" unfolding SwitchOrg_def by (intro rel_rules rel_store new_session)
  show "state_io_rel R (RevokeSession v p j)" unfolding RevokeSession_def by (auto intro!: rel_rules rel_store revocation)
  show "state_io_rel R (ResetPassword v a b c d)" unfolding ResetPassword_def
    by (auto intro!: rel_found_user rel_save_user rel_rules rel_store rel_audit rel_revoke_loop)
qed

lemma rel_bootstrap: "state_io_rel R (InitialAdminSetup v i)" "state_io_rel R (BootstrapAdmin v a b c d e f)"
proof -
  have "state_io_rel R (bootstrap_tx v i)" for i
    unfolding bootstrap_tx_def Let_def by (auto intro!: rel_founding rel_bootstrap_rows new_session)
  then have "state_io_rel R (bootstrapOwner v i)" for i
    unfolding bootstrapOwner_def Let_def by (auto intro!: rel_rules rel_WithTx)
  then show "state_io_rel R (InitialAdminSetup v i)" "state_io_rel R (BootstrapAdmin v a b c d e f)"
    unfolding InitialAdminSetup_def BootstrapAdmin_def by (auto intro!: rel_founding)
qed

lemma rel_signup: "state_io_rel R (Signup v i)" "state_io_rel R (ConfirmEmailVerification v a b c d e)"
proof -
  have "state_io_rel R (signup_tx v i)" for i
    unfolding signup_tx_def Let_def by (intro rel_founding new_session)
  then have "state_io_rel R (signupDirect v i)"
    unfolding signupDirect_def by (auto intro!: rel_founding split: sum.splits)
  then show "state_io_rel R (Signup v i)"
    unfolding Signup_def by (auto intro!: rel_rules rel_pending)
  have "state_io_rel R (confirm_tx v h b c d e)" for h
    unfolding confirm_tx_def Let_def by (auto intro!: rel_found_user rel_save_user rel_founding new_session)
  then show "state_io_rel R (ConfirmEmailVerification v a b c d e)"
    unfolding ConfirmEmailVerification_def Let_def by (auto intro!: rel_founding)
qed

lemma rel_call: "state_io_rel R (iam_call v c)"
  by (cases c) (auto intro!: rel_settings rel_setup_status rel_bootstrap rel_signup rel_organizations rel_ignore rel_captcha rel_session_ops rel_refresh rel_authenticate rel_authorize rel_current
      rel_forgot rel_mfa rel_roles rel_update_user rel_api_tokens rel_invitations rel_accept rel_reload)

lemma rel_run: "R s (iam_run v cs s)"
proof (induction cs arbitrary: s)
  case Nil
  then show ?case by (simp add: refl)
next
  case (Cons c cs)
  have "R s (snd (run_state (iam_call v c) s))" using rel_call by (simp add: state_io_rel_def)
  then show ?case using Cons trans by simp
qed

end

end
