(* ===== verification/IAM_Sessions.thy ===== *)
theory IAM_Sessions
  imports IAM_Laws
begin

text \<open>
  Sessions of the identity service: a revoked session stays revoked whatever is called afterwards, a refresh
  replaces the refresh token, and a password reset ends the sessions of its user.
\<close>

section \<open>Saving a session\<close>

definition session_ids :: "Iam \<Rightarrow> bool" where
  "session_ids s \<longleftrightarrow> distinct (map s_ID (ia_sessions s))"

lemma same_id_same_row:
  "session_ids s \<Longrightarrow> r \<in> set (ia_sessions s) \<Longrightarrow> r' \<in> set (ia_sessions s) \<Longrightarrow> s_ID r = s_ID r' \<Longrightarrow> r = r'"
  by (auto simp: session_ids_def distinct_map inj_on_def)

lemma replaced_ids: "s_ID row' = s_ID row \<Longrightarrow> map s_ID (map (\<lambda>x. if s_ID x = s_ID row then row' else x) rows) = map s_ID rows"
  by (induction rows) auto

lemma rel_ran: "state_io_rel R m \<Longrightarrow> run_state m s = (r, t) \<Longrightarrow> R s t"
  by (metis snd_conv state_io_rel_def)

lemma run_in: "(\<And>r t. run_state m s = (r, t) \<Longrightarrow> P t) \<Longrightarrow> P (snd (run_state m s))"
  by (metis prod.collapse)

text \<open>What a \<open>SaveSession\<close> does to the table of the state it starts in.\<close>

lemma SaveSession_run:
  assumes "run_state (SaveSession v row) s = (r, t)"
  obtains (failed) e where "r = Inl e" "same_sessions s t"
  | (saved) now where "r = Inr ()" "now = v_wall v (ia_seq s)" "ia_seq s \<le> ia_seq t"
      "ia_sessions t = (if s_ID row \<in> s_ID ` set (ia_sessions s)
         then map (\<lambda>x. if s_ID x = s_ID row then row\<lparr>s_UpdatedAt := now\<rparr> else x) (ia_sessions s)
         else ia_sessions s @ [row\<lparr>s_UpdatedAt := now\<rparr>])"
proof -
  let ?row = "row\<lparr>s_UpdatedAt := v_wall v (ia_seq s)\<rparr>" and ?s = "s\<lparr>ia_seq := Suc (ia_seq s)\<rparr>"
  have "run_state (Save ia_sessions (\<lambda>t s. s\<lparr>ia_sessions := t\<rparr>) s_ID session_clash ?row) ?s = (r, t)"
    using assms by (simp add: SaveSession_def)
  then show ?thesis
  proof (cases rule: Save_run)
    case (failed e)
    then show ?thesis using that(1) same_dataD(5,13) [of ?s t] by (simp add: same_sessions_def)
  next
    case (replaced u)
    have "ia_sessions u = ia_sessions s" "ia_seq s \<le> ia_seq u" using same_dataD(5,13) [OF replaced(2)] by simp_all
    moreover from this(1) have "s_ID row \<in> s_ID ` set (ia_sessions s)" using replaced(5) by (auto intro: rev_image_eqI)
    ultimately show ?thesis using replaced(1,3) by (intro that(2) [OF _ refl]) simp_all
  next
    case (inserted u)
    have "ia_sessions u = ia_sessions s" "ia_seq s \<le> ia_seq u" using same_dataD(5,13) [OF inserted(2)] by simp_all
    moreover from this(1) have "s_ID row \<notin> s_ID ` set (ia_sessions s)" using inserted(4) by auto
    ultimately show ?thesis using inserted(1,3) by (intro that(2) [OF _ refl]) simp_all
  qed
qed

lemma SaveSession_saved:
  assumes "run_state (SaveSession v row) s = (Inr x, t)"
  shows "row\<lparr>s_UpdatedAt := v_wall v (ia_seq s)\<rparr> \<in> set (ia_sessions t)"
  using assms
proof (cases rule: SaveSession_run)
  case (saved now)
  show ?thesis
  proof (cases "s_ID row \<in> s_ID ` set (ia_sessions s)")
    case True
    then obtain y where "y \<in> set (ia_sessions s)" "s_ID y = s_ID row" by force
    then show ?thesis using saved True by (auto intro: rev_image_eqI)
  qed (use saved in simp)
qed simp

lemma CreateSession_run:
  assumes "run_state (CreateSession row) s = (r, t)"
  obtains (failed) e where "r = Inl e" "same_sessions s t"
  | (created) "r = Inr ()" "ia_sessions t = ia_sessions s @ [row]" "ia_seq s \<le> ia_seq t"
      "\<forall>x \<in> set (ia_sessions s). s_ID x \<noteq> s_ID row \<and> s_RefreshTokenHash x \<noteq> s_RefreshTokenHash row"
  using assms [unfolded CreateSession_def]
proof (cases rule: Create_run)
  case (failed e)
  then show ?thesis using that(1) same_dataD(5,13) by (simp add: same_sessions_def)
next
  case (created u)
  then show ?thesis using same_dataD(5,13) [of s u] by (intro that(2)) (auto simp: session_clash_def)
qed

section \<open>Revoked sessions\<close>

definition dead_session :: "int \<Rightarrow> Iam \<Rightarrow> bool" where
  "dead_session i s \<longleftrightarrow> session_ids s \<and> (\<exists>r \<in> set (ia_sessions s). s_ID r = i \<and> s_RevokedAt r \<noteq> None)"

definition keeps_dead :: "Iam \<Rightarrow> Iam \<Rightarrow> bool" where
  "keeps_dead s t \<longleftrightarrow> (session_ids s \<longrightarrow> session_ids t) \<and> (\<forall>i. dead_session i s \<longrightarrow> dead_session i t)"

lemma keeps_dead_save:
  assumes "run_state (SaveSession v row) s = (r, t)"
    and "s_RevokedAt row = None \<Longrightarrow> session_ids s \<Longrightarrow> \<not> dead_session (s_ID row) s"
  shows "keeps_dead s t"
  using assms(1)
proof (cases rule: SaveSession_run)
  case (failed e)
  then show ?thesis by (simp add: keeps_dead_def dead_session_def session_ids_def same_sessions_def)
next
  case (saved now)
  have ids: "session_ids s \<Longrightarrow> session_ids t"
    using saved(4) replaced_ids [of "row\<lparr>s_UpdatedAt := now\<rparr>" row "ia_sessions s"]
    by (cases "s_ID row \<in> s_ID ` set (ia_sessions s)") (simp_all add: session_ids_def del: list.map_comp map_eq_conv)
  have "dead_session i t" if "dead_session i s" for i
  proof -
    obtain x where x: "x \<in> set (ia_sessions s)" "s_ID x = i" "s_RevokedAt x \<noteq> None" and ws: "session_ids s"
      using \<open>dead_session i s\<close> unfolding dead_session_def by blast
    show ?thesis
    proof (cases "s_ID row = i")
      case True
      then have "s_RevokedAt row \<noteq> None" using assms(2) that ws by blast
      moreover have "row\<lparr>s_UpdatedAt := now\<rparr> \<in> set (ia_sessions t)" using saved(4) x True by (force simp: image_iff)
      ultimately show ?thesis using True ids [OF ws] unfolding dead_session_def
        by (intro conjI bexI [of _ "row\<lparr>s_UpdatedAt := now\<rparr>"]) simp_all
    next
      case False
      then have "x \<in> set (ia_sessions t)" using saved(4) x by (auto simp: image_iff)
      then show ?thesis using x ids [OF ws] unfolding dead_session_def by blast
    qed
  qed
  then show ?thesis using ids by (simp add: keeps_dead_def)
qed

lemma keeps_dead_create:
  assumes "run_state (CreateSession row) s = (r, t)"
  shows "keeps_dead s t"
  using assms
proof (cases rule: CreateSession_run)
  case (failed e)
  then show ?thesis by (simp add: keeps_dead_def dead_session_def session_ids_def same_sessions_def)
next
  case created
  then show ?thesis by (auto simp: keeps_dead_def dead_session_def session_ids_def)
qed

interpretation dead: iam_relation keeps_dead
  by unfold_locales (auto simp: keeps_dead_def dead_session_def session_ids_def same_sessions_def)

interpretation revoked: session_relation keeps_dead v
proof
  show "state_io_rel keeps_dead (signupWithEmailVerification v i)" for i
    by (rule dead.rel_pending_from, rule dead.frame_delete)
  show revocation: "state_io_rel keeps_dead (SaveSession v (session\<lparr>s_RevokedAt := Some now\<rparr>))" for session now
    unfolding state_io_rel_def using keeps_dead_save by (metis (no_types, lifting) IamSession.select_convs(10)
        IamSession.surjective IamSession.update_convs(10) option.distinct(1) prod.collapse)
  have loop: "state_io_rel keeps_dead (revoke_loop v skip now sessions)" for skip now sessions
    by (induction sessions) (auto intro!: dead.rel_rules revocation)
  have create: "state_io_rel keeps_dead (CreateSession row)" for row
    unfolding state_io_rel_def using keeps_dead_create by (metis prod.collapse)
  show "state_io_rel keeps_dead (createSessionAndTokens v user org a b c d)" for user org a b c d
    unfolding createSessionAndTokens_def revokeActiveSessionsForContext_def Let_def
    by (intro dead.rel_rules create) (auto intro!: dead.rel_rules dead.rel_store loop create)
  show "state_io_rel keeps_dead (Refresh v token ua ip)" for token ua ip
  proof (rule dead.rel_refresh_from)
    fix session s0 s pair t
    assume session: "session \<in> set (ia_sessions s0)" "s_RevokedAt session = None" "same_sessions s0 s"
    then have "session \<in> set (ia_sessions s)" by (simp add: same_sessions_def)
    then have "\<not> dead_session (s_ID session) s" if "session_ids s"
      using same_id_same_row that session(2) unfolding dead_session_def by metis
    then have "keeps_dead s (snd (run_state (SaveSession v (refreshed v session pair t ua ip)) s))"
      by (intro run_in [where P = "keeps_dead s"] keeps_dead_save) (assumption, simp add: refreshed_def Let_def)
    then show "keeps_dead s0 (snd (run_state (SaveSession v (refreshed v session pair t ua ip)) s))"
      using session(3) by (meson dead.frame dead.trans)
  qed
qed

section \<open>What needs a live session\<close>

lemma bound_ok:
  assumes "run_state (m \<bind> f) s = (r, t)"
  obtains x u where "run_state m s = (x, u)" "run_state (f x) u = (r, t)"
  using assms by (auto split: prod.splits)

lemma same_data_reads:
  "run_state (First table order p) s = (r, t) \<Longrightarrow> same_data s t"
  using First_run by blast

lemma authenticateAPIToken_session:
  "run_state (authenticateAPIToken v raw) s = (Inr p, t) \<Longrightarrow> p_SessionID p = 0"
  unfolding authenticateAPIToken_def Let_def
  by (auto simp: run_ignore split: if_splits elim!: attempt_ok instead_ok bound_ok)

lemma AuthenticateToken_session:
  assumes "run_state (AuthenticateToken v raw) s = (Inr p, t)"
  shows "p_SessionID p = 0 \<or> (\<exists>r \<in> set (ia_sessions s). s_ID r = p_SessionID p \<and> s_RevokedAt r = None)"
proof -
  let ?s = "s\<lparr>ia_seq := Suc (ia_seq s)\<rparr>"
  show ?thesis
  proof (cases "v_parse v (ia_seq s) raw")
    case (Inl e)
    then show ?thesis using assms authenticateAPIToken_session by (simp add: AuthenticateToken_def)
  next
    case (Inr claims)
    from assms obtain session u u' where f: "run_state (FindSessionByID (tc_SessionID claims)) ?s = (Inr session, u)"
      "run_state (ensureSessionActive v session) u = (Inr (), u')" "p_SessionID p = s_ID session"
      unfolding AuthenticateToken_def Let_def
      by (auto simp: Inr split: if_splits elim!: attempt_ok instead_ok)
    then show ?thesis using FindSessionByID_ok [OF f(1)] ensureSessionActive_ok [OF f(2)] by auto
  qed
qed

lemma CurrentSession_session:
  assumes "run_state (CurrentSession v p) s = (Inr snap, t)"
  shows "\<exists>r \<in> set (ia_sessions s). s_ID r = p_SessionID p \<and> s_RevokedAt r = None"
proof -
  from assms obtain session u u' where f: "run_state (FindSessionByID (p_SessionID p)) s = (Inr session, u)"
      "run_state (ensureSessionActive v session) u = (Inr (), u')"
    unfolding CurrentSession_def Let_def by (auto elim!: attempt_ok instead_ok)
  then show ?thesis using FindSessionByID_ok [OF f(1)] ensureSessionActive_ok [OF f(2)] by auto
qed

text \<open>A refresh that succeeds, taken apart.\<close>

lemma Refresh_ok:
  assumes "run_state (Refresh v token ua ip) s = (Inr pair, t)"
  obtains session u1 x u2 user u3 y u4 m u5 issued u6 now u7 u8 where
    "run_state (FindSessionByRefreshHash (v_token_hash v (TrimSpace token))) s = (Inr session, u1)"
    "run_state (ensureSessionActive v session) u1 = (Inr x, u2)"
    "run_state (FindUserByID (s_UserID session)) u2 = (Inr user, u3)"
    "run_state (ensureUserCanLogin v user) u3 = (Inr y, u4)"
    "run_state (FindMembership (s_OrgID session) (s_UserID session)) u4 = (Inr m, u5)"
    "run_state (ask (\<lambda>n. v_issue v n \<lparr>ts_UserID = u_ID user, ts_OrgID = s_OrgID session, ts_SessionID = s_ID session,
       ts_ProductCode = sc_ProductCode (resolveSessionContext (v_cfg v) (s_ProductCode session) (s_ClientType session))\<rparr>)) u5 =
       (Inr issued, u6)"
    "run_state (ask (v_now v)) u6 = (now, u7)"
    "run_state (SaveSession v (refreshed v session issued now ua ip)) u7 = (Inr (), u8)"
    "t = u8" "pair = tokenPair issued (refreshed v session issued now ua ip)"
  using assms unfolding Refresh_eq
  by (elim instead_ok attempt_ok bound_ok) (rule that, assumption+, simp_all)

lemma Refresh_session:
  assumes "run_state (Refresh v token ua ip) s = (Inr pair, t)"
  shows "\<exists>r \<in> set (ia_sessions s). s_ID r = tp_SessionID pair \<and> s_RevokedAt r = None"
  using assms
proof (cases rule: Refresh_ok)
  case (1 session u1 x u2 user u3 y u4 m u5 issued u6 now u7 u8)
  then show ?thesis using FindSessionByRefreshHash_ok [OF 1(1)] ensureSessionActive_ok [OF 1(2)]
    by (auto simp: tokenPair_def refreshed_def Let_def)
qed

definition no_answer_for :: "IamEnv \<Rightarrow> int \<Rightarrow> Iam \<Rightarrow> bool" where
  "no_answer_for v i s \<longleftrightarrow>
     (\<forall>raw p t. run_state (AuthenticateToken v raw) s = (Inr p, t) \<longrightarrow> p_SessionID p \<noteq> i) \<and>
     (\<forall>p snap t. run_state (CurrentSession v p) s = (Inr snap, t) \<longrightarrow> p_SessionID p \<noteq> i) \<and>
     (\<forall>token ua ip pair t. run_state (Refresh v token ua ip) s = (Inr pair, t) \<longrightarrow> tp_SessionID pair \<noteq> i)"

lemma dead_no_answer:
  assumes "dead_session i s" and "i \<noteq> 0"
  shows "no_answer_for v i s"
proof -
  obtain r where r: "r \<in> set (ia_sessions s)" "s_ID r = i" "s_RevokedAt r \<noteq> None" and ids: "session_ids s"
    using assms(1) unfolding dead_session_def by blast
  have no: "\<not> (\<exists>r' \<in> set (ia_sessions s). s_ID r' = i \<and> s_RevokedAt r' = None)"
  proof clarify
    fix r'
    assume "r' \<in> set (ia_sessions s)" "i = s_ID r'" "s_RevokedAt r' = None"
    moreover from this have "r' = r" using same_id_same_row [OF ids _ r(1)] r(2) by simp
    ultimately show False using r(3) by simp
  qed
  show ?thesis
    unfolding no_answer_for_def
  proof (intro conjI allI impI notI)
    show False if "run_state (AuthenticateToken v raw) s = (Inr p, t)" "p_SessionID p = i" for raw p t
      using AuthenticateToken_session [OF that(1)] that(2) assms(2) no by simp
    show False if "run_state (CurrentSession v p) s = (Inr snap, t)" "p_SessionID p = i" for p snap t
      using CurrentSession_session [OF that(1)] that(2) no by simp
    show False if "run_state (Refresh v token ua ip) s = (Inr pair, t)" "tp_SessionID pair = i" for token ua ip pair t
      using no Refresh_session [OF that(1), unfolded that(2)] by meson
  qed
qed

lemma dead_for_good:
  assumes "dead_session i s" and "i \<noteq> 0"
  shows "no_answer_for v i (iam_run v calls s)"
proof -
  have "keeps_dead s (iam_run v calls s)" by (rule revoked.rel_run)
  then show ?thesis using dead_no_answer assms unfolding keeps_dead_def by blast
qed

section \<open>Logout\<close>

lemma revoked_row_dead:
  assumes "run_state (SaveSession v (session\<lparr>s_RevokedAt := Some now\<rparr>)) s = (Inr (), t)" and "session_ids s"
  shows "dead_session (s_ID session) t"
proof -
  have "keeps_dead s t" by (rule rel_ran [OF revoked.revocation assms(1)])
  then have "session_ids t" using assms(2) by (simp add: keeps_dead_def)
  then show ?thesis unfolding dead_session_def
    by (intro conjI bexI [OF _ SaveSession_saved [OF assms(1)]]) simp_all
qed

lemma Logout_dead:
  assumes "run_state (Logout v p) s = (Inr (), t)" and "session_ids s"
  shows "dead_session (p_SessionID p) t"
proof -
  from assms(1) obtain session u where f: "run_state (FindSessionByID (p_SessionID p)) s = (Inr session, u)"
      "run_state (SaveSession v (session\<lparr>s_RevokedAt := Some (v_now v (ia_seq u))\<rparr>)) (u\<lparr>ia_seq := Suc (ia_seq u)\<rparr>) = (Inr (), t)"
    unfolding Logout_def by (auto elim!: instead_ok)
  have "s_ID session = p_SessionID p" "session_ids (u\<lparr>ia_seq := Suc (ia_seq u)\<rparr>)"
    using FindSessionByID_ok [OF f(1)] assms(2) same_dataD(5) by (auto simp: session_ids_def)
  then show ?thesis using revoked_row_dead [OF f(2)] by simp
qed

section \<open>Rotation of the refresh token\<close>

definition session_keys :: "Iam \<Rightarrow> bool" where
  "session_keys s \<longleftrightarrow> session_ids s \<and> distinct (map s_RefreshTokenHash (ia_sessions s))"

lemma unknown_refresh_token:
  assumes "\<forall>r \<in> set (ia_sessions s). s_RefreshTokenHash r \<noteq> v_token_hash v (TrimSpace token)"
  shows "fst (run_state (Refresh v token ua ip) s) = Inl iam_ErrInvalidToken"
proof -
  obtain r t where r: "run_state (FindSessionByRefreshHash (v_token_hash v (TrimSpace token))) s = (r, t)" by fastforce
  have "\<exists>e. r = Inl e"
  proof (cases r)
    case (Inr x)
    then show ?thesis using FindSessionByRefreshHash_ok r assms by blast
  qed simp
  then show ?thesis using r by (auto simp: Refresh_eq run_instead)
qed

lemma Refresh_rotated:
  assumes "run_state (Refresh v token ua ip) s = (Inr pair, t)" and "session_keys s"
    and issued: "\<And>n subject issued. v_issue v n subject = Inr issued \<Longrightarrow> ip_RefreshTokenHash issued \<noteq> v_token_hash v (TrimSpace token)"
  shows "\<forall>r \<in> set (ia_sessions t). s_RefreshTokenHash r \<noteq> v_token_hash v (TrimSpace token)"
  using assms(1)
proof (cases rule: Refresh_ok)
  case (1 session u1 x u2 user u3 y u4 m u5 issued' u6 now u7 u8)
  let ?row = "refreshed v session issued' now ua ip"
  have new: "s_ID ?row = s_ID session" "s_RefreshTokenHash ?row = ip_RefreshTokenHash issued'"
    by (simp_all add: refreshed_def Let_def)
  have old: "session \<in> set (ia_sessions s)" "s_RefreshTokenHash session = v_token_hash v (TrimSpace token)"
    using FindSessionByRefreshHash_ok [OF 1(1)] by simp_all
  have "same_sessions s u7"
    using 1(1-7) keep.rel_finds(11) keep.rel_checks keep.rel_finds(3,5) keep.rel_ask rel_ran same_sessions_trans by metis
  then have same: "ia_sessions u7 = ia_sessions s" by (simp add: same_sessions_def)
  have hash: "s_RefreshTokenHash ?row \<noteq> v_token_hash v (TrimSpace token)" using issued 1(6) new(2) by auto
  have other: "s_RefreshTokenHash r \<noteq> v_token_hash v (TrimSpace token)"
    if "r \<in> set (ia_sessions s)" "s_ID r \<noteq> s_ID session" for r
    using assms(2) that old by (auto simp: session_keys_def distinct_map inj_on_def)
  from 1(8) show ?thesis
  proof (cases rule: SaveSession_run)
    case (saved w)
    have "s_ID ?row \<in> s_ID ` set (ia_sessions u7)" using same old new by auto
    then have "ia_sessions t = map (\<lambda>x. if s_ID x = s_ID session then ?row\<lparr>s_UpdatedAt := w\<rparr> else x) (ia_sessions s)"
      using saved(4) same new 1(9) by simp
    then show ?thesis using hash other by auto
  qed simp
qed

section \<open>A password reset ends the sessions\<close>

lemma revoke_loop_dead:
  assumes "run_state (revoke_loop v (\<lambda>s. s_RevokedAt s \<noteq> None) now sessions) s = (Inr (), t)" and "session_ids s"
    and "\<forall>r \<in> set sessions. s_RevokedAt r \<noteq> None \<longrightarrow> dead_session (s_ID r) s"
  shows "\<forall>r \<in> set sessions. dead_session (s_ID r) t"
  using assms
proof (induction sessions arbitrary: s)
  case (Cons r rs)
  show ?case
  proof (cases "s_RevokedAt r = None")
    case True
    then obtain x u where save: "run_state (SaveSession v (r\<lparr>s_RevokedAt := Some now\<rparr>)) s = (Inr x, u)"
      and rest: "run_state (revoke_loop v (\<lambda>s. s_RevokedAt s \<noteq> None) now rs) u = (Inr (), t)"
      using Cons.prems(1) by (auto elim!: attempt_ok)
    have keeps: "keeps_dead s u" by (rule rel_ran [OF revoked.revocation save])
    then have ids: "session_ids u" using Cons.prems(2) by (simp add: keeps_dead_def)
    have "\<forall>r \<in> set rs. s_RevokedAt r \<noteq> None \<longrightarrow> dead_session (s_ID r) u"
      using Cons.prems(3) keeps by (simp add: keeps_dead_def)
    then have "\<forall>r \<in> set rs. dead_session (s_ID r) t" by (rule Cons.IH [OF rest ids])
    moreover have "keeps_dead u t" by (rule rel_ran [OF revoked.rel_revoke_loop rest])
    then have "dead_session (s_ID r) t" using revoked_row_dead [of v now r] save Cons.prems(2) by (simp add: keeps_dead_def)
    ultimately show ?thesis by simp
  next
    case False
    then have rest: "run_state (revoke_loop v (\<lambda>s. s_RevokedAt s \<noteq> None) now rs) s = (Inr (), t)"
      using Cons.prems(1) by simp
    have "keeps_dead s t" by (rule rel_ran [OF revoked.rel_revoke_loop rest])
    then have "dead_session (s_ID r) t" using False Cons.prems(3) by (simp add: keeps_dead_def)
    then show ?thesis using Cons.IH [OF rest Cons.prems(2)] Cons.prems(3) by simp
  qed
qed simp

lemma ListSessionsByUser_ok:
  assumes "run_state (ListSessionsByUser i) s = (Inr rows, t)"
  shows "set rows = {r \<in> set (ia_sessions s). s_UserID r = i}" "same_data s t"
  using Find_run [OF assms [unfolded ListSessionsByUser_def]] by (auto dest: same_dataD(5))

lemma FindUserByID_ok:
  assumes "run_state (FindUserByID i) s = (Inr u, t)"
  shows "u \<in> set (ia_users s) \<and> u_ID u = i \<and> u_DeletedAt u = None \<and> same_data s t"
  using First_ok [OF assms [unfolded FindUserByID_def]] same_dataD by metis

lemma FindPasswordResetByTokenHash_ok:
  assumes "run_state (FindPasswordResetByTokenHash h) s = (Inr r, t)"
  shows "r \<in> set (ia_resets s) \<and> pr_TokenHash r = h \<and> same_data s t"
  using First_ok [OF assms [unfolded FindPasswordResetByTokenHash_def]] same_dataD by metis

lemma same_data_sessions: "same_data s t \<Longrightarrow> same_sessions s t"
  by (simp add: same_sessions_def same_dataD)

lemma ResetPassword_ok:
  assumes "run_state (ResetPassword v token password ua ip) s = (Inr (), t)"
  obtains reset u1 x u2 user u3 hash u4 u5 now u6 u7 rows u8 u9 where
    "run_state (FindPasswordResetByTokenHash (v_token_hash v (TrimSpace token))) s = (Inr reset, u1)"
    "run_state (if pr_Status reset \<noteq> StatusPending then throw iam_ErrInvalidToken
        else do { now \<leftarrow> ask (v_now v); if pr_ExpiresAt reset < now then throw iam_ErrInvalidToken else ok () }) u1 = (Inr x, u2)"
    "validatePassword (v_class v) (v_cfg v) password = None"
    "run_state (FindUserByID (pr_UserID reset)) u2 = (Inr user, u3)"
    "run_state (ask (\<lambda>n. v_hash v n password)) u3 = (Inr hash, u4)"
    "run_state (SaveUser v (user\<lparr>u_PasswordHash := hash, u_FailedLoginAttempts := 0, u_LockedUntil := None\<rparr>)) u4 = (Inr (), u5)"
    "run_state (ask (v_now v)) u5 = (now, u6)"
    "run_state (SavePasswordReset v (reset\<lparr>pr_Status := StatusUsed, pr_UsedAt := Some now\<rparr>)) u6 = (Inr (), u7)"
    "run_state (ListSessionsByUser (u_ID user)) u7 = (Inr rows, u8)"
    "run_state (revoke_loop v (\<lambda>s. s_RevokedAt s \<noteq> None) now rows) u8 = (Inr (), u9)"
    "run_state (audit v None (Some (u_ID user)) ''password.reset'' ''password_reset'' (FormatInt (pr_ID reset)) ip ua []
       ([], [])) u9 = (Inr (), t)"
  using assms unfolding ResetPassword_def
  by (elim instead_ok attempt_ok bound_ok) (frule require_ok(1), drule require_ok(2),
      elim instead_ok attempt_ok bound_ok, rule that, assumption+, simp_all)

lemma ResetPassword_dead:
  assumes "run_state (ResetPassword v token password ua ip) s = (Inr (), t)" and "session_ids s"
  shows "\<exists>reset \<in> set (ia_resets s). pr_TokenHash reset = v_token_hash v (TrimSpace token) \<and> pr_Status reset = StatusPending \<and>
    (\<forall>r \<in> set (ia_sessions s). s_UserID r = pr_UserID reset \<longrightarrow> dead_session (s_ID r) t)"
  using assms(1)
proof (cases rule: ResetPassword_ok)
  case (1 reset u1 x u2 user u3 hash u4 u5 now u6 u7 rows u8 u9)
  have reset: "reset \<in> set (ia_resets s)" "pr_TokenHash reset = v_token_hash v (TrimSpace token)" "same_data s u1"
    using FindPasswordResetByTokenHash_ok [OF 1(1)] by simp_all
  have pending: "pr_Status reset = StatusPending" "same_sessions u1 u2"
    using 1(2) by (auto simp: same_sessions_def split: if_splits)
  have "same_sessions s u7"
    using same_data_sessions [OF reset(3)] pending(2) rel_ran [OF keep.rel_finds(3) 1(4)] rel_ran [OF keep.rel_ask 1(5)]
      rel_ran [OF keep.frame_saves(1) 1(6)] rel_ran [OF keep.rel_ask 1(7)] rel_ran [OF keep.rel_saves(4) 1(8)]
      same_sessions_trans by meson
  then have u7: "ia_sessions u7 = ia_sessions s" by (simp add: same_sessions_def)
  have u8: "ia_sessions u8 = ia_sessions s" using ListSessionsByUser_ok(2) [OF 1(9)] u7 by (simp add: same_dataD)
  have rows: "set rows = {r \<in> set (ia_sessions s). s_UserID r = pr_UserID reset}"
    using ListSessionsByUser_ok(1) [OF 1(9)] u7 FindUserByID_ok [OF 1(4)] by simp
  have "session_ids u8" using assms(2) u8 by (simp add: session_ids_def)
  moreover have "\<forall>r \<in> set rows. s_RevokedAt r \<noteq> None \<longrightarrow> dead_session (s_ID r) u8"
    using rows u8 calculation by (auto simp: dead_session_def)
  ultimately have "\<forall>r \<in> set rows. dead_session (s_ID r) u9" by (rule revoke_loop_dead [OF 1(10)])
  moreover have "keeps_dead u9 t" by (rule rel_ran [OF dead.rel_audit 1(11)])
  ultimately have "\<forall>r \<in> set (ia_sessions s). s_UserID r = pr_UserID reset \<longrightarrow> dead_session (s_ID r) t"
    using rows by (simp add: keeps_dead_def)
  then show ?thesis using reset pending by blast
qed

end
