(* ===== verification/IAM_Tables.thy ===== *)
theory IAM_Tables
  imports IAM_Sessions
begin

text \<open>
  The unique indexes of the tables: no operation leaves two rows that clash, so the hypotheses about identifiers,
  names and hashes that other theorems need hold in every state the service reaches.
\<close>

section \<open>Tables without clashes\<close>

definition unique_rows :: "('r \<Rightarrow> 'r \<Rightarrow> bool) \<Rightarrow> 'r list \<Rightarrow> bool" where
  "unique_rows clash rows \<longleftrightarrow> sorted_wrt (\<lambda>a b. \<not> clash a b) rows"

lemma unique_rows_append:
  "unique_rows clash (rows @ [row]) \<longleftrightarrow> unique_rows clash rows \<and> (\<forall>x \<in> set rows. \<not> clash x row)"
  by (auto simp: unique_rows_def sorted_wrt_append)

lemma unique_rows_replace:
  assumes "unique_rows clash rows" and "symp clash" and "\<And>a b. key a = key b \<Longrightarrow> clash a b"
    and "\<forall>x \<in> set rows. key x \<noteq> key row \<longrightarrow> \<not> clash row x"
  shows "unique_rows clash (map (\<lambda>x. if key x = key row then row else x) rows)"
proof -
  have "sorted_wrt (\<lambda>a b. \<not> clash (if key a = key row then row else a) (if key b = key row then row else b)) rows"
  proof (rule sorted_wrt_mono_rel [of rows "\<lambda>a b. \<not> clash a b"])
    fix a b
    assume ab: "a \<in> set rows" "b \<in> set rows" "\<not> clash a b"
    then have "key a \<noteq> key b" using assms(3) by blast
    then show "\<not> clash (if key a = key row then row else a) (if key b = key row then row else b)"
      using ab assms(2,4) by (auto dest: sympD)
  qed (use assms(1) in \<open>simp add: unique_rows_def\<close>)
  then show ?thesis by (simp add: unique_rows_def sorted_wrt_map)
qed

lemma unique_rows_distinct:
  "unique_rows clash rows \<Longrightarrow> (\<And>a b. f a = f b \<Longrightarrow> clash a b) \<Longrightarrow> distinct (map f rows)"
  by (induction rows) (auto simp: unique_rows_def)

lemma unique_rows_equal:
  "unique_rows clash rows \<Longrightarrow> symp clash \<Longrightarrow> a \<in> set rows \<Longrightarrow> b \<in> set rows \<Longrightarrow> clash a b \<Longrightarrow> a = b"
  by (induction rows) (auto simp: unique_rows_def dest: sympD)

lemma clash_sym: "symp user_clash" "symp membership_clash" "symp role_clash" "symp session_clash" "symp token_clash"
  "symp invitation_clash" "symp reset_clash" "symp factor_clash" "symp audit_clash" "symp rule_clash" "symp org_clash"
  "symp permission_clash" "symp verification_clash"
  by (rule sympI, auto simp: user_clash_def membership_clash_def role_clash_def session_clash_def token_clash_def
      invitation_clash_def reset_clash_def factor_clash_def audit_clash_def rule_clash_def org_clash_def permission_clash_def
      verification_clash_def)+

definition tables_unique :: "Iam \<Rightarrow> bool" where
  "tables_unique s \<longleftrightarrow> unique_rows user_clash (ia_users s) \<and> unique_rows membership_clash (ia_memberships s) \<and>
     unique_rows role_clash (ia_roles s) \<and> unique_rows session_clash (ia_sessions s) \<and> unique_rows token_clash (ia_tokens s) \<and>
     unique_rows invitation_clash (ia_invitations s) \<and> unique_rows reset_clash (ia_resets s) \<and>
     unique_rows factor_clash (ia_factors s) \<and> unique_rows audit_clash (ia_audit s) \<and> unique_rows rule_clash (ia_rules s) \<and>
     unique_rows org_clash (ia_orgs s) \<and> unique_rows permission_clash (ia_permissions s) \<and>
     unique_rows verification_clash (ia_verifications s)"

definition keeps_unique :: "Iam \<Rightarrow> Iam \<Rightarrow> bool" where
  "keeps_unique s t \<longleftrightarrow> (tables_unique s \<longrightarrow> tables_unique t)"

lemma same_data_unique: "same_data s t \<Longrightarrow> tables_unique t \<longleftrightarrow> tables_unique s"
  by (cases s; cases t) (simp add: tables_unique_def same_data_def)

section \<open>Every operation keeps them\<close>

lemma Create_unique:
  assumes "symp clash" and "\<And>s. tables_unique s \<Longrightarrow> unique_rows clash (table s)"
    and "\<And>rows s. tables_unique s \<Longrightarrow> unique_rows clash rows \<Longrightarrow> tables_unique (put rows s)"
  shows "state_io_rel keeps_unique (Create table put clash row)"
  unfolding state_io_rel_def
proof
  fix s
  obtain r t where run: "run_state (Create table put clash row) s = (r, t)" by fastforce
  then have "keeps_unique s t"
  proof (cases rule: Create_run)
    case (created u)
    have "tables_unique t" if "tables_unique s"
    proof -
      have u: "tables_unique u" using that same_data_unique [OF created(2)] by simp
      then have "unique_rows clash (table u @ [row])"
        using assms(2) [OF u] created(4) assms(1) by (auto simp: unique_rows_append dest: sympD)
      then show ?thesis using assms(3) u created(3) by blast
    qed
    then show ?thesis by (simp add: keeps_unique_def)
  qed (simp add: keeps_unique_def same_data_unique)
  then show "keeps_unique s (snd (run_state (Create table put clash row) s))" using run by simp
qed

lemma Save_unique:
  assumes "symp clash" and "\<And>a b. key a = key b \<Longrightarrow> clash a b" and "\<And>s. tables_unique s \<Longrightarrow> unique_rows clash (table s)"
    and "\<And>rows s. tables_unique s \<Longrightarrow> unique_rows clash rows \<Longrightarrow> tables_unique (put rows s)"
  shows "state_io_rel keeps_unique (Save table put key clash row)"
  unfolding state_io_rel_def
proof
  fix s
  obtain r t where run: "run_state (Save table put key clash row) s = (r, t)" by fastforce
  then have "keeps_unique s t"
  proof (cases rule: Save_run)
    case (replaced u)
    have "tables_unique t" if "tables_unique s"
    proof -
      have u: "tables_unique u" using that same_data_unique [OF replaced(2)] by simp
      have "unique_rows clash (map (\<lambda>x. if key x = key row then row else x) (table u))"
        by (rule unique_rows_replace [OF assms(3) [OF u] assms(1,2) replaced(4)])
      then show ?thesis using assms(4) u replaced(3) by blast
    qed
    then show ?thesis by (simp add: keeps_unique_def)
  next
    case (inserted u)
    have "tables_unique t" if "tables_unique s"
    proof -
      have u: "tables_unique u" using that same_data_unique [OF inserted(2)] by simp
      then have "unique_rows clash (table u @ [row])"
        using assms(3) [OF u] inserted(4) assms(1) by (auto simp: unique_rows_append dest: sympD)
      then show ?thesis using assms(4) u inserted(3) by blast
    qed
    then show ?thesis by (simp add: keeps_unique_def)
  qed (simp add: keeps_unique_def same_data_unique)
  then show "keeps_unique s (snd (run_state (Save table put key clash row) s))" using run by simp
qed

interpretation tables: quiet_relation keeps_unique
  by unfold_locales (simp_all add: keeps_unique_def)

lemma unique_ask: "state_io_rel keeps_unique (ask f)"
  by (simp add: state_io_rel_def keeps_unique_def tables_unique_def)

lemma unique_creates:
  "state_io_rel keeps_unique (CreateUser a1)" "state_io_rel keeps_unique (CreateMembership a2)"
  "state_io_rel keeps_unique (CreateAPIToken_row a3)" "state_io_rel keeps_unique (CreateInvitation a4)"
  "state_io_rel keeps_unique (CreatePasswordReset a5)" "state_io_rel keeps_unique (CreateMFAFactor a6)"
  "state_io_rel keeps_unique (CreateAuditLog a7)" "state_io_rel keeps_unique (CreateRole_row a8)"
  "state_io_rel keeps_unique (CreateSession a9)" "state_io_rel keeps_unique (CreateOrganization_row a10)"
  "state_io_rel keeps_unique (CreatePermission a11)" "state_io_rel keeps_unique (CreateEmailVerification a12)"
  unfolding CreateUser_def CreateMembership_def CreateAPIToken_row_def CreateInvitation_def CreatePasswordReset_def
    CreateMFAFactor_def CreateAuditLog_def CreateRole_row_def CreateSession_def
    CreateOrganization_row_def CreatePermission_def CreateEmailVerification_def
  by (rule Create_unique, rule clash_sym, simp_all add: tables_unique_def)+

lemma unique_saves:
  "state_io_rel keeps_unique (SaveUser v b1)" "state_io_rel keeps_unique (SaveMembership v b2)"
  "state_io_rel keeps_unique (SaveAPIToken v b3)" "state_io_rel keeps_unique (SaveInvitation v b4)"
  "state_io_rel keeps_unique (SavePasswordReset v b5)" "state_io_rel keeps_unique (SaveMFAFactor v b6)"
  "state_io_rel keeps_unique (SaveRole v b7)" "state_io_rel keeps_unique (SaveSession v b8)"
  "state_io_rel keeps_unique (SaveOrganization v b9)" "state_io_rel keeps_unique (SaveEmailVerification v b10)"
  unfolding SaveUser_def SaveMembership_def SaveAPIToken_def SaveInvitation_def SavePasswordReset_def SaveMFAFactor_def
    SaveRole_def SaveSession_def SaveOrganization_def SaveEmailVerification_def
  by (intro tables.quiet_rules unique_ask Save_unique, rule clash_sym,
      simp_all add: tables_unique_def user_clash_def membership_clash_def token_clash_def invitation_clash_def reset_clash_def
        factor_clash_def role_clash_def session_clash_def org_clash_def verification_clash_def)+

lemma unique_delete_rows:
  assumes "\<And>s. tables_unique s \<Longrightarrow> tables_unique (f s)"
  shows "state_io_rel keeps_unique (delete_rows f)"
  unfolding state_io_rel_def
proof
  fix s
  obtain r t where run: "run_state (delete_rows f) s = (r, t)" by fastforce
  from run [unfolded delete_rows_def] have "keeps_unique s t"
  proof (cases rule: statement_run)
    case (works u)
    then show ?thesis using assms [of u] same_data_unique [of s u] by (auto simp: keeps_unique_def)
  qed (simp add: keeps_unique_def same_data_unique)
  then show "keeps_unique s (snd (run_state (delete_rows f) s))" using run by simp
qed

lemma unique_delete: "state_io_rel keeps_unique (DeletePendingSignup i j k)"
  unfolding DeletePendingSignup_def
  by (intro tables.quiet_rules unique_delete_rows) (auto simp: tables_unique_def unique_rows_def intro: sorted_wrt_filter)

lemma unique_rules:
  "state_io_rel keeps_unique (DeleteCasbinRules c1 c2 c3 c4)" "state_io_rel keeps_unique (LoadRules rs)"
  "state_io_rel keeps_unique (AddCasbinRule rule)"
proof -
  show "state_io_rel keeps_unique (DeleteCasbinRules c1 c2 c3 c4)"
    unfolding DeleteCasbinRules_def state_io_rel_def
    by (auto simp: statement_def keeps_unique_def tables_unique_def unique_rows_def intro: sorted_wrt_filter
        split: list.splits option.splits)
  show "state_io_rel keeps_unique (LoadRules rs)"
    by (auto simp: LoadRules_def state_io_rel_def keeps_unique_def tables_unique_def split: prod.splits)
  have "state_io_rel keeps_unique (First ia_rules cb_ID p)" for p
    by (auto simp: state_io_rel_def First_def statement_def keeps_unique_def tables_unique_def split: list.splits option.splits)
  moreover have "state_io_rel keeps_unique (Create ia_rules (\<lambda>t s. s\<lparr>ia_rules := t\<rparr>) rule_clash rule)"
    by (rule Create_unique, rule clash_sym) (simp_all add: tables_unique_def)
  ultimately show "state_io_rel keeps_unique (AddCasbinRule rule)"
    unfolding AddCasbinRule_def by (intro tables.rel_bind) (auto split: sum.splits intro!: tables.quiet_rules)
qed

interpretation unique: step_relation keeps_unique
proof
  show "keeps_unique s (rollback s t)" for s t by (simp add: keeps_unique_def tables_unique_def rollback_def)
qed (simp_all add: unique_creates unique_saves unique_rules, simp_all add: keeps_unique_def tables_unique_def)

interpretation unique_run: session_relation keeps_unique v
proof
  show "state_io_rel keeps_unique (signupWithEmailVerification v i)" for i
    by (rule unique.rel_pending_from, rule unique_delete)
  show revocation: "state_io_rel keeps_unique (SaveSession v (session\<lparr>s_RevokedAt := Some now\<rparr>))" for session now
    by (rule unique_saves)
  have loop: "state_io_rel keeps_unique (revoke_loop v skip now sessions)" for skip now sessions
    by (induction sessions) (auto intro!: unique.rel_rules unique_saves)
  show "state_io_rel keeps_unique (createSessionAndTokens v user org a b c d)" for user org a b c d
    unfolding createSessionAndTokens_def revokeActiveSessionsForContext_def Let_def
    by (auto intro!: unique.rel_rules unique.rel_store loop unique_creates)
  show "state_io_rel keeps_unique (Refresh v a b c)" for a b c
    unfolding Refresh_def Let_def by (intro unique.rel_rules unique.rel_store unique.rel_checks unique_saves)
qed

lemma unique_session_keys: "tables_unique s \<Longrightarrow> session_keys s"
  unfolding tables_unique_def session_keys_def session_ids_def
  by (auto intro: unique_rows_distinct [where clash = session_clash] simp: session_clash_def)

end
