(* ===== verification/IAM_Login.thy ===== *)
theory IAM_Login
  imports IAM_Sessions
begin

text \<open>
  Signing in: what a successful \<open>Login\<close> has checked, and how wrong passwords lock an account.
\<close>

section \<open>What the checks leave alone\<close>

text \<open>Two states with the same tables: the captchas and the counters may differ.\<close>

definition same_rows :: "Iam \<Rightarrow> Iam \<Rightarrow> bool" where
  "same_rows s t \<longleftrightarrow> t\<lparr>ia_seq := 0, ia_faults := [], ia_captchas := []\<rparr> = s\<lparr>ia_seq := 0, ia_faults := [], ia_captchas := []\<rparr>"

interpretation rows: quiet_relation same_rows
  by unfold_locales (simp_all add: same_rows_def)

interpretation data: state_preorder same_data
  by unfold_locales (auto intro: same_data_trans)

lemma same_rowsD:
  assumes "same_rows s t"
  shows "ia_users t = ia_users s" "ia_orgs t = ia_orgs s" "ia_memberships t = ia_memberships s" "ia_factors t = ia_factors s"
    "ia_sessions t = ia_sessions s" "ia_tokens t = ia_tokens s" "ia_roles t = ia_roles s" "ia_rules t = ia_rules s"
    "ia_policies t = ia_policies s"
  using assms by (cases s; cases t; simp add: same_rows_def)+

lemma same_data_rows: "same_data s t \<Longrightarrow> same_rows s t"
  by (cases s; cases t) (simp add: same_data_def same_rows_def)

lemma rows_step:
  "state_io_rel same_rows (ask f)" "state_io_rel same_rows (First table order p)" "state_io_rel same_rows (Find table query)"
proof -
  show "state_io_rel same_rows (ask f)"
    by (auto simp: state_io_rel_def intro: same_data_rows)
  show "state_io_rel same_rows (First table order p)"
    unfolding state_io_rel_def
    by (intro allI run_in [where P = "same_rows _"] same_data_rows) (use First_run in blast)
  show "state_io_rel same_rows (Find table query)"
    unfolding state_io_rel_def
    by (intro allI run_in [where P = "same_rows _"] same_data_rows) (use Find_run in blast)
qed

lemmas finder_defs = FindOrganizationByID_def FindOrganizationByCode_def FindUserByID_def FindUserByIdentifier_def
  FindMembership_def ListMembershipsByUser_def FindRole_def FindAPITokenByHash_def FindActiveMFAFactor_def
  FindSessionByID_def

lemma rows_modify_captchas: "state_io_rel same_rows (modify (\<lambda>s. s\<lparr>ia_captchas := f s\<rparr>))"
  by (simp add: state_io_rel_def same_rows_def)

lemma rows_checks:
  "state_io_rel same_rows (validateLoginCaptcha v a b)" "state_io_rel same_rows (ensureUserCanLogin v u)"
  "state_io_rel same_rows (verifyUserMFA v i c)" "state_io_rel same_rows (login_mfa v u c)"
  "state_io_rel same_rows (loginOrg i d)" "state_io_rel same_rows (ensureSessionActive v x)"
proof -
  show "state_io_rel same_rows (validateLoginCaptcha v a b)" unfolding validateLoginCaptcha_def Let_def
    by (auto intro!: rows.quiet_rules rows_step rows_modify_captchas split: option.splits)
  show "state_io_rel same_rows (ensureUserCanLogin v u)" unfolding ensureUserCanLogin_def
    by (auto intro!: rows.quiet_rules rows_step split: option.splits)
  show mfa: "state_io_rel same_rows (verifyUserMFA v i c)" for i unfolding verifyUserMFA_def finder_defs
    by (auto intro!: rows.quiet_rules rows_step split: sum.splits)
  show "state_io_rel same_rows (login_mfa v u c)" unfolding login_mfa_def by (auto intro!: rows.quiet_rules mfa)
  show "state_io_rel same_rows (loginOrg i d)" unfolding loginOrg_def finder_defs
    by (auto intro!: rows.quiet_rules rows_step split: list.splits)
  show "state_io_rel same_rows (ensureSessionActive v x)" unfolding ensureSessionActive_def
    by (auto intro!: rows.quiet_rules rows_step)
qed

section \<open>What a successful check says\<close>

lemma FindUserByIdentifier_ok:
  assumes "run_state (FindUserByIdentifier i) s = (Inr u, t)"
  shows "u \<in> set (ia_users s) \<and> (u_Username u = i \<or> u_Email u = i) \<and> u_DeletedAt u = None \<and> same_data s t"
  using First_ok [OF assms [unfolded FindUserByIdentifier_def]] same_dataD by metis

lemma FindMembership_ok:
  assumes "run_state (FindMembership org i) s = (Inr m, t)"
  shows "m \<in> set (ia_memberships s) \<and> active_member org i m \<and> same_data s t"
  using First_ok [OF assms [unfolded FindMembership_def]] same_dataD by metis

lemma FindActiveMFAFactor_ok:
  assumes "run_state (FindActiveMFAFactor i) s = (Inr f, t)"
  shows "f \<in> set (ia_factors s) \<and> mf_UserID f = i \<and> mf_Type f = ''totp'' \<and> mf_Status f = StatusActive \<and> same_data s t"
  using First_ok [OF assms [unfolded FindActiveMFAFactor_def]] same_dataD by metis

definition can_login :: "IamEnv \<Rightarrow> nat \<Rightarrow> User \<Rightarrow> bool" where
  "can_login v n u \<longleftrightarrow> u_Status u = StatusActive \<and> (case u_LockedUntil u of None \<Rightarrow> True | Some t \<Rightarrow> t \<le> v_now v n)"

lemma ensureUserCanLogin_ok:
  assumes "run_state (ensureUserCanLogin v u) s = (Inr x, t)"
  shows "can_login v (ia_seq s) u \<and> (t = s \<or> t = s\<lparr>ia_seq := Suc (ia_seq s)\<rparr>)"
  using assms by (cases "u_LockedUntil u") (auto simp: ensureUserCanLogin_def can_login_def After_def split: if_splits)

definition second_factor :: "IamEnv \<Rightarrow> Iam \<Rightarrow> User \<Rightarrow> string \<Rightarrow> bool" where
  "second_factor v s u code \<longleftrightarrow> (\<exists>f \<in> set (ia_factors s). \<exists>secret n. mf_UserID f = u_ID u \<and> mf_Type f = ''totp'' \<and>
     mf_Status f = StatusActive \<and> v_decrypt v (mf_Secret f) = Inr secret \<and> v_totp v n code secret)"

lemma login_mfa_ok:
  assumes "run_state (login_mfa v u code) s = (Inr x, t)"
  shows "u_MFAEnabled u \<longrightarrow> second_factor v s u code"
proof
  assume "u_MFAEnabled u"
  then have "run_state (instead iam_ErrUnauthorized (verifyUserMFA v (u_ID u) code) ok) s = (Inr x, t)"
    using assms by (simp add: login_mfa_def split: if_splits)
  then obtain y w where "run_state (verifyUserMFA v (u_ID u) code) s = (Inr y, w)" by (elim instead_ok)
  then obtain f t1 secret where f: "run_state (FindActiveMFAFactor (u_ID u)) s = (Inr f, t1)"
      "v_decrypt v (mf_Secret f) = Inr secret" "v_totp v (ia_seq t1) code secret"
    unfolding verifyUserMFA_def by (elim instead_ok) (auto split: if_splits sum.splits)
  then show "second_factor v s u code" using FindActiveMFAFactor_ok [OF f(1)] unfolding second_factor_def by blast
qed

lemma loginOrg_member:
  assumes "run_state (loginOrg i code) s = (Inr org, t)"
  shows "\<exists>m \<in> set (ia_memberships s). active_member (o_ID org) i m"
proof (cases "code = []")
  case True
  then obtain ms u where ms: "run_state (ListMembershipsByUser i) s = (Inr ms, u)" "ms \<noteq> []"
      "run_state (FindOrganizationByID (mb_OrgID (hd ms))) u = (Inr org, t)"
    using assms unfolding loginOrg_def by (auto split: list.splits elim!: instead_ok)
  have "ms = filter (\<lambda>m. mb_UserID m = i \<and> mb_Status m = StatusActive \<and> mb_DeletedAt m = None) (ia_memberships s)"
    using Find_run [OF ms(1) [unfolded ListMembershipsByUser_def]] by (auto dest: same_dataD(3))
  then have "hd ms \<in> set (ia_memberships s) \<and> active_member (mb_OrgID (hd ms)) i (hd ms)"
    using ms(2) hd_in_set [OF ms(2)] by (auto simp: active_member_def)
  moreover have "o_ID org = mb_OrgID (hd ms)"
    using First_ok(2) [OF ms(3) [unfolded FindOrganizationByID_def]] by simp
  ultimately show ?thesis by metis
next
  case False
  then obtain u m t' where f: "run_state (FindOrganizationByCode (normalizeCode code)) s = (Inr org, u)"
      "run_state (FindMembership (o_ID org) i) u = (Inr m, t')"
    using assms unfolding loginOrg_def by (auto elim!: instead_ok)
  have "same_data s u" using First_ok(3) [OF f(1) [unfolded FindOrganizationByCode_def]] .
  then show ?thesis using FindMembership_ok [OF f(2)] by (auto simp: same_dataD)
qed

section \<open>A successful login\<close>

definition login_identifier :: "LoginInput \<Rightarrow> string" where
  "login_identifier input = TrimSpace (ToLower (li_Identifier input))"

text \<open>What follows the new session: the failure counter is reset and the login is audited; neither can fail it.\<close>

definition login_epilogue :: "IamEnv \<Rightarrow> LoginInput \<Rightarrow> User \<Rightarrow> Organization \<Rightarrow> TokenPair \<Rightarrow> TokenPair result iam" where
  "login_epilogue v input user org pair = do {
     now \<leftarrow> ask (v_now v);
     ignore (SaveUser v (user\<lparr>u_FailedLoginAttempts := 0, u_LockedUntil := None, u_LastLoginAt := Some now\<rparr>));
     ignore (audit v (Some (o_ID org)) (Some (u_ID user)) ''auth.login'' ''session'' [] (li_IPAddress input)
       (li_UserAgent input) [] (li_ProductCode input, li_ClientType input));
     ok pair }"

lemma Login_eq:
  "Login v input =
     (if login_identifier input = [] \<or> li_Password input = [] then throw iam_ErrUnauthorized
      else attempt (validateLoginCaptcha v (li_CaptchaID input) (li_CaptchaCode input)) (\<lambda>_.
        instead iam_ErrUnauthorized (FindUserByIdentifier (login_identifier input)) (\<lambda>user.
        attempt (ensureUserCanLogin v user) (\<lambda>_.
          case v_verify v (u_PasswordHash user) (li_Password input) of
            Some e \<Rightarrow> do { ignore (recordFailedLogin v user); throw iam_ErrUnauthorized }
          | None \<Rightarrow>
              attempt (login_mfa v user (li_MFACode input)) (\<lambda>_.
              attempt (loginOrg (u_ID user) (li_OrgCode input)) (\<lambda>org.
              attempt (createSessionAndTokens v user (o_ID org) (li_UserAgent input) (li_IPAddress input)
                  (li_ProductCode input) (li_ClientType input)) (login_epilogue v input user org)))))))"
  unfolding Login_def login_identifier_def login_epilogue_def Let_def ..

lemma Login_ok:
  assumes "run_state (Login v input) s = (Inr pair, t)"
  obtains c u1 user u2 x u3 y u4 org u5 p' u6 where
    "run_state (validateLoginCaptcha v (li_CaptchaID input) (li_CaptchaCode input)) s = (Inr c, u1)"
    "run_state (FindUserByIdentifier (login_identifier input)) u1 = (Inr user, u2)"
    "run_state (ensureUserCanLogin v user) u2 = (Inr x, u3)"
    "v_verify v (u_PasswordHash user) (li_Password input) = None"
    "run_state (login_mfa v user (li_MFACode input)) u3 = (Inr y, u4)"
    "run_state (loginOrg (u_ID user) (li_OrgCode input)) u4 = (Inr org, u5)"
    "run_state (createSessionAndTokens v user (o_ID org) (li_UserAgent input) (li_IPAddress input)
       (li_ProductCode input) (li_ClientType input)) u5 = (Inr p', u6)"
    "run_state (login_epilogue v input user org p') u6 = (Inr pair, t)"
proof -
  have "run_state (attempt (validateLoginCaptcha v (li_CaptchaID input) (li_CaptchaCode input)) (\<lambda>_.
        instead iam_ErrUnauthorized (FindUserByIdentifier (login_identifier input)) (\<lambda>user.
        attempt (ensureUserCanLogin v user) (\<lambda>_.
          case v_verify v (u_PasswordHash user) (li_Password input) of
            Some e \<Rightarrow> do { ignore (recordFailedLogin v user); throw iam_ErrUnauthorized }
          | None \<Rightarrow>
              attempt (login_mfa v user (li_MFACode input)) (\<lambda>_.
              attempt (loginOrg (u_ID user) (li_OrgCode input)) (\<lambda>org.
              attempt (createSessionAndTokens v user (o_ID org) (li_UserAgent input) (li_IPAddress input)
                  (li_ProductCode input) (li_ClientType input)) (login_epilogue v input user org))))))) s = (Inr pair, t)"
    using assms unfolding Login_eq by (simp split: if_splits)
  then show ?thesis
  proof (elim attempt_ok instead_ok)
    fix c u1 user u2 x u3
    assume f: "run_state (validateLoginCaptcha v (li_CaptchaID input) (li_CaptchaCode input)) s = (Inr c, u1)"
      "run_state (FindUserByIdentifier (login_identifier input)) u1 = (Inr user, u2)"
      "run_state (ensureUserCanLogin v user) u2 = (Inr x, u3)"
      and rest: "run_state (case v_verify v (u_PasswordHash user) (li_Password input) of
            Some e \<Rightarrow> do { ignore (recordFailedLogin v user); throw iam_ErrUnauthorized }
          | None \<Rightarrow>
              attempt (login_mfa v user (li_MFACode input)) (\<lambda>_.
              attempt (loginOrg (u_ID user) (li_OrgCode input)) (\<lambda>org.
              attempt (createSessionAndTokens v user (o_ID org) (li_UserAgent input) (li_IPAddress input)
                  (li_ProductCode input) (li_ClientType input)) (login_epilogue v input user org)))) u3 = (Inr pair, t)"
    show ?thesis
    proof (cases "v_verify v (u_PasswordHash user) (li_Password input)")
      case None
      from rest show ?thesis unfolding None option.case by (elim attempt_ok) (rule that [OF f None])
    qed (use rest in \<open>simp split: prod.splits\<close>)
  qed
qed

lemma createSessionAndTokens_ok:
  assumes "run_state (createSessionAndTokens v user org a b product client) s = (Inr pair, t)"
  shows "tp_UserID pair = u_ID user \<and> tp_OrgID pair = org \<and>
    (\<exists>r \<in> set (ia_sessions t). s_ID r = tp_SessionID pair \<and> s_UserID r = u_ID user \<and> s_OrgID r = org \<and> s_RevokedAt r = None)"
proof -
  let ?c = "resolveSessionContext (v_cfg v) product client" and ?now = "v_now v (ia_seq s)"
  define row where "row i issued = \<lparr>s_ID = i, s_UserID = u_ID user, s_OrgID = org, s_ProductCode = sc_ProductCode ?c,
               s_ClientType = sc_ClientType ?c, s_RefreshTokenHash = ip_RefreshTokenHash issued, s_UserAgent = a,
               s_IPAddress = b, s_ExpiresAt = ip_RefreshExpiresAt issued, s_RevokedAt = None, s_LastUsedAt = None,
               s_CreatedAt = ?now, s_UpdatedAt = ?now\<rparr>" for i and issued :: IssuedTokenPair
  have "\<exists>i issued u w. run_state (CreateSession (row i issued)) u = (Inr (), w) \<and>
      run_state (ok (tokenPair issued (row i issued))) w = (Inr pair, t)"
    using assms unfolding createSessionAndTokens_def Let_def
  proof (elim bound_ok attempt_ok)
    fix now u1 x u2 i u3 issued u4 y w
    assume "run_state (ask (v_now v)) s = (now, u1)"
    moreover assume "run_state (CreateSession \<lparr>s_ID = i, s_UserID = u_ID user, s_OrgID = org, s_ProductCode = sc_ProductCode ?c,
               s_ClientType = sc_ClientType ?c, s_RefreshTokenHash = ip_RefreshTokenHash issued, s_UserAgent = a,
               s_IPAddress = b, s_ExpiresAt = ip_RefreshExpiresAt issued, s_RevokedAt = None, s_LastUsedAt = None,
               s_CreatedAt = now, s_UpdatedAt = now\<rparr>) u4 = (Inr y, w)"
      and "run_state (ok (tokenPair issued \<lparr>s_ID = i, s_UserID = u_ID user, s_OrgID = org, s_ProductCode = sc_ProductCode ?c,
               s_ClientType = sc_ClientType ?c, s_RefreshTokenHash = ip_RefreshTokenHash issued, s_UserAgent = a,
               s_IPAddress = b, s_ExpiresAt = ip_RefreshExpiresAt issued, s_RevokedAt = None, s_LastUsedAt = None,
               s_CreatedAt = now, s_UpdatedAt = now\<rparr>)) w = (Inr pair, t)"
    ultimately show ?thesis by (intro exI [of _ i] exI [of _ issued] exI [of _ u4] exI [of _ w]) (simp add: row_def)
  qed
  then obtain i issued u w where f: "run_state (CreateSession (row i issued)) u = (Inr (), w)"
      "w = t" "pair = tokenPair issued (row i issued)" by auto
  from f(1) show ?thesis using f(2,3) by (cases rule: CreateSession_run) (simp_all add: tokenPair_def row_def)
qed

lemma login_epilogue_ok:
  assumes "run_state (login_epilogue v input user org p') s = (Inr pair, t)"
  shows "pair = p'" "same_sessions s t"
proof -
  have "state_io_rel same_sessions (login_epilogue v input user org p')" unfolding login_epilogue_def
    by (intro keep.rel_rules keep.frame_saves keep.rel_audit)
  then show "same_sessions s t" using assms rel_ran by blast
  show "pair = p'" using assms unfolding login_epilogue_def by (auto simp: run_ignore elim!: bound_ok)
qed

definition credentials :: "IamEnv \<Rightarrow> Iam \<Rightarrow> LoginInput \<Rightarrow> User \<Rightarrow> bool" where
  "credentials v s input u \<longleftrightarrow>
     u \<in> set (ia_users s) \<and> (u_Username u = login_identifier input \<or> u_Email u = login_identifier input) \<and> u_DeletedAt u = None \<and>
     (\<exists>n. can_login v n u) \<and> v_verify v (u_PasswordHash u) (li_Password input) = None \<and>
     (u_MFAEnabled u \<longrightarrow> second_factor v s u (li_MFACode input))"

lemma Login_credentials:
  assumes "run_state (Login v input) s = (Inr pair, t)"
  shows "\<exists>u. credentials v s input u \<and> tp_UserID pair = u_ID u \<and>
    (\<exists>m \<in> set (ia_memberships s). active_member (tp_OrgID pair) (u_ID u) m) \<and>
    (\<exists>r \<in> set (ia_sessions t). s_ID r = tp_SessionID pair \<and> s_UserID r = u_ID u \<and> s_OrgID r = tp_OrgID pair \<and> s_RevokedAt r = None)"
  using assms
proof (cases rule: Login_ok)
  case (1 c u1 user u2 x u3 y u4 org u5 p' u6)
  have s1: "same_rows s u1" by (rule rel_ran [OF rows_checks(1) 1(1)])
  note user = FindUserByIdentifier_ok [OF 1(2)]
  have s2: "same_rows s u2" using s1 same_data_rows user rows.trans by blast
  have s3: "same_rows s u3" using s2 rel_ran [OF rows_checks(2) 1(3)] rows.trans by blast
  have s4: "same_rows s u4" using s3 rel_ran [OF rows_checks(4) 1(5)] rows.trans by blast
  have "credentials v s input user"
    using user same_rowsD(1) [OF s1] ensureUserCanLogin_ok [OF 1(3)] 1(4) login_mfa_ok [OF 1(5)] same_rowsD(4) [OF s3]
    by (auto simp: credentials_def second_factor_def)
  moreover have "\<exists>m \<in> set (ia_memberships s). active_member (o_ID org) (u_ID user) m"
    using loginOrg_member [OF 1(6)] same_rowsD(3) [OF s4] by simp
  ultimately show ?thesis
    using createSessionAndTokens_ok [OF 1(7)] login_epilogue_ok [OF 1(8)] by (auto simp: same_sessions_def)
qed

section \<open>Wrong passwords\<close>

definition names :: "User \<Rightarrow> string \<Rightarrow> bool" where
  "names u identifier \<longleftrightarrow> u_Username u = identifier \<or> u_Email u = identifier"

definition users_unique :: "Iam \<Rightarrow> bool" where
  "users_unique s \<longleftrightarrow> (\<forall>x \<in> set (ia_users s). \<forall>y \<in> set (ia_users s). user_clash x y \<longrightarrow> x = y)"

definition the_user :: "Iam \<Rightarrow> string \<Rightarrow> User \<Rightarrow> bool" where
  "the_user s identifier u \<longleftrightarrow> u \<in> set (ia_users s) \<and> names u identifier \<and> u_DeletedAt u = None \<and>
     (\<forall>x \<in> set (ia_users s). names x identifier \<longrightarrow> x = u)"

definition failed_row :: "IamEnv \<Rightarrow> nat \<Rightarrow> gotime \<Rightarrow> User \<Rightarrow> User" where
  "failed_row v n w u =
     (let u' = u\<lparr>u_FailedLoginAttempts := u_FailedLoginAttempts u + 1, u_UpdatedAt := w\<rparr>
      in if u_FailedLoginAttempts u' \<ge> LoginMaxFailures (v_cfg v)
         then u'\<lparr>u_LockedUntil := Some (v_now v n + LoginLockDuration (v_cfg v))\<rparr> else u')"

definition replace_user :: "User \<Rightarrow> User list \<Rightarrow> User list" where
  "replace_user u' = map (\<lambda>x. if u_ID x = u_ID u' then u' else x)"

lemma FindUserByIdentifier_runs:
  assumes "ia_faults s = []" and "the_user s identifier u"
  shows "run_state (FindUserByIdentifier identifier) s = (Inr u, s)"
proof -
  have "first_row u_ID (\<lambda>u. (u_Username u = identifier \<or> u_Email u = identifier) \<and> u_DeletedAt u = None) (ia_users s) = Some u"
    using assms(2) by (intro first_row_unique) (auto simp: the_user_def names_def)
  then show ?thesis using assms(1) by (simp add: FindUserByIdentifier_def First_def statement_ok)
qed

lemma SaveUser_runs:
  assumes "ia_faults s = []" and "users_unique s" and "u \<in> set (ia_users s)"
    and "u_ID u' = u_ID u" "u_Username u' = u_Username u" "u_Email u' = u_Email u"
  shows "run_state (SaveUser v u') s = (Inr (), s\<lparr>ia_seq := Suc (ia_seq s),
    ia_users := replace_user (u'\<lparr>u_UpdatedAt := v_wall v (ia_seq s)\<rparr>) (ia_users s)\<rparr>)"
proof -
  have "\<not> (\<exists>x \<in> set (ia_users s). u_ID x \<noteq> u_ID u' \<and> user_clash (u'\<lparr>u_UpdatedAt := w\<rparr>) x)" for w
    using assms(2-6) unfolding users_unique_def user_clash_def by (metis User.simps(1-3) User.select_convs(1-3) User.update_convs(12)
      User.surjective)
  moreover have "\<exists>x \<in> set (ia_users s). u_ID x = u_ID u'" using assms(3,4) by auto
  ultimately show ?thesis using assms(1) by (simp add: SaveUser_def Save_def statement_ok replace_user_def)
qed

lemma failed_row_fields [simp]:
  "u_ID (failed_row v n w u) = u_ID u" "u_Username (failed_row v n w u) = u_Username u" "u_Email (failed_row v n w u) = u_Email u"
  "u_PasswordHash (failed_row v n w u) = u_PasswordHash u" "u_Status (failed_row v n w u) = u_Status u"
  "u_DeletedAt (failed_row v n w u) = u_DeletedAt u"
  "u_FailedLoginAttempts (failed_row v n w u) = u_FailedLoginAttempts u + 1"
  by (simp_all add: failed_row_def Let_def)

lemma recordFailedLogin_runs:
  assumes "ia_faults s = []" and "users_unique s" and "u \<in> set (ia_users s)"
  shows "\<exists>n w m. run_state (recordFailedLogin v u) s =
    (Inr (), s\<lparr>ia_seq := m, ia_users := replace_user (failed_row v n w u) (ia_users s)\<rparr>)"
proof (cases "u_FailedLoginAttempts u + 1 \<ge> LoginMaxFailures (v_cfg v)")
  case True
  let ?s = "s\<lparr>ia_seq := Suc (ia_seq s)\<rparr>"
  let ?u = "u\<lparr>u_FailedLoginAttempts := u_FailedLoginAttempts u + 1,
    u_LockedUntil := Some (v_now v (ia_seq s) + LoginLockDuration (v_cfg v))\<rparr>"
  have "run_state (SaveUser v ?u) ?s = (Inr (), ?s\<lparr>ia_seq := Suc (ia_seq ?s),
      ia_users := replace_user (?u\<lparr>u_UpdatedAt := v_wall v (ia_seq ?s)\<rparr>) (ia_users ?s)\<rparr>)"
    by (rule SaveUser_runs [of _ u]) (use assms in \<open>simp_all add: users_unique_def\<close>)
  moreover have "?u\<lparr>u_UpdatedAt := w\<rparr> = failed_row v (ia_seq s) w u" for w
    using True by (simp add: failed_row_def Let_def)
  ultimately show ?thesis using True by (auto simp: recordFailedLogin_def Let_def)
next
  case False
  let ?u = "u\<lparr>u_FailedLoginAttempts := u_FailedLoginAttempts u + 1\<rparr>"
  have "run_state (SaveUser v ?u) s = (Inr (), s\<lparr>ia_seq := Suc (ia_seq s),
      ia_users := replace_user (?u\<lparr>u_UpdatedAt := v_wall v (ia_seq s)\<rparr>) (ia_users s)\<rparr>)"
    by (rule SaveUser_runs [of _ u]) (use assms in simp_all)
  moreover have "?u\<lparr>u_UpdatedAt := w\<rparr> = failed_row v n w u" for w n
    using False by (simp add: failed_row_def Let_def)
  ultimately show ?thesis using False by (auto simp: recordFailedLogin_def Let_def)
qed

definition wrong_password :: "IamEnv \<Rightarrow> User \<Rightarrow> LoginInput \<Rightarrow> bool" where
  "wrong_password v u input \<longleftrightarrow> names u (login_identifier input) \<and> login_identifier input \<noteq> [] \<and>
     v_verify v (u_PasswordHash u) (li_Password input) \<noteq> None"

lemma ensureUserCanLogin_runs:
  "run_state (ensureUserCanLogin v u) s =
     (if u_Status u \<noteq> StatusActive then (Inl iam_ErrAccountDisabled, s)
      else case u_LockedUntil u of None \<Rightarrow> (Inr (), s)
        | Some t \<Rightarrow> (if v_now v (ia_seq s) < t then Inl iam_ErrAccountLocked else Inr (), s\<lparr>ia_seq := Suc (ia_seq s)\<rparr>))"
  by (simp add: ensureUserCanLogin_def After_def split: option.split)

lemma wrong_password_counted:
  assumes "ia_faults s = []" and "\<not> CaptchaEnabled (v_cfg v)" and "users_unique s"
    and user: "the_user s (login_identifier input) u" "can_login v (ia_seq s) u" and wrong: "wrong_password v u input"
    and "li_Password input \<noteq> []"
  shows "\<exists>n w m. run_state (Login v input) s =
    (Inl iam_ErrUnauthorized, s\<lparr>ia_seq := m, ia_users := replace_user (failed_row v n w u) (ia_users s)\<rparr>)"
proof -
  obtain e where e: "v_verify v (u_PasswordHash u) (li_Password input) = Some e"
    using wrong by (auto simp: wrong_password_def)
  obtain s' where s': "run_state (ensureUserCanLogin v u) s = (Inr (), s')" "s' = s \<or> s' = s\<lparr>ia_seq := Suc (ia_seq s)\<rparr>"
    using user(2) by (cases "u_LockedUntil u") (auto simp: ensureUserCanLogin_runs can_login_def)
  have "ia_faults s' = ia_faults s" "ia_users s' = ia_users s" using s'(2) by (elim disjE; simp)+
  then have "ia_faults s' = []" "users_unique s'" "u \<in> set (ia_users s')"
    using assms(1,3) user(1) by (simp_all add: users_unique_def the_user_def)
  then obtain n w m where "run_state (recordFailedLogin v u) s' =
      (Inr (), s'\<lparr>ia_seq := m, ia_users := replace_user (failed_row v n w u) (ia_users s')\<rparr>)"
    using recordFailedLogin_runs by blast
  moreover have "s'\<lparr>ia_seq := m, ia_users := replace_user (failed_row v n w u) (ia_users s')\<rparr> =
      s\<lparr>ia_seq := m, ia_users := replace_user (failed_row v n w u) (ia_users s)\<rparr>"
    using s'(2) by (elim disjE; simp)
  ultimately show ?thesis
    using FindUserByIdentifier_runs [OF assms(1) user(1)] s'(1) e wrong assms(2,7)
    by (auto simp: Login_eq run_attempt run_instead run_ignore validateLoginCaptcha_def wrong_password_def)
qed

text \<open>The user after a wrong password is the same user, one attempt further.\<close>

lemma replaced_user:
  assumes "users_unique s" and "the_user s identifier u" and "u' = failed_row v n w u"
    and "ia_users t = replace_user u' (ia_users s)"
  shows "users_unique t" "the_user t identifier u'"
proof -
  have u: "u \<in> set (ia_users s)" using assms(2) by (simp add: the_user_def)
  have one: "x = u" if "x \<in> set (ia_users s)" "u_ID x = u_ID u" for x
    using assms(1) u that unfolding users_unique_def user_clash_def by blast
  have rows: "set (ia_users t) = insert u' (set (ia_users s) - {u})"
    using one u assms(3,4) by (auto simp: replace_user_def)
  have clash: "user_clash u' x \<longleftrightarrow> user_clash u x" "user_clash x u' \<longleftrightarrow> user_clash x u" for x
    by (simp_all add: user_clash_def assms(3))
  show "users_unique t"
    using assms(1) u clash unfolding users_unique_def rows by auto
  show "the_user t identifier u'"
    using assms(2) unfolding the_user_def rows by (auto simp: names_def assms(3))
qed

fun logins :: "IamEnv \<Rightarrow> LoginInput list \<Rightarrow> Iam \<Rightarrow> Iam" where
  "logins v [] s = s"
| "logins v (input # inputs) s = logins v inputs (snd (run_state (Login v input) s))"

definition countable_user :: "Iam \<Rightarrow> User \<Rightarrow> bool" where
  "countable_user s u \<longleftrightarrow> ia_faults s = [] \<and> users_unique s \<and> u_Status u = StatusActive \<and> u_LockedUntil u = None"

lemma wrong_logins_lock:
  assumes "countable_user s u" and "\<not> CaptchaEnabled (v_cfg v)" and "the_user s identifier u"
    and "\<forall>input \<in> set inputs. login_identifier input = identifier \<and> li_Password input \<noteq> [] \<and> wrong_password v u input"
    and "u_FailedLoginAttempts u + int (length inputs) = LoginMaxFailures (v_cfg v)" and "inputs \<noteq> []"
  shows "\<exists>u' n. the_user (logins v inputs s) identifier u' \<and> ia_faults (logins v inputs s) = [] \<and> u_ID u' = u_ID u \<and>
    u_Status u' = StatusActive \<and> u_LockedUntil u' = Some (v_now v n + LoginLockDuration (v_cfg v))"
  using assms
proof (induction inputs arbitrary: s u)
  case (Cons input inputs)
  have user: "the_user s (login_identifier input) u" "can_login v (ia_seq s) u"
    using Cons.prems by (auto simp: countable_user_def can_login_def)
  have wrong: "wrong_password v u input" "li_Password input \<noteq> []" using Cons.prems(4) by simp_all
  obtain n w m where run: "run_state (Login v input) s =
      (Inl iam_ErrUnauthorized, s\<lparr>ia_seq := m, ia_users := replace_user (failed_row v n w u) (ia_users s)\<rparr>)"
    using wrong_password_counted [OF _ Cons.prems(2) _ user wrong] Cons.prems(1) by (auto simp: countable_user_def)
  define t where "t = s\<lparr>ia_seq := m, ia_users := replace_user (failed_row v n w u) (ia_users s)\<rparr>"
  let ?u = "failed_row v n w u"
  have t: "users_unique t" "the_user t identifier ?u" "ia_faults t = []" "logins v (input # inputs) s = logins v inputs t"
    using replaced_user [OF _ Cons.prems(3) refl, of t] Cons.prems(1) run by (simp_all add: t_def countable_user_def)
  show ?case
  proof (cases "inputs = []")
    case True
    then have "u_LockedUntil ?u = Some (v_now v n + LoginLockDuration (v_cfg v))"
      using Cons.prems(5) by (simp add: failed_row_def Let_def)
    moreover have "u_Status ?u = StatusActive" using Cons.prems(1) by (simp add: countable_user_def)
    ultimately show ?thesis using t True by auto
  next
    case False
    then have "u_LockedUntil ?u = None"
      using Cons.prems(1,5) by (cases inputs) (auto simp: failed_row_def Let_def countable_user_def)
    then have "countable_user t ?u" using Cons.prems(1) t by (simp add: countable_user_def)
    moreover have "\<forall>input \<in> set inputs. login_identifier input = identifier \<and> li_Password input \<noteq> [] \<and> wrong_password v ?u input"
      using Cons.prems(4) by (auto simp: wrong_password_def names_def)
    ultimately have "\<exists>u' n. the_user (logins v inputs t) identifier u' \<and> ia_faults (logins v inputs t) = [] \<and> u_ID u' = u_ID ?u \<and>
        u_Status u' = StatusActive \<and> u_LockedUntil u' = Some (v_now v n + LoginLockDuration (v_cfg v))"
      using Cons.prems(5) False by (intro Cons.IH [OF _ Cons.prems(2) t(2)]) simp_all
    then show ?thesis using t(4) by simp
  qed
qed simp

text \<open>A locked account answers every login, whatever the password.\<close>

lemma locked_refuses:
  assumes "ia_faults s = []" and "\<not> CaptchaEnabled (v_cfg v)" and "the_user s (login_identifier input) u"
    and "u_Status u = StatusActive" and "u_LockedUntil u = Some lock" and "v_now v (ia_seq s) < lock"
    and "login_identifier input \<noteq> []" and "li_Password input \<noteq> []"
  shows "fst (run_state (Login v input) s) = Inl iam_ErrAccountLocked"
  using FindUserByIdentifier_runs [OF assms(1,3)] assms
  by (simp add: Login_eq run_attempt run_instead validateLoginCaptcha_def ensureUserCanLogin_runs)

end
