(* ===== verification/IAM_Tokens.thy ===== *)
theory IAM_Tokens
  imports IAM_Login
begin

text \<open>
  API tokens: what a token that authenticates has been checked for, that it can do no more than its role allows, and
  that a token that was just created authenticates as its user.
\<close>

section \<open>Authentication by an API token\<close>

lemma First_runs:
  "ia_faults s = [] \<Longrightarrow> run_state (First table order p) s = (found (first_row order p (table s)), s)"
  by (simp add: First_def statement_ok found_def)

lemma FindAPITokenByHash_ok:
  assumes "run_state (FindAPITokenByHash h) s = (Inr r, t)"
  shows "r \<in> set (ia_tokens s) \<and> at_TokenHash r = h \<and> same_data s t"
  using First_ok [OF assms [unfolded FindAPITokenByHash_def]] same_dataD by metis

lemma FindRole_ok:
  assumes "run_state (FindRole org code) s = (Inr r, t)"
  shows "r \<in> set (ia_roles s) \<and> ro_OrgID r = org \<and> ro_Code r = code \<and> ro_DeletedAt r = None \<and> same_data s t"
  using First_ok [OF assms [unfolded FindRole_def]] same_dataD by metis

definition token_expiry :: "IamEnv \<Rightarrow> APIToken \<Rightarrow> unit result iam" where
  "token_expiry v t = (case at_ExpiresAt t of None \<Rightarrow> ok ()
     | Some e \<Rightarrow> do { now \<leftarrow> ask (v_now v); if e < now then throw iam_ErrInvalidToken else ok () })"

definition not_expired :: "IamEnv \<Rightarrow> nat \<Rightarrow> APIToken \<Rightarrow> bool" where
  "not_expired v n t \<longleftrightarrow> (case at_ExpiresAt t of None \<Rightarrow> True | Some e \<Rightarrow> v_now v n \<le> e)"

lemma token_expiry_run:
  "run_state (token_expiry v t) s = (if not_expired v (ia_seq s) t then Inr () else Inl iam_ErrInvalidToken,
     case at_ExpiresAt t of None \<Rightarrow> s | Some e \<Rightarrow> s\<lparr>ia_seq := Suc (ia_seq s)\<rparr>)"
  by (auto simp: token_expiry_def not_expired_def split: option.split)

definition token_principal :: "IamEnv \<Rightarrow> APIToken \<Rightarrow> User \<Rightarrow> IamPrincipal" where
  "token_principal v t user =
     (let c = resolveSessionContext (v_cfg v) [] ''api_token''
      in \<lparr>p_UserID = u_ID user, p_OrgID = at_OrgID t, p_SessionID = 0, p_ProductCode = sc_ProductCode c,
          p_ClientType = sc_ClientType c, p_Username = u_Username user, p_Email = u_Email user, p_RoleCode = at_RoleCode t\<rparr>)"

definition token_use :: "IamEnv \<Rightarrow> APIToken \<Rightarrow> User \<Rightarrow> IamPrincipal result iam" where
  "token_use v t user = do {
     has \<leftarrow> userHasRole v (at_UserID t) (at_OrgID t) (at_RoleCode t);
     if \<not> has then throw iam_ErrForbidden
     else do {
       now \<leftarrow> ask (v_now v);
       ignore (SaveAPIToken v (t\<lparr>at_LastUsedAt := Some now\<rparr>));
       ok (token_principal v t user) } }"

lemma authenticateAPIToken_eq:
  "authenticateAPIToken v raw =
     (if TrimSpace raw = [] then throw iam_ErrInvalidToken
      else instead iam_ErrInvalidToken (FindAPITokenByHash (v_token_hash v (TrimSpace raw))) (\<lambda>t.
        if at_Status t \<noteq> StatusActive then throw iam_ErrSessionRevoked
        else attempt (token_expiry v t) (\<lambda>_.
        instead iam_ErrInvalidToken (FindUserByID (at_UserID t)) (\<lambda>user.
        attempt (ensureUserCanLogin v user) (\<lambda>_.
        instead iam_ErrForbidden (FindMembership (at_OrgID t) (at_UserID t)) (\<lambda>_.
        instead iam_ErrForbidden (FindRole (at_OrgID t) (at_RoleCode t)) (\<lambda>_. token_use v t user)))))))"
  unfolding authenticateAPIToken_def token_expiry_def token_use_def token_principal_def Let_def ..

definition holds_role :: "IamEnv \<Rightarrow> Iam \<Rightarrow> int \<Rightarrow> int \<Rightarrow> string \<Rightarrow> bool" where
  "holds_role v s user org code \<longleftrightarrow>
     (\<exists>role \<in> set (v_roles v (ia_policies s) (userSubject user) (FormatInt org)). roleSubject role = roleSubject code)"

lemma userHasRole_run: "run_state (userHasRole v i org code) s = (holds_role v s i org code, s)"
  by (simp add: userHasRole_def GetRolesForUser_def holds_role_def)

text \<open>Everything that makes a token good for use.\<close>

definition good_token :: "IamEnv \<Rightarrow> Iam \<Rightarrow> APIToken \<Rightarrow> User \<Rightarrow> bool" where
  "good_token v s t user \<longleftrightarrow>
     t \<in> set (ia_tokens s) \<and> at_Status t = StatusActive \<and> (\<exists>n. not_expired v n t) \<and>
     user \<in> set (ia_users s) \<and> u_ID user = at_UserID t \<and> u_DeletedAt user = None \<and> (\<exists>n. can_login v n user) \<and>
     (\<exists>m \<in> set (ia_memberships s). active_member (at_OrgID t) (at_UserID t) m) \<and>
     (\<exists>r \<in> set (ia_roles s). ro_OrgID r = at_OrgID t \<and> ro_Code r = at_RoleCode t \<and> ro_DeletedAt r = None) \<and>
     holds_role v s (at_UserID t) (at_OrgID t) (at_RoleCode t)"

lemma authenticateAPIToken_ok:
  assumes "run_state (authenticateAPIToken v raw) s = (Inr p, s')"
  shows "\<exists>t user. good_token v s t user \<and> at_TokenHash t = v_token_hash v (TrimSpace raw) \<and> p = token_principal v t user"
proof -
  have "run_state (instead iam_ErrInvalidToken (FindAPITokenByHash (v_token_hash v (TrimSpace raw))) (\<lambda>t.
        if at_Status t \<noteq> StatusActive then throw iam_ErrSessionRevoked
        else attempt (token_expiry v t) (\<lambda>_.
        instead iam_ErrInvalidToken (FindUserByID (at_UserID t)) (\<lambda>user.
        attempt (ensureUserCanLogin v user) (\<lambda>_.
        instead iam_ErrForbidden (FindMembership (at_OrgID t) (at_UserID t)) (\<lambda>_.
        instead iam_ErrForbidden (FindRole (at_OrgID t) (at_RoleCode t)) (\<lambda>_. token_use v t user))))))) s = (Inr p, s')"
    using assms unfolding authenticateAPIToken_eq by (simp split: if_splits)
  then obtain t u1 where t: "run_state (FindAPITokenByHash (v_token_hash v (TrimSpace raw))) s = (Inr t, u1)"
    and "run_state (if at_Status t \<noteq> StatusActive then throw iam_ErrSessionRevoked
        else attempt (token_expiry v t) (\<lambda>_.
        instead iam_ErrInvalidToken (FindUserByID (at_UserID t)) (\<lambda>user.
        attempt (ensureUserCanLogin v user) (\<lambda>_.
        instead iam_ErrForbidden (FindMembership (at_OrgID t) (at_UserID t)) (\<lambda>_.
        instead iam_ErrForbidden (FindRole (at_OrgID t) (at_RoleCode t)) (\<lambda>_. token_use v t user)))))) u1 = (Inr p, s')"
    by (elim instead_ok)
  then have active: "at_Status t = StatusActive" and "run_state (attempt (token_expiry v t) (\<lambda>_.
        instead iam_ErrInvalidToken (FindUserByID (at_UserID t)) (\<lambda>user.
        attempt (ensureUserCanLogin v user) (\<lambda>_.
        instead iam_ErrForbidden (FindMembership (at_OrgID t) (at_UserID t)) (\<lambda>_.
        instead iam_ErrForbidden (FindRole (at_OrgID t) (at_RoleCode t)) (\<lambda>_. token_use v t user)))))) u1 = (Inr p, s')"
    by (simp_all split: if_splits)
  then show ?thesis
  proof (elim attempt_ok instead_ok)
    fix x u2 user u3 y u4 m u5 r u6
    assume f: "run_state (token_expiry v t) u1 = (Inr x, u2)" "run_state (FindUserByID (at_UserID t)) u2 = (Inr user, u3)"
      "run_state (ensureUserCanLogin v user) u3 = (Inr y, u4)"
      "run_state (FindMembership (at_OrgID t) (at_UserID t)) u4 = (Inr m, u5)"
      "run_state (FindRole (at_OrgID t) (at_RoleCode t)) u5 = (Inr r, u6)" "run_state (token_use v t user) u6 = (Inr p, s')"
    have s1: "same_rows s u1" using FindAPITokenByHash_ok [OF t] same_data_rows by blast
    have "same_data u1 u2" using f(1) by (auto simp: token_expiry_run split: if_splits option.splits)
    then have s2: "same_rows s u2" using s1 same_data_rows rows.trans by blast
    then have s3: "same_rows s u3" using FindUserByID_ok [OF f(2)] same_data_rows rows.trans by blast
    then have s4: "same_rows s u4" using rel_ran [OF rows_checks(2) f(3)] rows.trans by blast
    then have s5: "same_rows s u5" using FindMembership_ok [OF f(4)] same_data_rows rows.trans by blast
    then have s6: "same_rows s u6" using FindRole_ok [OF f(5)] same_data_rows rows.trans by blast
    have "holds_role v u6 (at_UserID t) (at_OrgID t) (at_RoleCode t)" "p = token_principal v t user"
      using f(6) by (auto simp: token_use_def userHasRole_run run_ignore split: if_splits)
    moreover have "not_expired v (ia_seq u1) t" using f(1) by (simp add: token_expiry_run split: if_splits)
    ultimately have "good_token v s t user"
      using FindAPITokenByHash_ok [OF t] active FindUserByID_ok [OF f(2)] ensureUserCanLogin_ok [OF f(3)]
        FindMembership_ok [OF f(4)] FindRole_ok [OF f(5)]
      by (auto simp: good_token_def holds_role_def same_rowsD [OF s2] same_rowsD [OF s4] same_rowsD [OF s5] same_rowsD [OF s6])
    then show ?thesis using FindAPITokenByHash_ok [OF t] \<open>p = token_principal v t user\<close> by blast
  qed
qed

section \<open>An API token acts for its role alone\<close>

definition rule_grants :: "CasbinRule \<Rightarrow> string \<Rightarrow> int \<Rightarrow> PermissionContext \<Rightarrow> bool" where
  "rule_grants r role org permission \<longleftrightarrow>
     cb_PType r = ''p'' \<and> cb_V0 r = roleSubject role \<and> cb_V1 r = FormatInt org \<and>
     permissionAllows \<lparr>rp_ProductCode = cb_V2 r, rp_Scope = cb_V3 r, rp_Code = cb_V4 r @ '':'' @ cb_V5 r\<rparr> permission"

lemma ListRolePermissions_ok:
  assumes "run_state (ListRolePermissions org subject) s = (Inr grants, t)" and "g \<in> set grants"
  shows "\<exists>r \<in> set (ia_rules s). cb_PType r = ''p'' \<and> cb_V0 r = subject \<and> cb_V1 r = FormatInt org \<and>
    g = \<lparr>rp_ProductCode = cb_V2 r, rp_Scope = cb_V3 r, rp_Code = cb_V4 r @ '':'' @ cb_V5 r\<rparr>"
proof -
  from assms(1) obtain rows u where f: "run_state (Find ia_rules (\<lambda>rules. sort_key (\<lambda>r. [cb_V2 r, cb_V3 r, cb_V4 r, cb_V5 r])
      (filter (\<lambda>r. cb_PType r = ''p'' \<and> cb_V0 r = subject \<and> cb_V1 r = FormatInt org) rules))) s = (Inr rows, u)"
    "grants = map (\<lambda>r. \<lparr>rp_ProductCode = cb_V2 r, rp_Scope = cb_V3 r, rp_Code = cb_V4 r @ '':'' @ cb_V5 r\<rparr>)
        (filter (\<lambda>r. cb_V4 r \<noteq> [] \<and> cb_V5 r \<noteq> []) rows)"
    unfolding ListRolePermissions_def by (elim attempt_ok) simp
  have "set rows \<subseteq> {r \<in> set (ia_rules s). cb_PType r = ''p'' \<and> cb_V0 r = subject \<and> cb_V1 r = FormatInt org}"
    using Find_run [OF f(1)] by (auto dest: same_dataD(10))
  then show ?thesis using assms(2) f(2) by auto
qed

lemma Authorize_role:
  assumes "run_state (Authorize v p permission) s = (Inr True, t)" and "p_RoleCode p \<noteq> []"
  shows "\<exists>r \<in> set (ia_rules s). rule_grants r (p_RoleCode p) (p_OrgID p) (normalizePermissionContext (v_cfg v) permission)"
proof -
  let ?q = "normalizePermissionContext (v_cfg v) permission"
  have "run_state (authorizeRole p ?q) s = (Inr True, t)"
    using assms by (auto simp: Authorize_def Let_def split: if_splits)
  then obtain grants u g where g: "run_state (ListRolePermissions (p_OrgID p) (roleSubject (p_RoleCode p))) s = (Inr grants, u)"
      "g \<in> set grants" "permissionAllows g ?q"
    unfolding authorizeRole_def by (elim attempt_ok) auto
  then show ?thesis using ListRolePermissions_ok [OF g(1,2)] unfolding rule_grants_def by metis
qed

section \<open>A created token authenticates\<close>

text \<open>What a token depends on is left alone, and statements go on working.\<close>

definition same_access :: "Iam \<Rightarrow> Iam \<Rightarrow> bool" where
  "same_access s t \<longleftrightarrow> ia_users t = ia_users s \<and> ia_memberships t = ia_memberships s \<and> ia_roles t = ia_roles s \<and>
     ia_tokens t = ia_tokens s \<and> ia_policies t = ia_policies s \<and> ia_seq s \<le> ia_seq t \<and> (ia_faults s = [] \<longrightarrow> ia_faults t = [])"

interpretation access: quiet_relation same_access
  by unfold_locales (auto simp: same_access_def)

lemma access_step:
  "state_io_rel same_access (ask f)" "state_io_rel same_access (First table order p)" "state_io_rel same_access (audit v a b c d e g h i j)"
proof -
  show ask: "state_io_rel same_access (ask f)" for f :: "nat \<Rightarrow> 'x"
    by (simp add: state_io_rel_def same_access_def)
  have data: "same_access s t" if "same_data s t" "ia_faults s = [] \<longrightarrow> t = s" for s t
    using that by (auto simp: same_access_def same_dataD)
  show "state_io_rel same_access (First table order p)"
    unfolding state_io_rel_def by (intro allI run_in [where P = "same_access _"] data) (use First_run in blast)+
  have "state_io_rel same_access (CreateAuditLog row)" for row
    unfolding CreateAuditLog_def Create_def state_io_rel_def
    by (auto simp: statement_def same_access_def split: list.splits option.splits)
  then show "state_io_rel same_access (audit v a b c d e g h i j)"
    unfolding audit_def Let_def by (intro access.quiet_rules ask)
qed

lemma access_checks:
  "state_io_rel same_access (userHasRole v a b c)" "state_io_rel same_access (ensureUserCanLogin v u)"
  "state_io_rel same_access (apiTokenView v t w)" "state_io_rel same_access (token_expiry v t)"
  "state_io_rel same_access (issueAPITokenSecret v)"
  unfolding userHasRole_def GetRolesForUser_def ensureUserCanLogin_def apiTokenView_def token_expiry_def issueAPITokenSecret_def Let_def
  by (auto intro!: access.quiet_rules access_step split: option.splits bool.splits prod.splits)

definition token_guard :: "IamEnv \<Rightarrow> IamPrincipal \<Rightarrow> int \<Rightarrow> string \<Rightarrow> unit result iam" where
  "token_guard v p userID roleCode =
     (if roleCode \<noteq> RolePlatformOwner then ok ()
      else if userID \<noteq> p_UserID p then throw iam_ErrForbidden
      else do { has \<leftarrow> userHasRole v (p_UserID p) (p_OrgID p) RolePlatformOwner;
                if \<not> has then throw iam_ErrForbidden else ok () })"

definition token_row :: "IamPrincipal \<Rightarrow> int \<Rightarrow> string \<Rightarrow> int \<Rightarrow> string \<Rightarrow> gotime \<Rightarrow> int \<Rightarrow> string \<times> string \<times> string \<Rightarrow> APIToken" where
  "token_row p userID roleCode days remark now i secret =
     \<lparr>at_ID = i, at_OrgID = p_OrgID p, at_UserID = userID, at_RoleCode = roleCode, at_TokenPrefix = snd (snd secret),
      at_TokenHash = fst (snd secret), at_Status = StatusActive,
      at_ExpiresAt = (if days > 0 then Some (now + days * 24 * 3600 * Second) else None), at_LastUsedAt = None,
      at_RevokedAt = None, at_RevokedBy = None, at_Remark = TrimSpace remark, at_CreatedBy = p_UserID p,
      at_CreatedAt = now, at_UpdatedAt = now\<rparr>"

definition token_insert ::
    "IamEnv \<Rightarrow> IamPrincipal \<Rightarrow> int \<Rightarrow> string \<Rightarrow> string \<Rightarrow> string \<Rightarrow> string \<Rightarrow> User \<Rightarrow> APIToken \<Rightarrow> (APITokenView \<times> string) result iam" where
  "token_insert v p userID roleCode userAgent ip raw user t =
     attempt (CreateAPIToken_row t) (\<lambda>_. do {
       ignore (audit v (Some (p_OrgID p)) (Some (p_UserID p)) ''api_token.create'' ''api_token'' (FormatInt (at_ID t)) ip
         userAgent [(''userId'', MInt userID), (''roleCode'', MString roleCode), (''expiresAt'', MTime (at_ExpiresAt t))]
         (p_ProductCode p, p_ClientType p));
       view \<leftarrow> apiTokenView v t (Some user);
       ok (view, raw) })"

definition token_body ::
    "IamEnv \<Rightarrow> IamPrincipal \<Rightarrow> int \<Rightarrow> string \<Rightarrow> int \<Rightarrow> string \<Rightarrow> string \<Rightarrow> string \<Rightarrow> User \<Rightarrow> (APITokenView \<times> string) result iam" where
  "token_body v p userID roleCode days remark userAgent ip user = do {
     has \<leftarrow> userHasRole v userID (p_OrgID p) roleCode;
     if \<not> has then throw iam_ErrForbidden
     else attempt (issueAPITokenSecret v) (\<lambda>secret. do {
       now \<leftarrow> ask (v_now v);
       i \<leftarrow> ask (v_id v);
       token_insert v p userID roleCode userAgent ip (fst secret) user (token_row p userID roleCode days remark now i secret) }) }"

lemma CreateAPIToken_eq:
  "CreateAPIToken v p userID roleCode days remark userAgent ip =
     (let roleCode = normalizeCode roleCode in
      if userID \<le> 0 \<or> roleCode = [] then throw iam_ErrInvalidInput
      else attempt (token_guard v p userID roleCode) (\<lambda>_.
        attempt (State_Monad.return (normalizeAPITokenDays days)) (\<lambda>days.
        instead iam_ErrNotFound (FindMembership (p_OrgID p) userID) (\<lambda>_.
        instead iam_ErrNotFound (FindUserByID userID) (\<lambda>user.
        attempt (ensureUserCanLogin v user) (\<lambda>_.
        instead iam_ErrNotFound (FindRole (p_OrgID p) roleCode) (\<lambda>_.
        token_body v p userID roleCode days remark userAgent ip user)))))))"
  unfolding CreateAPIToken_def token_guard_def token_body_def token_insert_def token_row_def Let_def
  by (simp only: case_prod_unfold APIToken.select_convs)

lemma CreateAPIToken_row_run:
  assumes "run_state (CreateAPIToken_row row) s = (Inr x, t)"
  shows "ia_tokens t = ia_tokens s @ [row]" "\<forall>y \<in> set (ia_tokens s). at_ID y \<noteq> at_ID row \<and> at_TokenHash y \<noteq> at_TokenHash row"
    "same_access s (t\<lparr>ia_tokens := ia_tokens s\<rparr>)"
proof -
  have "(ia_tokens t = ia_tokens s @ [row]) \<and>
    (\<forall>y \<in> set (ia_tokens s). at_ID y \<noteq> at_ID row \<and> at_TokenHash y \<noteq> at_TokenHash row) \<and>
    same_access s (t\<lparr>ia_tokens := ia_tokens s\<rparr>)"
    using assms [unfolded CreateAPIToken_row_def]
  proof (cases rule: Create_run)
    case (created u)
    have u: "ia_tokens u = ia_tokens s" "same_access s u"
      using created(2,5) by (auto simp: same_access_def same_dataD)
    then show ?thesis using created(3,4) by (auto simp: token_clash_def same_access_def)
  qed simp
  then show "ia_tokens t = ia_tokens s @ [row]" "\<forall>y \<in> set (ia_tokens s). at_ID y \<noteq> at_ID row \<and> at_TokenHash y \<noteq> at_TokenHash row"
    "same_access s (t\<lparr>ia_tokens := ia_tokens s\<rparr>)" by blast+
qed

lemma issueAPITokenSecret_ok:
  assumes "run_state (issueAPITokenSecret v) s = (Inr secret, t)"
  shows "fst (snd secret) = v_token_hash v (fst secret) \<and> HasPrefix (fst secret) ''aoi_''"
  using assms unfolding issueAPITokenSecret_def Let_def by (elim attempt_ok) (auto simp: HasPrefix_def)

lemma token_insert_ok:
  assumes "run_state (token_insert v p i code ua ip raw user row) s = (Inr (view, raw'), t)"
  shows "raw' = raw" "ia_tokens t = ia_tokens s @ [row]" "\<forall>y \<in> set (ia_tokens s). at_TokenHash y \<noteq> at_TokenHash row"
    "same_access s (t\<lparr>ia_tokens := ia_tokens s\<rparr>)" "av_token view = row\<lparr>at_TokenHash := []\<rparr>"
proof -
  from assms obtain x u where u: "run_state (CreateAPIToken_row row) s = (Inr x, u)"
    and rest: "run_state (do {
       ignore (audit v (Some (p_OrgID p)) (Some (p_UserID p)) ''api_token.create'' ''api_token'' (FormatInt (at_ID row)) ip
         ua [(''userId'', MInt i), (''roleCode'', MString code), (''expiresAt'', MTime (at_ExpiresAt row))]
         (p_ProductCode p, p_ClientType p));
       view \<leftarrow> apiTokenView v row (Some user);
       ok (view, raw) }) u = (Inr (view, raw'), t)"
    unfolding token_insert_def by (elim attempt_ok)
  note row = CreateAPIToken_row_run [OF u]
  from rest show "raw' = raw" by (elim bound_ok) simp
  from rest obtain w z where "run_state (apiTokenView v row (Some user)) w = (view, z)" by (elim bound_ok) simp
  then show "av_token view = row\<lparr>at_TokenHash := []\<rparr>" unfolding apiTokenView_def Let_def by (auto split: prod.splits)
  have "state_io_rel same_access (do {
       ignore (audit v (Some (p_OrgID p)) (Some (p_UserID p)) ''api_token.create'' ''api_token'' (FormatInt (at_ID row)) ip
         ua [(''userId'', MInt i), (''roleCode'', MString code), (''expiresAt'', MTime (at_ExpiresAt row))]
         (p_ProductCode p, p_ClientType p));
       view \<leftarrow> apiTokenView v row (Some user);
       ok (view, raw) })"
    by (intro access.quiet_rules access_step access_checks)
  then have ut: "same_access u t" using rest rel_ran by blast
  then show "ia_tokens t = ia_tokens s @ [row]" using row(1) by (simp add: same_access_def)
  show "\<forall>y \<in> set (ia_tokens s). at_TokenHash y \<noteq> at_TokenHash row" using row(2) by simp
  show "same_access s (t\<lparr>ia_tokens := ia_tokens s\<rparr>)" using row(3) ut by (auto simp: same_access_def)
qed

lemma finders_same_access:
  "state_io_rel same_access (FindMembership org i)" "state_io_rel same_access (FindUserByID i)"
  "state_io_rel same_access (FindRole org code)"
  unfolding finder_defs by (rule access_step)+

lemma CreateAPIToken_ok:
  assumes run: "run_state (CreateAPIToken v p userID code days remark ua ip) s = (Inr (view, raw), t)" and "ia_faults s = []"
  shows "\<exists>user n row m r. ia_tokens t = ia_tokens s @ [row] \<and> (\<forall>y \<in> set (ia_tokens s). at_TokenHash y \<noteq> at_TokenHash row) \<and>
    at_TokenHash row = v_token_hash v raw \<and> av_token view = row\<lparr>at_TokenHash := []\<rparr> \<and>
    at_Status row = StatusActive \<and> at_UserID row = userID \<and> at_OrgID row = p_OrgID p \<and> at_RoleCode row = normalizeCode code \<and>
    first_row u_ID (\<lambda>u. u_ID u = userID \<and> u_DeletedAt u = None) (ia_users s) = Some user \<and>
    n \<le> ia_seq t \<and> can_login v n user \<and>
    first_row mb_ID (active_member (p_OrgID p) userID) (ia_memberships s) = Some m \<and>
    first_row ro_ID (\<lambda>r. ro_OrgID r = p_OrgID p \<and> ro_Code r = normalizeCode code \<and> ro_DeletedAt r = None) (ia_roles s) = Some r \<and>
    holds_role v s userID (p_OrgID p) (normalizeCode code) \<and> same_access s (t\<lparr>ia_tokens := ia_tokens s\<rparr>) \<and> HasPrefix raw ''aoi_''"
proof -
  let ?code = "normalizeCode code"
  have "run_state (attempt (token_guard v p userID ?code) (\<lambda>_.
        attempt (State_Monad.return (normalizeAPITokenDays days)) (\<lambda>days.
        instead iam_ErrNotFound (FindMembership (p_OrgID p) userID) (\<lambda>_.
        instead iam_ErrNotFound (FindUserByID userID) (\<lambda>user.
        attempt (ensureUserCanLogin v user) (\<lambda>_.
        instead iam_ErrNotFound (FindRole (p_OrgID p) ?code) (\<lambda>_.
        token_body v p userID ?code days remark ua ip user)))))) ) s = (Inr (view, raw), t)"
    using run unfolding CreateAPIToken_eq Let_def by (simp split: if_splits)
  then show ?thesis
  proof (elim attempt_ok instead_ok)
    fix x1 u1 days' u2 m u3 user u4 x5 u5 r u6
    assume f: "run_state (token_guard v p userID ?code) s = (Inr x1, u1)"
      "run_state (State_Monad.return (normalizeAPITokenDays days)) u1 = (Inr days', u2)"
      "run_state (FindMembership (p_OrgID p) userID) u2 = (Inr m, u3)" "run_state (FindUserByID userID) u3 = (Inr user, u4)"
      "run_state (ensureUserCanLogin v user) u4 = (Inr x5, u5)" "run_state (FindRole (p_OrgID p) ?code) u5 = (Inr r, u6)"
      and body: "run_state (token_body v p userID ?code days' remark ua ip user) u6 = (Inr (view, raw), t)"
    have "state_io_rel same_access (token_guard v p userID ?code)" unfolding token_guard_def
      by (auto intro!: access.quiet_rules access_checks)
    then have a2: "same_access s u2" using f(1,2) rel_ran by fastforce
    have a3: "same_access s u3" using a2 rel_ran [OF finders_same_access(1) f(3)] access.trans by blast
    have a4: "same_access s u4" using a3 rel_ran [OF finders_same_access(2) f(4)] access.trans by blast
    have a5: "same_access s u5" using a4 rel_ran [OF access_checks(2) f(5)] access.trans by blast
    have a6: "same_access s u6" using a5 rel_ran [OF finders_same_access(3) f(6)] access.trans by blast
    from body have has: "holds_role v u6 userID (p_OrgID p) ?code"
      by (simp add: token_body_def userHasRole_run split: if_splits)
    with body obtain secret u7 now u8 i u9 where secret: "run_state (issueAPITokenSecret v) u6 = (Inr secret, u7)"
        "run_state (ask (v_now v)) u7 = (now, u8)" "run_state (ask (v_id v)) u8 = (i, u9)"
      and ins: "run_state (token_insert v p userID ?code ua ip (fst secret) user
        (token_row p userID ?code days' remark now i secret)) u9 = (Inr (view, raw), t)"
      unfolding token_body_def by (elim bound_ok) (simp add: userHasRole_run, elim attempt_ok bound_ok, simp)
    have a9: "same_access s u9"
      using a6 rel_ran [OF access_checks(5) secret(1)] rel_ran [OF access_step(1) secret(2)] rel_ran [OF access_step(1) secret(3)]
        access.trans by blast
    note ins = token_insert_ok [OF ins]
    let ?row = "token_row p userID ?code days' remark now i secret"
    have rows: "first_row mb_ID (active_member (p_OrgID p) userID) (ia_memberships s) = Some m"
      "first_row u_ID (\<lambda>u. u_ID u = userID \<and> u_DeletedAt u = None) (ia_users s) = Some user"
      "first_row ro_ID (\<lambda>r. ro_OrgID r = p_OrgID p \<and> ro_Code r = ?code \<and> ro_DeletedAt r = None) (ia_roles s) = Some r"
      using f(3,4,6) a2 a3 a5 assms(2)
      by (simp_all add: FindMembership_def FindUserByID_def FindRole_def First_runs same_access_def)
    have "ia_seq u4 \<le> ia_seq t" "can_login v (ia_seq u4) user"
      using ensureUserCanLogin_ok [OF f(5)] rel_ran [OF access_checks(2) f(5)] rel_ran [OF finders_same_access(3) f(6)]
        rel_ran [OF access_checks(5) secret(1)] secret(2,3) ins(4) by (auto simp: same_access_def)
    moreover have "at_TokenHash ?row = v_token_hash v raw" "HasPrefix raw ''aoi_''"
      using issueAPITokenSecret_ok [OF secret(1)] ins(1) by (simp_all add: token_row_def)
    moreover have "same_access s (t\<lparr>ia_tokens := ia_tokens s\<rparr>)" "ia_tokens u9 = ia_tokens s" "ia_policies u6 = ia_policies s"
      using a9 a6 ins(4) by (auto simp: same_access_def)
    ultimately show ?thesis
      using ins(2,3,5) rows has
      by (intro exI [of _ user] exI [of _ "ia_seq u4"] exI [of _ ?row] exI [of _ m] exI [of _ r])
        (simp_all add: token_row_def holds_role_def)
  qed
qed

lemma can_login_later: "mono (v_now v) \<Longrightarrow> m \<le> n \<Longrightarrow> can_login v m u \<Longrightarrow> can_login v n u"
  unfolding can_login_def by (auto split: option.splits dest: monoD intro: order_trans)

lemma good_token_authenticates:
  assumes "ia_faults s = []" and "TrimSpace raw \<noteq> []"
    and "first_row at_ID (\<lambda>t. at_TokenHash t = v_token_hash v (TrimSpace raw)) (ia_tokens s) = Some row"
    and "at_Status row = StatusActive" and "not_expired v (ia_seq s) row"
    and "first_row u_ID (\<lambda>u. u_ID u = at_UserID row \<and> u_DeletedAt u = None) (ia_users s) = Some user"
    and "mono (v_now v)" and "can_login v (ia_seq s) user"
    and "first_row mb_ID (active_member (at_OrgID row) (at_UserID row)) (ia_memberships s) = Some m"
    and "first_row ro_ID (\<lambda>r. ro_OrgID r = at_OrgID row \<and> ro_Code r = at_RoleCode row \<and> ro_DeletedAt r = None) (ia_roles s) = Some r"
    and "holds_role v s (at_UserID row) (at_OrgID row) (at_RoleCode row)"
  shows "fst (run_state (authenticateAPIToken v raw) s) = Inr (token_principal v row user)"
proof -
  define s1 where "s1 = (case at_ExpiresAt row of None \<Rightarrow> s | Some e \<Rightarrow> s\<lparr>ia_seq := Suc (ia_seq s)\<rparr>)"
  have s1: "ia_faults s1 = []" "ia_users s1 = ia_users s" "ia_memberships s1 = ia_memberships s" "ia_roles s1 = ia_roles s"
    "ia_policies s1 = ia_policies s" "ia_seq s \<le> ia_seq s1" using assms(1) by (auto simp: s1_def split: option.splits)
  then have "can_login v (ia_seq s1) user" using can_login_later assms(7,8) by blast
  then obtain s2 where s2: "run_state (ensureUserCanLogin v user) s1 = (Inr (), s2)"
      "s2 = s1 \<or> s2 = s1\<lparr>ia_seq := Suc (ia_seq s1)\<rparr>"
    by (cases "u_LockedUntil user") (auto simp: ensureUserCanLogin_runs can_login_def)
  have s2': "ia_faults s2 = []" "ia_memberships s2 = ia_memberships s" "ia_roles s2 = ia_roles s" "ia_policies s2 = ia_policies s"
    using s2(2) by (elim disjE; simp add: s1)+
  have finds: "run_state (FindAPITokenByHash (v_token_hash v (TrimSpace raw))) s = (Inr row, s)"
    "run_state (FindUserByID (at_UserID row)) s1 = (Inr user, s1)"
    "run_state (FindMembership (at_OrgID row) (at_UserID row)) s2 = (Inr m, s2)"
    "run_state (FindRole (at_OrgID row) (at_RoleCode row)) s2 = (Inr r, s2)"
    using assms(1,3,6,9,10) s1 s2'
    by (simp_all add: FindAPITokenByHash_def FindUserByID_def FindMembership_def FindRole_def First_runs found_def)
  have expiry: "run_state (token_expiry v row) s = (Inr (), s1)" using assms(5) by (simp add: token_expiry_run s1_def)
  have "holds_role v s2 (at_UserID row) (at_OrgID row) (at_RoleCode row)" using assms(11) s2'(4) by (simp add: holds_role_def)
  then have "fst (run_state (token_use v row user) s2) = Inr (token_principal v row user)"
    by (simp add: token_use_def userHasRole_run run_ignore)
  then show ?thesis
    using assms(2,4) finds expiry s2(1) by (simp add: authenticateAPIToken_eq run_attempt run_instead)
qed

lemma first_row_appended:
  assumes "\<forall>y \<in> set rows. \<not> p y" and "p row"
  shows "first_row order p (rows @ [row]) = Some row"
  using assms by (intro first_row_unique) auto

lemma created_token_authenticates:
  assumes created: "run_state (CreateAPIToken v p userID code days remark ua ip) s = (Inr (view, raw), t)"
    and "ia_faults s = []" and "mono (v_now v)" and "TrimSpace raw = raw"
    and parse: "v_parse v (ia_seq t) raw = Inl e" and "not_expired v (Suc (ia_seq t)) (av_token view)"
  shows "\<exists>user. fst (run_state (AuthenticateToken v raw) t) = Inr (token_principal v (av_token view) user) \<and>
    u_ID user = userID \<and> at_OrgID (av_token view) = p_OrgID p \<and> at_RoleCode (av_token view) = normalizeCode code"
proof -
  obtain user n row m r where ok: "ia_tokens t = ia_tokens s @ [row]" "\<forall>y \<in> set (ia_tokens s). at_TokenHash y \<noteq> at_TokenHash row"
      "at_TokenHash row = v_token_hash v raw" "av_token view = row\<lparr>at_TokenHash := []\<rparr>" "at_Status row = StatusActive"
      "at_UserID row = userID" "at_OrgID row = p_OrgID p" "at_RoleCode row = normalizeCode code"
      "first_row u_ID (\<lambda>u. u_ID u = userID \<and> u_DeletedAt u = None) (ia_users s) = Some user"
      "n \<le> ia_seq t" "can_login v n user"
      "first_row mb_ID (active_member (p_OrgID p) userID) (ia_memberships s) = Some m"
      "first_row ro_ID (\<lambda>r. ro_OrgID r = p_OrgID p \<and> ro_Code r = normalizeCode code \<and> ro_DeletedAt r = None) (ia_roles s) = Some r"
      "holds_role v s userID (p_OrgID p) (normalizeCode code)" "same_access s (t\<lparr>ia_tokens := ia_tokens s\<rparr>)" "HasPrefix raw ''aoi_''"
    using CreateAPIToken_ok [OF created assms(2)] by blast
  let ?t = "t\<lparr>ia_seq := Suc (ia_seq t)\<rparr>"
  have t: "ia_faults t = []" "ia_users t = ia_users s" "ia_memberships t = ia_memberships s" "ia_roles t = ia_roles s"
    "ia_policies t = ia_policies s" using ok(15) assms(2) by (simp_all add: same_access_def)
  have "raw \<noteq> []" using ok(16) by (auto simp: HasPrefix_def)
  have "fst (run_state (authenticateAPIToken v raw) ?t) = Inr (token_principal v row user)"
  proof (rule good_token_authenticates)
    show "first_row at_ID (\<lambda>x. at_TokenHash x = v_token_hash v (TrimSpace raw)) (ia_tokens ?t) = Some row"
      using ok(1-3) assms(4) by (simp add: first_row_appended)
    show "can_login v (ia_seq ?t) user" using can_login_later [OF assms(3) _ ok(11)] ok(10) by simp
    show "not_expired v (ia_seq ?t) row" using assms(6) ok(4) by (simp add: not_expired_def)
    show "holds_role v ?t (at_UserID row) (at_OrgID row) (at_RoleCode row)"
      using ok(6-8,14) t(5) by (simp add: holds_role_def)
  qed (use ok t assms \<open>raw \<noteq> []\<close> in simp_all)
  moreover have "token_principal v (av_token view) user = token_principal v row user"
    using ok(4) by (simp add: token_principal_def)
  moreover have "u_ID user = userID" using first_row_Some(2) [OF ok(9)] by simp
  ultimately show ?thesis using parse ok(4,7,8) by (intro exI [of _ user]) (simp add: AuthenticateToken_def)
qed

end
