(* ===== verification/IAM_Roles.thy ===== *)
theory IAM_Roles
  imports IAM_Tokens
begin

text \<open>
  Roles and policies: the rules that creating a role, updating one and assigning roles to a user leave in the table.
\<close>

section \<open>Adding rules\<close>

text \<open>The rules as sets of value tuples, which is what \<open>LoadPolicies\<close> reads.\<close>

definition tuples :: "Iam \<Rightarrow> string list set" where
  "tuples s = rule_tuple ` set (ia_rules s)"

definition same_rules :: "Iam \<Rightarrow> Iam \<Rightarrow> bool" where
  "same_rules s t \<longleftrightarrow> ia_rules t = ia_rules s"

interpretation policies: quiet_relation same_rules
  by unfold_locales (simp_all add: same_rules_def)

lemma same_rules_tuples: "same_rules s t \<Longrightarrow> tuples t = tuples s"
  by (simp add: same_rules_def tuples_def)

lemma policies_statement:
  assumes "\<And>s. same_rules s (snd (work s))"
  shows "state_io_rel same_rules (statement work)"
  unfolding state_io_rel_def
proof
  fix s
  show "same_rules s (snd (run_state (statement work) s))"
    using assms [of s] assms [of "s\<lparr>ia_faults := tl (ia_faults s)\<rparr>"]
    by (auto simp: statement_def same_rules_def split: list.splits option.splits)
qed

lemma policies_step:
  "state_io_rel same_rules (ask f)" "state_io_rel same_rules (First table order q)" "state_io_rel same_rules (Find table query)"
  "state_io_rel same_rules (audit v a b c d e g h i j)" "state_io_rel same_rules (CreateRole_row row)"
  "state_io_rel same_rules (SaveRole v row)" "state_io_rel same_rules LoadPolicies"
  "state_io_rel same_rules (SaveMembership v m)"
proof -
  show ask: "state_io_rel same_rules (ask f)" for f :: "nat \<Rightarrow> 'x"
    by (simp add: state_io_rel_def same_rules_def)
  show "state_io_rel same_rules (First table order q)" unfolding First_def
    by (rule policies_statement) (simp add: same_rules_def)
  show find: "state_io_rel same_rules (Find table query)" for table :: "Iam \<Rightarrow> 'y list" and query unfolding Find_def
    by (rule policies_statement) (simp add: same_rules_def)
  have "state_io_rel same_rules (CreateAuditLog row)" for row unfolding CreateAuditLog_def Create_def
    by (rule policies_statement) (simp add: same_rules_def)
  then show "state_io_rel same_rules (audit v a b c d e g h i j)"
    unfolding audit_def Let_def by (intro policies.quiet_rules ask)
  show "state_io_rel same_rules (CreateRole_row row)" unfolding CreateRole_row_def Create_def
    by (rule policies_statement) (simp add: same_rules_def)
  have "state_io_rel same_rules (Save ia_roles (\<lambda>t s. s\<lparr>ia_roles := t\<rparr>) ro_ID role_clash row)" for row unfolding Save_def
    by (rule policies_statement) (simp add: same_rules_def)
  then show "state_io_rel same_rules (SaveRole v row)" unfolding SaveRole_def by (intro policies.quiet_rules ask)
  have "state_io_rel same_rules (Save ia_memberships (\<lambda>t s. s\<lparr>ia_memberships := t\<rparr>) mb_ID membership_clash m)" for m unfolding Save_def
    by (rule policies_statement) (simp add: same_rules_def)
  then show "state_io_rel same_rules (SaveMembership v m)" unfolding SaveMembership_def by (intro policies.quiet_rules ask)
  have "state_io_rel same_rules (LoadRules rs)" for rs
    by (auto simp: LoadRules_def state_io_rel_def same_rules_def split: prod.splits)
  then show "state_io_rel same_rules LoadPolicies"
    unfolding LoadPolicies_def ListCasbinRules_def by (intro policies.quiet_rules find)
qed

lemma AddCasbinRule_tuples:
  assumes "run_state (AddCasbinRule rule) s = (Inr x, t)"
  shows "tuples t = insert (rule_tuple rule) (tuples s)"
proof -
  obtain r u where f: "run_state (First ia_rules cb_ID (\<lambda>r. rule_tuple r = rule_tuple rule)) s = (r, u)" by fastforce
  have u: "tuples u = tuples s" using First_run [OF f] same_dataD(10) [of s u] by (simp add: tuples_def)
  show ?thesis
  proof (cases r)
    case (Inr y)
    then have "rule_tuple y = rule_tuple rule" "y \<in> set (ia_rules u)" using First_ok(1,2) f by fastforce+
    then have "rule_tuple rule \<in> tuples u" unfolding tuples_def by (metis imageI)
    then show ?thesis using assms f Inr u by (auto simp: AddCasbinRule_def)
  next
    case (Inl e)
    then have "run_state (Create ia_rules (\<lambda>t s. s\<lparr>ia_rules := t\<rparr>) rule_clash rule) u = (Inr x, t)"
      using assms f by (simp add: AddCasbinRule_def split: if_splits)
    then show ?thesis
    proof (cases rule: Create_run)
      case (created w)
      then have "tuples w = tuples u" by (simp add: tuples_def same_dataD)
      then show ?thesis using created u by (auto simp: tuples_def)
    qed simp
  qed
qed

definition policy_tuple :: "IamConfig \<Rightarrow> int \<Rightarrow> string \<Rightarrow> string \<Rightarrow> string \<times> string \<Rightarrow> string list" where
  "policy_tuple cfg org role product oa =
     [''p'', roleSubject role, FormatInt org, normalizeProductCode (iam_firstNonEmpty [product, DefaultProductCode cfg]),
      PermissionScopeTenant, TrimSpace (fst oa), TrimSpace (snd oa)]"

definition wanted_policies :: "IamConfig \<Rightarrow> int \<Rightarrow> string \<Rightarrow> string \<Rightarrow> string list \<Rightarrow> string list set" where
  "wanted_policies cfg org role product permissions =
     policy_tuple cfg org role product ` {oa \<in> permissionObjectAction ` set permissions. oa \<noteq> ([], [])}"

definition assignment_tuple :: "int \<Rightarrow> int \<Rightarrow> string \<Rightarrow> string list" where
  "assignment_tuple org user role = [''g'', userSubject user, roleSubject role, FormatInt org, [], [], []]"

lemma normal_scope [simp]: "normalizePermissionScope ''tenant'' = ''tenant''"
  by (simp add: normalizePermissionScope_def) code_simp

lemma addPolicy_tuples:
  assumes "run_state (addPolicy v org role product PermissionScopeTenant obj act) s = (Inr x, t)"
  shows "tuples t = insert (policy_tuple (v_cfg v) org role product (obj, act)) (tuples s)"
proof -
  from assms obtain rule u where f: "run_state (AddCasbinRule rule) u = (Inr x, t)" "same_rules s u"
      "rule_tuple rule = policy_tuple (v_cfg v) org role product (obj, act)"
    unfolding addPolicy_def Let_def
    by (auto simp: same_rules_def rule_tuple_def policy_tuple_def split: if_splits)
  then show ?thesis using AddCasbinRule_tuples [OF f(1)] same_rules_tuples [OF f(2)] by simp
qed

lemma permissionObjectAction_both:
  "permissionObjectAction c = (a, b) \<Longrightarrow> a = [] \<or> b = [] \<longleftrightarrow> (a, b) = ([], [])"
  by (auto simp: permissionObjectAction_def Let_def split: if_splits)

lemma add_policies_tuples:
  assumes "run_state (add_policies v org role product permissions) s = (Inr x, t)"
  shows "tuples t = tuples s \<union> wanted_policies (v_cfg v) org role product permissions"
  using assms
proof (induction permissions arbitrary: s)
  case (Cons c cs)
  obtain a b where ab: "permissionObjectAction c = (a, b)" by fastforce
  show ?case
  proof (cases "a = [] \<or> b = []")
    case True
    then show ?thesis using Cons ab permissionObjectAction_both [OF ab]
      by (auto simp: wanted_policies_def)
  next
    case False
    then obtain y u where u: "run_state (addPolicy v org role product PermissionScopeTenant a b) s = (Inr y, u)"
        "run_state (add_policies v org role product cs) u = (Inr x, t)"
      using Cons.prems ab by (auto elim: attempt_ok)
    have "wanted_policies (v_cfg v) org role product (c # cs) =
        insert (policy_tuple (v_cfg v) org role product (a, b)) (wanted_policies (v_cfg v) org role product cs)"
      using False ab by (auto simp: wanted_policies_def)
    then show ?thesis using addPolicy_tuples [OF u(1)] Cons.IH [OF u(2)] by simp
  qed
qed (simp add: wanted_policies_def)

lemma addUserRole_tuples:
  assumes "run_state (addUserRole v user org role) s = (Inr x, t)"
  shows "tuples t = insert (assignment_tuple org user role) (tuples s)"
proof -
  from assms obtain rule u where f: "run_state (AddCasbinRule rule) u = (Inr x, t)" "same_rules s u"
      "rule_tuple rule = assignment_tuple org user role"
    unfolding addUserRole_def by (auto simp: same_rules_def rule_tuple_def assignment_tuple_def)
  then show ?thesis using AddCasbinRule_tuples [OF f(1)] same_rules_tuples [OF f(2)] by simp
qed

lemma add_roles_tuples:
  assumes "run_state (add_roles v user org roles) s = (Inr x, t)"
  shows "tuples t = tuples s \<union> assignment_tuple org user ` set roles"
  using assms
proof (induction roles arbitrary: s)
  case (Cons r rs)
  then obtain y u where u: "run_state (addUserRole v user org r) s = (Inr y, u)" "run_state (add_roles v user org rs) u = (Inr x, t)"
    by (auto elim: attempt_ok)
  then show ?case using addUserRole_tuples [OF u(1)] Cons.IH [OF u(2)] by auto
qed simp

section \<open>Removing rules\<close>

lemma FormatUint_nonempty [simp]: "FormatUint n \<noteq> []"
  by (subst FormatUint.simps) simp

lemma subjects_nonempty [simp]: "FormatInt i \<noteq> []" "userSubject i \<noteq> []" "roleSubject c \<noteq> []"
  by (auto simp: FormatInt_def userSubject_def roleSubject_def HasPrefix_def)

lemma DeleteCasbinRules_tuples:
  assumes "run_state (DeleteCasbinRules ptype v0 v1 v2) s = (Inr x, t)"
  shows "tuples t = {r \<in> tuples s. \<not> (r ! 0 = ptype \<and> (v0 = [] \<or> r ! 1 = v0) \<and> (v1 = [] \<or> r ! 2 = v1) \<and> (v2 = [] \<or> r ! 3 = v2))}"
  using assms [unfolded DeleteCasbinRules_def]
proof (cases rule: statement_run)
  case (works u)
  then have t: "t = u\<lparr>ia_rules := filter (\<lambda>r. \<not> (cb_PType r = ptype \<and>
     (v0 = [] \<or> cb_V0 r = v0) \<and> (v1 = [] \<or> cb_V1 r = v1) \<and> (v2 = [] \<or> cb_V2 r = v2))) (ia_rules u)\<rparr>" by simp
  have u: "ia_rules u = ia_rules s" using works(1) by (simp add: same_dataD)
  have fields: "rule_tuple r ! 0 = cb_PType r" "rule_tuple r ! 1 = cb_V0 r" "rule_tuple r ! 2 = cb_V1 r" "rule_tuple r ! 3 = cb_V2 r" for r
    by (simp_all add: rule_tuple_def)
  show ?thesis unfolding tuples_def t using u by (auto simp: fields [unfolded One_nat_def])
qed simp

section \<open>Roles and assignments\<close>

lemma hydrate_same_rules: "state_io_rel same_rules (hydrateRolePermissions role)"
  unfolding hydrateRolePermissions_def ListRolePermissions_def
  by (intro policies.quiet_rules policies_step)

lemma CreateRole_tuples:
  assumes "run_state (CreateRole v p code name description permissions) s = (Inr out, t)"
  shows "tuples t = tuples s \<union> wanted_policies (v_cfg v) (p_OrgID p) (normalizeCode code) (p_ProductCode p) permissions"
proof -
  let ?body = "\<lambda>row. attempt (CreateRole_row row) (\<lambda>_.
    attempt (add_policies v (p_OrgID p) (normalizeCode code) (p_ProductCode p) permissions) (\<lambda>_. do {
      ignore LoadPolicies;
      out \<leftarrow> hydrateRolePermissions row;
      ok out }))"
  have "\<exists>row u1. same_rules s u1 \<and> run_state (?body row) u1 = (Inr out, t)"
    using assms unfolding CreateRole_def Let_def
    by (simp only: split: if_splits, (simp; fail)+) (elim bound_ok, intro exI, rule conjI [rotated], assumption,
        auto simp: same_rules_def)
  then obtain row u1 where f: "same_rules s u1" and "run_state (?body row) u1 = (Inr out, t)" by blast
  from this(2) obtain x u2 y u3 where g: "run_state (CreateRole_row row) u1 = (Inr x, u2)"
      "run_state (add_policies v (p_OrgID p) (normalizeCode code) (p_ProductCode p) permissions) u2 = (Inr y, u3)"
      "run_state (do { ignore LoadPolicies; out \<leftarrow> hydrateRolePermissions row; ok out }) u3 = (Inr out, t)"
    by (elim attempt_ok)
  have "state_io_rel same_rules (do { ignore LoadPolicies; out \<leftarrow> hydrateRolePermissions row; ok out })"
    by (intro policies.quiet_rules policies_step hydrate_same_rules)
  then have "same_rules u3 t" using g(3) rel_ran by blast
  moreover have "same_rules s u2" using f rel_ran [OF policies_step(5) g(1)] policies.trans by blast
  ultimately show ?thesis using add_policies_tuples [OF g(2)] same_rules_tuples by metis
qed

definition role_rules :: "int \<Rightarrow> string \<Rightarrow> string list set" where
  "role_rules org role = {r. r ! 0 = ''p'' \<and> r ! 1 = roleSubject role \<and> r ! 2 = FormatInt org}"

definition user_assignments :: "int \<Rightarrow> int \<Rightarrow> string list set" where
  "user_assignments org user = {r. r ! 0 = ''g'' \<and> r ! 1 = userSubject user \<and> r ! 3 = FormatInt org}"

lemma update_roles_tuples:
  assumes "run_state (update_roles v p user ua ip (Some roles)) s = (Inr x, t)"
  shows "tuples t = tuples s - user_assignments (p_OrgID p) user \<union> assignment_tuple (p_OrgID p) user ` set roles"
proof -
  from assms obtain a u1 b u2 c u3 where f: "run_state (check_roles (p_OrgID p) roles) s = (Inr a, u1)"
      "run_state (DeleteCasbinRules ''g'' (userSubject user) [] (FormatInt (p_OrgID p))) u1 = (Inr b, u2)"
      "run_state (add_roles v user (p_OrgID p) roles) u2 = (Inr c, u3)"
      "run_state (do {
            ignore LoadPolicies;
            ignore (audit v (Some (p_OrgID p)) (Some (p_UserID p)) ''user.roles.update'' ''user'' (FormatInt user) ip ua
              [(''roles'', MStrings roles)] (p_ProductCode p, p_ClientType p));
            ok () }) u3 = (Inr x, t)"
    unfolding update_roles_def option.case by (elim attempt_ok)
  have "state_io_rel same_rules (check_roles (p_OrgID p) roles)"
    by (induction roles) (auto intro!: policies.quiet_rules policies_step simp: FindRole_def)
  then have su: "same_rules s u1" using f(1) rel_ran by blast
  have "state_io_rel same_rules (do {
            ignore LoadPolicies;
            ignore (audit v (Some (p_OrgID p)) (Some (p_UserID p)) ''user.roles.update'' ''user'' (FormatInt user) ip ua
              [(''roles'', MStrings roles)] (p_ProductCode p, p_ClientType p));
            ok () })"
    by (intro policies.quiet_rules policies_step)
  then have ut: "same_rules u3 t" using f(4) rel_ran by blast
  have "tuples u2 = tuples u1 - user_assignments (p_OrgID p) user"
    unfolding DeleteCasbinRules_tuples [OF f(2)] user_assignments_def by auto
  then show ?thesis using add_roles_tuples [OF f(3)] same_rules_tuples [OF su] same_rules_tuples [OF ut] by simp
qed

lemma UpdateUser_tuples:
  assumes "run_state (UpdateUser v p user status (Some roles) ua ip) s = (Inr out, t)"
  shows "tuples t = tuples s - user_assignments (p_OrgID p) user \<union> assignment_tuple (p_OrgID p) user ` set roles"
proof -
  from assms obtain m u1 w u2 m' u3 x u4 where f: "run_state (FindMembershipAnyStatus (p_OrgID p) user) s = (Inr m, u1)"
      "run_state (FindUserByID user) u1 = (Inr w, u2)" "run_state (update_status v p user m ua ip status) u2 = (Inr m', u3)"
      "run_state (update_roles v p user ua ip (Some roles)) u3 = (Inr x, u4)" "same_rules u4 t"
    unfolding UpdateUser_def by (elim instead_ok attempt_ok) (simp add: GetRolesForUser_def same_rules_def)
  have "state_io_rel same_rules (update_status v p user m ua ip status)" unfolding update_status_def Let_def
    by (auto intro!: policies.quiet_rules policies_step split: option.split)
  then have "same_rules u2 u3" using f(3) rel_ran by blast
  moreover have "same_rules s u1" "same_rules u1 u2"
    using f(1,2) policies_step(2) rel_ran unfolding FindMembershipAnyStatus_def FindUserByID_def by blast+
  ultimately have "tuples u3 = tuples s" using policies.trans same_rules_tuples by metis
  then show ?thesis using update_roles_tuples [OF f(4)] same_rules_tuples [OF f(5)] by simp
qed

lemma UpdateRole_tuples:
  assumes "run_state (UpdateRole v p i name description (Some permissions) ua ip) s = (Inr out, t)"
  shows "\<exists>role \<in> set (ia_roles s). ro_ID role = i \<and> ro_OrgID role = p_OrgID p \<and> \<not> ro_System role \<and>
    tuples t = tuples s - role_rules (p_OrgID p) (ro_Code role) \<union>
      wanted_policies (v_cfg v) (p_OrgID p) (ro_Code role) (p_ProductCode p) permissions"
proof -
  let ?named = "\<lambda>role. role\<lparr>ro_Name := (if TrimSpace name \<noteq> [] then TrimSpace name else ro_Name role), ro_Description := TrimSpace description\<rparr>"
  from assms obtain role u1 where role: "run_state (FindRoleByID i) s = (Inr role, u1)" "ro_OrgID role = p_OrgID p" "\<not> ro_System role"
    and rest: "run_state (attempt (SaveRole v (?named role)) (\<lambda>_.
            attempt (attempt (DeleteCasbinRules ''p'' (roleSubject (ro_Code role)) (FormatInt (p_OrgID p)) []) (\<lambda>_.
                  attempt (add_policies v (p_OrgID p) (ro_Code role) (p_ProductCode p) permissions) (\<lambda>_. do {
                    ignore LoadPolicies;
                    ok () }))) (\<lambda>_. do {
              out \<leftarrow> hydrateRolePermissions (?named role);
              ignore (audit v (Some (p_OrgID p)) (Some (p_UserID p)) ''role.update'' ''role'' (FormatInt (ro_ID role)) ip ua
                [(''permissions'', MStrings permissions)] (p_ProductCode p, p_ClientType p));
              ok out }))) u1 = (Inr out, t)"
    unfolding UpdateRole_def Let_def by (elim instead_ok) (simp split: if_splits)
  from rest obtain a u2 b u3 c u4 d u5 where f: "run_state (SaveRole v (?named role)) u1 = (Inr a, u2)"
      "run_state (DeleteCasbinRules ''p'' (roleSubject (ro_Code role)) (FormatInt (p_OrgID p)) []) u2 = (Inr b, u3)"
      "run_state (add_policies v (p_OrgID p) (ro_Code role) (p_ProductCode p) permissions) u3 = (Inr c, u4)"
      "run_state (do { ignore LoadPolicies; ok () }) u4 = (Inr d, u5)"
      "run_state (do { out \<leftarrow> hydrateRolePermissions (?named role);
              ignore (audit v (Some (p_OrgID p)) (Some (p_UserID p)) ''role.update'' ''role'' (FormatInt (ro_ID role)) ip ua
                [(''permissions'', MStrings permissions)] (p_ProductCode p, p_ClientType p));
              ok out }) u5 = (Inr out, t)"
    by (elim attempt_ok)
  have "state_io_rel same_rules (do { ignore LoadPolicies; ok () })"
    "state_io_rel same_rules (do { out \<leftarrow> hydrateRolePermissions (?named role);
              ignore (audit v (Some (p_OrgID p)) (Some (p_UserID p)) ''role.update'' ''role'' (FormatInt (ro_ID role)) ip ua
                [(''permissions'', MStrings permissions)] (p_ProductCode p, p_ClientType p));
              ok out })"
    by (intro policies.quiet_rules policies_step hydrate_same_rules)+
  from policies.trans [OF rel_ran [OF this(1) f(4)] rel_ran [OF this(2) f(5)]] have "same_rules u4 t" .
  moreover have "same_rules s u2"
    using rel_ran [OF policies_step(2) role(1) [unfolded FindRoleByID_def]] rel_ran [OF policies_step(6) f(1)] policies.trans
    by blast
  moreover have "tuples u3 = tuples u2 - role_rules (p_OrgID p) (ro_Code role)"
    unfolding DeleteCasbinRules_tuples [OF f(2)] role_rules_def by auto
  ultimately have "tuples t = tuples s - role_rules (p_OrgID p) (ro_Code role) \<union>
      wanted_policies (v_cfg v) (p_OrgID p) (ro_Code role) (p_ProductCode p) permissions"
    using add_policies_tuples [OF f(3)] same_rules_tuples by metis
  moreover have "role \<in> set (ia_roles s) \<and> ro_ID role = i"
    using First_ok [OF role(1) [unfolded FindRoleByID_def]] by (simp add: same_dataD)
  ultimately show ?thesis using role(2,3) by blast
qed

section \<open>Codes that begin with role:\<close>

lemma prefixed_subject: "roleSubject (''role:'' @ code) = ''role:'' @ code"
  by (simp add: roleSubject_def HasPrefix_def)

lemma normalized_builtin: "code \<in> {RolePlatformOwner, RoleOwner, RoleAdmin, RoleMember} \<Longrightarrow> normalizeCode code = code"
  by (elim insertE emptyE; simp add: normalizeCode_def) code_simp+

lemma builtin_subject:
  assumes "code \<in> {RolePlatformOwner, RoleOwner, RoleAdmin, RoleMember}"
  shows "roleSubject code = ''role:'' @ code"
  using assms normalized_builtin [OF assms] by (auto simp: roleSubject_def HasPrefix_def)

end
