(* ===== verification/IAM_Lists.thy ===== *)
theory IAM_Lists
  imports IAM_Tables IAM_Roles
begin

text \<open>
  The listings of the identity module: the queries of \<open>internal/modules/iam/repository/repository.go\<close> and the filters,
  orders and pages that \<open>internal/modules/iam/service/service.go\<close> applies to their rows. The listings are those of a
  service without a \<open>CacheStore\<close>.
\<close>

section \<open>Orders and pages\<close>

text \<open>\<open>sort.SliceStable\<close>: elements that \<open>lt\<close> does not order keep their order.\<close>

fun insert_stable :: "('a \<Rightarrow> 'a \<Rightarrow> bool) \<Rightarrow> 'a \<Rightarrow> 'a list \<Rightarrow> 'a list" where
  "insert_stable lt x [] = [x]"
| "insert_stable lt x (y # ys) = (if lt y x then y # insert_stable lt x ys else x # y # ys)"

definition SliceStable :: "('a \<Rightarrow> 'a \<Rightarrow> bool) \<Rightarrow> 'a list \<Rightarrow> 'a list" where
  "SliceStable lt xs = foldr (insert_stable lt) xs []"

definition strings_Compare :: "string \<Rightarrow> string \<Rightarrow> int" where
  "strings_Compare a b = (if a = b then 0 else if a < b then - 1 else 1)"

definition compareTime :: "gotime \<Rightarrow> gotime \<Rightarrow> int" where
  "compareTime left right = (if left = right then 0 else if After left right then 1 else - 1)"

text \<open>The comparison of \<open>sort.SliceStable\<close> in the three listings.\<close>

definition ordered_by :: "bool \<Rightarrow> ('a \<Rightarrow> 'a \<Rightarrow> int) \<Rightarrow> 'a \<Rightarrow> 'a \<Rightarrow> bool" where
  "ordered_by desc compare left right =
     (let c = compare left right in if c = 0 then False else if desc then c > 0 else c < 0)"

text \<open>\<open>out[start:end]\<close> in \<open>int\<close>: no value where the slice expression panics.\<close>

definition list_page :: "int \<Rightarrow> int \<Rightarrow> 'a list \<Rightarrow> 'a list option" where
  "list_page page pageSize out =
     (let start = wrap64 (wrap64 (page - 1) * pageSize);
          start = (if start > int (length out) then int (length out) else start);
          end' = wrap64 (start + pageSize);
          end' = (if end' > int (length out) then int (length out) else end')
      in if 0 \<le> start \<and> start \<le> end' then Some (take (nat (end' - start)) (drop (nat start) out)) else None)"

definition containsAnyFold :: "string \<Rightarrow> string list \<Rightarrow> bool" where
  "containsAnyFold needle values = list_ex (\<lambda>value. Contains (ToLower value) needle) values"

definition TrimPrefix :: "string \<Rightarrow> string \<Rightarrow> string" where
  "TrimPrefix s pre = (if HasPrefix s pre then drop (length pre) s else s)"

definition rolesContain :: "string list \<Rightarrow> string \<Rightarrow> bool" where
  "rolesContain roles roleCode = list_ex (\<lambda>role. TrimPrefix (normalizeCode role) ''role:'' = roleCode) roles"

record 'a IamPage =
  pg_Items :: "'a list"
  pg_Page :: int
  pg_PageSize :: int
  pg_Total :: int
  pg_StorageStatus :: string

text \<open>The common end of the listings that page in memory.\<close>

definition paged :: "int \<Rightarrow> int \<Rightarrow> 'a list \<Rightarrow> 'a IamPage option" where
  "paged p n out = (case normalizeListPage p n of (page, pageSize) \<Rightarrow>
     (case list_page page pageSize out of
        None \<Rightarrow> None
      | Some items \<Rightarrow> Some \<lparr>pg_Items = items, pg_Page = page, pg_PageSize = pageSize, pg_Total = int (length out),
          pg_StorageStatus = ''persisted''\<rparr>))"

section \<open>Queries\<close>

definition ListOrganizations_rows :: "Organization list result iam" where
  "ListOrganizations_rows = Find ia_orgs (\<lambda>t. sort_key (\<lambda>r. - o_ID r) (filter (\<lambda>r. o_DeletedAt r = None) t))"

definition ListMembershipsByOrg :: "int \<Rightarrow> Membership list result iam" where
  "ListMembershipsByOrg org = Find ia_memberships
     (\<lambda>t. sort_key (\<lambda>m. - mb_ID m) (filter (\<lambda>m. mb_OrgID m = org \<and> mb_DeletedAt m = None) t))"

definition ListUsersByOrg :: "int \<Rightarrow> User list result iam" where
  "ListUsersByOrg org = statement (\<lambda>s. (Inr (sort_key (\<lambda>u. - u_ID u)
     [u. u \<leftarrow> ia_users s, m \<leftarrow> ia_memberships s, mb_UserID m = u_ID u \<and> mb_OrgID m = org \<and> mb_Status m = StatusActive \<and>
        mb_DeletedAt m = None \<and> u_DeletedAt u = None]), s))"

definition ListRoles_rows :: "int \<Rightarrow> IamRole list result iam" where
  "ListRoles_rows org = Find ia_roles
     (\<lambda>t. sort_key ro_Code (filter (\<lambda>r. ro_OrgID r = org \<and> ro_DeletedAt r = None) t))"

definition ListPermissions_rows :: "Permission list result iam" where
  "ListPermissions_rows = Find ia_permissions (sort_key (\<lambda>p. [pm_ProductCode p, pm_Scope p, pm_Code p]))"

definition ListSessionsByOrg :: "int \<Rightarrow> IamSession list result iam" where
  "ListSessionsByOrg org =
     Find ia_sessions (\<lambda>t. sort_key (\<lambda>r. - s_CreatedAt r) (filter (\<lambda>r. s_OrgID r = org) t))"

definition ListInvitationsByOrg :: "int \<Rightarrow> Invitation list result iam" where
  "ListInvitationsByOrg org =
     Find ia_invitations (\<lambda>t. sort_key (\<lambda>r. - iv_CreatedAt r) (filter (\<lambda>r. iv_OrgID r = org) t))"

record APITokenFilter =
  tf_Page :: int
  tf_PageSize :: int
  tf_Status :: string
  tf_UserID :: int
  tf_Now :: gotime

definition api_token_selected :: "int \<Rightarrow> APITokenFilter \<Rightarrow> APIToken \<Rightarrow> bool" where
  "api_token_selected org f t \<longleftrightarrow> at_OrgID t = org \<and> (tf_UserID f > 0 \<longrightarrow> at_UserID t = tf_UserID f) \<and>
     (if tf_Status f = StatusActive
      then at_Status t = StatusActive \<and> (case at_ExpiresAt t of None \<Rightarrow> True | Some e \<Rightarrow> e \<ge> tf_Now f)
      else if tf_Status f = StatusExpired
      then at_Status t = StatusActive \<and> (case at_ExpiresAt t of None \<Rightarrow> False | Some e \<Rightarrow> e < tf_Now f)
      else if tf_Status f = StatusRevoked then at_Status t = StatusRevoked else True)"

text \<open>An offset that is not positive is left out of the query (\<open>pkg/database/operations.go\<close>).\<close>

definition ListAPITokens_rows :: "IamEnv \<Rightarrow> int \<Rightarrow> APITokenFilter \<Rightarrow> (APIToken list \<times> nat) result iam" where
  "ListAPITokens_rows v org f =
     (let f = (if tf_Page f \<le> 0 then f\<lparr>tf_Page := 1\<rparr> else f);
          f = (if tf_PageSize f \<le> 0 \<or> tf_PageSize f > 100 then f\<lparr>tf_PageSize := 10\<rparr> else f)
      in do {
        f \<leftarrow> (if IsZero (tf_Now f) then do { now \<leftarrow> ask (v_wall v); State_Monad.return (f\<lparr>tf_Now := now\<rparr>) }
              else State_Monad.return f);
        attempt (Find ia_tokens (filter (api_token_selected org f))) (\<lambda>all. do {
          let offset = wrap64 (wrap64 (tf_Page f - 1) * tf_PageSize f);
          attempt (Find ia_tokens (\<lambda>t. take (nat (tf_PageSize f)) ((if offset > 0 then drop (nat offset) else id)
              (sort_key (\<lambda>t. (- at_CreatedAt t, - at_ID t)) (filter (api_token_selected org f) t)))))
            (\<lambda>items. ok (items, length all)) }) })"

record AuditLogFilter =
  af_Action :: string
  af_UserID :: int
  af_From :: gotime
  af_To :: gotime
  af_Limit :: int
  af_Cursor :: int

definition audit_selected :: "int \<Rightarrow> AuditLogFilter \<Rightarrow> AuditLog \<Rightarrow> bool" where
  "audit_selected org f a \<longleftrightarrow> au_OrgID a = Some org \<and> (af_Action f \<noteq> [] \<longrightarrow> au_Action a = af_Action f) \<and>
     (af_UserID f > 0 \<longrightarrow> au_UserID a = Some (af_UserID f)) \<and> (\<not> IsZero (af_From f) \<longrightarrow> au_CreatedAt a \<ge> af_From f) \<and>
     (\<not> IsZero (af_To f) \<longrightarrow> au_CreatedAt a \<le> af_To f) \<and> (af_Cursor f > 0 \<longrightarrow> au_ID a < af_Cursor f)"

definition ListAuditLogs_rows :: "int \<Rightarrow> AuditLogFilter \<Rightarrow> AuditLog list result iam" where
  "ListAuditLogs_rows org f =
     (let limit = (if af_Limit f \<le> 0 \<or> af_Limit f > 500 then 100 else af_Limit f)
      in Find ia_audit (\<lambda>t. take (nat limit) (sort_key (\<lambda>a. (- au_CreatedAt a, - au_ID a)) (filter (audit_selected org f) t))))"

section \<open>Organizations\<close>

record OrganizationListFilter =
  of_Keyword :: string
  of_Code :: string
  of_Name :: string
  of_Status :: string
  of_OrderKey :: string
  of_Desc :: bool
  of_Page :: int
  of_PageSize :: int

definition organizationMatches :: "Organization \<Rightarrow> OrganizationListFilter \<Rightarrow> bool" where
  "organizationMatches org f =
     (let keyword = normalizeCode (of_Keyword f); code = normalizeCode (of_Code f); name = normalizeCode (of_Name f);
          status = normalizeCode (of_Status f)
      in if keyword \<noteq> [] \<and> \<not> containsAnyFold keyword [o_Code org, o_Name org, o_Status org] then False
         else if code \<noteq> [] \<and> \<not> Contains (ToLower (o_Code org)) code then False
         else if name \<noteq> [] \<and> \<not> Contains (ToLower (o_Name org)) name then False
         else if status \<noteq> [] \<and> normalizeCode (o_Status org) \<noteq> status then False
         else True)"

definition compare_organizations :: "string \<Rightarrow> Organization \<Rightarrow> Organization \<Rightarrow> int" where
  "compare_organizations orderKey left right =
     (if orderKey = ''code'' then strings_Compare (ToLower (o_Code left)) (ToLower (o_Code right))
      else if orderKey = ''name'' then strings_Compare (ToLower (o_Name left)) (ToLower (o_Name right))
      else if orderKey = ''status'' then strings_Compare (ToLower (o_Status left)) (ToLower (o_Status right))
      else wrap64 (o_ID left - o_ID right))"

definition sortOrganizations :: "Organization list \<Rightarrow> OrganizationListFilter \<Rightarrow> Organization list" where
  "sortOrganizations items f =
     (let orderKey = normalizeCode (of_OrderKey f);
          orderKey = (if orderKey = [] then ''id'' else orderKey)
      in SliceStable (ordered_by (of_Desc f) (compare_organizations orderKey)) items)"

text \<open>\<open>None\<close>: the request panics.\<close>

definition ListOrganizations :: "OrganizationListFilter \<Rightarrow> Organization IamPage option result iam" where
  "ListOrganizations f = attempt ListOrganizations_rows (\<lambda>orgs.
     ok (paged (of_Page f) (of_PageSize f) (sortOrganizations (filter (\<lambda>org. organizationMatches org f) orgs) f)))"

fun my_organizations :: "Membership list \<Rightarrow> Organization list iam" where
  "my_organizations [] = State_Monad.return []"
| "my_organizations (m # ms) = do {
     r \<leftarrow> FindOrganizationByID (mb_OrgID m);
     orgs \<leftarrow> my_organizations ms;
     State_Monad.return (case r of Inl e \<Rightarrow> orgs | Inr org \<Rightarrow> org # orgs) }"

definition ListMyOrganizations :: "IamPrincipal \<Rightarrow> Organization list result iam" where
  "ListMyOrganizations p = attempt (ListMembershipsByUser (p_UserID p)) (\<lambda>ms. do {
     orgs \<leftarrow> my_organizations ms;
     ok orgs })"

section \<open>Members, invitations and roles\<close>

record UserListFilter =
  uf_Keyword :: string
  uf_Username :: string
  uf_DisplayName :: string
  uf_Email :: string
  uf_RoleCode :: string
  uf_Status :: string
  uf_OrderKey :: string
  uf_Desc :: bool
  uf_Page :: int
  uf_PageSize :: int

definition organizationUserMatches :: "OrganizationUser \<Rightarrow> UserListFilter \<Rightarrow> bool" where
  "organizationUserMatches item f =
     (let user = ou_User item; keyword = normalizeCode (uf_Keyword f); username = normalizeCode (uf_Username f);
          displayName = normalizeCode (uf_DisplayName f); email = normalizeCode (uf_Email f);
          status = normalizeCode (uf_Status f); roleCode = normalizeCode (uf_RoleCode f)
      in if keyword \<noteq> [] \<and> \<not> containsAnyFold keyword [u_Username user, u_DisplayName user, u_Email user,
            ou_MembershipStatus item, join '' '' (ou_Roles item)] then False
         else if username \<noteq> [] \<and> \<not> Contains (ToLower (u_Username user)) username then False
         else if displayName \<noteq> [] \<and> \<not> Contains (ToLower (u_DisplayName user)) displayName then False
         else if email \<noteq> [] \<and> \<not> Contains (ToLower (u_Email user)) email then False
         else if status \<noteq> [] \<and> normalizeCode (ou_MembershipStatus item) \<noteq> status then False
         else if roleCode \<noteq> [] \<and> \<not> rolesContain (ou_Roles item) roleCode then False
         else True)"

definition compare_organization_users :: "string \<Rightarrow> OrganizationUser \<Rightarrow> OrganizationUser \<Rightarrow> int" where
  "compare_organization_users orderKey left right =
     (let l = ou_User left; r = ou_User right in
      if orderKey = ''username'' then strings_Compare (ToLower (u_Username l)) (ToLower (u_Username r))
      else if orderKey \<in> {''displayname'', ''display_name'', ''nickname'', ''nick_name''}
      then strings_Compare (ToLower (u_DisplayName l)) (ToLower (u_DisplayName r))
      else if orderKey = ''email'' then strings_Compare (ToLower (u_Email l)) (ToLower (u_Email r))
      else if orderKey = ''status''
      then strings_Compare (ToLower (ou_MembershipStatus left)) (ToLower (ou_MembershipStatus right))
      else wrap64 (u_ID l - u_ID r))"

definition sortOrganizationUsers :: "OrganizationUser list \<Rightarrow> UserListFilter \<Rightarrow> OrganizationUser list" where
  "sortOrganizationUsers items f =
     (let orderKey = normalizeCode (uf_OrderKey f);
          orderKey = (if orderKey = [] then ''id'' else orderKey)
      in SliceStable (ordered_by (uf_Desc f) (compare_organization_users orderKey)) items)"

fun list_users :: "IamEnv \<Rightarrow> int \<Rightarrow> UserListFilter \<Rightarrow> Membership list \<Rightarrow> OrganizationUser list iam" where
  "list_users v org f [] = State_Monad.return []"
| "list_users v org f (m # ms) = do {
     found \<leftarrow> FindUserByID (mb_UserID m);
     case found of
       Inl e \<Rightarrow> list_users v org f ms
     | Inr user \<Rightarrow> do {
         roles \<leftarrow> GetRolesForUser v (userSubject (u_ID user)) (FormatInt org);
         let item = \<lparr>ou_User = user, ou_MembershipStatus = mb_Status m, ou_Roles = roles\<rparr>;
         out \<leftarrow> list_users v org f ms;
         State_Monad.return (if organizationUserMatches item f then item # out else out) } }"

definition ListUsers :: "IamEnv \<Rightarrow> IamPrincipal \<Rightarrow> UserListFilter \<Rightarrow> OrganizationUser IamPage option result iam" where
  "ListUsers v p f = attempt (ListMembershipsByOrg (p_OrgID p)) (\<lambda>ms. do {
     out \<leftarrow> list_users v (p_OrgID p) f ms;
     ok (paged (uf_Page f) (uf_PageSize f) (sortOrganizationUsers out f)) })"

definition ListInvitations :: "IamPrincipal \<Rightarrow> Invitation list result iam" where
  "ListInvitations p = ListInvitationsByOrg (p_OrgID p)"

fun hydrate_all :: "IamRole list \<Rightarrow> (IamRole \<times> string list) list iam" where
  "hydrate_all [] = State_Monad.return []"
| "hydrate_all (role # roles) = do {
     out \<leftarrow> hydrateRolePermissions role;
     rest \<leftarrow> hydrate_all roles;
     State_Monad.return (out # rest) }"

definition ListRoles :: "IamPrincipal \<Rightarrow> (IamRole \<times> string list) list result iam" where
  "ListRoles p = attempt (ListRoles_rows (p_OrgID p)) (\<lambda>roles. do {
     out \<leftarrow> hydrate_all roles;
     ok out })"

definition ListPermissions :: "IamEnv \<Rightarrow> IamPrincipal \<Rightarrow> Permission list result iam" where
  "ListPermissions v p = do {
     let product = sc_ProductCode (resolveSessionContext (v_cfg v) (p_ProductCode p) (p_ClientType p));
     let product_of = (\<lambda>permission. sc_ProductCode (resolveSessionContext (v_cfg v) (pm_ProductCode permission) []));
     includePlatform \<leftarrow> userHasRole v (p_UserID p) (p_OrgID p) RolePlatformOwner;
     attempt ListPermissions_rows (\<lambda>permissions.
       ok (map (\<lambda>permission. permission\<lparr>pm_ProductCode := product_of permission\<rparr>)
         (filter (\<lambda>permission. product_of permission = product \<and>
           (pm_Scope permission = PermissionScopeTenant \<or> includePlatform)) permissions))) }"

section \<open>Sessions\<close>

record SessionListFilter =
  sf_Keyword :: string
  sf_UserID :: int
  sf_IPAddress :: string
  sf_Status :: string
  sf_Scope :: string
  sf_ProductCode :: string
  sf_ClientType :: string
  sf_OrderKey :: string
  sf_Desc :: bool
  sf_Page :: int
  sf_PageSize :: int

definition sessionStatus :: "IamSession \<Rightarrow> gotime \<Rightarrow> string" where
  "sessionStatus session now =
     (if s_RevokedAt session \<noteq> None then ''revoked''
      else if \<not> IsZero (s_ExpiresAt session) \<and> \<not> After (s_ExpiresAt session) now then ''expired''
      else ''active'')"

definition sessionMatches :: "IamSession \<Rightarrow> SessionListFilter \<Rightarrow> gotime \<Rightarrow> bool" where
  "sessionMatches session f now =
     (let status = sessionStatus session now; keyword = normalizeCode (sf_Keyword f);
          ipAddress = normalizeCode (sf_IPAddress f); filterStatus = normalizeCode (sf_Status f);
          productCode = normalizeProductCode (sf_ProductCode f); clientType = normalizeClientType (sf_ClientType f)
      in if keyword \<noteq> [] \<and> \<not> containsAnyFold keyword [FormatInt (s_ID session), FormatInt (s_UserID session),
            s_IPAddress session, s_UserAgent session, status, s_ProductCode session, s_ClientType session] then False
         else if ipAddress \<noteq> [] \<and> \<not> Contains (ToLower (s_IPAddress session)) ipAddress then False
         else if filterStatus \<noteq> [] \<and> status \<noteq> filterStatus then False
         else if productCode \<noteq> [] \<and> normalizeProductCode (s_ProductCode session) \<noteq> productCode then False
         else if clientType \<noteq> [] \<and> normalizeClientType (s_ClientType session) \<noteq> clientType then False
         else True)"

definition sessionLastUsedAt :: "IamSession \<Rightarrow> gotime" where
  "sessionLastUsedAt session = (case s_LastUsedAt session of Some t \<Rightarrow> t | None \<Rightarrow> s_CreatedAt session)"

definition compare_sessions :: "string \<Rightarrow> IamSession \<Rightarrow> IamSession \<Rightarrow> int" where
  "compare_sessions orderKey left right =
     (if orderKey \<in> {''user_id'', ''userid''} then wrap64 (s_UserID left - s_UserID right)
      else if orderKey \<in> {''ip'', ''ip_address'', ''ipaddress''}
      then strings_Compare (ToLower (s_IPAddress left)) (ToLower (s_IPAddress right))
      else if orderKey \<in> {''product_code'', ''productcode''}
      then strings_Compare (normalizeProductCode (s_ProductCode left)) (normalizeProductCode (s_ProductCode right))
      else if orderKey \<in> {''client_type'', ''clienttype'', ''platform''}
      then strings_Compare (normalizeClientType (s_ClientType left)) (normalizeClientType (s_ClientType right))
      else if orderKey \<in> {''expires_at'', ''expiresat''} then compareTime (s_ExpiresAt left) (s_ExpiresAt right)
      else if orderKey \<in> {''last_used_at'', ''lastusedat''} then compareTime (sessionLastUsedAt left) (sessionLastUsedAt right)
      else compareTime (s_CreatedAt left) (s_CreatedAt right))"

definition sortSessions :: "IamSession list \<Rightarrow> SessionListFilter \<Rightarrow> IamSession list" where
  "sortSessions items f =
     (let orderKey = normalizeCode (sf_OrderKey f);
          orderKey = (if orderKey = [] then ''created_at'' else orderKey)
      in SliceStable (ordered_by (sf_Desc f) (compare_sessions orderKey)) items)"

text \<open>A listed session has the product and the client type of its resolved context.\<close>

definition session_view :: "IamEnv \<Rightarrow> IamSession \<Rightarrow> IamSession" where
  "session_view v session = (let c = resolveSessionContext (v_cfg v) (s_ProductCode session) (s_ClientType session)
     in session\<lparr>s_ProductCode := sc_ProductCode c, s_ClientType := sc_ClientType c\<rparr>)"

definition ListSessions :: "IamEnv \<Rightarrow> IamPrincipal \<Rightarrow> SessionListFilter \<Rightarrow> IamSession IamPage option result iam" where
  "ListSessions v p f =
     attempt (if normalizeCode (sf_Scope f) = ''org'' \<and> sf_UserID f = 0 then ListSessionsByOrg (p_OrgID p)
        else ListSessionsByUser (if sf_UserID f = 0 then p_UserID p else sf_UserID f)) (\<lambda>sessions. do {
       now \<leftarrow> ask (v_now v);
       let out = filter (\<lambda>session. sessionMatches session f now)
         (map (session_view v) (filter (\<lambda>session. s_OrgID session = p_OrgID p) sessions));
       ok (paged (sf_Page f) (sf_PageSize f) (sortSessions out f)) })"

section \<open>API tokens and audit logs\<close>

fun token_views :: "IamEnv \<Rightarrow> APIToken list \<Rightarrow> APITokenView list iam" where
  "token_views v [] = State_Monad.return []"
| "token_views v (t # ts) = do {
     found \<leftarrow> FindUserByID (at_UserID t);
     view \<leftarrow> apiTokenView v t (case found of Inl e \<Rightarrow> None | Inr u \<Rightarrow> Some u);
     rest \<leftarrow> token_views v ts;
     State_Monad.return (view # rest) }"

definition ListAPITokens :: "IamEnv \<Rightarrow> IamPrincipal \<Rightarrow> APITokenFilter \<Rightarrow> APITokenView IamPage result iam" where
  "ListAPITokens v p f =
     (let f = f\<lparr>tf_Status := normalizeCode (tf_Status f)\<rparr>
      in if tf_Status f \<notin> {[], StatusActive, StatusExpired, StatusRevoked} then throw iam_ErrInvalidInput
         else let f = (if tf_Page f \<le> 0 then f\<lparr>tf_Page := 1\<rparr> else f);
                  f = (if tf_PageSize f \<le> 0 \<or> tf_PageSize f > 100 then f\<lparr>tf_PageSize := 10\<rparr> else f)
              in do {
                now \<leftarrow> ask (v_now v);
                attempt (ListAPITokens_rows v (p_OrgID p) (f\<lparr>tf_Now := now\<rparr>)) (\<lambda>(items, total). do {
                  views \<leftarrow> token_views v items;
                  ok \<lparr>pg_Items = views, pg_Page = tf_Page f, pg_PageSize = tf_PageSize f, pg_Total = int total,
                      pg_StorageStatus = ''persisted''\<rparr> }) })"

definition audit_view :: "IamEnv \<Rightarrow> AuditLog \<Rightarrow> AuditLog" where
  "audit_view v a = (let c = resolveSessionContext (v_cfg v) (au_ProductCode a) (au_ClientType a)
     in a\<lparr>au_ProductCode := sc_ProductCode c, au_ClientType := sc_ClientType c\<rparr>)"

definition ListAuditLogs :: "IamEnv \<Rightarrow> IamPrincipal \<Rightarrow> AuditLogFilter \<Rightarrow> AuditLog list result iam" where
  "ListAuditLogs v p f = attempt (ListAuditLogs_rows (p_OrgID p) f) (\<lambda>logs. ok (map (audit_view v) logs))"

definition RecordAudit ::
    "IamEnv \<Rightarrow> IamPrincipal \<Rightarrow> string \<Rightarrow> string \<Rightarrow> string \<Rightarrow> string \<Rightarrow> string \<Rightarrow> (string \<times> MetaValue) list \<Rightarrow> unit result iam" where
  "RecordAudit v p action resource resourceID ip userAgent metadata =
     audit v (Some (p_OrgID p)) (Some (p_UserID p)) action resource resourceID ip userAgent metadata
       (p_ProductCode p, p_ClientType p)"

section \<open>Sorting and paging\<close>

lemma mset_SliceStable [simp]: "mset (SliceStable lt xs) = mset xs"
proof -
  have "mset (insert_stable lt x ys) = add_mset x (mset ys)" for x and ys by (induction ys) auto
  then show ?thesis by (induction xs) (simp_all add: SliceStable_def)
qed

lemma set_SliceStable [simp]: "set (SliceStable lt xs) = set xs"
  by (metis mset_SliceStable set_mset_mset)

lemma SliceStable_Cons: "SliceStable lt (x # xs) = insert_stable lt x (SliceStable lt xs)"
  by (simp add: SliceStable_def)

text \<open>A comparison by a key of a linear order.\<close>

definition compares_key :: "('a \<Rightarrow> 'a \<Rightarrow> int) \<Rightarrow> ('a \<Rightarrow> 'k::linorder) \<Rightarrow> 'a set \<Rightarrow> bool" where
  "compares_key c key A \<longleftrightarrow> (\<forall>x \<in> A. \<forall>y \<in> A. (c x y < 0 \<longleftrightarrow> key x < key y) \<and> (c x y > 0 \<longleftrightarrow> key y < key x))"

definition in_order :: "bool \<Rightarrow> ('a \<Rightarrow> 'k::linorder) \<Rightarrow> 'a \<Rightarrow> 'a \<Rightarrow> bool" where
  "in_order desc key x y \<longleftrightarrow> (if desc then key y \<le> key x else key x \<le> key y)"

lemma ordered_by_key:
  assumes "compares_key c key A" and "x \<in> A" and "y \<in> A"
  shows "ordered_by desc c x y \<longleftrightarrow> \<not> in_order desc key y x"
proof -
  have "ordered_by desc c x y \<longleftrightarrow> (if desc then c x y > 0 else c x y < 0)" by (simp add: ordered_by_def Let_def)
  then show ?thesis using assms by (simp add: compares_key_def in_order_def not_le)
qed

lemma insert_stable_sorted:
  assumes c: "compares_key c key (insert x (set ys))" and "sorted_wrt (in_order desc key) ys"
  shows "sorted_wrt (in_order desc key) (insert_stable (ordered_by desc c) x ys)"
  using assms
proof (induction ys)
  case (Cons y ys)
  have set: "set (insert_stable lt x ys) = insert x (set ys)" for lt by (induction ys) auto
  have lt: "ordered_by desc c y x \<longleftrightarrow> \<not> in_order desc key x y" using Cons.prems(1) by (rule ordered_by_key) simp_all
  have "compares_key c key (insert x (set ys))" using Cons.prems(1) by (auto simp: compares_key_def)
  then have IH: "sorted_wrt (in_order desc key) (insert_stable (ordered_by desc c) x ys)" using Cons by simp
  show ?case
  proof (cases "in_order desc key x y")
    case True
    then have "in_order desc key x z" if "z \<in> set ys" for z
      using Cons.prems(2) that by (auto simp: in_order_def split: if_splits)
    then show ?thesis using True lt Cons.prems(2) by simp
  next
    case False
    then have "in_order desc key y x" by (auto simp: in_order_def split: if_splits)
    then show ?thesis using False lt IH Cons.prems(2) by (simp add: set)
  qed
qed simp

lemma SliceStable_sorted:
  assumes "compares_key c key (set xs)"
  shows "sorted_wrt (in_order desc key) (SliceStable (ordered_by desc c) xs)"
  using assms
proof (induction xs)
  case (Cons x xs)
  then have "compares_key c key (set xs)" by (auto simp: compares_key_def)
  with Cons show ?case by (simp add: SliceStable_Cons insert_stable_sorted)
qed (simp add: SliceStable_def)

text \<open>Elements with the same key keep their order.\<close>

lemma SliceStable_stable:
  assumes "compares_key c key (set xs)"
  shows "filter (\<lambda>x. key x = k) (SliceStable (ordered_by desc c) xs) = filter (\<lambda>x. key x = k) xs"
  using assms
proof (induction xs)
  case (Cons x xs)
  have ins: "filter (\<lambda>x. key x = k) (insert_stable (ordered_by desc c) x ys) = filter (\<lambda>x. key x = k) (x # ys)"
    if "compares_key c key (insert x (set ys))" for ys
    using that
  proof (induction ys)
    case (Cons y ys)
    have "ordered_by desc c y x \<longleftrightarrow> \<not> in_order desc key x y" using Cons.prems by (rule ordered_by_key) simp_all
    moreover have "compares_key c key (insert x (set ys))" using Cons.prems by (auto simp: compares_key_def)
    ultimately show ?case using Cons.IH by (auto simp: in_order_def)
  qed simp
  have "compares_key c key (set xs)" using Cons.prems by (auto simp: compares_key_def)
  then show ?case using ins [of "SliceStable (ordered_by desc c) xs"] Cons by (simp add: SliceStable_Cons)
qed (simp add: SliceStable_def)

lemma compare_strings: "compares_key (\<lambda>x y. strings_Compare (f x) (f y)) f A"
  by (auto simp: compares_key_def strings_Compare_def)

lemma compare_ids: "\<forall>x \<in> A. 0 < f x \<and> f x < 2 ^ 63 \<Longrightarrow> compares_key (\<lambda>x y. wrap64 (f x - f y)) f A"
proof -
  assume A: "\<forall>x \<in> A. 0 < f x \<and> f x < 2 ^ 63"
  have "wrap64 (f x - f y) = f x - f y" if "x \<in> A" "y \<in> A" for x y
  proof -
    have "0 < f x" "f x < 2 ^ 63" "0 < f y" "f y < 2 ^ 63" using A that by auto
    then have "int64 (f x - f y)" unfolding int64_def by linarith
    then show ?thesis by (rule wrap64_id)
  qed
  then show ?thesis by (auto simp: compares_key_def)
qed

lemma list_page_small:
  assumes "1 \<le> p" "1 \<le> n" "p * n < 2 ^ 62" "int (length xs) < 2 ^ 62"
  shows "list_page p n xs = Some (take (nat n) (drop (nat ((p - 1) * n)) xs))"
proof -
  have le: "0 \<le> (p - 1) * n" "(p - 1) * n \<le> p * n" "p \<le> p * n" "n \<le> p * n"
    using assms(1,2) mult_right_mono [of "p - 1" p n] mult_left_mono [of 1 n p] mult_right_mono [of 1 p n] by auto
  then have w: "wrap64 (p - 1) = p - 1" "wrap64 ((p - 1) * n) = (p - 1) * n"
    "wrap64 ((p - 1) * n + n) = (p - 1) * n + n" "wrap64 (int (length xs) + n) = int (length xs) + n"
    using le assms by (intro wrap64_id; simp add: int64_def; linarith)+
  show ?thesis
  proof (cases "(p - 1) * n > int (length xs)")
    case True
    then have "length xs \<le> nat ((p - 1) * n)" by linarith
    then show ?thesis using True assms(2) by (simp add: list_page_def Let_def w)
  next
    case False
    let ?k = "nat ((p - 1) * n)"
    have k: "int ?k = (p - 1) * n" "?k \<le> length xs" using le(1) False by linarith+
    have "take (nat ((if (p - 1) * n + n > int (length xs) then int (length xs) else (p - 1) * n + n) - (p - 1) * n)) (drop ?k xs) =
        take (nat n) (drop ?k xs)"
      using k assms(2) by (auto simp: le_nat_iff nat_le_iff)
    then show ?thesis using False le(1) assms(2) by (auto simp: list_page_def Let_def w)
  qed
qed

lemma pages_append: "concat (map (\<lambda>i. take n (drop (i * n) xs)) [0..<k]) = take (k * n) xs"
proof (induction k)
  case (Suc k)
  then show ?case by (simp add: take_add add.commute [of n])
qed simp

text \<open>What a listing answers, and that it leaves the data as they are.\<close>

definition listing :: "Iam \<Rightarrow> 'a iam \<Rightarrow> Iam \<Rightarrow> ('a \<Rightarrow> bool) \<Rightarrow> bool" where
  "listing s0 m s P \<longleftrightarrow> same_data s0 (snd (run_state m s)) \<and> P (fst (run_state m s))"

definition all_items :: "('a \<Rightarrow> bool) \<Rightarrow> 'a IamPage option result \<Rightarrow> bool" where
  "all_items P r \<longleftrightarrow> (\<forall>p. r = Inr (Some p) \<longrightarrow> list_all P (pg_Items p))"

definition all_answers :: "('a \<Rightarrow> bool) \<Rightarrow> 'a list result \<Rightarrow> bool" where
  "all_answers P r \<longleftrightarrow> (\<forall>xs. r = Inr xs \<longrightarrow> list_all P xs)"

lemma listing_return: "same_data s0 s \<Longrightarrow> P x \<Longrightarrow> listing s0 (State_Monad.return x) s P"
  by (simp add: listing_def)

lemma listing_ok: "same_data s0 s \<Longrightarrow> P (Inr x) \<Longrightarrow> listing s0 (ok x) s P" "same_data s0 s \<Longrightarrow> P (Inl e) \<Longrightarrow> listing s0 (throw e) s P"
  by (simp_all add: listing_def)

lemma listing_bind:
  "listing s0 m s P \<Longrightarrow> (\<And>x t. same_data s0 t \<Longrightarrow> P x \<Longrightarrow> listing s0 (f x) t Q) \<Longrightarrow> listing s0 (m \<bind> f) s Q"
  by (auto simp: listing_def split: prod.splits)

lemma listing_attempt:
  "listing s0 m s P \<Longrightarrow> (\<And>e. P (Inl e) \<Longrightarrow> Q (Inl e)) \<Longrightarrow> (\<And>x t. same_data s0 t \<Longrightarrow> P (Inr x) \<Longrightarrow> listing s0 (f x) t Q) \<Longrightarrow>
    listing s0 (attempt m f) s Q"
  unfolding attempt_def by (rule listing_bind [where P = P]) (auto intro: listing_ok split: sum.split)

lemma listing_ask: "same_data s0 s \<Longrightarrow> listing s0 (ask f) s (\<lambda>x. True)"
  by (simp add: listing_def same_data_trans [OF _ same_data_seq, simplified])

lemma listing_reads: "same_data s0 s \<Longrightarrow> P (f s) \<Longrightarrow> listing s0 (reads f) s P"
  by (simp add: listing_def)

lemma listing_statement:
  assumes "same_data s0 s" and "\<And>t. same_data s0 t \<Longrightarrow> P (r t)" and "\<And>e. P (Inl e)"
  shows "listing s0 (statement (\<lambda>t. (r t, t))) s P"
proof -
  have "same_data s0 t \<Longrightarrow> same_data s0 (t\<lparr>ia_faults := fs\<rparr>)" for t fs by (simp add: same_data_def)
  then show ?thesis using assms by (auto simp: listing_def statement_def split: list.splits option.splits)
qed

lemma listing_Find:
  "same_data s0 s \<Longrightarrow> (\<And>t. same_data s0 t \<Longrightarrow> P (Inr (query (table t)))) \<Longrightarrow> (\<And>e. P (Inl e)) \<Longrightarrow> listing s0 (Find table query) s P"
  unfolding Find_def by (rule listing_statement)

lemma listing_First:
  assumes "same_data s0 s" and "\<And>t x. same_data s0 t \<Longrightarrow> x \<in> set (table t) \<Longrightarrow> p x \<Longrightarrow> P (Inr x)" and "\<And>e. P (Inl e)"
  shows "listing s0 (First table order p) s P"
  unfolding First_def
  by (rule listing_statement [OF assms(1)]) (use assms(2,3) first_row_Some in \<open>fastforce split: option.split\<close>)+

text \<open>A listed member is a user that is not deleted, with the status of a membership.\<close>

definition member_of :: "Membership set \<Rightarrow> Iam \<Rightarrow> OrganizationUser \<Rightarrow> bool" where
  "member_of M s item \<longleftrightarrow> ou_User item \<in> set (ia_users s) \<and> u_DeletedAt (ou_User item) = None \<and>
     (\<exists>m \<in> M. mb_UserID m = u_ID (ou_User item) \<and> mb_Status m = ou_MembershipStatus item)"

lemma listing_users:
  "same_data s0 s \<Longrightarrow> set ms \<subseteq> M \<Longrightarrow> listing s0 (list_users v org f ms) s (list_all (member_of M s0))"
proof (induction ms arbitrary: s)
  case (Cons m ms)
  have rest: "listing s0 (list_users v org f ms) t (list_all (member_of M s0))" if "same_data s0 t" for t
    using Cons.IH that Cons.prems(2) by simp
  have find: "listing s0 (FindUserByID (mb_UserID m)) s
      (\<lambda>r. \<forall>u. r = Inr u \<longrightarrow> u \<in> set (ia_users s0) \<and> u_ID u = mb_UserID m \<and> u_DeletedAt u = None)"
    unfolding FindUserByID_def by (rule listing_First [OF Cons.prems(1)]) (auto simp: same_dataD)
  have item: "member_of M s0 \<lparr>ou_User = u, ou_MembershipStatus = mb_Status m, ou_Roles = roles\<rparr>"
    if "u \<in> set (ia_users s0)" "u_ID u = mb_UserID m" "u_DeletedAt u = None" for u roles
    using that Cons.prems(2) by (auto simp: member_of_def)
  show ?case unfolding list_users.simps GetRolesForUser_def Let_def
    by (rule listing_bind [OF find])
      (use Cons.prems(2) in \<open>auto split: sum.split intro!: rest listing_bind [OF listing_reads [where P = "\<lambda>x. True"]]
        listing_bind [OF rest] listing_return item\<close>)
qed (simp add: listing_return)

lemma listing_loops:
  "same_data s0 s \<Longrightarrow> listing s0 (hydrate_all roles) s (\<lambda>out. map fst out = roles)"
  "same_data s0 s \<Longrightarrow> listing s0 (token_views v ts) s (\<lambda>out. map av_token out = map (\<lambda>t. t\<lparr>at_TokenHash := []\<rparr>) ts)"
proof -
  show "same_data s0 s \<Longrightarrow> listing s0 (hydrate_all roles) s (\<lambda>out. map fst out = roles)"
  proof (induction roles arbitrary: s)
    case (Cons r rs)
    have "listing s0 (ListRolePermissions (ro_OrgID r) (roleSubject (ro_Code r))) s (\<lambda>x. True)"
      unfolding ListRolePermissions_def
      by (rule listing_attempt [where P = "\<lambda>x. True"]) (auto intro!: listing_Find listing_ok Cons.prems)
    then have "listing s0 (hydrateRolePermissions r) s (\<lambda>x. fst x = r)"
      unfolding hydrateRolePermissions_def by (rule listing_bind) (auto intro!: listing_return)
    then show ?case unfolding hydrate_all.simps
      by (rule listing_bind) (auto intro!: listing_bind [OF Cons.IH] listing_return)
  qed (simp add: listing_return)
  show "same_data s0 s \<Longrightarrow> listing s0 (token_views v ts) s (\<lambda>out. map av_token out = map (\<lambda>t. t\<lparr>at_TokenHash := []\<rparr>) ts)"
  proof (induction ts arbitrary: s)
    case (Cons t ts)
    have find: "listing s0 (FindUserByID (at_UserID t)) s (\<lambda>r. True)"
      unfolding FindUserByID_def by (rule listing_First [OF Cons.prems]) auto
    have view: "listing s0 (apiTokenView v t u) w (\<lambda>x. av_token x = t\<lparr>at_TokenHash := []\<rparr>)" if "same_data s0 w" for u w
      unfolding apiTokenView_def using that
      by (intro listing_bind [where P = "\<lambda>x. True"])
        (auto split: option.splits bool.splits intro!: listing_return listing_bind [OF listing_ask])
    show ?case unfolding token_views.simps
      by (rule listing_bind [OF find]) (auto intro!: listing_bind [OF view] listing_bind [OF Cons.IH] listing_return)
  qed (simp add: listing_return)
qed

lemma same_data_audit: "same_data s t \<Longrightarrow> ia_audit t = ia_audit s"
  by (cases s; cases t) (simp add: same_data_def)

lemma list_page_subset: "list_page p n xs = Some ys \<Longrightarrow> set ys \<subseteq> set xs"
  by (auto simp: list_page_def Let_def split: if_splits dest!: in_set_takeD in_set_dropD)

lemma paged_items: "list_all P out \<Longrightarrow> all_items P (Inr (paged p n out))"
  using list_page_subset by (fastforce simp: all_items_def paged_def list_all_iff split: prod.splits option.splits)

text \<open>No listing shows a row of another organization.\<close>

lemma users_listed: "listing s (ListUsers v p f) s
  (all_items (member_of {m \<in> set (ia_memberships s). mb_OrgID m = p_OrgID p \<and> mb_DeletedAt m = None} s))"
proof -
  let ?M = "{m \<in> set (ia_memberships s). mb_OrgID m = p_OrgID p \<and> mb_DeletedAt m = None}"
  have rows: "listing s (ListMembershipsByOrg (p_OrgID p)) s (\<lambda>r. \<forall>ms. r = Inr ms \<longrightarrow> set ms \<subseteq> ?M)"
    unfolding ListMembershipsByOrg_def by (rule listing_Find) (auto simp: same_dataD)
  show ?thesis unfolding ListUsers_def
  proof (rule listing_attempt [OF rows])
    fix ms t assume t: "same_data s t" and "\<forall>ms'. Inr ms = (Inr ms' :: Membership list result) \<longrightarrow> set ms' \<subseteq> ?M"
    then have "set ms \<subseteq> ?M" by blast
    from listing_users [OF t this]
    show "listing s (do { out \<leftarrow> list_users v (p_OrgID p) f ms;
        ok (paged (uf_Page f) (uf_PageSize f) (sortOrganizationUsers out f)) }) t (all_items (member_of ?M s))"
      by (rule listing_bind) (auto intro!: listing_ok paged_items simp: sortOrganizationUsers_def Let_def list_all_iff)
  qed (simp add: all_items_def)
qed

lemma sessions_listed: "listing s (ListSessions v p f) s
  (all_items (\<lambda>x. x \<in> session_view v ` {r \<in> set (ia_sessions s). s_OrgID r = p_OrgID p}))"
proof -
  have rows: "listing s (if normalizeCode (sf_Scope f) = ''org'' \<and> sf_UserID f = 0 then ListSessionsByOrg (p_OrgID p)
        else ListSessionsByUser (if sf_UserID f = 0 then p_UserID p else sf_UserID f)) s
      (\<lambda>r. \<forall>rs. r = Inr rs \<longrightarrow> set rs \<subseteq> set (ia_sessions s))"
    unfolding ListSessionsByOrg_def ListSessionsByUser_def
    by (cases "normalizeCode (sf_Scope f) = ''org'' \<and> sf_UserID f = 0") (auto intro!: listing_Find simp: same_dataD)
  show ?thesis unfolding ListSessions_def
    by (rule listing_attempt [OF rows])
      (auto intro!: listing_bind [OF listing_ask] listing_ok paged_items imageI simp: all_items_def [of _ "Inl _"]
        sortSessions_def Let_def list_all_iff)
qed

lemma rows_listed:
  "listing s (ListInvitations p) s (all_answers (\<lambda>x. x \<in> set (ia_invitations s) \<and> iv_OrgID x = p_OrgID p))"
  "listing s (ListRoles p) s (all_answers (\<lambda>x. fst x \<in> set (ia_roles s) \<and> ro_OrgID (fst x) = p_OrgID p \<and> ro_DeletedAt (fst x) = None))"
  "listing s (ListAuditLogs v p af) s (all_answers (\<lambda>x. x \<in> audit_view v ` {a \<in> set (ia_audit s). au_OrgID a = Some (p_OrgID p)}))"
proof -
  show "listing s (ListInvitations p) s (all_answers (\<lambda>x. x \<in> set (ia_invitations s) \<and> iv_OrgID x = p_OrgID p))"
    unfolding ListInvitations_def ListInvitationsByOrg_def
    by (rule listing_Find) (auto simp: same_dataD all_answers_def list_all_iff)
  let ?R = "\<lambda>x. x \<in> set (ia_roles s) \<and> ro_OrgID x = p_OrgID p \<and> ro_DeletedAt x = None"
  have roles: "listing s (ListRoles_rows (p_OrgID p)) s (all_answers ?R)"
    unfolding ListRoles_rows_def by (rule listing_Find) (auto simp: same_dataD all_answers_def list_all_iff)
  show "listing s (ListRoles p) s (all_answers (\<lambda>x. fst x \<in> set (ia_roles s) \<and> ro_OrgID (fst x) = p_OrgID p \<and> ro_DeletedAt (fst x) = None))"
    unfolding ListRoles_def
  proof (rule listing_attempt [OF roles])
    fix rs t assume t: "same_data s t" and "all_answers ?R (Inr rs)"
    then have rs: "\<forall>x \<in> set rs. ?R x" by (simp add: all_answers_def list_all_iff)
    show "listing s (do { out \<leftarrow> hydrate_all rs; ok out }) t
        (all_answers (\<lambda>x. fst x \<in> set (ia_roles s) \<and> ro_OrgID (fst x) = p_OrgID p \<and> ro_DeletedAt (fst x) = None))"
      by (rule listing_bind [OF listing_loops(1) [OF t]]) (use rs in \<open>auto intro!: listing_ok simp: all_answers_def list_all_iff\<close>)
  qed (simp add: all_answers_def)
  have logs: "listing s (ListAuditLogs_rows (p_OrgID p) af) s (all_answers (\<lambda>a. a \<in> set (ia_audit s) \<and> au_OrgID a = Some (p_OrgID p)))"
    unfolding ListAuditLogs_rows_def Let_def
    by (rule listing_Find) (auto simp: same_data_audit all_answers_def list_all_iff audit_selected_def dest!: in_set_takeD)
  show "listing s (ListAuditLogs v p af) s (all_answers (\<lambda>x. x \<in> audit_view v ` {a \<in> set (ia_audit s). au_OrgID a = Some (p_OrgID p)}))"
    unfolding ListAuditLogs_def
    by (rule listing_attempt [OF logs]) (auto intro!: listing_ok simp: all_answers_def list_all_iff)
qed

definition any_page :: "'a IamPage result \<Rightarrow> 'a IamPage option result" where
  "any_page r = (case r of Inl e \<Rightarrow> Inl e | Inr page \<Rightarrow> Inr (Some page))"

lemma tokens_listed: "listing s (ListAPITokens v p f) s (\<lambda>r. all_items (\<lambda>x. av_token x \<in>
    (\<lambda>t. t\<lparr>at_TokenHash := []\<rparr>) ` {t \<in> set (ia_tokens s). at_OrgID t = p_OrgID p}) (any_page r))"
proof -
  let ?T = "{t \<in> set (ia_tokens s). at_OrgID t = p_OrgID p}"
  let ?Q = "\<lambda>r. all_items (\<lambda>x. av_token x \<in> (\<lambda>t. t\<lparr>at_TokenHash := []\<rparr>) ` ?T) (any_page r)"
  have find: "listing s (Find ia_tokens (\<lambda>t. take n (h (sort_key k (filter (api_token_selected (p_OrgID p) g) t))))) u
      (\<lambda>r. \<forall>xs. r = Inr xs \<longrightarrow> set xs \<subseteq> ?T)"
    if "same_data s u" "\<And>xs. set (h xs) \<subseteq> set xs" for n h g u and k :: "APIToken \<Rightarrow> int \<times> int"
  proof (rule listing_Find [OF that(1)])
    fix t assume "same_data s t"
    then have "ia_tokens t = ia_tokens s" by (simp add: same_dataD)
    moreover have "set (take n (h ys)) \<subseteq> set ys" for ys using set_take_subset [of n "h ys"] that(2) [of ys] by blast
    from this [of "sort_key k (filter (api_token_selected (p_OrgID p) g) (ia_tokens s))"]
    have "set (take n (h (sort_key k (filter (api_token_selected (p_OrgID p) g) (ia_tokens s))))) \<subseteq> ?T"
      by (auto simp: api_token_selected_def)
    ultimately show "\<forall>xs. Inr (take n (h (sort_key k (filter (api_token_selected (p_OrgID p) g) (ia_tokens t))))) =
        (Inr xs :: APIToken list result) \<longrightarrow> set xs \<subseteq> ?T" by simp
  qed simp
  have count: "listing s (Find ia_tokens g) u (\<lambda>r. True)" if "same_data s u" for g u
    by (rule listing_Find [OF that]) simp_all
  have rows: "listing s (ListAPITokens_rows v (p_OrgID p) g) u (\<lambda>r. \<forall>xs n. r = Inr (xs, n) \<longrightarrow> set xs \<subseteq> ?T)"
    if "same_data s u" for g u
    unfolding ListAPITokens_rows_def Let_def
    by (intro listing_bind [where P = "\<lambda>x. True"] listing_attempt [OF count] listing_attempt [OF find])
      (use that in \<open>auto intro!: listing_bind [OF listing_ask] listing_return listing_ok dest: in_set_dropD\<close>)
  have views: "listing s (do { views \<leftarrow> token_views v xs;
        ok \<lparr>pg_Items = views, pg_Page = a, pg_PageSize = b, pg_Total = c, pg_StorageStatus = d\<rparr> }) u ?Q"
    if "same_data s u" "set xs \<subseteq> ?T" for xs u a b c d
  proof (rule listing_bind [OF listing_loops(2) [OF that(1)]])
    fix out t assume t: "same_data s t" and "map av_token out = map (\<lambda>t. t\<lparr>at_TokenHash := []\<rparr>) xs"
    then have "av_token ` set out = (\<lambda>t. t\<lparr>at_TokenHash := []\<rparr>) ` set xs" by (metis list.set_map)
    then have "\<forall>x \<in> set out. av_token x \<in> (\<lambda>t. t\<lparr>at_TokenHash := []\<rparr>) ` ?T" using that(2) by blast
    then show "listing s (ok \<lparr>pg_Items = out, pg_Page = a, pg_PageSize = b, pg_Total = c, pg_StorageStatus = d\<rparr>) t ?Q"
      using t by (intro listing_ok) (simp_all add: all_items_def any_page_def list_all_iff)
  qed
  have failed: "?Q (Inl e)" for e by (simp add: all_items_def any_page_def)
  show ?thesis unfolding ListAPITokens_def Let_def
    by (auto intro!: listing_ok failed listing_bind [OF listing_ask] listing_attempt [OF rows] views split: prod.split)
qed

lemma permissions_listed: "listing s (ListPermissions v p) s (all_answers (\<lambda>x. pm_Scope x = PermissionScopeTenant \<or>
  roleSubject RolePlatformOwner \<in> roleSubject ` set (v_roles v (ia_policies s) (userSubject (p_UserID p)) (FormatInt (p_OrgID p)))))"
proof -
  let ?r = "v_roles v (ia_policies s) (userSubject (p_UserID p)) (FormatInt (p_OrgID p))"
  have role: "listing s (userHasRole v (p_UserID p) (p_OrgID p) RolePlatformOwner) s
      (\<lambda>b. b \<longrightarrow> roleSubject RolePlatformOwner \<in> roleSubject ` set ?r)"
    unfolding userHasRole_def GetRolesForUser_def
    by (rule listing_bind [OF listing_reads [where P = "\<lambda>x. x = ?r"]]) (auto intro!: listing_return rev_image_eqI)
  have rows: "listing s ListPermissions_rows t (\<lambda>r. True)" if "same_data s t" for t
    unfolding ListPermissions_rows_def by (rule listing_Find [OF that]) simp_all
  show ?thesis unfolding ListPermissions_def Let_def
    by (rule listing_bind [OF role]) (auto intro!: listing_attempt [OF rows] listing_ok simp: all_answers_def list_all_iff)
qed

section \<open>Pages put together\<close>

definition items_of :: "'a IamPage option result \<Rightarrow> 'a list" where
  "items_of r = (case r of Inr (Some page) \<Rightarrow> pg_Items page | _ \<Rightarrow> [])"

lemma paged_concat:
  assumes "1 \<le> n" "n \<le> 100" "length out \<le> k * nat n" "int k * n < 2 ^ 62"
  shows "concat (map (\<lambda>i. items_of (Inr (paged (int (Suc i)) n out))) [0..<k]) = out"
proof -
  have len: "int (length out) < 2 ^ 62"
  proof -
    have "int (length out) \<le> int (k * nat n)" using assms(3) by (simp only: of_nat_le_iff)
    also have "\<dots> = int k * n" using assms(1) by simp
    finally show ?thesis using assms(4) by simp
  qed
  have "items_of (Inr (paged (int (Suc i)) n out)) = take (nat n) (drop (i * nat n) out)" if "i < k" for i
  proof -
    have "int (Suc i) * n \<le> int k * n" using that assms(1) by (intro mult_right_mono) auto
    then have small: "int (Suc i) * n < 2 ^ 62" using assms(4) by linarith
    have "nat ((int (Suc i) - 1) * n) = i * nat n" using assms(1) by (simp add: nat_mult_distrib)
    then show ?thesis using list_page_small [of "int (Suc i)" n out] assms(1,2) small len
      by (simp add: items_of_def paged_def normalizeListPage_def Let_def)
  qed
  then have "map (\<lambda>i. items_of (Inr (paged (int (Suc i)) n out))) [0..<k] = map (\<lambda>i. take (nat n) (drop (i * nat n) out)) [0..<k]"
    by simp
  then show ?thesis using assms(3) by (simp only: pages_append) simp
qed

text \<open>The keys of the orders; the second component orders by numbers.\<close>

definition org_key :: "string \<Rightarrow> Organization \<Rightarrow> string \<times> int" where
  "org_key orderKey r =
     (if orderKey = ''code'' then (ToLower (o_Code r), 0) else if orderKey = ''name'' then (ToLower (o_Name r), 0)
      else if orderKey = ''status'' then (ToLower (o_Status r), 0) else ([], o_ID r))"

definition session_key :: "string \<Rightarrow> IamSession \<Rightarrow> string \<times> int" where
  "session_key orderKey r =
     (if orderKey \<in> {''user_id'', ''userid''} then ([], s_UserID r)
      else if orderKey \<in> {''ip'', ''ip_address'', ''ipaddress''} then (ToLower (s_IPAddress r), 0)
      else if orderKey \<in> {''product_code'', ''productcode''} then (normalizeProductCode (s_ProductCode r), 0)
      else if orderKey \<in> {''client_type'', ''clienttype'', ''platform''} then (normalizeClientType (s_ClientType r), 0)
      else if orderKey \<in> {''expires_at'', ''expiresat''} then ([], s_ExpiresAt r)
      else if orderKey \<in> {''last_used_at'', ''lastusedat''} then ([], sessionLastUsedAt r)
      else ([], s_CreatedAt r))"

lemma compare_pairs:
  "compares_key c f A \<Longrightarrow> compares_key c (\<lambda>x. (f x, 0::int)) A" "compares_key c g A \<Longrightarrow> compares_key c (\<lambda>x. ([]::string, g x)) A"
  by (auto simp: compares_key_def less_prod_def')

lemma compare_times: "compares_key (\<lambda>x y. compareTime (f x) (f y)) f A"
  by (auto simp: compares_key_def compareTime_def After_def)

lemma compare_if:
  "compares_key c k A \<Longrightarrow> compares_key d l A \<Longrightarrow> compares_key (\<lambda>x y. if b then c x y else d x y) (\<lambda>x. if b then k x else l x) A"
  by (cases b) simp_all

lemmas compare_rules = compare_if compare_pairs compare_strings compare_ids compare_times

lemma compare_organizations_key:
  assumes "\<forall>r \<in> A. 0 < o_ID r \<and> o_ID r < 2 ^ 63"
  shows "compares_key (compare_organizations k) (org_key k) A"
  unfolding compare_organizations_def [abs_def] org_key_def [abs_def]
  by (intro compare_rules assms)

lemma compare_sessions_key:
  assumes "\<forall>r \<in> A. 0 < s_UserID r \<and> s_UserID r < 2 ^ 63"
  shows "compares_key (compare_sessions k) (session_key k) A"
  unfolding compare_sessions_def [abs_def] session_key_def [abs_def]
  by (intro compare_rules assms)

lemma huge_page: "paged (2 ^ 63 - 1) 10 out = None"
  by (simp add: paged_def normalizeListPage_def list_page_def wrap64_def Let_def)

end
