(* ===== verification/IAM_Contexts.thy ===== *)
theory IAM_Contexts
  imports IAM_Sessions
begin

text \<open>
  One session per context: with \<open>SingleSessionPerContext\<close> and a clock that does not run backwards, a user never has two
  usable sessions in the same organization, product and client type. The context of a session is a fixed
  point of \<open>resolveSessionContext\<close>, so a refresh does not move the session to another context.
\<close>

section \<open>Contexts are normal forms\<close>

lemma normalizeCode_idem [simp]: "normalizeCode (normalizeCode s) = normalizeCode s"
  unfolding normalizeCode_def by (rule normal_form_idem [unfolded normal_form_def])

definition dashes :: "char \<Rightarrow> char" where
  "dashes c = (if c = CHR ''-'' \<or> c = CHR '' '' then CHR ''_'' else c)"

lemma normalizeClientType_eq: "normalizeClientType s = map dashes (normal_form s)"
  by (simp add: normalizeClientType_def normal_form_def dashes_def cong: map_cong)

lemma dashes_other: "c \<noteq> CHR ''_'' \<Longrightarrow> dashes d = c \<longleftrightarrow> d = c \<and> c \<noteq> CHR ''-'' \<and> c \<noteq> CHR '' ''"
  by (auto simp: dashes_def)

lemma dashes_idem [simp]: "dashes (dashes c) = dashes c"
  by (simp add: dashes_def)

lemma map_dashes_append:
  assumes "map dashes s = u @ w"
  shows "\<exists>u' w'. s = u' @ w' \<and> map dashes u' = u \<and> map dashes w' = w"
  using assms by (metis map_eq_append_conv)

lemma map_dashes_plain:
  assumes "map dashes s = e" and "CHR ''_'' \<notin> set e"
  shows "s = e"
  using assms by (induction s arbitrary: e) (auto simp: dashes_def split: if_splits)

lemma space_runes_no_underscore: "e \<in> set space_runes \<Longrightarrow> CHR ''_'' \<notin> set e"
  by (auto simp: space_runes_def)

lemma TrimSpace_dashes:
  assumes "TrimSpace s = s"
  shows "TrimSpace (map dashes s) = map dashes s"
  unfolding TrimSpace_fixed_iff
proof (intro ballI impI conjI notI; elim exE)
  fix e r
  assume e: "e \<in> set space_runes" "e \<noteq> []"
  note n = space_runes_no_underscore [OF e(1)]
  { assume "map dashes s = e @ r"
    then obtain u w where "s = u @ w" "map dashes u = e" using map_dashes_append by blast
    then show False using map_dashes_plain n assms e unfolding TrimSpace_fixed_iff by metis }
  { assume "map dashes s = r @ e"
    then obtain u w where "s = u @ w" "map dashes w = e" using map_dashes_append by blast
    then show False using map_dashes_plain n assms e unfolding TrimSpace_fixed_iff by metis }
qed

lemma ToLower_fixed_Cons:
  "ToLower (a # s) = a # s \<longleftrightarrow> \<not> (a = CHR 0xC4 \<and> take 1 s = [CHR 0xB0]) \<and> \<not> (a = CHR 0xE2 \<and> take 2 s = [CHR 0x84, CHR 0xAA])
     \<and> lower_byte a = a \<and> ToLower s = s"
  by (simp add: ToLower_Cons del: ToLower.simps)

lemma ToLower_dashes: "ToLower s = s \<Longrightarrow> ToLower (map dashes s) = map dashes s"
proof (induction s)
  case (Cons a s)
  then have a: "\<not> (a = CHR 0xC4 \<and> take 1 s = [CHR 0xB0])" "\<not> (a = CHR 0xE2 \<and> take 2 s = [CHR 0x84, CHR 0xAA])"
    "lower_byte a = a" "ToLower s = s" unfolding ToLower_fixed_Cons by blast+
  have t: "take n (map dashes s) = e \<Longrightarrow> CHR ''_'' \<notin> set e \<Longrightarrow> take n s = e" for n e
    using map_dashes_plain [of "take n s"] by (simp add: take_map)
  have "lower_byte (dashes a) = dashes a" using a(3) by (simp add: dashes_def lower_byte_def)
  then show ?case
    using a Cons.IH t [of 1 "[CHR 0xB0]"] t [of 2 "[CHR 0x84, CHR 0xAA]"]
    by (simp add: ToLower_fixed_Cons dashes_other del: ToLower.simps) blast
qed simp

lemma normalizeClientType_idem [simp]: "normalizeClientType (normalizeClientType s) = normalizeClientType s"
proof -
  have "TrimSpace (map dashes (normal_form s)) = map dashes (normal_form s)"
    using TrimSpace_dashes TrimSpace_ToLower by (simp add: normal_form_def)
  moreover have "ToLower (map dashes (normal_form s)) = map dashes (normal_form s)"
    by (rule ToLower_dashes) (simp add: normal_form_def)
  ultimately show ?thesis by (simp add: normalizeClientType_eq normal_form_def [of "map dashes _"] comp_def)
qed

lemma blank_normalizeCode: "blank (normalizeCode s) \<longleftrightarrow> blank s"
  using normal_form_blank [of s] by (simp add: normalizeCode_def normal_form_def)

lemma blank_normalizeClientType: "blank (normalizeClientType s) \<longleftrightarrow> blank s"
proof -
  have "TrimSpace (map dashes (normal_form s)) = map dashes (normal_form s)"
    using TrimSpace_dashes TrimSpace_ToLower by (simp add: normal_form_def)
  then have "blank (normalizeClientType s) \<longleftrightarrow> normal_form s = []" by (simp add: normalizeClientType_eq)
  then show ?thesis by (simp add: normal_form_def)
qed

lemma resolve_idem:
  assumes "c = resolveSessionContext cfg product client"
  shows "resolveSessionContext cfg (sc_ProductCode c) (sc_ClientType c) = c"
proof -
  have "normalizeCode (iam_firstNonEmpty [normalizeCode (iam_firstNonEmpty [a, b]), b]) = normalizeCode (iam_firstNonEmpty [a, b])"
    for a b by (auto simp: blank_normalizeCode)
  moreover have "normalizeClientType (iam_firstNonEmpty [normalizeClientType (iam_firstNonEmpty [a, b]), b]) =
      normalizeClientType (iam_firstNonEmpty [a, b])" for a b
    by (auto simp: blank_normalizeClientType)
  ultimately show ?thesis using assms by (simp add: resolveSessionContext_def normalizeProductCode_def)
qed

section \<open>At most one usable session per context\<close>

definition session_context :: "IamSession \<Rightarrow> int \<times> int \<times> string \<times> string" where
  "session_context r = (s_UserID r, s_OrgID r, s_ProductCode r, s_ClientType r)"

definition usable :: "gotime \<Rightarrow> IamSession \<Rightarrow> bool" where
  "usable now r \<longleftrightarrow> s_RevokedAt r = None \<and> \<not> s_ExpiresAt r < now"

definition resolved :: "IamConfig \<Rightarrow> IamSession \<Rightarrow> bool" where
  "resolved cfg r \<longleftrightarrow> resolveSessionContext cfg (s_ProductCode r) (s_ClientType r) =
     \<lparr>sc_ProductCode = s_ProductCode r, sc_ClientType = s_ClientType r\<rparr>"

definition one_usable :: "IamEnv \<Rightarrow> Iam \<Rightarrow> bool" where
  "one_usable v s \<longleftrightarrow> session_ids s \<and>
     (\<forall>r \<in> set (ia_sessions s). s_RevokedAt r = None \<longrightarrow> resolved (v_cfg v) r) \<and>
     (\<forall>r1 \<in> set (ia_sessions s). \<forall>r2 \<in> set (ia_sessions s). session_context r1 = session_context r2 \<longrightarrow>
        usable (v_now v (ia_seq s)) r1 \<longrightarrow> usable (v_now v (ia_seq s)) r2 \<longrightarrow> r1 = r2)"

definition keeps_one :: "IamEnv \<Rightarrow> Iam \<Rightarrow> Iam \<Rightarrow> bool" where
  "keeps_one v s t \<longleftrightarrow> ia_seq s \<le> ia_seq t \<and>
     (mono (v_now v) \<and> SingleSessionPerContext (v_cfg v) \<and> one_usable v s \<longrightarrow> one_usable v t)"

lemma usable_later: "mono (v_now v) \<Longrightarrow> m \<le> n \<Longrightarrow> usable (v_now v n) r \<Longrightarrow> usable (v_now v m) r"
  unfolding usable_def by (meson le_less_trans monoD not_le)

text \<open>A table whose usable rows were usable before, in the same contexts.\<close>

lemma one_usable_shrinks:
  assumes one: "one_usable v s" and later: "mono (v_now v)" "ia_seq s \<le> ia_seq t" and ids: "session_ids t"
    and from_old: "\<And>r. r \<in> set (ia_sessions t) \<Longrightarrow> s_RevokedAt r = None \<Longrightarrow>
      resolved (v_cfg v) r \<and> (usable (v_now v (ia_seq t)) r \<longrightarrow>
        (\<exists>r' \<in> set (ia_sessions s). s_ID r' = s_ID r \<and> session_context r' = session_context r \<and> usable (v_now v (ia_seq s)) r'))"
  shows "one_usable v t"
  unfolding one_usable_def
proof (intro conjI ballI impI)
  fix r1 r2
  assume r: "r1 \<in> set (ia_sessions t)" "r2 \<in> set (ia_sessions t)" "session_context r1 = session_context r2"
    "usable (v_now v (ia_seq t)) r1" "usable (v_now v (ia_seq t)) r2"
  have unrevoked: "s_RevokedAt r1 = None" "s_RevokedAt r2 = None" using r(4,5) by (simp_all add: usable_def)
  obtain q1 where q1: "q1 \<in> set (ia_sessions s)" "s_ID q1 = s_ID r1" "session_context q1 = session_context r1"
      "usable (v_now v (ia_seq s)) q1" using from_old [OF r(1)] r(4) unrevoked by blast
  obtain q2 where q2: "q2 \<in> set (ia_sessions s)" "s_ID q2 = s_ID r2" "session_context q2 = session_context r2"
      "usable (v_now v (ia_seq s)) q2" using from_old [OF r(2)] r(5) unrevoked by blast
  have "q1 = q2" using one q1 q2 r(3) unfolding one_usable_def by metis
  then show "r1 = r2" using same_id_same_row [OF ids r(1,2)] q1(2) q2(2) by simp
qed (use ids from_old in auto)

lemma keeps_one_same: "same_sessions s t \<Longrightarrow> keeps_one v s t"
  unfolding keeps_one_def
proof (intro conjI impI)
  assume same: "same_sessions s t"
  then show "ia_seq s \<le> ia_seq t" by (simp add: same_sessions_def)
  assume a: "mono (v_now v) \<and> SingleSessionPerContext (v_cfg v) \<and> one_usable v s"
  show "one_usable v t"
  proof (rule one_usable_shrinks)
    show "session_ids t" using a same by (simp add: one_usable_def session_ids_def same_sessions_def)
    fix r assume "r \<in> set (ia_sessions t)" "s_RevokedAt r = None"
    then show "resolved (v_cfg v) r \<and> (usable (v_now v (ia_seq t)) r \<longrightarrow>
        (\<exists>r' \<in> set (ia_sessions s). s_ID r' = s_ID r \<and> session_context r' = session_context r \<and> usable (v_now v (ia_seq s)) r'))"
      using a same usable_later unfolding one_usable_def same_sessions_def by metis
  qed (use a same in \<open>auto simp: same_sessions_def\<close>)
qed

interpretation one: iam_relation "keeps_one v"
proof
  show "keeps_one v s t" if "same_sessions s t" for s t using that by (rule keeps_one_same)
  show "keeps_one v s u" if "keeps_one v s t" "keeps_one v t u" for s t u using that by (auto simp: keeps_one_def)
  show "keeps_one v s (t\<lparr>ia_sessions := ia_sessions s\<rparr>)" if "keeps_one v s t" for s t
    using that by (intro keeps_one_same) (simp add: keeps_one_def same_sessions_def)
qed

lemma keeps_one_save:
  assumes run: "run_state (SaveSession v row) s = (x, t)" and s: "same_sessions s0 s"
    and row: "s_RevokedAt row = None \<Longrightarrow> one_usable v s0 \<Longrightarrow> mono (v_now v) \<Longrightarrow>
      resolved (v_cfg v) row \<and> (\<exists>r' \<in> set (ia_sessions s0). s_ID r' = s_ID row \<and>
         session_context r' = session_context row \<and> usable (v_now v (ia_seq s0)) r')"
  shows "keeps_one v s0 t"
  using run
proof (cases rule: SaveSession_run)
  case (failed e)
  then show ?thesis using keeps_one_same s same_sessions_trans by blast
next
  case (saved w)
  show ?thesis
    unfolding keeps_one_def
  proof (intro conjI impI)
    show later: "ia_seq s0 \<le> ia_seq t" using saved(3) s by (simp add: same_sessions_def)
    assume a: "mono (v_now v) \<and> SingleSessionPerContext (v_cfg v) \<and> one_usable v s0"
    have new: "set (ia_sessions t) \<subseteq> insert (row\<lparr>s_UpdatedAt := w\<rparr>) (set (ia_sessions s0))"
      using saved(4) s by (auto simp: same_sessions_def split: if_splits)
    have ids0: "session_ids s" using a s by (simp add: one_usable_def session_ids_def same_sessions_def)
    then have ids: "session_ids t"
      using saved(4) replaced_ids [of "row\<lparr>s_UpdatedAt := w\<rparr>" row "ia_sessions s"]
      by (cases "s_ID row \<in> s_ID ` set (ia_sessions s)") (simp_all add: session_ids_def del: list.map_comp map_eq_conv)
    show "one_usable v t"
    proof (rule one_usable_shrinks [of v s0])
      fix r assume r: "r \<in> set (ia_sessions t)" "s_RevokedAt r = None"
      show "resolved (v_cfg v) r \<and> (usable (v_now v (ia_seq t)) r \<longrightarrow>
        (\<exists>r' \<in> set (ia_sessions s0). s_ID r' = s_ID r \<and> session_context r' = session_context r \<and> usable (v_now v (ia_seq s0)) r'))"
      proof (cases "r = row\<lparr>s_UpdatedAt := w\<rparr>")
        case True
        then show ?thesis using row r(2) a by (simp add: resolved_def session_context_def)
      next
        case False
        then have "r \<in> set (ia_sessions s0)" using new r(1) by blast
        then show ?thesis using a r(2) usable_later later unfolding one_usable_def by metis
      qed
    qed (use a ids later in auto)
  qed
qed

section \<open>A new session revokes the others of its context\<close>

lemma revoke_one_run:
  assumes "run_state (SaveSession v (x\<lparr>s_RevokedAt := Some now\<rparr>)) s = (Inr (), t)"
    and "r \<in> set (ia_sessions t)" and "s_RevokedAt r = None"
  shows "r \<in> set (ia_sessions s) \<and> s_ID r \<noteq> s_ID x"
  using assms(1)
proof (cases rule: SaveSession_run)
  case (saved w)
  then show ?thesis using assms(2,3)
    by (cases "s_ID x \<in> s_ID ` set (ia_sessions s)") (auto split: if_splits simp: image_iff)
qed simp

lemma revoke_loop_run:
  assumes "run_state (revoke_loop v skip now sessions) s = (Inr (), t)"
    and "r \<in> set (ia_sessions t)" and "s_RevokedAt r = None"
  shows "r \<in> set (ia_sessions s) \<and> (\<forall>x \<in> set sessions. s_ID x = s_ID r \<longrightarrow> skip x)"
  using assms(1)
proof (induction sessions arbitrary: s)
  case Nil
  then show ?case using assms by simp
next
  case (Cons x xs)
  show ?case
  proof (cases "skip x")
    case True
    then show ?thesis using Cons by simp
  next
    case False
    then obtain y u where save: "run_state (SaveSession v (x\<lparr>s_RevokedAt := Some now\<rparr>)) s = (Inr y, u)"
      and rest: "run_state (revoke_loop v skip now xs) u = (Inr (), t)"
      using Cons.prems by (auto elim!: attempt_ok)
    note ih = Cons.IH [OF rest]
    then have "r \<in> set (ia_sessions s) \<and> s_ID r \<noteq> s_ID x" using revoke_one_run [of v now x s u r] save assms(3) by simp
    then show ?thesis using ih by auto
  qed
qed

lemma revoked_context:
  assumes "run_state (revokeActiveSessionsForContext v user org c now) s = (Inr (), t)"
    and "r \<in> set (ia_sessions t)" and "usable now r"
  shows "session_context r \<noteq> (user, org, sc_ProductCode c, sc_ClientType c)"
proof
  assume ctx: "session_context r = (user, org, sc_ProductCode c, sc_ClientType c)"
  from assms(1) obtain rows u where f: "run_state (ListSessionsByUser user) s = (Inr rows, u)"
      "run_state (revoke_loop v (other_context org c now) now rows) u = (Inr (), t)"
    unfolding revokeActiveSessionsForContext_def by (elim attempt_ok)
  have r: "r \<in> set (ia_sessions u)" "\<forall>x \<in> set rows. s_ID x = s_ID r \<longrightarrow> other_context org c now x"
    using revoke_loop_run [OF f(2) assms(2)] assms(3) by (simp_all add: usable_def)
  have "r \<in> set rows"
    using ListSessionsByUser_ok [OF f(1)] r(1) ctx by (simp add: same_dataD session_context_def)
  then have "other_context org c now r" using r(2) by simp
  then show False using ctx assms(3) by (simp add: other_context_def session_context_def usable_def)
qed

lemma keeps_one_create:
  assumes run: "run_state (CreateSession row) s = (x, t)" and one: "keeps_one v s0 s"
    and row: "resolved (v_cfg v) row" "s_RevokedAt row = None"
    and fresh: "SingleSessionPerContext (v_cfg v) \<Longrightarrow> one_usable v s0 \<Longrightarrow> mono (v_now v) \<Longrightarrow>
      \<forall>r \<in> set (ia_sessions s). usable (v_now v (ia_seq s)) r \<longrightarrow> session_context r \<noteq> session_context row"
  shows "keeps_one v s0 t"
  using run
proof (cases rule: CreateSession_run)
  case (failed e)
  then show ?thesis using one keeps_one_same one.trans by blast
next
  case created
  show ?thesis
    unfolding keeps_one_def
  proof (intro conjI impI)
    show "ia_seq s0 \<le> ia_seq t" using one created(3) by (simp add: keeps_one_def)
    assume a: "mono (v_now v) \<and> SingleSessionPerContext (v_cfg v) \<and> one_usable v s0"
    then have u: "one_usable v s" using one by (simp add: keeps_one_def)
    have later: "usable (v_now v (ia_seq s)) r" if "usable (v_now v (ia_seq t)) r" for r
      using usable_later a created(3) that by blast
    have other: "session_context r \<noteq> session_context row" if "r \<in> set (ia_sessions s)" "usable (v_now v (ia_seq t)) r" for r
      using fresh a later that by blast
    show "one_usable v t"
      unfolding one_usable_def
    proof (intro conjI ballI impI)
      show "session_ids t" using u created(2,4) by (auto simp: one_usable_def session_ids_def)
      show "resolved (v_cfg v) r" if "r \<in> set (ia_sessions t)" "s_RevokedAt r = None" for r
        using that row u created(2) by (auto simp: one_usable_def)
      fix r1 r2
      assume r: "r1 \<in> set (ia_sessions t)" "r2 \<in> set (ia_sessions t)" "session_context r1 = session_context r2"
        "usable (v_now v (ia_seq t)) r1" "usable (v_now v (ia_seq t)) r2"
      consider "r1 \<in> set (ia_sessions s)" "r2 \<in> set (ia_sessions s)" | "r1 = row" "r2 = row"
        using r(1-3) created(2) other [of r1] other [of r2] r(4,5) by auto
      then show "r1 = r2"
      proof cases
        case 1
        then show ?thesis using u r(3) later [OF r(4)] later [OF r(5)] unfolding one_usable_def by blast
      qed simp
    qed
  qed
qed

lemma keeps_one_trans: "keeps_one v s t \<Longrightarrow> keeps_one v t u \<Longrightarrow> keeps_one v s u"
  by (rule one.trans)

lemma keeps_one_new_session: "state_io_rel (keeps_one v) (createSessionAndTokens v user org a b product client)"
  unfolding state_io_rel_def
proof
  fix s0 :: Iam
  let ?now = "v_now v (ia_seq s0)" and ?c = "resolveSessionContext (v_cfg v) product client"
  let ?revoke = "if SingleSessionPerContext (v_cfg v) then revokeActiveSessionsForContext v (u_ID user) org ?c ?now else ok ()"
  let ?s = "s0\<lparr>ia_seq := Suc (ia_seq s0)\<rparr>"
  have s: "keeps_one v s0 ?s" by (rule keeps_one_same) (simp add: same_sessions_def)
  have revoking: "state_io_rel (keeps_one v) (revoke_loop v skip now sessions)" for skip now sessions
  proof (induction sessions)
    case (Cons x xs)
    have "state_io_rel (keeps_one v) (SaveSession v (x\<lparr>s_RevokedAt := Some now\<rparr>))"
      unfolding state_io_rel_def by (intro allI run_in [where P = "keeps_one v _"] keeps_one_save) (auto simp: same_sessions_def)
    then show ?case using Cons by (auto intro!: one.rel_rules)
  qed (auto intro!: one.rel_rules)
  obtain x u where u: "run_state ?revoke ?s = (x, u)" by fastforce
  have "state_io_rel (keeps_one v) ?revoke"
    unfolding revokeActiveSessionsForContext_def by (auto intro!: one.rel_rules one.rel_finds revoking)
  then have su: "keeps_one v s0 u" using u s rel_ran one.trans by blast
  show "keeps_one v s0 (snd (run_state (createSessionAndTokens v user org a b product client) s0))"
  proof (cases x)
    case (Inl e)
    then show ?thesis using u su by (simp add: createSessionAndTokens_def Let_def run_attempt)
  next
    case (Inr y)
    let ?issue = "\<lambda>i. v_issue v (Suc (ia_seq u)) \<lparr>ts_UserID = u_ID user, ts_OrgID = org, ts_SessionID = i, ts_ProductCode = sc_ProductCode ?c\<rparr>"
    let ?u = "u\<lparr>ia_seq := Suc (Suc (ia_seq u))\<rparr>"
    have uu: "same_sessions u ?u" by (simp add: same_sessions_def)
    show ?thesis
    proof (cases "?issue (v_id v (ia_seq u))")
      case (Inl e)
      then show ?thesis using u su Inr one.trans [OF su keeps_one_same [OF uu]]
        by (simp add: createSessionAndTokens_def Let_def run_attempt)
    next
      case issued: (Inr pair)
      let ?row = "\<lparr>s_ID = v_id v (ia_seq u), s_UserID = u_ID user, s_OrgID = org, s_ProductCode = sc_ProductCode ?c,
               s_ClientType = sc_ClientType ?c, s_RefreshTokenHash = ip_RefreshTokenHash pair, s_UserAgent = a,
               s_IPAddress = b, s_ExpiresAt = ip_RefreshExpiresAt pair, s_RevokedAt = None, s_LastUsedAt = None,
               s_CreatedAt = ?now, s_UpdatedAt = ?now\<rparr>"
      obtain z t where t: "run_state (CreateSession ?row) ?u = (z, t)" by fastforce
      have "keeps_one v s0 t"
      proof (rule keeps_one_create [OF t one.trans [OF su keeps_one_same [OF uu]]])
        show "resolved (v_cfg v) ?row" using resolve_idem [OF refl] by (simp add: resolved_def)
        assume a: "SingleSessionPerContext (v_cfg v)" "one_usable v s0" "mono (v_now v)"
        have "ia_seq s0 \<le> ia_seq ?u" using su by (simp add: keeps_one_def)
        then have "usable ?now r" if "usable (v_now v (ia_seq ?u)) r" for r using usable_later [OF a(3)] that by blast
        then show "\<forall>r \<in> set (ia_sessions ?u). usable (v_now v (ia_seq ?u)) r \<longrightarrow> session_context r \<noteq> session_context ?row"
          using revoked_context [of v "u_ID user" org ?c ?now ?s u] u Inr a(1) by (auto simp: session_context_def)
      qed simp
      then show ?thesis using u Inr issued t
        by (cases z) (simp_all add: createSessionAndTokens_def Let_def run_attempt)
    qed
  qed
qed

interpretation contexts: session_relation "keeps_one v" v
proof
  show "state_io_rel (keeps_one v) (signupWithEmailVerification v i)" for i
    by (rule one.rel_pending_from, rule one.frame_delete)
  show "state_io_rel (keeps_one v) (createSessionAndTokens v user org a b c d)" for user org a b c d
    by (rule keeps_one_new_session)
  show "state_io_rel (keeps_one v) (SaveSession v (session\<lparr>s_RevokedAt := Some now\<rparr>))" for session now
    unfolding state_io_rel_def by (intro allI run_in [where P = "keeps_one v _"] keeps_one_save) (auto simp: same_sessions_def)
  show "state_io_rel (keeps_one v) (Refresh v token ua ip)" for token ua ip
  proof (rule one.rel_refresh_from)
    fix session s0 s pair t
    assume session: "session \<in> set (ia_sessions s0)" "s_RevokedAt session = None" "same_sessions s0 s"
      "\<exists>n \<ge> ia_seq s0. \<not> s_ExpiresAt session < v_now v n"
    show "keeps_one v s0 (snd (run_state (SaveSession v (refreshed v session pair t ua ip)) s))"
    proof (rule run_in [where P = "keeps_one v s0"], rule keeps_one_save [OF _ session(3)], assumption)
      assume one: "one_usable v s0" and mono: "mono (v_now v)"
      then have "resolved (v_cfg v) session" using session(1,2) by (simp add: one_usable_def)
      moreover obtain n where "ia_seq s0 \<le> n" "usable (v_now v n) session" using session(2,4) unfolding usable_def by blast
      then have "usable (v_now v (ia_seq s0)) session" using usable_later mono by blast
      ultimately show "resolved (v_cfg v) (refreshed v session pair t ua ip) \<and> (\<exists>r' \<in> set (ia_sessions s0).
          s_ID r' = s_ID (refreshed v session pair t ua ip) \<and>
          session_context r' = session_context (refreshed v session pair t ua ip) \<and> usable (v_now v (ia_seq s0)) r')"
        using session(1) by (intro conjI bexI [of _ session])
          (simp_all add: resolved_def refreshed_def session_context_def Let_def)
    qed
  qed
qed

end
