(* ===== verification/IAM_Founding.thy ===== *)
theory IAM_Founding
  imports IAM_Tables IAM_Roles
begin

text \<open>
  Installations and organizations: founding one changes all its tables or none, a signup leaves an organization with
  its owner and exactly the tenant's policies, and an installation with users is never set up again.
\<close>

section \<open>Transactions\<close>

text \<open>The rows of all tables.\<close>

definition iam_tables where
  "iam_tables s = (ia_users s, ia_orgs s, ia_memberships s, ia_roles s, ia_sessions s, ia_tokens s, ia_invitations s,
     ia_resets s, ia_factors s, ia_audit s, ia_rules s, ia_permissions s, ia_verifications s)"

lemma same_data_tables: "same_data s t \<Longrightarrow> iam_tables t = iam_tables s"
  by (cases s; cases t) (simp add: iam_tables_def same_data_def)

lemma transaction_statement:
  assumes "run_state (statement (\<lambda>s. (Inr (), s))) s = (r, t)"
  shows "same_data s t"
  using assms by (cases rule: statement_run) auto

lemma WithTx_failed:
  assumes "run_state (WithTx body) s = (Inl e, t)"
  shows "iam_tables t = iam_tables s"
proof -
  obtain r u where b: "run_state (statement (\<lambda>s. (Inr (), s))) s = (r, u)" by fastforce
  have u: "iam_tables u = iam_tables s" using transaction_statement [OF b] same_data_tables by blast
  show ?thesis
  proof (cases r)
    case (Inl e')
    then show ?thesis using assms b u by (simp add: WithTx_def run_attempt)
  next
    case (Inr x)
    then have "\<exists>w. t = rollback u w" using assms b
      by (auto simp: WithTx_def run_attempt split: prod.splits sum.splits)
    then show ?thesis using u by (auto simp: iam_tables_def rollback_def)
  qed
qed

lemma WithTx_done:
  assumes "run_state (WithTx body) s = (Inr x, t)"
  obtains u w where "same_data s u" "run_state body u = (Inr x, w)" "same_data w t"
proof -
  obtain y u where u: "run_state (statement (\<lambda>s. (Inr (), s))) s = (Inr y, u)"
    "run_state (attempt body (\<lambda>x. attempt (statement (\<lambda>s. (Inr (), s))) (\<lambda>_. ok x))) u = (Inr x, t)"
    using assms unfolding WithTx_def by (elim attempt_ok) (auto split: prod.splits sum.splits)
  from u(2) obtain z w where w: "run_state body u = (Inr z, w)" "run_state (attempt (statement (\<lambda>s. (Inr (), s))) (\<lambda>_. ok z)) w = (Inr x, t)"
    by (rule attempt_ok)
  from w(2) have "z = x" "same_data w t"
    using transaction_statement [of w] by (auto simp: run_attempt split: prod.splits sum.splits)
  then show ?thesis using that transaction_statement [OF u(1)] w(1) by blast
qed

text \<open>An operation that fails leaves all tables as they were.\<close>

definition all_or_none :: "'a result iam \<Rightarrow> Iam \<Rightarrow> bool" where
  "all_or_none m s \<longleftrightarrow> (case run_state m s of (Inl e, t) \<Rightarrow> iam_tables t = iam_tables s | (Inr x, t) \<Rightarrow> True)"

lemma none_throw: "all_or_none (throw e) s" and none_tx: "all_or_none (WithTx body) s"
  using WithTx_failed [of body s] by (auto simp: all_or_none_def split: prod.splits sum.splits)

lemma none_require: "all_or_none m s \<Longrightarrow> all_or_none (require e m) s"
  by (auto simp: all_or_none_def run_require split: option.splits)

text \<open>After the transaction nothing can fail.\<close>

lemma none_then:
  assumes "all_or_none m s" and "\<And>x t. \<exists>y. fst (run_state (f x) t) = Inr y"
  shows "all_or_none (attempt m f) s"
proof -
  obtain r t where m: "run_state m s = (r, t)" by fastforce
  show ?thesis
  proof (cases r)
    case (Inr x)
    then show ?thesis using m assms(2) [of x t] by (auto simp: all_or_none_def run_attempt split: prod.splits)
  qed (use assms(1) m in \<open>simp add: all_or_none_def run_attempt\<close>)
qed

lemmas none_rules = none_throw none_tx none_require none_then

section \<open>What founding an organization adds\<close>

text \<open>A relation kept by the reads and by the row writes of a founding.\<close>

locale founding_relation = quiet_relation R for R :: "Iam \<Rightarrow> Iam \<Rightarrow> bool" +
  assumes same: "same_data s t \<Longrightarrow> R s t"
    and orgs: "R s (s\<lparr>ia_orgs := ia_orgs s @ rows1\<rparr>)"
    and users: "R s (s\<lparr>ia_users := ia_users s @ rows2\<rparr>)"
    and memberships: "R s (s\<lparr>ia_memberships := ia_memberships s @ rows3\<rparr>)"
    and permissions: "R s (s\<lparr>ia_permissions := ia_permissions s @ rows4\<rparr>)"
    and roles: "R s (s\<lparr>ia_roles := ia_roles s @ rows5\<rparr>)"
    and logs: "R s (s\<lparr>ia_audit := ia_audit s @ rows6\<rparr>)"
    and sessions: "R s (s\<lparr>ia_sessions := rows7\<rparr>)"
    and loaded: "R s (s\<lparr>ia_policies := ps\<rparr>)"
begin

lemma same_ask: "state_io_rel R (ask f)"
  by (simp add: state_io_rel_def same)

lemma same_reads: "state_io_rel R (First table order p)" "state_io_rel R (Find table query)"
proof -
  have "run_state (First table order p) s = (r, t) \<Longrightarrow> same_data s t" for s r t using First_run by blast
  then show "state_io_rel R (First table order p)" unfolding state_io_rel_def
    by (intro allI run_in [where P = "R _"] same) auto
  have "run_state (Find table query) s = (r, t) \<Longrightarrow> same_data s t" for s r t using Find_run by blast
  then show "state_io_rel R (Find table query)" unfolding state_io_rel_def
    by (intro allI run_in [where P = "R _"] same) auto
qed

lemma add_row:
  assumes "\<And>s. R s (put (table s @ [row]) s)"
  shows "state_io_rel R (Create table put clash row)"
proof -
  have "R s t" if "run_state (Create table put clash row) s = (r, t)" for s r t
    using that
  proof (cases rule: Create_run)
    case (created u)
    then show ?thesis using trans [OF same assms, of s u] by simp
  qed (rule same)
  then show ?thesis unfolding state_io_rel_def by (intro allI run_in [where P = "R _"])
qed

lemma save_session: "state_io_rel R (SaveSession v row)"
proof -
  let ?save = "Save ia_sessions (\<lambda>t s. s\<lparr>ia_sessions := t\<rparr>) s_ID session_clash"
  have "R s t" if "run_state (?save row) s = (r, t)" for s r t and row :: IamSession
    using that
  proof (cases rule: Save_run)
    case (replaced u)
    then show ?thesis using trans [OF same sessions, of s u] by simp
  next
    case (inserted u)
    then show ?thesis using trans [OF same sessions, of s u] by simp
  qed (rule same)
  then have "state_io_rel R (?save row)" for row unfolding state_io_rel_def by (intro allI run_in [where P = "R _"])
  then show ?thesis unfolding SaveSession_def by (intro rel_bind same_ask)
qed

lemma founding_rows:
  "state_io_rel R (CreateOrganization_row a1)" "state_io_rel R (CreateUser a2)" "state_io_rel R (CreateMembership a3)"
  "state_io_rel R (CreatePermission a4)" "state_io_rel R (CreateRole_row a5)" "state_io_rel R (CreateAuditLog a6)"
  "state_io_rel R (CreateSession a7)"
  unfolding CreateOrganization_row_def CreateUser_def CreateMembership_def CreatePermission_def CreateRole_row_def
    CreateAuditLog_def CreateSession_def
  by (rule add_row, rule orgs users memberships permissions roles logs sessions)+

lemmas founding_basic = quiet_rules same_ask same_reads founding_rows

lemma founding_finds: "state_io_rel R (FindOrganizationByCode c)" "state_io_rel R (FindUserByIdentifier c)"
  unfolding FindOrganizationByCode_def FindUserByIdentifier_def by (intro founding_basic)+

lemma founding_absent: "state_io_rel R m \<Longrightarrow> state_io_rel R (absent m)"
  unfolding absent_def by (auto intro!: founding_basic split: sum.splits)

lemma founding_unique: "state_io_rel R (ensureSignupUnique i)"
  unfolding ensureSignupUnique_def by (auto intro!: founding_basic founding_absent founding_finds)

lemma founding_membership: "state_io_rel R (ensureMembership v i j)"
  unfolding ensureMembership_def FindMembership_def by (auto intro!: founding_basic split: sum.splits)

lemma founding_seeds: "state_io_rel R (seed_permissions v ps)" "state_io_rel R (seed_roles v org rs)"
proof -
  show "state_io_rel R (seed_permissions v ps)"
    by (induction ps) (auto intro!: founding_basic simp: FindPermission_def Let_def split: sum.splits)
  show "state_io_rel R (seed_roles v org rs)"
    by (induction rs) (auto intro!: founding_basic simp: FindRole_def split: sum.splits)
qed

lemma founding_audit: "state_io_rel R (audit v a b c d e f g h i)"
  unfolding audit_def Let_def by (intro founding_basic)

lemma founding_session: "state_io_rel R (createSessionAndTokens v user org a b c d)"
proof -
  have "state_io_rel R (revoke_loop v skip now rows)" for skip now rows
    by (induction rows) (auto intro!: founding_basic save_session)
  then show ?thesis unfolding createSessionAndTokens_def revokeActiveSessionsForContext_def ListSessionsByUser_def Let_def
    by (auto intro!: founding_basic)
qed

lemma founding_policies: "state_io_rel R LoadPolicies"
proof -
  have "state_io_rel R (LoadRules rules)" for rules
    by (auto simp: LoadRules_def state_io_rel_def loaded split: prod.splits)
  then show ?thesis unfolding LoadPolicies_def ListCasbinRules_def by (intro founding_basic)
qed

end

definition grown :: "Iam \<Rightarrow> Iam \<Rightarrow> bool" where
  "grown s t \<longleftrightarrow> set (ia_orgs s) \<subseteq> set (ia_orgs t) \<and> set (ia_users s) \<subseteq> set (ia_users t) \<and>
     set (ia_memberships s) \<subseteq> set (ia_memberships t)"

interpretation grown: founding_relation grown
  by unfold_locales (auto simp: grown_def same_dataD)

interpretation rules_kept: founding_relation same_rules
  by unfold_locales (auto simp: same_rules_def same_dataD)

lemma grown_AddCasbinRule: "state_io_rel grown (AddCasbinRule rule)"
proof -
  have "state_io_rel grown (Create ia_rules (\<lambda>t s. s\<lparr>ia_rules := t\<rparr>) rule_clash rule)"
    by (rule grown.add_row) (simp add: grown_def)
  then show ?thesis unfolding AddCasbinRule_def by (auto intro!: grown.founding_basic split: sum.splits)
qed

lemma grown_policies: "state_io_rel grown (addPolicy v org role product scope obj act)" "state_io_rel grown (addUserRole v i j c)"
  unfolding addPolicy_def addUserRole_def Let_def by (auto intro!: grown.founding_basic grown_AddCasbinRule)

lemma grown_builtins: "state_io_rel grown (ensureBuiltins v org kind)"
proof -
  have "state_io_rel grown (seed_policies v org kind ps)" for ps
    by (induction ps) (auto intro!: grown.founding_basic grown_policies simp: Let_def split: prod.splits)
  then show ?thesis unfolding ensureBuiltins_def by (intro grown.founding_basic grown.founding_seeds grown_policies)
qed

section \<open>The policies of a tenant\<close>

definition tenant_codes :: "permissionSeed list \<Rightarrow> string list" where
  "tenant_codes seeds = map seed_Code (filter (\<lambda>p. normalizePermissionScope (seed_Scope p) = PermissionScopeTenant) seeds)"

definition seeded :: "IamConfig \<Rightarrow> int \<Rightarrow> permissionSeed list \<Rightarrow> string list set" where
  "seeded cfg org seeds = (\<Union>role \<in> {RoleOwner, RoleAdmin}. wanted_policies cfg org role (DefaultProductCode cfg) (tenant_codes seeds))"

definition tenant_policies :: "IamConfig \<Rightarrow> int \<Rightarrow> string list set" where
  "tenant_policies cfg org = insert (policy_tuple cfg org RoleMember (DefaultProductCode cfg) (''me'', ''read''))
     (seeded cfg org builtinPermissions)"

lemma seed_policies_tuples:
  assumes "run_state (seed_policies v org OrgKindTenant seeds) s = (Inr x, t)"
  shows "tuples t = tuples s \<union> seeded (v_cfg v) org seeds"
  using assms
proof (induction seeds arbitrary: s)
  case Nil
  then show ?case by (simp add: seeded_def tenant_codes_def wanted_policies_def)
next
  case (Cons p ps)
  obtain a b where ab: "permissionObjectAction (seed_Code p) = (a, b)" by fastforce
  show ?case
  proof (cases "(a = [] \<or> b = []) \<or> normalizePermissionScope (seed_Scope p) \<noteq> PermissionScopeTenant")
    case True
    then have "run_state (seed_policies v org OrgKindTenant ps) s = (Inr x, t)"
      using Cons.prems ab by (auto simp: Let_def run_attempt split: if_splits)
    moreover have "seeded (v_cfg v) org (p # ps) = seeded (v_cfg v) org ps"
      using True ab permissionObjectAction_both [OF ab] by (auto simp: seeded_def tenant_codes_def wanted_policies_def)
    ultimately show ?thesis using Cons.IH by simp
  next
    case False
    let ?add = "\<lambda>role. addPolicy v org role (DefaultProductCode (v_cfg v)) PermissionScopeTenant a b"
    have "run_state (attempt (attempt (?add RoleOwner) (\<lambda>_. ?add RoleAdmin)) (\<lambda>_. seed_policies v org OrgKindTenant ps)) s = (Inr x, t)"
      using False Cons.prems ab by (simp add: Let_def run_attempt)
    then obtain y u z w where f: "run_state (?add RoleOwner) s = (Inr y, u)" "run_state (?add RoleAdmin) u = (Inr z, w)"
        "run_state (seed_policies v org OrgKindTenant ps) w = (Inr x, t)"
      by (elim attempt_ok)
    have "seeded (v_cfg v) org (p # ps) = seeded (v_cfg v) org ps \<union>
        {policy_tuple (v_cfg v) org RoleOwner (DefaultProductCode (v_cfg v)) (a, b),
         policy_tuple (v_cfg v) org RoleAdmin (DefaultProductCode (v_cfg v)) (a, b)}"
      using False ab by (auto simp: seeded_def tenant_codes_def wanted_policies_def)
    then show ?thesis using Cons.IH [OF f(3)] addPolicy_tuples [OF f(1)] addPolicy_tuples [OF f(2)] by auto
  qed
qed

lemma ensureBuiltins_tuples:
  assumes "run_state (ensureBuiltins v org OrgKindTenant) s = (Inr x, t)"
  shows "tuples t = tuples s \<union> tenant_policies (v_cfg v) org"
proof -
  from assms obtain a u1 b u2 c u3 where f: "run_state (seed_permissions v builtinPermissions) s = (Inr a, u1)"
      "run_state (seed_roles v org (builtin_roles OrgKindTenant)) u1 = (Inr b, u2)"
      "run_state (seed_policies v org OrgKindTenant builtinPermissions) u2 = (Inr c, u3)"
      "run_state (addPolicy v org RoleMember (DefaultProductCode (v_cfg v)) PermissionScopeTenant ''me'' ''read'') u3 = (Inr x, t)"
    unfolding ensureBuiltins_def by (elim attempt_ok)
  have "same_rules s u2"
    using rel_ran [OF rules_kept.founding_seeds(1) f(1)] rel_ran [OF rules_kept.founding_seeds(2) f(2)] policies.trans by blast
  then show ?thesis
    using seed_policies_tuples [OF f(3)] addPolicy_tuples [OF f(4)] same_rules_tuples unfolding tenant_policies_def by simp
qed

section \<open>A signup that succeeds\<close>

lemma new_rows_sel [simp]:
  "o_ID (new_organization i code name kind status now) = i" "o_Code (new_organization i code name kind status now) = code"
  "o_Kind (new_organization i code name kind status now) = kind"
  "o_Status (new_organization i code name kind status now) = status"
  "o_DeletedAt (new_organization i code name kind status now) = None"
  "u_ID (new_user i username email hash displayName status now) = i"
  "u_Username (new_user i username email hash displayName status now) = username"
  "u_Email (new_user i username email hash displayName status now) = email"
  "u_PasswordHash (new_user i username email hash displayName status now) = hash"
  "u_Status (new_user i username email hash displayName status now) = status"
  "u_DeletedAt (new_user i username email hash displayName status now) = None"
  by (simp_all add: new_organization_def new_user_def)

lemma CreateOrganization_added:
  assumes "run_state (CreateOrganization_row org) s = (Inr x, t)"
  shows "org \<in> set (ia_orgs t) \<and> (\<forall>o' \<in> set (ia_orgs s). \<not> org_clash org o')"
  using assms [unfolded CreateOrganization_row_def]
  by (cases rule: Create_run) (auto dest: same_dataD(2))

lemma CreateUser_added:
  assumes "run_state (CreateUser user) s = (Inr x, t)"
  shows "user \<in> set (ia_users t) \<and> (\<forall>u \<in> set (ia_users s). \<not> user_clash user u)"
  using assms [unfolded CreateUser_def]
  by (cases rule: Create_run) (auto dest: same_dataD(1))

lemma ensureMembership_member:
  assumes "run_state (ensureMembership v org user) s = (Inr x, t)"
  shows "\<exists>m \<in> set (ia_memberships t). active_member org user m"
proof -
  obtain r u where r: "run_state (FindMembership org user) s = (r, u)" by fastforce
  show ?thesis
  proof (cases r)
    case (Inr m)
    then have "t = u" using assms r by (simp add: ensureMembership_def)
    then show ?thesis using First_ok(1,2) [of ia_memberships] r Inr unfolding FindMembership_def by metis
  next
    case (Inl e)
    then obtain now i w where w: "run_state (CreateMembership \<lparr>mb_ID = i, mb_OrgID = org, mb_UserID = user,
        mb_Status = StatusActive, mb_CreatedAt = now, mb_UpdatedAt = now, mb_DeletedAt = None\<rparr>) w = (Inr x, t)"
      using assms r by (auto simp: ensureMembership_def split: if_splits)
    define m where "m = \<lparr>mb_ID = i, mb_OrgID = org, mb_UserID = user, mb_Status = StatusActive, mb_CreatedAt = now,
        mb_UpdatedAt = now, mb_DeletedAt = None\<rparr>"
    have m: "active_member org user m" "run_state (CreateMembership m) w = (Inr x, t)"
      using w by (simp_all add: m_def active_member_def)
    from m(2) [unfolded CreateMembership_def] have "m \<in> set (ia_memberships t)" by (cases rule: Create_run) auto
    then show ?thesis using m(1) by blast
  qed
qed

lemma signup_tx_ok:
  assumes "run_state (signup_tx v input) s = (Inr pair, t)"
  obtains x0 u0 hash u1 now u2 i u3 x1 u4 j u5 x2 u6 x3 u7 x4 u8 x5 u9 issued u10 x6 u11 where
    "run_state (ensureSignupUnique input) s = (Inr x0, u0)"
    "run_state (ask (\<lambda>n. v_hash v n (si_Password input))) u0 = (Inr hash, u1)"
    "run_state (ask (v_now v)) u1 = (now, u2)" "run_state (ask (v_id v)) u2 = (i, u3)"
    "run_state (CreateOrganization_row (new_organization i (si_OrgCode input) (si_OrgName input) OrgKindTenant StatusActive now)) u3 =
       (Inr x1, u4)"
    "run_state (ask (v_id v)) u4 = (j, u5)"
    "run_state (CreateUser (new_user j (si_Username input) (si_Email input) hash (si_DisplayName input) StatusActive now)) u5 =
       (Inr x2, u6)"
    "run_state (ensureMembership v i j) u6 = (Inr x3, u7)" "run_state (ensureBuiltins v i OrgKindTenant) u7 = (Inr x4, u8)"
    "run_state (addUserRole v j i RoleOwner) u8 = (Inr x5, u9)"
    "run_state (createSessionAndTokens v (new_user j (si_Username input) (si_Email input) hash (si_DisplayName input)
       StatusActive now) i (si_UserAgent input) (si_IPAddress input) (si_ProductCode input) (si_ClientType input)) u9 = (Inr issued, u10)"
    "run_state (audit v (Some i) (Some j) ''auth.signup'' ''organization'' (FormatInt i) (si_IPAddress input) (si_UserAgent input)
       [(''orgCode'', MString (si_OrgCode input)), (''email'', MString (si_Email input))]
       (si_ProductCode input, si_ClientType input)) u10 = (Inr x6, u11)"
    "run_state (ok issued) u11 = (Inr pair, t)"
  using assms unfolding signup_tx_def Let_def new_rows_sel
  by (elim attempt_ok bound_ok) (rule that, assumption+)

text \<open>What the rows of a founded organization are: the organization, its first user with a session, the user's
  membership and role, and the policies of a tenant.\<close>

definition founded_tenant :: "IamEnv \<Rightarrow> SignupInput \<Rightarrow> TokenPair \<Rightarrow> Iam \<Rightarrow> Iam \<Rightarrow> bool" where
  "founded_tenant v input pair s t \<longleftrightarrow>
     (\<exists>org \<in> set (ia_orgs t). \<exists>user \<in> set (ia_users t). \<exists>m \<in> set (ia_memberships t). \<exists>r \<in> set (ia_sessions t).
        o_Code org = si_OrgCode input \<and> o_Kind org = OrgKindTenant \<and> o_Status org = StatusActive \<and>
        o_ID org \<notin> o_ID ` set (ia_orgs s) \<and> o_Code org \<notin> o_Code ` set (ia_orgs s) \<and>
        u_Username user = si_Username input \<and> u_Email user = si_Email input \<and> u_Status user = StatusActive \<and>
        u_ID user \<notin> u_ID ` set (ia_users s) \<and> (\<exists>n. v_hash v n (si_Password input) = Inr (u_PasswordHash user)) \<and>
        active_member (o_ID org) (u_ID user) m \<and>
        s_ID r = tp_SessionID pair \<and> s_UserID r = u_ID user \<and> s_OrgID r = o_ID org \<and> s_RevokedAt r = None \<and>
        tuples t = tuples s \<union> tenant_policies (v_cfg v) (o_ID org) \<union> {assignment_tuple (o_ID org) (u_ID user) RoleOwner})"

lemma signup_tx_founds:
  assumes "run_state (signup_tx v input) s = (Inr pair, t)"
  shows "founded_tenant v input pair s t"
  using assms
proof (cases rule: signup_tx_ok)
  case (1 x0 u0 hash u1 now u2 i u3 x1 u4 j u5 x2 u6 x3 u7 x4 u8 x5 u9 issued u10 x6 u11)
  let ?org = "new_organization i (si_OrgCode input) (si_OrgName input) OrgKindTenant StatusActive now"
  let ?user = "new_user j (si_Username input) (si_Email input) hash (si_DisplayName input) StatusActive now"
  have t: "issued = pair" "u11 = t" using 1(13) by simp_all
  note g = grown.trans
  have first: "grown s u0" "grown u0 u1" "grown u1 u2" "grown u2 u3" "grown u3 u4" "grown u4 u5" "grown u5 u6"
    using rel_ran [OF grown.founding_unique 1(1)] rel_ran [OF grown.same_ask 1(2)] rel_ran [OF grown.same_ask 1(3)]
      rel_ran [OF grown.same_ask 1(4)] rel_ran [OF grown.founding_rows(1) 1(5)] rel_ran [OF grown.same_ask 1(6)]
      rel_ran [OF grown.founding_rows(2) 1(7)] .
  have rest: "grown u6 u7" "grown u7 u8" "grown u8 u9" "grown u9 u10" "grown u10 t"
    using rel_ran [OF grown.founding_membership 1(8)] rel_ran [OF grown_builtins 1(9)] rel_ran [OF grown_policies(2) 1(10)]
      rel_ran [OF grown.founding_session 1(11)] rel_ran [OF grown.founding_audit 1(12)] t(2) by simp_all
  have s3: "grown s u3" and s5: "grown s u5" and t7: "grown u7 t"
    using first rest by (blast intro: g)+
  then have t6: "grown u6 t" and t4: "grown u4 t" using first(6,7) rest(1) by (blast intro: g)+
  have org: "?org \<in> set (ia_orgs t)" "\<forall>o' \<in> set (ia_orgs s). \<not> org_clash ?org o'"
    using CreateOrganization_added [OF 1(5)] t4 s3 unfolding grown_def by blast+
  have user: "?user \<in> set (ia_users t)" "\<forall>u \<in> set (ia_users s). \<not> user_clash ?user u"
    using CreateUser_added [OF 1(7)] t6 s5 unfolding grown_def by blast+
  obtain m where m: "m \<in> set (ia_memberships t)" "active_member i j m"
    using ensureMembership_member [OF 1(8)] t7 unfolding grown_def by blast
  have "same_sessions u10 t" using rel_ran [OF keep.rel_audit 1(12)] t(2) by simp
  then obtain r where r: "r \<in> set (ia_sessions t)" "s_ID r = tp_SessionID pair" "s_UserID r = j" "s_OrgID r = i" "s_RevokedAt r = None"
    using createSessionAndTokens_ok [OF 1(11)] t(1) by (auto simp: same_sessions_def)
  have quiet: "same_rules s u7" "same_rules u9 t"
  proof -
    have "same_rules s u0" "same_rules u0 u1" "same_rules u1 u2" "same_rules u2 u3" "same_rules u3 u4" "same_rules u4 u5"
        "same_rules u5 u6" "same_rules u6 u7"
      using rel_ran [OF rules_kept.founding_unique 1(1)] rel_ran [OF rules_kept.same_ask 1(2)] rel_ran [OF rules_kept.same_ask 1(3)]
        rel_ran [OF rules_kept.same_ask 1(4)] rel_ran [OF rules_kept.founding_rows(1) 1(5)] rel_ran [OF rules_kept.same_ask 1(6)]
        rel_ran [OF rules_kept.founding_rows(2) 1(7)] rel_ran [OF rules_kept.founding_membership 1(8)] .
    then show "same_rules s u7" by (simp add: same_rules_def)
    show "same_rules u9 t" using rel_ran [OF rules_kept.founding_session 1(11)] rel_ran [OF rules_kept.founding_audit 1(12)] t(2)
      by (simp add: same_rules_def)
  qed
  have "tuples t = tuples s \<union> tenant_policies (v_cfg v) i \<union> {assignment_tuple i j RoleOwner}"
    using same_rules_tuples [OF quiet(1)] same_rules_tuples [OF quiet(2)] ensureBuiltins_tuples [OF 1(9)]
      addUserRole_tuples [OF 1(10)] by simp
  moreover have "\<exists>n. v_hash v n (si_Password input) = Inr hash" using 1(2) by auto
  moreover have "i \<notin> o_ID ` set (ia_orgs s)" "si_OrgCode input \<notin> o_Code ` set (ia_orgs s)" "j \<notin> u_ID ` set (ia_users s)"
    using org(2) user(2) by (force simp: org_clash_def user_clash_def)+
  ultimately show ?thesis unfolding founded_tenant_def
    using org(1) user(1) m r by (intro bexI [of _ ?org] bexI [of _ ?user] bexI [of _ m] bexI [of _ r]) simp_all
qed

lemma founded_tenant_cong:
  assumes "founded_tenant v input pair s t" and "same_data s' s" and "grown t t'" and "same_rules t t'" and "same_sessions t t'"
  shows "founded_tenant v input pair s' t'"
proof -
  have "tuples t' = tuples t" using assms(4) by (rule same_rules_tuples)
  moreover have "ia_orgs s' = ia_orgs s" "ia_users s' = ia_users s" "tuples s' = tuples s" "ia_sessions t' = ia_sessions t"
    using same_dataD [OF assms(2)] assms(5) by (simp_all add: same_sessions_def tuples_def)
  ultimately show ?thesis using assms(1,3) unfolding founded_tenant_def grown_def by (simp only:) blast
qed

lemma signupDirect_founds:
  assumes "run_state (signupDirect v input) s = (Inr out, t)"
  obtains input' where "normalizeSignupInput v input = Inr input'" "founded_tenant v input' (sr_Tokens out) s t"
proof -
  obtain input' where n: "normalizeSignupInput v input = Inr input'"
    using assms by (auto simp: signupDirect_def split: sum.splits)
  then obtain pair u where u: "run_state (WithTx (signup_tx v input')) s = (Inr pair, u)" "sr_Tokens out = pair"
      "snd (run_state LoadPolicies u) = t"
    using assms by (auto simp: signupDirect_def run_ignore elim!: attempt_ok)
  then obtain r where load: "run_state LoadPolicies u = (r, t)" by (metis prod.collapse)
  from u(1) obtain s' w where w: "same_data s s'" "run_state (signup_tx v input') s' = (Inr pair, w)" "same_data w u"
    by (rule WithTx_done)
  have "grown w t" "same_rules w t" "same_sessions w t"
    using grown.same [OF w(3)] rules_kept.same [OF w(3)] same_data_sessions [OF w(3)] rel_ran [OF grown.founding_policies load]
      rel_ran [OF rules_kept.founding_policies load] rel_ran [OF keep.rel_policies(1) load]
      grown.trans policies.trans same_sessions_trans by blast+
  moreover have "same_data s s'" by (rule w(1))
  ultimately show ?thesis using that [OF n] founded_tenant_cong [OF signup_tx_founds [OF w(2)]] u(2) by simp
qed

section \<open>An installation is set up once\<close>

definition inhabited :: "Iam \<Rightarrow> bool" where
  "inhabited s \<longleftrightarrow> (\<exists>u \<in> set (ia_users s). u_DeletedAt u = None)"

definition stays_inhabited :: "Iam \<Rightarrow> Iam \<Rightarrow> bool" where
  "stays_inhabited s t \<longleftrightarrow> (inhabited s \<longrightarrow> inhabited t)"

interpretation living: quiet_relation stays_inhabited
  by unfold_locales (auto simp: stays_inhabited_def)

lemma same_data_inhabited: "same_data s t \<Longrightarrow> stays_inhabited s t"
  by (simp add: stays_inhabited_def inhabited_def same_dataD)

lemma living_ask: "state_io_rel stays_inhabited (ask f)"
  by (simp add: state_io_rel_def same_data_inhabited)

lemma living_Create:
  assumes "\<And>s. stays_inhabited s (put (table s @ [row]) s)"
  shows "state_io_rel stays_inhabited (Create table put clash row)"
proof -
  have "stays_inhabited s t" if "run_state (Create table put clash row) s = (r, t)" for s r t
    using that
  proof (cases rule: Create_run)
    case (created u)
    then show ?thesis using living.trans [OF same_data_inhabited assms, of s u] by simp
  qed (rule same_data_inhabited)
  then show ?thesis unfolding state_io_rel_def by (intro allI run_in [where P = "stays_inhabited _"])
qed

lemma living_Save:
  assumes "\<And>s rows. row \<in> set rows \<Longrightarrow> stays_inhabited s (put rows s)"
  shows "state_io_rel stays_inhabited (Save table put key clash row)"
proof -
  have "stays_inhabited s t" if "run_state (Save table put key clash row) s = (r, t)" for s r t
    using that
  proof (cases rule: Save_run)
    case (replaced u)
    then have "row \<in> set (map (\<lambda>x. if key x = key row then row else x) (table u))" by force
    then show ?thesis using living.trans [OF same_data_inhabited assms, of s u] replaced by simp
  next
    case (inserted u)
    then show ?thesis using living.trans [OF same_data_inhabited assms, of s u] by simp
  qed (rule same_data_inhabited)
  then show ?thesis unfolding state_io_rel_def by (intro allI run_in [where P = "stays_inhabited _"])
qed

lemma living_creates:
  "state_io_rel stays_inhabited (CreateUser a1)" "state_io_rel stays_inhabited (CreateMembership a2)"
  "state_io_rel stays_inhabited (CreateAPIToken_row a3)" "state_io_rel stays_inhabited (CreateInvitation a4)"
  "state_io_rel stays_inhabited (CreatePasswordReset a5)" "state_io_rel stays_inhabited (CreateMFAFactor a6)"
  "state_io_rel stays_inhabited (CreateAuditLog a7)" "state_io_rel stays_inhabited (CreateRole_row a8)"
  "state_io_rel stays_inhabited (CreateOrganization_row a9)" "state_io_rel stays_inhabited (CreatePermission a10)"
  "state_io_rel stays_inhabited (CreateEmailVerification a11)" "state_io_rel stays_inhabited (CreateSession a12)"
  unfolding CreateUser_def CreateMembership_def CreateAPIToken_row_def CreateInvitation_def CreatePasswordReset_def
    CreateMFAFactor_def CreateAuditLog_def CreateRole_row_def CreateOrganization_row_def CreatePermission_def
    CreateEmailVerification_def CreateSession_def
  by (rule living_Create, auto simp: stays_inhabited_def inhabited_def)+

lemma living_SaveUser: "u_DeletedAt row = None \<Longrightarrow> state_io_rel stays_inhabited (SaveUser v row)"
  unfolding SaveUser_def by (intro living.quiet_rules living_ask living_Save)
    (auto simp: stays_inhabited_def inhabited_def intro: rev_bexI)

lemma living_saves:
  "state_io_rel stays_inhabited (SaveMembership v b2)" "state_io_rel stays_inhabited (SaveAPIToken v b3)"
  "state_io_rel stays_inhabited (SaveInvitation v b4)" "state_io_rel stays_inhabited (SavePasswordReset v b5)"
  "state_io_rel stays_inhabited (SaveMFAFactor v b6)" "state_io_rel stays_inhabited (SaveRole v b7)"
  "state_io_rel stays_inhabited (SaveOrganization v b8)" "state_io_rel stays_inhabited (SaveEmailVerification v b9)"
  "state_io_rel stays_inhabited (SaveSession v b10)"
  unfolding SaveMembership_def SaveAPIToken_def SaveInvitation_def SavePasswordReset_def SaveMFAFactor_def
    SaveRole_def SaveSession_def SaveOrganization_def SaveEmailVerification_def
  by (intro living.quiet_rules living_ask living_Save, simp add: stays_inhabited_def inhabited_def)+

lemma living_rules:
  "state_io_rel stays_inhabited (DeleteCasbinRules c1 c2 c3 c4)" "state_io_rel stays_inhabited (LoadRules rs)"
  "state_io_rel stays_inhabited (AddCasbinRule rule)"
proof -
  show "state_io_rel stays_inhabited (DeleteCasbinRules c1 c2 c3 c4)"
    unfolding DeleteCasbinRules_def state_io_rel_def
    by (auto simp: statement_def stays_inhabited_def inhabited_def split: list.splits option.splits)
  show "state_io_rel stays_inhabited (LoadRules rs)"
    by (auto simp: LoadRules_def state_io_rel_def stays_inhabited_def inhabited_def split: prod.splits)
  have "state_io_rel stays_inhabited (First ia_rules cb_ID p)" for p
    unfolding state_io_rel_def
    by (intro allI run_in [where P = "stays_inhabited _"] same_data_inhabited) (use First_run in blast)
  moreover have "state_io_rel stays_inhabited (Create ia_rules (\<lambda>t s. s\<lparr>ia_rules := t\<rparr>) rule_clash rule)"
    by (rule living_Create) (simp add: stays_inhabited_def inhabited_def)
  ultimately show "state_io_rel stays_inhabited (AddCasbinRule rule)"
    unfolding AddCasbinRule_def by (intro living.rel_bind) (auto split: sum.splits intro!: living.quiet_rules)
qed

interpretation lived: step_relation stays_inhabited
proof
  show "stays_inhabited s (rollback s t)" for s t by (simp add: stays_inhabited_def inhabited_def rollback_def)
qed (simp_all add: living_creates living_SaveUser living_saves living_rules, simp_all add: stays_inhabited_def inhabited_def)

lemma living_session: "state_io_rel stays_inhabited (createSessionAndTokens v user org a b c d)"
proof -
  have "state_io_rel stays_inhabited (revoke_loop v skip now rows)" for skip now rows
    by (induction rows) (auto intro!: lived.rel_rules living_saves)
  then show ?thesis unfolding createSessionAndTokens_def revokeActiveSessionsForContext_def Let_def
    by (auto intro!: lived.rel_rules lived.rel_store living_creates)
qed

text \<open>A signup whose message cannot be sent removes its own user only.\<close>

definition others_stay :: "int \<Rightarrow> Iam \<Rightarrow> Iam \<Rightarrow> bool" where
  "others_stay j s t \<longleftrightarrow> (\<forall>u \<in> set (ia_users s). u_ID u \<noteq> j \<longrightarrow> u \<in> set (ia_users t))"

interpretation others: quiet_relation "others_stay j" for j
  by unfold_locales (auto simp: others_stay_def)

lemma others_steps: "state_io_rel (others_stay j) (ask f)" "state_io_rel (others_stay j) (delete_rows (\<lambda>s. s\<lparr>ia_orgs := g1 s\<rparr>))"
  "state_io_rel (others_stay j) (delete_rows (\<lambda>s. s\<lparr>ia_memberships := g2 s\<rparr>))"
  "state_io_rel (others_stay j) (delete_rows (\<lambda>s. s\<lparr>ia_verifications := g3 s\<rparr>))"
  "state_io_rel (others_stay j) (delete_rows (\<lambda>s. s\<lparr>ia_users := filter (\<lambda>u. \<not> (u_ID u = j \<and> P u)) (ia_users s)\<rparr>))"
  by (auto simp: state_io_rel_def others_stay_def delete_rows_def statement_def split: list.splits option.splits)

lemma others_delete: "state_io_rel (others_stay j) (DeletePendingSignup i j k)"
  unfolding DeletePendingSignup_def by (intro others.quiet_rules others_steps)

lemma pending_tx_fresh:
  assumes "run_state (pending_tx v input) s = (Inr (raw, i, j, l), t)"
  shows "grown s t \<and> (\<forall>u \<in> set (ia_users s). u_ID u \<noteq> j)"
proof -
  have create: "state_io_rel grown (CreateEmailVerification e)" for e
    unfolding CreateEmailVerification_def by (rule grown.add_row) (simp add: grown_def)
  obtain u5 hash now x2 u6 where f: "grown s u5"
      "run_state (CreateUser (new_user j (si_Username input) (si_Email input) hash (si_DisplayName input) StatusPending now)) u5 =
       (Inr x2, u6)" "grown u6 t"
    using assms unfolding pending_tx_def Let_def
  proof (elim attempt_ok bound_ok)
    fix x0 u0 hash u1 raw' u2 now u3 i' u4 x1 u5 j' u6 x2 u7 k u8 x3 u9 l' u10 ttl u11 x4 u12
    assume 1: "run_state (ensureSignupUnique input) s = (Inr x0, u0)"
      "run_state (ask (\<lambda>n. v_hash v n (si_Password input))) u0 = (Inr hash, u1)"
      "run_state (ask (v_id_string v)) u1 = (raw', u2)" "run_state (ask (v_now v)) u2 = (now, u3)"
      "run_state (ask (v_id v)) u3 = (i', u4)"
      "run_state (CreateOrganization_row (new_organization i' (si_OrgCode input) (si_OrgName input) OrgKindTenant StatusPending now)) u4 =
        (Inr x1, u5)"
      "run_state (ask (v_id v)) u5 = (j', u6)"
    assume 2: "run_state (CreateUser (new_user j' (si_Username input) (si_Email input) hash (si_DisplayName input) StatusPending now)) u6 =
        (Inr x2, u7)"
    assume 3: "run_state (ask (v_id v)) u7 = (k, u8)"
      "run_state (CreateMembership \<lparr>mb_ID = k, mb_OrgID = i', mb_UserID = j', mb_Status = StatusPending, mb_CreatedAt = now,
         mb_UpdatedAt = now, mb_DeletedAt = None\<rparr>) u8 = (Inr x3, u9)"
      "run_state (ask (v_id v)) u9 = (l', u10)" "run_state (reads currentEmailVerificationTTL) u10 = (ttl, u11)"
      "run_state (CreateEmailVerification \<lparr>ev_ID = l', ev_UserID = j', ev_OrgID = i', ev_TokenHash = v_token_hash v raw',
         ev_Status = StatusPending, ev_ExpiresAt = now + ttl, ev_VerifiedAt = None, ev_CreatedAt = now, ev_UpdatedAt = now\<rparr>) u11 =
        (Inr x4, u12)" "run_state (ok (raw', i', j', l')) u12 = (Inr (raw, i, j, l), t)"
    have "grown s u0" "grown u0 u1" "grown u1 u2" "grown u2 u3" "grown u3 u4" "grown u4 u5" "grown u5 u6"
      using rel_ran [OF grown.founding_unique 1(1)] rel_ran [OF grown.same_ask 1(2)] rel_ran [OF grown.same_ask 1(3)]
        rel_ran [OF grown.same_ask 1(4)] rel_ran [OF grown.same_ask 1(5)] rel_ran [OF grown.founding_rows(1) 1(6)]
        rel_ran [OF grown.same_ask 1(7)] .
    then have "grown s u6" by (blast intro: grown.trans)
    moreover have "grown u7 u8" "grown u8 u9" "grown u9 u10" "grown u10 u11" "grown u11 u12" "u12 = t" "j' = j"
      using rel_ran [OF grown.same_ask 3(1)] rel_ran [OF grown.founding_rows(3) 3(2)] rel_ran [OF grown.same_ask 3(3)]
        rel_ran [OF grown.rel_reads 3(4)] rel_ran [OF create 3(5)] 3(6) by simp_all
    then have "grown u7 t" by (blast intro: grown.trans)
    ultimately show thesis using that 2 \<open>j' = j\<close> by blast
  qed
  have "\<forall>u \<in> set (ia_users u5). u_ID u \<noteq> j"
    using CreateUser_added [OF f(2)] by (auto simp: user_clash_def)
  moreover have "grown u5 u6" using rel_ran [OF grown.founding_rows(2) f(2)] .
  ultimately show ?thesis using f(1,3) unfolding grown_def by blast
qed

lemma living_pending: "state_io_rel stays_inhabited (signupWithEmailVerification v input)"
  unfolding state_io_rel_def
proof
  fix s
  show "stays_inhabited s (snd (run_state (signupWithEmailVerification v input) s))"
  proof (cases "normalizeSignupInput v input")
    case (Inr n)
    obtain r u where w: "run_state (WithTx (pending_tx v n)) s = (r, u)" by fastforce
    show ?thesis
    proof (cases r)
      case (Inl e)
      then have "ia_users u = ia_users s" using WithTx_failed w by (auto simp: iam_tables_def)
      then show ?thesis using Inr Inl w
        by (simp add: signupWithEmailVerification_def run_attempt stays_inhabited_def inhabited_def)
    next
      case ok: (Inr x)
      obtain raw i j l where x: "x = (raw, i, j, l)" by (cases x)
      have w': "run_state (WithTx (pending_tx v n)) s = (Inr (raw, i, j, l), u)" using w ok x by simp
      let ?t = "snd (run_state (send_verification v n raw i j l) u)"
      obtain s' t' where tx: "same_data s s'" "run_state (pending_tx v n) s' = (Inr (raw, i, j, l), t')" "same_data t' u"
        using w' by (rule WithTx_done)
      have "state_io_rel (others_stay j) (send_verification v n raw i j l)"
        unfolding send_verification_def Let_def
        by (auto intro!: others.quiet_rules others_steps(1) others_delete split: option.splits sum.splits)
      then have "others_stay j u ?t" by (simp add: state_io_rel_def)
      moreover have "ia_users s' = ia_users s" "ia_users u = ia_users t'" using tx(1,3) by (simp_all add: same_dataD)
      moreover note pending_tx_fresh [OF tx(2)]
      ultimately have "\<forall>x \<in> set (ia_users s). x \<in> set (ia_users ?t)"
        unfolding others_stay_def grown_def by auto
      then have "inhabited s \<Longrightarrow> inhabited ?t" by (auto simp: inhabited_def)
      then show ?thesis using w' Inr
        by (simp add: signupWithEmailVerification_def run_attempt stays_inhabited_def)
    qed
  qed (simp add: signupWithEmailVerification_def living.refl)
qed

interpretation lived_run: session_relation stays_inhabited v
proof
  show "state_io_rel stays_inhabited (SaveSession v (session\<lparr>s_RevokedAt := Some now\<rparr>))" for session now
    by (rule living_saves)
  show "state_io_rel stays_inhabited (createSessionAndTokens v user org a b c d)" for user org a b c d
    by (rule living_session)
  show "state_io_rel stays_inhabited (Refresh v a b c)" for a b c
    unfolding Refresh_def Let_def by (intro lived.rel_rules lived.rel_store lived.rel_checks living_saves)
  show "state_io_rel stays_inhabited (signupWithEmailVerification v i)" for i
    by (rule living_pending)
qed

text \<open>A setup that succeeds starts from an installation without users and leaves one.\<close>

lemma CountUsers_ok:
  assumes "run_state CountUsers s = (Inr n, t)"
  shows "n > 0 \<longleftrightarrow> inhabited s" "same_data s t"
proof -
  from assms [unfolded CountUsers_def] have n: "n = length (filter (\<lambda>u. u_DeletedAt u = None) (ia_users s))" "same_data s t"
    by (cases rule: statement_run; simp add: same_dataD)+
  have "filter (\<lambda>u. u_DeletedAt u = None) (ia_users s) \<noteq> [] \<longleftrightarrow> inhabited s"
    by (simp only: inhabited_def filter_empty_conv ball_simps not_not)
  then show "n > 0 \<longleftrightarrow> inhabited s" unfolding n(1) by simp
  show "same_data s t" by (rule n(2))
qed

lemma bootstrap_user_living:
  assumes "run_state (bootstrap_user v input) s = (Inr u, t)"
  shows "u \<in> set (ia_users t) \<and> u_DeletedAt u = None"
proof -
  obtain r w where r: "run_state (FindUserByIdentifier (ob_Email input)) s = (r, w)" by fastforce
  show ?thesis
  proof (cases r)
    case (Inr x)
    then have "x = u" "w = t" using assms r by (simp_all add: bootstrap_user_def split: if_splits)
    then show ?thesis using First_ok(1,2) [OF r [unfolded Inr FindUserByIdentifier_def]] by simp
  next
    case (Inl e)
    then have "run_state (attempt (ask (\<lambda>n. v_hash v n (ob_Password input))) (\<lambda>hash. do {
           now \<leftarrow> ask (v_now v);
           i \<leftarrow> ask (v_id v);
           let user = new_user i (ob_Username input) (ob_Email input) hash (ob_DisplayName input) StatusActive now;
           attempt (CreateUser user) (\<lambda>_. ok user) })) w = (Inr u, t)"
      using assms r by (simp add: bootstrap_user_def split: if_splits)
    then obtain i hash now z y z' where
      "run_state (CreateUser (new_user i (ob_Username input) (ob_Email input) hash (ob_DisplayName input) StatusActive now)) z = (Inr y, z')"
      "run_state (ok (new_user i (ob_Username input) (ob_Email input) hash (ob_DisplayName input) StatusActive now)) z' = (Inr u, t)"
      unfolding Let_def by (elim attempt_ok bound_ok)
    then show ?thesis using CreateUser_added by fastforce
  qed
qed

lemma bootstrapOwner_ok:
  assumes "run_state (bootstrapOwner v input) s = (Inr x, t)"
  obtains b where "ob_RequireEmpty b = ob_RequireEmpty input" "run_state (WithTx (bootstrap_tx v b)) s = (Inr x, t)"
proof -
  let ?n = "normalize_bootstrap input"
  let ?b = "if ob_AuditAction ?n = [] then ?n\<lparr>ob_AuditAction := ''iam.bootstrap_owner''\<rparr> else ?n"
  have "run_state (require (if ob_ValidatePassword ?n then validatePassword (v_class v) (v_cfg v) (ob_Password ?n) else None)
      (WithTx (bootstrap_tx v ?b))) s = (Inr x, t)"
    using assms unfolding bootstrapOwner_def Let_def by (simp only: run_basic split: if_split_asm) simp
  then have "run_state (WithTx (bootstrap_tx v ?b)) s = (Inr x, t)" by (rule require_ok(2))
  moreover have "ob_RequireEmpty ?b = ob_RequireEmpty input" by (simp add: normalize_bootstrap_def Let_def)
  ultimately show ?thesis using that by blast
qed

lemma InitialAdminSetup_once:
  assumes "run_state (InitialAdminSetup v input) s = (Inr pair, t)"
  shows "\<not> inhabited s" "inhabited t"
proof -
  let ?in = "\<lparr>ob_OrgCode = si_OrgCode input, ob_OrgName = si_OrgName input, ob_Username = si_Username input,
         ob_Email = si_Email input, ob_DisplayName = si_DisplayName input, ob_Password = si_Password input,
         ob_UserAgent = si_UserAgent input, ob_IPAddress = si_IPAddress input, ob_ProductCode = si_ProductCode input,
         ob_ClientType = si_ClientType input, ob_AuditAction = ''iam.initial_setup'', ob_AllowExisting = False,
         ob_RequireEmpty = True, ob_ValidatePassword = True, ob_IssueTokens = True\<rparr>"
  obtain p u where p: "run_state (bootstrapOwner v ?in) s = (Inr (p, pair), u)" "snd (run_state LoadPolicies u) = t"
    using assms unfolding InitialAdminSetup_def by (auto simp: run_ignore elim!: attempt_ok)
  obtain b where "ob_RequireEmpty b = ob_RequireEmpty ?in" "run_state (WithTx (bootstrap_tx v b)) s = (Inr (p, pair), u)"
    using p(1) by (rule bootstrapOwner_ok)
  then have b: "ob_RequireEmpty b" "run_state (WithTx (bootstrap_tx v b)) s = (Inr (p, pair), u)"
      "snd (run_state LoadPolicies u) = t" using p(2) by simp_all
  from b(2) obtain s' w where w: "same_data s s'" "run_state (bootstrap_tx v b) s' = (Inr (p, pair), w)" "same_data w u"
    by (rule WithTx_done)
  from w(2) obtain x u1 org u2 user u3 y1 u4 y2 u5 y3 u6 tokens u7 y4 u8 where f:
      "run_state (if ob_RequireEmpty b then attempt CountUsers (\<lambda>n. if n > 0 then throw iam_ErrSetupCompleted else ok ())
         else ok ()) s' = (Inr x, u1)" "run_state (bootstrap_org v b) u1 = (Inr org, u2)"
      "run_state (bootstrap_user v b) u2 = (Inr user, u3)" "run_state (ensureMembership v (o_ID org) (u_ID user)) u3 = (Inr y1, u4)"
      "run_state (ensureBuiltins v (o_ID org) (o_Kind org)) u4 = (Inr y2, u5)"
      "run_state (addUserRole v (u_ID user) (o_ID org) RolePlatformOwner) u5 = (Inr y3, u6)"
      "run_state (if ob_IssueTokens b then createSessionAndTokens v user (o_ID org) (ob_UserAgent b) (ob_IPAddress b)
         (ob_ProductCode b) (ob_ClientType b) else ok no_tokens) u6 = (Inr tokens, u7)"
      "run_state (audit v (Some (o_ID org)) (Some (u_ID user)) (ob_AuditAction b) ''organization'' (FormatInt (o_ID org))
         (ob_IPAddress b) (ob_UserAgent b) [(''orgCode'', MString (o_Code org)), (''email'', MString (u_Email user))]
         (ob_ProductCode b, ob_ClientType b)) u7 = (Inr y4, u8)" "u8 = w"
    unfolding bootstrap_tx_def Let_def by (elim attempt_ok) (rule that, assumption+, simp)
  obtain n z where n: "run_state CountUsers s' = (Inr n, z)" "n = 0"
    using f(1) b(1) by (auto elim!: attempt_ok split: if_splits)
  then have "\<not> inhabited s'" using CountUsers_ok(1) by blast
  then show "\<not> inhabited s" using same_dataD(1) [OF w(1)] by (simp add: inhabited_def)
  have issued: "state_io_rel stays_inhabited (if ob_IssueTokens b then createSessionAndTokens v user (o_ID org) (ob_UserAgent b)
      (ob_IPAddress b) (ob_ProductCode b) (ob_ClientType b) else ok no_tokens)"
    by (simp add: living_session living.rel_ok)
  have "inhabited u3" using bootstrap_user_living [OF f(3)] unfolding inhabited_def by blast
  moreover have "stays_inhabited u3 u4" "stays_inhabited u4 u5" "stays_inhabited u5 u6" "stays_inhabited u6 u7" "stays_inhabited u7 w"
    using rel_ran [OF lived.rel_ensureMembership f(4)] rel_ran [OF lived.rel_builtins f(5)] rel_ran [OF lived.rel_policies(2) f(6)]
      rel_ran [OF issued f(7)] rel_ran [OF lived.rel_audit f(8)] f(9) by simp_all
  moreover have "stays_inhabited u t"
    using rel_ran [OF lived.rel_policies(1), of u "fst (run_state LoadPolicies u)" t] b(3) by (metis prod.collapse)
  moreover have "stays_inhabited w u" by (rule same_data_inhabited [OF w(3)])
  ultimately show "inhabited t" by (simp add: stays_inhabited_def)
qed

end
