(* ===== verification/IAM_Liveness.thy ===== *)
theory IAM_Liveness
  imports IAM_Founding
begin

text \<open>
  Founding succeeds: while no statement fails, identifiers grow and the names are free, the first setup and a direct
  signup return an answer. What a run needs is computed backwards by the rules of \<open>succeeds\<close>.
\<close>

section \<open>Runs that succeed\<close>

definition succeeds :: "'a result iam \<Rightarrow> Iam \<Rightarrow> ('a \<Rightarrow> Iam \<Rightarrow> bool) \<Rightarrow> bool" where
  "succeeds m s Q \<longleftrightarrow> (\<exists>x t. run_state m s = (Inr x, t) \<and> Q x t)"

lemma succeeds_ok: "Q x s \<Longrightarrow> succeeds (ok x) s Q"
  by (simp add: succeeds_def)

lemma succeeds_attempt: "succeeds m s (\<lambda>x t. succeeds (f x) t Q) \<Longrightarrow> succeeds (attempt m f) s Q"
  by (auto simp: succeeds_def run_attempt)

lemma succeeds_bind: "run_state m s = (x, t) \<Longrightarrow> succeeds (f x) t Q \<Longrightarrow> succeeds (m \<bind> f) s Q"
  by (simp add: succeeds_def)

lemma succeeds_ask: "succeeds (f (h (ia_seq s))) (s\<lparr>ia_seq := Suc (ia_seq s)\<rparr>) Q \<Longrightarrow> succeeds (ask h \<bind> f) s Q"
  by (simp add: succeeds_def)

lemma succeeds_answer: "h (ia_seq s) = Inr x \<Longrightarrow> Q x (s\<lparr>ia_seq := Suc (ia_seq s)\<rparr>) \<Longrightarrow> succeeds (ask h) s Q"
  by (simp add: succeeds_def)

lemma succeeds_then: "succeeds m s P \<Longrightarrow> (\<And>x t. P x t \<Longrightarrow> succeeds (f x) t Q) \<Longrightarrow> succeeds (attempt m f) s Q"
  by (auto simp: succeeds_def run_attempt)

lemma succeeds_known: "run_state m s = (Inr x, t) \<Longrightarrow> succeeds (f x) t Q \<Longrightarrow> succeeds (attempt m f) s Q"
  by (simp add: succeeds_def run_attempt)

lemma succeeds_mono: "succeeds m s P \<Longrightarrow> (\<And>x t. P x t \<Longrightarrow> Q x t) \<Longrightarrow> succeeds m s Q"
  by (auto simp: succeeds_def)

lemma succeeds_create:
  assumes "ia_faults s = []" and "\<forall>r \<in> set (table s). \<not> clash row r" and "Q () (put (table s @ [row]) s)"
  shows "succeeds (Create table put clash row) s Q"
  using assms by (auto simp: succeeds_def Create_def statement_ok)

lemmas succeeds_rules = succeeds_ok succeeds_attempt succeeds_ask

section \<open>Identifiers that grow\<close>

definition all_ids :: "Iam \<Rightarrow> int set" where
  "all_ids s = o_ID ` set (ia_orgs s) \<union> u_ID ` set (ia_users s) \<union> mb_ID ` set (ia_memberships s) \<union>
     mb_OrgID ` set (ia_memberships s) \<union> pm_ID ` set (ia_permissions s) \<union> ro_ID ` set (ia_roles s) \<union>
     ro_OrgID ` set (ia_roles s) \<union> cb_ID ` set (ia_rules s) \<union> s_ID ` set (ia_sessions s) \<union>
     s_UserID ` set (ia_sessions s) \<union> au_ID ` set (ia_audit s)"

text \<open>No statement fails, and the identifiers to come are larger than those in use.\<close>

definition bounded :: "IamEnv \<Rightarrow> Iam \<Rightarrow> bool" where
  "bounded v s \<longleftrightarrow> strict_mono (v_id v) \<and> ia_faults s = [] \<and> (\<forall>i \<in> all_ids s. i < v_id v (ia_seq s))"

lemma bounded_grow:
  assumes b: "bounded v s" and "ia_faults t = []" and le: "ia_seq s \<le> ia_seq t"
    and new: "all_ids t \<subseteq> all_ids s \<union> v_id v ` {..<ia_seq t}"
  shows "bounded v t"
proof -
  have "i < v_id v (ia_seq t)" if "i \<in> all_ids t" for i
  proof -
    have "v_id v (ia_seq s) \<le> v_id v (ia_seq t)" using b le by (simp add: bounded_def strict_mono_less_eq)
    moreover have "i < v_id v (ia_seq s) \<or> i < v_id v (ia_seq t)"
      using new that b by (auto simp: bounded_def strict_mono_less)
    ultimately show ?thesis by auto
  qed
  then show ?thesis using assms(1,2) by (simp add: bounded_def)
qed

lemma fresh_ids:
  assumes "bounded v s" and "ia_seq s \<le> n"
  shows "\<forall>r \<in> set (ia_orgs s). v_id v n \<noteq> o_ID r" "\<forall>r \<in> set (ia_users s). v_id v n \<noteq> u_ID r"
    "\<forall>r \<in> set (ia_memberships s). v_id v n \<noteq> mb_ID r" "\<forall>r \<in> set (ia_memberships s). v_id v n \<noteq> mb_OrgID r"
    "\<forall>r \<in> set (ia_permissions s). v_id v n \<noteq> pm_ID r" "\<forall>r \<in> set (ia_roles s). v_id v n \<noteq> ro_ID r"
    "\<forall>r \<in> set (ia_roles s). v_id v n \<noteq> ro_OrgID r" "\<forall>r \<in> set (ia_rules s). v_id v n \<noteq> cb_ID r"
    "\<forall>r \<in> set (ia_sessions s). v_id v n \<noteq> s_ID r" "\<forall>r \<in> set (ia_sessions s). v_id v n \<noteq> s_UserID r"
    "\<forall>r \<in> set (ia_audit s). v_id v n \<noteq> au_ID r"
proof -
  have le: "v_id v (ia_seq s) \<le> v_id v n" using assms by (simp add: bounded_def strict_mono_less_eq)
  have "v_id v n \<notin> all_ids s"
  proof
    assume "v_id v n \<in> all_ids s"
    then have "v_id v n < v_id v (ia_seq s)" using assms(1) by (simp add: bounded_def)
    with le show False by simp
  qed
  then show "\<forall>r \<in> set (ia_orgs s). v_id v n \<noteq> o_ID r" "\<forall>r \<in> set (ia_users s). v_id v n \<noteq> u_ID r"
    "\<forall>r \<in> set (ia_memberships s). v_id v n \<noteq> mb_ID r" "\<forall>r \<in> set (ia_memberships s). v_id v n \<noteq> mb_OrgID r"
    "\<forall>r \<in> set (ia_permissions s). v_id v n \<noteq> pm_ID r" "\<forall>r \<in> set (ia_roles s). v_id v n \<noteq> ro_ID r"
    "\<forall>r \<in> set (ia_roles s). v_id v n \<noteq> ro_OrgID r" "\<forall>r \<in> set (ia_rules s). v_id v n \<noteq> cb_ID r"
    "\<forall>r \<in> set (ia_sessions s). v_id v n \<noteq> s_ID r" "\<forall>r \<in> set (ia_sessions s). v_id v n \<noteq> s_UserID r"
    "\<forall>r \<in> set (ia_audit s). v_id v n \<noteq> au_ID r"
    unfolding all_ids_def by (simp_all add: image_iff)
qed

text \<open>An organization and a user that can be founded: they exist, no role of the organization is deleted, a membership of the user in
  it is active, the user has no session, and the tokens to come are not those of a session.\<close>

definition ready :: "IamEnv \<Rightarrow> int \<Rightarrow> int \<Rightarrow> Iam \<Rightarrow> bool" where
  "ready v org user s \<longleftrightarrow> bounded v s \<and> user \<in> u_ID ` set (ia_users s) \<and> org \<in> o_ID ` set (ia_orgs s) \<and> (\<forall>r \<in> set (ia_roles s). ro_OrgID r = org \<longrightarrow> ro_DeletedAt r = None) \<and>
     (\<forall>m \<in> set (ia_memberships s). mb_OrgID m = org \<and> mb_UserID m = user \<longrightarrow> active_member org user m) \<and>
     (\<forall>x \<in> set (ia_sessions s). s_UserID x \<noteq> user \<and> (\<forall>n d p. v_issue v n d = Inr p \<longrightarrow> ip_RefreshTokenHash p \<noteq> s_RefreshTokenHash x))"

lemma readyD: "ready v org user s \<Longrightarrow> bounded v s" "ready v org user s \<Longrightarrow> ia_faults s = []"
  by (simp_all add: ready_def bounded_def)

lemma ready_rows:
  assumes "ready v org user s"
  shows "ready v org user (s\<lparr>ia_seq := Suc (Suc (ia_seq s))\<rparr>)"
    "cb_ID a = v_id v (Suc (ia_seq s)) \<Longrightarrow> ready v org user (s\<lparr>ia_seq := Suc (Suc (ia_seq s)), ia_rules := ia_rules s @ [a]\<rparr>)"
    "pm_ID b = v_id v (Suc (ia_seq s)) \<Longrightarrow>
       ready v org user (s\<lparr>ia_seq := Suc (Suc (ia_seq s)), ia_permissions := ia_permissions s @ [b]\<rparr>)"
    "ro_ID c = v_id v (Suc (ia_seq s)) \<Longrightarrow> ro_DeletedAt c = None \<Longrightarrow> ro_OrgID c = org \<Longrightarrow>
       ready v org user (s\<lparr>ia_seq := Suc (Suc (ia_seq s)), ia_roles := ia_roles s @ [c]\<rparr>)"
    "mb_ID d = v_id v (Suc (ia_seq s)) \<Longrightarrow> active_member org user d \<Longrightarrow>
       ready v org user (s\<lparr>ia_seq := Suc (Suc (ia_seq s)), ia_memberships := ia_memberships s @ [d]\<rparr>)"
proof -
  note b = readyD [OF assms]
  have org: "org \<in> all_ids s" using assms by (auto simp: ready_def all_ids_def)
  have grow: "bounded v (s\<lparr>ia_seq := Suc (Suc (ia_seq s))\<rparr>)" by (rule bounded_grow [OF b(1)]) (auto simp: all_ids_def b(2))
  then show "ready v org user (s\<lparr>ia_seq := Suc (Suc (ia_seq s))\<rparr>)" using assms by (simp add: ready_def)
  show "ready v org user (s\<lparr>ia_seq := Suc (Suc (ia_seq s)), ia_rules := ia_rules s @ [a]\<rparr>)" if "cb_ID a = v_id v (Suc (ia_seq s))"
  proof -
    have "bounded v (s\<lparr>ia_seq := Suc (Suc (ia_seq s)), ia_rules := ia_rules s @ [a]\<rparr>)"
      by (rule bounded_grow [OF b(1)]) (auto simp: all_ids_def b(2) that)
    then show ?thesis using assms by (simp add: ready_def)
  qed
  show "ready v org user (s\<lparr>ia_seq := Suc (Suc (ia_seq s)), ia_permissions := ia_permissions s @ [b]\<rparr>)"
    if "pm_ID b = v_id v (Suc (ia_seq s))"
  proof -
    have "bounded v (s\<lparr>ia_seq := Suc (Suc (ia_seq s)), ia_permissions := ia_permissions s @ [b]\<rparr>)"
      by (rule bounded_grow [OF b(1)]) (auto simp: all_ids_def b(2) that)
    then show ?thesis using assms by (simp add: ready_def)
  qed
  show "ready v org user (s\<lparr>ia_seq := Suc (Suc (ia_seq s)), ia_roles := ia_roles s @ [c]\<rparr>)"
    if "ro_ID c = v_id v (Suc (ia_seq s))" "ro_DeletedAt c = None" "ro_OrgID c = org"
  proof -
    have "bounded v (s\<lparr>ia_seq := Suc (Suc (ia_seq s)), ia_roles := ia_roles s @ [c]\<rparr>)"
      by (rule bounded_grow [OF b(1)]) (use org in \<open>auto simp: all_ids_def b(2) that\<close>)
    then show ?thesis using assms that(2) by (simp add: ready_def ball_Un)
  qed
  show "ready v org user (s\<lparr>ia_seq := Suc (Suc (ia_seq s)), ia_memberships := ia_memberships s @ [d]\<rparr>)"
    if "mb_ID d = v_id v (Suc (ia_seq s))" "active_member org user d"
  proof -
    have "mb_OrgID d = org" using that(2) by (simp add: active_member_def)
    then have "bounded v (s\<lparr>ia_seq := Suc (Suc (ia_seq s)), ia_memberships := ia_memberships s @ [d]\<rparr>)"
      by (intro bounded_grow [OF b(1)]) (use org in \<open>auto simp: all_ids_def b(2) that(1)\<close>)
    then show ?thesis using assms that(2) by (simp add: ready_def ball_Un)
  qed
qed

section \<open>The built-in rows\<close>

lemma AddCasbinRule_succeeds:
  assumes "ia_faults s = []" and "\<forall>r \<in> set (ia_rules s). cb_ID rule \<noteq> cb_ID r"
    and "Q () s" and "Q () (s\<lparr>ia_rules := ia_rules s @ [rule]\<rparr>)"
  shows "succeeds (AddCasbinRule rule) s Q"
proof (cases "first_row cb_ID (\<lambda>r. rule_tuple r = rule_tuple rule) (ia_rules s)")
  case None
  then have "\<forall>r \<in> set (ia_rules s). \<not> rule_clash rule r" using assms(2) by (auto simp: first_row_None rule_clash_def)
  then show ?thesis using assms(1,4) First_runs [OF assms(1)] None unfolding AddCasbinRule_def
    by (auto intro!: succeeds_bind succeeds_create simp: found_def)
next
  case (Some r)
  then show ?thesis using assms(3) First_runs [OF assms(1)] unfolding AddCasbinRule_def
    by (auto intro!: succeeds_bind succeeds_ok simp: found_def)
qed

lemma rule_row_succeeds:
  assumes "ready v org user s" and "\<And>i now. cb_ID (rule i now) = i"
  shows "succeeds (do { now \<leftarrow> ask (v_now v); i \<leftarrow> ask (v_id v); AddCasbinRule (rule i now) }) s (\<lambda>x. ready v org user)"
proof -
  have "\<forall>r \<in> set (ia_rules s). v_id v (Suc (ia_seq s)) \<noteq> cb_ID r" by (rule fresh_ids(8) [OF readyD(1) [OF assms(1)]]) simp
  then show ?thesis using ready_rows(1,2) [OF assms(1)] readyD(2) [OF assms(1)] assms(2)
    by (intro succeeds_ask AddCasbinRule_succeeds) simp_all
qed

definition grantable :: "IamEnv \<Rightarrow> string \<Rightarrow> string \<Rightarrow> string \<Rightarrow> bool" where
  "grantable v scope obj act \<longleftrightarrow> normalizeProductCode (iam_firstNonEmpty [DefaultProductCode (v_cfg v), DefaultProductCode (v_cfg v)]) \<noteq> [] \<and>
     validPermissionScope (normalizePermissionScope scope) \<and> \<not> blank obj \<and> \<not> blank act"

lemma addPolicy_succeeds:
  assumes "ready v org user s" and "grantable v scope obj act"
  shows "succeeds (addPolicy v i role (DefaultProductCode (v_cfg v)) scope obj act) s (\<lambda>x. ready v org user)"
  using rule_row_succeeds [OF assms(1), of "\<lambda>j now. \<lparr>cb_ID = j, cb_PType = ''p'', cb_V0 = roleSubject role, cb_V1 = FormatInt i,
      cb_V2 = normalizeProductCode (iam_firstNonEmpty [DefaultProductCode (v_cfg v), DefaultProductCode (v_cfg v)]),
      cb_V3 = normalizePermissionScope scope, cb_V4 = TrimSpace obj, cb_V5 = TrimSpace act, cb_CreatedAt = now\<rparr>"] assms(2)
  by (simp add: addPolicy_def grantable_def Let_def)

lemma addUserRole_succeeds:
  assumes "ready v org user s"
  shows "succeeds (addUserRole v j i role) s (\<lambda>x. ready v org user)"
  using rule_row_succeeds [OF assms, of "\<lambda>k now. \<lparr>cb_ID = k, cb_PType = ''g'', cb_V0 = userSubject j,
      cb_V1 = roleSubject role, cb_V2 = FormatInt i, cb_V3 = [], cb_V4 = [], cb_V5 = [], cb_CreatedAt = now\<rparr>"]
  by (simp add: addUserRole_def)

text \<open>A row that is found needs nothing; one that is not is created with the next identifier.\<close>

lemma found_or_created:
  assumes r: "ready v org user s" and "\<And>t. ready v org user t \<Longrightarrow> succeeds rest t Q"
    and "first_row order p (table s) = None \<Longrightarrow>
      (\<forall>r \<in> set (table s). \<not> clash (row (v_id v (Suc (ia_seq s))) (v_now v (ia_seq s))) r) \<and>
      ready v org user (put (table s @ [row (v_id v (Suc (ia_seq s))) (v_now v (ia_seq s))]) (s\<lparr>ia_seq := Suc (Suc (ia_seq s))\<rparr>))"
    and "\<And>n. table (s\<lparr>ia_seq := n\<rparr>) = table s"
  shows "succeeds (do {
     found \<leftarrow> First table order p;
     case found of
       Inr x \<Rightarrow> rest
     | Inl e \<Rightarrow> if \<not> errors_Is e iam_ErrNotFound then throw e
         else do {
           now \<leftarrow> ask (v_now v);
           i \<leftarrow> ask (v_id v);
           attempt (Create table put clash (row i now)) (\<lambda>_. rest) } }) s Q"
proof -
  note First_runs [OF readyD(2) [OF r], of table order p]
  moreover have "succeeds (do {
           now \<leftarrow> ask (v_now v);
           i \<leftarrow> ask (v_id v);
           attempt (Create table put clash (row i now)) (\<lambda>_. rest) }) s Q" if "first_row order p (table s) = None"
    using assms(2) assms(3) [OF that] readyD(2) [OF r] assms(4)
    by (intro succeeds_ask succeeds_attempt succeeds_create) simp_all
  ultimately show ?thesis using assms(2) [OF r]
    by (auto intro!: succeeds_bind simp: found_def split: option.splits)
qed

lemma seed_permissions_succeeds:
  "ready v org user s \<Longrightarrow> succeeds (seed_permissions v ps) s (\<lambda>x. ready v org user)"
proof (induction ps arbitrary: s)
  case (Cons p ps)
  note r = Cons.prems
  show ?case unfolding seed_permissions.simps Let_def FindPermission_def CreatePermission_def
    by (rule found_or_created [OF r Cons.IH])
      (use ready_rows(3) [OF r] fresh_ids(5) [OF readyD(1) [OF r], of "Suc (ia_seq s)"] in
        \<open>auto simp: first_row_None permission_clash_def\<close>)
qed (simp add: succeeds_ok)

lemma seed_roles_succeeds:
  "ready v org user s \<Longrightarrow> succeeds (seed_roles v org rs) s (\<lambda>x. ready v org user)"
proof (induction rs arbitrary: s)
  case (Cons p rs)
  note r = Cons.prems
  obtain code name where p: "p = (code, name)" by fastforce
  have "\<forall>r \<in> set (ia_roles s). ro_OrgID r = org \<longrightarrow> ro_DeletedAt r = None" using r by (simp add: ready_def)
  then show ?case unfolding p seed_roles.simps Let_def FindRole_def CreateRole_row_def
    by (intro found_or_created [OF r Cons.IH])
      (use ready_rows(4) [OF r] fresh_ids(6) [OF readyD(1) [OF r], of "Suc (ia_seq s)"] in
        \<open>auto simp: first_row_None role_clash_def\<close>)
qed (simp add: succeeds_ok)

definition has_product :: "IamEnv \<Rightarrow> bool" where
  "has_product v \<longleftrightarrow> normalizeProductCode (iam_firstNonEmpty [DefaultProductCode (v_cfg v), DefaultProductCode (v_cfg v)]) \<noteq> []"

definition seedable :: "permissionSeed \<Rightarrow> bool" where
  "seedable p \<longleftrightarrow> (case permissionObjectAction (seed_Code p) of (a, b) \<Rightarrow>
     validPermissionScope (normalizePermissionScope (normalizePermissionScope (seed_Scope p))) \<and> \<not> blank a \<and> \<not> blank b)"

lemma builtin_seedable: "list_all seedable builtinPermissions"
  by code_simp

lemma seed_policies_succeeds:
  assumes "has_product v"
  shows "list_all seedable ps \<Longrightarrow> ready v org user s \<Longrightarrow> succeeds (seed_policies v i kind ps) s (\<lambda>x. ready v org user)"
proof (induction ps arbitrary: s)
  case (Cons p ps)
  obtain a b where ab: "permissionObjectAction (seed_Code p) = (a, b)" by fastforce
  let ?scope = "normalizePermissionScope (seed_Scope p)"
  have add: "succeeds (addPolicy v i role (DefaultProductCode (v_cfg v)) scope a b) t (\<lambda>x. ready v org user)"
    if "ready v org user t" "?scope = scope" for role t scope
    using that Cons.prems(1) assms ab by (intro addPolicy_succeeds) (simp_all add: grantable_def has_product_def seedable_def)
  have "succeeds (seed_policies v i kind ps) t (\<lambda>x. ready v org user)" if "ready v org user t" for t
    using Cons.IH that Cons.prems(1) by simp
  then show ?case using Cons.prems(2) ab
    by (auto simp: Let_def intro!: succeeds_then [where P = "\<lambda>x. ready v org user"] add succeeds_ok)
qed (simp add: succeeds_ok)

lemma ensureBuiltins_succeeds:
  assumes "has_product v" and r: "ready v org user s"
  shows "succeeds (ensureBuiltins v org kind) s (\<lambda>x. ready v org user)"
proof -
  have "\<not> blank ''me'' \<and> \<not> blank ''read'' \<and> validPermissionScope (normalizePermissionScope PermissionScopeTenant)" by code_simp
  then have "grantable v PermissionScopeTenant ''me'' ''read''" using assms(1) by (simp add: grantable_def has_product_def)
  then show ?thesis unfolding ensureBuiltins_def
    by (intro succeeds_then [OF seed_permissions_succeeds [OF r]] succeeds_then [OF seed_roles_succeeds]
        succeeds_then [OF seed_policies_succeeds [OF assms(1) builtin_seedable]] addPolicy_succeeds)
qed

section \<open>The rows of the founder\<close>

lemma ensureMembership_succeeds:
  assumes r: "ready v org user s"
  shows "succeeds (ensureMembership v org user) s (\<lambda>x. ready v org user)"
proof -
  let ?m = "\<lparr>mb_ID = v_id v (Suc (ia_seq s)), mb_OrgID = org, mb_UserID = user, mb_Status = StatusActive,
    mb_CreatedAt = v_now v (ia_seq s), mb_UpdatedAt = v_now v (ia_seq s), mb_DeletedAt = None\<rparr>"
  have "active_member org user ?m" by (simp add: active_member_def)
  moreover have "\<forall>m \<in> set (ia_memberships s). \<not> membership_clash ?m m"
    if "first_row mb_ID (active_member org user) (ia_memberships s) = None"
    using that r fresh_ids(3) [OF readyD(1) [OF r], of "Suc (ia_seq s)"]
    by (auto simp: first_row_None membership_clash_def ready_def)
  ultimately show ?thesis using First_runs [OF readyD(2) [OF r], of ia_memberships mb_ID "active_member org user"] r
      ready_rows(5) [OF r, of ?m] readyD(2) [OF r]
    unfolding ensureMembership_def FindMembership_def CreateMembership_def
    by (auto intro!: succeeds_bind [of _ _ "found _"] succeeds_ask succeeds_create succeeds_ok simp: found_def split: option.splits)
qed

definition issuing :: "IamEnv \<Rightarrow> bool" where
  "issuing v \<longleftrightarrow> (\<forall>n d. \<exists>p. v_issue v n d = Inr p) \<and> (\<forall>n w. \<exists>h. v_hash v n w = Inr h)"

lemma createSessionAndTokens_succeeds:
  assumes "issuing v" and r: "ready v org (u_ID u) s"
  shows "succeeds (createSessionAndTokens v u i a b c d) s (\<lambda>x. bounded v)"
proof -
  let ?n = "Suc (ia_seq s)" and ?s = "s\<lparr>ia_seq := Suc (ia_seq s)\<rparr>"
  note b = readyD [OF r]
  have "filter (\<lambda>r. s_UserID r = u_ID u) (ia_sessions s) = []" using r by (auto simp: ready_def filter_empty_conv)
  then have "run_state (revokeActiveSessionsForContext v (u_ID u) i e now) ?s = (Inr (), ?s)" for e now
    using b(2) by (simp add: revokeActiveSessionsForContext_def ListSessionsByUser_def Find_def statement_ok run_attempt)
  then have revoke: "succeeds (if c then revokeActiveSessionsForContext v (u_ID u) i e now else ok ()) ?s (\<lambda>x t. t = ?s)" for c e now
    by (simp add: succeeds_def)
  have create: "succeeds (attempt (CreateSession x) (\<lambda>_. ok pair)) (s\<lparr>ia_seq := Suc (Suc ?n)\<rparr>) (\<lambda>x. bounded v)"
    if "v_issue v n e = Inr p" "s_RefreshTokenHash x = ip_RefreshTokenHash p" "s_ID x = v_id v ?n" "s_UserID x = u_ID u"
    for x pair n e p
  proof -
    have "\<forall>y \<in> set (ia_sessions s). \<not> session_clash x y"
      using r that fresh_ids(9) [OF b(1), of ?n] by (auto simp: ready_def session_clash_def)
    moreover have "u_ID u \<in> all_ids s" using r by (auto simp: ready_def all_ids_def)
    then have "bounded v (s\<lparr>ia_seq := Suc (Suc ?n), ia_sessions := ia_sessions s @ [x]\<rparr>)"
      by (intro bounded_grow [OF b(1)]) (use that b(2) in \<open>auto simp: all_ids_def\<close>)
    ultimately show ?thesis unfolding CreateSession_def
      by (intro succeeds_attempt succeeds_create succeeds_ok) (simp_all add: b(2))
  qed
  obtain p where p: "v_issue v (Suc ?n) \<lparr>ts_UserID = u_ID u, ts_OrgID = i, ts_SessionID = v_id v ?n,
      ts_ProductCode = sc_ProductCode (resolveSessionContext (v_cfg v) c d)\<rparr> = Inr p"
    using assms(1) unfolding issuing_def by blast
  show ?thesis unfolding createSessionAndTokens_def Let_def
    by (intro succeeds_ask succeeds_then [OF revoke]) (auto simp: p intro!: succeeds_ask succeeds_attempt [OF succeeds_answer] create [OF p])
qed

lemma audit_succeeds:
  assumes "bounded v s"
  shows "succeeds (audit v a b c d e f g h i) s (\<lambda>x t. ia_faults t = [])"
  unfolding audit_def Let_def CreateAuditLog_def
  using fresh_ids(11) [OF assms, of "ia_seq s"] assms
  by (intro succeeds_ask succeeds_create) (simp_all add: audit_clash_def bounded_def)

lemma WithTx_succeeds:
  assumes "ia_faults s = []" and "succeeds body s (\<lambda>x t. ia_faults t = [])"
  shows "\<exists>x t. run_state (WithTx body) s = (Inr x, t)"
  using assms by (auto simp: WithTx_def succeeds_def run_attempt statement_ok)

section \<open>Founding\<close>

text \<open>The names are not taken, not even by a deleted row, and no session has a token that is still to come.\<close>

definition names_free :: "string \<Rightarrow> string \<Rightarrow> string \<Rightarrow> Iam \<Rightarrow> bool" where
  "names_free code username email s \<longleftrightarrow> (\<forall>r \<in> set (ia_orgs s). o_Code r \<noteq> code) \<and>
     (\<forall>u \<in> set (ia_users s). u_Username u \<noteq> username \<and> u_Username u \<noteq> email \<and> u_Email u \<noteq> username \<and> u_Email u \<noteq> email)"

definition tokens_new :: "IamEnv \<Rightarrow> Iam \<Rightarrow> bool" where
  "tokens_new v s \<longleftrightarrow> (\<forall>x \<in> set (ia_sessions s). \<forall>n d p. v_issue v n d = Inr p \<longrightarrow> ip_RefreshTokenHash p \<noteq> s_RefreshTokenHash x)"

lemma missing_row:
  assumes "ia_faults s = []" and "\<forall>r \<in> set (table s). \<not> p r"
  shows "run_state (First table order p) s = (Inl iam_ErrNotFound, s)"
  using assms First_runs [OF assms(1), of table order p] first_row_None [of order p "table s"] by (simp add: found_def)

lemma ensureSignupUnique_succeeds:
  assumes "ia_faults s = []" and "names_free (si_OrgCode n) (si_Username n) (si_Email n) s"
  shows "run_state (ensureSignupUnique n) s = (Inr (), s)"
proof -
  have "run_state (FindOrganizationByCode (si_OrgCode n)) s = (Inl iam_ErrNotFound, s)"
    "run_state (FindUserByIdentifier (si_Username n)) s = (Inl iam_ErrNotFound, s)"
    "run_state (FindUserByIdentifier (si_Email n)) s = (Inl iam_ErrNotFound, s)"
    unfolding FindOrganizationByCode_def FindUserByIdentifier_def using assms(2)
    by (auto intro!: missing_row assms(1) simp: names_free_def)
  then show ?thesis by (simp add: ensureSignupUnique_def absent_def run_attempt)
qed

text \<open>After an organization and a user with new identifiers the rest of a founding succeeds.\<close>

lemma founder_ready:
  assumes b: "bounded v s" and "tokens_new v s" and n: "ia_seq s \<le> n" and m: "n < m"
    and o': "o_ID org = v_id v n" and u: "u_ID user = v_id v m"
  shows "ready v (v_id v n) (v_id v m) (s\<lparr>ia_orgs := ia_orgs s @ [org], ia_seq := Suc m, ia_users := ia_users s @ [user]\<rparr>)"
proof -
  have "bounded v (s\<lparr>ia_orgs := ia_orgs s @ [org], ia_seq := Suc m, ia_users := ia_users s @ [user]\<rparr>)"
    using b by (intro bounded_grow [OF b]) (use n m o' u in \<open>auto simp: all_ids_def bounded_def\<close>)
  moreover have "ia_seq s \<le> m" using n m by simp
  ultimately show ?thesis using assms(2) fresh_ids(4,7) [OF b n] fresh_ids(10) [OF b, of m] o' u
    by (auto simp: ready_def tokens_new_def)
qed

lemma founder_succeeds:
  assumes r: "ready v i (u_ID user) s" and "has_product v" "issuing v"
  shows "succeeds (attempt (ensureMembership v i (u_ID user)) (\<lambda>_.
         attempt (ensureBuiltins v i kind) (\<lambda>_.
         attempt (addUserRole v (u_ID user) i role) (\<lambda>_.
         attempt (createSessionAndTokens v user i a b c d) (\<lambda>issued.
         attempt (audit v a1 a2 a3 a4 a5 a6 a7 a8 a9) (\<lambda>_. ok (f issued))))))) s (\<lambda>x t. ia_faults t = [])"
  by (intro succeeds_then [OF ensureMembership_succeeds [OF r]] succeeds_then [OF ensureBuiltins_succeeds [OF assms(2)]]
      succeeds_then [OF addUserRole_succeeds] succeeds_then [OF createSessionAndTokens_succeeds [OF assms(3)]]
      succeeds_then [OF audit_succeeds] succeeds_ok)

lemma signup_tx_succeeds:
  assumes b: "bounded v s" and "tokens_new v s" "has_product v" "issuing v"
    and free: "names_free (si_OrgCode n) (si_Username n) (si_Email n) s"
  shows "succeeds (signup_tx v n) s (\<lambda>x t. ia_faults t = [])"
proof -
  let ?i = "Suc (Suc (ia_seq s))" and ?j = "Suc (Suc (Suc (ia_seq s)))"
  have faults: "ia_faults s = []" using b by (simp add: bounded_def)
  obtain h where h: "v_hash v (ia_seq s) (si_Password n) = Inr h" using assms(4) unfolding issuing_def by blast
  define now where "now = v_now v (Suc (ia_seq s))"
  define org where "org = new_organization (v_id v ?i) (si_OrgCode n) (si_OrgName n) OrgKindTenant StatusActive now"
  define user where "user = new_user (v_id v ?j) (si_Username n) (si_Email n) h (si_DisplayName n) StatusActive now"
  have ids: "o_ID org = v_id v ?i" "u_ID user = v_id v ?j" by (simp_all add: org_def user_def new_organization_def new_user_def)
  have clash: "\<forall>r \<in> set (ia_orgs s). \<not> org_clash org r" "\<forall>r \<in> set (ia_users s). \<not> user_clash user r"
    using free fresh_ids(1) [OF b, of ?i] fresh_ids(2) [OF b, of ?j]
    by (auto simp: names_free_def org_clash_def user_clash_def org_def user_def new_organization_def new_user_def)
  have r: "ready v (v_id v ?i) (u_ID user) (s\<lparr>ia_orgs := ia_orgs s @ [org], ia_seq := Suc ?j, ia_users := ia_users s @ [user]\<rparr>)"
    unfolding ids(2) by (rule founder_ready [OF b assms(2) _ _ ids]) simp_all
  note rest = founder_succeeds [OF r assms(3,4), where f = "\<lambda>x. x"]
  have hash: "run_state (ask (\<lambda>k. v_hash v k (si_Password n))) s = (Inr h, s\<lparr>ia_seq := Suc (ia_seq s)\<rparr>)" by (simp add: h)
  show ?thesis unfolding signup_tx_def Let_def CreateOrganization_row_def CreateUser_def
    by (rule succeeds_known [OF ensureSignupUnique_succeeds [OF faults free]], rule succeeds_known [OF hash], rule succeeds_ask,
        rule succeeds_ask, rule succeeds_attempt, rule succeeds_create, use faults in simp, use clash(1) in \<open>simp add: org_def now_def\<close>,
        rule succeeds_ask, rule succeeds_attempt, rule succeeds_create, use faults in simp,
        use clash(2) in \<open>simp add: user_def now_def\<close>)
      (use rest in \<open>simp add: org_def user_def now_def new_organization_def new_user_def\<close>)
qed

lemma signupDirect_succeeds:
  assumes "bounded v s" "tokens_new v s" "has_product v" "issuing v" "normalizeSignupInput v input = Inr n"
    and "names_free (si_OrgCode n) (si_Username n) (si_Email n) s"
  shows "\<not> isl (fst (run_state (signupDirect v input) s))"
proof -
  have "ia_faults s = []" using assms(1) by (simp add: bounded_def)
  then obtain x t where "run_state (WithTx (signup_tx v n)) s = (Inr x, t)"
    using WithTx_succeeds signup_tx_succeeds [OF assms(1-4,6)] by blast
  then show ?thesis using assms(5) by (simp add: signupDirect_def run_attempt run_ignore)
qed

lemma bootstrap_tx_succeeds:
  assumes b: "bounded v s" and "tokens_new v s" "has_product v" "issuing v" and new: "\<not> inhabited s"
    and free: "names_free (ob_OrgCode n) (ob_Username n) (ob_Email n) s"
    and n: "\<not> ob_AllowExisting n" "ob_RequireEmpty n" "ob_IssueTokens n"
  shows "succeeds (bootstrap_tx v n) s (\<lambda>x t. ia_faults t = [])"
proof -
  let ?i = "Suc (ia_seq s)" and ?h = "Suc (Suc (ia_seq s))" and ?j = "Suc (Suc (Suc (Suc (ia_seq s))))"
  have faults: "ia_faults s = []" using b by (simp add: bounded_def)
  obtain h where h: "v_hash v ?h (ob_Password n) = Inr h" using assms(4) unfolding issuing_def by blast
  define org where "org = new_organization (v_id v ?i) (ob_OrgCode n) (ob_OrgName n) OrgKindPlatform StatusActive (v_now v (ia_seq s))"
  define user where "user = new_user (v_id v ?j) (ob_Username n) (ob_Email n) h (ob_DisplayName n) StatusActive (v_now v (Suc ?h))"
  let ?s = "s\<lparr>ia_orgs := ia_orgs s @ [org], ia_seq := ?h\<rparr>"
    and ?t = "s\<lparr>ia_orgs := ia_orgs s @ [org], ia_seq := Suc ?j, ia_users := ia_users s @ [user]\<rparr>"
  have ids: "o_ID org = v_id v ?i" "u_ID user = v_id v ?j" "o_Kind org = OrgKindPlatform"
    by (simp_all add: org_def user_def new_organization_def new_user_def)
  have "\<forall>r \<in> set (ia_orgs s). \<not> org_clash org r" "\<forall>r \<in> set (ia_users s). \<not> user_clash user r"
    using free fresh_ids(1) [OF b, of ?i] fresh_ids(2) [OF b, of ?j]
    by (auto simp: names_free_def org_clash_def user_clash_def org_def user_def new_organization_def new_user_def)
  then have create: "run_state (CreateOrganization_row org) (s\<lparr>ia_seq := ?h\<rparr>) = (Inr (), ?s)"
      "run_state (CreateUser user) (?s\<lparr>ia_seq := Suc ?j\<rparr>) = (Inr (), ?t)"
    using faults unfolding CreateOrganization_row_def CreateUser_def Create_def by (auto simp: statement_ok)
  have empty: "filter (\<lambda>u. u_DeletedAt u = None) (ia_users s) = []"
    using new by (simp only: inhabited_def filter_empty_conv ball_simps not_not) auto
  have "run_state CountUsers s = (Inr 0, s)" by (simp add: CountUsers_def statement_ok faults empty)
  then have count: "run_state (if ob_RequireEmpty n then attempt CountUsers (\<lambda>n. if n > 0 then throw iam_ErrSetupCompleted else ok ())
      else ok ()) s = (Inr (), s)" using n by (simp add: run_attempt)
  have "run_state (FindOrganizationByCode (ob_OrgCode n)) s = (Inl iam_ErrNotFound, s)"
      "run_state (FindUserByIdentifier (ob_Email n)) ?s = (Inl iam_ErrNotFound, ?s)"
    unfolding FindOrganizationByCode_def FindUserByIdentifier_def using free
    by (auto intro!: missing_row simp: faults names_free_def)
  then have rows: "run_state (bootstrap_org v n) s = (Inr org, ?s)" "run_state (bootstrap_user v n) ?s = (Inr user, ?t)"
    using create h ids(3) unfolding bootstrap_org_def bootstrap_user_def Let_def
    by (simp_all add: run_attempt org_def [symmetric] user_def [symmetric])
  have "ready v (o_ID org) (u_ID user) ?t"
    unfolding ids(1,2) by (rule founder_ready [OF b assms(2) _ _ ids(1,2)]) simp_all
  note rest = founder_succeeds [OF this assms(3,4)]
  show ?thesis unfolding bootstrap_tx_def Let_def
    by (rule succeeds_known [OF count], rule succeeds_known [OF rows(1)], rule succeeds_known [OF rows(2)]) (simp add: n rest)
qed

lemma InitialAdminSetup_succeeds:
  assumes "bounded v s" "tokens_new v s" "has_product v" "issuing v" "normalizeSignupInput v input = Inr n" "\<not> inhabited s"
    and free: "names_free (si_OrgCode n) (si_Username n) (si_Email n) s"
  shows "\<not> isl (fst (run_state (InitialAdminSetup v input) s))"
proof -
  let ?in = "\<lparr>ob_OrgCode = si_OrgCode input, ob_OrgName = si_OrgName input, ob_Username = si_Username input,
         ob_Email = si_Email input, ob_DisplayName = si_DisplayName input, ob_Password = si_Password input,
         ob_UserAgent = si_UserAgent input, ob_IPAddress = si_IPAddress input, ob_ProductCode = si_ProductCode input,
         ob_ClientType = si_ClientType input, ob_AuditAction = ''iam.initial_setup'', ob_AllowExisting = False,
         ob_RequireEmpty = True, ob_ValidatePassword = True, ob_IssueTokens = True\<rparr>"
  let ?b = "normalize_bootstrap ?in"
  have n: "ob_OrgCode ?b = si_OrgCode n" "ob_OrgName ?b = si_OrgName n" "ob_Username ?b = si_Username n" "ob_Email ?b = si_Email n"
      "ob_Password ?b = si_Password n" "si_OrgCode n \<noteq> []" "si_OrgName n \<noteq> []" "si_Username n \<noteq> []" "si_Email n \<noteq> []"
      "si_Password n \<noteq> []" "validatePassword (v_class v) (v_cfg v) (si_Password n) = None"
    using assms(5) by (auto simp: normalize_bootstrap_def normalizeSignupInput_def Let_def split: if_splits option.splits)
  have flags: "\<not> ob_AllowExisting ?b" "ob_RequireEmpty ?b" "ob_IssueTokens ?b" "ob_ValidatePassword ?b" "ob_AuditAction ?b \<noteq> []"
    by (simp_all add: normalize_bootstrap_def Let_def)
  have "ia_faults s = []" using assms(1) by (simp add: bounded_def)
  then obtain x t where "run_state (WithTx (bootstrap_tx v ?b)) s = (Inr x, t)"
    using WithTx_succeeds bootstrap_tx_succeeds [OF assms(1-4,6) _ flags(1-3)] free n by metis
  then have "run_state (bootstrapOwner v ?in) s = (Inr x, t)"
    unfolding bootstrapOwner_def Let_def using n flags(4,5) by (simp add: run_require)
  then show ?thesis unfolding InitialAdminSetup_def by (auto simp: run_attempt run_ignore split: prod.splits)
qed

end
