(* ===== verification/IAM_Properties.thy ===== *)
theory IAM_Properties
  imports IAM_Contexts IAM_Liveness
begin

text \<open>
  The properties of the identity service, each with a run on a small sample installation: an organization with an
  administrator, a session, a pending password reset and the roles \<open>admin\<close> and \<open>viewer\<close>.
\<close>

section \<open>A sample installation\<close>

definition sample_roles :: "AuthorizationRule list \<Rightarrow> string \<Rightarrow> string \<Rightarrow> string list" where
  "sample_roles rules user org = map (\<lambda>r. ar_Values r ! 1)
     (filter (\<lambda>r. ar_PType r = ''g'' \<and> ar_Values r ! 0 = user \<and> ar_Values r ! 2 = org) rules)"

definition sample_config :: IamConfig where
  "sample_config = \<lparr>RegistrationMode = ''direct'', MFAIssuer = ''aoi'', LoginMaxFailures = 2, LoginLockDuration = 900, CaptchaEnabled = False,
     CaptchaTTL = 120, InvitationTTL = 1000, EmailVerificationTTL = 50,
     PasswordResetTTL = 1000, NotificationDriver = ''debug'', PublicBaseURL = [],
     DefaultProductCode = ''platform'', DefaultClientType = ''pc_web'', SingleSessionPerContext = True,
     Policy = \<lparr>MinLength = 4, RequireLower = False, RequireUpper = False, RequireNumber = False, RequireSymbol = False\<rparr>\<rparr>"

definition sample_env :: IamEnv where
  "sample_env = \<lparr>v_cfg = sample_config, v_now = int, v_wall = int, v_id = (\<lambda>n. int n + 100),
     v_id_string = (\<lambda>n. ''900''), v_has_users = True, v_random = (\<lambda>n. Inr ''secret''),
     v_verify = (\<lambda>h p. if h = p then None else Some iam_ErrUnauthorized), v_hash = (\<lambda>n p. Inr p),
     v_issue = (\<lambda>n subject. Inr \<lparr>ip_AccessToken = ''access'', ip_AccessExpiresAt = 100, ip_RefreshToken = ''refresh'',
       ip_RefreshTokenHash = ''new'', ip_RefreshExpiresAt = 1000\<rparr>),
     v_parse = (\<lambda>n raw. Inl iam_ErrInvalidToken), v_token_hash = (\<lambda>raw. raw), v_totp_new = (\<lambda>n issuer account. Inr (''s2'', ''link'')),
     v_totp = (\<lambda>n code secret. code = secret), v_encrypt = (\<lambda>n s. Inr s), v_decrypt = (\<lambda>s. Inr s),
     v_enforce = (\<lambda>rules request. Inr False), v_roles = sample_roles, v_notify = (\<lambda>n notice. None), v_digit = (\<lambda>n. Inr 1),
     v_class = (\<lambda>r. Lower), v_json = (\<lambda>m. []), v_base64 = (\<lambda>s. s)\<rparr>"

definition sample_session :: IamSession where
  "sample_session = \<lparr>s_ID = 7, s_UserID = 1, s_OrgID = 5, s_ProductCode = ''platform'', s_ClientType = ''pc_web'',
     s_RefreshTokenHash = ''old'', s_UserAgent = [], s_IPAddress = [], s_ExpiresAt = 500, s_RevokedAt = None,
     s_LastUsedAt = None, s_CreatedAt = 0, s_UpdatedAt = 0\<rparr>"

definition sample_user :: User where
  "sample_user = \<lparr>u_ID = 1, u_Username = ''ada'', u_Email = ''ada@x'', u_PasswordHash = ''pass'', u_DisplayName = ''Ada'',
     u_Status = StatusActive, u_MFAEnabled = False, u_FailedLoginAttempts = 0, u_LockedUntil = None, u_LastLoginAt = None,
     u_CreatedAt = 0, u_UpdatedAt = 0, u_DeletedAt = None\<rparr>"

definition sample_role :: "int \<Rightarrow> string \<Rightarrow> IamRole" where
  "sample_role i code = \<lparr>ro_ID = i, ro_OrgID = 5, ro_Code = code, ro_Name = code, ro_Description = [], ro_System = False,
     ro_CreatedAt = 0, ro_UpdatedAt = 0, ro_DeletedAt = None\<rparr>"

definition sample_rule :: "int \<Rightarrow> string list \<Rightarrow> CasbinRule" where
  "sample_rule i vs = \<lparr>cb_ID = i, cb_PType = vs ! 0, cb_V0 = vs ! 1, cb_V1 = vs ! 2, cb_V2 = vs ! 3, cb_V3 = vs ! 4,
     cb_V4 = vs ! 5, cb_V5 = vs ! 6, cb_CreatedAt = 0\<rparr>"

definition sample_iam :: Iam where
  "sample_iam = \<lparr>ia_users = [sample_user],
     ia_orgs = [\<lparr>o_ID = 5, o_Code = ''acme'', o_Name = ''Acme'', o_Kind = [], o_Status = StatusActive, o_CreatedAt = 0,
       o_UpdatedAt = 0, o_DeletedAt = None\<rparr>],
     ia_memberships = [\<lparr>mb_ID = 3, mb_OrgID = 5, mb_UserID = 1, mb_Status = StatusActive, mb_CreatedAt = 0, mb_UpdatedAt = 0,
       mb_DeletedAt = None\<rparr>],
     ia_roles = [sample_role 11 ''admin'', sample_role 12 ''viewer''],
     ia_sessions = [sample_session],
     ia_tokens = [],
     ia_invitations = [],
     ia_resets = [\<lparr>pr_ID = 9, pr_UserID = 1, pr_TokenHash = ''reset'', pr_Status = StatusPending, pr_ExpiresAt = 100,
       pr_UsedAt = None, pr_CreatedAt = 0, pr_UpdatedAt = 0\<rparr>],
     ia_factors = [\<lparr>mf_ID = 4, mf_UserID = 1, mf_Type = ''totp'', mf_Secret = ''s1'', mf_Status = StatusActive,
       mf_ConfirmedAt = Some 0, mf_CreatedAt = 0, mf_UpdatedAt = 0\<rparr>],
     ia_audit = [],
     ia_rules = [sample_rule 21 [''g'', ''user:1'', ''role:viewer'', ''5'', [], [], []],
       sample_rule 22 [''p'', ''role:viewer'', ''5'', ''platform'', ''tenant'', ''report'', ''read'']],
     ia_permissions = [], ia_verifications = [],
     ia_policies = [\<lparr>ar_PType = ''g'', ar_Values = [''user:1'', ''role:viewer'', ''5'']\<rparr>],
     ia_captchas = [], ia_driver = ''debug'', ia_publicURL = [], ia_mode = ''direct'', ia_verifyTTL = 50, ia_seq = 0, ia_faults = []\<rparr>"

definition sample_principal :: IamPrincipal where
  "sample_principal = \<lparr>p_UserID = 1, p_OrgID = 5, p_SessionID = 7, p_ProductCode = ''platform'', p_ClientType = ''pc_web'',
     p_Username = ''ada'', p_Email = ''ada@x'', p_RoleCode = []\<rparr>"

definition sample_login :: "string \<Rightarrow> LoginInput" where
  "sample_login password = \<lparr>li_CaptchaCode = [], li_CaptchaID = [], li_Identifier = ''ada'', li_Password = password,
     li_OrgCode = [], li_MFACode = [], li_UserAgent = [], li_IPAddress = [], li_ProductCode = [], li_ClientType = []\<rparr>"

lemma ran: "fst (run_state m s) = Inr x \<Longrightarrow> run_state m s = (Inr x, snd (run_state m s))"
  by (metis prod.collapse)

lemma sample_unique: "tables_unique sample_iam"
  unfolding tables_unique_def unique_rows_def by code_simp

section \<open>Sessions\<close>

text \<open>C5. Logging out is final: once \<open>Logout\<close> has answered without an error, the session is never again the session of
  an authenticated token, a session snapshot or a refresh, whatever is called in between. API tokens have session 0.\<close>

theorem logout_is_final:
  assumes "run_state (Logout v p) s = (Inr (), t)" and "tables_unique s" and "p_SessionID p \<noteq> 0"
  shows "no_answer_for v (p_SessionID p) (iam_run v calls t)"
proof -
  have "session_ids s" using unique_session_keys [OF assms(2)] by (simp add: session_keys_def)
  then show ?thesis using dead_for_good Logout_dead [OF assms(1)] assms(3) by blast
qed

theorem logout_is_final_witness:
  "no_answer_for sample_env 7 (iam_run sample_env [C_Refresh ''old'' [] [], C_Login (sample_login ''pass'')]
     (snd (run_state (Logout sample_env sample_principal) sample_iam)))"
proof -
  have out: "fst (run_state (Logout sample_env sample_principal) sample_iam) = Inr ()" by code_simp
  have p: "p_SessionID sample_principal = 7" by code_simp
  then show ?thesis
    using logout_is_final [OF ran [OF out] sample_unique, of "[C_Refresh ''old'' [] [], C_Login (sample_login ''pass'')]"]
    by (simp only: p)
qed


lemma sample_one_usable: "one_usable sample_env sample_iam"
proof -
  have "resolved sample_config sample_session" unfolding resolved_def by code_simp
  then show ?thesis
    by (simp add: one_usable_def session_ids_def sample_iam_def sample_env_def)
qed




text \<open>A password reset that succeeds was asked for by a pending reset token, and it ends for good every session that
  the user had: none of them is ever again the session of a token, a snapshot or a refresh.\<close>

theorem reset_password_ends_sessions:
  assumes "run_state (ResetPassword v token password ua ip) s = (Inr (), t)" and "tables_unique s"
  shows "\<exists>reset \<in> set (ia_resets s). pr_TokenHash reset = v_token_hash v (TrimSpace token) \<and> pr_Status reset = StatusPending \<and>
    (\<forall>r \<in> set (ia_sessions s). s_UserID r = pr_UserID reset \<longrightarrow> s_ID r \<noteq> 0 \<longrightarrow> no_answer_for v (s_ID r) (iam_run v calls t))"
proof -
  have "session_ids s" using unique_session_keys [OF assms(2)] by (simp add: session_keys_def)
  then show ?thesis using ResetPassword_dead [OF assms(1)] dead_for_good by meson
qed

theorem reset_password_ends_sessions_witness:
  "no_answer_for sample_env 7 (iam_run sample_env [C_Refresh ''old'' [] []]
     (snd (run_state (ResetPassword sample_env ''reset'' ''word'' [] []) sample_iam)))"
proof -
  have "fst (run_state (ResetPassword sample_env ''reset'' ''word'' [] []) sample_iam) = Inr ()" by code_simp
  from reset_password_ends_sessions [OF ran [OF this] sample_unique, of "[C_Refresh ''old'' [] []]"]
  show ?thesis by (simp add: sample_iam_def sample_session_def)
qed

section \<open>Signing in\<close>

text \<open>C23. A login that succeeds is the login of an active user who is not deleted and not locked, whose password was
  verified, whose second factor was verified when one is enabled, and who is an active member of the organization; the
  tokens name a session of that user in that organization, and it is not revoked.\<close>

theorem login_requires_credentials:
  assumes "run_state (Login v input) s = (Inr pair, t)"
  shows "\<exists>u \<in> set (ia_users s). names u (login_identifier input) \<and> u_DeletedAt u = None \<and> (\<exists>n. can_login v n u) \<and>
    v_verify v (u_PasswordHash u) (li_Password input) = None \<and> (u_MFAEnabled u \<longrightarrow> second_factor v s u (li_MFACode input)) \<and>
    (\<exists>m \<in> set (ia_memberships s). active_member (tp_OrgID pair) (u_ID u) m) \<and>
    (\<exists>r \<in> set (ia_sessions t). s_ID r = tp_SessionID pair \<and> s_UserID r = u_ID u \<and> s_OrgID r = tp_OrgID pair \<and> s_RevokedAt r = None)"
  using Login_credentials [OF assms] unfolding credentials_def names_def by blast

theorem login_requires_credentials_witness:
  "\<exists>u \<in> set (ia_users sample_iam). names u ''ada'' \<and> v_verify sample_env (u_PasswordHash u) ''pass'' = None"
proof -
  have "\<not> isl (fst (run_state (Login sample_env (sample_login ''pass'')) sample_iam))" by code_simp
  then obtain pair where "fst (run_state (Login sample_env (sample_login ''pass'')) sample_iam) = Inr pair"
    by (cases "fst (run_state (Login sample_env (sample_login ''pass'')) sample_iam)") auto
  from login_requires_credentials [OF ran [OF this]]
  obtain u where "u \<in> set (ia_users sample_iam)" "names u (login_identifier (sample_login ''pass''))"
      "v_verify sample_env (u_PasswordHash u) (li_Password (sample_login ''pass'')) = None" by blast
  moreover have "login_identifier (sample_login ''pass'') = ''ada''" "li_Password (sample_login ''pass'') = ''pass''" by code_simp+
  ultimately show ?thesis by auto
qed



section \<open>Tables\<close>



section \<open>API tokens\<close>


definition token_iam :: Iam where
  "token_iam = snd (run_state (CreateAPIToken sample_env sample_principal 1 ''viewer'' 30 [] [] []) sample_iam)"

lemma sample_mono: "mono (v_now sample_env)"
  by (simp add: sample_env_def mono_def)


text \<open>C25. A created API token works: the secret that \<open>CreateAPIToken\<close> returns authenticates, right away and until it
  expires, as the user, organization and role it was created for.\<close>

theorem created_api_token_authenticates:
  assumes "run_state (CreateAPIToken v p userID code days remark ua ip) s = (Inr (view, raw), t)"
    and "ia_faults s = []" and "mono (v_now v)" and "TrimSpace raw = raw"
    and "v_parse v (ia_seq t) raw = Inl e" and "not_expired v (Suc (ia_seq t)) (av_token view)"
  shows "\<exists>q. fst (run_state (AuthenticateToken v raw) t) = Inr q \<and> p_UserID q = userID \<and> p_OrgID q = p_OrgID p \<and>
    p_RoleCode q = normalizeCode code"
  using created_token_authenticates [OF assms] by (auto simp: token_principal_def Let_def)

theorem created_api_token_authenticates_witness:
  "\<exists>q. fst (run_state (AuthenticateToken sample_env ''aoi_secret'') token_iam) = Inr q \<and> p_UserID q = 1 \<and> p_RoleCode q = ''viewer''"
proof -
  let ?create = "run_state (CreateAPIToken sample_env sample_principal 1 ''viewer'' 30 [] [] []) sample_iam"
  have "case fst ?create of Inl e \<Rightarrow> False
      | Inr (view, raw) \<Rightarrow> raw = ''aoi_secret'' \<and> not_expired sample_env (Suc (ia_seq (snd ?create))) (av_token view)" by code_simp
  then obtain view where c: "fst ?create = Inr (view, ''aoi_secret'')" "not_expired sample_env (Suc (ia_seq (snd ?create))) (av_token view)"
    by (cases "fst ?create") auto
  have "TrimSpace ''aoi_secret'' = ''aoi_secret''" "normalizeCode ''viewer'' = ''viewer''" by code_simp+
  moreover have "ia_faults sample_iam = []" "v_parse sample_env n x = Inl iam_ErrInvalidToken" for n x
    by (simp_all add: sample_iam_def sample_env_def)
  ultimately show ?thesis using created_api_token_authenticates [OF ran [OF c(1)] _ sample_mono _ _ c(2)]
    unfolding token_iam_def by metis
qed

section \<open>Roles\<close>

text \<open>C13. Updating a role replaces its policies exactly: only a role of the caller's organization that is not a system
  role is updated, and afterwards the policy rules are the former ones without those of the role, with one tenant rule
  for each permission that has an object and an action.\<close>

theorem update_role_replaces_policies:
  assumes "run_state (UpdateRole v p i name description (Some permissions) ua ip) s = (Inr out, t)"
  shows "\<exists>role \<in> set (ia_roles s). ro_ID role = i \<and> ro_OrgID role = p_OrgID p \<and> \<not> ro_System role \<and>
    tuples t = tuples s - role_rules (p_OrgID p) (ro_Code role) \<union>
      wanted_policies (v_cfg v) (p_OrgID p) (ro_Code role) (p_ProductCode p) permissions"
  by (rule UpdateRole_tuples [OF assms])

theorem update_role_replaces_policies_witness:
  "[''p'', ''role:viewer'', ''5'', ''platform'', ''tenant'', ''report'', ''write''] \<in> tuples
     (snd (run_state (UpdateRole sample_env sample_principal 12 [] [] (Some [''report:write'']) [] []) sample_iam))"
proof -
  let ?run = "run_state (UpdateRole sample_env sample_principal 12 [] [] (Some [''report:write'']) [] []) sample_iam"
  have "\<not> isl (fst ?run)" by code_simp
  then obtain out where "fst ?run = Inr out" by (cases "fst ?run") auto
  from update_role_replaces_policies [OF ran [OF this]]
  obtain role where role: "role \<in> set (ia_roles sample_iam)" "ro_ID role = 12"
    "tuples (snd ?run) = tuples sample_iam - role_rules (p_OrgID sample_principal) (ro_Code role) \<union>
      wanted_policies (v_cfg sample_env) (p_OrgID sample_principal) (ro_Code role) (p_ProductCode sample_principal) [''report:write'']"
    by blast
  then have code: "ro_Code role = ''viewer''" by (auto simp: sample_iam_def sample_role_def)
  have "permissionObjectAction ''report:write'' = (''report'', ''write'')"
    "policy_tuple (v_cfg sample_env) (p_OrgID sample_principal) ''viewer'' (p_ProductCode sample_principal) (''report'', ''write'') =
      [''p'', ''role:viewer'', ''5'', ''platform'', ''tenant'', ''report'', ''write'']" by code_simp+
  then show ?thesis unfolding role(3) code wanted_policies_def by force
qed

text \<open>Assigning roles to a user replaces the user's assignments in the organization by exactly the roles given.\<close>

theorem update_user_replaces_roles:
  assumes "run_state (UpdateUser v p user status (Some roles) ua ip) s = (Inr out, t)"
  shows "tuples t = tuples s - user_assignments (p_OrgID p) user \<union> assignment_tuple (p_OrgID p) user ` set roles"
  by (rule UpdateUser_tuples [OF assms])

theorem update_user_replaces_roles_witness:
  "[''g'', ''user:1'', ''role:viewer'', ''5'', [], [], []] \<notin> tuples
     (snd (run_state (UpdateUser sample_env sample_principal 1 None (Some [''admin'']) [] []) sample_iam))"
proof -
  let ?run = "run_state (UpdateUser sample_env sample_principal 1 None (Some [''admin'']) [] []) sample_iam"
  have "\<not> isl (fst ?run)" by code_simp
  then obtain out where "fst ?run = Inr out" by (cases "fst ?run") auto
  note t = update_user_replaces_roles [OF ran [OF this]]
  have "assignment_tuple (p_OrgID sample_principal) 1 ''admin'' = [''g'', ''user:1'', ''role:admin'', ''5'', [], [], []]"
    "userSubject 1 = ''user:1''" "FormatInt (p_OrgID sample_principal) = ''5''" by code_simp+
  then show ?thesis unfolding t by (simp add: user_assignments_def)
qed

text \<open>C38. A role code that begins with \<open>role:\<close> passes for the built-in role of that name: \<open>isBuiltinRoleCode\<close> does not
  see it, so \<open>CreateRole\<close> accepts it and writes its permissions to the policy subject of the built-in role.\<close>

theorem prefixed_role_grants_builtin:
  assumes "run_state (CreateRole v p code name description permissions) s = (Inr out, t)"
    and "builtin \<in> {RolePlatformOwner, RoleOwner, RoleAdmin, RoleMember}" and "normalizeCode code = ''role:'' @ builtin"
    and "permission \<in> set permissions" and "permissionObjectAction permission = (obj, act)" and "obj \<noteq> []"
  shows "policy_tuple (v_cfg v) (p_OrgID p) builtin (p_ProductCode p) (obj, act) \<in> tuples t"
proof -
  have "policy_tuple (v_cfg v) (p_OrgID p) builtin (p_ProductCode p) (obj, act) =
      policy_tuple (v_cfg v) (p_OrgID p) (normalizeCode code) (p_ProductCode p) (obj, act)"
    unfolding policy_tuple_def assms(3) prefixed_subject builtin_subject [OF assms(2)] ..
  moreover have "(obj, act) \<in> {oa \<in> permissionObjectAction ` set permissions. oa \<noteq> ([], [])}"
    using assms(4-6) by (auto intro: rev_image_eqI)
  ultimately show ?thesis unfolding CreateRole_tuples [OF assms(1)] wanted_policies_def by auto
qed

theorem prefixed_role_grants_builtin_witness:
  "policy_tuple sample_config 5 RoleOwner ''platform'' (''*'', ''*'') \<in> tuples
     (snd (run_state (CreateRole sample_env sample_principal ''role:owner'' ''x'' [] [''*:*'']) sample_iam))"
proof -
  let ?run = "run_state (CreateRole sample_env sample_principal ''role:owner'' ''x'' [] [''*:*'']) sample_iam"
  have "\<not> isl (fst ?run)" by code_simp
  then obtain out where "fst ?run = Inr out" by (cases "fst ?run") auto
  moreover have "normalizeCode ''role:owner'' = ''role:'' @ RoleOwner" "permissionObjectAction ''*:*'' = (''*'', ''*'')"
    "p_OrgID sample_principal = 5" "p_ProductCode sample_principal = ''platform''" by code_simp+
  moreover have "v_cfg sample_env = sample_config" by (simp add: sample_env_def)
  ultimately show ?thesis
    using prefixed_role_grants_builtin [OF ran, of sample_env sample_principal "''role:owner''"] by simp
qed

text \<open>Assigning roles is not atomic: when a statement fails after the old assignments were deleted, \<open>UpdateUser\<close>
  answers with the error and the user is left with no role at all.\<close>

theorem role_update_not_atomic:
  "fst (run_state (UpdateUser sample_env sample_principal 1 None (Some [''admin'']) [] [])
       (sample_iam\<lparr>ia_faults := [None, None, None, None, Some (ErrOther ''connection lost'')]\<rparr>)) = Inl (ErrOther ''connection lost'') \<and>
   list_all (\<lambda>r. cb_PType r \<noteq> ''g'') (ia_rules (snd (run_state (UpdateUser sample_env sample_principal 1 None (Some [''admin'']) [] [])
       (sample_iam\<lparr>ia_faults := [None, None, None, None, Some (ErrOther ''connection lost'')]\<rparr>)))) \<and>
   \<not> list_all (\<lambda>r. cb_PType r \<noteq> ''g'') (ia_rules sample_iam)"
  by code_simp

section \<open>Founding\<close>

text \<open>C6. Founding is all or nothing: when the first setup, the administrator bootstrap, a direct signup, the confirmation of
  an email address or the creation of an organization answers with an error, whichever statement, commit or check failed,
  every table has the rows it had before.\<close>

theorem founding_all_or_nothing:
  "all_or_none (InitialAdminSetup v input) s \<and> all_or_none (BootstrapAdmin v c n u e d w) s \<and>
   all_or_none (signupDirect v input) s \<and> all_or_none (ConfirmEmailVerification v token ua ip product client) s \<and>
   all_or_none (CreateOrganization v p c n) s"
proof (intro conjI)
  have boot: "all_or_none (bootstrapOwner v b) s" for b
    unfolding bootstrapOwner_def Let_def by (auto intro!: none_rules)
  show "all_or_none (InitialAdminSetup v input) s" "all_or_none (BootstrapAdmin v c n u e d w) s"
    unfolding InitialAdminSetup_def BootstrapAdmin_def
    by (rule none_then [OF boot], auto simp: run_ignore split: prod.split)+
  show "all_or_none (signupDirect v input) s" unfolding signupDirect_def
    by (auto intro!: none_rules simp: run_ignore split: sum.split)
  show "all_or_none (ConfirmEmailVerification v token ua ip product client) s" "all_or_none (CreateOrganization v p c n) s"
    unfolding ConfirmEmailVerification_def CreateOrganization_def Let_def
    by (auto intro!: none_rules simp: run_ignore)
qed

text \<open>C15. Founding succeeds when nothing stands in its way: with identifiers that grow, no failing statement, a default product,
  working hashes and new tokens, a signup whose input is valid and whose names are in no row, not even a deleted one, is
  answered, and so is the first setup when there are no users.\<close>

theorem founding_succeeds:
  assumes "bounded v s" "tokens_new v s" "has_product v" "issuing v" "normalizeSignupInput v input = Inr n"
    and "names_free (si_OrgCode n) (si_Username n) (si_Email n) s"
  shows "(\<exists>out. fst (run_state (signupDirect v input) s) = Inr out) \<and>
    (if inhabited s then \<exists>e. fst (run_state (InitialAdminSetup v input) s) = Inl e
     else \<exists>pair. fst (run_state (InitialAdminSetup v input) s) = Inr pair)"
proof -
  have "\<exists>out. fst (run_state (signupDirect v input) s) = Inr out"
    using signupDirect_succeeds [OF assms] by (metis isl_def obj_sumE)
  moreover have "\<exists>pair. fst (run_state (InitialAdminSetup v input) s) = Inr pair" if "\<not> inhabited s"
    using InitialAdminSetup_succeeds [OF assms(1-5) that assms(6)] by (metis isl_def obj_sumE)
  moreover have "\<exists>e. fst (run_state (InitialAdminSetup v input) s) = Inl e" if "inhabited s"
    using InitialAdminSetup_once(1) that by (cases "run_state (InitialAdminSetup v input) s") (metis fst_conv obj_sumE)
  ultimately show ?thesis by simp
qed

definition sample_signup :: SignupInput where
  "sample_signup = \<lparr>si_OrgCode = ''Beta'', si_OrgName = ''Beta'', si_Username = ''bob'', si_Email = ''Bob@x'', si_DisplayName = [],
     si_Password = ''word'', si_UserAgent = [], si_IPAddress = [], si_ProductCode = [], si_ClientType = []\<rparr>"

definition normal_signup :: SignupInput where
  "normal_signup = sample_signup\<lparr>si_OrgCode := ''beta'', si_Email := ''bob@x'', si_DisplayName := ''bob''\<rparr>"

definition empty_iam :: Iam where
  "empty_iam = sample_iam\<lparr>ia_users := [], ia_orgs := [], ia_memberships := [], ia_roles := [], ia_sessions := [],
     ia_resets := [], ia_factors := [], ia_rules := [], ia_policies := []\<rparr>"

lemma sample_founding:
  "has_product sample_env" "issuing sample_env" "normalizeSignupInput sample_env sample_signup = Inr normal_signup"
  "bounded sample_env sample_iam" "tokens_new sample_env sample_iam" "names_free ''beta'' ''bob'' ''bob@x'' sample_iam"
  "bounded sample_env empty_iam" "tokens_new sample_env empty_iam" "names_free ''beta'' ''bob'' ''bob@x'' empty_iam"
  "\<not> inhabited empty_iam" "si_OrgCode normal_signup = ''beta''" "si_Username normal_signup = ''bob''" "si_Email normal_signup = ''bob@x''"
proof -
  show "has_product sample_env" "normalizeSignupInput sample_env sample_signup = Inr normal_signup"
    unfolding has_product_def by code_simp+
  show "issuing sample_env" "bounded sample_env sample_iam" "tokens_new sample_env sample_iam" "bounded sample_env empty_iam"
    "tokens_new sample_env empty_iam" "names_free ''beta'' ''bob'' ''bob@x'' sample_iam"
    "names_free ''beta'' ''bob'' ''bob@x'' empty_iam"
    by (simp_all add: issuing_def bounded_def tokens_new_def names_free_def all_ids_def strict_mono_def sample_env_def sample_iam_def
        empty_iam_def sample_user_def sample_session_def sample_role_def sample_rule_def)
  show "\<not> inhabited empty_iam" by (simp add: inhabited_def empty_iam_def)
  show "si_OrgCode normal_signup = ''beta''" "si_Username normal_signup = ''bob''" "si_Email normal_signup = ''bob@x''"
    by (simp_all add: normal_signup_def sample_signup_def)
qed

theorem founding_succeeds_witness:
  "\<exists>out pair. fst (run_state (signupDirect sample_env sample_signup) sample_iam) = Inr out \<and>
     fst (run_state (InitialAdminSetup sample_env sample_signup) empty_iam) = Inr pair"
  using founding_succeeds [OF sample_founding(4,5,1,2,3)] founding_succeeds [OF sample_founding(7,8,1,2,3)] sample_founding
  by simp

text \<open>C14. A direct signup founds a tenant: afterwards there is a new, active organization of kind \<open>tenant\<close> with the code asked
  for, a new, active user with the names asked for and the hash of the password, an active membership and a session
  of that user, and the rules are the former ones with the user's assignment to the owner role and the
  policies of a tenant, all of them of scope \<open>tenant\<close> in the new organization.\<close>

theorem signup_founds_tenant:
  assumes "run_state (signupDirect v input) s = (Inr out, t)"
  shows "\<exists>input'. normalizeSignupInput v input = Inr input' \<and> founded_tenant v input' (sr_Tokens out) s t"
  using signupDirect_founds [OF assms] by blast

theorem signup_founds_tenant_witness:
  "\<exists>input'. founded_tenant sample_env input' (sr_Tokens (projr (fst (run_state (signupDirect sample_env sample_signup) sample_iam))))
     sample_iam (snd (run_state (signupDirect sample_env sample_signup) sample_iam))"
proof -
  let ?run = "run_state (signupDirect sample_env sample_signup) sample_iam"
  have "\<not> isl (fst ?run)"
    using signupDirect_succeeds [OF sample_founding(4,5,1,2,3)] sample_founding by simp
  then have "fst ?run = Inr (projr (fst ?run))" by simp
  from signup_founds_tenant [OF ran [OF this]] show ?thesis by blast
qed

text \<open>C16. An installation is set up once: after an \<open>InitialAdminSetup\<close> that succeeded, it never succeeds again, whatever is
  called in between.\<close>

theorem setup_happens_once:
  assumes "run_state (InitialAdminSetup v input) s = (Inr pair, t)"
  shows "\<exists>e. fst (run_state (InitialAdminSetup w input') (iam_run v calls t)) = Inl e"
proof -
  have "inhabited (iam_run v calls t)"
    using InitialAdminSetup_once(2) [OF assms] lived_run.rel_run [of t v calls] by (simp add: stays_inhabited_def)
  then show ?thesis using InitialAdminSetup_once(1) by (cases "run_state (InitialAdminSetup w input') (iam_run v calls t)")
      (metis fst_conv obj_sumE)
qed

theorem setup_happens_once_witness:
  "isl (fst (run_state (InitialAdminSetup sample_env sample_signup)
     (iam_run sample_env [C_Login (sample_login ''x'')] (snd (run_state (InitialAdminSetup sample_env sample_signup) empty_iam)))))"
proof -
  let ?run = "run_state (InitialAdminSetup sample_env sample_signup) empty_iam"
  have "\<not> isl (fst ?run)"
    using InitialAdminSetup_succeeds [OF sample_founding(7,8,1,2,3,10)] sample_founding by simp
  then have "fst ?run = Inr (projr (fst ?run))" by simp
  from setup_happens_once [OF ran [OF this]] show ?thesis by (metis sum.disc(1))
qed

definition waiting_iam :: Iam where
  "waiting_iam = (snd (run_state (Signup sample_env sample_signup) (sample_iam\<lparr>ia_mode := ''email_verification''\<rparr>)))\<lparr>ia_seq := 500\<rparr>"


end
