(* ===== verification/IAM_Listings.thy ===== *)
theory IAM_Listings
  imports IAM_Lists IAM_Properties
begin

text \<open>
  What the listings of the identity module show: rows of the principal's organization only, every matching row on
  exactly one page and in order, and no page at all for a page number that overflows.
\<close>

section \<open>What the listings show\<close>

text \<open>C17. The listings of members, sessions, invitations, roles, audit logs and API tokens show rows of the principal's
  organization only: members that are not deleted, sessions and logs with their resolved context, tokens without
  their hash. Platform permissions are listed for a platform owner only. No listing changes any data.\<close>

theorem listings_stay_in_organization:
  "listing s (ListUsers v p uf) s
     (all_items (member_of {m \<in> set (ia_memberships s). mb_OrgID m = p_OrgID p \<and> mb_DeletedAt m = None} s)) \<and>
   listing s (ListSessions v p sf) s
     (all_items (\<lambda>x. x \<in> session_view v ` {r \<in> set (ia_sessions s). s_OrgID r = p_OrgID p})) \<and>
   listing s (ListInvitations p) s (all_answers (\<lambda>x. x \<in> set (ia_invitations s) \<and> iv_OrgID x = p_OrgID p)) \<and>
   listing s (ListRoles p) s
     (all_answers (\<lambda>x. fst x \<in> set (ia_roles s) \<and> ro_OrgID (fst x) = p_OrgID p \<and> ro_DeletedAt (fst x) = None)) \<and>
   listing s (ListAuditLogs v p af) s
     (all_answers (\<lambda>x. x \<in> audit_view v ` {a \<in> set (ia_audit s). au_OrgID a = Some (p_OrgID p)})) \<and>
   listing s (ListAPITokens v p tf) s (\<lambda>r. all_items (\<lambda>x. av_token x \<in>
     (\<lambda>t. t\<lparr>at_TokenHash := []\<rparr>) ` {t \<in> set (ia_tokens s). at_OrgID t = p_OrgID p}) (any_page r)) \<and>
   listing s (ListPermissions v p) s (all_answers (\<lambda>x. pm_Scope x = PermissionScopeTenant \<or>
     roleSubject RolePlatformOwner \<in> roleSubject ` set (v_roles v (ia_policies s) (userSubject (p_UserID p)) (FormatInt (p_OrgID p)))))"
  by (intro conjI users_listed sessions_listed rows_listed tokens_listed permissions_listed)

text \<open>C18. The pages of a listing put together are the listing: the first pages of \<open>ListOrganizations\<close>, and of \<open>ListSessions\<close>
  for an organization, hold every matching row exactly once, in the order asked for.\<close>

theorem pages_partition_listing:
  assumes "ia_faults s = []" and "1 \<le> n" "n \<le> 100" and "int k * n < 2 ^ 62"
    and "length (ia_orgs s) \<le> k * nat n" "length (ia_sessions s) \<le> k * nat n"
    and "\<forall>r \<in> set (ia_orgs s). 0 < o_ID r \<and> o_ID r < 2 ^ 63" "\<forall>r \<in> set (ia_sessions s). 0 < s_UserID r \<and> s_UserID r < 2 ^ 63"
    and "normalizeCode (sf_Scope g) = ''org''" "sf_UserID g = 0"
  shows "let orgs = concat (map (\<lambda>i. items_of (fst (run_state (ListOrganizations
        (f\<lparr>of_Page := int (Suc i), of_PageSize := n\<rparr>)) s))) [0..<k]);
      sessions = concat (map (\<lambda>i. items_of (fst (run_state (ListSessions v p
        (g\<lparr>sf_Page := int (Suc i), sf_PageSize := n\<rparr>)) s))) [0..<k])
    in mset orgs = mset (filter (\<lambda>r. o_DeletedAt r = None \<and> organizationMatches r f) (ia_orgs s)) \<and>
       sorted_wrt (in_order (of_Desc f) (org_key (normalizeCode (of_OrderKey f)))) orgs \<and>
       mset sessions = mset (filter (\<lambda>x. sessionMatches x g (v_now v (ia_seq s)))
         (map (session_view v) (filter (\<lambda>r. s_OrgID r = p_OrgID p) (ia_sessions s)))) \<and>
       sorted_wrt (in_order (sf_Desc g) (session_key (normalizeCode (sf_OrderKey g)))) sessions"
proof -
  let ?orgs = "sortOrganizations (filter (\<lambda>r. organizationMatches r f) (sort_key (\<lambda>r. - o_ID r)
      (filter (\<lambda>r. o_DeletedAt r = None) (ia_orgs s)))) f"
  let ?rows = "filter (\<lambda>x. sessionMatches x g (v_now v (ia_seq s))) (map (session_view v) (filter (\<lambda>r. s_OrgID r = p_OrgID p)
      (sort_key (\<lambda>r. - s_CreatedAt r) (filter (\<lambda>r. s_OrgID r = p_OrgID p) (ia_sessions s)))))"
  let ?sessions = "sortSessions ?rows g"
  have org_pages: "fst (run_state (ListOrganizations (f\<lparr>of_Page := i, of_PageSize := n\<rparr>)) s) = Inr (paged i n ?orgs)" for i
    by (simp add: ListOrganizations_def ListOrganizations_rows_def Find_def statement_ok assms(1) run_attempt sortOrganizations_def
        organizationMatches_def)
  have session_pages: "fst (run_state (ListSessions v p (g\<lparr>sf_Page := i, sf_PageSize := n\<rparr>)) s) = Inr (paged i n ?sessions)" for i
    by (simp add: ListSessions_def ListSessionsByOrg_def Find_def statement_ok assms(1,9,10) run_attempt sortSessions_def
        sessionMatches_def Let_def)
  have key_org: "org_key (if k = [] then ''id'' else k) = org_key k" and key_session: "session_key (if k = [] then ''created_at'' else k) = session_key k" for k
    by (auto simp: org_key_def session_key_def fun_eq_iff)
  have orgs: "mset ?orgs = mset (filter (\<lambda>r. o_DeletedAt r = None \<and> organizationMatches r f) (ia_orgs s))"
    by (simp add: sortOrganizations_def Let_def filter_filter_mset conj_commute)
  have sessions: "mset ?sessions = mset (filter (\<lambda>x. sessionMatches x g (v_now v (ia_seq s)))
      (map (session_view v) (filter (\<lambda>r. s_OrgID r = p_OrgID p) (ia_sessions s))))"
    by (simp add: sortSessions_def Let_def filter_filter_mset)
  have "length ?orgs \<le> length (ia_orgs s)" "length ?sessions \<le> length (ia_sessions s)"
    using arg_cong [OF orgs, of size] arg_cong [OF sessions, of size]
      length_filter_le [of "\<lambda>r. o_DeletedAt r = None \<and> organizationMatches r f" "ia_orgs s"]
      length_filter_le [of "\<lambda>r. s_OrgID r = p_OrgID p" "ia_sessions s"]
      length_filter_le [of "\<lambda>x. sessionMatches x g (v_now v (ia_seq s))" "map (session_view v) (filter (\<lambda>r. s_OrgID r = p_OrgID p) (ia_sessions s))"]
    by (simp_all only: size_mset length_map)
  then have pages: "concat (map (\<lambda>i. items_of (Inr (paged (int (Suc i)) n ?orgs))) [0..<k]) = ?orgs"
      "concat (map (\<lambda>i. items_of (Inr (paged (int (Suc i)) n ?sessions))) [0..<k]) = ?sessions"
    using assms(2-6) by (intro paged_concat; linarith)+
  let ?k = "if normalizeCode (of_OrderKey f) = [] then ''id'' else normalizeCode (of_OrderKey f)"
    and ?l = "if normalizeCode (sf_OrderKey g) = [] then ''created_at'' else normalizeCode (sf_OrderKey g)"
  have so: "sorted_wrt (in_order (of_Desc f) (org_key ?k)) ?orgs"
    unfolding sortOrganizations_def Let_def
    by (intro SliceStable_sorted compare_organizations_key) (use assms(7) in simp)
  have ss: "sorted_wrt (in_order (sf_Desc g) (session_key ?l)) ?sessions"
    unfolding sortSessions_def Let_def
    by (intro SliceStable_sorted compare_sessions_key) (use assms(8) in \<open>auto simp: session_view_def Let_def\<close>)
  show ?thesis unfolding Let_def org_pages session_pages pages
    by (intro conjI orgs sessions so [unfolded key_org] ss [unfolded key_session])
qed

definition two_orgs :: Iam where
  "two_orgs = sample_iam\<lparr>ia_orgs := ia_orgs sample_iam @ [\<lparr>o_ID = 6, o_Code = ''abc'', o_Name = ''Abc'', o_Kind = [],
     o_Status = StatusActive, o_CreatedAt = 0, o_UpdatedAt = 0, o_DeletedAt = None\<rparr>]\<rparr>"

definition every_org :: OrganizationListFilter where
  "every_org = \<lparr>of_Keyword = ''A'', of_Code = [], of_Name = [], of_Status = [], of_OrderKey = ''Code'', of_Desc = False, of_Page = 0,
     of_PageSize = 0\<rparr>"

definition org_sessions :: SessionListFilter where
  "org_sessions = \<lparr>sf_Keyword = [], sf_UserID = 0, sf_IPAddress = [], sf_Status = [], sf_Scope = ''org'', sf_ProductCode = [],
     sf_ClientType = [], sf_OrderKey = [], sf_Desc = True, sf_Page = 0, sf_PageSize = 0\<rparr>"

theorem pages_partition_listing_witness:
  "mset (concat (map (\<lambda>i. items_of (fst (run_state (ListOrganizations (every_org\<lparr>of_Page := int (Suc i), of_PageSize := 1\<rparr>))
     two_orgs))) [0..<2])) = mset (ia_orgs two_orgs)"
proof -
  have "filter (\<lambda>r. o_DeletedAt r = None \<and> organizationMatches r every_org) (ia_orgs two_orgs) = ia_orgs two_orgs" by code_simp
  moreover have "ia_faults two_orgs = []" "length (ia_orgs two_orgs) \<le> 2 * nat 1" "length (ia_sessions two_orgs) \<le> 2 * nat 1"
    "\<forall>r \<in> set (ia_orgs two_orgs). 0 < o_ID r \<and> o_ID r < 2 ^ 63"
    "\<forall>r \<in> set (ia_sessions two_orgs). 0 < s_UserID r \<and> s_UserID r < 2 ^ 63"
    by (simp_all add: two_orgs_def sample_iam_def sample_session_def)
  moreover have "normalizeCode (sf_Scope org_sessions) = ''org''" "sf_UserID org_sessions = 0" by code_simp+
  ultimately show ?thesis
    using pages_partition_listing [of two_orgs 1 2 org_sessions every_org sample_env sample_principal] by (simp add: Let_def)
qed



end
